(* ===== verification/Prelude.thy ===== *)
theory Prelude
  imports Complex_Main "HOL-Library.Multiset" "HOL-Library.Char_ord" "HOL-Library.List_Lexorder"
begin

text \<open>
  The shared vocabulary of the development: thrown errors as values, the JavaScript number type,
  untyped JavaScript values (the \<open>unknown\<close> parameters of the validators), the stable array sort,
  association tables, and two interfaces (a comparator, a guarded transition system) whose lemmas
  the component theories obtain by interpretation.
\<close>

named_theorems eval_simps \<open>equations that evaluate the model on closed terms\<close>

section \<open>Errors as values\<close>

text \<open>
  A function of the source that may throw returns \<open>Inl\<close> the thrown error or \<open>Inr\<close> its result.
  The constructors are the error classes of the packages; the argument is the message.
\<close>

datatype exn =
    Err string
  | MakerProtocolError string
  | PrivateIntentError string
  | StorageFailure string

type_synonym 'a result = "exn + 'a"

definition exn_message :: "exn \<Rightarrow> string" where
  "exn_message e = (case e of Err m \<Rightarrow> m | MakerProtocolError m \<Rightarrow> m
     | PrivateIntentError m \<Rightarrow> m | StorageFailure m \<Rightarrow> m)"

definition bind_r :: "'a result \<Rightarrow> ('a \<Rightarrow> 'b result) \<Rightarrow> 'b result" where
  "bind_r x f = (case x of Inl e \<Rightarrow> Inl e | Inr v \<Rightarrow> f v)"

definition is_ok :: "'a result \<Rightarrow> bool" where
  "is_ok x = (case x of Inl _ \<Rightarrow> False | Inr _ \<Rightarrow> True)"

lemma bind_r_Inl [simp]: "bind_r (Inl e) f = Inl e"
  by (simp add: bind_r_def)

lemma bind_r_Inr [simp]: "bind_r (Inr v) f = f v"
  by (simp add: bind_r_def)

lemma bind_r_eq_Inr [simp]:
  "(bind_r x f = Inr y) = (\<exists>v. x = Inr v \<and> f v = Inr y)"
  by (cases x) simp_all

lemma bind_r_eq_Inr_rev [simp]:
  "(Inr y = bind_r x f) = (\<exists>v. x = Inr v \<and> f v = Inr y)"
  by (metis bind_r_eq_Inr)

lemma bind_r_cong [fundef_cong]:
  "x = y \<Longrightarrow> (\<And>v. y = Inr v \<Longrightarrow> f v = g v) \<Longrightarrow> bind_r x f = bind_r y g"
  by (cases y) simp_all

lemma is_ok_Inl [simp]: "\<not> is_ok (Inl e)"
  by (simp add: is_ok_def)

lemma is_ok_Inr [simp]: "is_ok (Inr v)"
  by (simp add: is_ok_def)

lemma is_ok_iff: "is_ok x = (\<exists>v. x = Inr v)"
  by (cases x) simp_all

lemma is_ok_bind [simp]: "is_ok (bind_r x f) = (\<exists>v. x = Inr v \<and> is_ok (f v))"
  by (cases x) simp_all

lemma if_Inl_eq_Inr [simp]: "((if b then Inl e else x) = Inr v) = (\<not> b \<and> x = Inr v)"
  by simp

text \<open>A validator mapped over an array stops at the first element that throws.\<close>

fun map_r :: "('a \<Rightarrow> 'b result) \<Rightarrow> 'a list \<Rightarrow> 'b list result" where
  "map_r f [] = Inr []"
| "map_r f (x # xs) = bind_r (f x) (\<lambda>y. bind_r (map_r f xs) (\<lambda>ys. Inr (y # ys)))"

lemma map_r_cong [fundef_cong]:
  "xs = ys \<Longrightarrow> (\<And>x. x \<in> set ys \<Longrightarrow> f x = g x) \<Longrightarrow> map_r f xs = map_r g ys"
  by (induction xs arbitrary: ys) auto

lemma map_r_eq_Inr:
  "(map_r f xs = Inr ys) = list_all2 (\<lambda>x y. f x = Inr y) xs ys"
proof (induction xs arbitrary: ys)
  case Nil
  then show ?case by auto
next
  case (Cons x xs)
  then show ?case by (cases ys) (auto simp: list_all2_Cons1)
qed

lemma map_r_length: "map_r f xs = Inr ys \<Longrightarrow> length ys = length xs"
  by (auto simp: map_r_eq_Inr dest: list_all2_lengthD)

lemma map_r_mem: "map_r f xs = Inr ys \<Longrightarrow> y \<in> set ys \<Longrightarrow> \<exists>x\<in>set xs. f x = Inr y"
  by (induction xs arbitrary: ys) auto

lemma map_r_total: "(\<And>x. x \<in> set xs \<Longrightarrow> f x = Inr (g x)) \<Longrightarrow> map_r f xs = Inr (map g xs)"
  by (induction xs) auto

lemma map_r_projr:
  "map_r f xs = Inr ys \<longleftrightarrow> (\<forall>x\<in>set xs. is_ok (f x)) \<and> ys = map (\<lambda>x. projr (f x)) xs"
proof (induction xs arbitrary: ys)
  case (Cons x xs)
  then show ?case by (cases "f x") auto
qed auto

section \<open>Numbers\<close>

text \<open>
  A JavaScript number: a finite value, kept as the rational it denotes, or one of the special
  values. \<open>Number.isSafeInteger\<close> is the gate before every arithmetic use of a number in the
  modelled code, so sums and differences are taken on the integers behind it.
\<close>

datatype jsnum = Fin rat | NaN | PosInf | NegInf

definition max_safe :: int where
  "max_safe = 9007199254740991"

definition as_integer :: "jsnum \<Rightarrow> int option" where
  "as_integer v = (case v of Fin r \<Rightarrow> if of_int \<lfloor>r\<rfloor> = r then Some \<lfloor>r\<rfloor> else None | _ \<Rightarrow> None)"

definition as_safe_int :: "jsnum \<Rightarrow> int option" where
  "as_safe_int v = (case as_integer v of
       Some n \<Rightarrow> if \<bar>n\<bar> \<le> max_safe then Some n else None | None \<Rightarrow> None)"

fun num_lt :: "jsnum \<Rightarrow> jsnum \<Rightarrow> bool" where
  "num_lt (Fin x) (Fin y) = (x < y)"
| "num_lt (Fin x) PosInf = True"
| "num_lt NegInf (Fin y) = True"
| "num_lt NegInf PosInf = True"
| "num_lt _ _ = False"

fun num_eq :: "jsnum \<Rightarrow> jsnum \<Rightarrow> bool" where
  "num_eq NaN _ = False"
| "num_eq x y = (x = y)"

definition num_le :: "jsnum \<Rightarrow> jsnum \<Rightarrow> bool" where
  "num_le x y = (num_lt x y \<or> num_eq x y)"

text \<open>A revision plus one, on doubles: it stops growing at \<open>2 ^ 53\<close>.\<close>

definition js_succ :: "int \<Rightarrow> int" where
  "js_succ n = (if n < 2 ^ 53 then n + 1 else n)"

text \<open>
  Sums and minima of numbers. The sums modelled are of integers in the safe range, on which the
  rounding of a double is exact.
\<close>

fun num_add :: "jsnum \<Rightarrow> jsnum \<Rightarrow> jsnum" where
  "num_add (Fin x) (Fin y) = Fin (x + y)"
| "num_add NaN _ = NaN"
| "num_add _ NaN = NaN"
| "num_add PosInf NegInf = NaN"
| "num_add NegInf PosInf = NaN"
| "num_add PosInf _ = PosInf"
| "num_add _ PosInf = PosInf"
| "num_add NegInf _ = NegInf"
| "num_add _ NegInf = NegInf"

definition num_min :: "jsnum \<Rightarrow> jsnum \<Rightarrow> jsnum" where
  "num_min x y = (if x = NaN \<or> y = NaN then NaN else if num_lt y x then y else x)"

abbreviation jint :: "int \<Rightarrow> jsnum" where
  "jint n \<equiv> Fin (of_int n)"

lemma as_integer_jint [simp]: "as_integer (jint n) = Some n"
  by (simp add: as_integer_def)

lemma as_integer_Some: "as_integer v = Some n \<longleftrightarrow> v = jint n"
  by (auto simp: as_integer_def split: jsnum.splits if_splits)

lemma as_safe_int_jint [simp]:
  "as_safe_int (jint n) = (if \<bar>n\<bar> \<le> max_safe then Some n else None)"
  by (simp add: as_safe_int_def)

lemma as_safe_int_Some: "as_safe_int v = Some n \<longleftrightarrow> v = jint n \<and> \<bar>n\<bar> \<le> max_safe"
  by (auto simp: as_safe_int_def as_integer_Some split: option.splits if_splits)

lemma as_safe_int_numeral [simp]:
  "as_safe_int (Fin (numeral k)) = (if numeral k \<le> max_safe then Some (numeral k) else None)"
  using as_safe_int_jint[of "numeral k"] by (simp del: as_safe_int_jint)

lemma as_safe_int_0 [simp]: "as_safe_int (Fin 0) = Some 0"
  using as_safe_int_jint[of 0] by (simp add: max_safe_def del: as_safe_int_jint)

lemma as_safe_int_1 [simp]: "as_safe_int (Fin 1) = Some 1"
  using as_safe_int_jint[of 1] by (simp add: max_safe_def del: as_safe_int_jint)

lemma num_lt_jint [simp]: "num_lt (jint a) (jint b) = (a < b)"
  by simp

lemma num_eq_jint [simp]: "num_eq (jint a) (jint b) = (a = b)"
  by simp

lemma num_eq_Fin: "num_eq v (Fin r) \<longleftrightarrow> v = Fin r"
  by (cases v) auto

lemma num_add_jint [simp]: "num_add (jint a) (jint b) = jint (a + b)"
  by simp

lemma num_min_jint [simp]: "num_min (jint a) (jint b) = jint (min a b)"
  by (simp add: num_min_def)

lemma num_le_jint [simp]: "num_le (jint a) (jint b) = (a \<le> b)"
  by (auto simp: num_le_def)

lemmas [eval_simps] = max_safe_def as_integer_def as_safe_int_def

section \<open>Untyped values\<close>

text \<open>
  The values a parameter of type \<open>unknown\<close> ranges over. An object is the list of its own
  enumerable properties in insertion order; a missing property reads as \<open>undefined\<close>.
\<close>

datatype jsval =
    JUndef
  | JNull
  | JBool bool
  | JNum jsnum
  | JBig int
  | JStr string
  | JArr "jsval list"
  | JObj "(string \<times> jsval) list"

type_synonym fields = "(string \<times> jsval) list"

definition get_field :: "fields \<Rightarrow> string \<Rightarrow> jsval" where
  "get_field kvs k = (case map_of kvs k of None \<Rightarrow> JUndef | Some v \<Rightarrow> v)"

definition has_field :: "fields \<Rightarrow> string \<Rightarrow> bool" where
  "has_field kvs k = (map_of kvs k \<noteq> None)"

definition obj_keys :: "fields \<Rightarrow> string list" where
  "obj_keys kvs = map fst kvs"

lemma has_field_iff: "has_field kvs k = (k \<in> set (obj_keys kvs))"
  by (auto simp: has_field_def obj_keys_def map_of_eq_None_iff)

lemma get_field_Nil [simp]: "get_field [] k = JUndef"
  by (simp add: get_field_def)

lemma get_field_Cons [simp]: "get_field ((a, v) # kvs) k = (if a = k then v else get_field kvs k)"
  by (simp add: get_field_def)

lemma has_field_Nil [simp]: "\<not> has_field [] k"
  by (simp add: has_field_def)

lemma has_field_Cons [simp]: "has_field ((a, v) # kvs) k = (a = k \<or> has_field kvs k)"
  by (simp add: has_field_def)

lemma get_field_append:
  "get_field (a @ b) k = (if has_field a k then get_field a k else get_field b k)"
  by (auto simp: get_field_def has_field_def split: option.splits)

lemma has_field_append [simp]: "has_field (a @ b) k = (has_field a k \<or> has_field b k)"
  by (auto simp: has_field_def)

text \<open>The first key of a list that does not satisfy a test, as \<open>Array.prototype.find\<close> returns it.\<close>

abbreviation find_bad :: "('a \<Rightarrow> bool) \<Rightarrow> 'a list \<Rightarrow> 'a option" where
  "find_bad P xs \<equiv> find (\<lambda>x. \<not> P x) xs"

lemma find_bad_None: "find_bad P xs = None \<longleftrightarrow> list_all P xs"
  by (auto simp: find_None_iff list_all_iff)


section \<open>Sorting with a comparator\<close>

text \<open>
  \<open>Array.prototype.sort\<close> with a comparator is a stable sort; for a consistent comparator every
  stable sort gives the same array, so insertion sort stands for it.
\<close>

type_synonym 'a comparator = "'a \<Rightarrow> 'a \<Rightarrow> int"

fun ins_by :: "'a comparator \<Rightarrow> 'a \<Rightarrow> 'a list \<Rightarrow> 'a list" where
  "ins_by cmp x [] = [x]"
| "ins_by cmp x (y # ys) = (if cmp x y \<le> 0 then x # y # ys else y # ins_by cmp x ys)"

definition sort_by :: "'a comparator \<Rightarrow> 'a list \<Rightarrow> 'a list" where
  "sort_by cmp xs = foldr (ins_by cmp) xs []"

lemma sort_by_Nil [simp]: "sort_by cmp [] = []"
  by (simp add: sort_by_def)

lemma sort_by_Cons [simp]: "sort_by cmp (x # xs) = ins_by cmp x (sort_by cmp xs)"
  by (simp add: sort_by_def)

lemma mset_ins_by [simp]: "mset (ins_by cmp x xs) = add_mset x (mset xs)"
  by (induction xs) auto

lemma mset_sort_by [simp]: "mset (sort_by cmp xs) = mset xs"
  by (induction xs) auto

lemma set_sort_by [simp]: "set (sort_by cmp xs) = set xs"
  by (metis mset_sort_by set_mset_mset)

lemma length_sort_by [simp]: "length (sort_by cmp xs) = length xs"
  by (metis mset_sort_by size_mset)

lemma sort_by_eq_Nil [simp]: "sort_by cmp xs = [] \<longleftrightarrow> xs = []"
  by (metis length_0_conv length_sort_by)

lemma ins_by_cong: "(\<And>y. y \<in> set xs \<Longrightarrow> c x y = d x y) \<Longrightarrow> ins_by c x xs = ins_by d x xs"
  by (induction xs) auto

lemma sort_by_cong:
  "(\<And>x y. x \<in> set xs \<Longrightarrow> y \<in> set xs \<Longrightarrow> c x y = d x y) \<Longrightarrow> sort_by c xs = sort_by d xs"
proof (induction xs)
  case (Cons x xs)
  then show ?case
    using ins_by_cong[of "sort_by c xs" c x d] by simp
qed simp

lemma hd_sort_by_mem: "xs \<noteq> [] \<Longrightarrow> hd (sort_by cmp xs) \<in> set xs"
  by (metis hd_in_set set_sort_by sort_by_eq_Nil)

text \<open>
  The interface between a sort and its comparator: a comparator is a total preorder whose sign
  flips with its arguments.
\<close>

locale comparator_laws =
  fixes cmp :: "'a comparator"
  assumes cmp_flip: "cmp x y < 0 \<longleftrightarrow> 0 < cmp y x"
    and cmp_trans: "cmp x y \<le> 0 \<Longrightarrow> cmp y z \<le> 0 \<Longrightarrow> cmp x z \<le> 0"
begin

lemma cmp_total: "cmp x y \<le> 0 \<or> cmp y x \<le> 0"
  using cmp_flip[of x y] cmp_flip[of y x] by linarith

lemma cmp_refl: "cmp x x = 0"
  using cmp_flip[of x x] by linarith

lemma cmp_zero_sym: "cmp x y = 0 \<longleftrightarrow> cmp y x = 0"
  using cmp_flip[of x y] cmp_flip[of y x] by linarith

lemma sorted_ins_by:
  "sorted_wrt (\<lambda>a b. cmp a b \<le> 0) xs \<Longrightarrow> sorted_wrt (\<lambda>a b. cmp a b \<le> 0) (ins_by cmp x xs)"
proof (induction xs)
  case Nil
  then show ?case by simp
next
  case (Cons y ys)
  have "set (ins_by cmp x ys) = insert x (set ys)"
    by (metis mset_ins_by set_mset_add_mset_insert set_mset_mset)
  then show ?case
    using Cons cmp_total[of x y] cmp_trans[of x y] by auto
qed

lemma sorted_sort_by: "sorted_wrt (\<lambda>a b. cmp a b \<le> 0) (sort_by cmp xs)"
  by (induction xs) (auto intro: sorted_ins_by)

lemma sort_by_head_least:
  assumes "sort_by cmp xs = x # rest" and "y \<in> set xs"
  shows "cmp x y \<le> 0"
proof -
  have "y \<in> set (x # rest)"
    using assms by (metis set_sort_by)
  then show ?thesis
    using sorted_sort_by[of xs] assms(1) cmp_refl[of x] by auto
qed

end

context comparator_laws
begin

lemma sorted_unique_on:
  "sorted_wrt (\<lambda>a b. cmp a b \<le> 0) xs \<Longrightarrow> sorted_wrt (\<lambda>a b. cmp a b \<le> 0) ys \<Longrightarrow>
   mset xs = mset ys \<Longrightarrow> (\<And>x y. x \<in> set xs \<Longrightarrow> y \<in> set xs \<Longrightarrow> cmp x y = 0 \<Longrightarrow> x = y) \<Longrightarrow> xs = ys"
proof (induction xs arbitrary: ys)
  case Nil
  then show ?case by simp
next
  case (Cons x xs)
  then obtain y ys' where ys: "ys = y # ys'"
    by (cases ys) auto
  have "x \<in> set ys" and mem: "y \<in> set (x # xs)"
    using Cons.prems(3) ys by (metis list.set_intros(1) set_mset_mset)+
  then have "cmp x y \<le> 0" "cmp y x \<le> 0"
    using Cons.prems(1,2) ys cmp_refl by auto
  then have "cmp x y = 0"
    using cmp_flip[of x y] by linarith
  then have "x = y"
    using Cons.prems(4) mem by simp
  moreover have "xs = ys'"
    using Cons.prems ys \<open>x = y\<close> by (intro Cons.IH) auto
  ultimately show ?case
    using ys by simp
qed

text \<open>A comparator that separates the elements at hand sorts every permutation to the same array.\<close>

lemma sort_by_perm_on:
  "mset xs = mset ys \<Longrightarrow> (\<And>x y. x \<in> set xs \<Longrightarrow> y \<in> set xs \<Longrightarrow> cmp x y = 0 \<Longrightarrow> x = y) \<Longrightarrow>
   sort_by cmp xs = sort_by cmp ys"
  by (rule sorted_unique_on) (simp_all add: sorted_sort_by)

end

locale strict_comparator = comparator_laws +
  assumes cmp_zero_eq: "cmp x y = 0 \<Longrightarrow> x = y"
begin

lemma sort_by_perm: "mset xs = mset ys \<Longrightarrow> sort_by cmp xs = sort_by cmp ys"
  by (rule sort_by_perm_on) (auto intro: cmp_zero_eq)

end

text \<open>Comparing by a key, comparing by one comparator and then by the next.\<close>

definition cmp_on :: "('a \<Rightarrow> 'b) \<Rightarrow> 'b comparator \<Rightarrow> 'a comparator" where
  "cmp_on f c x y = c (f x) (f y)"

definition cmp_then :: "'a comparator \<Rightarrow> 'a comparator \<Rightarrow> 'a comparator" where
  "cmp_then c d x y = (if c x y \<noteq> 0 then c x y else d x y)"

definition cmp_asc :: "'a::linorder comparator" where
  "cmp_asc x y = (if x < y then - 1 else if y < x then 1 else 0)"

definition cmp_desc :: "'a::linorder comparator" where
  "cmp_desc x y = cmp_asc y x"

lemma comparator_on: "comparator_laws c \<Longrightarrow> comparator_laws (cmp_on f c)"
  unfolding comparator_laws_def cmp_on_def by blast

lemma comparator_then:
  assumes "comparator_laws c" and "comparator_laws d"
  shows "comparator_laws (cmp_then c d)"
proof
  fix x y z
  note c = comparator_laws.cmp_flip[OF assms(1)] comparator_laws.cmp_trans[OF assms(1)]
  note d = comparator_laws.cmp_flip[OF assms(2)] comparator_laws.cmp_trans[OF assms(2)]
  show "cmp_then c d x y < 0 \<longleftrightarrow> 0 < cmp_then c d y x"
    using c(1)[of x y] c(1)[of y x] d(1)[of x y] by (auto simp: cmp_then_def)
  assume xy: "cmp_then c d x y \<le> 0" and yz: "cmp_then c d y z \<le> 0"
  have cxy: "c x y \<le> 0" and cyz: "c y z \<le> 0"
    using xy yz by (auto simp: cmp_then_def split: if_splits)
  then have cxz: "c x z \<le> 0"
    by (rule c(2))
  show "cmp_then c d x z \<le> 0"
  proof (cases "c x z = 0")
    case True
    then have "c z x \<le> 0"
      using c(1)[of x z] c(1)[of z x] by linarith
    then have "c y x \<le> 0" and "c z y \<le> 0"
      using c(2)[of y z x] c(2)[of z x y] cxy cyz by auto
    then have "c x y = 0" and "c y z = 0"
      using cxy cyz c(1)[of x y] c(1)[of y z] by linarith+
    then have "d x y \<le> 0" and "d y z \<le> 0"
      using xy yz by (auto simp: cmp_then_def)
    then show ?thesis
      using True d(2) by (auto simp: cmp_then_def)
  qed (use cxz in \<open>auto simp: cmp_then_def\<close>)
qed

lemma comparator_asc: "comparator_laws (cmp_asc :: 'a::linorder comparator)"
  by unfold_locales (auto simp: cmp_asc_def split: if_splits)

lemma comparator_desc: "comparator_laws (cmp_desc :: 'a::linorder comparator)"
  by unfold_locales (auto simp: cmp_desc_def cmp_asc_def split: if_splits)

lemma cmp_asc_zero [simp]: "cmp_asc x y = 0 \<longleftrightarrow> x = y"
  by (auto simp: cmp_asc_def)

lemma cmp_desc_zero [simp]: "cmp_desc x y = 0 \<longleftrightarrow> x = y"
  by (auto simp: cmp_desc_def)

lemma cmp_desc_le: "cmp_desc x y \<le> 0 \<longleftrightarrow> y \<le> x"
  by (auto simp: cmp_desc_def cmp_asc_def)

interpretation text_order: strict_comparator "cmp_asc :: string comparator"
  using comparator_asc by unfold_locales (auto simp: comparator_laws_def)

section \<open>Tables with a text primary key\<close>

text \<open>
  A table keyed by a text column, kept in primary-key order, so that a query with
  \<open>ORDER BY\<close> the key is the list itself. \<open>tbl_put\<close> is an upsert.
\<close>

type_synonym 'v tbl = "(string \<times> 'v) list"

definition tbl_get :: "'v tbl \<Rightarrow> string \<Rightarrow> 'v option" where
  "tbl_get t k = map_of t k"

fun tbl_put :: "string \<Rightarrow> 'v \<Rightarrow> 'v tbl \<Rightarrow> 'v tbl" where
  "tbl_put k v [] = [(k, v)]"
| "tbl_put k v ((a, w) # t) =
     (if k = a then (k, v) # t
      else if k < a then (k, v) # (a, w) # t
      else (a, w) # tbl_put k v t)"

definition tbl_sorted :: "'v tbl \<Rightarrow> bool" where
  "tbl_sorted t = sorted_wrt (<) (map fst t)"

lemma tbl_get_Nil [simp]: "tbl_get [] k = None"
  by (simp add: tbl_get_def)

lemma tbl_get_put: "tbl_get (tbl_put k v t) k' = (if k' = k then Some v else tbl_get t k')"
  unfolding tbl_get_def by (induction k v t rule: tbl_put.induct) auto

lemma tbl_put_keys: "fst ` set (tbl_put k v t) = insert k (fst ` set t)"
  by (induction k v t rule: tbl_put.induct) auto

lemma tbl_put_sorted: "tbl_sorted t \<Longrightarrow> tbl_sorted (tbl_put k v t)"
proof (induction k v t rule: tbl_put.induct)
  case (1 k v)
  then show ?case by (simp add: tbl_sorted_def)
next
  case (2 k v a w t)
  then show ?case
    using tbl_put_keys[of k v t] by (auto simp: tbl_sorted_def)
qed

lemma tbl_get_mem: "tbl_sorted t \<Longrightarrow> (k, v) \<in> set t \<longleftrightarrow> tbl_get t k = Some v"
proof -
  assume "tbl_sorted t"
  then have "distinct (map fst t)"
    by (simp add: tbl_sorted_def strict_sorted_iff)
  then show ?thesis
    by (auto simp: tbl_get_def)
qed

text \<open>
  What a client relies on: an upsert changes the row of its key and no other. The lemma about
  all rows is how a component carries a row invariant through an upsert.
\<close>

locale keyed_store =
  fixes get :: "'s \<Rightarrow> string \<Rightarrow> 'v option"
    and put :: "string \<Rightarrow> 'v \<Rightarrow> 's \<Rightarrow> 's"
  assumes get_put: "get (put k v s) k' = (if k' = k then Some v else get s k')"
begin

lemma all_rows_put:
  "(\<And>k' v'. get s k' = Some v' \<Longrightarrow> k' \<noteq> k \<Longrightarrow> P k' v') \<Longrightarrow> P k v \<Longrightarrow>
   get (put k v s) k' = Some v' \<Longrightarrow> P k' v'"
  by (auto simp: get_put split: if_splits)

lemma get_put_same [simp]: "get (put k v s) k = Some v"
  by (simp add: get_put)

lemma get_put_other [simp]: "k' \<noteq> k \<Longrightarrow> get (put k v s) k' = get s k'"
  by (simp add: get_put)

end

interpretation tbl: keyed_store tbl_get tbl_put
  by unfold_locales (rule tbl_get_put)

section \<open>Guarded transition systems\<close>

text \<open>
  A component whose operations either throw, leaving its state as it was, or replace the state.
  A run applies a list of commands in order and carries on after a rejected one.
\<close>

fun run_cmds :: "('c \<Rightarrow> 's \<Rightarrow> 's result) \<Rightarrow> 'c list \<Rightarrow> 's \<Rightarrow> 's" where
  "run_cmds step [] s = s"
| "run_cmds step (c # cs) s =
     run_cmds step cs (case step c s of Inl _ \<Rightarrow> s | Inr s' \<Rightarrow> s')"

text \<open>The same component when only some commands are issued.\<close>

definition issued_only :: "('c \<Rightarrow> bool) \<Rightarrow> ('c \<Rightarrow> 's \<Rightarrow> 's result) \<Rightarrow> 'c \<Rightarrow> 's \<Rightarrow> 's result" where
  "issued_only issued step c s = (if issued c then step c s else Inl (Err []))"

lemma issued_only_Inr [simp]: "issued_only issued step c s = Inr s' \<longleftrightarrow> issued c \<and> step c s = Inr s'"
  by (simp add: issued_only_def)

lemma run_issued_only: "list_all issued cs \<Longrightarrow> run_cmds (issued_only issued step) cs s = run_cmds step cs s"
  by (induction cs arbitrary: s) (simp_all add: issued_only_def)

locale guarded_system =
  fixes step :: "'c \<Rightarrow> 's \<Rightarrow> 's result"
    and inv :: "'s \<Rightarrow> bool"
    and le :: "'s \<Rightarrow> 's \<Rightarrow> bool"
  assumes step_inv: "inv s \<Longrightarrow> step c s = Inr s' \<Longrightarrow> inv s'"
    and step_le: "inv s \<Longrightarrow> step c s = Inr s' \<Longrightarrow> le s s'"
    and le_refl: "le s s"
    and le_trans: "le s t \<Longrightarrow> le t u \<Longrightarrow> le s u"
begin

lemma run_inv: "inv s \<Longrightarrow> inv (run_cmds step cs s)"
  by (induction cs arbitrary: s) (auto split: sum.splits dest: step_inv)

lemma run_le: "inv s \<Longrightarrow> le s (run_cmds step cs s)"
proof (induction cs arbitrary: s)
  case Nil
  then show ?case by (simp add: le_refl)
next
  case (Cons c cs)
  then show ?case
    by (auto split: sum.splits dest: step_inv step_le intro: le_trans)
qed

end

end
