(* ===== verification/Js_Text.thy ===== *)
theory Js_Text
  imports Prelude
begin

text \<open>
  JavaScript strings over the code units 0 to 255, the string operations and regular expressions
  the code uses, and the decimal and hexadecimal text of a \<open>bigint\<close>. The lemmas give the round
  trips between a \<open>bigint\<close> and its canonical text.
\<close>

section \<open>Characters\<close>

definition code :: "char \<Rightarrow> nat" where
  "code c = of_char c"

definition is_digit :: "char \<Rightarrow> bool" where
  "is_digit c = (48 \<le> code c \<and> code c \<le> 57)"

definition is_hex_lower :: "char \<Rightarrow> bool" where
  "is_hex_lower c = (is_digit c \<or> 97 \<le> code c \<and> code c \<le> 102)"

definition is_hex :: "char \<Rightarrow> bool" where
  "is_hex c = (is_hex_lower c \<or> 65 \<le> code c \<and> code c \<le> 70)"

definition is_lower_alpha :: "char \<Rightarrow> bool" where
  "is_lower_alpha c = (97 \<le> code c \<and> code c \<le> 122)"

definition is_upper_alpha :: "char \<Rightarrow> bool" where
  "is_upper_alpha c = (65 \<le> code c \<and> code c \<le> 90)"

definition is_alnum :: "char \<Rightarrow> bool" where
  "is_alnum c = (is_digit c \<or> is_lower_alpha c \<or> is_upper_alpha c)"

text \<open>White space and line terminators, as \<open>trim\<close> and \<open>\s\<close> take them.\<close>

definition is_ws :: "char \<Rightarrow> bool" where
  "is_ws c = (9 \<le> code c \<and> code c \<le> 13 \<or> code c = 32 \<or> code c = 160)"

definition lower_char :: "char \<Rightarrow> char" where
  "lower_char c =
     (if is_upper_alpha c \<or> 192 \<le> code c \<and> code c \<le> 222 \<and> code c \<noteq> 215
      then char_of (code c + 32) else c)"

definition trim :: "string \<Rightarrow> string" where
  "trim s = rev (dropWhile is_ws (rev (dropWhile is_ws s)))"

definition to_lower :: "string \<Rightarrow> string" where
  "to_lower s = map lower_char s"

lemma code_char_of: "n < 256 \<Longrightarrow> code (char_of n) = n"
  by (simp add: code_def of_char_of)

lemma code_less: "code c < 256"
  by (metis code_def mod_less_divisor of_char_mod_256 zero_less_numeral)

lemma char_of_code [simp]: "char_of (code c) = c"
  by (simp add: code_def)

lemma code_inject [simp]: "code c = code d \<longleftrightarrow> c = d"
  by (simp add: code_def)

lemma lower_char_hex_lower: "is_hex_lower c \<Longrightarrow> lower_char c = c"
  by (auto simp: lower_char_def is_hex_lower_def is_digit_def is_upper_alpha_def)

lemma to_lower_hex_lower: "list_all is_hex_lower s \<Longrightarrow> to_lower s = s"
  by (induction s) (auto simp: to_lower_def lower_char_hex_lower)

lemma is_hex_lower_not_ws: "is_hex_lower c \<Longrightarrow> \<not> is_ws c"
  by (auto simp: is_hex_lower_def is_digit_def is_ws_def)

lemma to_lower_append [simp]: "to_lower (s @ t) = to_lower s @ to_lower t"
  by (simp add: to_lower_def)

lemma to_lower_length [simp]: "length (to_lower s) = length s"
  by (simp add: to_lower_def)

lemma lower_char_idem [simp]: "lower_char (lower_char c) = lower_char c"
proof (cases "is_upper_alpha c \<or> 192 \<le> code c \<and> code c \<le> 222 \<and> code c \<noteq> 215")
  case True
  let ?d = "char_of (code c + 32) :: char"
  have d: "code ?d = code c + 32"
    using True by (intro code_char_of) (auto simp: is_upper_alpha_def)
  have "\<not> (is_upper_alpha ?d \<or> 192 \<le> code ?d \<and> code ?d \<le> 222 \<and> code ?d \<noteq> 215)"
    using True unfolding is_upper_alpha_def d by auto
  then have "lower_char ?d = ?d"
    by (metis lower_char_def)
  moreover have "lower_char c = ?d"
    using True unfolding lower_char_def by simp
  ultimately show ?thesis by simp
next
  case False
  then have "lower_char c = c"
    by (metis lower_char_def)
  then show ?thesis by simp
qed

lemma to_lower_idem [simp]: "to_lower (to_lower s) = to_lower s"
  by (simp add: to_lower_def)

lemma trim_id: "s = [] \<or> \<not> is_ws (hd s) \<and> \<not> is_ws (last s) \<Longrightarrow> trim s = s"
proof -
  assume a: "s = [] \<or> \<not> is_ws (hd s) \<and> \<not> is_ws (last s)"
  have 1: "dropWhile is_ws s = s"
    using a by (cases s) auto
  have 2: "dropWhile is_ws (rev s) = rev s"
    using a by (cases s rule: rev_cases) auto
  show ?thesis
    by (simp add: trim_def 1 2)
qed

lemma trim_ends: "trim s = [] \<or> \<not> is_ws (hd (trim s)) \<and> \<not> is_ws (last (trim s))"
proof (cases "trim s = []")
  case False
  let ?d = "dropWhile is_ws s"
  let ?e = "dropWhile is_ws (rev ?d)"
  have ne: "?e \<noteq> []"
    using False by (simp add: trim_def)
  have "\<not> is_ws (hd ?e)"
    using ne by (rule hd_dropWhile)
  then have l: "\<not> is_ws (last (trim s))"
    using ne by (simp add: trim_def last_rev)
  have dne: "?d \<noteq> []"
    using ne by (metis dropWhile.simps(1) rev.simps(1))
  obtain pre where "rev ?d = pre @ ?e"
    by (metis takeWhile_dropWhile_id)
  then have "?d = rev ?e @ rev pre"
    by (metis rev_append rev_rev_ident)
  then have "hd ?d = hd (rev ?e)"
    using ne by (metis hd_append2 rev_is_Nil_conv)
  then have "\<not> is_ws (hd (trim s))"
    using hd_dropWhile[OF dne] by (simp add: trim_def)
  with l show ?thesis by simp
qed simp

lemma trim_idem [simp]: "trim (trim s) = trim s"
  by (rule trim_id) (rule trim_ends)

lemma is_ws_lower_char [simp]: "is_ws (lower_char c) = is_ws c"
proof (cases "is_upper_alpha c \<or> 192 \<le> code c \<and> code c \<le> 222 \<and> code c \<noteq> 215")
  case True
  let ?d = "char_of (code c + 32) :: char"
  have d: "code ?d = code c + 32"
    using True by (intro code_char_of) (auto simp: is_upper_alpha_def)
  have "lower_char c = ?d"
    using True unfolding lower_char_def by simp
  moreover have "\<not> is_ws ?d" and "\<not> is_ws c"
    using True unfolding is_ws_def is_upper_alpha_def d by auto
  ultimately show ?thesis by simp
next
  case False
  then have "lower_char c = c"
    by (metis lower_char_def)
  then show ?thesis by simp
qed

lemma trim_to_lower: "trim (to_lower s) = to_lower (trim s)"
proof -
  have d: "dropWhile is_ws (map lower_char t) = map lower_char (dropWhile is_ws t)" for t
    by (induction t) simp_all
  show ?thesis
    by (simp add: trim_def to_lower_def d rev_map)
qed

section \<open>Positional notation\<close>

definition digit_val :: "char \<Rightarrow> nat" where
  "digit_val c = (if is_digit c then code c - 48
     else if 97 \<le> code c then code c - 87 else code c - 55)"

definition digit_char :: "nat \<Rightarrow> char" where
  "digit_char d = (if d < 10 then char_of (48 + d) else char_of (87 + d))"

fun to_base :: "nat \<Rightarrow> nat \<Rightarrow> string" where
  "to_base b n = (if b < 2 \<or> n < b then [digit_char n]
     else to_base b (n div b) @ [digit_char (n mod b)])"

declare to_base.simps [simp del]

definition of_base :: "nat \<Rightarrow> string \<Rightarrow> nat" where
  "of_base b s = foldl (\<lambda>a c. a * b + digit_val c) 0 s"

definition dec :: "nat \<Rightarrow> string" where
  "dec n = to_base 10 n"

definition dec_int :: "int \<Rightarrow> string" where
  "dec_int i = (if i < 0 then CHR ''-'' # dec (nat (- i)) else dec (nat i))"

definition hex :: "nat \<Rightarrow> string" where
  "hex n = to_base 16 n"

text \<open>\<open>/^(0|[1-9][0-9]*)$/\<close>, the canonical decimal text of a non-negative \<open>bigint\<close>.\<close>

definition canonical_dec :: "string \<Rightarrow> bool" where
  "canonical_dec s = (s \<noteq> [] \<and> list_all is_digit s \<and> (hd s \<noteq> CHR ''0'' \<or> s = ''0''))"

text \<open>\<open>/^0x[0-9a-f]{n}$/\<close> and its case-insensitive variant.\<close>

definition hex_digits :: "nat \<Rightarrow> string \<Rightarrow> bool" where
  "hex_digits n s = (take 2 s = ''0x'' \<and> length s = n + 2 \<and> list_all is_hex_lower (drop 2 s))"

definition hex_digits_ci :: "nat \<Rightarrow> string \<Rightarrow> bool" where
  "hex_digits_ci n s = (take 2 s = ''0x'' \<and> length s = n + 2 \<and> list_all is_hex (drop 2 s))"

lemma of_base_Nil [simp]: "of_base b [] = 0"
  by (simp add: of_base_def)

lemma of_base_snoc [simp]: "of_base b (s @ [c]) = of_base b s * b + digit_val c"
  by (simp add: of_base_def)

lemma of_base_single [simp]: "of_base b [c] = digit_val c"
  by (simp add: of_base_def)

lemma digit_val_char: "d < 16 \<Longrightarrow> digit_val (digit_char d) = d"
  by (auto simp: digit_val_def digit_char_def is_digit_def code_char_of)

lemma digit_char_dec: "d < 10 \<Longrightarrow> is_digit (digit_char d)"
  by (simp add: is_digit_def digit_char_def code_char_of)

lemma digit_char_hex: "d < 16 \<Longrightarrow> is_hex_lower (digit_char d)"
  by (auto simp: is_hex_lower_def is_digit_def digit_char_def code_char_of)

lemma digit_char_val: "is_hex_lower c \<Longrightarrow> digit_char (digit_val c) = c"
proof -
  assume h: "is_hex_lower c"
  have "code (digit_char (digit_val c)) = code c"
    using h by (auto simp: is_hex_lower_def is_digit_def digit_val_def digit_char_def code_char_of)
  then show ?thesis by simp
qed

lemma digit_val_dec: "is_digit c \<Longrightarrow> digit_val c < 10"
  by (auto simp: is_digit_def digit_val_def)

lemma digit_val_hex: "is_hex_lower c \<Longrightarrow> digit_val c < 16"
  by (auto simp: is_hex_lower_def is_digit_def digit_val_def)

lemma code_zero: "code CHR ''0'' = 48"
  by (simp add: code_def)

lemma digit_char_zero: "digit_char 0 = CHR ''0''"
  by (rule code_inject[THEN iffD1]) (simp add: digit_char_def code_char_of code_zero)

lemma digit_val_zero: "is_hex_lower c \<Longrightarrow> digit_val c = 0 \<longleftrightarrow> c = CHR ''0''"
  using digit_char_val[of c] by (auto simp: digit_char_zero digit_val_def is_digit_def code_zero)

lemma of_to_base: "2 \<le> b \<Longrightarrow> b \<le> 16 \<Longrightarrow> of_base b (to_base b n) = n"
proof (induction b n rule: to_base.induct)
  case (1 b n)
  show ?case
  proof (cases "n < b")
    case True
    with "1.prems" show ?thesis
      by (simp add: to_base.simps[of b n] digit_val_char)
  next
    case False
    with "1.prems" "1.IH" have "of_base b (to_base b (n div b)) = n div b"
      by auto
    moreover have "n mod b < 16"
      using "1.prems" by (metis less_le_trans mod_less_divisor pos2)
    ultimately show ?thesis
      using False "1.prems" by (simp add: to_base.simps[of b n] digit_val_char)
  qed
qed

lemma to_base_ne [simp]: "to_base b n \<noteq> []"
  by (subst to_base.simps) simp

lemma to_base_digits:
  "2 \<le> b \<Longrightarrow> b \<le> 16 \<Longrightarrow> c \<in> set (to_base b n) \<Longrightarrow> \<exists>d<b. c = digit_char d"
proof (induction b n rule: to_base.induct)
  case (1 b n)
  show ?case
  proof (cases "n < b")
    case True
    with "1.prems" show ?thesis
      by (auto simp: to_base.simps[of b n])
  next
    case False
    have m: "n mod b < b"
      using "1.prems" by simp
    have "c = digit_char (n mod b) \<or> c \<in> set (to_base b (n div b))"
      using False "1.prems" by (auto simp: to_base.simps[of b n])
    then show ?thesis
    proof
      assume "c = digit_char (n mod b)"
      with m show ?thesis by blast
    next
      assume "c \<in> set (to_base b (n div b))"
      with False "1.prems" "1.IH" show ?thesis by auto
    qed
  qed
qed

lemma to_base_hd: "2 \<le> b \<Longrightarrow> b \<le> 16 \<Longrightarrow> 0 < n \<Longrightarrow> hd (to_base b n) \<noteq> CHR ''0''"
proof (induction b n rule: to_base.induct)
  case (1 b n)
  show ?case
  proof (cases "n < b")
    case True
    then have "n < 16"
      using "1.prems" by simp
    then have "digit_char n \<noteq> CHR ''0''"
      using "1.prems"(3) digit_val_char[of n] by (auto simp: digit_val_def is_digit_def code_def)
    with True show ?thesis
      by (simp add: to_base.simps[of b n])
  next
    case False
    then have "0 < n div b"
      using "1.prems" by (simp add: div_greater_zero_iff)
    with False "1.prems" "1.IH" show ?thesis
      by (simp add: to_base.simps[of b n] hd_append)
  qed
qed

lemma to_of_base:
  assumes "2 \<le> b" "b \<le> 16"
    and "s \<noteq> []" "\<forall>c\<in>set s. is_hex_lower c \<and> digit_val c < b"
    and "hd s \<noteq> CHR ''0'' \<or> length s = 1"
  shows "to_base b (of_base b s) = s \<and> (hd s \<noteq> CHR ''0'' \<longrightarrow> 0 < of_base b s)"
  using assms(3-5)
proof (induction s rule: rev_induct)
  case Nil
  then show ?case by simp
next
  case (snoc c s)
  have c: "is_hex_lower c" "digit_val c < b"
    using snoc.prems by auto
  show ?case
  proof (cases "s = []")
    case True
    with c digit_val_zero[of c] show ?thesis
      by (auto simp: to_base.simps[of b "digit_val c"] digit_char_val)
  next
    case False
    then have hd: "hd s \<noteq> CHR ''0''"
      using snoc.prems by auto
    then have IH: "to_base b (of_base b s) = s" "0 < of_base b s"
      using snoc False by auto
    let ?n = "of_base b s * b + digit_val c"
    have "b \<le> ?n"
      using IH(2) by (simp add: trans_le_add1)
    moreover have "?n div b = of_base b s" and "?n mod b = digit_val c"
      using c(2) assms(1) by auto
    moreover have "0 < ?n"
      using calculation(1) assms(1) by linarith
    ultimately show ?thesis
      using assms(1) c hd False IH(1)
      by (simp add: to_base.simps[of b ?n] digit_char_val hd_append)
  qed
qed

text \<open>Decimal and hexadecimal instances.\<close>

lemma of_base_dec [simp]: "of_base 10 (dec n) = n"
  by (simp add: dec_def of_to_base)

lemma of_base_hex [simp]: "of_base 16 (hex n) = n"
  by (simp add: hex_def of_to_base)

lemma dec_inject [simp]: "dec m = dec n \<longleftrightarrow> m = n"
  by (metis of_base_dec)

lemma hex_inject [simp]: "hex m = hex n \<longleftrightarrow> m = n"
  by (metis of_base_hex)

lemma dec_ne [simp]: "dec n \<noteq> []" and hex_ne [simp]: "hex n \<noteq> []"
  by (simp_all add: dec_def hex_def)

lemma dec_digits: "list_all is_digit (dec n)"
  using to_base_digits[of 10] by (force simp: dec_def list_all_iff digit_char_dec)

lemma hex_digits_lower: "list_all is_hex_lower (hex n)"
  using to_base_digits[of 16] by (force simp: hex_def list_all_iff digit_char_hex)

lemma is_digit_hex_lower: "is_digit c \<Longrightarrow> is_hex_lower c"
  by (simp add: is_hex_lower_def)

lemma canonical_dec_dec: "canonical_dec (dec n)"
proof (cases "n = 0")
  case True
  then have "dec n = ''0''"
    by (simp add: dec_def to_base.simps digit_char_zero)
  then show ?thesis
    by (simp add: canonical_dec_def is_digit_def code_def)
next
  case False
  then show ?thesis
    using to_base_hd[of 10 n] dec_digits[of n] by (simp add: canonical_dec_def dec_def)
qed

lemma dec_of_canonical: "canonical_dec s \<Longrightarrow> dec (of_base 10 s) = s"
proof -
  assume s: "canonical_dec s"
  have "to_base 10 (of_base 10 s) = s \<and> (hd s \<noteq> CHR ''0'' \<longrightarrow> 0 < of_base 10 s)"
    using s by (intro to_of_base)
      (auto simp: canonical_dec_def list_all_iff is_digit_hex_lower digit_val_dec)
  then show ?thesis by (simp add: dec_def)
qed

lemma hex_of_base:
  "s \<noteq> [] \<Longrightarrow> list_all is_hex_lower s \<Longrightarrow> hd s \<noteq> CHR ''0'' \<Longrightarrow> hex (of_base 16 s) = s"
  using to_of_base[of 16 s] by (simp add: hex_def list_all_iff digit_val_hex)

lemma to_base_length: "2 \<le> b \<Longrightarrow> n < b ^ k \<Longrightarrow> 0 < k \<Longrightarrow> length (to_base b n) \<le> k"
proof (induction k arbitrary: n)
  case 0
  then show ?case by simp
next
  case (Suc k)
  show ?case
  proof (cases "n < b")
    case True
    with Suc.prems show ?thesis by (simp add: to_base.simps[of b n])
  next
    case False
    then have "0 < k"
      using Suc.prems(2) by (cases k) auto
    moreover have "n div b < b ^ k"
      using Suc.prems(1,2) by (simp add: less_mult_imp_div_less mult.commute)
    ultimately show ?thesis
      using Suc False by (simp add: to_base.simps[of b n])
  qed
qed


section \<open>Evaluating closed texts\<close>

lemma digit_char_eval [eval_simps]:
  "digit_char 0 = CHR ''0''" "digit_char 1 = CHR ''1''" "digit_char (Suc 0) = CHR ''1''"
  "digit_char 2 = CHR ''2''" "digit_char 3 = CHR ''3''" "digit_char 4 = CHR ''4''"
  "digit_char 5 = CHR ''5''" "digit_char 6 = CHR ''6''" "digit_char 7 = CHR ''7''"
  "digit_char 8 = CHR ''8''" "digit_char 9 = CHR ''9''" "digit_char 10 = CHR ''a''"
  "digit_char 11 = CHR ''b''" "digit_char 12 = CHR ''c''" "digit_char 13 = CHR ''d''"
  "digit_char 14 = CHR ''e''" "digit_char 15 = CHR ''f''"
  by (rule code_inject[THEN iffD1], simp add: digit_char_def code_char_of code_def)+

lemma to_base_eval [eval_simps]:
  "to_base b (numeral k) = (if b < 2 \<or> numeral k < b then [digit_char (numeral k)]
     else to_base b (numeral k div b) @ [digit_char (numeral k mod b)])"
  "to_base b 0 = (if b < 2 \<or> 0 < b then [digit_char 0]
     else to_base b (0 div b) @ [digit_char (0 mod b)])"
  "to_base b (Suc 0) = (if b < 2 \<or> 1 < b then [digit_char 1]
     else to_base b (1 div b) @ [digit_char (1 mod b)])"
  by (subst to_base.simps, simp)+

lemma replicate_eval [eval_simps]:
  "replicate (numeral k) x = x # replicate (pred_numeral k) x"
  by (simp add: numeral_eq_Suc)

lemmas [eval_simps] = Let_def code_def is_digit_def is_hex_lower_def is_hex_def is_lower_alpha_def
  is_upper_alpha_def is_alnum_def is_ws_def trim_def to_lower_def lower_char_def digit_val_def
  of_base_def dec_def dec_int_def hex_def canonical_dec_def hex_digits_def
  hex_digits_ci_def char_of_def bit_Suc_0_iff

end
