(* ===== verification/Json.thy ===== *)
theory Json
  imports Js_Text
begin

text \<open>
  The JSON text the packages sign and hash. \<open>json\<close> holds the values \<open>JSON.stringify\<close> and the
  \<open>canonicalJson\<close> functions serialise; the main lemma is that the text determines the value,
  which is what makes a digest of the text bind every field.
\<close>

datatype json =
    Jnull
  | Jbool bool
  | Jint int
  | Jstr string
  | Jarr "json list"
  | Jobj "(string \<times> json) list"

section \<open>Printing\<close>

text \<open>\<open>JSON.stringify\<close> of a string: quotes, backslashes and control characters are escaped.\<close>

definition esc_char :: "char \<Rightarrow> string" where
  "esc_char c =
     (if code c = 34 then [CHR 0x5C, CHR 0x22]
      else if code c = 92 then [CHR 0x5C, CHR 0x5C]
      else if code c = 8 then [CHR 0x5C, CHR ''b'']
      else if code c = 9 then [CHR 0x5C, CHR ''t'']
      else if code c = 10 then [CHR 0x5C, CHR ''n'']
      else if code c = 12 then [CHR 0x5C, CHR ''f'']
      else if code c = 13 then [CHR 0x5C, CHR ''r'']
      else if code c < 32 then
        [CHR 0x5C, CHR ''u'', CHR ''0'', CHR ''0'',
         digit_char (code c div 16), digit_char (code c mod 16)]
      else [c])"

definition json_quote :: "string \<Rightarrow> string" where
  "json_quote s = CHR 0x22 # concat (map esc_char s) @ [CHR 0x22]"

fun json_text :: "json \<Rightarrow> string"
  and json_items :: "json list \<Rightarrow> string"
  and json_fields :: "(string \<times> json) list \<Rightarrow> string" where
  "json_text Jnull = ''null''"
| "json_text (Jbool b) = (if b then ''true'' else ''false'')"
| "json_text (Jint n) = dec_int n"
| "json_text (Jstr s) = json_quote s"
| "json_text (Jarr vs) = CHR ''['' # json_items vs @ '']''"
| "json_text (Jobj kvs) = CHR ''{'' # json_fields kvs @ ''}''"
| "json_items [] = ''''"
| "json_items (v # vs) = json_text v @ (case vs of [] \<Rightarrow> '''' | _ \<Rightarrow> CHR '','' # json_items vs)"
| "json_fields [] = ''''"
| "json_fields ((k, v) # kvs) = json_quote k @ CHR '':'' # json_text v @
     (case kvs of [] \<Rightarrow> '''' | _ \<Rightarrow> CHR '','' # json_fields kvs)"

section \<open>The text determines the value\<close>

definition delimited :: "string \<Rightarrow> bool" where
  "delimited r = (r = [] \<or> \<not> is_digit (hd r))"

text \<open>Reading one escaped character back; \<open>esc_char\<close> is a prefix code because this inverts it.\<close>

fun unesc :: "string \<Rightarrow> (nat \<times> string) option" where
  "unesc [] = None"
| "unesc (c # x) =
     (if code c \<noteq> 92 then Some (code c, x)
      else (case x of [] \<Rightarrow> None | d # y \<Rightarrow>
        (if d = CHR ''b'' then Some (8, y) else if d = CHR ''t'' then Some (9, y)
         else if d = CHR ''n'' then Some (10, y) else if d = CHR ''f'' then Some (12, y)
         else if d = CHR ''r'' then Some (13, y)
         else if d = CHR ''u'' then Some (16 * digit_val (y ! 2) + digit_val (y ! 3), drop 4 y)
         else Some (code d, y))))"

lemma code_escapes:
  "code CHR 0x5C = 92" "code CHR 0x22 = 34"
  by (simp_all add: code_def)

lemma code_letters:
  "code CHR ''b'' = 98" "code CHR ''t'' = 116" "code CHR ''n'' = 110" "code CHR ''f'' = 102"
  "code CHR ''r'' = 114" "code CHR ''u'' = 117"
  by (simp_all add: code_def)

lemma unesc_esc: "unesc (esc_char c @ x) = Some (code c, x)"
proof -
  consider "code c = 34" | "code c = 92" | "code c = 8" | "code c = 9" | "code c = 10"
    | "code c = 12" | "code c = 13"
    | "code c < 32" "code c \<noteq> 8" "code c \<noteq> 9" "code c \<noteq> 10" "code c \<noteq> 12" "code c \<noteq> 13"
    | "32 \<le> code c" "code c \<noteq> 34" "code c \<noteq> 92"
    by linarith
  then show ?thesis
  proof cases
    case 8
    then have "digit_val (digit_char (code c div 16)) = code c div 16"
      "digit_val (digit_char (code c mod 16)) = code c mod 16"
      by (auto intro!: digit_val_char)
    with 8 show ?thesis
      by (simp add: esc_char_def code_escapes mult_div_mod_eq)
  qed (simp_all add: esc_char_def code_escapes)
qed

lemma esc_prefix: "esc_char c @ x = esc_char d @ y \<Longrightarrow> c = d \<and> x = y"
  by (metis unesc_esc option.inject prod.inject code_inject)

lemma esc_not_quote: "esc_char c @ x \<noteq> CHR 0x22 # y"
proof
  assume e: "esc_char c @ x = CHR 0x22 # y"
  note q = code_escapes(2)
  from e have "unesc (CHR 0x22 # y) = Some (code c, x)"
    using unesc_esc[of c x] by simp
  then have "code c = 34"
    by (simp add: q)
  then have "hd (esc_char c @ x) = CHR 0x5C"
    by (simp add: esc_char_def)
  with e show False by simp
qed

lemma esc_string_prefix:
  "concat (map esc_char s) @ CHR 0x22 # x = concat (map esc_char t) @ CHR 0x22 # y \<Longrightarrow> s = t \<and> x = y"
proof (induction s arbitrary: t)
  case Nil
  then show ?case
    using esc_not_quote by (cases t) (auto dest: sym)
next
  case (Cons c s)
  show ?case
  proof (cases t)
    case Nil
    with Cons.prems show ?thesis
      using esc_not_quote[of c] by simp
  next
    case (Cons d t')
    with Cons.prems have "esc_char c @ (concat (map esc_char s) @ CHR 0x22 # x) =
        esc_char d @ (concat (map esc_char t') @ CHR 0x22 # y)"
      by simp
    from esc_prefix[OF this] Cons.IH Cons show ?thesis by auto
  qed
qed

lemma json_quote_prefix: "json_quote s @ x = json_quote t @ y \<Longrightarrow> s = t \<and> x = y"
  using esc_string_prefix[of s x t y] by (simp add: json_quote_def)

lemma json_quote_inject: "json_quote s = json_quote t \<Longrightarrow> s = t"
  using json_quote_prefix[of s "[]" t "[]"] by simp

lemma digits_prefix:
  "list_all is_digit s \<Longrightarrow> list_all is_digit t \<Longrightarrow> delimited x \<Longrightarrow> delimited y \<Longrightarrow>
   s @ x = t @ y \<Longrightarrow> s = t \<and> x = y"
proof (induction s arbitrary: t)
  case Nil
  then show ?case by (cases t) (auto simp: delimited_def)
next
  case (Cons c s)
  then show ?case by (cases t) (auto simp: delimited_def)
qed

lemma dec_prefix: "delimited x \<Longrightarrow> delimited y \<Longrightarrow> dec m @ x = dec n @ y \<Longrightarrow> m = n \<and> x = y"
  using digits_prefix[OF dec_digits dec_digits] by (metis dec_inject)

lemma not_digit_punct [simp]:
  "\<not> is_digit CHR ''-''" "\<not> is_digit CHR '',''" "\<not> is_digit CHR '']''" "\<not> is_digit CHR ''}''"
  "\<not> is_digit CHR ''n''" "\<not> is_digit CHR ''t''" "\<not> is_digit CHR ''f''" "\<not> is_digit CHR ''[''"
  "\<not> is_digit CHR ''{''" "\<not> is_digit CHR 0x22"
  by (simp_all add: is_digit_def code_def)

lemma dec_Cons: "dec n = c # r \<Longrightarrow> is_digit c"
  using dec_digits[of n] by simp

lemma dec_not_minus: "dec k @ u \<noteq> CHR ''-'' # v"
  by (cases "dec k") (use dec_Cons[of k] in auto)

lemma dec_int_prefix:
  assumes "delimited x" "delimited y" "dec_int m @ x = dec_int n @ y"
  shows "m = n \<and> x = y"
proof (cases "m < 0"; cases "n < 0")
  assume "m < 0" "n < 0"
  with assms(3) have "dec (nat (- m)) @ x = dec (nat (- n)) @ y"
    by (simp add: dec_int_def)
  from dec_prefix[OF assms(1,2) this] \<open>m < 0\<close> \<open>n < 0\<close> show ?thesis by auto
next
  assume "\<not> m < 0" "\<not> n < 0"
  with assms(3) have "dec (nat m) @ x = dec (nat n) @ y"
    by (simp add: dec_int_def)
  from dec_prefix[OF assms(1,2) this] \<open>\<not> m < 0\<close> \<open>\<not> n < 0\<close> show ?thesis by auto
next
  assume "m < 0" "\<not> n < 0"
  with assms(3) dec_not_minus[of "nat n" y] show ?thesis
    by (simp add: dec_int_def) metis
next
  assume "\<not> m < 0" "n < 0"
  with assms(3) dec_not_minus[of "nat m" x] show ?thesis
    by (simp add: dec_int_def)
qed

text \<open>What the first character says about the value.\<close>

lemma dec_int_inject [simp]: "dec_int m = dec_int n \<longleftrightarrow> m = n"
  using dec_int_prefix[of "[]" "[]" m n] by (auto simp: delimited_def)

lemma dec_int_head: "dec_int n = c # r \<Longrightarrow> is_digit c \<or> c = CHR ''-''"
  using dec_Cons by (auto simp: dec_int_def split: if_splits)

lemma json_text_ne [simp]: "json_text v \<noteq> []"
  by (cases v) (auto simp: json_quote_def dec_int_def)

fun json_kind :: "json \<Rightarrow> nat" where
  "json_kind Jnull = 0"
| "json_kind (Jbool b) = (if b then 1 else 2)"
| "json_kind (Jint n) = 3"
| "json_kind (Jstr s) = 4"
| "json_kind (Jarr vs) = 5"
| "json_kind (Jobj kvs) = 6"

definition head_kind :: "char \<Rightarrow> nat" where
  "head_kind c = (if c = CHR ''n'' then 0 else if c = CHR ''t'' then 1 else if c = CHR ''f'' then 2
     else if c = CHR 0x22 then 4 else if c = CHR ''['' then 5 else if c = CHR ''{'' then 6
     else if is_digit c \<or> c = CHR ''-'' then 3 else 7)"

lemma head_kind_digit: "is_digit c \<Longrightarrow> head_kind c = 3"
  using not_digit_punct by (auto simp: head_kind_def)

lemma json_text_kind: "json_text v @ x = c # y \<Longrightarrow> head_kind c = json_kind v"
proof (cases v)
  case (Jint n)
  assume "json_text v @ x = c # y"
  then obtain r where "dec_int n = c # r"
    using Jint json_text_ne[of v] by (cases "dec_int n") auto
  from dec_int_head[OF this] show ?thesis
    using Jint head_kind_digit by (auto simp: head_kind_def)
qed (auto simp: head_kind_def json_quote_def split: if_splits)

lemma json_text_not_close: "json_text v @ x \<noteq> CHR '']'' # y"
proof
  assume "json_text v @ x = CHR '']'' # y"
  from json_text_kind[OF this] show False
    by (cases v) (auto simp: head_kind_def split: if_splits)
qed

lemma json_kinds_agree: "json_text v @ x = json_text w @ y \<Longrightarrow> json_kind v = json_kind w"
proof -
  assume e: "json_text v @ x = json_text w @ y"
  obtain c r where "json_text v @ x = c # r"
    using json_text_ne[of v] by (cases "json_text v") auto
  with e json_text_kind[of v x c r] json_text_kind[of w y c r] show ?thesis by simp
qed

lemma json_text_prefix_all:
  "delimited x \<Longrightarrow> delimited y \<Longrightarrow> json_text v @ x = json_text w @ y \<Longrightarrow> v = w \<and> x = y"
  "json_items vs @ CHR '']'' # x = json_items ws @ CHR '']'' # y \<Longrightarrow> vs = ws \<and> x = y"
  "json_fields kvs @ CHR ''}'' # x = json_fields lws @ CHR ''}'' # y \<Longrightarrow> kvs = lws \<and> x = y"
proof (induction v and vs and kvs arbitrary: w x y and ws x y and lws x y
    rule: json_text_json_items_json_fields.induct)
  case 1
  then show ?case
    using json_kinds_agree[OF 1(3)] by (cases w) (auto split: if_splits)
next
  case (2 b)
  then show ?case
    using json_kinds_agree[OF 2(3)] by (cases w) (auto split: if_splits)
next
  case (3 n)
  then show ?case
    using json_kinds_agree[OF 3(3)] dec_int_prefix[of x y n]
    by (cases w) (auto split: if_splits)
next
  case (4 s)
  then show ?case
    using json_kinds_agree[OF 4(3)] json_quote_prefix[of s x]
    by (cases w) (auto split: if_splits)
next
  case (5 vs)
  have k: "json_kind w = 5"
    using json_kinds_agree[OF 5(4)] by simp
  then obtain ws where w: "w = Jarr ws"
    by (cases w) (auto split: if_splits)
  have "vs = ws \<and> x = y"
    by (rule 5(1)) (use 5(4) w in simp)
  with w show ?case by simp
next
  case (6 kvs)
  have k: "json_kind w = 6"
    using json_kinds_agree[OF 6(4)] by simp
  then obtain lws where w: "w = Jobj lws"
    by (cases w) (auto split: if_splits)
  have "kvs = lws \<and> x = y"
    by (rule 6(1)) (use 6(4) w in simp)
  with w show ?case by simp
next
  case 7
  then show ?case
    using json_text_not_close by (cases ws) (auto dest: sym)
next
  case (8 v vs)
  show ?case
  proof (cases ws)
    case Nil
    with 8(3) show ?thesis
      using json_text_not_close[of v] by simp
  next
    case (Cons w ws')
    let ?tail = "\<lambda>us z. (case us of [] \<Rightarrow> '''' | _ \<Rightarrow> CHR '','' # json_items us) @ CHR '']'' # z"
    have d: "delimited (?tail us z)" for us z
      by (cases us) (auto simp: delimited_def)
    have "json_text v @ ?tail vs x = json_text w @ ?tail ws' y"
      using 8(3) Cons by simp
    from 8(1)[OF d d this] have vw: "v = w" and t: "?tail vs x = ?tail ws' y"
      by auto
    have "vs = ws' \<and> x = y"
    proof (cases vs)
      case Nil
      with t show ?thesis by (cases ws') auto
    next
      case (Cons u us)
      with t obtain u' us' where ws': "ws' = u' # us'"
        by (cases ws') auto
      show ?thesis
        by (rule 8(2)) (use t Cons ws' in simp_all)
    qed
    with vw Cons show ?thesis by simp
  qed
next
  case 9
  then show ?case
    by (cases lws) (auto simp: json_quote_def)
next
  case (10 k v kvs)
  show ?case
  proof (cases lws)
    case Nil
    with 10(3) show ?thesis by (simp add: json_quote_def)
  next
    case (Cons lw lws')
    obtain l w where lw: "lw = (l, w)"
      by (cases lw)
    let ?tail = "\<lambda>us z. (case us of [] \<Rightarrow> '''' | _ \<Rightarrow> CHR '','' # json_fields us) @ CHR ''}'' # z"
    have d: "delimited (?tail us z)" for us z
      by (cases us) (auto simp: delimited_def)
    have "json_quote k @ CHR '':'' # json_text v @ ?tail kvs x =
        json_quote l @ CHR '':'' # json_text w @ ?tail lws' y"
      using 10(3) Cons lw by simp
    from json_quote_prefix[OF this] have kl: "k = l"
      and vw: "json_text v @ ?tail kvs x = json_text w @ ?tail lws' y"
      by auto
    from 10(1)[OF d d vw] have v: "v = w" and t: "?tail kvs x = ?tail lws' y"
      by auto
    have "kvs = lws' \<and> x = y"
    proof (cases kvs)
      case Nil
      with t show ?thesis by (cases lws') auto
    next
      case (Cons u us)
      with t obtain u' us' where lws': "lws' = u' # us'"
        by (cases lws') auto
      show ?thesis
        by (rule 10(2)) (use t Cons lws' in simp_all)
    qed
    with kl v Cons lw show ?thesis by simp
  qed
qed

lemma json_text_inject [simp]: "json_text v = json_text w \<longleftrightarrow> v = w"
  using json_text_prefix_all(1)[of "[]" "[]" v w] by (auto simp: delimited_def)

end
