(* ===== verification/Starknet_Amounts.thy ===== *)
theory Starknet_Amounts
  imports Json
begin

text \<open>
  The value formats of packages/domain: Starknet felts, token amounts as decimal text, 256-bit
  digests as two 128-bit limbs, and the guard that lets only encrypted transfers through as
  payments.
\<close>

unbundle bit_operations_syntax

section \<open>Starknet felts (packages/domain/src/index.ts)\<close>

definition felt_limit :: nat where
  "felt_limit = 2 ^ 251"

definition u128_limit :: nat where
  "u128_limit = 2 ^ 128"

text \<open>\<open>/^(?:0[xX][0-9a-fA-F]+|[0-9]+)$/\<close> and the \<open>BigInt\<close> of a text it accepts.\<close>

definition is_hex_literal :: "string \<Rightarrow> bool" where
  "is_hex_literal s =
     (take 2 s \<in> {''0x'', ''0X''} \<and> 2 < length s \<and> list_all is_hex (drop 2 s))"

definition is_dec_literal :: "string \<Rightarrow> bool" where
  "is_dec_literal s = (s \<noteq> [] \<and> list_all is_digit s)"

definition big_int :: "string \<Rightarrow> nat" where
  "big_int s = (if is_hex_literal s then of_base 16 (drop 2 s) else of_base 10 s)"

text \<open>\<open>BigInt\<close> of a text: white space around it, an optional sign, or a radix prefix.\<close>

definition syntax_error :: exn where
  "syntax_error = Err ''SyntaxError''"

definition js_BigInt :: "string \<Rightarrow> int result" where
  "js_BigInt s =
     (let t = trim s; r = drop 2 t in
      if t = [] then Inr 0
      else if take 2 t = ''0x'' \<or> take 2 t = ''0X''
      then if r \<noteq> [] \<and> list_all is_hex r then Inr (int (of_base 16 r)) else Inl syntax_error
      else if take 2 t = ''0o'' \<or> take 2 t = ''0O''
      then if r \<noteq> [] \<and> list_all (\<lambda>c. is_digit c \<and> code c < 56) r then Inr (int (of_base 8 r)) else Inl syntax_error
      else if take 2 t = ''0b'' \<or> take 2 t = ''0B''
      then if r \<noteq> [] \<and> list_all (\<lambda>c. is_digit c \<and> code c < 50) r then Inr (int (of_base 2 r)) else Inl syntax_error
      else let negative = (hd t = CHR ''-''); d = (if negative \<or> hd t = CHR ''+'' then tl t else t)
        in if d \<noteq> [] \<and> list_all is_digit d
           then Inr (if negative then - int (of_base 10 d) else int (of_base 10 d)) else Inl syntax_error)"

definition felt_error :: exn where
  "felt_error = Err ''Value must be a bounded Starknet felt.''"

definition canonicalizeStarknetFelt :: "string \<Rightarrow> string result" where
  "canonicalizeStarknetFelt value =
     (if 256 < length value then Inl felt_error
      else let trimmed = trim value in
        if trimmed = [] \<or> 78 < length trimmed
          \<or> \<not> (is_hex_literal trimmed \<or> is_dec_literal trimmed) then Inl felt_error
        else let felt = big_int trimmed in
          if felt_limit \<le> felt then Inl felt_error
          else Inr (''0x'' @ hex felt))"

definition starknetFeltEquals :: "string \<Rightarrow> string \<Rightarrow> bool" where
  "starknetFeltEquals left right =
     (case canonicalizeStarknetFelt left of Inl _ \<Rightarrow> False
      | Inr l \<Rightarrow> (case canonicalizeStarknetFelt right of Inl _ \<Rightarrow> False | Inr r \<Rightarrow> l = r))"

section \<open>Token amounts\<close>

text \<open>
  \<open>/^(?:([0-9]+)(?:\.([0-9]*))?|\.([0-9]+))$/\<close>: the first group, and the second or third.
\<close>

definition match_token_decimal :: "string \<Rightarrow> (string option \<times> string option) option" where
  "match_token_decimal s =
     (let w = takeWhile is_digit s; r = dropWhile is_digit s in
      if w \<noteq> [] then
        (case r of [] \<Rightarrow> Some (Some w, None)
         | c # f \<Rightarrow> if c = CHR ''.'' \<and> list_all is_digit f then Some (Some w, Some f) else None)
      else
        (case r of [] \<Rightarrow> None
         | c # f \<Rightarrow> if c = CHR ''.'' \<and> f \<noteq> [] \<and> list_all is_digit f
                    then Some (None, Some f) else None))"

text \<open>\<open>s.replace(/^0+/, "") || "0"\<close>, \<open>padEnd\<close>, \<open>padStart\<close>, \<open>replace(/0+$/, "")\<close>.\<close>

definition strip_zeros :: "string \<Rightarrow> string" where
  "strip_zeros s = (let t = dropWhile (\<lambda>c. c = CHR ''0'') s in if t = [] then ''0'' else t)"

definition pad_end :: "nat \<Rightarrow> string \<Rightarrow> string" where
  "pad_end n s = s @ replicate (n - length s) CHR ''0''"

definition pad_start :: "nat \<Rightarrow> string \<Rightarrow> string" where
  "pad_start n s = replicate (n - length s) CHR ''0'' @ s"

definition drop_trailing_zeros :: "string \<Rightarrow> string" where
  "drop_trailing_zeros s = rev (dropWhile (\<lambda>c. c = CHR ''0'') (rev s))"

definition check_decimals :: "jsnum \<Rightarrow> nat result" where
  "check_decimals d =
     (case as_integer d of
        Some n \<Rightarrow> if n < 0 \<or> 255 < n
          then Inl (Err ''Token decimals must be an integer between 0 and 255.'') else Inr (nat n)
      | None \<Rightarrow> Inl (Err ''Token decimals must be an integer between 0 and 255.''))"

definition amount_error :: exn where
  "amount_error = Err ''Enter an unsigned plain-decimal amount.''"

definition parseTokenAmount :: "string \<Rightarrow> jsnum \<Rightarrow> nat result" where
  "parseTokenAmount value token_decimals =
     bind_r (check_decimals token_decimals) (\<lambda>decimals.
       if 512 < length value then Inl amount_error
       else let trimmed = trim value in
         if trimmed = [] \<or> 512 < length trimmed then Inl amount_error
         else (case match_token_decimal trimmed of
             None \<Rightarrow> Inl amount_error
           | Some (g1, g2) \<Rightarrow>
               let whole = strip_zeros (case g1 of Some w \<Rightarrow> w | None \<Rightarrow> ''0'');
                   fraction = (case g2 of Some f \<Rightarrow> f | None \<Rightarrow> '''') in
               if decimals < length fraction then
                 Inl (Err (''Amount supports at most '' @ dec decimals @ '' decimal places.''))
               else
                 let atomic = of_base 10 (strip_zeros (whole @ pad_end decimals fraction)) in
                 if atomic = 0 then Inl (Err ''Amount must be greater than zero.'')
                 else if u128_limit \<le> atomic then
                   Inl (Err ''Amount does not fit the u128 bound.'')
                 else Inr atomic))"

definition formatTokenAmount :: "int \<Rightarrow> jsnum \<Rightarrow> string result" where
  "formatTokenAmount value token_decimals =
     (if value < 0 then Inl (Err ''Token amount cannot be negative.'')
      else bind_r (check_decimals token_decimals) (\<lambda>decimals.
        if decimals = 0 then Inr (dec (nat value))
        else
          let scale = 10 ^ decimals;
              whole = nat value div scale;
              fraction = drop_trailing_zeros (pad_start decimals (dec (nat value mod scale))) in
          Inr (if fraction \<noteq> [] then dec whole @ CHR ''.'' # fraction else dec whole)))"

section \<open>256-bit digests (packages/domain/src/digest256.ts)\<close>

record digest256 =
  low :: nat
  high :: nat

definition parseDigest256 :: "string \<Rightarrow> digest256 result" where
  "parseDigest256 value =
     (if \<not> hex_digits_ci 64 value then
        Inl (Err ''Digest256 must be exactly one 0x-prefixed 32-byte hexadecimal digest.'')
      else let digest = of_base 16 (drop 2 value) in
        Inr \<lparr>low = digest AND (u128_limit - 1), high = drop_bit 128 digest\<rparr>)"

definition encodeDigest256Limbs :: "digest256 \<Rightarrow> (string \<times> string) result" where
  "encodeDigest256Limbs d =
     (if u128_limit \<le> low d \<or> u128_limit \<le> high d then
        Inl (Err ''Digest256 low and high limbs must each fit u128.'')
      else Inr (''0x'' @ hex (low d), ''0x'' @ hex (high d)))"

section \<open>Encrypted payments only (packages/domain/src/settlement-privacy.ts)\<close>

record payment_action =
  pa_type :: string
  pa_amount :: jsval

definition encrypted_transfer :: "payment_action \<Rightarrow> bool" where
  "encrypted_transfer a =
     (pa_type a = ''transfer'' \<and>
      (case pa_amount a of
         JStr s \<Rightarrow> (is_dec_literal s \<or> is_hex_literal s) \<and> 0 < big_int s
       | _ \<Rightarrow> False))"

definition assertEncryptedPaymentActions :: "payment_action list \<Rightarrow> unit result" where
  "assertEncryptedPaymentActions actions =
     (if \<not> list_ex encrypted_transfer actions
        \<or> list_ex (\<lambda>a. pa_type a \<noteq> ''compute_and_invoke'' \<and> \<not> encrypted_transfer a) actions
      then Inl (Err (''Private payments require encrypted notes only. Public funding, '' @
        ''withdrawals and OPEN notes cannot be bundled with settlement.''))
      else Inr ())"

lemmas [eval_simps] = felt_limit_def u128_limit_def is_hex_literal_def is_dec_literal_def big_int_def
  canonicalizeStarknetFelt_def match_token_decimal_def strip_zeros_def pad_end_def pad_start_def
  drop_trailing_zeros_def check_decimals_def parseTokenAmount_def formatTokenAmount_def

section \<open>Lemmas\<close>

lemma and_low128: "(n :: nat) AND (u128_limit - 1) = n mod u128_limit"
  unfolding u128_limit_def by (metis mask_eq_exp_minus_1 take_bit_eq_mask take_bit_eq_mod)

lemma canonical_felt_form:
  "canonicalizeStarknetFelt s = Inr t \<Longrightarrow> \<exists>n<felt_limit. t = ''0x'' @ hex n"
  by (auto simp: canonicalizeStarknetFelt_def Let_def split: if_splits)

lemma hex_felt_length: "n < felt_limit \<Longrightarrow> length (hex n) \<le> 63"
proof -
  assume "n < felt_limit"
  then have "n < 16 ^ 63"
    by (simp add: felt_limit_def)
  then show ?thesis
    by (simp add: hex_def to_base_length)
qed

lemma is_hex_lower_is_hex: "is_hex_lower c \<Longrightarrow> is_hex c"
  by (simp add: is_hex_def)

lemma hex_literal_canonical: "is_hex_literal (''0x'' @ hex n)"
  using hex_digits_lower[of n] by (auto simp: is_hex_literal_def list_all_iff is_hex_lower_is_hex)

lemma last_hex: "is_hex_lower (last (hex n))"
  using hex_digits_lower[of n] by (simp add: list_all_iff)

lemma trim_hex_literal: "trim (''0x'' @ hex n) = ''0x'' @ hex n"
  using last_hex[of n] is_hex_lower_not_ws by (intro trim_id) (auto simp: is_ws_def code_def)

lemma js_BigInt_hex [simp]: "js_BigInt (''0x'' @ hex n) = Inr (int n)"
  using trim_hex_literal[of n] hex_digits_lower[of n] is_hex_lower_is_hex
  by (auto simp: js_BigInt_def Let_def list_all_iff)

lemma js_BigInt_hex' [simp]: "js_BigInt (CHR ''0'' # CHR ''x'' # hex n) = Inr (int n)"
  using js_BigInt_hex[of n] by simp

lemma canonical_felt_of_hex:
  "n < felt_limit \<Longrightarrow> canonicalizeStarknetFelt (''0x'' @ hex n) = Inr (''0x'' @ hex n)"
  using hex_felt_length[of n] trim_hex_literal[of n] hex_literal_canonical[of n]
  by (auto simp: canonicalizeStarknetFelt_def big_int_def Let_def)

lemma canonical_felt_idem:
  "canonicalizeStarknetFelt s = Inr t \<Longrightarrow> canonicalizeStarknetFelt t = Inr t"
  using canonical_felt_form canonical_felt_of_hex by blast

lemma code_x: "code CHR ''x'' = 120"
  by (simp add: code_def)

lemma canonical_felt_lower:
  "canonicalizeStarknetFelt s = Inr t \<Longrightarrow> to_lower t = t"
  using canonical_felt_form[of s t] hex_digits_lower
  by (auto simp: to_lower_def lower_char_def is_upper_alpha_def code_zero
      to_lower_hex_lower[unfolded to_lower_def] code_x)

lemma felt_equals_iff:
  "starknetFeltEquals l r \<longleftrightarrow>
   (\<exists>t. canonicalizeStarknetFelt l = Inr t \<and> canonicalizeStarknetFelt r = Inr t)"
  by (auto simp: starknetFeltEquals_def split: sum.splits)

text \<open>What a non-zero felt is, and the normal form the validators return for it.\<close>

definition felt_text :: "string \<Rightarrow> bool" where
  "felt_text s = (\<exists>t. canonicalizeStarknetFelt s = Inr t \<and> t \<noteq> ''0x0'')"

definition felt_norm :: "string \<Rightarrow> string" where
  "felt_norm s = (case canonicalizeStarknetFelt s of Inl _ \<Rightarrow> s | Inr t \<Rightarrow> t)"

lemma felt_norm_iff: "felt_text s \<Longrightarrow> canonicalizeStarknetFelt s = Inr t \<longleftrightarrow> t = felt_norm s"
  by (auto simp: felt_text_def felt_norm_def)

lemma felt_equals_norm:
  "felt_text l \<Longrightarrow> starknetFeltEquals l r \<longleftrightarrow> felt_text r \<and> felt_norm l = felt_norm r"
  by (auto simp: felt_equals_iff felt_text_def felt_norm_def split: sum.splits)

lemma felt_norm_idem: "felt_text s \<Longrightarrow> felt_norm (felt_norm s) = felt_norm s \<and> felt_text (felt_norm s)"
  using canonical_felt_idem by (fastforce simp: felt_text_def felt_norm_def)

lemma hex_digits_lowercase: "hex_digits n s \<Longrightarrow> to_lower s = s"
proof -
  assume s: "hex_digits n s"
  have "to_lower (take 2 s) = take 2 s"
    using s by (simp add: hex_digits_def to_lower_def lower_char_def is_upper_alpha_def code_zero code_x)
  moreover have "to_lower (drop 2 s) = drop 2 s"
    using s by (intro to_lower_hex_lower) (simp add: hex_digits_def)
  ultimately show ?thesis
    by (metis to_lower_append append_take_drop_id)
qed

lemma check_decimals_Inr:
  "check_decimals d = Inr n \<longleftrightarrow> d = jint (int n) \<and> n \<le> 255"
  by (auto simp: check_decimals_def as_integer_Some split: option.splits if_splits)
    (metis as_integer_jint nat_int of_int_of_nat_eq option.inject option.distinct(1)
      linorder_not_less nat_le_iff of_nat_less_0_iff int_eq_iff_numeral nat_less_iff)+


section \<open>Decimal text and its value\<close>

lemma of_base_append: "of_base b (s @ t) = of_base b s * b ^ length t + of_base b t"
  by (induction t rule: rev_induct) (simp_all add: append_assoc[symmetric] algebra_simps del: append_assoc)

lemma digit_val_0: "digit_val CHR ''0'' = 0"
  by (simp add: digit_val_def is_digit_def code_zero)

lemma of_base_Cons: "of_base b (c # s) = digit_val c * b ^ length s + of_base b s"
  using of_base_append[of b "[c]" s] by simp

lemma of_base_zeros [simp]: "of_base b (replicate n CHR ''0'') = 0"
  by (induction n) (simp_all add: digit_val_0 of_base_Cons)

lemma of_base_leading_zeros:
  "of_base b (dropWhile (\<lambda>c. c = CHR ''0'') s) = of_base b s"
proof -
  have "takeWhile (\<lambda>c. c = CHR ''0'') s = replicate (length (takeWhile (\<lambda>c. c = CHR ''0'') s)) CHR ''0''"
    by (intro replicate_eqI) (auto dest: set_takeWhileD)
  then have "of_base b (takeWhile (\<lambda>c. c = CHR ''0'') s) = 0"
    by (metis of_base_zeros)
  then show ?thesis
    using of_base_append[of b "takeWhile (\<lambda>c. c = CHR ''0'') s" "dropWhile (\<lambda>c. c = CHR ''0'') s"]
    by simp
qed

lemma of_base_strip_zeros [simp]: "of_base b (strip_zeros s) = of_base b s"
proof (cases "dropWhile (\<lambda>c. c = CHR ''0'') s = []")
  case True
  then have "of_base b s = 0"
    by (metis of_base_Nil of_base_leading_zeros)
  with True show ?thesis by (simp add: strip_zeros_def digit_val_0)
next
  case False
  then have "strip_zeros s = dropWhile (\<lambda>c. c = CHR ''0'') s"
    unfolding strip_zeros_def Let_def by (rule if_not_P)
  then show ?thesis
    by (simp only: of_base_leading_zeros)
qed

lemma of_base_pad_start [simp]: "of_base b (pad_start n s) = of_base b s"
  by (simp add: pad_start_def of_base_append)

lemma of_base_pad_end: "of_base b (pad_end n s) = of_base b s * b ^ (n - length s)"
  by (simp add: pad_end_def of_base_append)

lemma length_pad_end: "length s \<le> n \<Longrightarrow> length (pad_end n s) = n"
  by (simp add: pad_end_def)

lemma pad_end_drop_trailing: "length p = d \<Longrightarrow> pad_end d (drop_trailing_zeros p) = p"
proof -
  assume d: "length p = d"
  let ?z = "\<lambda>c. c = CHR ''0''"
  let ?q = "takeWhile ?z (rev p)"
  have q: "?q = replicate (length ?q) CHR ''0''"
    by (intro replicate_eqI) (auto dest: set_takeWhileD)
  have split: "rev p = ?q @ dropWhile ?z (rev p)"
    by simp
  have p: "p = drop_trailing_zeros p @ rev ?q"
    unfolding drop_trailing_zeros_def using split by (metis rev_append rev_rev_ident)
  have "d - length (drop_trailing_zeros p) = length ?q"
    using arg_cong[OF p, of length] d by simp
  then have "pad_end d (drop_trailing_zeros p) = drop_trailing_zeros p @ replicate (length ?q) CHR ''0''"
    by (simp add: pad_end_def)
  also have "\<dots> = p"
    using p q by (metis rev_replicate)
  finally show ?thesis .
qed

text \<open>The result of \<open>parseTokenAmount\<close> once the text denotes \<open>n\<close> atomic units.\<close>

definition amount_in_range :: "nat \<Rightarrow> nat result" where
  "amount_in_range n =
     (if n = 0 then Inl (Err ''Amount must be greater than zero.'')
      else if u128_limit \<le> n then Inl (Err ''Amount does not fit the u128 bound.'')
      else Inr n)"

lemma match_decimal_point:
  "list_all is_digit w \<Longrightarrow> w \<noteq> [] \<Longrightarrow> list_all is_digit f \<Longrightarrow>
   match_token_decimal (w @ CHR ''.'' # f) = Some (Some w, Some f)"
  by (auto simp: match_token_decimal_def Let_def is_digit_def code_def list_all_iff
      takeWhile_append2 dropWhile_append2)

lemma match_decimal_whole:
  "list_all is_digit w \<Longrightarrow> w \<noteq> [] \<Longrightarrow> match_token_decimal w = Some (Some w, None)"
proof -
  assume a: "list_all is_digit w" "w \<noteq> []"
  then have t: "takeWhile is_digit w = w" and d: "dropWhile is_digit w = []"
    by (auto simp: list_all_iff takeWhile_eq_all_conv dropWhile_eq_Nil_conv)
  show ?thesis
    unfolding match_token_decimal_def Let_def t d using a(2) by simp
qed

lemma digit_not_ws: "is_digit c \<Longrightarrow> \<not> is_ws c"
  by (simp add: is_hex_lower_not_ws is_digit_hex_lower)

lemma trim_decimal:
  assumes "list_all is_digit w" "w \<noteq> []" "list_all is_digit f"
  shows "trim (w @ CHR ''.'' # f) = w @ CHR ''.'' # f" and "trim w = w"
proof -
  have dot: "\<not> is_ws CHR ''.''"
    by (simp add: is_ws_def code_def)
  show "trim (w @ CHR ''.'' # f) = w @ CHR ''.'' # f"
    using assms dot by (intro trim_id) (auto simp: list_all_iff digit_not_ws)
  show "trim w = w"
    using assms by (intro trim_id) (auto simp: list_all_iff digit_not_ws)
qed

lemma parse_decimal_point:
  assumes "list_all is_digit w" "w \<noteq> []" "list_all is_digit f"
    and "length f \<le> d" "d \<le> 255" "length w + length f < 512"
  shows "parseTokenAmount (w @ CHR ''.'' # f) (jint (int d)) =
    amount_in_range (of_base 10 w * 10 ^ d + of_base 10 f * 10 ^ (d - length f))"
proof -
  have "check_decimals (jint (int d)) = Inr d"
    using assms(5) by (simp add: check_decimals_Inr)
  then show ?thesis
    using assms trim_decimal(1)[OF assms(1-3)] match_decimal_point[OF assms(1-3)]
    by (simp add: parseTokenAmount_def Let_def amount_in_range_def of_base_append of_base_pad_end
        length_pad_end)
qed

lemma parse_whole:
  assumes "list_all is_digit w" "w \<noteq> []" "d \<le> 255" "length w \<le> 512"
  shows "parseTokenAmount w (jint (int d)) = amount_in_range (of_base 10 w * 10 ^ d)"
proof -
  have "check_decimals (jint (int d)) = Inr d"
    using assms(3) by (simp add: check_decimals_Inr)
  then show ?thesis
    using assms trim_decimal(2)[OF assms(1,2), of "[]"] match_decimal_whole[OF assms(1,2)]
    by (simp add: parseTokenAmount_def Let_def amount_in_range_def of_base_append of_base_pad_end
        length_pad_end)
qed

lemma dec_length: "n < 10 ^ k \<Longrightarrow> 0 < k \<Longrightarrow> length (dec n) \<le> k"
  by (simp add: dec_def to_base_length)

lemma digits_pad_start: "list_all is_digit s \<Longrightarrow> list_all is_digit (pad_start n s)"
  by (auto simp: pad_start_def list_all_iff is_digit_def code_zero)

lemma digits_drop_trailing: "list_all is_digit s \<Longrightarrow> list_all is_digit (drop_trailing_zeros s)"
  by (auto simp: drop_trailing_zeros_def list_all_iff dest!: set_dropWhileD)

lemma length_drop_trailing: "length (drop_trailing_zeros s) \<le> length s"
  unfolding drop_trailing_zeros_def
  using length_dropWhile_le[of "\<lambda>c. c = CHR ''0''" "rev s"] by simp

text \<open>What \<open>formatTokenAmount\<close> prints denotes the amount.\<close>

lemma format_fraction_value:
  assumes "0 < d" and "p = pad_start d (dec (n mod 10 ^ d))" and "f = drop_trailing_zeros p"
  shows "list_all is_digit f" "length f \<le> d" "of_base 10 f * 10 ^ (d - length f) = n mod 10 ^ d"
proof -
  have "length (dec (n mod 10 ^ d)) \<le> d"
    using assms(1) by (intro dec_length) simp_all
  then have p: "length p = d"
    using assms(2) by (simp add: pad_start_def)
  show "list_all is_digit f"
    using assms dec_digits by (simp add: digits_drop_trailing digits_pad_start)
  show "length f \<le> d"
    using p assms(3) length_drop_trailing[of p] by simp
  have "of_base 10 (pad_end d f) = n mod 10 ^ d"
    using pad_end_drop_trailing[OF p] assms by simp
  then show "of_base 10 f * 10 ^ (d - length f) = n mod 10 ^ d"
    by (simp add: of_base_pad_end)
qed

text \<open>
  Printing an amount with \<open>formatTokenAmount\<close> and reading the text back with
  \<open>parseTokenAmount\<close> at the same number of decimals gives the amount, for every amount an
  escrow can hold (positive, below 2^128) and every decimal count the code admits.
\<close>

lemma token_amount_roundtrip:
  assumes "0 < v" and "v < u128_limit" and "d \<le> 255"
    and "formatTokenAmount (int v) (jint (int d)) = Inr s"
  shows "parseTokenAmount s (jint (int d)) = Inr v"
proof -
  have d: "check_decimals (jint (int d)) = Inr d"
    using assms(3) by (simp add: check_decimals_Inr)
  have "v < 10 ^ 39"
    using assms(2) by (simp add: u128_limit_def)
  then have len: "length (dec w) \<le> 39" if "w \<le> v" for w
    using that by (intro dec_length) simp_all
  have rng: "amount_in_range v = Inr v"
    using assms(1,2) by (simp add: amount_in_range_def)
  show ?thesis
  proof (cases "d = 0")
    case True
    then have "s = dec v"
      using assms(4) d by (simp add: formatTokenAmount_def)
    then show ?thesis
      using True parse_whole[OF dec_digits dec_ne, of d v] len[of v] rng by simp
  next
    case False
    let ?p = "pad_start d (dec (v mod 10 ^ d))"
    let ?f = "drop_trailing_zeros ?p"
    let ?w = "dec (v div 10 ^ d)"
    have f: "list_all is_digit ?f" "length ?f \<le> d" "of_base 10 ?f * 10 ^ (d - length ?f) = v mod 10 ^ d"
      using format_fraction_value[OF _ refl refl, of d v] False by auto
    have s: "s = (if ?f \<noteq> [] then ?w @ CHR ''.'' # ?f else ?w)"
      using assms(4) d False by (simp add: formatTokenAmount_def Let_def)
    have w: "length ?w \<le> 39"
      by (rule len) (rule div_le_dividend)
    show ?thesis
    proof (cases "?f = []")
      case True
      then have "v mod 10 ^ d = 0"
        using f(3) by simp
      then show ?thesis
        using s True parse_whole[OF dec_digits dec_ne, of d "v div 10 ^ d"] w assms(3) rng by auto
    next
      case False
      then show ?thesis
        using s parse_decimal_point[OF dec_digits dec_ne f(1,2) assms(3), of "v div 10 ^ d"]
          f(2,3) w assms(3) rng by (simp add: div_mult_mod_eq)
    qed
  qed
qed

lemma token_amount_roundtrip_witness:
  "parseTokenAmount ''1.5'' (jint (int 6)) = Inr 1500000"
proof (rule token_amount_roundtrip)
  show "formatTokenAmount (int 1500000) (jint (int 6)) = Inr ''1.5''"
    by (simp add: eval_simps)
qed (simp_all add: u128_limit_def)

text \<open>
  A 256-bit digest is cut into two limbs without loss: the limbs fit 128 bits, put together
  they are the number the digest denotes, and encoding them for Cairo cannot fail.
\<close>

lemma digest_limbs_exact:
  assumes "parseDigest256 s = Inr d"
  shows "low d < u128_limit \<and> high d < u128_limit
    \<and> low d + u128_limit * high d = of_base 16 (drop 2 s)
    \<and> encodeDigest256Limbs d = Inr (''0x'' @ hex (low d), ''0x'' @ hex (high d))"
proof -
  let ?n = "of_base 16 (drop 2 s)"
  have s: "hex_digits_ci 64 s" and lo: "low d = ?n mod 2 ^ 128" and hi: "high d = ?n div 2 ^ 128"
    using assms unfolding parseDigest256_def Let_def and_low128
    by (auto simp: u128_limit_def drop_bit_eq_div split: if_splits)
  have dv: "digit_val c < 16" if "is_hex c" for c
    using that by (auto simp: is_hex_def is_hex_lower_def is_digit_def digit_val_def)
  have "list_all is_hex t \<Longrightarrow> of_base 16 t < 16 ^ length t" for t
  proof (induction t rule: rev_induct)
    case (snoc c t)
    then show ?case using dv[of c] by simp
  qed simp
  then have "?n < 16 ^ 64"
    using s unfolding hex_digits_ci_def by (metis add_diff_cancel_right' length_drop)
  then have "?n div 2 ^ 128 < 2 ^ 128"
    by (intro less_mult_imp_div_less) simp
  then show ?thesis
    by (simp add: lo hi encodeDigest256Limbs_def u128_limit_def not_le)
qed

lemma digest_limbs_exact_witness:
  "\<exists>d. parseDigest256 (''0x'' @ replicate 63 CHR ''0'' @ ''a'') = Inr d \<and> low d = 10 \<and>
     low d + u128_limit * high d = of_base 16 (drop 2 (''0x'' @ replicate 63 CHR ''0'' @ ''a''))"
proof -
  let ?s = "''0x'' @ replicate 63 CHR ''0'' @ ''a''"
  have s: "hex_digits_ci 64 ?s"
    by (simp add: hex_digits_ci_def is_hex_def is_hex_lower_def is_digit_def code_def list_all_iff)
  have a: "digit_val CHR ''a'' = 10"
    by (simp add: digit_val_def is_digit_def code_def)
  from s have d: "parseDigest256 ?s = Inr \<lparr>low = 10, high = 0\<rparr>"
    unfolding parseDigest256_def Let_def and_low128
    by (simp add: of_base_append a u128_limit_def drop_bit_eq_div)
  from digest_limbs_exact[OF d] d show ?thesis by auto
qed

text \<open>
  A payment batch is accepted exactly when it spends at least one encrypted note of a
  positive amount and everything else in it is such a transfer or the message computation.
\<close>

lemma payment_actions_encrypted_only:
  "assertEncryptedPaymentActions actions = Inr () \<longleftrightarrow>
     (\<exists>a\<in>set actions. encrypted_transfer a) \<and>
     (\<forall>a\<in>set actions. encrypted_transfer a \<or> pa_type a = ''compute_and_invoke'')"
  by (auto simp: assertEncryptedPaymentActions_def list_ex_iff)

lemma payment_actions_encrypted_only_witness:
  "assertEncryptedPaymentActions [\<lparr>pa_type = ''transfer'', pa_amount = JStr ''7''\<rparr>] = Inr ()
   \<and> assertEncryptedPaymentActions [\<lparr>pa_type = ''transfer'', pa_amount = JStr ''7''\<rparr>,
        \<lparr>pa_type = ''withdraw'', pa_amount = JStr ''7''\<rparr>] \<noteq> Inr ()"
  unfolding payment_actions_encrypted_only
  by (simp add: encrypted_transfer_def eval_simps)

end
