(* ===== verification/Protocol_Checks.thy ===== *)
theory Protocol_Checks
  imports Starknet_Amounts
begin

text \<open>
  The field validators at the head of packages/private-intents/src/protocol.ts. Each returns the
  normalised value or the error its caller reports; the lemmas say when they succeed and that
  they are stable (a normalised value is its own normal form).
\<close>

definition max_u256 :: int where
  "max_u256 = 2 ^ 256 - 1"

definition requireText :: "string \<Rightarrow> string \<Rightarrow> string result" where
  "requireText value label =
     (let normalized = trim value in
      if normalized = [] then Inl (MakerProtocolError (label @ '' is required.'')) else Inr normalized)"

datatype starknet_pool = SN_MAIN | SN_SEPOLIA | APP20_LOCALNET

definition pool_text :: "starknet_pool \<Rightarrow> string" where
  "pool_text p = (case p of SN_MAIN \<Rightarrow> ''starknet:SN_MAIN'' | SN_SEPOLIA \<Rightarrow> ''starknet:SN_SEPOLIA''
     | APP20_LOCALNET \<Rightarrow> ''starknet:APP20_LOCALNET'')"

definition requirePool :: "string \<Rightarrow> starknet_pool result" where
  "requirePool value =
     (if value = ''starknet:SN_MAIN'' then Inr SN_MAIN
      else if value = ''starknet:SN_SEPOLIA'' then Inr SN_SEPOLIA
      else if value = ''starknet:APP20_LOCALNET'' then Inr APP20_LOCALNET
      else Inl (MakerProtocolError ''chainId must name a supported STRK20 deployment.''))"

definition requireFelt :: "string \<Rightarrow> string \<Rightarrow> string result" where
  "requireFelt value label =
     (case canonicalizeStarknetFelt value of
        Inl _ \<Rightarrow> Inl (MakerProtocolError (label @ '' must be a non-zero Starknet felt.''))
      | Inr felt \<Rightarrow> if felt = ''0x0''
          then Inl (MakerProtocolError (label @ '' must be a non-zero Starknet felt.'')) else Inr felt)"

definition requireDigest :: "string \<Rightarrow> string \<Rightarrow> string result" where
  "requireDigest value label =
     (let normalized = to_lower (trim value) in
      if \<not> hex_digits_ci 64 normalized
      then Inl (MakerProtocolError (label @ '' must be a 32-byte hex digest.''))
      else Inr normalized)"

definition requireSignature :: "string \<Rightarrow> string result" where
  "requireSignature value =
     (let normalized = to_lower (trim value) in
      if \<not> hex_digits_ci 128 normalized
      then Inl (MakerProtocolError ''directory signature must be a 64-byte P-256 signature.'')
      else Inr normalized)"

definition requirePositiveU256 :: "int \<Rightarrow> string \<Rightarrow> int result" where
  "requirePositiveU256 value label =
     (if value \<le> 0 \<or> max_u256 < value
      then Inl (MakerProtocolError (label @ '' must be a positive u256 value.'')) else Inr value)"

definition requireTimestamp :: "jsnum \<Rightarrow> string \<Rightarrow> int result" where
  "requireTimestamp value label =
     (case as_safe_int value of
        Some n \<Rightarrow> if n \<le> 0
          then Inl (MakerProtocolError (label @ '' must be a positive unix-seconds timestamp.''))
          else Inr n
      | None \<Rightarrow>
          Inl (MakerProtocolError (label @ '' must be a positive unix-seconds timestamp.'')))"

definition requireSafeNonNegative :: "jsnum \<Rightarrow> string \<Rightarrow> int result" where
  "requireSafeNonNegative value label =
     (case as_safe_int value of
        Some n \<Rightarrow> if n < 0
          then Inl (MakerProtocolError (label @ '' must be a non-negative safe integer.'')) else Inr n
      | None \<Rightarrow> Inl (MakerProtocolError (label @ '' must be a non-negative safe integer.'')))"

lemmas [eval_simps] = max_u256_def requireText_def requirePool_def pool_text_def requireFelt_def
  requireDigest_def requireSignature_def requirePositiveU256_def requireTimestamp_def
  requireSafeNonNegative_def

section \<open>When the validators accept\<close>

lemma requireText_Inr: "requireText s l = Inr t \<longleftrightarrow> t = trim s \<and> trim s \<noteq> []"
  by (auto simp: requireText_def Let_def)

lemma requireDigest_Inr:
  "requireDigest s l = Inr t \<longleftrightarrow> t = to_lower (trim s) \<and> hex_digits_ci 64 (to_lower (trim s))"
  by (auto simp: requireDigest_def Let_def)

lemma requireFelt_Inr:
  "requireFelt s l = Inr t \<longleftrightarrow> canonicalizeStarknetFelt s = Inr t \<and> t \<noteq> ''0x0''"
  by (auto simp: requireFelt_def split: sum.splits)

lemma requirePositiveU256_Inr:
  "requirePositiveU256 v l = Inr w \<longleftrightarrow> w = v \<and> 0 < v \<and> v \<le> max_u256"
  by (auto simp: requirePositiveU256_def)

lemma requireTimestamp_Inr:
  "requireTimestamp v l = Inr n \<longleftrightarrow> v = jint n \<and> 0 < n \<and> n \<le> max_safe"
  by (auto simp: requireTimestamp_def as_safe_int_Some split: option.splits)

lemma requireSafeNonNegative_Inr:
  "requireSafeNonNegative v l = Inr n \<longleftrightarrow> v = jint n \<and> 0 \<le> n \<and> n \<le> max_safe"
  by (auto simp: requireSafeNonNegative_def as_safe_int_Some split: option.splits)

lemma requirePool_Inr: "requirePool s = Inr p \<longleftrightarrow> s = pool_text p"
  by (cases p) (auto simp: requirePool_def pool_text_def)

lemmas require_Inr = requireText_Inr requireDigest_Inr requireFelt_Inr requirePositiveU256_Inr
  requireTimestamp_Inr requireSafeNonNegative_Inr

lemma pool_text_inject [simp]: "pool_text p = pool_text q \<longleftrightarrow> p = q"
  by (cases p; cases q) (simp_all add: pool_text_def)

section \<open>Normal forms are stable\<close>

lemma trim_hex_digits_ci: "hex_digits_ci n s \<Longrightarrow> 0 < n \<Longrightarrow> trim s = s"
proof -
  assume s: "hex_digits_ci n s" and n: "0 < n"
  have "s \<noteq> []"
    using s by (auto simp: hex_digits_ci_def)
  have hd: "hd s = CHR ''0''"
    using s by (cases s) (auto simp: hex_digits_ci_def)
  have "drop 2 s \<noteq> []"
    using s n by (auto simp: hex_digits_ci_def)
  then have "last s = last (drop 2 s)" and "last (drop 2 s) \<in> set (drop 2 s)"
    by (simp add: last_drop, rule last_in_set)
  then have "is_hex (last s)"
    using s by (metis hex_digits_ci_def list_all_iff)
  then have "\<not> is_ws (last s)"
    by (auto simp: is_hex_def is_hex_lower_def is_digit_def is_ws_def)
  with hd \<open>s \<noteq> []\<close> show ?thesis
    by (intro trim_id) (simp add: is_ws_def code_zero)
qed

lemma requireDigest_idem: "requireDigest s l = Inr t \<Longrightarrow> requireDigest t l' = Inr t"
  using trim_hex_digits_ci[of 64 t] by (auto simp: requireDigest_Inr)

lemma requireText_idem: "requireText s l = Inr t \<Longrightarrow> requireText t l' = Inr t"
  by (auto simp: requireText_Inr)

lemma requireFelt_idem: "requireFelt s l = Inr t \<Longrightarrow> requireFelt t l' = Inr t"
  by (auto simp: requireFelt_Inr dest: canonical_felt_idem)

lemmas require_idem = requireDigest_idem requireText_idem requireFelt_idem

end
