(* ===== verification/Reservation.thy ===== *)
theory Reservation
  imports Protocol_Checks
begin

text \<open>
  Maker inventory reservations (packages/private-intents/src/protocol.ts): the record, the runtime
  validation of a reservation read from an untrusted store, the lifecycle transitions, the
  compare-and-swap contract every store shares, and the canonical text that is hashed.
\<close>

section \<open>The record\<close>

datatype reservation_state =
    Reserved | Selected | Filling | Released | Consumed | Expired | Quarantined

definition state_text :: "reservation_state \<Rightarrow> string" where
  "state_text s = (case s of Reserved \<Rightarrow> ''reserved'' | Selected \<Rightarrow> ''selected''
     | Filling \<Rightarrow> ''filling'' | Released \<Rightarrow> ''released'' | Consumed \<Rightarrow> ''consumed''
     | Expired \<Rightarrow> ''expired'' | Quarantined \<Rightarrow> ''quarantined'')"

definition all_states :: "reservation_state list" where
  "all_states = [Reserved, Selected, Filling, Released, Consumed, Expired, Quarantined]"

definition state_of_value :: "jsval \<Rightarrow> reservation_state option" where
  "state_of_value v = (case v of JStr s \<Rightarrow> find (\<lambda>st. state_text st = s) all_states | _ \<Rightarrow> None)"

record maker_reservation =
  reservationId :: string
  makerId :: string
  intentDigest :: string
  rfqDigest :: string
  asset :: string
  amountBaseUnits :: int
  createdAt :: int
  expiresAt :: int
  updatedAt :: int
  fence :: int
  state :: reservation_state
  selectedQuoteDigest :: "string option"
  settlementAttemptId :: "string option"
  settlementTransactionHash :: "string option"
  terminalReason :: "string option"

datatype reservation_command =
    Select (expectedFence: int) (cmd_at: jsnum) (quoteDigest: string)
  | Release (expectedFence: int) (cmd_at: jsnum) (cmd_reason: string)
  | BeginFill (expectedFence: int) (cmd_at: jsnum) (attemptId: string)
  | Consume (expectedFence: int) (cmd_at: jsnum) (transactionHash: string)
  | Expire (expectedFence: int) (cmd_at: jsnum)
  | Quarantine (expectedFence: int) (cmd_at: jsnum) (cmd_reason: string)

definition reservation_domain :: string where
  "reservation_domain = ''app20/maker-reservation/v1''"

definition max_reservation_lifetime :: int where
  "max_reservation_lifetime = 24 * 60 * 60"

section \<open>Runtime validation\<close>

definition required_reservation_fields :: "string list" where
  "required_reservation_fields = [''version'', ''domain'', ''reservationId'', ''makerId'',
     ''intentDigest'', ''rfqDigest'', ''asset'', ''amountBaseUnits'', ''createdAt'', ''expiresAt'',
     ''updatedAt'', ''fence'', ''state'']"

definition optional_reservation_fields :: "string list" where
  "optional_reservation_fields = [''selectedQuoteDigest'', ''settlementAttemptId'',
     ''settlementTransactionHash'', ''terminalReason'']"

definition protocol_error :: "string \<Rightarrow> exn" where
  "protocol_error m = MakerProtocolError m"

definition string_field :: "fields \<Rightarrow> string \<Rightarrow> string result" where
  "string_field kvs f = (case get_field kvs f of JStr s \<Rightarrow> Inr s
     | _ \<Rightarrow> Inl (protocol_error (f @ '' must be a string.'')))"

definition bigint_field :: "fields \<Rightarrow> string \<Rightarrow> int result" where
  "bigint_field kvs f = (case get_field kvs f of JBig n \<Rightarrow> Inr n
     | _ \<Rightarrow> Inl (protocol_error (f @ '' must be a bigint.'')))"

definition number_field :: "fields \<Rightarrow> string \<Rightarrow> jsnum result" where
  "number_field kvs f = (case get_field kvs f of JNum n \<Rightarrow> Inr n
     | _ \<Rightarrow> Inl (protocol_error (f @ '' must be a number.'')))"

definition optional_string_field :: "fields \<Rightarrow> string \<Rightarrow> string option result" where
  "optional_string_field kvs f = (case get_field kvs f of JUndef \<Rightarrow> Inr None | JStr s \<Rightarrow> Inr (Some s)
     | _ \<Rightarrow> Inl (protocol_error (f @ '' must be a string.'')))"

definition text_or_empty :: "string option \<Rightarrow> string" where
  "text_or_empty x = (case x of None \<Rightarrow> '''' | Some s \<Rightarrow> s)"

text \<open>
  The shape of the object, then the checks on its values in the order the code makes them. The
  result is the record the assertion lets the caller read.
\<close>

definition check_reservation_shape :: "fields \<Rightarrow> reservation_state result" where
  "check_reservation_shape kvs =
     (case find (\<lambda>f. \<not> has_field kvs f) required_reservation_fields of
        Some f \<Rightarrow> Inl (protocol_error (''Maker reservation '' @ f @ '' is required.''))
      | None \<Rightarrow>
     (case find (\<lambda>f. f \<notin> set required_reservation_fields \<and> f \<notin> set optional_reservation_fields)
             (obj_keys kvs) of
        Some f \<Rightarrow> Inl (protocol_error (''Maker reservation field '' @ f @ '' is unsupported.''))
      | None \<Rightarrow>
      if get_field kvs ''version'' \<noteq> JNum (jint 1)
        \<or> get_field kvs ''domain'' \<noteq> JStr reservation_domain
      then Inl (protocol_error ''Only maker reservation v1 is supported.'')
      else (case state_of_value (get_field kvs ''state'') of
          None \<Rightarrow> Inl (protocol_error ''Maker reservation state is invalid.'')
        | Some st \<Rightarrow> Inr st)))"

definition check_reservation_times :: "int \<Rightarrow> int \<Rightarrow> int \<Rightarrow> unit result" where
  "check_reservation_times created expires updated =
     (if expires \<le> created \<or> max_reservation_lifetime < expires - created \<or> updated < created
      then Inl (protocol_error ''Reservation timestamps are inconsistent or exceed 24 hours.'')
      else Inr ())"

definition check_reservation_fence :: "int \<Rightarrow> unit result" where
  "check_reservation_fence f =
     (if f \<le> 0 \<or> max_u256 < f
      then Inl (protocol_error ''Reservation fence must be a positive u256 value.'') else Inr ())"

definition check_reservation_state :: "maker_reservation \<Rightarrow> unit result" where
  "check_reservation_state r =
     (let st = state r in
      bind_r (if st \<in> {Selected, Filling, Consumed}
              then requireDigest (text_or_empty (selectedQuoteDigest r)) ''selectedQuoteDigest''
              else Inr '''') (\<lambda>_.
      bind_r (if st \<in> {Filling, Consumed}
              then requireDigest (text_or_empty (settlementAttemptId r)) ''settlementAttemptId''
              else Inr '''') (\<lambda>_.
      bind_r (if st = Consumed
              then requireFelt (text_or_empty (settlementTransactionHash r))
                     ''settlementTransactionHash''
              else Inr '''') (\<lambda>_.
      if st \<in> {Released, Quarantined} \<and> trim (text_or_empty (terminalReason r)) = []
      then Inl (protocol_error (state_text st @ '' reservation requires a reason.''))
      else if st \<in> {Reserved, Expired}
        \<and> (selectedQuoteDigest r \<noteq> None \<or> settlementAttemptId r \<noteq> None
           \<or> settlementTransactionHash r \<noteq> None \<or> terminalReason r \<noteq> None)
      then Inl (protocol_error
        ''Reserved and expired reservations cannot carry transition metadata.'')
      else Inr ()))))"

definition assertMakerReservation :: "jsval \<Rightarrow> maker_reservation result" where
  "assertMakerReservation value =
     (case value of JObj kvs \<Rightarrow>
        bind_r (check_reservation_shape kvs) (\<lambda>st.
        bind_r (string_field kvs ''reservationId'') (\<lambda>rid.
        bind_r (string_field kvs ''makerId'') (\<lambda>mid.
        bind_r (string_field kvs ''intentDigest'') (\<lambda>idg.
        bind_r (string_field kvs ''rfqDigest'') (\<lambda>rdg.
        bind_r (string_field kvs ''asset'') (\<lambda>ast.
        bind_r (bigint_field kvs ''amountBaseUnits'') (\<lambda>amt.
        bind_r (number_field kvs ''createdAt'') (\<lambda>created.
        bind_r (number_field kvs ''expiresAt'') (\<lambda>expires.
        bind_r (number_field kvs ''updatedAt'') (\<lambda>updated.
        bind_r (bigint_field kvs ''fence'') (\<lambda>fnc.
        bind_r (requireDigest rid ''reservationId'') (\<lambda>_.
        bind_r (requireText mid ''makerId'') (\<lambda>_.
        bind_r (requireDigest idg ''intentDigest'') (\<lambda>_.
        bind_r (requireDigest rdg ''rfqDigest'') (\<lambda>_.
        bind_r (requireFelt ast ''asset'') (\<lambda>_.
        bind_r (requirePositiveU256 amt ''amountBaseUnits'') (\<lambda>_.
        bind_r (requireTimestamp created ''createdAt'') (\<lambda>createdT.
        bind_r (requireTimestamp expires ''expiresAt'') (\<lambda>expiresT.
        bind_r (requireTimestamp updated ''updatedAt'') (\<lambda>updatedT.
        bind_r (check_reservation_times createdT expiresT updatedT) (\<lambda>_.
        bind_r (check_reservation_fence fnc) (\<lambda>_.
        bind_r (optional_string_field kvs ''selectedQuoteDigest'') (\<lambda>sq.
        bind_r (optional_string_field kvs ''settlementAttemptId'') (\<lambda>sa.
        bind_r (optional_string_field kvs ''settlementTransactionHash'') (\<lambda>sh.
        bind_r (optional_string_field kvs ''terminalReason'') (\<lambda>tr.
        let r = \<lparr>reservationId = rid, makerId = mid, intentDigest = idg, rfqDigest = rdg,
                 asset = ast, amountBaseUnits = amt, createdAt = createdT, expiresAt = expiresT,
                 updatedAt = updatedT, fence = fnc, state = st, selectedQuoteDigest = sq,
                 settlementAttemptId = sa, settlementTransactionHash = sh,
                 terminalReason = tr\<rparr> in
        bind_r (check_reservation_state r) (\<lambda>_. Inr r)))))))))))))))))))))))))))
      | _ \<Rightarrow> Inl (protocol_error ''Maker reservation must be an object.''))"

text \<open>A typed reservation as the object it is at run time.\<close>

definition opt_field :: "string \<Rightarrow> string option \<Rightarrow> fields" where
  "opt_field f x = (case x of None \<Rightarrow> [] | Some s \<Rightarrow> [(f, JStr s)])"

definition reservation_value :: "maker_reservation \<Rightarrow> jsval" where
  "reservation_value r = JObj
     ([(''version'', JNum (jint 1)), (''domain'', JStr reservation_domain),
       (''reservationId'', JStr (reservationId r)), (''makerId'', JStr (makerId r)),
       (''intentDigest'', JStr (intentDigest r)), (''rfqDigest'', JStr (rfqDigest r)),
       (''asset'', JStr (asset r)), (''amountBaseUnits'', JBig (amountBaseUnits r)),
       (''createdAt'', JNum (jint (createdAt r))), (''expiresAt'', JNum (jint (expiresAt r))),
       (''updatedAt'', JNum (jint (updatedAt r))), (''fence'', JBig (fence r)),
       (''state'', JStr (state_text (state r)))]
      @ opt_field ''selectedQuoteDigest'' (selectedQuoteDigest r)
      @ opt_field ''settlementAttemptId'' (settlementAttemptId r)
      @ opt_field ''settlementTransactionHash'' (settlementTransactionHash r)
      @ opt_field ''terminalReason'' (terminalReason r))"

definition assert_reservation :: "maker_reservation \<Rightarrow> maker_reservation result" where
  "assert_reservation r = assertMakerReservation (reservation_value r)"

text \<open>What the assertion establishes, as one predicate.\<close>

definition digest_text :: "string \<Rightarrow> bool" where
  "digest_text s = hex_digits_ci 64 (to_lower (trim s))"

definition positive_u256 :: "int \<Rightarrow> bool" where
  "positive_u256 n = (0 < n \<and> n \<le> max_u256)"

definition timestamp_ok :: "int \<Rightarrow> bool" where
  "timestamp_ok n = (0 < n \<and> n \<le> max_safe)"

definition state_metadata_ok :: "maker_reservation \<Rightarrow> bool" where
  "state_metadata_ok r =
     (case state r of
        Reserved \<Rightarrow> selectedQuoteDigest r = None \<and> settlementAttemptId r = None
          \<and> settlementTransactionHash r = None \<and> terminalReason r = None
      | Expired \<Rightarrow> selectedQuoteDigest r = None \<and> settlementAttemptId r = None
          \<and> settlementTransactionHash r = None \<and> terminalReason r = None
      | Selected \<Rightarrow> digest_text (text_or_empty (selectedQuoteDigest r))
      | Filling \<Rightarrow> digest_text (text_or_empty (selectedQuoteDigest r))
          \<and> digest_text (text_or_empty (settlementAttemptId r))
      | Consumed \<Rightarrow> digest_text (text_or_empty (selectedQuoteDigest r))
          \<and> digest_text (text_or_empty (settlementAttemptId r))
          \<and> felt_text (text_or_empty (settlementTransactionHash r))
      | Released \<Rightarrow> trim (text_or_empty (terminalReason r)) \<noteq> []
      | Quarantined \<Rightarrow> trim (text_or_empty (terminalReason r)) \<noteq> [])"

definition valid_reservation :: "maker_reservation \<Rightarrow> bool" where
  "valid_reservation r =
     (digest_text (reservationId r) \<and> trim (makerId r) \<noteq> [] \<and> digest_text (intentDigest r)
      \<and> digest_text (rfqDigest r) \<and> felt_text (asset r) \<and> positive_u256 (amountBaseUnits r)
      \<and> timestamp_ok (createdAt r) \<and> timestamp_ok (expiresAt r) \<and> timestamp_ok (updatedAt r)
      \<and> createdAt r < expiresAt r \<and> expiresAt r - createdAt r \<le> max_reservation_lifetime
      \<and> createdAt r \<le> updatedAt r \<and> positive_u256 (fence r) \<and> state_metadata_ok r)"


lemmas [eval_simps] = state_text_def all_states_def state_of_value_def reservation_domain_def
  max_reservation_lifetime_def required_reservation_fields_def optional_reservation_fields_def
  string_field_def bigint_field_def number_field_def optional_string_field_def text_or_empty_def
  check_reservation_shape_def check_reservation_times_def check_reservation_fence_def
  check_reservation_state_def assertMakerReservation_def opt_field_def reservation_value_def
  assert_reservation_def digest_text_def positive_u256_def timestamp_ok_def

section \<open>Validation and its predicate\<close>

lemma state_of_text [simp]: "state_of_value (JStr (state_text s)) = Some s"
  by (cases s) (simp_all add: state_of_value_def all_states_def state_text_def)

lemma state_text_inject [simp]: "state_text s = state_text t \<longleftrightarrow> s = t"
  by (metis option.inject state_of_text)

lemma get_opt_field:
  "get_field (opt_field f x) k =
     (if f = k then (case x of None \<Rightarrow> JUndef | Some s \<Rightarrow> JStr s) else JUndef)"
  by (cases x) (auto simp: opt_field_def)

lemma has_opt_field: "has_field (opt_field f x) k = (f = k \<and> x \<noteq> None)"
  by (cases x) (auto simp: opt_field_def)

lemma obj_keys_opt_field: "set (obj_keys (opt_field f x)) \<subseteq> {f}"
  by (cases x) (auto simp: opt_field_def obj_keys_def)

lemma shape_of_value:
  "reservation_value r = JObj kvs \<Longrightarrow> check_reservation_shape kvs = Inr (state r)"
proof -
  assume "reservation_value r = JObj kvs"
  then have kvs: "JObj kvs = reservation_value r"
    by simp
  have req: "find (\<lambda>f. \<not> has_field kvs f) required_reservation_fields = None"
    using kvs by (simp add: find_None_iff required_reservation_fields_def reservation_value_def)
  have "set (obj_keys kvs) \<subseteq> set required_reservation_fields \<union> set optional_reservation_fields"
    using kvs obj_keys_opt_field
    by (auto simp: reservation_value_def obj_keys_def required_reservation_fields_def
        optional_reservation_fields_def opt_field_def split: option.splits)
  then have opt: "find (\<lambda>f. f \<notin> set required_reservation_fields
      \<and> f \<notin> set optional_reservation_fields) (obj_keys kvs) = None"
    by (auto simp: find_None_iff)
  have "get_field kvs ''version'' = JNum (jint 1)" "get_field kvs ''domain'' = JStr reservation_domain"
    "get_field kvs ''state'' = JStr (state_text (state r))"
    using kvs by (simp_all add: reservation_value_def)
  then show ?thesis
    by (simp add: check_reservation_shape_def req opt)
qed

lemma check_state_iff: "check_reservation_state r = Inr () \<longleftrightarrow> state_metadata_ok r"
  by (cases "state r")
    (auto simp: check_reservation_state_def state_metadata_ok_def digest_text_def felt_text_def
      requireDigest_Inr requireFelt_Inr Let_def)

lemma reservation_eta:
  "\<lparr>reservationId = reservationId r, makerId = makerId r, intentDigest = intentDigest r,
     rfqDigest = rfqDigest r, asset = asset r, amountBaseUnits = amountBaseUnits r,
     createdAt = createdAt r, expiresAt = expiresAt r, updatedAt = updatedAt r, fence = fence r,
     state = state r, selectedQuoteDigest = selectedQuoteDigest r,
     settlementAttemptId = settlementAttemptId r,
     settlementTransactionHash = settlementTransactionHash r,
     terminalReason = terminalReason r\<rparr> = r"
  by (cases r) simp

lemma assert_reservation_iff:
  "assert_reservation r = Inr r' \<longleftrightarrow> valid_reservation r \<and> r' = r"
proof -
  obtain kvs where kvs: "reservation_value r = JObj kvs"
    by (simp add: reservation_value_def)
  have f: "string_field kvs ''reservationId'' = Inr (reservationId r)"
    "string_field kvs ''makerId'' = Inr (makerId r)"
    "string_field kvs ''intentDigest'' = Inr (intentDigest r)"
    "string_field kvs ''rfqDigest'' = Inr (rfqDigest r)"
    "string_field kvs ''asset'' = Inr (asset r)"
    "bigint_field kvs ''amountBaseUnits'' = Inr (amountBaseUnits r)"
    "number_field kvs ''createdAt'' = Inr (jint (createdAt r))"
    "number_field kvs ''expiresAt'' = Inr (jint (expiresAt r))"
    "number_field kvs ''updatedAt'' = Inr (jint (updatedAt r))"
    "bigint_field kvs ''fence'' = Inr (fence r)"
    using kvs by (auto simp: reservation_value_def string_field_def bigint_field_def number_field_def)
  have g: "optional_string_field kvs ''selectedQuoteDigest'' = Inr (selectedQuoteDigest r)"
    "optional_string_field kvs ''settlementAttemptId'' = Inr (settlementAttemptId r)"
    "optional_string_field kvs ''settlementTransactionHash'' = Inr (settlementTransactionHash r)"
    "optional_string_field kvs ''terminalReason'' = Inr (terminalReason r)"
    using kvs by (auto simp: reservation_value_def optional_string_field_def get_field_append
        has_opt_field get_opt_field split: option.splits)
  have "assert_reservation r = Inr r' \<longleftrightarrow>
      is_ok (requireDigest (reservationId r) ''reservationId'')
      \<and> is_ok (requireText (makerId r) ''makerId'')
      \<and> is_ok (requireDigest (intentDigest r) ''intentDigest'')
      \<and> is_ok (requireDigest (rfqDigest r) ''rfqDigest'')
      \<and> is_ok (requireFelt (asset r) ''asset'')
      \<and> is_ok (requirePositiveU256 (amountBaseUnits r) ''amountBaseUnits'')
      \<and> is_ok (requireTimestamp (jint (createdAt r)) ''createdAt'')
      \<and> is_ok (requireTimestamp (jint (expiresAt r)) ''expiresAt'')
      \<and> is_ok (requireTimestamp (jint (updatedAt r)) ''updatedAt'')
      \<and> check_reservation_times (createdAt r) (expiresAt r) (updatedAt r) = Inr ()
      \<and> check_reservation_fence (fence r) = Inr ()
      \<and> check_reservation_state r = Inr () \<and> r' = r"
    unfolding assert_reservation_def assertMakerReservation_def kvs jsval.case
      shape_of_value[OF kvs] f g bind_r_Inr is_ok_iff
    by (auto simp: requireTimestamp_Inr Let_def reservation_eta)
  then show ?thesis
    unfolding check_state_iff
    by (auto simp: is_ok_iff require_Inr check_reservation_times_def check_reservation_fence_def
        valid_reservation_def digest_text_def felt_text_def positive_u256_def timestamp_ok_def)
qed

lemma assert_reservation_valid: "valid_reservation r \<Longrightarrow> assert_reservation r = Inr r"
  by (simp add: assert_reservation_iff)

lemma assert_reservation_invalid: "\<not> valid_reservation r \<Longrightarrow> \<exists>e. assert_reservation r = Inl e"
  using assert_reservation_iff[of r] by (cases "assert_reservation r") auto

text \<open>Whatever the assertion lets through, typed or not, is a valid reservation.\<close>

lemma assert_value_valid: "assertMakerReservation v = Inr r \<Longrightarrow> valid_reservation r"
proof -
  assume a: "assertMakerReservation v = Inr r"
  then obtain kvs where v: "v = JObj kvs"
    by (auto simp: assertMakerReservation_def split: jsval.splits)
  show ?thesis
    using a unfolding v assertMakerReservation_def jsval.case bind_r_eq_Inr Let_def
    by (auto simp: require_Inr check_reservation_times_def check_reservation_fence_def
        check_state_iff valid_reservation_def digest_text_def felt_text_def positive_u256_def
        timestamp_ok_def)
qed


section \<open>Creation and lifecycle transitions\<close>

record reservation_input =
  ri_reservationId :: string
  ri_makerId :: string
  ri_intentDigest :: string
  ri_rfqDigest :: string
  ri_asset :: string
  ri_amountBaseUnits :: int
  ri_createdAt :: jsnum
  ri_expiresAt :: jsnum
  ri_fence :: int

definition createMakerReservation :: "reservation_input \<Rightarrow> maker_reservation result" where
  "createMakerReservation i =
     bind_r (requireDigest (ri_reservationId i) ''reservationId'') (\<lambda>rid.
     bind_r (requireText (ri_makerId i) ''makerId'') (\<lambda>mid.
     bind_r (requireDigest (ri_intentDigest i) ''intentDigest'') (\<lambda>idg.
     bind_r (requireDigest (ri_rfqDigest i) ''rfqDigest'') (\<lambda>rdg.
     bind_r (requireFelt (ri_asset i) ''asset'') (\<lambda>ast.
     bind_r (requirePositiveU256 (ri_amountBaseUnits i) ''amountBaseUnits'') (\<lambda>amt.
     bind_r (requireTimestamp (ri_createdAt i) ''createdAt'') (\<lambda>created.
     bind_r (requireTimestamp (ri_expiresAt i) ''expiresAt'') (\<lambda>expires.
     bind_r (requireTimestamp (ri_createdAt i) ''createdAt'') (\<lambda>updated.
     bind_r (requirePositiveU256 (ri_fence i) ''fence'') (\<lambda>fnc.
     assert_reservation \<lparr>reservationId = rid, makerId = mid, intentDigest = idg, rfqDigest = rdg,
       asset = ast, amountBaseUnits = amt, createdAt = created, expiresAt = expires,
       updatedAt = updated, fence = fnc, state = Reserved, selectedQuoteDigest = None,
       settlementAttemptId = None, settlementTransactionHash = None,
       terminalReason = None\<rparr>))))))))))"

definition is_terminal :: "reservation_state \<Rightarrow> bool" where
  "is_terminal s = (s \<in> {Released, Consumed, Expired, Quarantined})"

text \<open>The body of the \<open>switch\<close>: the next record, before the closing assertion.\<close>

definition apply_command :: "maker_reservation \<Rightarrow> reservation_command \<Rightarrow> int \<Rightarrow> int \<Rightarrow> maker_reservation result" where
  "apply_command r c t nextFence =
     (case c of
        Select _ _ q \<Rightarrow>
          if state r \<noteq> Reserved \<or> expiresAt r \<le> t
          then Inl (protocol_error ''Only an active reserved quote can be selected.'')
          else bind_r (requireDigest q ''quoteDigest'') (\<lambda>d.
            Inr (r\<lparr>updatedAt := t, fence := nextFence, state := Selected,
                   selectedQuoteDigest := Some d\<rparr>))
      | Release _ _ why \<Rightarrow>
          if state r = Filling
          then Inl (protocol_error ''An in-flight fill can only be consumed or quarantined.'')
          else if expiresAt r \<le> t
          then Inl (protocol_error ''Expired reservations must use the expire transition.'')
          else bind_r (requireText why ''release reason'') (\<lambda>d.
            Inr (r\<lparr>updatedAt := t, fence := nextFence, state := Released,
                   terminalReason := Some d\<rparr>))
      | BeginFill _ _ a \<Rightarrow>
          if state r \<noteq> Selected \<or> expiresAt r \<le> t
          then Inl (protocol_error ''Only an active selected reservation can begin filling.'')
          else bind_r (requireDigest a ''settlementAttemptId'') (\<lambda>d.
            Inr (r\<lparr>updatedAt := t, fence := nextFence, state := Filling,
                   settlementAttemptId := Some d\<rparr>))
      | Consume _ _ h \<Rightarrow>
          if state r \<noteq> Filling
          then Inl (protocol_error ''Only an in-flight fill can be consumed.'')
          else bind_r (requireFelt h ''settlementTransactionHash'') (\<lambda>d.
            Inr (r\<lparr>updatedAt := t, fence := nextFence, state := Consumed,
                   settlementTransactionHash := Some d\<rparr>))
      | Expire _ _ \<Rightarrow>
          if state r \<noteq> Reserved \<or> t < expiresAt r
          then Inl (protocol_error ''Only an elapsed unselected reservation can expire.'')
          else Inr (r\<lparr>updatedAt := t, fence := nextFence, state := Expired\<rparr>)
      | Quarantine _ _ why \<Rightarrow>
          bind_r (requireText why ''quarantine reason'') (\<lambda>d.
            Inr (r\<lparr>updatedAt := t, fence := nextFence, state := Quarantined,
                   terminalReason := Some d\<rparr>)))"

definition transitionMakerReservation ::
  "maker_reservation \<Rightarrow> reservation_command \<Rightarrow> maker_reservation result" where
  "transitionMakerReservation r c =
     bind_r (assert_reservation r) (\<lambda>_.
     if expectedFence c \<noteq> fence r then Inl (protocol_error ''Reservation fence is stale.'')
     else if is_terminal (state r)
     then Inl (protocol_error ''Terminal reservation state cannot transition.'')
     else bind_r (requireTimestamp (cmd_at c) ''transition time'') (\<lambda>t.
     if t < updatedAt r then Inl (protocol_error ''Reservation transition time moved backwards.'')
     else bind_r (requirePositiveU256 (fence r + 1) ''next fence'') (\<lambda>nextFence.
     bind_r (apply_command r c t nextFence) assert_reservation)))"

lemmas [eval_simps] = createMakerReservation_def is_terminal_def apply_command_def
  transitionMakerReservation_def

section \<open>The lifecycle as a step relation\<close>

text \<open>
  What a transition promises, free of validation: one rule per command, with the guard of the
  code's branch. \<open>stamp\<close> is what every rule does to the clock and the fence.
\<close>

definition stamp :: "int \<Rightarrow> maker_reservation \<Rightarrow> maker_reservation" where
  "stamp t r = r\<lparr>updatedAt := t, fence := fence r + 1\<rparr>"

inductive res_step :: "maker_reservation \<Rightarrow> int \<Rightarrow> reservation_command \<Rightarrow> maker_reservation \<Rightarrow> bool" where
  select: "state r = Reserved \<Longrightarrow> t < expiresAt r \<Longrightarrow> digest_text q \<Longrightarrow>
     res_step r t (Select f a q)
       ((stamp t r)\<lparr>state := Selected, selectedQuoteDigest := Some (to_lower (trim q))\<rparr>)"
| release: "state r \<in> {Reserved, Selected} \<Longrightarrow> t < expiresAt r \<Longrightarrow> trim w \<noteq> [] \<Longrightarrow>
     res_step r t (Release f a w)
       ((stamp t r)\<lparr>state := Released, terminalReason := Some (trim w)\<rparr>)"
| begin_fill: "state r = Selected \<Longrightarrow> t < expiresAt r \<Longrightarrow> digest_text k \<Longrightarrow>
     res_step r t (BeginFill f a k)
       ((stamp t r)\<lparr>state := Filling, settlementAttemptId := Some (to_lower (trim k))\<rparr>)"
| consume: "state r = Filling \<Longrightarrow> requireFelt h ''settlementTransactionHash'' = Inr x \<Longrightarrow>
     res_step r t (Consume f a h)
       ((stamp t r)\<lparr>state := Consumed, settlementTransactionHash := Some x\<rparr>)"
| expire: "state r = Reserved \<Longrightarrow> expiresAt r \<le> t \<Longrightarrow>
     res_step r t (Expire f a) ((stamp t r)\<lparr>state := Expired\<rparr>)"
| quarantine: "state r \<in> {Reserved, Selected, Filling} \<Longrightarrow> trim w \<noteq> [] \<Longrightarrow>
     res_step r t (Quarantine f a w)
       ((stamp t r)\<lparr>state := Quarantined, terminalReason := Some (trim w)\<rparr>)"

inductive_simps res_step_simps:
  "res_step r t (Select f a q) r'"
  "res_step r t (Release f a w) r'"
  "res_step r t (BeginFill f a k) r'"
  "res_step r t (Consume f a h) r'"
  "res_step r t (Expire f a) r'"
  "res_step r t (Quarantine f a w) r'"

lemma live_states: "\<not> is_terminal s \<longleftrightarrow> s \<in> {Reserved, Selected, Filling}"
  by (cases s) (auto simp: is_terminal_def)

lemma apply_command_step:
  "\<not> is_terminal (state r) \<Longrightarrow>
   apply_command r c t (fence r + 1) = Inr r' \<longleftrightarrow> res_step r t c r'"
  by (cases c) (auto simp: apply_command_def res_step_simps stamp_def requireDigest_Inr
      requireText_Inr digest_text_def live_states)

lemma felt_text_require: "requireFelt h l = Inr x \<Longrightarrow> felt_text x"
  by (auto simp: requireFelt_Inr felt_text_def dest: canonical_felt_idem)

lemma digest_text_norm: "digest_text q \<Longrightarrow> digest_text (to_lower (trim q))"
  using trim_hex_digits_ci[of 64 "to_lower (trim q)"] by (simp add: digest_text_def)

lemma step_valid:
  "valid_reservation r \<Longrightarrow> res_step r t c r' \<Longrightarrow> timestamp_ok t \<Longrightarrow> updatedAt r \<le> t \<Longrightarrow>
   fence r < max_u256 \<Longrightarrow> valid_reservation r'"
  by (cases c)
    (auto simp: res_step_simps stamp_def valid_reservation_def state_metadata_ok_def
      text_or_empty_def positive_u256_def digest_text_norm felt_text_require)

text \<open>
  The transition function is the step relation behind its guards; the closing assertion never
  rejects.
\<close>

lemma transition_iff:
  "transitionMakerReservation r c = Inr r' \<longleftrightarrow>
     valid_reservation r \<and> expectedFence c = fence r \<and> \<not> is_terminal (state r)
     \<and> fence r < max_u256
     \<and> (\<exists>t. cmd_at c = jint t \<and> timestamp_ok t \<and> updatedAt r \<le> t \<and> res_step r t c r')"
proof (cases "valid_reservation r \<and> fence r < max_u256 \<and> \<not> is_terminal (state r)")
  case True
  then have f: "requirePositiveU256 (fence r + 1) ''next fence'' = Inr (fence r + 1)"
    by (auto simp: requirePositiveU256_Inr valid_reservation_def positive_u256_def)
  have "bind_r (apply_command r c t (fence r + 1)) assert_reservation = Inr r'
      \<longleftrightarrow> res_step r t c r'" if "timestamp_ok t" "updatedAt r \<le> t" for t
    using True that apply_command_step[of r c t] step_valid[of r t c]
    by (auto simp: assert_reservation_iff)
  with True f show ?thesis
    by (fastforce simp: transitionMakerReservation_def assert_reservation_valid requireTimestamp_Inr
        timestamp_ok_def)
next
  case False
  then show ?thesis
    by (auto simp: transitionMakerReservation_def assert_reservation_iff requirePositiveU256_Inr)
qed


section \<open>Lifecycle properties\<close>

definition same_terms :: "maker_reservation \<Rightarrow> maker_reservation \<Rightarrow> bool" where
  "same_terms r r' =
     (reservationId r = reservationId r' \<and> makerId r = makerId r'
      \<and> intentDigest r = intentDigest r' \<and> rfqDigest r = rfqDigest r' \<and> asset r = asset r'
      \<and> amountBaseUnits r = amountBaseUnits r' \<and> createdAt r = createdAt r'
      \<and> expiresAt r = expiresAt r')"

text \<open>
  What a later version of a reservation may differ in: the order in which versions of one
  reservation follow each other.
\<close>

definition res_le :: "maker_reservation \<Rightarrow> maker_reservation \<Rightarrow> bool" where
  "res_le r r' =
     (same_terms r r' \<and> fence r \<le> fence r' \<and> updatedAt r \<le> updatedAt r'
      \<and> (is_terminal (state r) \<longrightarrow> r' = r)
      \<and> (fence r' = fence r \<longrightarrow> r' = r))"

lemma res_step_later:
  "res_step r t c r' \<Longrightarrow> same_terms r r' \<and> fence r' = fence r + 1 \<and> updatedAt r' = t"
  by (cases c) (auto simp: res_step_simps stamp_def same_terms_def)

lemma transition_res_le: "transitionMakerReservation r c = Inr r' \<Longrightarrow> res_le r r'"
  using res_step_later by (fastforce simp: transition_iff res_le_def)

lemma transition_valid: "transitionMakerReservation r c = Inr r' \<Longrightarrow> valid_reservation r'"
  using step_valid by (fastforce simp: transition_iff)

lemma res_le_trans: "res_le r s \<Longrightarrow> res_le s t \<Longrightarrow> res_le r t"
  unfolding res_le_def same_terms_def by (metis order_antisym order_trans)

interpretation lifecycle: guarded_system "\<lambda>c r. transitionMakerReservation r c" valid_reservation res_le
proof
  show "res_le s s" for s
    by (simp add: res_le_def same_terms_def)
qed (auto intro: transition_valid transition_res_le res_le_trans)

abbreviation run_reservation :: "reservation_command list \<Rightarrow> maker_reservation \<Rightarrow> maker_reservation" where
  "run_reservation \<equiv> run_cmds (\<lambda>c r. transitionMakerReservation r c)"

text \<open>
  C20: the transition function refines the abstract lifecycle: it returns a reservation exactly
  when the reservation is well-formed, the caller holds the current fence, the state is live,
  the clock does not move back, and the step relation has that step; nothing else is ever
  returned, and the closing re-validation never turns a legal step into an error.
\<close>

theorem transition_refines_lifecycle:
  "transitionMakerReservation r c = Inr r' \<longleftrightarrow>
     valid_reservation r \<and> expectedFence c = fence r \<and> \<not> is_terminal (state r)
     \<and> fence r < max_u256
     \<and> (\<exists>t. cmd_at c = jint t \<and> timestamp_ok t \<and> updatedAt r \<le> t \<and> res_step r t c r')"
  by (rule transition_iff)

text \<open>
  C21: over any sequence of commands, rejected ones included, a well-formed reservation stays
  well-formed, keeps its agreed terms, never lowers its fence or its clock, changes only with a
  larger fence, and never leaves a terminal state.
\<close>

theorem reservation_run_invariant:
  assumes "valid_reservation r"
  shows "valid_reservation (run_reservation cs r) \<and> res_le r (run_reservation cs r)"
  using assms lifecycle.run_inv lifecycle.run_le by blast

definition sample_reservation :: maker_reservation where
  "sample_reservation = \<lparr>reservationId = ''0x'' @ replicate 64 CHR ''1'', makerId = ''maker'',
     intentDigest = ''0x'' @ replicate 64 CHR ''2'', rfqDigest = ''0x'' @ replicate 64 CHR ''3'',
     asset = ''0x5'', amountBaseUnits = 10, createdAt = 100, expiresAt = 200, updatedAt = 100,
     fence = 1, state = Reserved, selectedQuoteDigest = None, settlementAttemptId = None,
     settlementTransactionHash = None, terminalReason = None\<rparr>"

lemma list_all_replicate [simp]: "list_all P (replicate n x) \<longleftrightarrow> n = 0 \<or> P x"
  by (induction n) auto

lemma digest_text_sample: "is_digit c \<Longrightarrow> digest_text (''0x'' @ replicate 64 c)"
proof -
  assume c: "is_digit c"
  let ?s = "''0x'' @ replicate 64 c"
  have h: "hex_digits_ci 64 ?s"
    using c by (simp add: hex_digits_ci_def is_hex_def is_hex_lower_def)
  have "to_lower ?s = ?s"
    using c by (simp add: to_lower_def lower_char_def is_upper_alpha_def is_digit_def code_x code_zero)
  with h trim_hex_digits_ci[OF h] show ?thesis
    by (simp add: digest_text_def)
qed

lemma sample_valid: "valid_reservation sample_reservation"
proof -
  have "felt_text ''0x5''"
    by (simp add: felt_text_def eval_simps)
  moreover have "trim ''maker'' \<noteq> []"
    by (simp add: eval_simps)
  ultimately show ?thesis
    by (simp add: valid_reservation_def sample_reservation_def digest_text_sample[simplified] state_metadata_ok_def
        positive_u256_def timestamp_ok_def max_u256_def max_safe_def max_reservation_lifetime_def
        is_digit_def code_def)
qed

lemma sample_expires:
  "transitionMakerReservation sample_reservation (Expire 1 (jint 200)) =
     Inr ((stamp 200 sample_reservation)\<lparr>state := Expired\<rparr>)"
proof -
  have "res_step sample_reservation 200 (Expire 1 (jint 200))
      ((stamp 200 sample_reservation)\<lparr>state := Expired\<rparr>)"
    by (rule res_step.expire) (simp_all add: sample_reservation_def)
  then show ?thesis
    unfolding transition_iff using sample_valid
    by (simp add: timestamp_ok_def max_safe_def max_u256_def is_terminal_def)
      (simp add: sample_reservation_def)
qed

theorem reservation_run_invariant_witness:
  "valid_reservation (run_reservation [Expire 1 (jint 200), Release 2 (jint 201) ''late'']
       sample_reservation)
   \<and> state (run_reservation [Expire 1 (jint 200), Release 2 (jint 201) ''late'']
       sample_reservation) = Expired"
proof -
  note e = sample_expires
  have "transitionMakerReservation ((stamp 200 sample_reservation)\<lparr>state := Expired\<rparr>)
      (Release 2 (jint 201) ''late'') \<noteq> Inr x" for x
    unfolding transition_iff by (simp add: is_terminal_def)
  then obtain m where "transitionMakerReservation ((stamp 200 sample_reservation)\<lparr>state := Expired\<rparr>)
      (Release 2 (jint 201) ''late'') = Inl m"
    by (metis sum.exhaust)
  with e show ?thesis
    using reservation_run_invariant[OF sample_valid,
        of "[Expire 1 (jint 200), Release 2 (jint 201) ''late'']"] by simp
qed


section \<open>Canonical text\<close>

definition opt_require :: "(string \<Rightarrow> string \<Rightarrow> string result) \<Rightarrow> string option \<Rightarrow> string \<Rightarrow> string option result" where
  "opt_require f x label =
     (case x of None \<Rightarrow> Inr None | Some s \<Rightarrow> bind_r (f s label) (\<lambda>t. Inr (Some t)))"

definition opt_json :: "string \<Rightarrow> string option \<Rightarrow> (string \<times> json) list" where
  "opt_json k x = (case x of None \<Rightarrow> [] | Some s \<Rightarrow> [(k, Jstr s)])"

definition reservation_json :: "maker_reservation \<Rightarrow> json" where
  "reservation_json r = Jobj
     ([(''amountBaseUnits'', Jstr (dec_int (amountBaseUnits r))), (''asset'', Jstr (asset r)),
       (''createdAt'', Jint (createdAt r)), (''domain'', Jstr reservation_domain),
       (''expiresAt'', Jint (expiresAt r)), (''fence'', Jstr (dec_int (fence r))),
       (''intentDigest'', Jstr (intentDigest r)), (''makerId'', Jstr (makerId r)),
       (''reservationId'', Jstr (reservationId r)), (''rfqDigest'', Jstr (rfqDigest r))]
      @ opt_json ''selectedQuoteDigest'' (selectedQuoteDigest r)
      @ opt_json ''settlementAttemptId'' (settlementAttemptId r)
      @ opt_json ''settlementTransactionHash'' (settlementTransactionHash r)
      @ [(''state'', Jstr (state_text (state r)))]
      @ opt_json ''terminalReason'' (terminalReason r)
      @ [(''updatedAt'', Jint (updatedAt r)), (''version'', Jint 1)])"

definition canonicalMakerReservation :: "maker_reservation \<Rightarrow> string result" where
  "canonicalMakerReservation r =
     bind_r (assert_reservation r) (\<lambda>_.
     bind_r (requireFelt (asset r) ''asset'') (\<lambda>ast.
     bind_r (requireDigest (intentDigest r) ''intentDigest'') (\<lambda>idg.
     bind_r (requireText (makerId r) ''makerId'') (\<lambda>mid.
     bind_r (requireDigest (reservationId r) ''reservationId'') (\<lambda>rid.
     bind_r (requireDigest (rfqDigest r) ''rfqDigest'') (\<lambda>rdg.
     bind_r (opt_require requireDigest (selectedQuoteDigest r) ''selectedQuoteDigest'') (\<lambda>sq.
     bind_r (opt_require requireDigest (settlementAttemptId r) ''settlementAttemptId'') (\<lambda>sa.
     bind_r (opt_require requireFelt (settlementTransactionHash r) ''settlementTransactionHash'') (\<lambda>sh.
     bind_r (opt_require requireText (terminalReason r) ''terminalReason'') (\<lambda>tr.
     Inr (json_text (reservation_json (r\<lparr>reservationId := rid, makerId := mid, intentDigest := idg,
       rfqDigest := rdg, asset := ast, selectedQuoteDigest := sq, settlementAttemptId := sa,
       settlementTransactionHash := sh, terminalReason := tr\<rparr>)))))))))))))"

text \<open>The normal form the canonical text spells out.\<close>

definition norm_reservation :: "maker_reservation \<Rightarrow> maker_reservation" where
  "norm_reservation r = r\<lparr>reservationId := to_lower (trim (reservationId r)),
     makerId := trim (makerId r), intentDigest := to_lower (trim (intentDigest r)),
     rfqDigest := to_lower (trim (rfqDigest r)), asset := felt_norm (asset r),
     selectedQuoteDigest := map_option (\<lambda>s. to_lower (trim s)) (selectedQuoteDigest r),
     settlementAttemptId := map_option (\<lambda>s. to_lower (trim s)) (settlementAttemptId r),
     settlementTransactionHash := map_option felt_norm (settlementTransactionHash r),
     terminalReason := map_option trim (terminalReason r)\<rparr>"

definition printable_reservation :: "maker_reservation \<Rightarrow> bool" where
  "printable_reservation r =
     (valid_reservation r \<and> pred_option digest_text (selectedQuoteDigest r)
      \<and> pred_option digest_text (settlementAttemptId r)
      \<and> pred_option felt_text (settlementTransactionHash r)
      \<and> pred_option (\<lambda>s. trim s \<noteq> []) (terminalReason r))"

lemma felt_norm_require: "requireFelt s l = Inr t \<longleftrightarrow> felt_text s \<and> t = felt_norm s"
  by (auto simp: requireFelt_Inr felt_text_def felt_norm_def)

lemma opt_require_Inr:
  "opt_require requireDigest x l = Inr y \<longleftrightarrow>
     pred_option digest_text x \<and> y = map_option (\<lambda>s. to_lower (trim s)) x"
  "opt_require requireFelt x l = Inr y \<longleftrightarrow> pred_option felt_text x \<and> y = map_option felt_norm x"
  "opt_require requireText x l = Inr y \<longleftrightarrow>
     pred_option (\<lambda>s. trim s \<noteq> []) x \<and> y = map_option trim x"
  by (cases x; auto simp: opt_require_def requireDigest_Inr felt_norm_require requireText_Inr
      digest_text_def)+

lemma canonical_reservation_iff:
  "canonicalMakerReservation r = Inr s \<longleftrightarrow>
     printable_reservation r \<and> s = json_text (reservation_json (norm_reservation r))"
  unfolding canonicalMakerReservation_def bind_r_eq_Inr assert_reservation_iff
    opt_require_Inr felt_norm_require requireDigest_Inr requireText_Inr
  by (auto simp: printable_reservation_def norm_reservation_def valid_reservation_def digest_text_def)

lemma opt_json_inject:
  "opt_json k x @ (l, v) # t = opt_json k x' @ (l, v') # t' \<Longrightarrow> k \<noteq> l \<Longrightarrow> x = x' \<and> v = v' \<and> t = t'"
  by (cases x; cases x') (auto simp: opt_json_def)

lemma opt_json_inject2:
  "opt_json k x @ opt_json l y @ t = opt_json k x' @ opt_json l y' @ t' \<Longrightarrow>
   k \<noteq> l \<Longrightarrow> k \<notin> fst ` set t \<Longrightarrow> k \<notin> fst ` set t' \<Longrightarrow>
   x = x' \<and> opt_json l y @ t = opt_json l y' @ t'"
  by (cases x; cases x'; cases y; cases y'; cases t; cases t') (auto simp: opt_json_def)

lemma reservation_json_inject: "reservation_json r = reservation_json r' \<Longrightarrow> r = r'"
proof -
  assume e: "reservation_json r = reservation_json r'"
  let ?t = "\<lambda>r. [(''state'', Jstr (state_text (state r)))]
      @ opt_json ''terminalReason'' (terminalReason r)
      @ [(''updatedAt'', Jint (updatedAt r)), (''version'', Jint 1)]"
  have k: "k \<notin> fst ` set (?t r)"
    if "k \<in> {''selectedQuoteDigest'', ''settlementAttemptId'', ''settlementTransactionHash''}" for k r
    using that by (auto simp: opt_json_def split: option.splits)
  have o: "opt_json ''selectedQuoteDigest'' (selectedQuoteDigest r)
      @ opt_json ''settlementAttemptId'' (settlementAttemptId r)
      @ opt_json ''settlementTransactionHash'' (settlementTransactionHash r) @ ?t r
    = opt_json ''selectedQuoteDigest'' (selectedQuoteDigest r')
      @ opt_json ''settlementAttemptId'' (settlementAttemptId r')
      @ opt_json ''settlementTransactionHash'' (settlementTransactionHash r') @ ?t r'"
    and rest: "amountBaseUnits r = amountBaseUnits r'" "asset r = asset r'" "createdAt r = createdAt r'"
      "expiresAt r = expiresAt r'" "fence r = fence r'" "intentDigest r = intentDigest r'"
      "makerId r = makerId r'" "reservationId r = reservationId r'" "rfqDigest r = rfqDigest r'"
    using e by (auto simp: reservation_json_def)
  have "\<And>r. ''selectedQuoteDigest'' \<notin> fst ` set (opt_json ''settlementTransactionHash''
      (settlementTransactionHash r) @ ?t r)"
    using k by (auto simp: opt_json_def split: option.splits)
  from opt_json_inject2[OF o _ this this]
  have 1: "selectedQuoteDigest r = selectedQuoteDigest r'"
    and o2: "opt_json ''settlementAttemptId'' (settlementAttemptId r)
      @ opt_json ''settlementTransactionHash'' (settlementTransactionHash r) @ ?t r
    = opt_json ''settlementAttemptId'' (settlementAttemptId r')
      @ opt_json ''settlementTransactionHash'' (settlementTransactionHash r') @ ?t r'"
    by auto
  from opt_json_inject2[OF o2 _ k k]
  have 2: "settlementAttemptId r = settlementAttemptId r'"
    and o3: "opt_json ''settlementTransactionHash'' (settlementTransactionHash r) @ ?t r
      = opt_json ''settlementTransactionHash'' (settlementTransactionHash r') @ ?t r'"
    by auto
  let ?u = "\<lambda>r. [(''updatedAt'', Jint (updatedAt r)), (''version'', Jint 1)]"
  have o3': "opt_json ''settlementTransactionHash'' (settlementTransactionHash r)
      @ (''state'', Jstr (state_text (state r))) # opt_json ''terminalReason'' (terminalReason r) @ ?u r
    = opt_json ''settlementTransactionHash'' (settlementTransactionHash r')
      @ (''state'', Jstr (state_text (state r'))) # opt_json ''terminalReason'' (terminalReason r') @ ?u r'"
    using o3 by simp
  from opt_json_inject[OF this]
  have 3: "settlementTransactionHash r = settlementTransactionHash r'" "state r = state r'"
    and o4: "opt_json ''terminalReason'' (terminalReason r) @ ?u r
      = opt_json ''terminalReason'' (terminalReason r') @ ?u r'"
    by simp_all
  from opt_json_inject[OF o4]
  have 4: "terminalReason r = terminalReason r'" "updatedAt r = updatedAt r'"
    by simp_all
  with 1 2 3 4 rest show ?thesis
    by (cases r; cases r') simp
qed

lemma canonical_reservation_norm:
  "canonicalMakerReservation r = Inr s \<Longrightarrow> canonicalMakerReservation r' = Inr s \<Longrightarrow>
   norm_reservation r = norm_reservation r'"
  by (auto simp: canonical_reservation_iff dest: reservation_json_inject)

section \<open>The compare-and-swap contract of every store\<close>

definition expected_command :: "maker_reservation \<Rightarrow> maker_reservation \<Rightarrow> reservation_command result" where
  "expected_command current nxt =
     (case state nxt of
        Selected \<Rightarrow> Inr (Select (fence current) (jint (updatedAt nxt))
          (text_or_empty (selectedQuoteDigest nxt)))
      | Released \<Rightarrow> Inr (Release (fence current) (jint (updatedAt nxt))
          (text_or_empty (terminalReason nxt)))
      | Expired \<Rightarrow> Inr (Expire (fence current) (jint (updatedAt nxt)))
      | Quarantined \<Rightarrow> Inr (Quarantine (fence current) (jint (updatedAt nxt))
          (text_or_empty (terminalReason nxt)))
      | Filling \<Rightarrow> Inl (protocol_error
          ''Value-moving transitions require the durable idempotency-attempt API.'')
      | Consumed \<Rightarrow> Inl (protocol_error
          ''Value-moving transitions require the durable idempotency-attempt API.'')
      | Reserved \<Rightarrow> Inl (protocol_error
          ''An existing reservation cannot transition to reserved.''))"

definition assertMakerReservationMutation ::
  "maker_reservation option \<Rightarrow> maker_reservation \<Rightarrow> int option \<Rightarrow> unit result" where
  "assertMakerReservationMutation prior nxt expected =
     bind_r (assert_reservation nxt) (\<lambda>_.
     (case prior of
        None \<Rightarrow>
          if expected \<noteq> None \<or> state nxt \<noteq> Reserved \<or> updatedAt nxt \<noteq> createdAt nxt
            \<or> selectedQuoteDigest nxt \<noteq> None \<or> settlementAttemptId nxt \<noteq> None
            \<or> settlementTransactionHash nxt \<noteq> None \<or> terminalReason nxt \<noteq> None
          then Inl (protocol_error ''Reservation create compare-and-swap failed.'')
          else Inr ()
      | Some current \<Rightarrow>
          bind_r (assert_reservation current) (\<lambda>_.
          if expected \<noteq> Some (fence current)
          then Inl (protocol_error ''Reservation fence compare-and-swap failed: stale fence.'')
          else if \<not> same_terms current nxt
          then Inl (protocol_error ''Reservation immutable fields changed.'')
          else bind_r (expected_command current nxt) (\<lambda>cmd.
          bind_r (transitionMakerReservation current cmd) (\<lambda>e.
          bind_r (canonicalMakerReservation e) (\<lambda>canonicalE.
          bind_r (canonicalMakerReservation nxt) (\<lambda>canonicalN.
          if canonicalE \<noteq> canonicalN
          then Inl (protocol_error ''Reservation transition does not match the lifecycle.'')
          else Inr ())))))))"

lemmas [eval_simps] = expected_command_def assertMakerReservationMutation_def

lemma expected_command_Inr:
  "expected_command r n = Inr c \<Longrightarrow>
     expectedFence c = fence r \<and> cmd_at c = jint (updatedAt n)
     \<and> state n \<in> {Selected, Released, Expired, Quarantined}
     \<and> (\<forall>t r'. res_step r t c r' \<longrightarrow> state r' = state n)"
  by (cases "state n") (auto simp: expected_command_def res_step_simps)

lemma mutation_step:
  assumes "assertMakerReservationMutation (Some r) r' expected = Inr ()"
  shows "expected = Some (fence r) \<and> same_terms r r' \<and> fence r' = fence r + 1
    \<and> \<not> is_terminal (state r) \<and> updatedAt r \<le> updatedAt r' \<and> state r' \<in> {Selected, Released, Expired, Quarantined}
    \<and> (\<exists>c e. res_step r (updatedAt r') c e \<and> norm_reservation e = norm_reservation r')"
proof -
  from assms obtain c e s where
    a: "expected = Some (fence r)" "same_terms r r'" and c: "expected_command r r' = Inr c"
    and t: "transitionMakerReservation r c = Inr e"
    and s: "canonicalMakerReservation e = Inr s" "canonicalMakerReservation r' = Inr s"
    by (auto simp: assertMakerReservationMutation_def split: if_splits)
  from t expected_command_Inr[OF c] have st: "res_step r (updatedAt r') c e" "\<not> is_terminal (state r)"
    "updatedAt r \<le> updatedAt r'"
    by (auto simp: transition_iff)
  have n: "norm_reservation e = norm_reservation r'"
    using canonical_reservation_norm[OF s] .
  have "fence e = fence r'"
    using arg_cong[OF n, of fence] by (simp add: norm_reservation_def)
  with res_step_later[OF st(1)] a st n expected_command_Inr[OF c] show ?thesis
    by auto
qed

text \<open>
  Replacing a stored reservation is accepted only by a holder of its current fence, only as
  one lifecycle step of a kind that moves no value, and only with the agreed terms unchanged;
  the fence then grows by exactly one and the previous version was not terminal.
\<close>

lemma mutation_is_lifecycle_step:
  assumes "assertMakerReservationMutation (Some r) r' expected = Inr ()"
  shows "expected = Some (fence r) \<and> same_terms r r' \<and> fence r' = fence r + 1
    \<and> \<not> is_terminal (state r) \<and> state r' \<in> {Selected, Released, Expired, Quarantined}
    \<and> (\<exists>c e. res_step r (updatedAt r') c e \<and> norm_reservation e = norm_reservation r')"
  using mutation_step[OF assms] by blast

lemma mutation_accepts:
  "transitionMakerReservation r c = Inr r' \<Longrightarrow> expected_command r r' = Inr c \<Longrightarrow>
   printable_reservation r' \<Longrightarrow>
   assertMakerReservationMutation (Some r) r' (Some (fence r)) = Inr ()"
  using res_step_later
  by (fastforce simp: assertMakerReservationMutation_def transition_iff assert_reservation_iff
      canonical_reservation_iff printable_reservation_def)

lemma mutation_is_lifecycle_step_witness:
  "\<exists>r r'. assertMakerReservationMutation (Some r) r' (Some 1) = Inr () \<and> fence r = 1 \<and> fence r' = 2"
proof -
  let ?r' = "(stamp 200 sample_reservation)\<lparr>state := Expired\<rparr>"
  have "printable_reservation ?r'"
    using transition_valid[OF sample_expires]
    by (simp add: printable_reservation_def stamp_def sample_reservation_def)
  moreover have "expected_command sample_reservation ?r' = Inr (Expire 1 (jint 200))"
    by (simp add: expected_command_def stamp_def sample_reservation_def)
  ultimately have "assertMakerReservationMutation (Some sample_reservation) ?r' (Some (fence sample_reservation)) = Inr ()"
    by (rule mutation_accepts[OF sample_expires, rotated])
  moreover from mutation_is_lifecycle_step[OF this] have "fence ?r' = fence sample_reservation + 1"
    by blast
  moreover have "fence sample_reservation = 1"
    by (simp add: sample_reservation_def)
  ultimately have "assertMakerReservationMutation (Some sample_reservation) ?r' (Some 1) = Inr ()
      \<and> fence sample_reservation = 1 \<and> fence ?r' = 2"
    by simp
  then show ?thesis by blast
qed

text \<open>
  The canonical text of a reservation binds every field: two reservations with the same text
  (hence with the same digest, short of a hash collision) agree on all fields up to the letter
  case and surrounding white space that the validators normalise away.
\<close>

lemma canonical_reservation_binds:
  assumes "canonicalMakerReservation r = Inr s" and "canonicalMakerReservation r' = Inr s"
  shows "norm_reservation r = norm_reservation r'"
  using assms by (rule canonical_reservation_norm)

lemma canonical_reservation_binds_witness:
  "\<exists>s. canonicalMakerReservation sample_reservation = Inr s
     \<and> canonicalMakerReservation (sample_reservation\<lparr>makerId := '' maker''\<rparr>) = Inr s
     \<and> norm_reservation sample_reservation
       = norm_reservation (sample_reservation\<lparr>makerId := '' maker''\<rparr>)"
proof -
  let ?r = "sample_reservation" and ?q = "sample_reservation\<lparr>makerId := '' maker''\<rparr>"
  have m: "makerId ?r = ''maker''" "trim '' maker'' = ''maker''" "trim ''maker'' = ''maker''"
    by (simp_all add: sample_reservation_def trim_def is_ws_def code_def)
  have "state ?r = Reserved"
    by (simp add: sample_reservation_def)
  then have "valid_reservation ?q"
    using sample_valid m by (simp add: valid_reservation_def state_metadata_ok_def)
  then have p: "printable_reservation ?r" "printable_reservation ?q"
    using sample_valid by (simp_all add: printable_reservation_def sample_reservation_def)
  have "norm_reservation ?q = norm_reservation ?r"
    using m by (simp add: norm_reservation_def)
  then have s: "canonicalMakerReservation ?r = Inr (json_text (reservation_json (norm_reservation ?r)))"
    "canonicalMakerReservation ?q = Inr (json_text (reservation_json (norm_reservation ?r)))"
    using p by (simp_all add: canonical_reservation_iff)
  from s canonical_reservation_binds[OF s] show ?thesis by blast
qed

end
