(* ===== verification/Reservation_Codec.thy ===== *)
theory Reservation_Codec
  imports Reservation
begin

text \<open>
  The stored form of a maker reservation (packages/private-intents/src/reservation-codec.ts) and
  the bigint-carrying JSON the ledger keeps it in (\<open>jsonStringify\<close>, \<open>jsonParse\<close>, \<open>wire\<close> of
  workers/relay/src/reservation-ledger-do.ts). The lemmas show that what the codec returns is
  read back unchanged after a trip through the store.
\<close>

section \<open>Records\<close>

datatype reconciliation_outcome = Settled | Refunded

definition outcome_text :: "reconciliation_outcome \<Rightarrow> string" where
  "outcome_text o' = (case o' of Settled \<Rightarrow> ''settled'' | Refunded \<Rightarrow> ''refunded'')"

record reconciliation_binding =
  rb_attemptId :: string
  rb_authorityDigest :: string
  rb_authorityRevision :: int
  rb_outcome :: reconciliation_outcome
  rb_selectionFence :: int

datatype quarantine_reason = AuthorityDisagreement | AuthorityReorged

definition reason_text :: "quarantine_reason \<Rightarrow> string" where
  "reason_text q = (case q of AuthorityDisagreement \<Rightarrow> ''authority-disagreement''
     | AuthorityReorged \<Rightarrow> ''authority-reorged'')"

record authority_quarantine =
  aq_binding :: reconciliation_binding
  aq_reason :: quarantine_reason
  aq_quarantinedAt :: int

record terminal_reconciliation =
  tr_binding :: reconciliation_binding
  tr_reconciledAt :: int

record stored_reservation =
  sr_reservation :: maker_reservation
  sr_nonce :: string
  sr_solverId :: string
  sr_solverKey :: string
  sr_spreadBps :: int
  sr_sellToken :: string
  sr_sellAmount :: int
  sr_buyToken :: string
  sr_grossBuyAmount :: int
  sr_buyAmount :: int
  sr_minBuyAmount :: int
  sr_rfqExpiresAt :: int
  sr_pricingProvenance :: string
  sr_signed :: "(string \<times> string \<times> string) option" \<comment> \<open>signedCanonical, signature, quoteDigest\<close>
  sr_settlementDealId :: "string option"
  sr_settlementDeadline :: "int option"
  sr_settlementTicketAddress :: "string option"
  sr_authorityQuarantine :: "authority_quarantine option"
  sr_terminalReconciliation :: "terminal_reconciliation option"

section \<open>Decoding\<close>

definition stored_required :: "string list" where
  "stored_required = [''reservation'', ''nonce'', ''solverId'', ''solverKey'', ''spreadBps'',
     ''sellToken'', ''sellAmount'', ''buyToken'', ''grossBuyAmount'', ''buyAmount'',
     ''minBuyAmount'', ''rfqExpiresAt'', ''pricingProvenance'']"

definition stored_optional :: "string list" where
  "stored_optional = [''signedCanonical'', ''signature'', ''quoteDigest'', ''settlementDealId'',
     ''settlementDeadline'', ''settlementTicketAddress'', ''authorityQuarantine'',
     ''terminalReconciliation'']"

definition max_u128 :: int where
  "max_u128 = 2 ^ 128 - 1"

definition codec_object :: "jsval \<Rightarrow> string \<Rightarrow> fields result" where
  "codec_object v label = (case v of JObj kvs \<Rightarrow> Inr kvs | _ \<Rightarrow> Inl (Err (label @ '' is invalid.'')))"

definition codec_text :: "jsval \<Rightarrow> string \<Rightarrow> string result" where
  "codec_text v label =
     (case v of JStr s \<Rightarrow> if trim s = [] then Inl (Err (label @ '' is required.'')) else Inr (trim s)
      | _ \<Rightarrow> Inl (Err (label @ '' is required.'')))"

definition codec_hex32 :: "jsval \<Rightarrow> string \<Rightarrow> string result" where
  "codec_hex32 v label =
     bind_r (codec_text v label) (\<lambda>t.
     let normalized = to_lower t in
     if \<not> hex_digits 64 normalized
     then Inl (Err (label @ '' must be a canonical 32-byte hex value.'')) else Inr normalized)"

definition codec_amount :: "jsval \<Rightarrow> string \<Rightarrow> int result" where
  "codec_amount v label =
     (case v of JBig n \<Rightarrow> if n \<le> 0 \<or> max_u128 < n
          then Inl (Err (label @ '' must be a positive u128 value.'')) else Inr n
      | _ \<Rightarrow> Inl (Err (label @ '' must be a positive u128 value.'')))"

definition value_safe_int :: "jsval \<Rightarrow> int option" where
  "value_safe_int v = (case v of JNum n \<Rightarrow> as_safe_int n | _ \<Rightarrow> None)"

definition codec_timestamp :: "jsval \<Rightarrow> string \<Rightarrow> int result" where
  "codec_timestamp v label =
     (case value_safe_int v of
        Some n \<Rightarrow> if n \<le> 0
          then Inl (Err (label @ '' must be a positive unix-seconds timestamp.'')) else Inr n
      | None \<Rightarrow> Inl (Err (label @ '' must be a positive unix-seconds timestamp.'')))"

definition codec_reconciliation :: "jsval \<Rightarrow> string \<Rightarrow> reconciliation_binding result" where
  "codec_reconciliation v label =
     bind_r (codec_object v (label @ '' metadata'')) (\<lambda>kvs.
     bind_r (if get_field kvs ''outcome'' = JStr ''settled'' then Inr Settled
             else if get_field kvs ''outcome'' = JStr ''refunded'' then Inr Refunded
             else Inl (Err (label @ '' outcome is invalid.''))) (\<lambda>oc.
     bind_r (codec_text (get_field kvs ''attemptId'') (label @ '' attemptId'')) (\<lambda>a.
     bind_r (codec_hex32 (get_field kvs ''authorityDigest'') (label @ '' authorityDigest'')) (\<lambda>d.
     bind_r (codec_timestamp (get_field kvs ''authorityRevision'') (label @ '' authorityRevision'')) (\<lambda>rv.
     bind_r (codec_amount (get_field kvs ''selectionFence'') (label @ '' selectionFence'')) (\<lambda>f.
     Inr \<lparr>rb_attemptId = a, rb_authorityDigest = d, rb_authorityRevision = rv,
          rb_outcome = oc, rb_selectionFence = f\<rparr>))))))"

definition codec_optional :: "(jsval \<Rightarrow> 'a result) \<Rightarrow> jsval \<Rightarrow> 'a option result" where
  "codec_optional f v = (if v = JUndef then Inr None else bind_r (f v) (\<lambda>x. Inr (Some x)))"

definition decode_quarantine :: "jsval \<Rightarrow> authority_quarantine result" where
  "decode_quarantine v =
     bind_r (codec_reconciliation v ''authority quarantine'') (\<lambda>b.
     bind_r (codec_object v ''authority quarantine metadata'') (\<lambda>kvs.
     bind_r (if get_field kvs ''reason'' = JStr ''authority-disagreement'' then Inr AuthorityDisagreement
             else if get_field kvs ''reason'' = JStr ''authority-reorged'' then Inr AuthorityReorged
             else Inl (Err ''authority quarantine reason is invalid.'')) (\<lambda>rs.
     bind_r (codec_timestamp (get_field kvs ''quarantinedAt'')
               ''authority quarantine quarantinedAt'') (\<lambda>t.
     Inr \<lparr>aq_binding = b, aq_reason = rs, aq_quarantinedAt = t\<rparr>))))"

definition decode_terminal :: "jsval \<Rightarrow> terminal_reconciliation result" where
  "decode_terminal v =
     bind_r (codec_reconciliation v ''terminal reconciliation'') (\<lambda>b.
     bind_r (codec_object v ''terminal reconciliation metadata'') (\<lambda>kvs.
     bind_r (codec_timestamp (get_field kvs ''reconciledAt'')
               ''terminal reconciliation reconciledAt'') (\<lambda>t.
     Inr \<lparr>tr_binding = b, tr_reconciledAt = t\<rparr>)))"

definition decode_signed :: "fields \<Rightarrow> (string \<times> string \<times> string) option result" where
  "decode_signed kvs =
     (if get_field kvs ''signedCanonical'' = JUndef then Inr None
      else bind_r (codec_text (get_field kvs ''signedCanonical'') ''signedCanonical'') (\<lambda>c.
        bind_r (codec_text (get_field kvs ''signature'') ''signature'') (\<lambda>s.
        bind_r (codec_hex32 (get_field kvs ''quoteDigest'') ''quoteDigest'') (\<lambda>d.
        Inr (Some (c, s, d))))))"

definition check_stored_shape :: "fields \<Rightarrow> unit result" where
  "check_stored_shape kvs =
     (case find (\<lambda>f. \<not> has_field kvs f) stored_required of
        Some f \<Rightarrow> Inl (Err (''Stored maker reservation '' @ f @ '' is required.''))
      | None \<Rightarrow>
     (case find (\<lambda>f. f \<notin> set stored_required \<and> f \<notin> set stored_optional) (obj_keys kvs) of
        Some f \<Rightarrow> Inl (Err (''Stored maker reservation field '' @ f @ '' is unsupported.''))
      | None \<Rightarrow> Inr ()))"

definition decodeStoredMakerReservation :: "jsval \<Rightarrow> stored_reservation result" where
  "decodeStoredMakerReservation v =
     bind_r (codec_object v ''Stored maker reservation'') (\<lambda>kvs.
     bind_r (check_stored_shape kvs) (\<lambda>_.
     bind_r (assertMakerReservation (get_field kvs ''reservation'')) (\<lambda>rsv.
     bind_r (canonicalMakerReservation rsv) (\<lambda>_.
     bind_r (case value_safe_int (get_field kvs ''spreadBps'') of
               Some n \<Rightarrow> if n < 0 then Inl (Err ''spreadBps must be a non-negative safe integer.'')
                 else Inr n
             | None \<Rightarrow> Inl (Err ''spreadBps must be a non-negative safe integer.'')) (\<lambda>spread.
     if (get_field kvs ''signedCanonical'' = JUndef) \<noteq> (get_field kvs ''signature'' = JUndef)
       \<or> (get_field kvs ''signedCanonical'' = JUndef) \<noteq> (get_field kvs ''quoteDigest'' = JUndef)
     then Inl (Err ''Persisted quote signature fields are incomplete.'')
     else
     bind_r (codec_hex32 (get_field kvs ''nonce'') ''nonce'') (\<lambda>nonce.
     bind_r (codec_text (get_field kvs ''solverId'') ''solverId'') (\<lambda>solverId.
     bind_r (codec_text (get_field kvs ''solverKey'') ''solverKey'') (\<lambda>solverKey.
     bind_r (codec_text (get_field kvs ''sellToken'') ''sellToken'') (\<lambda>sellToken.
     bind_r (codec_amount (get_field kvs ''sellAmount'') ''sellAmount'') (\<lambda>sellAmount.
     bind_r (codec_text (get_field kvs ''buyToken'') ''buyToken'') (\<lambda>buyToken.
     bind_r (codec_amount (get_field kvs ''grossBuyAmount'') ''grossBuyAmount'') (\<lambda>gross.
     bind_r (codec_amount (get_field kvs ''buyAmount'') ''buyAmount'') (\<lambda>buyAmount.
     bind_r (codec_amount (get_field kvs ''minBuyAmount'') ''minBuyAmount'') (\<lambda>minBuy.
     bind_r (codec_timestamp (get_field kvs ''rfqExpiresAt'') ''rfqExpiresAt'') (\<lambda>rfqExp.
     bind_r (codec_text (get_field kvs ''pricingProvenance'') ''pricingProvenance'') (\<lambda>prov.
     bind_r (decode_signed kvs) (\<lambda>signed.
     bind_r (codec_optional (\<lambda>x. codec_text x ''settlementDealId'')
               (get_field kvs ''settlementDealId'')) (\<lambda>deal.
     bind_r (codec_optional (\<lambda>x. codec_timestamp x ''settlementDeadline'')
               (get_field kvs ''settlementDeadline'')) (\<lambda>deadline.
     bind_r (codec_optional (\<lambda>x. codec_text x ''settlementTicketAddress'')
               (get_field kvs ''settlementTicketAddress'')) (\<lambda>ticket.
     bind_r (codec_optional decode_quarantine (get_field kvs ''authorityQuarantine'')) (\<lambda>quar.
     bind_r (codec_optional decode_terminal (get_field kvs ''terminalReconciliation'')) (\<lambda>term.
     Inr \<lparr>sr_reservation = rsv, sr_nonce = nonce, sr_solverId = solverId,
          sr_solverKey = solverKey, sr_spreadBps = spread, sr_sellToken = sellToken,
          sr_sellAmount = sellAmount, sr_buyToken = buyToken, sr_grossBuyAmount = gross,
          sr_buyAmount = buyAmount, sr_minBuyAmount = minBuy, sr_rfqExpiresAt = rfqExp,
          sr_pricingProvenance = prov, sr_signed = signed,
          sr_settlementDealId = map_option to_lower deal, sr_settlementDeadline = deadline,
          sr_settlementTicketAddress = map_option to_lower ticket,
          sr_authorityQuarantine = quar, sr_terminalReconciliation = term\<rparr>))))))))))))))))))))))"

section \<open>A stored reservation as the object it is at run time\<close>

definition binding_fields :: "reconciliation_binding \<Rightarrow> fields" where
  "binding_fields b = [(''attemptId'', JStr (rb_attemptId b)),
     (''authorityDigest'', JStr (rb_authorityDigest b)),
     (''authorityRevision'', JNum (jint (rb_authorityRevision b))),
     (''outcome'', JStr (outcome_text (rb_outcome b))),
     (''selectionFence'', JBig (rb_selectionFence b))]"

definition opt_value :: "string \<Rightarrow> ('a \<Rightarrow> jsval) \<Rightarrow> 'a option \<Rightarrow> fields" where
  "opt_value k f x = (case x of None \<Rightarrow> [] | Some v \<Rightarrow> [(k, f v)])"

definition quarantine_value :: "authority_quarantine \<Rightarrow> jsval" where
  "quarantine_value q = JObj (binding_fields (aq_binding q)
     @ [(''reason'', JStr (reason_text (aq_reason q))),
        (''quarantinedAt'', JNum (jint (aq_quarantinedAt q)))])"

definition terminal_value :: "terminal_reconciliation \<Rightarrow> jsval" where
  "terminal_value t = JObj (binding_fields (tr_binding t)
     @ [(''reconciledAt'', JNum (jint (tr_reconciledAt t)))])"

definition signed_fields :: "(string \<times> string \<times> string) option \<Rightarrow> fields" where
  "signed_fields x = (case x of None \<Rightarrow> []
     | Some (c, s, d) \<Rightarrow> [(''signedCanonical'', JStr c), (''signature'', JStr s), (''quoteDigest'', JStr d)])"

definition stored_fields :: "stored_reservation \<Rightarrow> fields" where
  "stored_fields s =
     [(''reservation'', reservation_value (sr_reservation s)), (''nonce'', JStr (sr_nonce s)),
      (''solverId'', JStr (sr_solverId s)), (''solverKey'', JStr (sr_solverKey s)),
      (''spreadBps'', JNum (jint (sr_spreadBps s))), (''sellToken'', JStr (sr_sellToken s)),
      (''sellAmount'', JBig (sr_sellAmount s)), (''buyToken'', JStr (sr_buyToken s)),
      (''grossBuyAmount'', JBig (sr_grossBuyAmount s)), (''buyAmount'', JBig (sr_buyAmount s)),
      (''minBuyAmount'', JBig (sr_minBuyAmount s)), (''rfqExpiresAt'', JNum (jint (sr_rfqExpiresAt s))),
      (''pricingProvenance'', JStr (sr_pricingProvenance s))]
     @ signed_fields (sr_signed s)
     @ opt_value ''settlementDealId'' JStr (sr_settlementDealId s)
     @ opt_value ''settlementDeadline'' (\<lambda>n. JNum (jint n)) (sr_settlementDeadline s)
     @ opt_value ''settlementTicketAddress'' JStr (sr_settlementTicketAddress s)
     @ opt_value ''authorityQuarantine'' quarantine_value (sr_authorityQuarantine s)
     @ opt_value ''terminalReconciliation'' terminal_value (sr_terminalReconciliation s)"

definition stored_value :: "stored_reservation \<Rightarrow> jsval" where
  "stored_value s = JObj (stored_fields s)"


section \<open>What the codec returns\<close>

definition text_normal :: "string \<Rightarrow> bool" where
  "text_normal s = (trim s = s \<and> s \<noteq> [])"

definition lower_normal :: "string \<Rightarrow> bool" where
  "lower_normal s = (text_normal s \<and> to_lower s = s)"

definition u128_amount :: "int \<Rightarrow> bool" where
  "u128_amount n = (0 < n \<and> n \<le> max_u128)"

definition binding_ok :: "reconciliation_binding \<Rightarrow> bool" where
  "binding_ok b = (text_normal (rb_attemptId b) \<and> hex_digits 64 (rb_authorityDigest b)
     \<and> timestamp_ok (rb_authorityRevision b) \<and> u128_amount (rb_selectionFence b))"

definition stored_ok :: "stored_reservation \<Rightarrow> bool" where
  "stored_ok s =
     (printable_reservation (sr_reservation s) \<and> hex_digits 64 (sr_nonce s)
      \<and> text_normal (sr_solverId s) \<and> text_normal (sr_solverKey s)
      \<and> 0 \<le> sr_spreadBps s \<and> sr_spreadBps s \<le> max_safe \<and> text_normal (sr_sellToken s)
      \<and> u128_amount (sr_sellAmount s) \<and> text_normal (sr_buyToken s)
      \<and> u128_amount (sr_grossBuyAmount s) \<and> u128_amount (sr_buyAmount s)
      \<and> u128_amount (sr_minBuyAmount s) \<and> timestamp_ok (sr_rfqExpiresAt s)
      \<and> text_normal (sr_pricingProvenance s)
      \<and> pred_option (\<lambda>(c, g, d). text_normal c \<and> text_normal g \<and> hex_digits 64 d) (sr_signed s)
      \<and> pred_option lower_normal (sr_settlementDealId s)
      \<and> pred_option timestamp_ok (sr_settlementDeadline s)
      \<and> pred_option lower_normal (sr_settlementTicketAddress s)
      \<and> pred_option (\<lambda>q. binding_ok (aq_binding q) \<and> timestamp_ok (aq_quarantinedAt q))
          (sr_authorityQuarantine s)
      \<and> pred_option (\<lambda>t. binding_ok (tr_binding t) \<and> timestamp_ok (tr_reconciledAt t))
          (sr_terminalReconciliation s))"

lemma hex_digits_ci_of: "hex_digits n s \<Longrightarrow> hex_digits_ci n s"
  by (auto simp: hex_digits_def hex_digits_ci_def list_all_iff is_hex_lower_is_hex)

lemma hex_digits_normal: "hex_digits n s \<Longrightarrow> 0 < n \<Longrightarrow> trim s = s \<and> to_lower s = s \<and> s \<noteq> []"
proof -
  assume s: "hex_digits n s" and n: "0 < n"
  have e: "s = ''0x'' @ drop 2 s"
    using s by (metis append_take_drop_id hex_digits_def)
  have "to_lower ''0x'' = ''0x''"
    by (simp add: to_lower_def lower_char_def is_upper_alpha_def code_x code_zero)
  moreover have "to_lower (drop 2 s) = drop 2 s"
    using s by (intro to_lower_hex_lower) (simp add: hex_digits_def)
  ultimately have "to_lower s = s"
    by (metis e to_lower_append)
  then show ?thesis
    using trim_hex_digits_ci[OF hex_digits_ci_of[OF s] n] e by auto
qed

lemma codec_text_Inr: "codec_text v l = Inr t \<longleftrightarrow> (\<exists>s. v = JStr s \<and> t = trim s \<and> trim s \<noteq> [])"
  by (cases v) (auto simp: codec_text_def)

lemma codec_text_normal: "codec_text v l = Inr t \<Longrightarrow> text_normal t"
  by (auto simp: codec_text_Inr text_normal_def)

lemma codec_text_of_normal: "text_normal s \<Longrightarrow> codec_text (JStr s) l = Inr s"
  by (auto simp: codec_text_Inr text_normal_def)

lemma to_lower_nil: "to_lower s = [] \<longleftrightarrow> s = []"
  by (simp add: to_lower_def)

lemma codec_text_lower: "codec_text v l = Inr t \<Longrightarrow> lower_normal (to_lower t)"
  by (auto simp: codec_text_Inr lower_normal_def text_normal_def trim_to_lower to_lower_nil)

lemma codec_hex32_ok: "codec_hex32 v l = Inr t \<Longrightarrow> hex_digits 64 t"
  by (auto simp: codec_hex32_def Let_def)

lemma codec_hex32_of: "hex_digits 64 s \<Longrightarrow> codec_hex32 (JStr s) l = Inr s"
  using hex_digits_normal[of 64 s] by (auto simp: codec_hex32_def codec_text_def Let_def)

lemma codec_amount_Inr: "codec_amount v l = Inr n \<longleftrightarrow> v = JBig n \<and> u128_amount n"
  by (cases v) (auto simp: codec_amount_def u128_amount_def)

lemma codec_timestamp_Inr: "codec_timestamp v l = Inr n \<longleftrightarrow> v = JNum (jint n) \<and> timestamp_ok n"
  by (cases v) (auto simp: codec_timestamp_def value_safe_int_def as_safe_int_Some timestamp_ok_def
      split: option.splits)

lemma value_safe_int_Some: "value_safe_int v = Some n \<longleftrightarrow> v = JNum (jint n) \<and> \<bar>n\<bar> \<le> max_safe"
  by (cases v) (auto simp: value_safe_int_def as_safe_int_Some)

lemmas codec_Inr = codec_amount_Inr codec_timestamp_Inr

lemma codec_reconciliation_ok: "codec_reconciliation v l = Inr b \<Longrightarrow> binding_ok b"
  by (auto simp: codec_reconciliation_def binding_ok_def codec_Inr
      dest: codec_text_normal codec_hex32_ok split: if_splits)

lemma decode_quarantine_ok:
  "decode_quarantine v = Inr q \<Longrightarrow> binding_ok (aq_binding q) \<and> timestamp_ok (aq_quarantinedAt q)"
  by (auto simp: decode_quarantine_def codec_Inr dest: codec_reconciliation_ok)

lemma decode_terminal_ok:
  "decode_terminal v = Inr t \<Longrightarrow> binding_ok (tr_binding t) \<and> timestamp_ok (tr_reconciledAt t)"
  by (auto simp: decode_terminal_def codec_Inr dest: codec_reconciliation_ok)

lemma codec_optional_Inr:
  "codec_optional f v = Inr x \<longleftrightarrow> (v = JUndef \<and> x = None) \<or> (v \<noteq> JUndef \<and> (\<exists>y. f v = Inr y \<and> x = Some y))"
  by (auto simp: codec_optional_def)

lemma decode_signed_ok:
  "decode_signed kvs = Inr x \<Longrightarrow>
   pred_option (\<lambda>(c, g, d). text_normal c \<and> text_normal g \<and> hex_digits 64 d) x"
  by (auto simp: decode_signed_def dest: codec_text_normal codec_hex32_ok split: if_splits)

lemma canonical_is_printable: "canonicalMakerReservation r = Inr s \<Longrightarrow> printable_reservation r"
  by (simp add: canonical_reservation_iff)

lemma decode_stored_ok: "decodeStoredMakerReservation v = Inr s \<Longrightarrow> stored_ok s"
proof -
  have spread: "(case value_safe_int u of Some n \<Rightarrow> if n < 0 then Inl e else Inr n | None \<Rightarrow> Inl e) = Inr m
      \<Longrightarrow> 0 \<le> m"
    "(case value_safe_int u of Some n \<Rightarrow> if n < 0 then Inl e else Inr n | None \<Rightarrow> Inl e) = Inr m
      \<Longrightarrow> m \<le> max_safe" for u e m
    by (auto simp: value_safe_int_Some split: option.splits if_splits)
  have amount: "codec_amount u l = Inr n \<Longrightarrow> u128_amount n" for u l n
    by (simp add: codec_amount_Inr)
  have stamp: "codec_timestamp u l = Inr n \<Longrightarrow> timestamp_ok n" for u l n
    by (simp add: codec_timestamp_Inr)
  note parts = canonical_is_printable codec_text_normal codec_hex32_ok amount stamp
    decode_signed_ok
  have parts_opt:
    "codec_optional (\<lambda>x. codec_text x l) u = Inr a \<Longrightarrow> pred_option lower_normal (map_option to_lower a)"
    "codec_optional (\<lambda>x. codec_timestamp x l) u = Inr n \<Longrightarrow> pred_option timestamp_ok n"
    "codec_optional decode_quarantine u = Inr q \<Longrightarrow>
       pred_option (\<lambda>q. binding_ok (aq_binding q) \<and> timestamp_ok (aq_quarantinedAt q)) q"
    "codec_optional decode_terminal u = Inr t \<Longrightarrow>
       pred_option (\<lambda>t. binding_ok (tr_binding t) \<and> timestamp_ok (tr_reconciledAt t)) t"
    for u l a n q t
    by (auto simp: codec_optional_Inr codec_timestamp_Inr codec_text_lower
        decode_quarantine_ok decode_terminal_ok)
  assume "decodeStoredMakerReservation v = Inr s"
  then show "stored_ok s"
    unfolding decodeStoredMakerReservation_def bind_r_eq_Inr if_Inl_eq_Inr
    by (-, elim exE conjE, simp only: sum.inject, hypsubst,
        unfold stored_ok_def stored_reservation.simps, intro conjI)
      (erule parts parts_opt spread)+
qed

section \<open>Reading back\<close>

lemma get_opt_value:
  "get_field (opt_value k f x) k' = (if k = k' then (case x of None \<Rightarrow> JUndef | Some v \<Rightarrow> f v) else JUndef)"
  by (cases x) (auto simp: opt_value_def)

lemma has_opt_value: "has_field (opt_value k f x) k' = (k = k' \<and> x \<noteq> None)"
  by (cases x) (auto simp: opt_value_def)

lemma get_signed_fields:
  "get_field (signed_fields x) ''signedCanonical'' = (case x of None \<Rightarrow> JUndef | Some (c, s, d) \<Rightarrow> JStr c)"
  "get_field (signed_fields x) ''signature'' = (case x of None \<Rightarrow> JUndef | Some (c, s, d) \<Rightarrow> JStr s)"
  "get_field (signed_fields x) ''quoteDigest'' = (case x of None \<Rightarrow> JUndef | Some (c, s, d) \<Rightarrow> JStr d)"
  by (auto simp: signed_fields_def split: option.splits)

lemma has_signed_fields:
  "has_field (signed_fields x) k =
     (x \<noteq> None \<and> k \<in> {''signedCanonical'', ''signature'', ''quoteDigest''})"
  by (auto simp: signed_fields_def split: option.splits)

lemma get_binding_fields:
  "codec_reconciliation (JObj (binding_fields b @ rest)) l = Inr b" if "binding_ok b"
proof (cases b)
  case (fields a d r oc f)
  with that show ?thesis
    by (cases oc) (auto simp: codec_reconciliation_def codec_object_def binding_fields_def
        binding_ok_def outcome_text_def codec_text_of_normal codec_hex32_of codec_Inr)
qed

lemma get_binding_other:
  "get_field (binding_fields b @ rest) k = get_field rest k"
  if "k \<notin> {''attemptId'', ''authorityDigest'', ''authorityRevision'', ''outcome'', ''selectionFence''}"
  using that by (auto simp: binding_fields_def)

lemma decode_quarantine_value:
  "binding_ok (aq_binding q) \<Longrightarrow> timestamp_ok (aq_quarantinedAt q) \<Longrightarrow>
   decode_quarantine (quarantine_value q) = Inr q"
  by (cases q; cases "aq_reason q")
    (simp_all add: decode_quarantine_def quarantine_value_def get_binding_fields codec_object_def
      get_binding_other reason_text_def codec_Inr)

lemma decode_terminal_value:
  "binding_ok (tr_binding t) \<Longrightarrow> timestamp_ok (tr_reconciledAt t) \<Longrightarrow>
   decode_terminal (terminal_value t) = Inr t"
  by (cases t)
    (simp add: decode_terminal_def terminal_value_def get_binding_fields codec_object_def
      get_binding_other codec_Inr)

lemma stored_shape: "check_stored_shape (stored_fields s) = Inr ()"
proof -
  have 1: "find (\<lambda>f. \<not> has_field (stored_fields s) f) stored_required = None"
    by (simp add: find_None_iff stored_required_def stored_fields_def)
  have "set (obj_keys (stored_fields s)) \<subseteq> set stored_required \<union> set stored_optional"
    by (auto simp: stored_fields_def obj_keys_def stored_required_def stored_optional_def
        opt_value_def signed_fields_def split: option.splits)
  then have "find (\<lambda>f. f \<notin> set stored_required \<and> f \<notin> set stored_optional)
      (obj_keys (stored_fields s)) = None"
    by (auto simp: find_None_iff)
  with 1 show ?thesis
    by (simp add: check_stored_shape_def)
qed

lemma decode_signed_fields:
  assumes "pred_option (\<lambda>(c, g, d). text_normal c \<and> text_normal g \<and> hex_digits 64 d) (sr_signed s)"
  shows "decode_signed (stored_fields s) = Inr (sr_signed s)"
  using assms
  by (auto simp: decode_signed_def stored_fields_def get_field_append get_signed_fields
      has_signed_fields get_opt_value has_opt_value codec_text_of_normal codec_hex32_of
      split: option.splits)

lemma stored_eta:
  "\<lparr>sr_reservation = sr_reservation s, sr_nonce = sr_nonce s, sr_solverId = sr_solverId s,
     sr_solverKey = sr_solverKey s, sr_spreadBps = sr_spreadBps s, sr_sellToken = sr_sellToken s,
     sr_sellAmount = sr_sellAmount s, sr_buyToken = sr_buyToken s,
     sr_grossBuyAmount = sr_grossBuyAmount s, sr_buyAmount = sr_buyAmount s,
     sr_minBuyAmount = sr_minBuyAmount s, sr_rfqExpiresAt = sr_rfqExpiresAt s,
     sr_pricingProvenance = sr_pricingProvenance s, sr_signed = sr_signed s,
     sr_settlementDealId = sr_settlementDealId s, sr_settlementDeadline = sr_settlementDeadline s,
     sr_settlementTicketAddress = sr_settlementTicketAddress s,
     sr_authorityQuarantine = sr_authorityQuarantine s,
     sr_terminalReconciliation = sr_terminalReconciliation s\<rparr> = s"
  by (cases s) simp

lemma lower_normal_text: "lower_normal s \<Longrightarrow> text_normal s"
  by (simp add: lower_normal_def)

lemma option_lower: "pred_option lower_normal x \<Longrightarrow> map_option to_lower x = x"
  by (cases x) (auto simp: lower_normal_def)

lemma codec_optional_value:
  assumes "\<And>v. x = Some v \<Longrightarrow> f (g v) = Inr v" and "\<And>v. g v \<noteq> JUndef"
  shows "codec_optional f (case x of None \<Rightarrow> JUndef | Some v \<Rightarrow> g v) = Inr x"
  using assms by (cases x) (auto simp: codec_optional_def)

lemma value_not_undef: "quarantine_value q \<noteq> JUndef" "terminal_value t \<noteq> JUndef"
  by (simp_all add: quarantine_value_def terminal_value_def)

lemma decode_stored_value:
  assumes ok: "stored_ok s"
  shows "decodeStoredMakerReservation (stored_value s) = Inr s"
proof -
  let ?k = "stored_fields s"
  note lookup = stored_fields_def get_field_append get_signed_fields has_signed_fields
    get_opt_value has_opt_value
  have basic:
    "get_field ?k ''reservation'' = reservation_value (sr_reservation s)"
    "get_field ?k ''spreadBps'' = JNum (jint (sr_spreadBps s))"
    "codec_hex32 (get_field ?k ''nonce'') ''nonce'' = Inr (sr_nonce s)"
    "codec_text (get_field ?k ''solverId'') ''solverId'' = Inr (sr_solverId s)"
    "codec_text (get_field ?k ''solverKey'') ''solverKey'' = Inr (sr_solverKey s)"
    "codec_text (get_field ?k ''sellToken'') ''sellToken'' = Inr (sr_sellToken s)"
    "codec_amount (get_field ?k ''sellAmount'') ''sellAmount'' = Inr (sr_sellAmount s)"
    "codec_text (get_field ?k ''buyToken'') ''buyToken'' = Inr (sr_buyToken s)"
    "codec_amount (get_field ?k ''grossBuyAmount'') ''grossBuyAmount'' = Inr (sr_grossBuyAmount s)"
    "codec_amount (get_field ?k ''buyAmount'') ''buyAmount'' = Inr (sr_buyAmount s)"
    "codec_amount (get_field ?k ''minBuyAmount'') ''minBuyAmount'' = Inr (sr_minBuyAmount s)"
    "codec_timestamp (get_field ?k ''rfqExpiresAt'') ''rfqExpiresAt'' = Inr (sr_rfqExpiresAt s)"
    "codec_text (get_field ?k ''pricingProvenance'') ''pricingProvenance'' = Inr (sr_pricingProvenance s)"
    using ok by (auto simp: stored_fields_def stored_ok_def codec_text_of_normal codec_hex32_of codec_Inr)
  have signed:
    "(get_field ?k ''signedCanonical'' = JUndef) = (sr_signed s = None)"
    "(get_field ?k ''signature'' = JUndef) = (sr_signed s = None)"
    "(get_field ?k ''quoteDigest'' = JUndef) = (sr_signed s = None)"
    by (auto simp: lookup split: option.splits)
  have opts:
    "codec_optional (\<lambda>x. codec_text x ''settlementDealId'') (get_field ?k ''settlementDealId'')
       = Inr (sr_settlementDealId s)"
    "codec_optional (\<lambda>x. codec_timestamp x ''settlementDeadline'') (get_field ?k ''settlementDeadline'')
       = Inr (sr_settlementDeadline s)"
    "codec_optional (\<lambda>x. codec_text x ''settlementTicketAddress'')
       (get_field ?k ''settlementTicketAddress'') = Inr (sr_settlementTicketAddress s)"
    "codec_optional decode_quarantine (get_field ?k ''authorityQuarantine'')
       = Inr (sr_authorityQuarantine s)"
    "codec_optional decode_terminal (get_field ?k ''terminalReconciliation'')
       = Inr (sr_terminalReconciliation s)"
    using ok unfolding stored_ok_def
    by (auto simp: lookup codec_optional_def codec_text_of_normal lower_normal_text codec_Inr
        decode_quarantine_value decode_terminal_value value_not_undef split: option.splits)
  have whole: "assertMakerReservation (reservation_value (sr_reservation s)) = Inr (sr_reservation s)"
    using ok by (auto simp: stored_ok_def printable_reservation_def
        assert_reservation_valid[unfolded assert_reservation_def])
  obtain c where c: "canonicalMakerReservation (sr_reservation s) = Inr c"
    using ok by (auto simp: stored_ok_def canonical_reservation_iff)
  have spread: "value_safe_int (JNum (jint (sr_spreadBps s))) = Some (sr_spreadBps s)" "\<not> sr_spreadBps s < 0"
    using ok by (auto simp: stored_ok_def value_safe_int_Some)
  have lows: "map_option to_lower (sr_settlementDealId s) = sr_settlementDealId s"
    "map_option to_lower (sr_settlementTicketAddress s) = sr_settlementTicketAddress s"
    using ok by (auto simp: stored_ok_def option_lower)
  have sg: "decode_signed ?k = Inr (sr_signed s)"
    using ok by (intro decode_signed_fields) (simp add: stored_ok_def)
  show ?thesis
    unfolding decodeStoredMakerReservation_def stored_value_def
    by (simp only: codec_object_def jsval.case bind_r_Inr stored_shape basic whole c spread signed
        opts sg lows option.case if_False simp_thms stored_eta)
qed

section \<open>JSON that carries bigints\<close>

text \<open>
  \<open>jsonStringify\<close> is kept as the tree \<open>JSON.parse\<close> reads back from its text: the replacer turns a
  bigint into a tagged object, \<open>JSON.stringify\<close> drops undefined properties and prints a
  non-finite number as null. \<open>jsonParse\<close> is then the reviver over that tree.
\<close>

definition big_tag :: string where
  "big_tag = ''$app20BigInt''"

lemma field_size [termination_simp]: "(k, v) \<in> set kvs \<Longrightarrow> size v < Suc (size_list (size_prod f size) kvs)"
  by (induction kvs) auto

fun jsonify :: "jsval \<Rightarrow> jsval" where
  "jsonify (JNum n) = (case n of Fin q \<Rightarrow> JNum (Fin q) | _ \<Rightarrow> JNull)"
| "jsonify (JBig n) = JObj [(big_tag, JStr (dec_int n))]"
| "jsonify (JArr xs) = JArr (map (\<lambda>x. if x = JUndef then JNull else jsonify x) xs)"
| "jsonify (JObj kvs) = JObj (map (\<lambda>(k, v). (k, jsonify v)) (filter (\<lambda>(k, v). v \<noteq> JUndef) kvs))"
| "jsonify v = v"

definition untag_big :: "fields \<Rightarrow> jsval" where
  "untag_big kvs =
     (case kvs of
        [(k, JStr s)] \<Rightarrow> if k = big_tag \<and> canonical_dec s then JBig (int (of_base 10 s)) else JObj kvs
      | _ \<Rightarrow> JObj kvs)"

fun revive :: "jsval \<Rightarrow> jsval" where
  "revive (JArr xs) = JArr (map revive xs)"
| "revive (JObj kvs) = untag_big (map (\<lambda>(k, v). (k, revive v)) kvs)"
| "revive v = v"

fun wire :: "jsval \<Rightarrow> jsval result" where
  "wire (JBig n) = Inr (JObj [(big_tag, JStr (dec_int n))])"
| "wire (JArr xs) = bind_r (map_r wire xs) (\<lambda>ys. Inr (JArr ys))"
| "wire (JObj kvs) =
     bind_r (map_r (\<lambda>(k, v). bind_r (wire v) (\<lambda>w. Inr (k, w))) (filter (\<lambda>(k, v). v \<noteq> JUndef) kvs))
       (\<lambda>ys. Inr (JObj ys))"
| "wire JUndef = Inl (Err ''Reservation ledger cannot serialize a non-JSON value.'')"
| "wire v = Inr v"

definition requireStoredRecord :: "jsval \<Rightarrow> stored_reservation result" where
  "requireStoredRecord v =
     (if v = JUndef then Inl (Err ''undefined is not valid JSON'')
      else decodeStoredMakerReservation (revive (jsonify v)))"

text \<open>Values that survive the trip: nothing undefined or non-finite, no negative bigint, no look-alike tag.\<close>

fun json_safe :: "jsval \<Rightarrow> bool" where
  "json_safe JUndef = False"
| "json_safe (JNum n) = (case n of Fin q \<Rightarrow> True | _ \<Rightarrow> False)"
| "json_safe (JBig n) = (0 \<le> n)"
| "json_safe (JArr xs) = (\<forall>x\<in>set xs. json_safe x)"
| "json_safe (JObj kvs) = (map fst kvs \<noteq> [big_tag] \<and> (\<forall>(k, v)\<in>set kvs. json_safe v))"
| "json_safe v = True"

lemma json_safe_not_undef: "json_safe v \<Longrightarrow> v \<noteq> JUndef"
  by auto

lemma revive_jsonify: "json_safe v \<Longrightarrow> revive (jsonify v) = v"
proof (induction v rule: jsonify.induct)
  case (1 n)
  then show ?case by (cases n) auto
next
  case (2 n)
  then show ?case
    by (simp add: untag_big_def dec_int_def canonical_dec_dec of_base_dec)
next
  case (3 xs)
  moreover have "JUndef \<notin> set xs"
    using 3 by auto
  ultimately show ?case by (auto intro!: map_idI)
next
  case (4 kvs)
  have keep: "filter (\<lambda>(k, v). v \<noteq> JUndef) kvs = kvs"
    using 4 by (auto intro!: filter_True)
  have "map (\<lambda>(k, v). (k, revive v)) (map (\<lambda>(k, v). (k, jsonify v)) kvs) = kvs"
    using 4 keep by (auto intro!: map_idI)
  moreover have "untag_big kvs = JObj kvs"
    using 4 by (auto simp: untag_big_def split: list.splits jsval.splits)
  ultimately show ?case
    by (simp add: keep)
qed auto

lemma jsonify_not_undef: "v \<noteq> JUndef \<Longrightarrow> jsonify v \<noteq> JUndef"
  by (cases v) (auto split: jsnum.splits)

lemma jsonify_idem: "json_safe v \<Longrightarrow> jsonify (jsonify v) = jsonify v"
proof (induction v rule: jsonify.induct)
  case (1 n)
  then show ?case by (cases n) auto
next
  case (3 xs)
  then have x: "\<forall>x\<in>set xs. x \<noteq> JUndef"
    by auto
  then have "\<forall>x\<in>set xs. jsonify x \<noteq> JUndef"
    using jsonify_not_undef by blast
  with 3 x show ?case by auto
next
  case (4 kvs)
  have keep: "filter (\<lambda>(k, v). v \<noteq> JUndef) kvs = kvs"
    using 4 by (auto intro!: filter_True)
  have x: "v \<noteq> JUndef \<and> json_safe v" if "(k, v) \<in> set kvs" for k v
    using 4(2) that json_safe_not_undef by auto
  have "jsonify v \<noteq> JUndef" if "(k, v) \<in> set kvs" for k v
    using x[OF that] jsonify_not_undef by blast
  then have f: "filter (\<lambda>(k, v). v \<noteq> JUndef) (map (\<lambda>(k, v). (k, jsonify v)) kvs) = map (\<lambda>(k, v). (k, jsonify v)) kvs"
    by (intro filter_True) auto
  have "jsonify (jsonify v) = jsonify v" if "(k, v) \<in> set kvs" for k v
    using 4(1)[of "(k, v)" k v] that x[OF that] by simp
  then have "map (\<lambda>(k, v). (k, jsonify v)) (map (\<lambda>(k, v). (k, jsonify v)) kvs) = map (\<lambda>(k, v). (k, jsonify v)) kvs"
    by auto
  with keep f show ?case by (simp only: jsonify.simps)
qed auto

lemma wire_jsonify: "json_safe v \<Longrightarrow> wire v = Inr (jsonify v)"
proof (induction v rule: wire.induct)
  case (2 xs)
  then have "map_r wire xs = Inr (map jsonify xs)"
    by (intro map_r_total) auto
  moreover have "map (\<lambda>x. if x = JUndef then JNull else jsonify x) xs = map jsonify xs"
    using 2 by auto
  ultimately show ?case by simp
next
  case (3 kvs)
  have keep: "filter (\<lambda>(k, v). v \<noteq> JUndef) kvs = kvs"
    using 3 by (auto intro!: filter_True)
  have "map_r (\<lambda>(k, v). bind_r (wire v) (\<lambda>w. Inr (k, w))) kvs = Inr (map (\<lambda>(k, v). (k, jsonify v)) kvs)"
    using 3 keep by (intro map_r_total) auto
  then show ?case by (simp add: keep)
qed (auto split: jsnum.splits)

lemma safe_obj: "json_safe (JObj ((k, v) # kvs)) \<longleftrightarrow>
    json_safe v \<and> (\<forall>(k, v)\<in>set kvs. json_safe v) \<and> (k = big_tag \<longrightarrow> kvs \<noteq> [])"
  by auto

lemma opt_field_safe: "(k', v) \<in> set (opt_field k x) \<Longrightarrow> json_safe v"
  by (auto simp: opt_field_def split: option.splits)

lemma opt_value_safe: "(k', v) \<in> set (opt_value k f x) \<Longrightarrow> (\<And>y. x = Some y \<Longrightarrow> json_safe (f y)) \<Longrightarrow> json_safe v"
  by (auto simp: opt_value_def split: option.splits)

lemma signed_fields_safe: "(k, v) \<in> set (signed_fields x) \<Longrightarrow> json_safe v"
  by (auto simp: signed_fields_def split: option.splits)

lemma binding_fields_safe: "binding_ok b \<Longrightarrow> (k, v) \<in> set (binding_fields b) \<Longrightarrow> json_safe v"
  by (auto simp: binding_fields_def binding_ok_def u128_amount_def)

lemma reservation_value_safe: "valid_reservation r \<Longrightarrow> json_safe (reservation_value r)"
  by (auto simp: reservation_value_def valid_reservation_def positive_u256_def dest: opt_field_safe)

lemma quarantine_value_safe: "binding_ok (aq_binding q) \<Longrightarrow> json_safe (quarantine_value q)"
  by (auto simp: quarantine_value_def big_tag_def dest: binding_fields_safe)

lemma terminal_value_safe: "binding_ok (tr_binding t) \<Longrightarrow> json_safe (terminal_value t)"
  by (auto simp: terminal_value_def big_tag_def dest: binding_fields_safe)

lemma stored_value_safe:
  assumes "stored_ok s"
  shows "json_safe (stored_value s)"
proof -
  have q: "sr_authorityQuarantine s = Some q \<Longrightarrow> json_safe (quarantine_value q)"
    and t: "sr_terminalReconciliation s = Some t \<Longrightarrow> json_safe (terminal_value t)"
    and r: "json_safe (reservation_value (sr_reservation s))" for q t
    using assms
    by (simp_all add: stored_ok_def quarantine_value_safe terminal_value_safe
        reservation_value_safe printable_reservation_def)
  then show ?thesis
    using assms
    by (auto simp: stored_value_def stored_fields_def stored_ok_def u128_amount_def
        dest: signed_fields_safe elim!: opt_value_safe)
qed

lemma read_saved:
  assumes "stored_ok s"
  shows "requireStoredRecord (revive (jsonify (stored_value s))) = Inr s"
    and "wire (stored_value s) = Inr (jsonify (stored_value s))"
  using assms stored_value_safe[OF assms]
  by (simp_all add: revive_jsonify wire_jsonify requireStoredRecord_def decode_stored_value
      json_safe_not_undef)

lemma read_wire:
  assumes "stored_ok s"
  shows "requireStoredRecord (jsonify (stored_value s)) = Inr s"
  using assms stored_value_safe[OF assms] jsonify_not_undef[OF json_safe_not_undef]
  by (simp add: requireStoredRecord_def jsonify_idem revive_jsonify decode_stored_value)

text \<open>
  C22: The store reads back what was written. If \<open>decodeStoredMakerReservation\<close> accepts a value, then
  printing the record it returns as bigint-carrying JSON, parsing it back and decoding it again
  gives the same record, and the wire form sent to callers is that same JSON. Decoding is
  therefore a fixed point after one pass.
\<close>

theorem stored_record_roundtrip:
  assumes "requireStoredRecord v = Inr s"
  shows "requireStoredRecord (revive (jsonify (stored_value s))) = Inr s
     \<and> wire (stored_value s) = Inr (jsonify (stored_value s))"
proof -
  from assms have "stored_ok s"
    using decode_stored_ok[of "revive (jsonify v)" s]
    by (simp add: requireStoredRecord_def split: if_splits)
  then show ?thesis
    by (simp add: read_saved)
qed

definition sample_stored :: stored_reservation where
  "sample_stored = \<lparr>sr_reservation = sample_reservation, sr_nonce = ''0x'' @ replicate 64 CHR ''7'',
     sr_solverId = ''solver'', sr_solverKey = ''key'', sr_spreadBps = 25, sr_sellToken = ''0x5'',
     sr_sellAmount = 10, sr_buyToken = ''0x6'', sr_grossBuyAmount = 22, sr_buyAmount = 21,
     sr_minBuyAmount = 20, sr_rfqExpiresAt = 180, sr_pricingProvenance = ''mids'', sr_signed = None,
     sr_settlementDealId = Some ''deal'', sr_settlementDeadline = None,
     sr_settlementTicketAddress = None, sr_authorityQuarantine = None,
     sr_terminalReconciliation = None\<rparr>"

lemma sample_printable: "printable_reservation sample_reservation"
  using sample_valid by (simp add: printable_reservation_def sample_reservation_def)

lemma sample_stored_ok: "stored_ok sample_stored"
proof -
  have d: "hex_digits 64 (''0x'' @ replicate 64 CHR ''7'')"
    by (simp add: hex_digits_def is_hex_lower_def is_digit_def code_def)
  have t: "text_normal ''solver'' \<and> text_normal ''key'' \<and> text_normal ''0x5'' \<and> text_normal ''0x6''
      \<and> text_normal ''mids'' \<and> lower_normal ''deal''"
    by (simp add: text_normal_def lower_normal_def trim_def is_ws_def to_lower_def lower_char_def
        is_upper_alpha_def code_def)
  show ?thesis
    unfolding stored_ok_def using sample_printable d t
    by (simp add: sample_stored_def u128_amount_def max_u128_def timestamp_ok_def max_safe_def)
qed

lemma sample_stored_reads: "requireStoredRecord (stored_value sample_stored) = Inr sample_stored"
  using stored_value_safe[OF sample_stored_ok] decode_stored_value[OF sample_stored_ok]
  by (simp add: requireStoredRecord_def revive_jsonify json_safe_not_undef)

theorem stored_record_roundtrip_witness:
  "requireStoredRecord (revive (jsonify (stored_value sample_stored))) = Inr sample_stored
   \<and> wire (stored_value sample_stored) = Inr (jsonify (stored_value sample_stored))"
  by (rule stored_record_roundtrip[OF sample_stored_reads])

end
