(* ===== verification/Reservation_Ledger.thy ===== *)
theory Reservation_Ledger
  imports Reservation_Codec
begin

text \<open>
  The reservation ledger (workers/relay/src/reservation-ledger-do.ts): its three SQLite tables,
  every route of \<open>fetch\<close>, and the transactions behind them. A write may fail; the failures are a
  parameter, one possible error per write of a transaction, and a transaction whose callback
  throws leaves the tables as they were, which is what \<open>transactionSync\<close> documents.
\<close>

section \<open>Tables and transactions\<close>

datatype attempt_status = Pending | Completed

record attempt_row =
  at_reservation_id :: string
  at_selection_fence :: string
  at_payload_digest :: string
  at_status :: attempt_status
  at_outcome :: "jsval option"

record reservation_row =
  rr_record :: jsval \<comment> \<open>\<open>record_json\<close>, as the tree it parses to\<close>
  rr_fence :: string
  rr_state :: string

record ledger =
  lg_revision :: int
  lg_high_water :: string
  lg_records :: "reservation_row tbl"
  lg_attempts :: "attempt_row tbl"

definition empty_ledger :: ledger where
  "empty_ledger = \<lparr>lg_revision = 0, lg_high_water = ''0'', lg_records = [], lg_attempts = []\<rparr>"

type_synonym faults = "nat \<Rightarrow> exn option"
type_synonym 'a tx = "ledger \<times> nat \<Rightarrow> exn + 'a \<times> ledger \<times> nat"

definition pure_t :: "'a \<Rightarrow> 'a tx" where
  "pure_t a = (\<lambda>s. Inr (a, s))"

definition lift_t :: "'a result \<Rightarrow> 'a tx" where
  "lift_t r = (\<lambda>s. bind_r r (\<lambda>a. Inr (a, s)))"

definition read_t :: "(ledger \<Rightarrow> 'a) \<Rightarrow> 'a tx" where
  "read_t f = (\<lambda>s. Inr (f (fst s), s))"

definition write_t :: "faults \<Rightarrow> (ledger \<Rightarrow> ledger) \<Rightarrow> unit tx" where
  "write_t F f = (\<lambda>(l, n). case F n of Some e \<Rightarrow> Inl e | None \<Rightarrow> Inr ((), f l, Suc n))"

definition bind_t :: "'a tx \<Rightarrow> ('a \<Rightarrow> 'b tx) \<Rightarrow> 'b tx" where
  "bind_t m f = (\<lambda>s. bind_r (m s) (\<lambda>(a, s'). f a s'))"

definition transactionSync :: "'a tx \<Rightarrow> ledger \<Rightarrow> 'a result \<times> ledger" where
  "transactionSync m l = (case m (l, 0) of Inl e \<Rightarrow> (Inl e, l) | Inr (a, l', _) \<Rightarrow> (Inr a, l'))"

definition metadata :: "(int \<times> string) tx" where
  "metadata = bind_t (read_t (\<lambda>l. (lg_revision l, lg_high_water l))) (\<lambda>(rv, hw).
     if as_safe_int (jint rv) = None \<or> rv < 0
     then lift_t (Inl (Err ''Reservation ledger metadata is unavailable.''))
     else pure_t (rv, hw))"

definition reservationRow :: "string \<Rightarrow> reservation_row option tx" where
  "reservationRow k = read_t (\<lambda>l. tbl_get (lg_records l) k)"

definition attemptRow :: "string \<Rightarrow> attempt_row option tx" where
  "attemptRow k = read_t (\<lambda>l. tbl_get (lg_attempts l) k)"

definition pendingAttemptRows :: "(string \<times> attempt_row) list tx" where
  "pendingAttemptRows = read_t (\<lambda>l. filter (\<lambda>(k, a). at_status a = Pending) (lg_attempts l))"

definition positive_dec :: "string \<Rightarrow> bool" where
  "positive_dec s = (s \<noteq> [] \<and> list_all is_digit s \<and> hd s \<noteq> CHR ''0'')"

definition requirePositiveBigInt :: "jsval \<Rightarrow> string \<Rightarrow> int result" where
  "requirePositiveBigInt v label =
     (case v of
        JStr s \<Rightarrow> if positive_dec s then Inr (int (of_base 10 s))
          else Inl (Err (label @ '' must be a positive bigint string.''))
      | _ \<Rightarrow> Inl (Err (label @ '' must be a positive bigint string.'')))"

record attempt_binding =
  ab_reservationId :: string
  ab_expectedFence :: string
  ab_idempotencyKey :: string
  ab_payloadDigest :: string
  ab_at :: int

definition hex32_field :: "fields \<Rightarrow> string \<Rightarrow> string option" where
  "hex32_field kvs k = (case get_field kvs k of
     JStr s \<Rightarrow> if hex_digits 64 s then Some s else None | _ \<Rightarrow> None)"

definition requireAttempt :: "jsval \<Rightarrow> attempt_binding result" where
  "requireAttempt v =
     (case v of
        JObj kvs \<Rightarrow>
          (case (hex32_field kvs ''reservationId'', hex32_field kvs ''idempotencyKey'',
                 hex32_field kvs ''payloadDigest'', value_safe_int (get_field kvs ''at'')) of
             (Some rid, Some key, Some dg, Some t) \<Rightarrow>
               if t \<le> 0 then Inl (Err ''Invalid value-moving attempt binding.'')
               else bind_r (requirePositiveBigInt (get_field kvs ''expectedFence'') ''expectedFence'')
                 (\<lambda>_. case get_field kvs ''expectedFence'' of
                    JStr f \<Rightarrow> Inr \<lparr>ab_reservationId = rid, ab_expectedFence = f,
                      ab_idempotencyKey = key, ab_payloadDigest = dg, ab_at = t\<rparr>
                  | _ \<Rightarrow> Inl (Err ''Invalid value-moving attempt binding.''))
           | _ \<Rightarrow> Inl (Err ''Invalid value-moving attempt binding.''))
      | _ \<Rightarrow> Inl (Err ''Invalid value-moving attempt binding.''))"

definition requireTimestampValue :: "jsval \<Rightarrow> string \<Rightarrow> int result" where
  "requireTimestampValue v label =
     (case value_safe_int v of
        Some n \<Rightarrow> if n \<le> 0
          then Inl (Err (label @ '' must be a positive unix-seconds timestamp.'')) else Inr n
      | None \<Rightarrow> Inl (Err (label @ '' must be a positive unix-seconds timestamp.'')))"

definition saved_row :: "stored_reservation \<Rightarrow> reservation_row" where
  "saved_row s = \<lparr>rr_record = jsonify (stored_value s),
     rr_fence = dec_int (fence (sr_reservation s)),
     rr_state = state_text (state (sr_reservation s))\<rparr>"

definition saveRecord :: "faults \<Rightarrow> stored_reservation \<Rightarrow> unit tx" where
  "saveRecord F s = write_t F (\<lambda>l. l\<lparr>lg_records :=
     tbl_put (reservationId (sr_reservation s)) (saved_row s) (lg_records l)\<rparr>)"

definition advanceMetadata :: "faults \<Rightarrow> int \<times> string \<Rightarrow> int \<Rightarrow> (int \<times> string) tx" where
  "advanceMetadata F current f =
     (let hw = int (of_base 10 (snd current));
          nxt = (js_succ (fst current), dec_int (if hw < f then f else hw))
      in bind_t (write_t F (\<lambda>l. l\<lparr>lg_revision := fst nxt, lg_high_water := snd nxt\<rparr>))
           (\<lambda>_. pure_t nxt))"

definition read_row :: "reservation_row \<Rightarrow> stored_reservation result" where
  "read_row row = requireStoredRecord (revive (rr_record row))"

section \<open>Responses\<close>

datatype response = Response (status: nat) (body: jsval)

definition error_body :: "string \<Rightarrow> jsval" where
  "error_body m = JObj [(''error'', JStr m)]"

definition conflict :: "string \<Rightarrow> response" where
  "conflict m = Response 409 (error_body m)"

definition storage_write_failed :: string where
  "storage_write_failed = ''Reservation ledger storage write failed.''"

fun has_match :: "(string \<Rightarrow> bool) \<Rightarrow> string \<Rightarrow> bool" where
  "has_match p [] = p []"
| "has_match p (c # s) = (p (c # s) \<or> has_match p s)"

definition starts_with :: "string \<Rightarrow> string \<Rightarrow> bool" where
  "starts_with p s = (take (length p) s = p)"

definition sqlite_code :: "string \<Rightarrow> bool" where
  "sqlite_code s = (starts_with ''sqlite_'' s \<and> length s > 7 \<and> is_alnum (s ! 7))"

definition isRetryableStorageFailure :: "exn \<Rightarrow> bool" where
  "isRetryableStorageFailure e =
     (let m = to_lower (exn_message e) in
      exn_message e = storage_write_failed \<or> has_match sqlite_code m
      \<or> has_match (starts_with ''durable object storage'') m
      \<or> has_match (\<lambda>s. list_ex (\<lambda>p. starts_with p s)
          [''storage failed'', ''storage write failed'', ''storage operation failed'']) m)"

definition transactionFailure :: "exn \<Rightarrow> response" where
  "transactionFailure e =
     (if isRetryableStorageFailure e then Response 503 (error_body storage_write_failed)
      else conflict (exn_message e))"

definition respond :: "(response result \<times> ledger) \<Rightarrow> response \<times> ledger" where
  "respond p = (case fst p of Inl e \<Rightarrow> (transactionFailure e, snd p) | Inr r \<Rightarrow> (r, snd p))"

section \<open>Routes\<close>

definition snapshot_tx :: "jsval tx" where
  "snapshot_tx = bind_t metadata (\<lambda>(rv, hw).
     bind_t (read_t lg_records) (\<lambda>rows.
     bind_t (lift_t (map_r (\<lambda>(k, row). bind_r (read_row row) (\<lambda>s. wire (stored_value s))) rows)) (\<lambda>records.
     pure_t (JObj [(''revision'', JNum (jint rv)), (''highWater'', JStr hw),
       (''records'', JArr records)]))))"

definition snapshot :: "ledger \<Rightarrow> response \<times> ledger" where
  "snapshot l = (case transactionSync snapshot_tx l of
     (Inl e, l') \<Rightarrow> (Response 400 (error_body (exn_message e)), l')
   | (Inr v, l') \<Rightarrow> (Response 200 v, l'))"

text \<open>A property read of a value of type \<open>unknown\<close>: null and undefined have no properties.\<close>

definition prop_of :: "jsval \<Rightarrow> string \<Rightarrow> jsval result" where
  "prop_of v k = (case v of
     JObj kvs \<Rightarrow> Inr (get_field kvs k)
   | JNull \<Rightarrow> Inl (Err (''Cannot read properties of null (reading '' @ k @ '')''))
   | JUndef \<Rightarrow> Inl (Err (''Cannot read properties of undefined (reading '' @ k @ '')''))
   | _ \<Rightarrow> Inr JUndef)"

definition prepare_one ::
  "ledger \<Rightarrow> string list \<Rightarrow> int \<Rightarrow> jsval \<Rightarrow> (stored_reservation \<times> int) result" where
  "prepare_one l seen hw m =
     bind_r (bind_r (prop_of m ''record'') requireStoredRecord) (\<lambda>nxt.
     let k = reservationId (sr_reservation nxt); f = fence (sr_reservation nxt) in
     if k \<in> set seen then Inl (Err ''Reservation transaction repeats a record.'')
     else bind_r (case tbl_get (lg_records l) k of
            None \<Rightarrow> Inr None | Some row \<Rightarrow> bind_r (read_row row) (\<lambda>c. Inr (Some c))) (\<lambda>current.
     bind_r (bind_r (prop_of m ''expectedFence'') (\<lambda>e. if e = JNull then Inr None
               else bind_r (requirePositiveBigInt e ''expectedFence'') (\<lambda>n. Inr (Some n)))) (\<lambda>expected.
     bind_r (assertMakerReservationMutation (map_option sr_reservation current)
               (sr_reservation nxt) expected) (\<lambda>_.
     if current = None \<and> f \<noteq> hw + 1
     then Inl (Err ''New reservation fence did not use the next durable high-water token.'')
     else Inr (nxt, if hw < f then f else hw)))))"

fun prepare :: "ledger \<Rightarrow> string list \<Rightarrow> int \<Rightarrow> jsval list \<Rightarrow> stored_reservation list result" where
  "prepare l seen hw [] = Inr []"
| "prepare l seen hw (m # ms) =
     bind_r (prepare_one l seen hw m) (\<lambda>(nxt, hw').
     bind_r (prepare l (reservationId (sr_reservation nxt) # seen) hw' ms) (\<lambda>rest.
     Inr (nxt # rest)))"

fun save_all :: "faults \<Rightarrow> int \<times> string \<Rightarrow> stored_reservation list \<Rightarrow> (int \<times> string) tx" where
  "save_all F meta [] = pure_t meta"
| "save_all F meta (s # ss) =
     bind_t (saveRecord F s) (\<lambda>_.
     bind_t (advanceMetadata F meta (fence (sr_reservation s))) (\<lambda>meta'. save_all F meta' ss))"

definition commit_tx :: "faults \<Rightarrow> int \<Rightarrow> jsval list \<Rightarrow> response tx" where
  "commit_tx F expectedRevision mutations =
     bind_t metadata (\<lambda>meta.
     if fst meta \<noteq> expectedRevision
     then lift_t (Inl (Err ''Reservation transaction revision is stale.''))
     else
     bind_t (read_t (\<lambda>l. prepare l [] (int (of_base 10 (snd meta))) mutations)) (\<lambda>r.
     bind_t (lift_t r) (\<lambda>prepared.
     bind_t (save_all F meta prepared) (\<lambda>meta'.
     pure_t (Response 200 (JObj [(''committed'', JBool True),
       (''revision'', JNum (jint (fst meta')))]))))))"

definition invalid_transaction :: response where
  "invalid_transaction = Response 400 (error_body ''Invalid reservation transaction.'')"

definition commit :: "faults \<Rightarrow> jsval \<Rightarrow> ledger \<Rightarrow> response \<times> ledger" where
  "commit F input l =
     (case input of
        JObj kvs \<Rightarrow>
          (case (value_safe_int (get_field kvs ''expectedRevision''), get_field kvs ''mutations'') of
             (Some rv, JArr ms) \<Rightarrow>
               if rv < 0 \<or> length ms > 100 then (invalid_transaction, l)
               else respond (transactionSync (commit_tx F rv ms) l)
           | _ \<Rightarrow> (invalid_transaction, l))
      | _ \<Rightarrow> (invalid_transaction, l))"

definition unknown_reason :: string where
  "unknown_reason = ''interrupted value-moving attempt has an unknown outcome''"

definition unknown_outcome :: "string \<Rightarrow> jsval" where
  "unknown_outcome why = JObj [(''kind'', JStr ''unknown''), (''reason'', JStr why)]"

definition with_reservation :: "stored_reservation \<Rightarrow> maker_reservation \<Rightarrow> stored_reservation" where
  "with_reservation s r = s\<lparr>sr_reservation := r\<rparr>"

text \<open>\<open>UPDATE ... SET status = 'completed', outcome_json = ? WHERE idempotency_key = ?\<close>\<close>

definition complete_row :: "faults \<Rightarrow> string \<Rightarrow> jsval \<Rightarrow> unit tx" where
  "complete_row F key outcome = write_t F (\<lambda>l. case tbl_get (lg_attempts l) key of
     None \<Rightarrow> l
   | Some a \<Rightarrow> l\<lparr>lg_attempts := tbl_put key (a\<lparr>at_status := Completed, at_outcome := Some outcome\<rparr>)
       (lg_attempts l)\<rparr>)"

text \<open>
  The body \<open>beginAttempt\<close> and \<open>recoverPendingAttempts\<close> share: an interrupted attempt is closed as
  unknown and its reservation is quarantined.
\<close>

definition close_interrupted :: "faults \<Rightarrow> int \<Rightarrow> string \<Rightarrow> string \<Rightarrow> stored_reservation tx" where
  "close_interrupted F t rid key =
     bind_t (reservationRow rid) (\<lambda>row.
     case row of
       None \<Rightarrow> lift_t (Inl (Err ''Pending attempt lost its reservation tombstone.''))
     | Some rw \<Rightarrow>
     bind_t (lift_t (read_row rw)) (\<lambda>current.
     let r = sr_reservation current in
     if state r \<noteq> Filling \<or> settlementAttemptId r \<noteq> Some key
     then lift_t (Inl (Err ''Pending attempt does not match reservation state.''))
     else
     bind_t (lift_t (transitionMakerReservation r
       (Quarantine (fence r) (jint (max t (updatedAt r))) unknown_reason))) (\<lambda>r'.
     let quarantined = with_reservation current r' in
     bind_t (saveRecord F quarantined) (\<lambda>_.
     bind_t metadata (\<lambda>meta.
     bind_t (advanceMetadata F meta (fence r')) (\<lambda>_.
     bind_t (complete_row F key (unknown_outcome unknown_reason)) (\<lambda>_.
     pure_t quarantined)))))))"

definition replay_response :: "jsval \<Rightarrow> response" where
  "replay_response outcome = Response 200 (JObj [(''kind'', JStr ''replay''), (''outcome'', outcome)])"

definition same_binding :: "attempt_row \<Rightarrow> attempt_binding \<Rightarrow> bool" where
  "same_binding a b = (at_reservation_id a = ab_reservationId b
     \<and> at_selection_fence a = ab_expectedFence b \<and> at_payload_digest a = ab_payloadDigest b)"

definition begin_tx :: "faults \<Rightarrow> attempt_binding \<Rightarrow> response tx" where
  "begin_tx F b =
     bind_t (attemptRow (ab_idempotencyKey b)) (\<lambda>prior.
     case prior of
       Some a \<Rightarrow>
         if \<not> same_binding a b
         then lift_t (Inl (Err ''Idempotency key was reused with a conflicting payload.''))
         else (case (at_status a, at_outcome a) of
             (Completed, Some outcome) \<Rightarrow> pure_t (replay_response outcome)
           | _ \<Rightarrow>
             bind_t (close_interrupted F (ab_at b) (ab_reservationId b) (ab_idempotencyKey b)) (\<lambda>_.
             pure_t (replay_response (unknown_outcome unknown_reason))))
     | None \<Rightarrow>
     bind_t (reservationRow (ab_reservationId b)) (\<lambda>row.
     case row of
       None \<Rightarrow> lift_t (Inl (Err ''Reservation does not exist.''))
     | Some rw \<Rightarrow>
     bind_t (lift_t (read_row rw)) (\<lambda>current.
     bind_t (lift_t (requirePositiveBigInt (JStr (ab_expectedFence b)) ''expectedFence'')) (\<lambda>expected.
     if fence (sr_reservation current) \<noteq> expected
     then lift_t (Inl (Err ''Reservation fence compare-and-swap failed: stale fence.''))
     else
     bind_t (lift_t (transitionMakerReservation (sr_reservation current)
       (BeginFill expected (jint (ab_at b)) (ab_idempotencyKey b)))) (\<lambda>r'.
     let filling = with_reservation current r' in
     bind_t (saveRecord F filling) (\<lambda>_.
     bind_t metadata (\<lambda>meta.
     bind_t (advanceMetadata F meta (fence r')) (\<lambda>_.
     bind_t (write_t F (\<lambda>l. l\<lparr>lg_attempts := tbl_put (ab_idempotencyKey b)
         \<lparr>at_reservation_id = ab_reservationId b, at_selection_fence = ab_expectedFence b,
          at_payload_digest = ab_payloadDigest b, at_status = Pending, at_outcome = None\<rparr>
         (lg_attempts l)\<rparr>)) (\<lambda>_.
     bind_t (lift_t (wire (stored_value filling))) (\<lambda>w.
     pure_t (Response 201 (JObj [(''kind'', JStr ''claimed''), (''record'', w)]))))))))))))"

definition beginAttempt :: "faults \<Rightarrow> jsval \<Rightarrow> ledger \<Rightarrow> response \<times> ledger" where
  "beginAttempt F raw l =
     (case requireAttempt raw of
        Inl e \<Rightarrow> (Response 400 (error_body (exn_message e)), l)
      | Inr b \<Rightarrow> respond (transactionSync (begin_tx F b) l))"

fun recover_loop :: "faults \<Rightarrow> int \<Rightarrow> (string \<times> attempt_row) list \<Rightarrow> jsval list tx" where
  "recover_loop F t [] = pure_t []"
| "recover_loop F t ((key, a) # rows) =
     bind_t (close_interrupted F t (at_reservation_id a) key) (\<lambda>quarantined.
     bind_t (lift_t (wire (stored_value quarantined))) (\<lambda>w.
     bind_t (recover_loop F t rows) (\<lambda>rest.
     pure_t (JObj [(''idempotencyKey'', JStr key), (''reservationId'', JStr (at_reservation_id a)),
       (''expectedFence'', JStr (at_selection_fence a)),
       (''payloadDigest'', JStr (at_payload_digest a)),
       (''outcome'', unknown_outcome unknown_reason), (''record'', w)] # rest))))"

definition recover_tx :: "faults \<Rightarrow> int \<Rightarrow> response tx" where
  "recover_tx F t =
     bind_t pendingAttemptRows (\<lambda>rows.
     bind_t (recover_loop F t rows) (\<lambda>results.
     pure_t (Response 200 (JObj [(''recovered'', JArr results)]))))"

definition recoverPendingAttempts :: "faults \<Rightarrow> jsval \<Rightarrow> ledger \<Rightarrow> response \<times> ledger" where
  "recoverPendingAttempts F raw l =
     (case requireTimestampValue (case raw of JObj kvs \<Rightarrow> get_field kvs ''at'' | _ \<Rightarrow> JUndef)
            ''attempt recovery at'' of
        Inl e \<Rightarrow> (Response 400 (error_body (exn_message e)), l)
      | Inr t \<Rightarrow> respond (transactionSync (recover_tx F t) l))"

text \<open>The outcome a completion asks for, before any table is read.\<close>

datatype outcome_request = AskConsumed jsval | AskUnknown jsval

definition requireOutcome :: "jsval \<Rightarrow> outcome_request result" where
  "requireOutcome raw =
     (case raw of JObj kvs \<Rightarrow>
        (case get_field kvs ''outcome'' of
           JObj o' \<Rightarrow>
             if get_field o' ''kind'' = JStr ''consumed''
             then Inr (AskConsumed (get_field o' ''transactionHash''))
             else if get_field o' ''kind'' = JStr ''unknown''
             then Inr (AskUnknown (get_field o' ''reason''))
             else Inl (Err ''Attempt outcome must be consumed or unknown.'')
         | _ \<Rightarrow> Inl (Err ''Attempt outcome must be consumed or unknown.''))
      | _ \<Rightarrow> Inl (Err ''Attempt outcome must be consumed or unknown.''))"

definition default_reason :: string where
  "default_reason = ''value-moving outcome is unknown''"

definition reason_of :: "jsval \<Rightarrow> string result" where
  "reason_of v = (case v of
     JStr s \<Rightarrow> Inr (if trim s = [] then default_reason else trim s)
   | JUndef \<Rightarrow> Inr default_reason
   | JNull \<Rightarrow> Inr default_reason
   | _ \<Rightarrow> Inl (Err ''input.outcome.reason?.trim is not a function''))"

text \<open>
  The outcome as it is stored, and the transition it asks for. A transaction hash that is not a
  string is rejected by \<open>canonicalizeStarknetFelt\<close> in the way the empty string is.
\<close>

definition outcome_of :: "outcome_request \<Rightarrow> jsval result" where
  "outcome_of q = (case q of
     AskConsumed h \<Rightarrow> Inr (JObj [(''kind'', JStr ''consumed''), (''transactionHash'', h)])
   | AskUnknown why \<Rightarrow> bind_r (reason_of why) (\<lambda>w. Inr (unknown_outcome w)))"

definition outcome_command :: "outcome_request \<Rightarrow> int \<Rightarrow> int \<Rightarrow> reservation_command result" where
  "outcome_command q f t = (case q of
     AskConsumed h \<Rightarrow> Inr (Consume f (jint t) (case h of JStr s \<Rightarrow> s | _ \<Rightarrow> []))
   | AskUnknown why \<Rightarrow> bind_r (reason_of why) (\<lambda>w. Inr (Quarantine f (jint t) w)))"

definition complete_tx :: "faults \<Rightarrow> attempt_binding \<Rightarrow> outcome_request \<Rightarrow> response tx" where
  "complete_tx F b q =
     bind_t (attemptRow (ab_idempotencyKey b)) (\<lambda>prior.
     case prior of
       None \<Rightarrow> lift_t (Inl (Err ''Value-moving attempt was not claimed.''))
     | Some a \<Rightarrow>
     if \<not> same_binding a b
     then lift_t (Inl (Err ''Idempotency key was reused with a conflicting payload.''))
     else (case (at_status a, at_outcome a) of
         (Completed, Some outcome) \<Rightarrow> pure_t (replay_response outcome)
       | _ \<Rightarrow>
     bind_t (reservationRow (ab_reservationId b)) (\<lambda>row.
     case row of
       None \<Rightarrow> lift_t (Inl (Err ''Pending attempt lost its reservation tombstone.''))
     | Some rw \<Rightarrow>
     bind_t (lift_t (read_row rw)) (\<lambda>current.
     let r = sr_reservation current in
     if state r \<noteq> Filling \<or> settlementAttemptId r \<noteq> Some (ab_idempotencyKey b)
     then lift_t (Inl (Err ''Attempt completion does not match reservation state.''))
     else
     bind_t (lift_t (outcome_of q)) (\<lambda>outcome.
     bind_t (lift_t (outcome_command q (fence r) (ab_at b))) (\<lambda>cmd.
     bind_t (lift_t (transitionMakerReservation r cmd)) (\<lambda>r'.
     let nxt = with_reservation current r' in
     bind_t (saveRecord F nxt) (\<lambda>_.
     bind_t metadata (\<lambda>meta.
     bind_t (advanceMetadata F meta (fence r')) (\<lambda>_.
     bind_t (complete_row F (ab_idempotencyKey b) outcome) (\<lambda>_.
     bind_t (lift_t (wire (stored_value nxt))) (\<lambda>w.
     pure_t (Response 200 (JObj [(''kind'', JStr ''completed''), (''outcome'', outcome),
       (''record'', w)]))))))))))))))"

definition completeAttempt :: "faults \<Rightarrow> jsval \<Rightarrow> ledger \<Rightarrow> response \<times> ledger" where
  "completeAttempt F raw l =
     (case bind_r (requireAttempt raw) (\<lambda>b. bind_r (requireOutcome raw) (\<lambda>q. Inr (b, q))) of
        Inl e \<Rightarrow> (Response 400 (error_body (exn_message e)), l)
      | Inr (b, q) \<Rightarrow> respond (transactionSync (complete_tx F b q) l))"

text \<open>A request: its method, its path, and the body \<open>readBoundedJson\<close> makes of it or its error.\<close>

record ledger_request =
  rq_method :: string
  rq_path :: string
  rq_body :: "jsval result"

definition with_body :: "ledger_request \<Rightarrow> (jsval \<Rightarrow> ledger \<Rightarrow> response \<times> ledger) \<Rightarrow> ledger \<Rightarrow> response \<times> ledger" where
  "with_body q h l = (case rq_body q of
     Inl e \<Rightarrow> (Response 400 (error_body (exn_message e)), l) | Inr v \<Rightarrow> h v l)"

definition fetch :: "faults \<Rightarrow> ledger_request \<Rightarrow> ledger \<Rightarrow> response \<times> ledger" where
  "fetch F q l =
     (if rq_method q = ''GET'' \<and> rq_path q = ''/snapshot'' then snapshot l
      else if rq_method q = ''POST'' \<and> rq_path q = ''/commit'' then with_body q (commit F) l
      else if rq_method q = ''POST'' \<and> rq_path q = ''/attempt/begin'' then with_body q (beginAttempt F) l
      else if rq_method q = ''POST'' \<and> rq_path q = ''/attempt/complete''
      then with_body q (completeAttempt F) l
      else if rq_method q = ''POST'' \<and> rq_path q = ''/attempt/recover''
      then with_body q (recoverPendingAttempts F) l
      else (Response 404 (error_body ''Not found.''), l))"

end
