(* ===== verification/Ledger_Steps.thy ===== *)
theory Ledger_Steps
  imports Reservation_Ledger
begin

text \<open>
  The reservation ledger as a transition system: what a successful transaction did, the four
  abstract steps every request is made of, the invariant they keep and the order in which versions
  of the ledger follow each other.
\<close>

section \<open>What a transaction does when it succeeds\<close>

lemma bind_t_Inr [simp]:
  "bind_t m f s = Inr z \<longleftrightarrow> (\<exists>a s'. m s = Inr (a, s') \<and> f a s' = Inr z)"
  by (auto simp: bind_t_def)

lemma pure_t_Inr [simp]: "pure_t a s = Inr z \<longleftrightarrow> z = (a, s)"
  by (auto simp: pure_t_def)

lemma lift_t_Inr [simp]: "lift_t r s = Inr z \<longleftrightarrow> (\<exists>a. r = Inr a \<and> z = (a, s))"
  by (auto simp: lift_t_def)

lemma read_t_Inr [simp]: "read_t f s = Inr z \<longleftrightarrow> z = (f (fst s), s)"
  by (auto simp: read_t_def)

lemma write_t_Inr [simp]:
  "write_t F f s = Inr z \<longleftrightarrow> F (snd s) = None \<and> z = ((), f (fst s), Suc (snd s))"
  by (cases s) (auto simp: write_t_def split: option.splits)

lemma if_tx [simp]: "(if b then lift_t (Inl e) else m) s = Inr z \<longleftrightarrow> \<not> b \<and> m s = Inr z"
  by auto

lemma metadata_Inr [simp]:
  "metadata s = Inr z \<longleftrightarrow> 0 \<le> lg_revision (fst s) \<and> lg_revision (fst s) \<le> max_safe
     \<and> z = ((lg_revision (fst s), lg_high_water (fst s)), s)"
  by (auto simp: metadata_def max_safe_def)

definition high_of :: "ledger \<Rightarrow> int" where
  "high_of l = int (of_base 10 (lg_high_water l))"

definition put_record :: "stored_reservation \<Rightarrow> ledger \<Rightarrow> ledger" where
  "put_record s l = l\<lparr>lg_records := tbl_put (reservationId (sr_reservation s)) (saved_row s) (lg_records l),
     lg_revision := js_succ (lg_revision l),
     lg_high_water := dec_int (max (high_of l) (fence (sr_reservation s)))\<rparr>"

definition put_attempt :: "string \<Rightarrow> attempt_row \<Rightarrow> ledger \<Rightarrow> ledger" where
  "put_attempt k a l = l\<lparr>lg_attempts := tbl_put k a (lg_attempts l)\<rparr>"

definition closed_row :: "attempt_row \<Rightarrow> jsval \<Rightarrow> attempt_row" where
  "closed_row a v = a\<lparr>at_status := Completed, at_outcome := Some v\<rparr>"

lemma advance_Inr [simp]:
  "advanceMetadata F meta f s = Inr z \<longleftrightarrow> F (snd s) = None \<and>
     (let m = (js_succ (fst meta), dec_int (max (int (of_base 10 (snd meta))) f))
      in z = (m, (fst s)\<lparr>lg_revision := fst m, lg_high_water := snd m\<rparr>, Suc (snd s)))"
  by (auto simp: advanceMetadata_def Let_def max_def)

lemma save_Inr [simp]:
  "saveRecord F r s = Inr z \<longleftrightarrow> F (snd s) = None \<and>
     z = ((), (fst s)\<lparr>lg_records := tbl_put (reservationId (sr_reservation r)) (saved_row r)
       (lg_records (fst s))\<rparr>, Suc (snd s))"
  by (simp add: saveRecord_def)

lemma put_record_simps [simp]:
  "lg_records (put_record s l) = tbl_put (reservationId (sr_reservation s)) (saved_row s) (lg_records l)"
  "lg_attempts (put_record s l) = lg_attempts l"
  "lg_revision (put_record s l) = js_succ (lg_revision l)"
  "high_of (put_record s l) = max (high_of l) (fence (sr_reservation s))"
  by (auto simp: put_record_def high_of_def dec_int_def max_def)

lemma put_attempt_simps [simp]:
  "lg_records (put_attempt k a l) = lg_records l"
  "lg_attempts (put_attempt k a l) = tbl_put k a (lg_attempts l)"
  "lg_revision (put_attempt k a l) = lg_revision l"
  "high_of (put_attempt k a l) = high_of l"
  by (simp_all add: put_attempt_def high_of_def)

lemma printable_step:
  "printable_reservation r \<Longrightarrow> valid_reservation r' \<Longrightarrow> res_step r t c r' \<Longrightarrow> printable_reservation r'"
  by (cases c)
    (auto simp: res_step_simps printable_reservation_def stamp_def digest_text_norm felt_text_require)

lemma transition_printable:
  assumes "printable_reservation r" and "transitionMakerReservation r c = Inr r'"
  shows "printable_reservation r'"
proof -
  from assms(2) obtain t where "res_step r t c r'"
    by (auto simp: transition_iff)
  with assms transition_valid[OF assms(2)] printable_step show ?thesis by blast
qed

lemma with_reservation_ok:
  assumes "stored_ok s" and "transitionMakerReservation (sr_reservation s) c = Inr r'"
  shows "stored_ok (with_reservation s r')"
proof -
  have "printable_reservation r'"
    using assms transition_printable by (auto simp: stored_ok_def)
  with assms(1) show ?thesis
    by (simp add: stored_ok_def with_reservation_def)
qed

lemma read_saved_row: "stored_ok s \<Longrightarrow> read_row (saved_row s) = Inr s"
  by (simp add: read_row_def saved_row_def read_saved)

text \<open>Every row of the table is a printed reservation, under its own id.\<close>

definition rows_ok :: "ledger \<Rightarrow> bool" where
  "rows_ok l = (\<forall>k row. tbl_get (lg_records l) k = Some row \<longrightarrow>
     (\<exists>s. row = saved_row s \<and> stored_ok s \<and> reservationId (sr_reservation s) = k))"

lemma rows_okD:
  "rows_ok l \<Longrightarrow> tbl_get (lg_records l) k = Some row \<Longrightarrow> read_row row = Inr s \<Longrightarrow>
   row = saved_row s \<and> stored_ok s \<and> reservationId (sr_reservation s) = k"
  unfolding rows_ok_def using read_saved_row by fastforce

lemma rows_ok_put: "rows_ok l \<Longrightarrow> stored_ok s \<Longrightarrow> rows_ok (put_record s l)"
  unfolding rows_ok_def put_record_simps
  by (auto simp: tbl_get_put)

section \<open>The ledger as a transition system\<close>

text \<open>
  The four things a request can do to the tables. Everything else it does is refuse.
\<close>

definition settles :: "reservation_command \<Rightarrow> jsval \<Rightarrow> bool" where
  "settles c v = (case c of
     Consume _ _ h \<Rightarrow> v = JObj [(''kind'', JStr ''consumed''), (''transactionHash'', JStr h)]
   | Quarantine _ _ w \<Rightarrow> v = unknown_outcome w
   | _ \<Rightarrow> False)"

inductive ledger_step :: "ledger \<Rightarrow> ledger \<Rightarrow> bool" where
  create: "tbl_get (lg_records l) (reservationId (sr_reservation s)) = None \<Longrightarrow> stored_ok s \<Longrightarrow>
     state (sr_reservation s) = Reserved \<Longrightarrow> fence (sr_reservation s) = high_of l + 1 \<Longrightarrow>
     ledger_step l (put_record s l)"
| amend: "tbl_get (lg_records l) (reservationId (sr_reservation s)) = Some (saved_row s) \<Longrightarrow>
     stored_ok s \<Longrightarrow> stored_ok s' \<Longrightarrow>
     assertMakerReservationMutation (Some (sr_reservation s)) (sr_reservation s')
       (Some (fence (sr_reservation s))) = Inr () \<Longrightarrow>
     ledger_step l (put_record s' l)"
| claim: "tbl_get (lg_records l) (reservationId (sr_reservation s)) = Some (saved_row s) \<Longrightarrow>
     stored_ok s \<Longrightarrow> tbl_get (lg_attempts l) key = None \<Longrightarrow> hex_digits 64 key \<Longrightarrow> positive_dec f \<Longrightarrow>
     int (of_base 10 f) = fence (sr_reservation s) \<Longrightarrow>
     transitionMakerReservation (sr_reservation s) (BeginFill (fence (sr_reservation s)) t key) = Inr r' \<Longrightarrow>
     ledger_step l (put_attempt key \<lparr>at_reservation_id = reservationId (sr_reservation s),
         at_selection_fence = f, at_payload_digest = dg, at_status = Pending, at_outcome = None\<rparr>
       (put_record (with_reservation s r') l))"
| settle: "tbl_get (lg_attempts l) key = Some a \<Longrightarrow> at_outcome a = None \<or> at_status a = Pending \<Longrightarrow>
     tbl_get (lg_records l) (at_reservation_id a) = Some (saved_row s) \<Longrightarrow> stored_ok s \<Longrightarrow>
     reservationId (sr_reservation s) = at_reservation_id a \<Longrightarrow>
     state (sr_reservation s) = Filling \<Longrightarrow> settlementAttemptId (sr_reservation s) = Some key \<Longrightarrow>
     transitionMakerReservation (sr_reservation s) c = Inr r' \<Longrightarrow> settles c v \<Longrightarrow>
     ledger_step l (put_attempt key (closed_row a v) (put_record (with_reservation s r') l))"

lemma close_interrupted_step:
  assumes m: "close_interrupted F t rid key (l, n) = Inr (s', l', n')" and ok: "rows_ok l"
    and a: "tbl_get (lg_attempts l) key = Some a" "at_reservation_id a = rid"
      "at_outcome a = None \<or> at_status a = Pending"
  shows "ledger_step l l' \<and> stored_ok s' \<and> l' = put_attempt key (closed_row a (unknown_outcome unknown_reason)) (put_record s' l)
    \<and> reservationId (sr_reservation s') = rid"
proof -
  from m obtain row s r' where row: "tbl_get (lg_records l) rid = Some row" "read_row row = Inr s"
    and f: "state (sr_reservation s) = Filling" "settlementAttemptId (sr_reservation s) = Some key"
    and tr: "transitionMakerReservation (sr_reservation s) (Quarantine (fence (sr_reservation s))
      (jint (max t (updatedAt (sr_reservation s)))) unknown_reason) = Inr r'"
    and s': "s' = with_reservation s r'"
    and l': "l' = put_attempt key (closed_row a (unknown_outcome unknown_reason)) (put_record s' l)"
    using a by (auto simp: close_interrupted_def reservationRow_def complete_row_def Let_def
        put_record_def put_attempt_def closed_row_def high_of_def with_reservation_def split: option.splits)
  have s: "row = saved_row s" "stored_ok s" "reservationId (sr_reservation s) = rid"
    using rows_okD[OF ok row] by auto
  have "settles (Quarantine (fence (sr_reservation s)) (jint (max t (updatedAt (sr_reservation s))))
      unknown_reason) (unknown_outcome unknown_reason)"
    by (simp add: settles_def)
  then have "ledger_step l l'"
    using ledger_step.settle[of l key a s] a s row f tr by (simp add: l' s')
  moreover have "reservationId r' = rid"
    using tr s(3) res_step_later by (fastforce simp: transition_iff same_terms_def)
  ultimately show ?thesis
    using l' s' with_reservation_ok[OF s(2) tr] by (simp add: with_reservation_def)
qed

lemma rows_ok_attempt [simp]: "rows_ok (put_attempt k a l) = rows_ok l"
  by (simp add: rows_ok_def)

lemma close_interrupted_rows:
  "close_interrupted F t rid key (l, n) = Inr (s', l', n') \<Longrightarrow> rows_ok l \<Longrightarrow>
   tbl_get (lg_attempts l) key = Some a \<Longrightarrow> at_reservation_id a = rid \<Longrightarrow>
   at_outcome a = None \<or> at_status a = Pending \<Longrightarrow> rows_ok l'"
  by (metis close_interrupted_step rows_ok_attempt rows_ok_put)

lemma recover_loop_steps:
  assumes "recover_loop F t rows (l, n) = Inr (out, l', n')" and "rows_ok l"
    and "distinct (map fst rows)"
    and "\<forall>(k, a)\<in>set rows. tbl_get (lg_attempts l) k = Some a \<and> at_status a = Pending"
  shows "ledger_step\<^sup>*\<^sup>* l l' \<and> rows_ok l'"
  using assms
proof (induction rows arbitrary: l n out)
  case Nil
  then show ?case by simp
next
  case (Cons x rows)
  obtain key a where x: "x = (key, a)"
    by (cases x)
  with Cons.prems(1) obtain s1 l1 n1 out1 where
    c: "close_interrupted F t (at_reservation_id a) key (l, n) = Inr (s1, l1, n1)"
    and r: "recover_loop F t rows (l1, n1) = Inr (out1, l', n')"
    by auto
  have a: "tbl_get (lg_attempts l) key = Some a" "at_status a = Pending"
    using Cons.prems(4) x by auto
  note st = close_interrupted_step[OF c Cons.prems(2) a(1) refl disjI2[OF a(2)]]
  have "\<forall>(k, b)\<in>set rows. tbl_get (lg_attempts l1) k = Some b \<and> at_status b = Pending"
    using Cons.prems(3,4) x st by (force simp: tbl_get_put)
  with Cons.IH[OF r close_interrupted_rows[OF c Cons.prems(2) a(1) refl disjI2[OF a(2)]]]
    Cons.prems(3) x have "ledger_step\<^sup>*\<^sup>* l1 l' \<and> rows_ok l'"
    by simp
  with st show ?case
    by (meson converse_rtranclp_into_rtranclp)
qed

lemma recover_tx_steps:
  assumes "recover_tx F t (l, n) = Inr (z, l', n')" and "rows_ok l" and "tbl_sorted (lg_attempts l)"
  shows "ledger_step\<^sup>*\<^sup>* l l'"
proof -
  let ?rows = "filter (\<lambda>(k, a). at_status a = Pending) (lg_attempts l)"
  have "distinct (map fst (lg_attempts l))"
    using assms(3) by (simp add: tbl_sorted_def strict_sorted_iff)
  then have "distinct (map fst ?rows)"
    by (rule distinct_map_filter)
  moreover have "\<forall>(k, a)\<in>set ?rows. tbl_get (lg_attempts l) k = Some a \<and> at_status a = Pending"
    using tbl_get_mem[OF assms(3)] by auto
  moreover obtain out where "recover_loop F t ?rows (l, n) = Inr (out, l', n')"
    using assms(1) by (auto simp: recover_tx_def pendingAttemptRows_def)
  ultimately show ?thesis
    using recover_loop_steps assms(2) by blast
qed

lemma begin_tx_steps:
  assumes m: "begin_tx F b (l, n) = Inr (z, l', n')" and ok: "rows_ok l"
    and key: "hex_digits 64 (ab_idempotencyKey b)"
  shows "ledger_step\<^sup>*\<^sup>* l l'"
proof (cases "tbl_get (lg_attempts l) (ab_idempotencyKey b)")
  case None
  with m obtain row s f r' where row: "tbl_get (lg_records l) (ab_reservationId b) = Some row"
    "read_row row = Inr s"
    and f: "requirePositiveBigInt (JStr (ab_expectedFence b)) ''expectedFence'' = Inr f"
      "fence (sr_reservation s) = f"
    and tr: "transitionMakerReservation (sr_reservation s)
      (BeginFill f (jint (ab_at b)) (ab_idempotencyKey b)) = Inr r'"
    and l': "l' = put_attempt (ab_idempotencyKey b)
      \<lparr>at_reservation_id = ab_reservationId b, at_selection_fence = ab_expectedFence b,
       at_payload_digest = ab_payloadDigest b, at_status = Pending, at_outcome = None\<rparr>
      (put_record (with_reservation s r') l)"
    by (auto simp: begin_tx_def attemptRow_def reservationRow_def Let_def put_record_def
        put_attempt_def high_of_def with_reservation_def split: option.splits)
  have s: "row = saved_row s" "stored_ok s" "reservationId (sr_reservation s) = ab_reservationId b"
    using rows_okD[OF ok row] by auto
  have "positive_dec (ab_expectedFence b)" "int (of_base 10 (ab_expectedFence b)) = fence (sr_reservation s)"
    using f by (auto simp: requirePositiveBigInt_def split: if_splits)
  then have "ledger_step l l'"
    unfolding l' s(3)[symmetric] using None s row key tr f by (intro ledger_step.claim) auto
  then show ?thesis by blast
next
  case (Some a)
  show ?thesis
  proof (cases "at_status a = Completed \<and> at_outcome a \<noteq> None")
    case True
    with m Some have "l' = l"
      by (auto simp: begin_tx_def attemptRow_def split: if_splits)
    then show ?thesis by simp
  next
    case False
    with m Some obtain s' where b: "same_binding a b"
      and c: "close_interrupted F (ab_at b) (ab_reservationId b) (ab_idempotencyKey b) (l, n)
        = Inr (s', l', n')"
      by (auto simp: begin_tx_def attemptRow_def split: if_splits attempt_status.splits option.splits)
    from False have "at_outcome a = None \<or> at_status a = Pending"
      by (cases "at_status a") auto
    with close_interrupted_step[OF c ok Some] b show ?thesis
      by (auto simp: same_binding_def)
  qed
qed

lemma outcome_settles:
  assumes "outcome_of q = Inr v" and "outcome_command q f t = Inr c"
    and "transitionMakerReservation r c = Inr r'"
  shows "settles c v"
proof (cases q)
  case (AskConsumed h)
  have "canonicalizeStarknetFelt [] \<noteq> Inr x" for x
    by (simp add: canonicalizeStarknetFelt_def trim_def)
  then have "requireFelt [] l \<noteq> Inr x" for l x
    by (auto simp: requireFelt_def split: sum.splits)
  with AskConsumed assms have "\<exists>s. h = JStr s"
    by (cases h) (auto simp: outcome_command_def transition_iff res_step_simps)
  with AskConsumed assms show ?thesis
    by (auto simp: outcome_of_def outcome_command_def settles_def)
next
  case (AskUnknown why)
  with assms show ?thesis
    by (auto simp: outcome_of_def outcome_command_def settles_def)
qed

lemma complete_tx_steps:
  assumes m: "complete_tx F b q (l, n) = Inr (z, l', n')" and ok: "rows_ok l"
  shows "ledger_step\<^sup>*\<^sup>* l l'"
proof -
  obtain a where a: "tbl_get (lg_attempts l) (ab_idempotencyKey b) = Some a" and sb: "same_binding a b"
    using m by (auto simp: complete_tx_def attemptRow_def split: option.splits if_splits)
  show ?thesis
  proof (cases "at_status a = Completed \<and> at_outcome a \<noteq> None")
    case True
    with m a sb have "l' = l"
      by (auto simp: complete_tx_def attemptRow_def)
    then show ?thesis by simp
  next
    case False
    then have p: "at_outcome a = None \<or> at_status a = Pending"
      by (cases "at_status a") auto
    with m a sb obtain row s v c r' where
      row: "tbl_get (lg_records l) (ab_reservationId b) = Some row" "read_row row = Inr s"
      and f: "state (sr_reservation s) = Filling"
        "settlementAttemptId (sr_reservation s) = Some (ab_idempotencyKey b)"
      and o': "outcome_of q = Inr v" "outcome_command q (fence (sr_reservation s)) (ab_at b) = Inr c"
      and tr: "transitionMakerReservation (sr_reservation s) c = Inr r'"
      and l': "l' = put_attempt (ab_idempotencyKey b) (closed_row a v) (put_record (with_reservation s r') l)"
      by (auto simp: complete_tx_def attemptRow_def reservationRow_def complete_row_def Let_def
          put_record_def put_attempt_def closed_row_def high_of_def with_reservation_def
          split: option.splits attempt_status.splits)
    have s: "row = saved_row s" "stored_ok s" "reservationId (sr_reservation s) = ab_reservationId b"
      using rows_okD[OF ok row] by auto
    have "ledger_step l l'"
      unfolding l'
      using a p row(1) s sb f tr outcome_settles[OF o' tr]
      by (intro ledger_step.settle) (auto simp: same_binding_def)
    then show ?thesis by blast
  qed
qed

lemma requireStoredRecord_ok: "requireStoredRecord v = Inr s \<Longrightarrow> stored_ok s"
  using decode_stored_ok by (auto simp: requireStoredRecord_def split: if_splits)

lemma mutation_create:
  "assertMakerReservationMutation None r e = Inr () \<Longrightarrow> state r = Reserved \<and> e = None"
  by (auto simp: assertMakerReservationMutation_def split: if_splits)

lemma prepare_one_step:
  assumes "prepare_one l seen hw m = Inr (s', hw')" and ok: "rows_ok l"
    and same: "tbl_get (lg_records l') (reservationId (sr_reservation s'))
      = tbl_get (lg_records l) (reservationId (sr_reservation s'))"
    and hw: "high_of l' = hw"
  shows "ledger_step l' (put_record s' l') \<and> stored_ok s' \<and> hw' = max hw (fence (sr_reservation s'))
    \<and> reservationId (sr_reservation s') \<notin> set seen"
proof -
  let ?r = "sr_reservation s'"
  from assms(1) obtain v current e where v: "requireStoredRecord v = Inr s'"
    and seen: "reservationId ?r \<notin> set seen"
    and cur: "(case tbl_get (lg_records l) (reservationId ?r) of None \<Rightarrow> Inr None
        | Some row \<Rightarrow> bind_r (read_row row) (\<lambda>c. Inr (Some c))) = Inr current"
    and mu: "assertMakerReservationMutation (map_option sr_reservation current) ?r e = Inr ()"
    and fr: "\<not> (current = None \<and> fence ?r \<noteq> hw + 1)"
    and hw': "hw' = (if hw < fence ?r then fence ?r else hw)"
    by (auto simp: prepare_one_def Let_def)
  have s': "stored_ok s'"
    using requireStoredRecord_ok[OF v] .
  have "ledger_step l' (put_record s' l')"
  proof (cases current)
    case None
    then have "tbl_get (lg_records l) (reservationId ?r) = None"
      using cur by (auto split: option.splits)
    then show ?thesis
      using None mu fr s' hw same mutation_create by (intro ledger_step.create) auto
  next
    case (Some s)
    then obtain row where row: "tbl_get (lg_records l) (reservationId ?r) = Some row" "read_row row = Inr s"
      using cur by (auto split: option.splits)
    note s = rows_okD[OF ok row]
    have "e = Some (fence (sr_reservation s))"
      using mu Some by (auto simp: assertMakerReservationMutation_def split: if_splits)
    then show ?thesis
      using Some mu s s' same row by (intro ledger_step.amend[of l' s s']) auto
  qed
  then show ?thesis
    using s' seen hw' by simp
qed

lemma save_all_steps:
  assumes "prepare l seen hw ms = Inr ss" and "rows_ok l"
    and "save_all F (lg_revision l', lg_high_water l') ss (l', n) = Inr (z, l'', n')"
    and "\<forall>k. k \<notin> set seen \<longrightarrow> tbl_get (lg_records l') k = tbl_get (lg_records l) k"
    and "high_of l' = hw"
  shows "ledger_step\<^sup>*\<^sup>* l' l'' \<and> z = (lg_revision l'', lg_high_water l'')"
  using assms
proof (induction ms arbitrary: seen hw ss l' n)
  case Nil
  then show ?case by auto
next
  case (Cons m ms)
  from Cons.prems(1) obtain s' hw' rest where one: "prepare_one l seen hw m = Inr (s', hw')"
    and rest: "prepare l (reservationId (sr_reservation s') # seen) hw' ms = Inr rest"
    and ss: "ss = s' # rest"
    by auto
  have "reservationId (sr_reservation s') \<notin> set seen"
    using one by (auto simp: prepare_one_def Let_def)
  then have st: "ledger_step l' (put_record s' l')" "hw' = max hw (fence (sr_reservation s'))"
    using prepare_one_step[OF one Cons.prems(2) _ Cons.prems(5)] Cons.prems(4) by auto
  have sv: "save_all F (lg_revision (put_record s' l'), lg_high_water (put_record s' l')) rest
      (put_record s' l', Suc (Suc n)) = Inr (z, l'', n')"
    using Cons.prems(3) by (simp add: ss Let_def put_record_def high_of_def)
  have "ledger_step\<^sup>*\<^sup>* (put_record s' l') l'' \<and> z = (lg_revision l'', lg_high_water l'')"
    using st(2) Cons.prems(4,5) by (intro Cons.IH[OF rest Cons.prems(2) sv]) (auto simp: tbl_get_put)
  with st(1) show ?case
    by (meson converse_rtranclp_into_rtranclp)
qed

lemma commit_tx_steps:
  assumes "commit_tx F rv ms (l, n) = Inr (z, l', n')" and "rows_ok l"
  shows "ledger_step\<^sup>*\<^sup>* l l'"
proof -
  from assms(1) obtain ss z' where p: "prepare l [] (high_of l) ms = Inr ss"
    and s: "save_all F (lg_revision l, lg_high_water l) ss (l, n) = Inr (z', l', n')"
    by (auto simp: commit_tx_def high_of_def)
  show ?thesis
    using save_all_steps[OF p assms(2) s] by simp
qed

text \<open>Whatever a route does, it does by steps of the relation; a transaction that throws does nothing.\<close>

lemma transactionSync_steps:
  assumes "\<And>z l' n'. m (l, 0) = Inr (z, l', n') \<Longrightarrow> ledger_step\<^sup>*\<^sup>* l l'"
  shows "ledger_step\<^sup>*\<^sup>* l (snd (transactionSync m l))"
  using assms by (auto simp: transactionSync_def split: sum.splits)

lemma respond_snd [simp]: "snd (respond p) = snd p"
  by (auto simp: respond_def split: sum.splits)

lemma requireAttempt_key:
  "requireAttempt v = Inr b \<Longrightarrow> hex_digits 64 (ab_idempotencyKey b) \<and> hex_digits 64 (ab_reservationId b)"
  by (auto simp: requireAttempt_def hex32_field_def split: jsval.splits option.splits if_splits)

lemma snapshot_snd [simp]: "snd (snapshot l) = l"
proof -
  have "l' = l" if "snapshot_tx (l, 0) = Inr (z, l', n')" for z l' n'
    using that by (auto simp: snapshot_tx_def)
  then show ?thesis
    by (auto simp: snapshot_def transactionSync_def split: sum.splits)
qed

lemma fetch_steps:
  assumes "rows_ok l" and "tbl_sorted (lg_attempts l)"
  shows "ledger_step\<^sup>*\<^sup>* l (snd (fetch F q l))"
proof -
  have c: "ledger_step\<^sup>*\<^sup>* l (snd (commit F v l))" for v
  proof -
    have "ledger_step\<^sup>*\<^sup>* l (snd (transactionSync (commit_tx F rv ms) l))" for rv ms
      by (intro transactionSync_steps) (rule commit_tx_steps[OF _ assms(1)])
    then show ?thesis
      by (auto simp: commit_def split: jsval.splits option.splits if_splits)
  qed
  have b: "ledger_step\<^sup>*\<^sup>* l (snd (beginAttempt F v l))" for v
  proof (cases "requireAttempt v")
    case (Inr b)
    then have "hex_digits 64 (ab_idempotencyKey b)"
      by (simp add: requireAttempt_key)
    then have "ledger_step\<^sup>*\<^sup>* l (snd (transactionSync (begin_tx F b) l))"
      by (intro transactionSync_steps) (rule begin_tx_steps[OF _ assms(1)])
    with Inr show ?thesis by (simp add: beginAttempt_def)
  qed (simp add: beginAttempt_def)
  have d: "ledger_step\<^sup>*\<^sup>* l (snd (completeAttempt F v l))" for v
  proof -
    have "ledger_step\<^sup>*\<^sup>* l (snd (transactionSync (complete_tx F b x) l))" for b x
      by (intro transactionSync_steps) (rule complete_tx_steps[OF _ assms(1)])
    then show ?thesis
      by (auto simp: completeAttempt_def split: sum.splits)
  qed
  have r: "ledger_step\<^sup>*\<^sup>* l (snd (recoverPendingAttempts F v l))" for v
  proof -
    have "ledger_step\<^sup>*\<^sup>* l (snd (transactionSync (recover_tx F t) l))" for t
      by (intro transactionSync_steps) (rule recover_tx_steps[OF _ assms])
    then show ?thesis
      by (auto simp: recoverPendingAttempts_def split: sum.splits)
  qed
  have w: "(\<And>v. ledger_step\<^sup>*\<^sup>* l (snd (h v l))) \<Longrightarrow> ledger_step\<^sup>*\<^sup>* l (snd (with_body q h l))" for h
    by (auto simp: with_body_def split: sum.splits)
  show ?thesis
    unfolding fetch_def using c b d r by (auto intro!: w)
qed

section \<open>What every step keeps\<close>

text \<open>A table of records as the map it stands for.\<close>

definition row_of :: "ledger \<Rightarrow> string \<Rightarrow> stored_reservation option" where
  "row_of l k = (case tbl_get (lg_records l) k of None \<Rightarrow> None
     | Some row \<Rightarrow> (case read_row row of Inl _ \<Rightarrow> None | Inr s \<Rightarrow> Some s))"

abbreviation attempt_of :: "ledger \<Rightarrow> string \<Rightarrow> attempt_row option" where
  "attempt_of l k \<equiv> tbl_get (lg_attempts l) k"

lemma row_of_saved:
  "tbl_get (lg_records l) k = Some (saved_row s) \<Longrightarrow> stored_ok s \<Longrightarrow> row_of l k = Some s"
  by (simp add: row_of_def read_saved_row)

lemma row_of_put_record [simp]:
  "stored_ok s \<Longrightarrow> row_of (put_record s l) k =
     (if k = reservationId (sr_reservation s) then Some s else row_of l k)"
  by (simp add: row_of_def tbl_get_put read_saved_row)

lemma row_of_put_attempt [simp]: "row_of (put_attempt k a l) = row_of l"
  by (rule ext) (simp add: row_of_def)

lemma rows_okE:
  assumes "rows_ok l" and "tbl_get (lg_records l) k = Some row"
  obtains s where "row = saved_row s" "stored_ok s" "reservationId (sr_reservation s) = k"
    "row_of l k = Some s"
  using assms row_of_saved unfolding rows_ok_def by blast

lemma row_of_None: "rows_ok l \<Longrightarrow> row_of l k = None \<longleftrightarrow> tbl_get (lg_records l) k = None"
  by (cases "tbl_get (lg_records l) k") (auto simp: row_of_def elim: rows_okE)

lemma row_of_Some:
  assumes "rows_ok l" and "row_of l k = Some s"
  shows "tbl_get (lg_records l) k = Some (saved_row s) \<and> stored_ok s \<and> reservationId (sr_reservation s) = k"
proof -
  obtain row where "tbl_get (lg_records l) k = Some row"
    using assms(2) by (auto simp: row_of_def split: option.splits)
  with assms show ?thesis
    by (metis rows_okE option.inject)
qed

text \<open>
  Value moves only through a claimed attempt: a reservation that is being filled has a pending
  attempt of its own, and one that was consumed has the completed attempt that consumed it, with
  the transaction hash that was recorded.
\<close>

definition moves_ok :: "ledger \<Rightarrow> maker_reservation \<Rightarrow> bool" where
  "moves_ok l r =
     (case state r of
        Filling \<Rightarrow> (case settlementAttemptId r of None \<Rightarrow> False | Some key \<Rightarrow>
          (case attempt_of l key of None \<Rightarrow> False | Some a \<Rightarrow>
             at_reservation_id a = reservationId r \<and> at_status a = Pending))
      | Consumed \<Rightarrow> (case settlementAttemptId r of None \<Rightarrow> False | Some key \<Rightarrow>
          (case attempt_of l key of None \<Rightarrow> False | Some a \<Rightarrow>
             at_reservation_id a = reservationId r \<and> at_status a = Completed
             \<and> (\<exists>h x. at_outcome a = Some (JObj [(''kind'', JStr ''consumed''), (''transactionHash'', JStr h)])
                \<and> settlementTransactionHash r = Some x
                \<and> requireFelt h ''settlementTransactionHash'' = Inr x)))
      | _ \<Rightarrow> True)"

definition attempt_ok :: "ledger \<Rightarrow> string \<Rightarrow> attempt_row \<Rightarrow> bool" where
  "attempt_ok l k a =
     ((at_status a = Completed) = (at_outcome a \<noteq> None) \<and> hex_digits 64 k \<and> positive_dec (at_selection_fence a)
      \<and> (case row_of l (at_reservation_id a) of None \<Rightarrow> False
         | Some s \<Rightarrow> int (of_base 10 (at_selection_fence a)) < fence (sr_reservation s)))"

definition ledger_inv :: "ledger \<Rightarrow> bool" where
  "ledger_inv l =
     (rows_ok l \<and> tbl_sorted (lg_records l) \<and> tbl_sorted (lg_attempts l)
      \<and> 0 \<le> lg_revision l \<and> lg_high_water l = dec_int (high_of l)
      \<and> (\<forall>k s. row_of l k = Some s \<longrightarrow> fence (sr_reservation s) \<le> high_of l \<and> moves_ok l (sr_reservation s))
      \<and> (\<forall>k a. attempt_of l k = Some a \<longrightarrow> attempt_ok l k a))"

text \<open>The order in which versions of the ledger follow each other: nothing is forgotten.\<close>

definition ledger_le :: "ledger \<Rightarrow> ledger \<Rightarrow> bool" where
  "ledger_le l l' =
     (lg_revision l \<le> lg_revision l' \<and> high_of l \<le> high_of l'
      \<and> (\<forall>k s. row_of l k = Some s \<longrightarrow>
           (\<exists>s'. row_of l' k = Some s' \<and> res_le (sr_reservation s) (sr_reservation s')))
      \<and> (\<forall>k s'. row_of l k = None \<longrightarrow> row_of l' k = Some s' \<longrightarrow> high_of l < fence (sr_reservation s'))
      \<and> (\<forall>k a. attempt_of l k = Some a \<longrightarrow>
           (\<exists>a'. attempt_of l' k = Some a' \<and> at_reservation_id a' = at_reservation_id a
              \<and> at_selection_fence a' = at_selection_fence a \<and> at_payload_digest a' = at_payload_digest a
              \<and> (at_status a = Completed \<longrightarrow> a' = a))))"

lemma res_le_refl [simp]: "res_le r r"
  by (simp add: res_le_def same_terms_def)

lemma ledger_le_refl: "ledger_le l l"
  by (simp add: ledger_le_def)

lemma mutation_res_le:
  assumes "assertMakerReservationMutation (Some r) r' e = Inr ()"
  shows "res_le r r' \<and> fence r' = fence r + 1 \<and> state r' \<in> {Selected, Released, Expired, Quarantined}
    \<and> \<not> is_terminal (state r)"
  using mutation_step[OF assms] by (simp add: res_le_def)

text \<open>
  What a step does to the records: one reservation is created with a fresh fence or replaced by a
  later version of itself.
\<close>

definition record_step :: "ledger \<Rightarrow> ledger \<Rightarrow> stored_reservation \<Rightarrow> bool" where
  "record_step l l' s' =
     (stored_ok s' \<and> row_of l' = (row_of l)(reservationId (sr_reservation s') \<mapsto> s')
      \<and> high_of l' = max (high_of l) (fence (sr_reservation s'))
      \<and> (case row_of l (reservationId (sr_reservation s')) of
           None \<Rightarrow> fence (sr_reservation s') = high_of l + 1
         | Some s \<Rightarrow> res_le (sr_reservation s) (sr_reservation s') \<and> \<not> is_terminal (state (sr_reservation s))
             \<and> fence (sr_reservation s') = fence (sr_reservation s) + 1))"

lemma transition_fence:
  "transitionMakerReservation r c = Inr r' \<Longrightarrow> fence r' = fence r + 1 \<and> \<not> is_terminal (state r)
     \<and> reservationId r' = reservationId r"
  using res_step_later by (fastforce simp: transition_iff same_terms_def)

lemma with_reservation_sel [simp]: "sr_reservation (with_reservation s r) = r"
  by (simp add: with_reservation_def)

lemma record_step_put:
  "stored_ok s' \<Longrightarrow>
   (case row_of l (reservationId (sr_reservation s')) of
      None \<Rightarrow> fence (sr_reservation s') = high_of l + 1
    | Some s \<Rightarrow> res_le (sr_reservation s) (sr_reservation s') \<and> \<not> is_terminal (state (sr_reservation s))
        \<and> fence (sr_reservation s') = fence (sr_reservation s) + 1) \<Longrightarrow>
   record_step l (put_record s' l) s'"
  by (auto simp: record_step_def)

lemma record_step_transition:
  assumes "tbl_get (lg_records l) (reservationId (sr_reservation s)) = Some (saved_row s)" and "stored_ok s"
    and tr: "transitionMakerReservation (sr_reservation s) c = Inr r'"
  shows "record_step l (put_record (with_reservation s r') l) (with_reservation s r')"
  using row_of_saved[OF assms(1,2)] transition_fence[OF tr] transition_res_le[OF tr]
  by (intro record_step_put with_reservation_ok[OF assms(2) tr]) simp

lemma record_step_attempt [simp]:
  "record_step l (put_attempt k a l') s' = record_step l l' s'"
  by (simp add: record_step_def)

lemma ledger_step_record: "ledger_step l l' \<Longrightarrow> rows_ok l \<Longrightarrow> \<exists>s'. record_step l l' s'"
proof (induction rule: ledger_step.induct)
  case (create l s)
  then have "record_step l (put_record s l) s"
    by (intro record_step_put) (simp_all add: row_of_def)
  then show ?case by blast
next
  case (amend l s s')
  note m = mutation_res_le[OF amend(4)]
  then have "reservationId (sr_reservation s') = reservationId (sr_reservation s)"
    by (simp add: res_le_def same_terms_def)
  with amend m have "record_step l (put_record s' l) s'"
    by (intro record_step_put) (simp_all add: row_of_saved)
  then show ?case by blast
next
  case (claim l s key f t r' dg)
  show ?case
    using record_step_transition[OF claim(1,2,7)] by (intro exI) simp
next
  case (settle l key a s c r' v)
  show ?case
    using record_step_transition[of l s c r'] settle by (intro exI) simp
qed

lemma ledger_step_rows: "ledger_step l l' \<Longrightarrow> rows_ok l \<Longrightarrow> rows_ok l'"
  by (induction rule: ledger_step.induct) (auto intro!: rows_ok_put dest: with_reservation_ok)

lemma record_step_le:
  "record_step l l' s' \<Longrightarrow> row_of l k = Some s \<Longrightarrow>
   \<exists>s''. row_of l' k = Some s'' \<and> res_le (sr_reservation s) (sr_reservation s'')"
  by (auto simp: record_step_def)

lemma attempt_ok_later:
  assumes "attempt_ok l k a" and "record_step l l' s'"
  shows "attempt_ok l' k a"
proof -
  obtain s where s: "row_of l (at_reservation_id a) = Some s"
    using assms(1) by (auto simp: attempt_ok_def split: option.splits)
  with record_step_le[OF assms(2) s] assms(1) show ?thesis
    by (auto simp: attempt_ok_def res_le_def)
qed

lemma moves_ok_same:
  "moves_ok l r \<Longrightarrow> (\<And>k a. settlementAttemptId r = Some k \<Longrightarrow> attempt_of l k = Some a \<Longrightarrow>
     at_reservation_id a = reservationId r \<Longrightarrow> attempt_of l' k = Some a) \<Longrightarrow> moves_ok l' r"
  by (auto simp: moves_ok_def split: reservation_state.splits option.splits)

lemma moves_ok_trivial: "state r \<noteq> Filling \<Longrightarrow> state r \<noteq> Consumed \<Longrightarrow> moves_ok l r"
  by (cases "state r") (simp_all add: moves_ok_def)

lemma moves_ok_put_record [simp]: "moves_ok (put_record s l) r = moves_ok l r"
  unfolding moves_ok_def put_record_simps by (rule refl)

lemma js_succ_le: "n \<le> js_succ n"
  by (simp add: js_succ_def)

lemma ledger_inv_update:
  assumes inv: "ledger_inv l" and st: "record_step l l' s'" and step: "ledger_step l l'"
    and hw: "lg_revision l' = js_succ (lg_revision l)" "lg_high_water l' = dec_int (high_of l')"
    and srt: "tbl_sorted (lg_records l')" "tbl_sorted (lg_attempts l')"
    and att: "\<And>k a. attempt_of l' k = Some a \<Longrightarrow> attempt_of l k \<noteq> Some a \<Longrightarrow> attempt_ok l' k a"
    and mv: "moves_ok l' (sr_reservation s')"
    and other: "\<And>k s. row_of l k = Some s \<Longrightarrow> k \<noteq> reservationId (sr_reservation s') \<Longrightarrow>
      moves_ok l (sr_reservation s) \<Longrightarrow> moves_ok l' (sr_reservation s)"
  shows "ledger_inv l'"
proof -
  have "rows_ok l'"
    using ledger_step_rows[OF step] inv by (simp add: ledger_inv_def)
  moreover have "fence (sr_reservation s) \<le> high_of l' \<and> moves_ok l' (sr_reservation s)"
    if "row_of l' k = Some s" for k s
    using that inv st mv other[of k s]
    by (auto simp: record_step_def ledger_inv_def intro: max.coboundedI1 split: if_splits)
  moreover have "attempt_ok l' k a" if "attempt_of l' k = Some a" for k a
    using that att[OF that] attempt_ok_later[OF _ st] inv
    by (cases "attempt_of l k = Some a") (auto simp: ledger_inv_def)
  moreover have "0 \<le> lg_revision l'"
    using hw(1) inv js_succ_le[of "lg_revision l"] by (simp add: ledger_inv_def)
  ultimately show ?thesis
    using hw(2) srt unfolding ledger_inv_def by blast
qed

lemma put_record_high [simp]: "lg_high_water (put_record s l) = dec_int (high_of (put_record s l))"
  by (simp add: put_record_def high_of_def dec_int_def max_def)

lemma put_attempt_high [simp]: "lg_high_water (put_attempt k a l) = lg_high_water l"
  by (simp add: put_attempt_def)

lemma claimed_reservation:
  "transitionMakerReservation r (BeginFill f t key) = Inr r' \<Longrightarrow> hex_digits 64 key \<Longrightarrow>
   state r' = Filling \<and> settlementAttemptId r' = Some key"
  using hex_digits_normal[of 64 key] by (auto simp: transition_iff res_step_simps)

lemma settled_reservation:
  assumes "transitionMakerReservation r c = Inr r'" and "settles c v"
  shows "(state r' = Quarantined \<and> (\<exists>w. v = unknown_outcome w))
    \<or> (state r' = Consumed \<and> settlementAttemptId r' = settlementAttemptId r
       \<and> (\<exists>h x. v = JObj [(''kind'', JStr ''consumed''), (''transactionHash'', JStr h)]
            \<and> settlementTransactionHash r' = Some x \<and> requireFelt h ''settlementTransactionHash'' = Inr x))"
  using assms by (cases c) (auto simp: settles_def transition_iff res_step_simps stamp_def)

lemma ledger_step_inv: "ledger_step l l' \<Longrightarrow> ledger_inv l \<Longrightarrow> ledger_inv l'"
proof (induction rule: ledger_step.induct)
  case (create l s)
  then have step: "ledger_step l (put_record s l)"
    by (intro ledger_step.create)
  have st: "record_step l (put_record s l) s"
    using create by (intro record_step_put) (simp_all add: row_of_def)
  show ?case
    using create st step
    by (intro ledger_inv_update[OF create(5) st step])
      (simp_all add: moves_ok_trivial ledger_inv_def tbl_put_sorted)
next
  case (amend l s s')
  then have step: "ledger_step l (put_record s' l)"
    by (intro ledger_step.amend)
  note m = mutation_res_le[OF amend(4)]
  then have "reservationId (sr_reservation s') = reservationId (sr_reservation s)"
    by (simp add: res_le_def same_terms_def)
  with amend m have st: "record_step l (put_record s' l) s'"
    by (intro record_step_put) (simp_all add: row_of_saved)
  show ?case
    using m amend st step
    by (intro ledger_inv_update[OF amend(5) st step])
      (auto simp: moves_ok_trivial ledger_inv_def tbl_put_sorted)
next
  case (claim l s key f t r' dg)
  let ?a = "\<lparr>at_reservation_id = reservationId (sr_reservation s), at_selection_fence = f,
    at_payload_digest = dg, at_status = Pending, at_outcome = None\<rparr>"
  let ?l = "put_attempt key ?a (put_record (with_reservation s r') l)"
  have step: "ledger_step l ?l"
    using claim by (intro ledger_step.claim)
  have st: "record_step l ?l (with_reservation s r')"
    using record_step_transition[OF claim(1,2,7)] by simp
  note f = transition_fence[OF claim(7)] claimed_reservation[OF claim(7,4)]
  have "row_of ?l (reservationId (sr_reservation s)) = Some (with_reservation s r')"
    using st f by (simp add: record_step_def)
  then have a: "attempt_ok ?l key ?a"
    using claim(4,5,6) f by (simp add: attempt_ok_def)
  have mv: "moves_ok ?l r'"
    using f by (simp add: moves_ok_def tbl_get_put)
  have other: "moves_ok l r \<Longrightarrow> moves_ok ?l r" for r
    by (rule moves_ok_same) (use claim(3) in \<open>auto simp: tbl_get_put\<close>)
  show ?case
    using claim(8) mv other a
    by (intro ledger_inv_update[OF claim(8) st step])
      (simp_all add: ledger_inv_def tbl_put_sorted tbl_get_put split: if_splits)
next
  case (settle l key a s c r' v)
  let ?l = "put_attempt key (closed_row a v) (put_record (with_reservation s r') l)"
  have step: "ledger_step l ?l"
    using settle by (intro ledger_step.settle)
  have st: "record_step l ?l (with_reservation s r')"
    using record_step_transition[of l s c r'] settle by simp
  note f = transition_fence[OF settle(8)] settled_reservation[OF settle(8,9)]
  have "row_of ?l (at_reservation_id a) = Some (with_reservation s r')"
    using st f settle(5) by (simp add: record_step_def)
  moreover have "attempt_ok l key a"
    using settle(1,10) by (simp add: ledger_inv_def)
  moreover have "row_of l (at_reservation_id a) = Some s"
    using settle(3,4) by (rule row_of_saved)
  ultimately have a: "attempt_ok ?l key (closed_row a v)"
    using f by (simp add: attempt_ok_def closed_row_def)
  have mv: "moves_ok ?l r'"
    using f settle(5,7) by (auto simp: moves_ok_def tbl_get_put closed_row_def)
  have other: "moves_ok ?l r" if "moves_ok l r" "reservationId r \<noteq> at_reservation_id a" for r
    by (rule moves_ok_same[OF that(1)]) (use that settle(1) in \<open>auto simp: tbl_get_put\<close>)
  have "reservationId (sr_reservation u) = k" if "row_of l k = Some u" for k u
    using settle(10) row_of_Some[OF _ that] by (simp add: ledger_inv_def)
  with settle(5,10) f mv other a show ?case
    by (intro ledger_inv_update[OF settle(10) st step])
      (simp_all add: ledger_inv_def tbl_put_sorted tbl_get_put split: if_splits)
qed

lemma record_step_new:
  "record_step l l' s' \<Longrightarrow> row_of l k = None \<Longrightarrow> row_of l' k = Some s \<Longrightarrow> high_of l < fence (sr_reservation s)"
  by (auto simp: record_step_def split: if_splits)

lemma ledger_step_le: "ledger_step l l' \<Longrightarrow> ledger_inv l \<Longrightarrow> ledger_le l l'"
proof -
  assume step: "ledger_step l l'" and inv: "ledger_inv l"
  then obtain s' where st: "record_step l l' s'"
    using ledger_step_record unfolding ledger_inv_def by blast
  have "lg_revision l \<le> lg_revision l'"
    using step by (cases rule: ledger_step.cases) (simp_all add: js_succ_le)
  moreover have "high_of l \<le> high_of l'"
    using st by (simp add: record_step_def)
  moreover have "\<exists>a'. attempt_of l' k = Some a' \<and> at_reservation_id a' = at_reservation_id a
      \<and> at_selection_fence a' = at_selection_fence a \<and> at_payload_digest a' = at_payload_digest a
      \<and> (at_status a = Completed \<longrightarrow> a' = a)" if "attempt_of l k = Some a" for k a
    using step
  proof (cases rule: ledger_step.cases)
    case (settle key b s c r' v)
    have "attempt_ok l key b"
      using inv settle(2) by (simp add: ledger_inv_def)
    then have "at_status b \<noteq> Completed"
      using settle(3) by (auto simp: attempt_ok_def)
    with that settle show ?thesis
      by (auto simp: tbl_get_put closed_row_def)
  qed (use that in \<open>auto simp: tbl_get_put\<close>)
  ultimately show ?thesis
    using record_step_le[OF st] record_step_new[OF st] unfolding ledger_le_def by blast
qed

lemma ledger_leD:
  assumes "ledger_le l l'"
  shows "lg_revision l \<le> lg_revision l'" and "high_of l \<le> high_of l'"
    and "row_of l k = Some s \<Longrightarrow> \<exists>s'. row_of l' k = Some s' \<and> res_le (sr_reservation s) (sr_reservation s')"
    and "row_of l k = None \<Longrightarrow> row_of l' k = Some u \<Longrightarrow> high_of l < fence (sr_reservation u)"
    and "attempt_of l k = Some a \<Longrightarrow> \<exists>a'. attempt_of l' k = Some a'
      \<and> at_reservation_id a' = at_reservation_id a \<and> at_selection_fence a' = at_selection_fence a
      \<and> at_payload_digest a' = at_payload_digest a \<and> (at_status a = Completed \<longrightarrow> a' = a)"
  using assms by (simp_all add: ledger_le_def)

lemma ledger_le_trans:
  assumes a: "ledger_le l1 l2" and b: "ledger_le l2 l3"
  shows "ledger_le l1 l3"
proof -
  have "\<exists>s'. row_of l3 k = Some s' \<and> res_le (sr_reservation s) (sr_reservation s')"
    if "row_of l1 k = Some s" for k s
    using ledger_leD(3)[OF a that] ledger_leD(3)[OF b] res_le_trans by blast
  moreover have "high_of l1 < fence (sr_reservation s')"
    if n: "row_of l1 k = None" and s: "row_of l3 k = Some s'" for k s'
  proof (cases "row_of l2 k")
    case None
    from ledger_leD(2)[OF a] ledger_leD(4)[OF b None s] show ?thesis by simp
  next
    case (Some s2)
    obtain u where "row_of l3 k = Some u" "res_le (sr_reservation s2) (sr_reservation u)"
      using ledger_leD(3)[OF b Some] by blast
    with s ledger_leD(4)[OF a n Some] show ?thesis
      by (simp add: res_le_def)
  qed
  moreover have "\<exists>a'. attempt_of l3 k = Some a' \<and> at_reservation_id a' = at_reservation_id x
      \<and> at_selection_fence a' = at_selection_fence x \<and> at_payload_digest a' = at_payload_digest x
      \<and> (at_status x = Completed \<longrightarrow> a' = x)" if x: "attempt_of l1 k = Some x" for k x
  proof -
    obtain y where y: "attempt_of l2 k = Some y" "at_reservation_id y = at_reservation_id x"
      "at_selection_fence y = at_selection_fence x" "at_payload_digest y = at_payload_digest x"
      "at_status x = Completed \<longrightarrow> y = x"
      using ledger_leD(5)[OF a x] by blast
    with ledger_leD(5)[OF b y(1)] show ?thesis by force
  qed
  ultimately show ?thesis
    using order_trans[OF ledger_leD(1)[OF a] ledger_leD(1)[OF b]]
      order_trans[OF ledger_leD(2)[OF a] ledger_leD(2)[OF b]]
    unfolding ledger_le_def by blast
qed

lemma ledger_steps_inv:
  "ledger_step\<^sup>*\<^sup>* l l' \<Longrightarrow> ledger_inv l \<Longrightarrow> ledger_inv l' \<and> ledger_le l l'"
proof (induction rule: rtranclp_induct)
  case base
  then show ?case by (simp add: ledger_le_refl)
next
  case (step y z)
  then show ?case
    using ledger_step_inv ledger_step_le ledger_le_trans by blast
qed

lemma fetch_ledger_steps: "ledger_inv l \<Longrightarrow> ledger_step\<^sup>*\<^sup>* l (snd (fetch F q l))"
  by (rule fetch_steps) (simp_all add: ledger_inv_def)

abbreviation serve :: "faults \<times> ledger_request \<Rightarrow> ledger \<Rightarrow> ledger result" where
  "serve c l \<equiv> Inr (snd (fetch (fst c) (snd c) l))"

interpretation ledger_run: guarded_system serve ledger_inv ledger_le
proof
  show "ledger_inv s'" if "ledger_inv s" "serve c s = Inr s'" for s c s'
    using that ledger_steps_inv[OF fetch_ledger_steps[OF that(1)]] by auto
  show "ledger_le s s'" if "ledger_inv s" "serve c s = Inr s'" for s c s'
    using that ledger_steps_inv[OF fetch_ledger_steps[OF that(1)]] by auto
qed (auto intro: ledger_le_refl ledger_le_trans)

lemma empty_ledger_inv: "ledger_inv empty_ledger"
  by (simp add: ledger_inv_def empty_ledger_def rows_ok_def tbl_sorted_def high_of_def row_of_def
      dec_int_def dec_def to_base.simps of_base_def digit_char_zero digit_val_def code_def is_digit_def)

end
