(* ===== verification/Ledger_Properties.thy ===== *)
theory Ledger_Properties
  imports Ledger_Steps
begin

text \<open>What callers of the reservation ledger may rely on, and what they may not.\<close>

section \<open>Runs and replies\<close>

abbreviation run_ledger :: "(faults \<times> ledger_request) list \<Rightarrow> ledger \<Rightarrow> ledger" where
  "run_ledger \<equiv> run_cmds serve"

lemma tx_cases:
  fixes m p c :: "'a tx"
  shows "(case x of None \<Rightarrow> m | Some y \<Rightarrow> f y) s = Inr z \<longleftrightarrow>
      (x = None \<and> m s = Inr z) \<or> (\<exists>y. x = Some y \<and> f y s = Inr z)"
    and "(case st of Pending \<Rightarrow> p | Completed \<Rightarrow> c) s = Inr z \<longleftrightarrow>
      (st = Pending \<and> p s = Inr z) \<or> (st = Completed \<and> c s = Inr z)"
  by (auto split: option.splits attempt_status.splits)

lemma commit_tx_status: "commit_tx F rv ms s = Inr (r, s') \<Longrightarrow> status r = 200"
  by (auto simp: commit_tx_def)

lemma recover_tx_status: "recover_tx F t s = Inr (r, s') \<Longrightarrow> status r = 200"
  by (auto simp: recover_tx_def)

lemma begin_tx_status: "begin_tx F b s = Inr (r, s') \<Longrightarrow> status r = 200 \<or> status r = 201"
  by (auto simp: begin_tx_def replay_response_def Let_def tx_cases)

lemma complete_tx_status: "complete_tx F b q s = Inr (r, s') \<Longrightarrow> status r = 200"
  by (auto simp: complete_tx_def replay_response_def Let_def tx_cases)

lemma respond_status:
  "status (fst (respond (transactionSync m l))) \<notin> {200, 201} \<Longrightarrow>
   (\<And>r s'. m (l, 0) = Inr (r, s') \<Longrightarrow> status r \<in> {200, 201}) \<Longrightarrow>
   snd (transactionSync m l) = l"
  by (auto simp: respond_def transactionSync_def split: sum.splits)

lemma respond_code:
  "(\<And>z s'. m (l, 0) = Inr (z, s') \<Longrightarrow> status z = 200) \<Longrightarrow>
   status (fst (respond (transactionSync m l))) \<in> {200, 409, 503}"
  by (auto simp: respond_def transactionSync_def transactionFailure_def conflict_def split: sum.splits)

lemma respond_refused:
  assumes "\<And>z. m (l, 0) \<noteq> Inr z"
  shows "status (fst (respond (transactionSync m l))) \<in> {409, 503} \<and> snd (transactionSync m l) = l"
  using assms by (cases "m (l, 0)")
    (auto simp: respond_def transactionSync_def transactionFailure_def conflict_def)

lemma failed_routes:
  "status (fst (commit F v l)) \<notin> {200, 201} \<Longrightarrow> snd (commit F v l) = l"
  "status (fst (beginAttempt F v l)) \<notin> {200, 201} \<Longrightarrow> snd (beginAttempt F v l) = l"
  "status (fst (completeAttempt F v l)) \<notin> {200, 201} \<Longrightarrow> snd (completeAttempt F v l) = l"
  "status (fst (recoverPendingAttempts F v l)) \<notin> {200, 201} \<Longrightarrow> snd (recoverPendingAttempts F v l) = l"
  by (auto simp: commit_def beginAttempt_def completeAttempt_def recoverPendingAttempts_def
      dest: commit_tx_status begin_tx_status complete_tx_status recover_tx_status
      intro!: respond_status split: jsval.splits option.splits if_splits sum.splits)

lemma replay_tx:
  assumes "attempt_of l (ab_idempotencyKey b) = Some a" and "same_binding a b"
    and "at_status a = Completed" and "at_outcome a = Some v"
  shows "begin_tx F b (l, n) = Inr (replay_response v, l, n)"
    and "complete_tx F b q (l, n) = Inr (replay_response v, l, n)"
  using assms by (simp_all add: begin_tx_def complete_tx_def attemptRow_def)

lemma replay_routes:
  assumes "requireAttempt req = Inr b" and "attempt_of l (ab_idempotencyKey b) = Some a"
    and "same_binding a b" and "at_status a = Completed" and "at_outcome a = Some v"
  shows "beginAttempt F req l = (replay_response v, l)"
    and "requireOutcome req = Inr q \<Longrightarrow> completeAttempt F req l = (replay_response v, l)"
  using assms replay_tx[OF assms(2-5)]
  by (simp_all add: beginAttempt_def completeAttempt_def transactionSync_def respond_def)

lemma complete_tx_outcome:
  assumes m: "complete_tx F b q (l, n) = Inr (r, l', n')"
  shows "\<exists>a v kvs. attempt_of l' (ab_idempotencyKey b) = Some a \<and> same_binding a b
    \<and> at_status a = Completed \<and> at_outcome a = Some v \<and> body r = JObj kvs \<and> get_field kvs ''outcome'' = v"
proof -
  obtain a where a: "attempt_of l (ab_idempotencyKey b) = Some a" "same_binding a b"
    using m by (auto simp: complete_tx_def attemptRow_def split: option.splits if_splits)
  show ?thesis
  proof (cases "at_status a = Completed \<and> at_outcome a \<noteq> None")
    case True
    with m a show ?thesis
      by (auto simp: complete_tx_def attemptRow_def replay_response_def)
  next
    case False
    with m a show ?thesis
      by (auto simp: complete_tx_def attemptRow_def reservationRow_def complete_row_def Let_def
          tbl_get_put same_binding_def split: option.splits attempt_status.splits)
  qed
qed

lemma completed_stays:
  "ledger_inv l \<Longrightarrow> attempt_of l k = Some a \<Longrightarrow> at_status a = Completed \<Longrightarrow>
   attempt_of (run_ledger cs l) k = Some a"
  using ledger_leD(5)[OF ledger_run.run_le] by blast

lemma completeAttempt_Inr:
  assumes "completeAttempt F req l = (r, l')" and "status r = 200"
  obtains b q n' where "requireAttempt req = Inr b" "requireOutcome req = Inr q"
    "complete_tx F b q (l, 0) = Inr (r, l', n')"
  using assms
  by (auto simp: completeAttempt_def respond_def transactionSync_def transactionFailure_def conflict_def
      split: sum.splits if_splits)

text \<open>
  C1: every request, whatever its body and whichever of its writes fail, changes the ledger only by
  the four steps of the abstract ledger: a fresh reservation, a lifecycle step that moves no value,
  a claimed attempt, or the closing of a pending attempt.
\<close>

theorem ledger_refines_steps:
  assumes "ledger_inv l"
  shows "ledger_step\<^sup>*\<^sup>* l (snd (fetch F q l))"
  by (rule fetch_ledger_steps[OF assms])

text \<open>
  C2: over any sequence of requests and write failures the ledger stays well-formed (every row is a
  readable reservation under its own id, no fence exceeds the high-water mark, value has moved only
  through a completed attempt that names the recorded transaction) and forgets nothing: revision
  and high-water mark only grow, no reservation or attempt disappears, each reservation only moves
  forward, terminal reservations and completed attempts never change, and a new reservation gets a
  fence above every earlier one.
\<close>

theorem ledger_run_invariant:
  assumes "ledger_inv l"
  shows "ledger_inv (run_ledger cs l) \<and> ledger_le l (run_ledger cs l)"
  using ledger_run.run_inv[OF assms] ledger_run.run_le[OF assms] by blast

text \<open>
  C5: a request that is not answered with success changes nothing: a rejected body, a stale fence, a
  conflict and a write that fails half way all leave every table as it was.
\<close>

theorem failed_request_changes_nothing:
  assumes "status (fst (fetch F q l)) \<noteq> 200" and "status (fst (fetch F q l)) \<noteq> 201"
  shows "snd (fetch F q l) = l"
  using assms by (auto simp: fetch_def with_body_def failed_routes split: sum.splits if_splits)

text \<open>
  C4: a settled attempt is settled once: after a completion is answered with success, asking again
  with the same binding, by either route and after any other requests, is answered with the
  outcome first reported and changes nothing.
\<close>

theorem settled_attempt_replays:
  assumes "ledger_inv l" and "completeAttempt F req l = (r, l1)" and "status r = 200"
  shows "\<exists>v kvs. body r = JObj kvs \<and> get_field kvs ''outcome'' = v
    \<and> beginAttempt F' req (run_ledger cs l1) = (replay_response v, run_ledger cs l1)
    \<and> completeAttempt F' req (run_ledger cs l1) = (replay_response v, run_ledger cs l1)"
proof -
  obtain b q n' where b: "requireAttempt req = Inr b" "requireOutcome req = Inr q"
    and tx: "complete_tx F b q (l, 0) = Inr (r, l1, n')"
    using completeAttempt_Inr[OF assms(2,3)] .
  from complete_tx_outcome[OF tx] obtain a v kvs where
    a: "attempt_of l1 (ab_idempotencyKey b) = Some a" "same_binding a b" "at_status a = Completed"
      "at_outcome a = Some v" and o': "body r = JObj kvs" "get_field kvs ''outcome'' = v"
    by blast
  have "ledger_inv l1"
    using ledger_steps_inv[OF complete_tx_steps[OF tx] assms(1)] assms(1) by (simp add: ledger_inv_def)
  then have "attempt_of (run_ledger cs l1) (ab_idempotencyKey b) = Some a"
    using a by (intro completed_stays)
  with replay_routes[OF b(1) _ a(2-4)] b(2) o' show ?thesis by blast
qed

lemma begin_tx_claims:
  assumes m: "begin_tx F b (l, n) = Inr (r, l', n')" and "status r = 201"
  shows "attempt_of l (ab_idempotencyKey b) = None \<and> attempt_of l' (ab_idempotencyKey b) =
    Some \<lparr>at_reservation_id = ab_reservationId b, at_selection_fence = ab_expectedFence b,
      at_payload_digest = ab_payloadDigest b, at_status = Pending, at_outcome = None\<rparr>"
  using assms by (auto simp: begin_tx_def replay_response_def Let_def tx_cases attemptRow_def tbl_get_put)

lemma begin_tx_filling:
  assumes m: "begin_tx F b (l, n) = Inr (r, l', n')" and "status r = 201" and ok: "rows_ok l"
    and key: "hex_digits 64 (ab_idempotencyKey b)"
  shows "\<exists>s. row_of l' (ab_reservationId b) = Some s \<and> state (sr_reservation s) = Filling
    \<and> settlementAttemptId (sr_reservation s) = Some (ab_idempotencyKey b)"
proof -
  obtain row s f r' where row: "tbl_get (lg_records l) (ab_reservationId b) = Some row"
    "read_row row = Inr s"
    and tr: "transitionMakerReservation (sr_reservation s)
      (BeginFill f (jint (ab_at b)) (ab_idempotencyKey b)) = Inr r'"
    and l': "lg_records l' = tbl_put (reservationId r') (saved_row (with_reservation s r')) (lg_records l)"
    using assms(1,2)
    by (auto simp: begin_tx_def replay_response_def Let_def tx_cases reservationRow_def attemptRow_def)
  note s = rows_okD[OF ok row]
  have "row_of l' (ab_reservationId b) = Some (with_reservation s r')"
    using transition_fence[OF tr] s with_reservation_ok[OF _ tr]
    by (intro row_of_saved) (simp_all add: l' tbl_get_put)
  then show ?thesis
    using claimed_reservation[OF tr key] by simp
qed

lemma begin_tx_again:
  "attempt_of l (ab_idempotencyKey b) = Some a \<Longrightarrow> begin_tx F b (l, n) = Inr (r, s') \<Longrightarrow> status r = 200"
  by (auto simp: begin_tx_def attemptRow_def replay_response_def tx_cases)

lemma beginAttempt_201:
  assumes "beginAttempt F req l = (r, l')" and "status r = 201"
  obtains b n' where "requireAttempt req = Inr b" "begin_tx F b (l, 0) = Inr (r, l', n')"
  using assms
  by (auto simp: beginAttempt_def respond_def transactionSync_def transactionFailure_def conflict_def
      split: sum.splits if_splits)

text \<open>
  C3: a value-moving attempt is claimed once: when a claim is granted, no earlier attempt had its
  idempotency key, the reservation it names is filling under that key, and no later request, in
  any order and with any binding, is ever granted the same key again.
\<close>

theorem claim_granted_once:
  assumes inv: "ledger_inv l" and cl: "beginAttempt F req l = (r, l1)" and ok: "status r = 201"
    and req: "requireAttempt req = Inr b" and req': "requireAttempt req' = Inr b'"
    and same: "ab_idempotencyKey b' = ab_idempotencyKey b"
  shows "attempt_of l (ab_idempotencyKey b) = None
    \<and> (\<exists>s. row_of l1 (ab_reservationId b) = Some s \<and> state (sr_reservation s) = Filling
         \<and> settlementAttemptId (sr_reservation s) = Some (ab_idempotencyKey b))
    \<and> status (fst (beginAttempt F' req' (run_ledger cs l1))) \<noteq> 201"
proof -
  obtain n' where tx: "begin_tx F b (l, 0) = Inr (r, l1, n')"
    using beginAttempt_201[OF cl ok] req by auto
  have key: "hex_digits 64 (ab_idempotencyKey b)"
    using requireAttempt_key[OF req] by simp
  note c = begin_tx_claims[OF tx ok]
  have "ledger_inv l1"
    using ledger_steps_inv[OF begin_tx_steps[OF tx _ key] inv] inv by (simp add: ledger_inv_def)
  then have le: "ledger_le l1 (run_ledger cs l1)"
    by (rule ledger_run.run_le)
  obtain a where "attempt_of (run_ledger cs l1) (ab_idempotencyKey b') = Some a"
    unfolding same using ledger_leD(5)[OF le conjunct2[OF c]] by blast
  then have "status (fst (respond (transactionSync (begin_tx F' b') (run_ledger cs l1)))) \<in> {200, 409, 503}"
    by (intro respond_code) (rule begin_tx_again)
  moreover have "beginAttempt F' req' (run_ledger cs l1)
      = respond (transactionSync (begin_tx F' b') (run_ledger cs l1))"
    by (simp add: beginAttempt_def req')
  ultimately have "status (fst (beginAttempt F' req' (run_ledger cs l1))) \<noteq> 201"
    by auto
  with c begin_tx_filling[OF tx ok _ key] inv show ?thesis
    by (auto simp: ledger_inv_def)
qed

text \<open>
  An attempt whose reservation has left the filling state by another route: nothing can close it.
\<close>

definition orphaned :: "ledger \<Rightarrow> string \<Rightarrow> bool" where
  "orphaned l key = (case attempt_of l key of None \<Rightarrow> False | Some a \<Rightarrow>
     at_status a = Pending \<and> (case row_of l (at_reservation_id a) of None \<Rightarrow> False | Some s \<Rightarrow>
       is_terminal (state (sr_reservation s))))"

lemma orphaned_step: "ledger_step l l' \<Longrightarrow> ledger_inv l \<Longrightarrow> orphaned l key \<Longrightarrow> orphaned l' key"
proof -
  assume st: "ledger_step l l'" and inv: "ledger_inv l" and o': "orphaned l key"
  obtain a s where a: "attempt_of l key = Some a" "at_status a = Pending"
    and s: "row_of l (at_reservation_id a) = Some s" "is_terminal (state (sr_reservation s))"
    using o' by (auto simp: orphaned_def split: option.splits)
  have "attempt_of l' key = Some a"
    using st
  proof (cases rule: ledger_step.cases)
    case (settle k b u c r' v)
    have "row_of l (at_reservation_id b) = Some u"
      using settle(4,5) by (rule row_of_saved)
    then have "k \<noteq> key"
      using a s settle(2,7) by (auto simp: is_terminal_def)
    then show ?thesis
      using a settle by (simp add: tbl_get_put)
  qed (use a in \<open>auto simp: tbl_get_put\<close>)
  moreover obtain s' where "row_of l' (at_reservation_id a) = Some s'"
    "res_le (sr_reservation s) (sr_reservation s')"
    using ledger_leD(3)[OF ledger_step_le[OF st inv] s(1)] by blast
  ultimately show ?thesis
    using a s by (auto simp: orphaned_def res_le_def)
qed

lemma orphaned_steps: "ledger_step\<^sup>*\<^sup>* l l' \<Longrightarrow> ledger_inv l \<Longrightarrow> orphaned l key \<Longrightarrow> orphaned l' key"
  by (induction rule: rtranclp_induct) (auto dest: ledger_steps_inv orphaned_step)

lemma orphaned_run: "ledger_inv l \<Longrightarrow> orphaned l key \<Longrightarrow> orphaned (run_ledger cs l) key"
proof (induction cs arbitrary: l)
  case (Cons c cs)
  have "orphaned (snd (fetch (fst c) (snd c) l)) key"
    using Cons.prems orphaned_steps fetch_ledger_steps by blast
  moreover have "ledger_inv (snd (fetch (fst c) (snd c) l))"
    using Cons.prems(1) ledger_steps_inv fetch_ledger_steps by blast
  ultimately show ?case
    using Cons.IH by simp
qed simp

lemma orphaned_not_closed:
  assumes inv: "ledger_inv l" and o': "orphaned l key" and a: "attempt_of l key = Some a"
  shows "close_interrupted F t (at_reservation_id a) key (l, n) \<noteq> Inr z"
proof
  assume c: "close_interrupted F t (at_reservation_id a) key (l, n) = Inr z"
  obtain s where s: "row_of l (at_reservation_id a) = Some s" "is_terminal (state (sr_reservation s))"
    using o' a by (auto simp: orphaned_def split: option.splits)
  then have "tbl_get (lg_records l) (at_reservation_id a) = Some (saved_row s)" "stored_ok s"
    using row_of_Some[OF _ s(1)] inv by (auto simp: ledger_inv_def)
  with c s(2) show False
    by (auto simp: close_interrupted_def reservationRow_def Let_def read_saved_row is_terminal_def)
qed

lemma orphaned_blocks_loop:
  assumes "ledger_inv l" and "orphaned l key" and "key \<in> fst ` set rows"
    and "distinct (map fst rows)"
    and "\<forall>(k, a)\<in>set rows. attempt_of l k = Some a \<and> at_status a = Pending"
  shows "recover_loop F t rows (l, n) \<noteq> Inr z"
  using assms
proof (induction rows arbitrary: l n z)
  case (Cons x rows)
  obtain k a where x: "x = (k, a)"
    by (cases x)
  have a: "attempt_of l k = Some a" "at_status a = Pending"
    using Cons.prems(5) x by auto
  show ?case
  proof
    assume "recover_loop F t (x # rows) (l, n) = Inr z"
    then obtain s1 l1 n1 z1 where c: "close_interrupted F t (at_reservation_id a) k (l, n) = Inr (s1, l1, n1)"
      and r: "recover_loop F t rows (l1, n1) = Inr z1"
      using x by auto
    have "k \<noteq> key"
      using orphaned_not_closed[OF Cons.prems(1,2)] a c by blast
    then have key: "key \<in> fst ` set rows"
      using Cons.prems(3) x by auto
    have "rows_ok l"
      using Cons.prems(1) by (simp add: ledger_inv_def)
    note st = close_interrupted_step[OF c this a(1) refl disjI2[OF a(2)]]
    have "\<forall>(k, b)\<in>set rows. attempt_of l1 k = Some b \<and> at_status b = Pending"
      using Cons.prems(4,5) x st by (force simp: tbl_get_put)
    moreover have "ledger_inv l1" "orphaned l1 key"
      using st Cons.prems(1,2) ledger_step_inv orphaned_step by blast+
    ultimately show False
      using Cons.IH[OF _ _ key] Cons.prems(4) x r by auto
  qed
qed simp

text \<open>
  C6: an attempt that lost its reservation to another route is never closed. When a pending
  attempt's reservation has become terminal (a commit may quarantine a filling reservation), then
  after any further requests the attempt is still pending, and every recovery pass is refused and
  changes nothing, so the other interrupted attempts are not recovered either.
\<close>

theorem orphaned_attempt_blocks_recovery:
  assumes inv: "ledger_inv l" and o': "orphaned l key"
  shows "orphaned (run_ledger cs l) key
    \<and> status (fst (recoverPendingAttempts F req (run_ledger cs l))) \<in> {400, 409, 503}
    \<and> snd (recoverPendingAttempts F req (run_ledger cs l)) = run_ledger cs l"
proof -
  let ?l = "run_ledger cs l"
  let ?rows = "filter (\<lambda>(k, a). at_status a = Pending) (lg_attempts ?l)"
  have o2: "orphaned ?l key" and inv2: "ledger_inv ?l"
    using orphaned_run[OF inv o'] ledger_run.run_inv[OF inv] by auto
  have srt: "tbl_sorted (lg_attempts ?l)"
    using inv2 by (simp add: ledger_inv_def)
  obtain a where a: "attempt_of ?l key = Some a" "at_status a = Pending"
    using o2 by (auto simp: orphaned_def split: option.splits)
  then have "(key, a) \<in> set ?rows"
    using tbl_get_mem[OF srt] by simp
  moreover have "distinct (map fst ?rows)"
    using srt by (intro distinct_map_filter) (simp add: tbl_sorted_def strict_sorted_iff)
  moreover have "\<forall>(k, a)\<in>set ?rows. attempt_of ?l k = Some a \<and> at_status a = Pending"
    using tbl_get_mem[OF srt] by auto
  moreover have "key \<in> fst ` set ?rows"
    using calculation(1) by (rule image_eqI[rotated]) simp
  ultimately have "recover_loop F t ?rows (?l, 0) \<noteq> Inr z" for t z
    by (intro orphaned_blocks_loop[OF inv2 o2])
  then have "recover_tx F t (?l, 0) \<noteq> Inr z" for t z
    by (auto simp: recover_tx_def pendingAttemptRows_def)
  then have refused: "status (fst (respond (transactionSync (recover_tx F t) ?l))) \<in> {409, 503}
      \<and> snd (transactionSync (recover_tx F t) ?l) = ?l" for t
    by (rule respond_refused)
  have "status (fst (recoverPendingAttempts F req ?l)) \<in> {400, 409, 503}
      \<and> snd (recoverPendingAttempts F req ?l) = ?l"
    unfolding recoverPendingAttempts_def by (split sum.split) (use refused in simp)
  with o2 show ?thesis by blast
qed

section \<open>Requests that succeed\<close>

definition commit_body :: "int \<Rightarrow> jsval \<Rightarrow> jsval \<Rightarrow> jsval" where
  "commit_body rv v e = JObj [(''expectedRevision'', JNum (jint rv)),
     (''mutations'', JArr [JObj [(''record'', v), (''expectedFence'', e)]])]"

abbreviation no_faults :: faults where
  "no_faults \<equiv> (\<lambda>_. None)"

lemma prepare_one_accepts:
  assumes "rows_ok l" and "stored_ok s"
    and cur: "row_of l (reservationId (sr_reservation s)) = current"
    and ef: "(if e = JNull then Inr None
      else bind_r (requirePositiveBigInt e ''expectedFence'') (\<lambda>n. Inr (Some n))) = Inr expected"
    and mu: "assertMakerReservationMutation (map_option sr_reservation current) (sr_reservation s) expected = Inr ()"
    and fr: "current = None \<Longrightarrow> fence (sr_reservation s) = hw + 1"
  shows "prepare_one l [] hw (JObj [(''record'', jsonify (stored_value s)), (''expectedFence'', e)])
    = Inr (s, max hw (fence (sr_reservation s)))"
proof -
  let ?k = "reservationId (sr_reservation s)"
  have "(case tbl_get (lg_records l) ?k of None \<Rightarrow> Inr None
      | Some row \<Rightarrow> bind_r (read_row row) (\<lambda>c. Inr (Some c))) = Inr current"
    using cur assms(1) row_of_None[OF assms(1)] row_of_Some[OF assms(1)]
    by (cases current) (auto simp: read_saved_row)
  then show ?thesis
    using ef mu fr read_wire[OF assms(2)]
    by (cases current) (auto simp: prepare_one_def prop_of_def max_def Let_def)
qed

lemma commit_accepts:
  assumes inv: "ledger_inv l" and rv: "lg_revision l \<le> max_safe" and ok: "stored_ok s"
    and cur: "row_of l (reservationId (sr_reservation s)) = current"
    and ef: "(if e = JNull then Inr None
      else bind_r (requirePositiveBigInt e ''expectedFence'') (\<lambda>n. Inr (Some n))) = Inr expected"
    and mu: "assertMakerReservationMutation (map_option sr_reservation current) (sr_reservation s) expected = Inr ()"
    and fr: "current = None \<Longrightarrow> fence (sr_reservation s) = high_of l + 1"
  shows "commit no_faults (commit_body (lg_revision l) (jsonify (stored_value s)) e) l =
    (Response 200 (JObj [(''committed'', JBool True), (''revision'', JNum (jint (lg_revision l + 1)))]),
     put_record s l)"
proof -
  have "rows_ok l" and nn: "0 \<le> lg_revision l"
    using inv by (auto simp: ledger_inv_def)
  note p = prepare_one_accepts[OF this(1) ok cur ef mu fr]
  have "js_succ (lg_revision l) = lg_revision l + 1"
    using rv by (simp add: js_succ_def max_safe_def)
  then have "commit_tx no_faults (lg_revision l)
      [JObj [(''record'', jsonify (stored_value s)), (''expectedFence'', e)]] (l, 0)
    = Inr (Response 200 (JObj [(''committed'', JBool True), (''revision'', JNum (jint (lg_revision l + 1)))]),
        put_record s l, 2)"
    using p rv nn
    by (simp add: commit_tx_def high_of_def[symmetric] put_record_def Let_def)
  then show ?thesis
    using rv nn by (simp add: commit_def commit_body_def value_safe_int_def transactionSync_def respond_def)
qed

lemma begin_accepts:
  assumes inv: "ledger_inv l" and rv: "lg_revision l \<le> max_safe"
    and s: "row_of l (ab_reservationId b) = Some s" and a: "attempt_of l (ab_idempotencyKey b) = None"
    and req: "requireAttempt req = Inr b"
    and f: "requirePositiveBigInt (JStr (ab_expectedFence b)) ''expectedFence'' = Inr (fence (sr_reservation s))"
    and tr: "transitionMakerReservation (sr_reservation s) (BeginFill (fence (sr_reservation s))
      (jint (ab_at b)) (ab_idempotencyKey b)) = Inr r'"
  shows "beginAttempt no_faults req l =
    (Response 201 (JObj [(''kind'', JStr ''claimed''),
       (''record'', jsonify (stored_value (with_reservation s r')))]),
     put_attempt (ab_idempotencyKey b)
       \<lparr>at_reservation_id = ab_reservationId b, at_selection_fence = ab_expectedFence b,
        at_payload_digest = ab_payloadDigest b, at_status = Pending, at_outcome = None\<rparr>
       (put_record (with_reservation s r') l))"
proof -
  have "rows_ok l" and nn: "0 \<le> lg_revision l"
    using inv by (auto simp: ledger_inv_def)
  note r = row_of_Some[OF this(1) s]
  have "begin_tx no_faults b (l, 0) =
    Inr (Response 201 (JObj [(''kind'', JStr ''claimed''),
       (''record'', jsonify (stored_value (with_reservation s r')))]),
     put_attempt (ab_idempotencyKey b)
       \<lparr>at_reservation_id = ab_reservationId b, at_selection_fence = ab_expectedFence b,
        at_payload_digest = ab_payloadDigest b, at_status = Pending, at_outcome = None\<rparr>
       (put_record (with_reservation s r') l), 3)"
    using r nn rv a f tr read_saved_row[of s] read_saved(2)[OF with_reservation_ok[OF _ tr]]
    by (simp add: begin_tx_def attemptRow_def reservationRow_def Let_def put_record_def put_attempt_def
        high_of_def)
  then show ?thesis
    by (simp add: beginAttempt_def req transactionSync_def respond_def)
qed

lemma complete_accepts:
  assumes inv: "ledger_inv l" and rv: "lg_revision l \<le> max_safe"
    and a: "attempt_of l (ab_idempotencyKey b) = Some a" "same_binding a b" "at_status a = Pending"
    and s: "row_of l (ab_reservationId b) = Some s" "state (sr_reservation s) = Filling"
      "settlementAttemptId (sr_reservation s) = Some (ab_idempotencyKey b)"
    and req: "requireAttempt req = Inr b" "requireOutcome req = Inr q"
    and q: "outcome_of q = Inr v" "outcome_command q (fence (sr_reservation s)) (ab_at b) = Inr c"
    and tr: "transitionMakerReservation (sr_reservation s) c = Inr r'"
  shows "completeAttempt no_faults req l =
    (Response 200 (JObj [(''kind'', JStr ''completed''), (''outcome'', v),
       (''record'', jsonify (stored_value (with_reservation s r')))]),
     put_attempt (ab_idempotencyKey b) (closed_row a v) (put_record (with_reservation s r') l))"
proof -
  have "rows_ok l" and nn: "0 \<le> lg_revision l"
    using inv by (auto simp: ledger_inv_def)
  note r = row_of_Some[OF this(1) s(1)]
  have "complete_tx no_faults b q (l, 0) =
    Inr (Response 200 (JObj [(''kind'', JStr ''completed''), (''outcome'', v),
       (''record'', jsonify (stored_value (with_reservation s r')))]),
     put_attempt (ab_idempotencyKey b) (closed_row a v) (put_record (with_reservation s r') l), 3)"
    using r nn rv a s q tr read_saved_row[of s] read_saved(2)[OF with_reservation_ok[OF _ tr]]
    by (simp add: complete_tx_def attemptRow_def reservationRow_def complete_row_def Let_def
        put_record_def put_attempt_def closed_row_def high_of_def)
  then show ?thesis
    by (simp add: completeAttempt_def req transactionSync_def respond_def)
qed

text \<open>
  A new reservation that takes the next fence is accepted: with storage working and the current
  revision named, a commit of a well-formed, freshly reserved record under an unused id is
  answered with success, and the record is in the ledger under that id.
\<close>

lemma create_is_committed:
  assumes "ledger_inv l" and "lg_revision l \<le> max_safe" and "stored_ok s"
    and "row_of l (reservationId (sr_reservation s)) = None"
    and "assertMakerReservationMutation None (sr_reservation s) None = Inr ()"
    and "fence (sr_reservation s) = high_of l + 1"
  shows "status (fst (commit no_faults (commit_body (lg_revision l) (jsonify (stored_value s)) JNull) l)) = 200
    \<and> row_of (snd (commit no_faults (commit_body (lg_revision l) (jsonify (stored_value s)) JNull) l))
        (reservationId (sr_reservation s)) = Some s"
  using commit_accepts[OF assms(1-4), of JNull None] assms(3,5,6) by simp

definition quarantine_body :: "ledger \<Rightarrow> stored_reservation \<Rightarrow> jsval" where
  "quarantine_body l s =
     (let r = sr_reservation s in
      commit_body (lg_revision l)
        (jsonify (stored_value (with_reservation s
          ((stamp (updatedAt r) r)\<lparr>state := Quarantined, terminalReason := Some ''operator''\<rparr>))))
        (JStr (dec_int (fence r))))"

lemma positive_dec_dec: "0 < n \<Longrightarrow> positive_dec (dec n)"
proof -
  assume "0 < n"
  moreover have "of_base 10 ''0'' = 0"
    by (simp add: digit_val_def is_digit_def code_def)
  ultimately have "dec n \<noteq> ''0''"
    using of_base_dec[of n] by (metis less_not_refl)
  with canonical_dec_dec[of n] show ?thesis
    by (auto simp: canonical_dec_def positive_dec_def)
qed

text \<open>
  A filling reservation can be taken away from its attempt. For every well-formed ledger that
  holds a reservation in the filling state there is a commit, accepted with success, that
  quarantines it directly and leaves the attempt that was filling it orphaned: \<open>commit\<close> refuses to
  enter the filling state, but not to leave it.
\<close>

lemma commit_orphans_attempt:
  assumes inv: "ledger_inv l" and rv: "lg_revision l \<le> max_safe"
    and s: "row_of l k = Some s" and st: "state (sr_reservation s) = Filling"
    and key: "settlementAttemptId (sr_reservation s) = Some key"
    and fe: "fence (sr_reservation s) < max_u256"
  shows "status (fst (commit no_faults (quarantine_body l s) l)) = 200
    \<and> orphaned (snd (commit no_faults (quarantine_body l s) l)) key"
proof -
  let ?r = "sr_reservation s"
  let ?c = "Quarantine (fence ?r) (jint (updatedAt ?r)) ''operator''"
  let ?r' = "(stamp (updatedAt ?r) ?r)\<lparr>state := Quarantined, terminalReason := Some ''operator''\<rparr>"
  let ?s' = "with_reservation s ?r'"
  have row: "stored_ok s" "reservationId ?r = k"
    using row_of_Some[OF _ s] inv by (auto simp: ledger_inv_def)
  then have v: "valid_reservation ?r" "printable_reservation ?r"
    by (auto simp: stored_ok_def printable_reservation_def)
  have w: "trim ''operator'' = ''operator''"
    by (simp add: trim_def is_ws_def code_def)
  have "res_step ?r (updatedAt ?r) ?c ?r'"
    using res_step.quarantine[of ?r "''operator''" "updatedAt ?r" "fence ?r" "jint (updatedAt ?r)"] st w
    by simp
  then have tr: "transitionMakerReservation ?r ?c = Inr ?r'"
    using v st fe by (auto simp: transition_iff is_terminal_def valid_reservation_def)
  have ec: "expected_command ?r ?r' = Inr ?c"
    by (simp add: expected_command_def text_or_empty_def stamp_def)
  have mu: "assertMakerReservationMutation (Some ?r) ?r' (Some (fence ?r)) = Inr ()"
    using mutation_accepts[OF tr ec transition_printable[OF v(2) tr]] .
  have f0: "0 < fence ?r"
    using v by (simp add: valid_reservation_def positive_u256_def)
  then have ef: "requirePositiveBigInt (JStr (dec_int (fence ?r))) ''expectedFence'' = Inr (fence ?r)"
    by (simp add: requirePositiveBigInt_def dec_int_def positive_dec_dec)
  have ok: "stored_ok ?s'"
    by (rule with_reservation_ok[OF row(1) tr])
  have id: "reservationId ?r' = k"
    using row(2) by (simp add: stamp_def)
  have c: "commit no_faults (quarantine_body l s) l =
      (Response 200 (JObj [(''committed'', JBool True), (''revision'', JNum (jint (lg_revision l + 1)))]),
       put_record ?s' l)"
    unfolding quarantine_body_def Let_def
    using commit_accepts[OF inv rv ok, of "Some s" "JStr (dec_int (fence ?r))" "Some (fence ?r)"] s id mu ef
    by simp
  have "moves_ok l ?r"
    using inv s by (simp add: ledger_inv_def)
  then obtain a where "attempt_of l key = Some a" "at_reservation_id a = k" "at_status a = Pending"
    using st key row(2) by (auto simp: moves_ok_def split: option.splits)
  then have "orphaned (put_record ?s' l) key"
    using ok id by (simp add: orphaned_def is_terminal_def)
  with c show ?thesis by simp
qed

section \<open>The properties at work\<close>

text \<open>
  A ledger that went through a creation, a selection and a claim, and the requests on it.
\<close>

definition key1 :: string where
  "key1 = ''0x'' @ replicate 64 CHR ''4''"

definition quote1 :: string where
  "quote1 = ''0x'' @ replicate 64 CHR ''8''"

definition selected1 :: maker_reservation where
  "selected1 = (stamp 110 sample_reservation)\<lparr>state := Selected, selectedQuoteDigest := Some quote1\<rparr>"

definition filling1 :: maker_reservation where
  "filling1 = (stamp 120 selected1)\<lparr>state := Filling, settlementAttemptId := Some key1\<rparr>"

definition attempt1 :: attempt_row where
  "attempt1 = \<lparr>at_reservation_id = reservationId sample_reservation, at_selection_fence = ''2'',
     at_payload_digest = quote1, at_status = Pending, at_outcome = None\<rparr>"

definition ledger1 :: ledger where
  "ledger1 = put_record sample_stored empty_ledger"

definition ledger2 :: ledger where
  "ledger2 = put_record (with_reservation sample_stored selected1) ledger1"

definition ledger3 :: ledger where
  "ledger3 = put_attempt key1 attempt1 (put_record (with_reservation sample_stored filling1) ledger2)"

definition begin_body :: "jsval" where
  "begin_body = JObj [(''reservationId'', JStr (reservationId sample_reservation)),
     (''expectedFence'', JStr ''2''), (''idempotencyKey'', JStr key1),
     (''payloadDigest'', JStr quote1), (''at'', JNum (jint 120)),
     (''outcome'', JObj [(''kind'', JStr ''unknown'')])]"

definition binding1 :: attempt_binding where
  "binding1 = \<lparr>ab_reservationId = reservationId sample_reservation, ab_expectedFence = ''2'',
     ab_idempotencyKey = key1, ab_payloadDigest = quote1, ab_at = 120\<rparr>"

lemma hex_sample: "is_digit c \<Longrightarrow> hex_digits 64 (''0x'' @ replicate 64 c)"
  by (simp add: hex_digits_def is_hex_lower_def)

lemma hex_samples:
  "hex_digits 64 key1" "hex_digits 64 quote1" "hex_digits 64 (reservationId sample_reservation)"
  unfolding key1_def quote1_def sample_reservation_def maker_reservation.simps
  by (rule hex_sample, simp add: is_digit_def code_def)+

lemma digest_samples: "digest_text key1" "digest_text quote1"
  using hex_samples hex_digits_ci_of by (auto simp: digest_text_def hex_digits_normal)

lemma to_selected: "transitionMakerReservation sample_reservation (Select 1 (jint 110) quote1) = Inr selected1"
proof -
  have "to_lower (trim quote1) = quote1"
    using hex_digits_normal[OF hex_samples(2)] by simp
  then have "res_step sample_reservation 110 (Select 1 (jint 110) quote1) selected1"
    using res_step.select[of sample_reservation 110 quote1 1 "jint 110"] digest_samples
    by (simp add: selected1_def) (simp add: sample_reservation_def)
  then show ?thesis
    using sample_valid unfolding transition_iff
    by (simp add: timestamp_ok_def max_safe_def max_u256_def is_terminal_def)
      (simp add: sample_reservation_def)
qed

lemma to_filling: "transitionMakerReservation selected1 (BeginFill 2 (jint 120) key1) = Inr filling1"
proof -
  have "to_lower (trim key1) = key1"
    using hex_digits_normal[OF hex_samples(1)] by simp
  then have "res_step selected1 120 (BeginFill 2 (jint 120) key1) filling1"
    using res_step.begin_fill[of selected1 120 key1 2 "jint 120"] digest_samples
    by (simp add: filling1_def) (simp add: selected1_def stamp_def sample_reservation_def)
  then show ?thesis
    using transition_valid[OF to_selected] unfolding transition_iff
    by (simp add: timestamp_ok_def max_safe_def max_u256_def is_terminal_def)
      (simp add: selected1_def stamp_def sample_reservation_def)
qed

lemma row_ledger1: "row_of ledger1 (reservationId sample_reservation) = Some sample_stored"
  using sample_stored_ok by (simp add: ledger1_def sample_stored_def)

lemma stored_selected: "stored_ok (with_reservation sample_stored selected1)"
  by (rule with_reservation_ok[OF sample_stored_ok, of "Select 1 (jint 110) quote1"])
    (simp add: sample_stored_def to_selected[simplified])

lemma stored_filling: "stored_ok (with_reservation sample_stored filling1)"
  using with_reservation_ok[OF stored_selected, of "BeginFill 2 (jint 120) key1" filling1]
  by (simp add: to_filling[simplified] with_reservation_def)

lemma ids: "reservationId selected1 = reservationId sample_reservation"
  "reservationId filling1 = reservationId sample_reservation"
  by (simp_all add: filling1_def selected1_def stamp_def)

lemma fences: "fence sample_reservation = 1" "fence selected1 = 2" "fence filling1 = 3"
  by (simp_all add: filling1_def selected1_def stamp_def sample_reservation_def)

lemma empty_ledger_simps [simp]:
  "row_of empty_ledger k = None" "attempt_of empty_ledger k = None" "high_of empty_ledger = 0"
  "lg_revision empty_ledger = 0"
  by (simp_all add: empty_ledger_def row_of_def high_of_def digit_val_def is_digit_def code_def)

lemma step1: "ledger_step empty_ledger ledger1"
  unfolding ledger1_def using sample_stored_ok
  by (intro ledger_step.create) (simp_all add: sample_stored_def empty_ledger_def high_of_def
      sample_reservation_def digit_val_def is_digit_def code_def)

lemma mutation_selected:
  "assertMakerReservationMutation (Some sample_reservation) selected1 (Some (fence sample_reservation)) = Inr ()"
proof (rule mutation_accepts[OF to_selected])
  show "expected_command sample_reservation selected1 = Inr (Select 1 (jint 110) quote1)"
    by (simp add: expected_command_def selected1_def stamp_def text_or_empty_def sample_reservation_def)
  show "printable_reservation selected1"
    using stored_selected by (simp add: stored_ok_def)
qed

lemma step2: "ledger_step ledger1 ledger2"
  unfolding ledger2_def
  using mutation_selected sample_stored_ok stored_selected
  by (intro ledger_step.amend[of ledger1 sample_stored])
    (simp_all add: ledger1_def tbl_get_put ids, simp_all add: sample_stored_def)

lemma step3: "ledger_step ledger2 ledger3"
proof -
  have f: "positive_dec ''2''" "int (of_base 10 ''2'') = 2"
    by (simp_all add: positive_dec_def digit_val_def is_digit_def code_def)
  have "ledger_step ledger2 (put_attempt key1
      \<lparr>at_reservation_id = reservationId (sr_reservation (with_reservation sample_stored selected1)),
       at_selection_fence = ''2'', at_payload_digest = quote1, at_status = Pending, at_outcome = None\<rparr>
      (put_record (with_reservation (with_reservation sample_stored selected1) filling1) ledger2))"
    by (rule ledger_step.claim[where t = "jint 120"])
      (use stored_selected hex_samples f to_filling in
        \<open>simp_all add: ledger2_def ledger1_def tbl_get_put ids fences\<close>)
  then show ?thesis
    by (simp add: ledger3_def attempt1_def ids with_reservation_def)
qed

lemma ledger_invs: "ledger_inv ledger1" "ledger_inv ledger2" "ledger_inv ledger3"
  using ledger_step_inv[OF step1 empty_ledger_inv] ledger_step_inv[OF step2] ledger_step_inv[OF step3]
  by auto

lemma ledger3_facts:
  "row_of ledger3 (reservationId sample_reservation) = Some (with_reservation sample_stored filling1)"
  "attempt_of ledger3 key1 = Some attempt1" "lg_revision ledger3 = 3"
  "row_of ledger2 (reservationId sample_reservation) = Some (with_reservation sample_stored selected1)"
  "attempt_of ledger2 key1 = None" "lg_revision ledger2 = 2"
  using stored_filling stored_selected
  by (simp_all add: ledger3_def ledger2_def ledger1_def tbl_get_put ids js_succ_def)

lemma requires1: "requireAttempt begin_body = Inr binding1" "requireOutcome begin_body = Inr (AskUnknown JUndef)"
proof -
  have f: "positive_dec ''2''"
    by (simp add: positive_dec_def is_digit_def code_def)
  show "requireAttempt begin_body = Inr binding1"
    using hex_samples f
    by (simp add: requireAttempt_def begin_body_def hex32_field_def binding1_def value_safe_int_def
        requirePositiveBigInt_def max_safe_def)
  show "requireOutcome begin_body = Inr (AskUnknown JUndef)"
    by (simp add: requireOutcome_def begin_body_def)
qed

theorem ledger_refines_steps_witness:
  "ledger_step\<^sup>*\<^sup>* ledger3 (snd (fetch no_faults \<lparr>rq_method = ''POST'', rq_path = ''/attempt/complete'',
     rq_body = Inr begin_body\<rparr> ledger3))"
  by (rule ledger_refines_steps[OF ledger_invs(3)])

theorem ledger_run_invariant_witness:
  "ledger_inv (run_ledger [(no_faults, \<lparr>rq_method = ''POST'', rq_path = ''/attempt/complete'',
       rq_body = Inr begin_body\<rparr>)] ledger3)
   \<and> ledger_le ledger3 (run_ledger [(no_faults, \<lparr>rq_method = ''POST'', rq_path = ''/attempt/complete'',
       rq_body = Inr begin_body\<rparr>)] ledger3)"
  by (rule ledger_run_invariant[OF ledger_invs(3)])

theorem failed_request_changes_nothing_witness:
  "snd (fetch no_faults \<lparr>rq_method = ''POST'', rq_path = ''/commit'', rq_body = Inr JNull\<rparr> ledger3) = ledger3"
  by (rule failed_request_changes_nothing)
    (simp_all add: fetch_def with_body_def commit_def invalid_transaction_def)

text \<open>Completing the claimed attempt as unknown, at time 120.\<close>

definition settled1 :: maker_reservation where
  "settled1 = (stamp 120 filling1)\<lparr>state := Quarantined, terminalReason := Some default_reason\<rparr>"

lemma to_settled:
  "transitionMakerReservation filling1 (Quarantine 3 (jint 120) default_reason) = Inr settled1"
proof -
  have w: "trim default_reason = default_reason" "default_reason \<noteq> []"
    by (simp_all add: default_reason_def trim_def is_ws_def code_def)
  then have "res_step filling1 120 (Quarantine 3 (jint 120) default_reason) settled1"
    using res_step.quarantine[of filling1 default_reason 120 3 "jint 120"]
    by (simp add: settled1_def) (simp add: filling1_def)
  then show ?thesis
    using transition_valid[OF to_filling] unfolding transition_iff
    by (simp add: timestamp_ok_def max_safe_def max_u256_def is_terminal_def)
      (simp add: filling1_def selected1_def stamp_def sample_reservation_def)
qed

lemma complete1:
  "\<exists>out l'. completeAttempt no_faults begin_body ledger3 = (Response 200 out, l')"
proof -
  have r: "ab_reservationId binding1 = reservationId sample_reservation" "ab_idempotencyKey binding1 = key1"
    "ab_at binding1 = 120"
    by (simp_all add: binding1_def)
  have sb: "same_binding attempt1 binding1" "at_status attempt1 = Pending"
    by (simp_all add: same_binding_def attempt1_def binding1_def)
  have f: "state filling1 = Filling" "settlementAttemptId filling1 = Some key1"
    by (simp_all add: filling1_def)
  have o': "outcome_of (AskUnknown JUndef) = Inr (unknown_outcome default_reason)"
    "outcome_command (AskUnknown JUndef) 3 120 = Inr (Quarantine 3 (jint 120) default_reason)"
    by (simp_all add: outcome_of_def outcome_command_def reason_of_def)
  have rev: "lg_revision ledger3 \<le> max_safe"
    by (simp add: ledger3_facts(3) max_safe_def)
  have t: "transitionMakerReservation (sr_reservation (with_reservation sample_stored filling1))
      (Quarantine 3 (jint 120) default_reason) = Inr settled1"
    using to_settled by simp
  have "completeAttempt no_faults begin_body ledger3 =
      (Response 200 (JObj [(''kind'', JStr ''completed''), (''outcome'', unknown_outcome default_reason),
        (''record'', jsonify (stored_value (with_reservation (with_reservation sample_stored filling1) settled1)))]),
       put_attempt (ab_idempotencyKey binding1) (closed_row attempt1 (unknown_outcome default_reason))
         (put_record (with_reservation (with_reservation sample_stored filling1) settled1) ledger3))"
    by (rule complete_accepts[OF ledger_invs(3) rev _ sb _ _ _ requires1 o'(1) _ t])
      (use ledger3_facts r f o'(2) fences in simp_all)
  then show ?thesis by blast
qed

theorem settled_attempt_replays_witness:
  "\<exists>out l1 v. completeAttempt no_faults begin_body ledger3 = (Response 200 out, l1)
     \<and> beginAttempt no_faults begin_body l1 = (replay_response v, l1)
     \<and> completeAttempt no_faults begin_body l1 = (replay_response v, l1)"
proof -
  obtain out l1 where c: "completeAttempt no_faults begin_body ledger3 = (Response 200 out, l1)"
    using complete1 by blast
  from settled_attempt_replays[OF ledger_invs(3) c, of no_faults "[]"] c show ?thesis
    by auto
qed

lemma begin1: "\<exists>out. beginAttempt no_faults begin_body ledger2 = (Response 201 out, ledger3)"
proof -
  have r: "ab_reservationId binding1 = reservationId sample_reservation" "ab_idempotencyKey binding1 = key1"
    "ab_at binding1 = 120" "ab_expectedFence binding1 = ''2''" "ab_payloadDigest binding1 = quote1"
    by (simp_all add: binding1_def)
  have f: "requirePositiveBigInt (JStr ''2'') ''expectedFence'' = Inr 2"
    by (simp add: requirePositiveBigInt_def positive_dec_def is_digit_def digit_val_def code_def)
  have rev: "lg_revision ledger2 \<le> max_safe"
    by (simp add: ledger3_facts(6) max_safe_def)
  have t: "transitionMakerReservation (sr_reservation (with_reservation sample_stored selected1))
      (BeginFill (fence (sr_reservation (with_reservation sample_stored selected1))) (jint (ab_at binding1))
        (ab_idempotencyKey binding1)) = Inr filling1"
    using to_filling by (simp add: fences r)
  have "with_reservation (with_reservation sample_stored selected1) filling1 = with_reservation sample_stored filling1"
    by (simp add: with_reservation_def)
  then have "snd (beginAttempt no_faults begin_body ledger2) = ledger3
      \<and> status (fst (beginAttempt no_faults begin_body ledger2)) = 201"
    using begin_accepts[OF ledger_invs(2) rev _ _ requires1(1) _ t] ledger3_facts r f fences
    by (simp add: ledger3_def attempt1_def)
  then show ?thesis
    by (metis prod.collapse response.exhaust response.sel(1))
qed

theorem claim_granted_once_witness:
  "attempt_of ledger2 key1 = None \<and>
   status (fst (beginAttempt no_faults begin_body (run_ledger [] ledger3))) \<noteq> 201"
proof -
  obtain out where b: "beginAttempt no_faults begin_body ledger2 = (Response 201 out, ledger3)"
    using begin1 by blast
  have k: "ab_idempotencyKey binding1 = key1"
    by (simp add: binding1_def)
  show ?thesis
    using claim_granted_once[OF ledger_invs(2) b _ requires1(1) requires1(1) refl, of no_faults "[]"] k
    by simp
qed

lemma commit_orphans_attempt_witness:
  "orphaned (snd (commit no_faults (quarantine_body ledger3 (with_reservation sample_stored filling1)) ledger3)) key1"
proof -
  have "state filling1 = Filling" "settlementAttemptId filling1 = Some key1"
    by (simp_all add: filling1_def)
  then show ?thesis
    using commit_orphans_attempt[OF ledger_invs(3) _ ledger3_facts(1), of key1]
    by (simp add: ledger3_facts max_safe_def fences max_u256_def)
qed

definition ledger4 :: ledger where
  "ledger4 = put_record (with_reservation sample_stored settled1) ledger3"

lemma step4: "ledger_step ledger3 ledger4"
proof -
  have e: "expected_command filling1 settled1 = Inr (Quarantine 3 (jint 120) default_reason)"
    by (simp add: expected_command_def settled1_def fences text_or_empty_def) (simp add: stamp_def)
  have p: "printable_reservation settled1"
    using transition_printable[OF _ to_settled] stored_filling by (simp add: stored_ok_def)
  have m: "assertMakerReservationMutation (Some filling1) settled1 (Some (fence filling1)) = Inr ()"
    by (rule mutation_accepts[OF to_settled e p])
  have ok: "stored_ok (with_reservation sample_stored settled1)"
    using stored_filling p by (simp add: stored_ok_def with_reservation_def)
  have i: "reservationId settled1 = reservationId sample_reservation"
    by (simp add: settled1_def stamp_def ids)
  show ?thesis
    unfolding ledger4_def
    by (rule ledger_step.amend[of ledger3 "with_reservation sample_stored filling1"])
      (use m ok i stored_filling in \<open>simp_all add: ids ledger3_def tbl_get_put\<close>)
qed

theorem orphaned_attempt_blocks_recovery_witness:
  "ledger_step ledger3 ledger4
   \<and> snd (recoverPendingAttempts no_faults (JObj [(''at'', JNum (jint 300))]) ledger4) = ledger4"
proof -
  have i: "reservationId settled1 = reservationId sample_reservation"
    by (simp add: settled1_def stamp_def ids)
  have inv: "ledger_inv ledger4"
    using ledger_step_inv[OF step4 ledger_invs(3)] .
  have "stored_ok (with_reservation sample_stored settled1)"
    using stored_filling transition_printable[OF _ to_settled]
    by (simp add: stored_ok_def with_reservation_def)
  then have "row_of ledger4 (reservationId sample_reservation) = Some (with_reservation sample_stored settled1)"
    by (simp add: ledger4_def i)
  then have "orphaned ledger4 key1"
    using ledger3_facts(2)
    by (simp add: orphaned_def ledger4_def attempt1_def is_terminal_def settled1_def)
  from orphaned_attempt_blocks_recovery[OF inv this, of "[]" no_faults] step4 show ?thesis
    by simp
qed

lemma create_is_committed_witness:
  "status (fst (commit no_faults (commit_body 0 (jsonify (stored_value sample_stored)) JNull) empty_ledger)) = 200"
proof -
  have r: "sr_reservation sample_stored = sample_reservation"
    by (simp add: sample_stored_def)
  have "assertMakerReservationMutation None sample_reservation None = Inr ()"
    using sample_valid
    by (simp add: assertMakerReservationMutation_def assert_reservation_valid)
      (simp add: sample_reservation_def)
  then show ?thesis
    using create_is_committed[OF empty_ledger_inv _ sample_stored_ok] r fences
    by (simp add: max_safe_def)
qed

end
