(* ===== verification/Private_Intent.thy ===== *)
theory Private_Intent
  imports Starknet_Amounts "HOL-Library.Word"
begin

text \<open>
  Private swap intents and the solver quotes that answer them (packages/private-intents/src/index.ts):
  validation and canonical text of both, the P-256 signature format, quoting, verification,
  selection of the best quote, and the fill-or-refund life of an accepted one. SHA-256, the signer,
  the verifier, the pricing source and \<open>localeCompare\<close> are arguments of the definitions.

  A bigint is an \<open>int\<close>, a number a \<open>jsnum\<close> until it is validated; the static types of the
  parameters are taken as given.
\<close>

section \<open>Intents\<close>

definition INTENT_DOMAIN :: string where
  "INTENT_DOMAIN = ''app20/private-intent/v1''"

definition QUOTE_DOMAIN :: string where
  "QUOTE_DOMAIN = ''app20/private-intent-quote/v1''"

definition QUOTE_CLOCK_SKEW_SECONDS :: int where
  "QUOTE_CLOCK_SKEW_SECONDS = 30"

definition intent_max_u256 :: int where
  "intent_max_u256 = 2 ^ 256 - 1"

definition MIN_INTENT_ID_LENGTH :: nat where
  "MIN_INTENT_ID_LENGTH = 32"

record swap_intent =
  i_version :: jsnum
  i_id :: string
  i_pool :: string
  i_sellToken :: string
  i_sellAmount :: int
  i_buyToken :: string
  i_minBuyAmount :: int
  i_expiresAt :: jsnum
  i_createdAt :: jsnum

definition requireToken :: "string \<Rightarrow> string \<Rightarrow> string result" where
  "requireToken value label =
     (case canonicalizeStarknetFelt value of
        Inl _ \<Rightarrow> Inl (PrivateIntentError (label @ '' must be a non-zero Starknet token address.''))
      | Inr token \<Rightarrow> if token = ''0x0''
          then Inl (PrivateIntentError (label @ '' must be a non-zero Starknet token address.''))
          else Inr token)"

definition requireAmount :: "int \<Rightarrow> string \<Rightarrow> int result" where
  "requireAmount value label =
     (if value \<le> 0 \<or> intent_max_u256 < value
      then Inl (PrivateIntentError (label @ '' must be a positive u256 value.'')) else Inr value)"

definition requireUnixSeconds :: "jsnum \<Rightarrow> string \<Rightarrow> int result" where
  "requireUnixSeconds value label =
     (case as_safe_int value of
        Some n \<Rightarrow> if n \<le> 0
          then Inl (PrivateIntentError (label @ '' must be a positive unix-seconds timestamp.''))
          else Inr n
      | None \<Rightarrow> Inl (PrivateIntentError (label @ '' must be a positive unix-seconds timestamp.'')))"

definition is_id_char :: "char \<Rightarrow> bool" where
  "is_id_char c = (is_alnum c \<or> c = CHR ''-'')"

definition assertPrivateSwapIntent :: "swap_intent \<Rightarrow> unit result" where
  "assertPrivateSwapIntent i =
     (if \<not> num_eq (i_version i) (Fin 1)
      then Inl (PrivateIntentError ''Only private-intent version 1 is supported.'')
      else if length (i_id i) < MIN_INTENT_ID_LENGTH \<or> \<not> list_all is_id_char (i_id i)
      then Inl (PrivateIntentError ''intentId must encode at least 128 bits of unpredictable input.'')
      else if i_pool i \<noteq> ''starknet:SN_MAIN'' \<and> i_pool i \<noteq> ''starknet:SN_SEPOLIA''
        \<and> i_pool i \<noteq> ''starknet:APP20_LOCALNET''
      then Inl (PrivateIntentError ''pool must name a supported STRK20 deployment.'')
      else bind_r (requireToken (i_sellToken i) ''sellToken'') (\<lambda>sell.
        bind_r (requireToken (i_buyToken i) ''buyToken'') (\<lambda>buy.
        if sell = buy then Inl (PrivateIntentError ''sellToken and buyToken must differ.'')
        else bind_r (requireAmount (i_sellAmount i) ''sellAmount'') (\<lambda>_.
        bind_r (requireAmount (i_minBuyAmount i) ''minBuyAmount'') (\<lambda>_.
        bind_r (requireUnixSeconds (i_createdAt i) ''createdAt'') (\<lambda>_.
        bind_r (requireUnixSeconds (i_expiresAt i) ''expiresAt'') (\<lambda>_.
        if num_le (i_expiresAt i) (i_createdAt i)
        then Inl (PrivateIntentError ''expiresAt must be after createdAt.'')
        else Inr ())))))))"

text \<open>\<open>JSON.stringify\<close> of a number; the numbers serialised here have been validated as integers.\<close>

definition num_json :: "jsnum \<Rightarrow> json" where
  "num_json v = (case as_integer v of Some n \<Rightarrow> Jint n | None \<Rightarrow> Jnull)"

definition intent_json :: "swap_intent \<Rightarrow> string \<Rightarrow> string \<Rightarrow> json" where
  "intent_json i sell buy = Jobj
     [(''domain'', Jstr INTENT_DOMAIN), (''version'', num_json (i_version i)),
      (''intentId'', Jstr (i_id i)), (''pool'', Jstr (i_pool i)), (''sellToken'', Jstr sell),
      (''sellAmount'', Jstr (dec_int (i_sellAmount i))), (''buyToken'', Jstr buy),
      (''minBuyAmount'', Jstr (dec_int (i_minBuyAmount i))),
      (''expiresAt'', num_json (i_expiresAt i)), (''createdAt'', num_json (i_createdAt i))]"

definition canonicalIntent :: "swap_intent \<Rightarrow> string result" where
  "canonicalIntent i =
     bind_r (requireToken (i_sellToken i) ''sellToken'') (\<lambda>sell.
     bind_r (requireToken (i_buyToken i) ''buyToken'') (\<lambda>buy.
     Inr (json_text (intent_json i sell buy))))"

definition digestPrivateSwapIntent :: "(string \<Rightarrow> string) \<Rightarrow> swap_intent \<Rightarrow> string result" where
  "digestPrivateSwapIntent sha256Hex i =
     bind_r (assertPrivateSwapIntent i) (\<lambda>_.
     bind_r (canonicalIntent i) (\<lambda>t. Inr (sha256Hex t)))"

section \<open>Signatures\<close>

definition P256_ORDER :: nat where
  "P256_ORDER = 0xffffffff00000000ffffffffffffffffbce6faada7179e84f3b9cac2fc632551"

definition P256_HALF_ORDER :: nat where
  "P256_HALF_ORDER = P256_ORDER div 2"

definition bytesToHex :: "8 word list \<Rightarrow> string" where
  "bytesToHex bs = concat (map (\<lambda>b. pad_start 2 (hex (unat b))) bs)"

fun hex_pairs :: "string \<Rightarrow> 8 word list" where
  "hex_pairs (a # b # s) = word_of_nat (of_base 16 [a, b]) # hex_pairs s"
| "hex_pairs s = []"

text \<open>\<open>/^0x[0-9a-f]+$/\<close> and \<open>/^0x[0-9a-f]{64}$/\<close>.\<close>

definition signature_pattern :: "string \<Rightarrow> bool" where
  "signature_pattern s = (take 2 s = ''0x'' \<and> 2 < length s \<and> list_all is_hex_lower (drop 2 s))"

definition nonce_pattern :: "string \<Rightarrow> bool" where
  "nonce_pattern s = hex_digits 64 s"

definition hexToBytes :: "string \<Rightarrow> 8 word list option" where
  "hexToBytes h =
     (if \<not> signature_pattern h \<or> length h < 4 \<or> length h mod 2 \<noteq> 0 then None
      else Some (hex_pairs (drop 2 h)))"

definition big_of_bytes :: "8 word list \<Rightarrow> nat" where
  "big_of_bytes bs = of_base 16 (bytesToHex bs)"

definition canonicalP256SignatureBytes :: "8 word list \<Rightarrow> 8 word list option" where
  "canonicalP256SignatureBytes bs =
     (if length bs \<noteq> 64 then None
      else let r = big_of_bytes (take 32 bs); s = big_of_bytes (drop 32 bs) in
        if r = 0 \<or> P256_ORDER \<le> r \<or> s = 0 \<or> P256_HALF_ORDER < s then None else Some bs)"

definition isCanonicalQuoteSignature :: "string \<Rightarrow> bool" where
  "isCanonicalQuoteSignature signature =
     (case hexToBytes signature of None \<Rightarrow> False
      | Some bs \<Rightarrow> canonicalP256SignatureBytes bs \<noteq> None)"

definition signCanonicalQuote :: "(string \<Rightarrow> 8 word list) \<Rightarrow> string \<Rightarrow> string result" where
  "signCanonicalQuote subtle_sign canonical =
     (let bs = subtle_sign canonical in
      if length bs \<noteq> 64 then Inl (PrivateIntentError ''P-256 signer returned a non-raw signature.'')
      else let s = big_of_bytes (drop 32 bs);
               canonicalS = if P256_HALF_ORDER < s then P256_ORDER - s else s
        in Inr (''0x'' @ bytesToHex (take 32 bs) @ pad_start 64 (hex canonicalS)))"

text \<open>A verifier that throws is a verifier that answers \<open>None\<close>.\<close>

definition verifyCanonicalQuote ::
  "(8 word list \<Rightarrow> string \<Rightarrow> bool option) \<Rightarrow> string \<Rightarrow> string \<Rightarrow> bool" where
  "verifyCanonicalQuote subtle_verify canonical signature =
     (case hexToBytes signature of None \<Rightarrow> False
      | Some bs \<Rightarrow>
          if canonicalP256SignatureBytes bs = None then False
          else (case subtle_verify bs canonical of None \<Rightarrow> False | Some b \<Rightarrow> b))"

section \<open>Quotes\<close>

record unsigned_quote =
  q_domain :: string
  q_pool :: string
  q_helper :: string
  q_sellToken :: string
  q_sellAmount :: int
  q_buyToken :: string
  q_intentDigest :: string
  q_solverId :: string
  q_solverKey :: string
  q_nonce :: string
  q_reservationId :: string
  q_reservationExpiresAt :: jsnum
  q_buyAmount :: int
  q_spreadBps :: int
  q_pricingProvenance :: string
  q_quotedAt :: jsnum
  q_quoteExpiresAt :: jsnum

record solver_quote = unsigned_quote +
  q_signature :: string

definition quote_json :: "'a unsigned_quote_scheme \<Rightarrow> string \<Rightarrow> string \<Rightarrow> string \<Rightarrow> json" where
  "quote_json q buy helper sell = Jobj
     [(''buyAmount'', Jstr (dec_int (q_buyAmount q))), (''buyToken'', Jstr buy),
      (''domain'', Jstr (q_domain q)), (''helper'', Jstr helper),
      (''intentDigest'', Jstr (to_lower (q_intentDigest q))), (''nonce'', Jstr (to_lower (q_nonce q))),
      (''pool'', Jstr (q_pool q)), (''reservationExpiresAt'', num_json (q_reservationExpiresAt q)),
      (''reservationId'', Jstr (to_lower (q_reservationId q))),
      (''pricingProvenance'', Jstr (q_pricingProvenance q)),
      (''quoteExpiresAt'', num_json (q_quoteExpiresAt q)), (''quotedAt'', num_json (q_quotedAt q)),
      (''sellAmount'', Jstr (dec_int (q_sellAmount q))), (''sellToken'', Jstr sell),
      (''solverId'', Jstr (q_solverId q)), (''solverKey'', Jstr (q_solverKey q)),
      (''spreadBps'', Jint (q_spreadBps q))]"

definition canonicalSolverQuote :: "'a unsigned_quote_scheme \<Rightarrow> string result" where
  "canonicalSolverQuote q =
     bind_r (requireToken (q_buyToken q) ''buyToken'') (\<lambda>buy.
     bind_r (requireToken (q_helper q) ''helper'') (\<lambda>helper.
     bind_r (requireToken (q_sellToken q) ''sellToken'') (\<lambda>sell.
     Inr (json_text (quote_json q buy helper sell)))))"

definition assertQuoteShape :: "'a unsigned_quote_scheme \<Rightarrow> unit result" where
  "assertQuoteShape q =
     (if q_domain q \<noteq> QUOTE_DOMAIN
      then Inl (PrivateIntentError ''The quote is outside the APP20 quote domain.'')
      else if trim (q_solverId q) = []
      then Inl (PrivateIntentError ''The quote is missing a solver identity.'')
      else if trim (q_solverKey q) = []
      then Inl (PrivateIntentError ''The quote is missing a solver key.'')
      else bind_r (requireToken (q_helper q) ''helper'') (\<lambda>_.
        bind_r (requireToken (q_sellToken q) ''sellToken'') (\<lambda>_.
        bind_r (requireToken (q_buyToken q) ''buyToken'') (\<lambda>_.
        bind_r (requireAmount (q_sellAmount q) ''sellAmount'') (\<lambda>_.
        bind_r (requireAmount (q_buyAmount q) ''buyAmount'') (\<lambda>_.
        bind_r (requireUnixSeconds (q_quotedAt q) ''quotedAt'') (\<lambda>quoted.
        bind_r (requireUnixSeconds (q_quoteExpiresAt q) ''quoteExpiresAt'') (\<lambda>expires.
        if \<not> nonce_pattern (q_nonce q)
        then Inl (PrivateIntentError ''The quote nonce must be 32 unpredictable bytes.'')
        else if \<not> nonce_pattern (q_reservationId q)
        then Inl (PrivateIntentError ''The quote reservation must be a 32-byte opaque identifier.'')
        else bind_r (requireUnixSeconds (q_reservationExpiresAt q) ''reservationExpiresAt'') (\<lambda>reserved.
        if expires \<le> quoted \<or> reserved \<le> quoted \<or> reserved < expires
        then Inl (PrivateIntentError ''The quote expiry must be after quoting and within its reservation.'')
        else Inr ())))))))))"

section \<open>Quoting\<close>

record quote_options =
  o_solverId :: string
  o_solverKey :: string
  o_helper :: string
  o_spreadBps :: jsnum
  o_quoteTtlSeconds :: jsnum
  o_now :: "jsnum option"
  o_nonce :: "string option"
  o_reservationId :: string
  o_reservationExpiresAt :: jsnum

text \<open>The reasons of a decline; the last one prints the two amounts.\<close>

datatype decline_reason =
    IntentAlreadyExpired
  | ReservationExpired
  | NoOutput
  | BelowFloor int int

datatype quote_outcome = QuotedOutcome solver_quote | DeclinedOutcome decline_reason

text \<open>
  \<open>clock\<close> and \<open>fresh\<close> are the time and the nonce used when the options give none. The pricing source
  answers an amount and its provenance or throws; so does the signer.
\<close>

definition after_spread :: "int \<Rightarrow> int \<Rightarrow> int" where
  "after_spread amount bps = (amount * (10000 - bps)) div 10000"

definition sign_quote ::
  "(string \<Rightarrow> unsigned_quote \<Rightarrow> string result) \<Rightarrow> unsigned_quote \<Rightarrow> quote_outcome result" where
  "sign_quote sign u =
     bind_r (assertQuoteShape u) (\<lambda>_.
     bind_r (canonicalSolverQuote u) (\<lambda>canonical.
     bind_r (sign canonical u) (\<lambda>raw.
     let signature = to_lower (trim raw) in
     if \<not> isCanonicalQuoteSignature signature
     then Inl (PrivateIntentError ''The solver returned an unusable signature.'')
     else Inr (QuotedOutcome (unsigned_quote.extend u (solver_quote.fields signature))))))"

definition quotePrivateSwapIntent ::
  "(string \<Rightarrow> string) \<Rightarrow> (string \<Rightarrow> string \<Rightarrow> int \<Rightarrow> string \<Rightarrow> (int \<times> string) result)
   \<Rightarrow> (string \<Rightarrow> unsigned_quote \<Rightarrow> string result) \<Rightarrow> jsnum \<Rightarrow> string
   \<Rightarrow> swap_intent \<Rightarrow> quote_options \<Rightarrow> quote_outcome result" where
  "quotePrivateSwapIntent sha256Hex price sign clock fresh i opts =
     bind_r (assertPrivateSwapIntent i) (\<lambda>_.
     if trim (o_solverId opts) = [] then Inl (PrivateIntentError ''solverId is required.'')
     else if trim (o_solverKey opts) = [] then Inl (PrivateIntentError ''solverKey is required.'')
     else bind_r (requireToken (o_helper opts) ''helper'') (\<lambda>helper.
     case as_safe_int (o_spreadBps opts) of
       None \<Rightarrow> Inl (PrivateIntentError ''spreadBps must be an integer in [0, 10000).'')
     | Some bps \<Rightarrow>
       if bps < 0 \<or> 10000 \<le> bps
       then Inl (PrivateIntentError ''spreadBps must be an integer in [0, 10000).'')
       else (case as_safe_int (o_quoteTtlSeconds opts) of
         None \<Rightarrow> Inl (PrivateIntentError ''quoteTtlSeconds must be a positive integer.'')
       | Some ttl \<Rightarrow>
         if ttl \<le> 0 then Inl (PrivateIntentError ''quoteTtlSeconds must be a positive integer.'')
         else let now = (case o_now opts of None \<Rightarrow> clock | Some t \<Rightarrow> t) in
         if num_le (i_expiresAt i) now then Inr (DeclinedOutcome IntentAlreadyExpired)
         else if \<not> nonce_pattern (o_reservationId opts)
         then Inl (PrivateIntentError ''reservationId must be a 32-byte opaque identifier.'')
         else bind_r (requireUnixSeconds (o_reservationExpiresAt opts) ''reservationExpiresAt'') (\<lambda>_.
         if num_le (o_reservationExpiresAt opts) now then Inr (DeclinedOutcome ReservationExpired)
         else bind_r (price (i_pool i) (i_sellToken i) (i_sellAmount i) (i_buyToken i)) (\<lambda>(buy, provenance).
         if buy \<le> 0 then Inr (DeclinedOutcome NoOutput)
         else if after_spread buy bps < i_minBuyAmount i
         then Inr (DeclinedOutcome (BelowFloor (after_spread buy bps) (i_minBuyAmount i)))
         else bind_r (requireToken (i_sellToken i) ''sellToken'') (\<lambda>sell.
         bind_r (requireToken (i_buyToken i) ''buyToken'') (\<lambda>bought.
         bind_r (digestPrivateSwapIntent sha256Hex i) (\<lambda>digest.
         sign_quote sign \<lparr>q_domain = QUOTE_DOMAIN, q_pool = i_pool i, q_helper = helper,
           q_sellToken = sell, q_sellAmount = i_sellAmount i, q_buyToken = bought,
           q_intentDigest = digest, q_solverId = o_solverId opts, q_solverKey = o_solverKey opts,
           q_nonce = (case o_nonce opts of None \<Rightarrow> fresh | Some n \<Rightarrow> n),
           q_reservationId = to_lower (o_reservationId opts),
           q_reservationExpiresAt = o_reservationExpiresAt opts,
           q_buyAmount = after_spread buy bps, q_spreadBps = bps, q_pricingProvenance = provenance,
           q_quotedAt = now,
           q_quoteExpiresAt = num_min (num_min (num_add now (jint ttl)) (i_expiresAt i))
             (o_reservationExpiresAt opts)\<rparr>))))))))"

section \<open>Verification and selection\<close>

definition verifySolverQuote ::
  "(string \<Rightarrow> string) \<Rightarrow> string \<Rightarrow> (string \<Rightarrow> string \<Rightarrow> string \<Rightarrow> bool)
   \<Rightarrow> swap_intent \<Rightarrow> solver_quote \<Rightarrow> jsnum \<Rightarrow> unit result" where
  "verifySolverQuote sha256Hex helper verify i q now =
     bind_r (assertPrivateSwapIntent i) (\<lambda>_.
     bind_r (assertQuoteShape q) (\<lambda>_.
     if \<not> starknetFeltEquals (q_helper q) helper
     then Inl (PrivateIntentError ''The quote is bound to a different helper.'')
     else if q_pool q \<noteq> i_pool i
     then Inl (PrivateIntentError ''The quote is bound to a different pool.'')
     else if \<not> starknetFeltEquals (q_sellToken q) (i_sellToken i)
       \<or> \<not> starknetFeltEquals (q_buyToken q) (i_buyToken i) \<or> q_sellAmount q \<noteq> i_sellAmount i
     then Inl (PrivateIntentError ''The quote does not bind these trade terms.'')
     else if num_lt (num_add now (jint QUOTE_CLOCK_SKEW_SECONDS)) (q_quotedAt q)
     then Inl (PrivateIntentError ''The quote is dated in the future.'')
     else if num_le (q_quoteExpiresAt q) now \<or> num_le (q_reservationExpiresAt q) now
       \<or> num_le (i_expiresAt i) now
     then Inl (PrivateIntentError ''The quote expired before acceptance.'')
     else if q_buyAmount q < i_minBuyAmount i
     then Inl (PrivateIntentError ''The quote is below the intent floor.'')
     else bind_r (digestPrivateSwapIntent sha256Hex i) (\<lambda>digest.
     if digest \<noteq> q_intentDigest q
     then Inl (PrivateIntentError ''The quote does not bind this intent digest.'')
     else if \<not> isCanonicalQuoteSignature (q_signature q)
     then Inl (PrivateIntentError ''The quote signature is not authentic.'')
     else bind_r (canonicalSolverQuote q) (\<lambda>canonical.
     if \<not> verify canonical (q_signature q) (q_solverKey q)
     then Inl (PrivateIntentError ''The quote signature is not authentic.'')
     else Inr ()))))"

fun verify_all ::
  "(solver_quote \<Rightarrow> unit result) \<Rightarrow> string set \<Rightarrow> solver_quote list \<Rightarrow> unit result" where
  "verify_all check solverIds [] = Inr ()"
| "verify_all check solverIds (q # qs) =
     (if q_solverId q \<in> solverIds
      then Inl (PrivateIntentError ''A private maker returned more than one quote for this request.'')
      else bind_r (check q) (\<lambda>_. verify_all check (insert (q_solverId q) solverIds) qs))"

definition quote_order :: "string comparator \<Rightarrow> solver_quote comparator" where
  "quote_order localeCompare l r =
     (if q_buyAmount l \<noteq> q_buyAmount r then (if q_buyAmount r < q_buyAmount l then - 1 else 1)
      else if \<not> num_eq (q_quoteExpiresAt l) (q_quoteExpiresAt r)
      then (if num_lt (q_quoteExpiresAt r) (q_quoteExpiresAt l) then - 1 else 1)
      else let solverOrder = localeCompare (q_solverId l) (q_solverId r) in
        if solverOrder \<noteq> 0 then solverOrder
        else localeCompare (q_reservationId l) (q_reservationId r))"

definition selectBestSolverQuote ::
  "string comparator \<Rightarrow> (string \<Rightarrow> string) \<Rightarrow> string \<Rightarrow> (string \<Rightarrow> string \<Rightarrow> string \<Rightarrow> bool)
   \<Rightarrow> swap_intent \<Rightarrow> solver_quote list \<Rightarrow> jsnum \<Rightarrow> solver_quote result" where
  "selectBestSolverQuote localeCompare sha256Hex helper verify i qs now =
     (if qs = [] then Inl (PrivateIntentError ''No private maker returned a quote.'')
      else bind_r (verify_all (\<lambda>q. verifySolverQuote sha256Hex helper verify i q now) {} qs) (\<lambda>_.
        Inr (hd (sort_by (quote_order localeCompare) qs))))"

section \<open>Acceptance, fill and refund\<close>

datatype intent_state =
    IQuoted solver_quote
  | ILocked solver_quote jsnum
  | IFilled solver_quote int jsnum
  | IRefunded solver_quote jsnum

fun kind_text :: "intent_state \<Rightarrow> string" where
  "kind_text (IQuoted _) = ''quoted''"
| "kind_text (ILocked _ _) = ''locked''"
| "kind_text (IFilled _ _ _) = ''filled''"
| "kind_text (IRefunded _ _) = ''refunded''"

text \<open>The memory replay store: the set of nonces seen, as a list.\<close>

definition consume_nonce :: "string \<Rightarrow> string list \<Rightarrow> bool \<times> string list" where
  "consume_nonce nonce seen = (if nonce \<in> set seen then (False, seen) else (True, nonce # seen))"

definition acceptQuote ::
  "(string \<Rightarrow> string) \<Rightarrow> string \<Rightarrow> (string \<Rightarrow> string \<Rightarrow> string \<Rightarrow> bool)
   \<Rightarrow> swap_intent \<Rightarrow> solver_quote \<Rightarrow> jsnum \<Rightarrow> string list \<Rightarrow> (intent_state \<times> string list) result" where
  "acceptQuote sha256Hex helper verify i q now seen =
     bind_r (verifySolverQuote sha256Hex helper verify i q now) (\<lambda>_.
     let (fresh, seen') = consume_nonce (q_nonce q) seen in
     if \<not> fresh then Inl (PrivateIntentError ''The quote nonce was already consumed.'')
     else Inr (ILocked q now, seen'))"

definition fillLockedIntent :: "swap_intent \<Rightarrow> intent_state \<Rightarrow> int \<Rightarrow> jsnum \<Rightarrow> intent_state result" where
  "fillLockedIntent i st delivered now =
     (case st of
        ILocked q lockedAt \<Rightarrow>
          if num_le (i_expiresAt i) now
          then Inl (PrivateIntentError ''The intent expired; only a refund is possible now.'')
          else if delivered < i_minBuyAmount i \<or> delivered < q_buyAmount q
          then Inl (PrivateIntentError
            ''Delivered amount is below the quoted fill; the escrow must not release.'')
          else Inr (IFilled q delivered now)
      | _ \<Rightarrow> Inl (PrivateIntentError (''Cannot fill an intent in state '' @ kind_text st @ ''.'')))"

definition refundExpiredIntent :: "swap_intent \<Rightarrow> intent_state \<Rightarrow> jsnum \<Rightarrow> intent_state result" where
  "refundExpiredIntent i st now =
     (case st of
        ILocked q lockedAt \<Rightarrow>
          if num_lt now (i_expiresAt i)
          then Inl (PrivateIntentError ''The intent has not expired yet.'')
          else Inr (IRefunded q now)
      | _ \<Rightarrow> Inl (PrivateIntentError (''Cannot refund an intent in state '' @ kind_text st @ ''.'')))"

section \<open>Inventory and restocking\<close>

record inventory_position =
  inv_token :: string
  inv_available :: int

definition assertInventoryCovers :: "inventory_position list \<Rightarrow> string \<Rightarrow> int \<Rightarrow> unit result" where
  "assertInventoryCovers inventory buyToken buyAmount =
     bind_r (requireToken buyToken ''buyToken'') (\<lambda>token.
     let available = (case find (\<lambda>e. starknetFeltEquals (inv_token e) token) inventory of
         None \<Rightarrow> 0 | Some p \<Rightarrow> inv_available p) in
     if available < buyAmount
     then Inl (PrivateIntentError
       ''Solver inventory does not cover this fill. Fill from notes first; never take a note and hedge after.'')
     else Inr ())"

record fill_record =
  fl_sellToken :: string
  fl_sellAmount :: int
  fl_buyToken :: string
  fl_buyAmount :: int

record restock_plan =
  netExposure :: "(string \<times> int) list"
  orders :: "(string \<times> int) list"
  deferred :: "(string \<times> int) list"

text \<open>\<open>exposure.set(token, (exposure.get(token) ?? 0n) + d)\<close> on a map in insertion order.\<close>

fun bump :: "string \<Rightarrow> int \<Rightarrow> (string \<times> int) list \<Rightarrow> (string \<times> int) list" where
  "bump t d [] = [(t, d)]"
| "bump t d ((u, x) # m) = (if t = u then (u, x + d) # m else (u, x) # bump t d m)"

lemma bump_keys: "fst ` set (bump t d m) = insert t (fst ` set m)"
  by (induction t d m rule: bump.induct) auto

lemma bump_distinct: "distinct (map fst m) \<Longrightarrow> distinct (map fst (bump t d m))"
proof (induction t d m rule: bump.induct)
  case (2 t d u x m)
  then show ?case
    using bump_keys[of t d m] by (auto simp: image_iff)
qed simp

fun expose :: "fill_record list \<Rightarrow> (string \<times> int) list \<Rightarrow> (string \<times> int) list result" where
  "expose [] m = Inr m"
| "expose (f # fs) m =
     bind_r (requireToken (fl_buyToken f) ''buyToken'') (\<lambda>bought.
     bind_r (requireToken (fl_sellToken f) ''sellToken'') (\<lambda>sold.
     if bought = sold then Inl (PrivateIntentError ''sellToken and buyToken must differ.'')
     else bind_r (requireAmount (fl_buyAmount f) ''buyAmount'') (\<lambda>_.
     bind_r (requireAmount (fl_sellAmount f) ''sellAmount'') (\<lambda>_.
     expose fs (bump sold (- fl_sellAmount f) (bump bought (fl_buyAmount f) m))))))"

fun split_exposure ::
  "int \<Rightarrow> int \<Rightarrow> (string \<times> int) list \<Rightarrow> (string \<times> int) list \<times> (string \<times> int) list" where
  "split_exposure denomination minBatch [] = ([], [])"
| "split_exposure denomination minBatch ((t, x) # m) =
     (let (os, ds) = split_exposure denomination minBatch m in
      if x \<le> 0 then (os, ds)
      else if x < minBatch then (os, (t, x) # ds)
      else ((t, ((x + denomination - 1) div denomination) * denomination) # os, ds))"

definition planRestock :: "string comparator \<Rightarrow> fill_record list \<Rightarrow> int \<Rightarrow> int \<Rightarrow> restock_plan result" where
  "planRestock localeCompare fills denomination minBatch =
     (if denomination \<le> 0 then Inl (PrivateIntentError ''denomination must be greater than zero.'')
      else if minBatch \<le> 0 then Inl (PrivateIntentError ''minBatch must be greater than zero.'')
      else bind_r (expose fills []) (\<lambda>exposure.
        let net = sort_by (cmp_on fst localeCompare) exposure;
            (os, ds) = split_exposure denomination minBatch net
        in Inr \<lparr>netExposure = net, orders = os, deferred = ds\<rparr>))"

end
