(* ===== verification/Wire_Checks.thy ===== *)
theory Wire_Checks
  imports Private_Intent
begin

text \<open>
  What the wire formats of the second and third protocol versions share (rfq-v2.ts, quote-v3.ts,
  mids.ts): validators of the fields of a value that may come straight from JSON, the closed-object
  check, and the text \<open>JSON.stringify\<close> gives a body. A value of the wrong type runs into the same
  branch as in the code: a rejected felt or integer, or the \<open>TypeError\<close> of a missing \<open>trim\<close>.
\<close>

definition type_error :: exn where
  "type_error = Err ''TypeError''"

definition wire_felt :: "jsval \<Rightarrow> string \<Rightarrow> bool \<Rightarrow> string result" where
  "wire_felt v label allowZero =
     (case v of
        JStr s \<Rightarrow> (case canonicalizeStarknetFelt s of
            Inl _ \<Rightarrow> Inl (PrivateIntentError (label @ '' must be a Starknet felt.''))
          | Inr felt \<Rightarrow> if \<not> allowZero \<and> felt = ''0x0''
              then Inl (PrivateIntentError (label @ '' must not be zero.'')) else Inr felt)
      | _ \<Rightarrow> Inl (PrivateIntentError (label @ '' must be a Starknet felt.'')))"

definition wire_digest :: "jsval \<Rightarrow> string \<Rightarrow> string result" where
  "wire_digest v label =
     (case v of
        JStr s \<Rightarrow> (let normalized = to_lower (trim s) in
          if \<not> hex_digits_ci 64 normalized
          then Inl (PrivateIntentError (label @ '' must be a 32-byte hex digest.'')) else Inr normalized)
      | _ \<Rightarrow> Inl type_error)"

definition wire_text :: "jsval \<Rightarrow> string \<Rightarrow> string result" where
  "wire_text v label =
     (case v of
        JStr s \<Rightarrow> (let normalized = trim s in
          if normalized = [] then Inl (PrivateIntentError (label @ '' is required.'')) else Inr normalized)
      | _ \<Rightarrow> Inl type_error)"

definition wire_integer :: "jsval \<Rightarrow> string \<Rightarrow> int \<Rightarrow> int result" where
  "wire_integer v label minimum =
     (case v of
        JNum x \<Rightarrow> (case as_safe_int x of
            Some n \<Rightarrow> if n < minimum
              then Inl (PrivateIntentError (label @ '' must be a safe integer >= '' @ dec_int minimum @ ''.''))
              else Inr n
          | None \<Rightarrow> Inl (PrivateIntentError (label @ '' must be a safe integer >= '' @ dec_int minimum @ ''.'')))
      | _ \<Rightarrow> Inl (PrivateIntentError (label @ '' must be a safe integer >= '' @ dec_int minimum @ ''.'')))"

definition wire_pool :: "jsval \<Rightarrow> string \<Rightarrow> string result" where
  "wire_pool v label =
     (case v of
        JStr s \<Rightarrow> if s = ''starknet:SN_MAIN'' \<or> s = ''starknet:SN_SEPOLIA'' \<or> s = ''starknet:APP20_LOCALNET''
          then Inr s
          else Inl (PrivateIntentError (label @ '' must name a supported STRK20 deployment.''))
      | _ \<Rightarrow> Inl (PrivateIntentError (label @ '' must name a supported STRK20 deployment.'')))"

text \<open>
  A decimal text. A closed object: the first required field that is missing, then the first field
  that is not one of them.
\<close>

definition wire_decimal :: "jsval \<Rightarrow> nat option" where
  "wire_decimal v = (case v of JStr s \<Rightarrow> if canonical_dec s then Some (of_base 10 s) else None | _ \<Rightarrow> None)"

definition closed_object ::
  "exn \<Rightarrow> (string \<Rightarrow> exn) \<Rightarrow> (string \<Rightarrow> exn) \<Rightarrow> string list \<Rightarrow> jsval \<Rightarrow> fields result" where
  "closed_object not_object missing unsupported names v =
     (case v of
        JObj kvs \<Rightarrow>
          (case find_bad (has_field kvs) names of
             Some k \<Rightarrow> Inl (missing k)
           | None \<Rightarrow> (case find_bad (\<lambda>k. k \<in> set names) (obj_keys kvs) of
                 Some k \<Rightarrow> Inl (unsupported k)
               | None \<Rightarrow> Inr kvs))
      | _ \<Rightarrow> Inl not_object)"

text \<open>Strict equality with a string or an integer.\<close>

definition is_text :: "jsval \<Rightarrow> string \<Rightarrow> bool" where
  "is_text v s = (v = JStr s)"

definition is_number :: "jsval \<Rightarrow> int \<Rightarrow> bool" where
  "is_number v n = (v = JNum (jint n))"

text \<open>A chain of \<open>||\<close> whose operands may throw.\<close>

fun any_r :: "bool result list \<Rightarrow> bool result" where
  "any_r [] = Inr False"
| "any_r (Inl e # cs) = Inl e"
| "any_r (Inr b # cs) = (if b then Inr True else any_r cs)"

text \<open>\<open>JSON.stringify\<close> of a value made of strings, integers, arrays and objects.\<close>

fun js_json :: "jsval \<Rightarrow> json" where
  "js_json (JNum n) = num_json n"
| "js_json (JStr s) = Jstr s"
| "js_json (JArr vs) = Jarr (map js_json vs)"
| "js_json (JObj kvs) = Jobj (map (\<lambda>(k, v). (k, js_json v)) kvs)"
| "js_json (JBool b) = Jbool b"
| "js_json _ = Jnull"

section \<open>When the validators accept\<close>

lemma wire_felt_Inr:
  "wire_felt v l z = Inr t \<longleftrightarrow>
     (\<exists>s. v = JStr s \<and> canonicalizeStarknetFelt s = Inr t \<and> (z \<or> t \<noteq> ''0x0''))"
  by (auto simp: wire_felt_def split: jsval.splits sum.splits)

lemma wire_digest_Inr:
  "wire_digest v l = Inr t \<longleftrightarrow>
     (\<exists>s. v = JStr s \<and> t = to_lower (trim s) \<and> hex_digits_ci 64 (to_lower (trim s)))"
  by (auto simp: wire_digest_def Let_def split: jsval.splits)

lemma wire_text_Inr: "wire_text v l = Inr t \<longleftrightarrow> (\<exists>s. v = JStr s \<and> t = trim s \<and> trim s \<noteq> [])"
  by (auto simp: wire_text_def Let_def split: jsval.splits)

lemma wire_integer_Inr:
  "wire_integer v l m = Inr n \<longleftrightarrow> v = JNum (jint n) \<and> \<bar>n\<bar> \<le> max_safe \<and> m \<le> n"
  by (auto simp: wire_integer_def as_safe_int_Some split: jsval.splits option.splits)

lemma wire_pool_Inr:
  "wire_pool v l = Inr t \<longleftrightarrow> v = JStr t
     \<and> (t = ''starknet:SN_MAIN'' \<or> t = ''starknet:SN_SEPOLIA'' \<or> t = ''starknet:APP20_LOCALNET'')"
  by (auto simp: wire_pool_def split: jsval.splits)

lemma wire_decimal_Some:
  "wire_decimal v = Some n \<longleftrightarrow> (\<exists>s. v = JStr s \<and> canonical_dec s \<and> n = of_base 10 s)"
  by (auto simp: wire_decimal_def split: jsval.splits)

lemma find_bad_Some: "find_bad P xs = Some x \<Longrightarrow> x \<in> set xs \<and> \<not> P x"
  by (auto simp: find_Some_iff)

lemma closed_object_Inr:
  "closed_object e m u names v = Inr kvs \<longleftrightarrow>
     v = JObj kvs \<and> (\<forall>k\<in>set names. has_field kvs k) \<and> set (obj_keys kvs) \<subseteq> set names"
  by (auto simp: closed_object_def find_bad_None list_all_iff
      split: jsval.splits option.splits dest!: find_bad_Some)

lemma any_r_False: "any_r cs = Inr False \<longleftrightarrow> (\<forall>c\<in>set cs. c = Inr False)"
  by (induction cs rule: any_r.induct) auto

lemma case_JStr_Inr:
  "(case v of JStr s \<Rightarrow> f s | _ \<Rightarrow> Inl e) = Inr x \<longleftrightarrow> (\<exists>s. v = JStr s \<and> f s = Inr x)"
  by (auto split: jsval.splits)

section \<open>Normal forms are accepted unchanged\<close>

lemma wire_felt_idem: "wire_felt v l z = Inr t \<Longrightarrow> wire_felt (JStr t) l' z = Inr t"
  using canonical_felt_idem by (auto simp: wire_felt_Inr)

lemma wire_digest_idem: "wire_digest v l = Inr t \<Longrightarrow> wire_digest (JStr t) l' = Inr t"
  by (auto simp: wire_digest_Inr trim_to_lower)

lemma wire_text_idem: "wire_text v l = Inr t \<Longrightarrow> wire_text (JStr t) l' = Inr t"
  by (auto simp: wire_text_Inr)

lemma wire_integer_idem: "wire_integer v l m = Inr n \<Longrightarrow> wire_integer (JNum (jint n)) l' m = Inr n"
  by (auto simp: wire_integer_Inr)

lemma wire_pool_idem: "wire_pool v l = Inr t \<Longrightarrow> wire_pool (JStr t) l' = Inr t"
  by (auto simp: wire_pool_Inr)

lemma wire_decimal_dec [simp]: "wire_decimal (JStr (dec n)) = Some n"
  by (simp add: wire_decimal_Some canonical_dec_dec)

lemmas wire_Inr = wire_felt_Inr wire_digest_Inr wire_text_Inr wire_integer_Inr wire_pool_Inr

lemmas wire_idem = wire_felt_idem wire_digest_idem wire_text_idem wire_integer_idem wire_pool_idem

end
