(* ===== verification/Price_Schedule.thy ===== *)
theory Price_Schedule
  imports Protocol_Checks
begin

text \<open>
  Price schedules and size buckets (packages/private-intents/src/schedule.ts, size-buckets.ts). A
  schedule is a list of at most four points of a sell amount and the buy amount paid for it; the
  price between two points is interpolated with the division of bigints. The interface at the end
  of the first section is what its callers rely on: a price that never falls as the amount grows.
\<close>

section \<open>Schedules\<close>

record price_point =
  pt_a :: int
  pt_b :: int

type_synonym price_schedule = "price_point list"

definition schedule_max_u128 :: int where
  "schedule_max_u128 = 2 ^ 128 - 1"

definition E18 :: int where
  "E18 = 10 ^ 18"

definition badSchedule :: "string \<Rightarrow> exn" where
  "badSchedule m = PrivateIntentError (''BAD_SCHEDULE: '' @ m)"

fun check_points :: "nat \<Rightarrow> price_point option \<Rightarrow> price_schedule \<Rightarrow> unit result" where
  "check_points i previous [] = Inr ()"
| "check_points i previous (p # ps) =
     (if pt_a p \<le> 0 \<or> pt_b p \<le> 0 \<or> schedule_max_u128 < pt_a p \<or> schedule_max_u128 < pt_b p
      then Inl (badSchedule (''point '' @ dec i @ '' must contain positive u128 a and b values.''))
      else (case previous of
          None \<Rightarrow> check_points (Suc i) (Some p) ps
        | Some q \<Rightarrow>
            if pt_a p \<le> pt_a q then Inl (badSchedule ''a values must be strictly increasing.'')
            else if pt_b p < pt_b q then Inl (badSchedule ''b values must be non-decreasing.'')
            else check_points (Suc i) (Some p) ps))"

definition assertPriceSchedule :: "price_schedule \<Rightarrow> unit result" where
  "assertPriceSchedule s =
     (if length s < 1 \<or> length s > 4
      then Inl (badSchedule ''price schedule must contain 1 to 4 points.'')
      else check_points 0 None s)"

definition out_of_schedule :: exn where
  "out_of_schedule = PrivateIntentError ''OUT_OF_SCHEDULE: amount is outside the price schedule domain.''"

text \<open>Division of bigints truncates; the quotients here have a non-negative dividend and divisor.\<close>

fun interpolate :: "price_schedule \<Rightarrow> int \<Rightarrow> int result" where
  "interpolate (l # r # ps) x =
     (if x \<le> pt_a r
      then Inr (pt_b l + ((x - pt_a l) * (pt_b r - pt_b l)) div (pt_a r - pt_a l))
      else interpolate (r # ps) x)"
| "interpolate s x = Inl out_of_schedule"

definition evaluatePriceSchedule :: "price_schedule \<Rightarrow> int \<Rightarrow> int result" where
  "evaluatePriceSchedule s x =
     bind_r (assertPriceSchedule s) (\<lambda>_.
     if x < pt_a (hd s) \<or> pt_a (last s) < x then Inl out_of_schedule
     else if length s = 1 then Inr (pt_b (hd s))
     else interpolate s x)"

function bisect :: "(int \<Rightarrow> int result) \<Rightarrow> int \<Rightarrow> int \<Rightarrow> int \<Rightarrow> int result" where
  "bisect f target low' high' =
     (if low' < high'
      then let middle = low' + (high' - low') div 2 in
        bind_r (f middle) (\<lambda>v.
          if target \<le> v then bisect f target low' middle else bisect f target (middle + 1) high')
      else Inr low')"
  by pat_completeness auto
termination
  by (relation "measure (\<lambda>(f, t, l, h). nat (h - l))") auto

declare bisect.simps [simp del]

definition invertPriceSchedule :: "price_schedule \<Rightarrow> int \<Rightarrow> int option result" where
  "invertPriceSchedule s target =
     bind_r (assertPriceSchedule s) (\<lambda>_.
     if target \<le> pt_b (hd s) then Inr (Some (pt_a (hd s)))
     else if pt_b (last s) < target then Inr None
     else bind_r (bisect (evaluatePriceSchedule s) target (pt_a (hd s)) (pt_a (last s)))
       (\<lambda>x. Inr (Some x)))"

definition scheduleUnitPriceE18 :: "price_schedule \<Rightarrow> int \<Rightarrow> int result" where
  "scheduleUnitPriceE18 s x =
     bind_r (evaluatePriceSchedule s x) (\<lambda>v. Inr ((v * E18) div x))"

section \<open>What a valid schedule is\<close>

definition point_ok :: "price_point \<Rightarrow> bool" where
  "point_ok p = (0 < pt_a p \<and> 0 < pt_b p \<and> pt_a p \<le> schedule_max_u128 \<and> pt_b p \<le> schedule_max_u128)"

definition point_before :: "price_point \<Rightarrow> price_point \<Rightarrow> bool" where
  "point_before p q = (pt_a p < pt_a q \<and> pt_b p \<le> pt_b q)"

definition rising :: "price_schedule \<Rightarrow> bool" where
  "rising s = (list_all point_ok s \<and> sorted_wrt point_before s)"

definition valid_schedule :: "price_schedule \<Rightarrow> bool" where
  "valid_schedule s = (1 \<le> length s \<and> length s \<le> 4 \<and> rising s)"

lemma point_before_trans: "point_before p q \<Longrightarrow> point_before q r \<Longrightarrow> point_before p r"
  by (auto simp: point_before_def)

lemma check_points_iff:
  "check_points i prev s = Inr () \<longleftrightarrow>
     list_all point_ok s \<and> sorted_wrt point_before (case prev of None \<Rightarrow> s | Some q \<Rightarrow> q # s)"
proof (induction s arbitrary: i prev)
  case Nil
  then show ?case by (simp split: option.split)
next
  case (Cons p s)
  then show ?case
    by (cases prev) (auto simp: point_ok_def point_before_def intro: order_trans less_trans)
qed

lemma assertPriceSchedule_iff: "assertPriceSchedule s = Inr () \<longleftrightarrow> valid_schedule s"
  by (auto simp: assertPriceSchedule_def check_points_iff valid_schedule_def rising_def Suc_le_eq)

lemma rising_Cons: "rising (l # r # ps) \<Longrightarrow> rising (r # ps)"
  by (simp add: rising_def)

lemma rising_last: "rising (p # ps) \<Longrightarrow> pt_a p \<le> pt_a (last (p # ps)) \<and> pt_b p \<le> pt_b (last (p # ps))"
  by (cases ps rule: rev_cases) (auto simp: rising_def sorted_wrt_append point_before_def)

text \<open>One segment: its ends are met and it never falls.\<close>

definition segment :: "price_point \<Rightarrow> price_point \<Rightarrow> int \<Rightarrow> int" where
  "segment l r x = pt_b l + ((x - pt_a l) * (pt_b r - pt_b l)) div (pt_a r - pt_a l)"

lemma segment_ends:
  "segment l r (pt_a l) = pt_b l" "pt_a l < pt_a r \<Longrightarrow> segment l r (pt_a r) = pt_b r"
  by (simp_all add: segment_def)

lemma segment_mono: "point_before l r \<Longrightarrow> x \<le> y \<Longrightarrow> segment l r x \<le> segment l r y"
  by (auto simp: segment_def point_before_def intro!: zdiv_mono1 mult_right_mono)

lemma segment_bounds:
  "point_before l r \<Longrightarrow> pt_a l \<le> x \<Longrightarrow> x \<le> pt_a r \<Longrightarrow> pt_b l \<le> segment l r x \<and> segment l r x \<le> pt_b r"
  using segment_mono[of l r "pt_a l" x] segment_mono[of l r x "pt_a r"] segment_ends[of l r]
  by (auto simp: point_before_def)

text \<open>The price as a total function: the last segment that starts before the amount.\<close>

fun price :: "price_schedule \<Rightarrow> int \<Rightarrow> int" where
  "price [] x = 0"
| "price [p] x = pt_b p"
| "price (l # r # ps) x = (if x \<le> pt_a r then segment l r x else price (r # ps) x)"

lemma interpolate_price:
  "x \<le> pt_a (last (l # r # ps)) \<Longrightarrow> rising (l # r # ps) \<Longrightarrow>
   interpolate (l # r # ps) x = Inr (price (l # r # ps) x)"
proof (induction ps arbitrary: l r)
  case Nil
  then show ?case by (simp add: segment_def)
next
  case (Cons q ps)
  from Cons.IH[of r q] Cons.prems rising_Cons[of l r "q # ps"] show ?case
    by (auto simp: segment_def)
qed

lemma evaluate_iff:
  "evaluatePriceSchedule s x = Inr v \<longleftrightarrow>
     valid_schedule s \<and> pt_a (hd s) \<le> x \<and> x \<le> pt_a (last s) \<and> v = price s x"
proof (cases "valid_schedule s \<and> pt_a (hd s) \<le> x \<and> x \<le> pt_a (last s)")
  case True
  then have a: "assertPriceSchedule s = Inr ()" and r: "rising s" and n: "s \<noteq> []"
    by (auto simp: assertPriceSchedule_iff valid_schedule_def)
  show ?thesis
  proof (cases "length s = 1")
    case one: True
    then obtain p where "s = [p]"
      by (auto simp: length_Suc_conv)
    with True a show ?thesis by (auto simp: evaluatePriceSchedule_def)
  next
    case False
    with n obtain l q ps where s: "s = l # q # ps"
      by (cases s rule: remdups_adj.cases) auto
    have "interpolate s x = Inr (price s x)"
      using interpolate_price[of x l q ps] True r s by simp
    with True a False show ?thesis
      by (auto simp: evaluatePriceSchedule_def)
  qed
next
  case False
  then show ?thesis
    by (cases "assertPriceSchedule s") (auto simp: evaluatePriceSchedule_def assertPriceSchedule_iff)
qed

lemma price_bounds:
  "rising (p # ps) \<Longrightarrow> pt_a p \<le> x \<Longrightarrow> x \<le> pt_a (last (p # ps)) \<Longrightarrow>
   pt_b p \<le> price (p # ps) x \<and> price (p # ps) x \<le> pt_b (last (p # ps))"
proof (induction ps arbitrary: p)
  case Nil
  then show ?case by simp
next
  case (Cons q ps)
  have pq: "point_before p q"
    using Cons.prems(1) by (simp add: rising_def)
  show ?case
  proof (cases "x \<le> pt_a q")
    case True
    with segment_bounds[OF pq Cons.prems(2)] rising_last[OF rising_Cons[OF Cons.prems(1)]] show ?thesis
      by auto
  next
    case False
    with Cons.IH[OF rising_Cons[OF Cons.prems(1)]] Cons.prems(3) pq show ?thesis
      by (auto simp: point_before_def)
  qed
qed

lemma price_last: "rising (p # ps) \<Longrightarrow> price (p # ps) (pt_a (last (p # ps))) = pt_b (last (p # ps))"
proof (induction ps arbitrary: p)
  case Nil
  then show ?case by simp
next
  case (Cons q ps)
  note r = rising_Cons[OF Cons.prems]
  show ?case
  proof (cases ps)
    case Nil
    with Cons.prems segment_ends(2)[of p q] show ?thesis
      by (simp add: rising_def point_before_def)
  next
    case (Cons u us)
    then have "pt_a q < pt_a (last (q # ps))"
      using r rising_last[of u us] by (fastforce simp: rising_def point_before_def)
    with Cons.IH[OF r] show ?thesis by simp
  qed
qed

lemma price_mono:
  "rising (p # ps) \<Longrightarrow> pt_a p \<le> x \<Longrightarrow> x \<le> y \<Longrightarrow> y \<le> pt_a (last (p # ps)) \<Longrightarrow>
   price (p # ps) x \<le> price (p # ps) y"
proof (induction ps arbitrary: p)
  case Nil
  then show ?case by simp
next
  case (Cons q ps)
  have pq: "point_before p q"
    using Cons.prems(1) by (simp add: rising_def)
  note r = rising_Cons[OF Cons.prems(1)]
  consider "y \<le> pt_a q" | "x \<le> pt_a q" "pt_a q < y" | "pt_a q < x"
    by linarith
  then show ?case
  proof cases
    case 1
    with segment_mono[OF pq Cons.prems(3)] Cons.prems(3) show ?thesis by auto
  next
    case 2
    have "segment p q x \<le> pt_b q"
      using segment_bounds[OF pq Cons.prems(2)] 2(1) by simp
    also have "pt_b q \<le> price (q # ps) y"
      using price_bounds[OF r] 2 Cons.prems(4) by simp
    finally show ?thesis using 2 by simp
  next
    case 3
    with Cons.IH[OF r] Cons.prems show ?thesis by auto
  qed
qed

section \<open>A curve that never falls\<close>

text \<open>
  What a buyer or a bisection relies on. \<open>eval\<close> answers on the whole domain, and more sold never
  pays less; bisection then finds the least amount that reaches a target.
\<close>

locale price_curve =
  fixes eval :: "'c \<Rightarrow> int \<Rightarrow> int result"
    and curve :: "'c \<Rightarrow> int \<Rightarrow> int"
    and valid :: "'c \<Rightarrow> bool"
    and lo :: "'c \<Rightarrow> int"
    and hi :: "'c \<Rightarrow> int"
  assumes total: "valid c \<Longrightarrow> lo c \<le> x \<Longrightarrow> x \<le> hi c \<Longrightarrow> eval c x = Inr (curve c x)"
    and mono: "valid c \<Longrightarrow> lo c \<le> x \<Longrightarrow> x \<le> y \<Longrightarrow> y \<le> hi c \<Longrightarrow> curve c x \<le> curve c y"
begin

lemma bisect_least:
  assumes "valid c" and "lo c \<le> l" and "l \<le> h" and "h \<le> hi c" and "t \<le> curve c h"
    and "\<forall>y. lo c \<le> y \<and> y < l \<longrightarrow> curve c y < t"
  shows "\<exists>x. bisect (eval c) t l h = Inr x \<and> l \<le> x \<and> x \<le> h \<and> t \<le> curve c x
    \<and> (\<forall>y. lo c \<le> y \<and> y < x \<longrightarrow> curve c y < t)"
  using assms
proof (induction "nat (h - l)" arbitrary: l h rule: less_induct)
  case less
  show ?case
  proof (cases "l < h")
    case False
    then have "bisect (eval c) t l h = Inr l"
      by (simp add: bisect.simps[of _ _ l h])
    with False less.prems show ?thesis
      by (intro exI[of _ l]) auto
  next
    case True
    let ?m = "l + (h - l) div 2"
    have m: "l \<le> ?m" "?m < h"
      using True by auto
    have e: "eval c ?m = Inr (curve c ?m)"
      using m less.prems by (intro total) auto
    show ?thesis
    proof (cases "t \<le> curve c ?m")
      case up: True
      have "bisect (eval c) t l h = bisect (eval c) t l ?m"
        using True e up by (simp add: bisect.simps[of _ _ l h])
      moreover have "\<exists>x. bisect (eval c) t l ?m = Inr x \<and> l \<le> x \<and> x \<le> ?m \<and> t \<le> curve c x
          \<and> (\<forall>y. lo c \<le> y \<and> y < x \<longrightarrow> curve c y < t)"
        using m less.prems up by (intro less.hyps) auto
      ultimately show ?thesis using m by force
    next
      case False
      have below: "curve c y < t" if "lo c \<le> y" "y < ?m + 1" for y
        using mono[of c y ?m] less.prems m that False by auto
      have "bisect (eval c) t l h = bisect (eval c) t (?m + 1) h"
        using True e False by (simp add: bisect.simps[of _ _ l h])
      moreover have "\<exists>x. bisect (eval c) t (?m + 1) h = Inr x \<and> ?m + 1 \<le> x \<and> x \<le> h \<and> t \<le> curve c x
          \<and> (\<forall>y. lo c \<le> y \<and> y < x \<longrightarrow> curve c y < t)"
        using m less.prems below by (intro less.hyps) auto
      ultimately show ?thesis using m by force
    qed
  qed
qed

end

lemma valid_Cons: "valid_schedule s \<Longrightarrow> \<exists>p ps. s = p # ps \<and> rising (p # ps)"
  by (cases s) (auto simp: valid_schedule_def)

interpretation schedule_curve: price_curve evaluatePriceSchedule price valid_schedule
  "\<lambda>s. pt_a (hd s)" "\<lambda>s. pt_a (last s)"
proof
  show "evaluatePriceSchedule c x = Inr (price c x)"
    if "valid_schedule c" "pt_a (hd c) \<le> x" "x \<le> pt_a (last c)" for c x
    using that by (simp add: evaluate_iff)
  show "price c x \<le> price c y"
    if "valid_schedule c" "pt_a (hd c) \<le> x" "x \<le> y" "y \<le> pt_a (last c)" for c x y
    using valid_Cons[OF that(1)] that price_mono by fastforce
qed

section \<open>Properties of prices\<close>

text \<open>The exact interpolation, in rational numbers: the reference the integer price is held to.\<close>

fun exact_price :: "price_schedule \<Rightarrow> rat \<Rightarrow> rat" where
  "exact_price [] x = 0"
| "exact_price [p] x = of_int (pt_b p)"
| "exact_price (l # r # ps) x =
     (if x \<le> of_int (pt_a r)
      then of_int (pt_b l)
        + (x - of_int (pt_a l)) * of_int (pt_b r - pt_b l) / of_int (pt_a r - pt_a l)
      else exact_price (r # ps) x)"

lemma price_floor: "price s x = \<lfloor>exact_price s (of_int x)\<rfloor>"
proof (induction s "of_int x :: rat" rule: exact_price.induct)
  case (3 l r ps)
  have "(of_int (x - pt_a l) * of_int (pt_b r - pt_b l)) / of_int (pt_a r - pt_a l)
      = (of_int ((x - pt_a l) * (pt_b r - pt_b l)) / of_int (pt_a r - pt_a l) :: rat)"
    by simp
  then have "segment l r x = \<lfloor>of_int (pt_b l)
      + (of_int x - of_int (pt_a l)) * of_int (pt_b r - pt_b l) / of_int (pt_a r - pt_a l) :: rat\<rfloor>"
    unfolding segment_def by (metis floor_add_int floor_divide_of_int_eq of_int_diff add.commute)
  with 3 show ?case
    by simp
qed simp_all

text \<open>
  C23: the price of a schedule is defined on exactly its domain, and there it is the exact
  piecewise-linear interpolation of the points, rounded down: the maker never pays a fraction
  more than the line it quoted.
\<close>

theorem evaluate_is_floor_of_exact:
  "evaluatePriceSchedule s x = Inr v \<longleftrightarrow>
     valid_schedule s \<and> pt_a (hd s) \<le> x \<and> x \<le> pt_a (last s) \<and> v = \<lfloor>exact_price s (of_int x)\<rfloor>"
  unfolding evaluate_iff price_floor ..

text \<open>
  C24: selling more never pays less, and every price lies between the first and the last quoted buy
  amount.
\<close>

theorem evaluate_monotone_and_bounded:
  assumes "evaluatePriceSchedule s x = Inr v" and "evaluatePriceSchedule s y = Inr w" and "x \<le> y"
  shows "v \<le> w \<and> pt_b (hd s) \<le> v \<and> w \<le> pt_b (last s)"
proof -
  have d: "valid_schedule s" "pt_a (hd s) \<le> x" "y \<le> pt_a (last s)" "v = price s x" "w = price s y"
    using assms by (auto simp: evaluate_iff)
  obtain p ps where s: "s = p # ps" "rising (p # ps)"
    using valid_Cons[OF d(1)] by blast
  show ?thesis
    using schedule_curve.mono[OF d(1,2) assms(3) d(3)] price_bounds[OF s(2)] d assms(3)
    by (auto simp: s(1))
qed

text \<open>
  C25: inverting a schedule always returns, and returns the least amount whose price reaches the
  target, or nothing exactly when no amount of the domain does.
\<close>

theorem invert_is_least:
  assumes "valid_schedule s"
  shows "(\<exists>x. invertPriceSchedule s t = Inr (Some x) \<and> pt_a (hd s) \<le> x \<and> x \<le> pt_a (last s)
        \<and> t \<le> price s x \<and> (\<forall>y. pt_a (hd s) \<le> y \<and> y < x \<longrightarrow> price s y < t))
    \<or> (invertPriceSchedule s t = Inr None
        \<and> (\<forall>x. pt_a (hd s) \<le> x \<and> x \<le> pt_a (last s) \<longrightarrow> price s x < t))"
proof -
  obtain p ps where s: "s = p # ps" "rising (p # ps)"
    using valid_Cons[OF assms] by blast
  have a: "assertPriceSchedule s = Inr ()"
    using assms by (simp add: assertPriceSchedule_iff)
  have dom: "pt_a (hd s) \<le> pt_a (last s)"
    using rising_last[OF s(2)] by (simp add: s(1))
  note b = price_bounds[OF s(2), folded s(1)]
  have ends: "price s (pt_a (last s)) = pt_b (last s)"
    using price_last[OF s(2)] by (simp add: s(1))
  consider "t \<le> pt_b (hd s)" | "pt_b (last s) < t" "pt_b (hd s) < t" | "pt_b (hd s) < t" "t \<le> pt_b (last s)"
    by linarith
  then show ?thesis
  proof cases
    case 1
    then show ?thesis
      using a dom b[of "pt_a (hd s)"] by (auto simp: invertPriceSchedule_def s(1))
  next
    case 2
    then show ?thesis
      using a b by (fastforce simp: invertPriceSchedule_def s(1))
  next
    case 3
    then show ?thesis
      using a schedule_curve.bisect_least[OF assms order_refl dom order_refl, of t] ends
      by (fastforce simp: invertPriceSchedule_def)
  qed
qed

definition sample_schedule :: price_schedule where
  "sample_schedule = [\<lparr>pt_a = 10, pt_b = 20\<rparr>, \<lparr>pt_a = 13, pt_b = 30\<rparr>]"

lemma sample_schedule_valid: "valid_schedule sample_schedule"
  by (simp add: sample_schedule_def valid_schedule_def rising_def point_ok_def point_before_def
      schedule_max_u128_def)

theorem evaluate_monotone_and_bounded_witness:
  "evaluatePriceSchedule sample_schedule 11 = Inr 23 \<and> evaluatePriceSchedule sample_schedule 12 = Inr 26
   \<and> (23::int) \<le> 26 \<and> pt_b (hd sample_schedule) \<le> 23 \<and> 26 \<le> pt_b (last sample_schedule)"
proof -
  have e: "evaluatePriceSchedule sample_schedule 11 = Inr 23" "evaluatePriceSchedule sample_schedule 12 = Inr 26"
    using sample_schedule_valid unfolding evaluate_iff by (simp_all add: sample_schedule_def segment_def)
  from evaluate_monotone_and_bounded[OF e] e show ?thesis by simp
qed

lemma sample_schedule_prices: "price sample_schedule 10 = 20" "price sample_schedule 11 = 23" "price sample_schedule 12 = 26"
    "price sample_schedule 13 = 30"
  by (simp_all add: sample_schedule_def segment_def)

theorem invert_is_least_witness:
  "invertPriceSchedule sample_schedule 25 = Inr (Some 12) \<and> invertPriceSchedule sample_schedule 31 = Inr None"
proof -
  have dom: "pt_a (hd sample_schedule) = 10" "pt_a (last sample_schedule) = 13"
    by (simp_all add: sample_schedule_def)
  have x: "x = 10 \<or> x = 11 \<or> x = 12 \<or> x = 13" if "10 \<le> x" "x \<le> 13" for x :: int
    using that by arith
  have "invertPriceSchedule sample_schedule 31 = Inr None"
    using invert_is_least[OF sample_schedule_valid, of 31] x sample_schedule_prices unfolding dom by force
  moreover have "invertPriceSchedule sample_schedule 25 = Inr (Some 12)"
    using invert_is_least[OF sample_schedule_valid, of 25] unfolding dom
  proof (elim disjE exE conjE)
    fix x
    assume a: "invertPriceSchedule sample_schedule 25 = Inr (Some x)" "10 \<le> x" "x \<le> 13" "25 \<le> price sample_schedule x"
      "\<forall>y. 10 \<le> y \<and> y < x \<longrightarrow> price sample_schedule y < 25"
    then have "x = 12"
      using x[OF a(2,3)] sample_schedule_prices a(5)[rule_format, of 12] by auto
    then show ?thesis
      using a(1) by simp
  next
    assume "\<forall>x. 10 \<le> x \<and> x \<le> 13 \<longrightarrow> price sample_schedule x < 25"
    from this[rule_format, of 12] show ?thesis
      by (simp add: sample_schedule_prices)
  qed
  ultimately show ?thesis
    by blast
qed

section \<open>Size buckets\<close>

datatype bucket_symbol = STRK | USDC

record size_bucket =
  bk_min :: int
  bk_max :: int

definition strk_unit :: int where
  "strk_unit = 10 ^ 18"

definition usdc_unit :: int where
  "usdc_unit = 10 ^ 6"

abbreviation bucket :: "int \<Rightarrow> int \<Rightarrow> size_bucket" where
  "bucket l h \<equiv> \<lparr>bk_min = l, bk_max = h\<rparr>"

definition SIZE_BUCKET_LADDER :: "bucket_symbol \<Rightarrow> size_bucket list" where
  "SIZE_BUCKET_LADDER s = (case s of
     STRK \<Rightarrow>
       [bucket (strk_unit div 20) (strk_unit div 10), bucket (strk_unit div 10) (strk_unit div 4),
        bucket (strk_unit div 4) (strk_unit div 2), bucket (strk_unit div 2) strk_unit,
        bucket strk_unit ((strk_unit * 5) div 2), bucket ((strk_unit * 5) div 2) (strk_unit * 5),
        bucket (strk_unit * 5) (strk_unit * 10), bucket (strk_unit * 10) (strk_unit * 25),
        bucket (strk_unit * 25) (strk_unit * 50)]
   | USDC \<Rightarrow>
       [bucket (usdc_unit div 10) (usdc_unit div 5), bucket (usdc_unit div 5) (usdc_unit div 2),
        bucket (usdc_unit div 2) usdc_unit, bucket usdc_unit ((usdc_unit * 5) div 2),
        bucket ((usdc_unit * 5) div 2) (usdc_unit * 5), bucket (usdc_unit * 5) (usdc_unit * 10),
        bucket (usdc_unit * 10) (usdc_unit * 25), bucket (usdc_unit * 25) (usdc_unit * 50),
        bucket (usdc_unit * 50) (usdc_unit * 100)])"

definition symbol_text :: "bucket_symbol \<Rightarrow> string" where
  "symbol_text s = (case s of STRK \<Rightarrow> ''STRK'' | USDC \<Rightarrow> ''USDC'')"

text \<open>The callback of \<open>find\<close> sees the index: the first bucket is closed below, the others open.\<close>

fun find_bucket :: "nat \<Rightarrow> int \<Rightarrow> size_bucket list \<Rightarrow> size_bucket option" where
  "find_bucket i x [] = None"
| "find_bucket i x (c # cs) =
     (if x \<le> bk_max c \<and> (if i = 0 then bk_min c \<le> x else bk_min c < x) then Some c
      else find_bucket (Suc i) x cs)"

definition bucketForAmount :: "bucket_symbol \<Rightarrow> int \<Rightarrow> size_bucket result" where
  "bucketForAmount s x =
     (if x \<le> 0 then Inl (PrivateIntentError ''Size bucket amount must be positive.'')
      else (case find_bucket 0 x (SIZE_BUCKET_LADDER s) of
          None \<Rightarrow> Inl (PrivateIntentError (symbol_text s @ '' amount is outside the reviewed size bucket ladder.''))
        | Some b \<Rightarrow> Inr b))"

definition assertLadderBucket :: "bucket_symbol \<Rightarrow> size_bucket \<Rightarrow> unit result" where
  "assertLadderBucket s b =
     (if b \<in> set (SIZE_BUCKET_LADDER s) then Inr ()
      else Inl (PrivateIntentError (symbol_text s @ '' size bucket must use the reviewed ladder.'')))"

definition formatBaseUnits :: "int \<Rightarrow> nat \<Rightarrow> string" where
  "formatBaseUnits v decimals =
     (let scale = 10 ^ decimals;
          whole = v div scale;
          fraction = drop_trailing_zeros (pad_start decimals (dec_int (v mod scale)))
      in if fraction = [] then dec_int whole else dec_int whole @ ''.'' @ fraction)"

text \<open>The two ends of the label and its symbol; the template puts an en dash and a blank between them.\<close>

definition formatSizeBucketLabel ::
  "bucket_symbol \<Rightarrow> size_bucket \<Rightarrow> jsnum option \<Rightarrow> (string \<times> string \<times> string) result" where
  "formatSizeBucketLabel s b decimals =
     bind_r (assertLadderBucket s b) (\<lambda>_.
     case as_safe_int (case decimals of None \<Rightarrow> jint (if s = STRK then 18 else 6) | Some d \<Rightarrow> d) of
       None \<Rightarrow> Inl (PrivateIntentError ''Size bucket label decimals must be an integer in [0, 255].'')
     | Some d \<Rightarrow>
         if d < 0 \<or> 255 < d
         then Inl (PrivateIntentError ''Size bucket label decimals must be an integer in [0, 255].'')
         else Inr (formatBaseUnits (bk_min b) (nat d), formatBaseUnits (bk_max b) (nat d), symbol_text s))"

fun contiguous :: "size_bucket list \<Rightarrow> bool" where
  "contiguous (b # c # cs) = (bk_min b < bk_max b \<and> bk_max b = bk_min c \<and> contiguous (c # cs))"
| "contiguous [b] = (bk_min b < bk_max b)"
| "contiguous [] = True"

lemma ladder_contiguous: "contiguous (SIZE_BUCKET_LADDER s)"
  by (cases s) (simp_all add: SIZE_BUCKET_LADDER_def strk_unit_def usdc_unit_def)

lemma contiguous_head: "contiguous (b # cs) \<Longrightarrow> bk_min b < bk_max b"
  by (cases cs) simp_all

lemma contiguous_above: "contiguous (b # cs) \<Longrightarrow> c \<in> set cs \<Longrightarrow> bk_max b \<le> bk_min c"
proof (induction cs arbitrary: b)
  case (Cons d ds)
  then show ?case
    using contiguous_head[of d ds] Cons.IH[of d] by force
qed simp

lemma contiguous_tail: "contiguous (b # cs) \<Longrightarrow> contiguous cs"
  by (cases cs) simp_all

lemma contiguous_unique:
  "contiguous cs \<Longrightarrow> b \<in> set cs \<Longrightarrow> c \<in> set cs \<Longrightarrow> bk_min b < x \<Longrightarrow> x \<le> bk_max b \<Longrightarrow>
   bk_min c < x \<Longrightarrow> x \<le> bk_max c \<Longrightarrow> b = c"
proof (induction cs)
  case (Cons d ds)
  then show ?case
    using contiguous_above[of d ds] contiguous_tail[of d ds] by force
qed simp

lemma find_bucket_later:
  "contiguous (c # cs) \<Longrightarrow> bk_min c < x \<Longrightarrow> x \<le> bk_max (last (c # cs)) \<Longrightarrow> 0 < i \<Longrightarrow>
   \<exists>b. find_bucket i x (c # cs) = Some b"
proof (induction cs arbitrary: c i)
  case (Cons d ds)
  then show ?case by (cases "x \<le> bk_max c") auto
qed simp

lemma find_bucket_mem:
  "find_bucket i x cs = Some b \<Longrightarrow> b \<in> set cs \<and> bk_min b \<le> x \<and> x \<le> bk_max b \<and> (0 < i \<longrightarrow> bk_min b < x)"
  by (induction i x cs rule: find_bucket.induct) (auto split: if_splits)

lemma find_bucket_None:
  "find_bucket i x cs = None \<Longrightarrow> c \<in> set cs \<Longrightarrow> \<not> (bk_min c < x \<and> x \<le> bk_max c)"
  by (induction i x cs rule: find_bucket.induct) (auto split: if_splits)

lemma find_bucket_first:
  "contiguous (c # cs) \<Longrightarrow> bk_min c \<le> x \<Longrightarrow> x \<le> bk_max (last (c # cs)) \<Longrightarrow>
   \<exists>b. find_bucket 0 x (c # cs) = Some b"
  using find_bucket_later[of c cs x 1] find_bucket_later[of "hd cs" "tl cs" x 1] contiguous_head[of c cs]
  by (cases cs; cases "x \<le> bk_max c") auto

lemma ladder_Cons: "\<exists>c cs. SIZE_BUCKET_LADDER s = c # cs"
  by (cases s) (simp_all add: SIZE_BUCKET_LADDER_def)

lemma contiguous_last: "contiguous (b # cs) \<Longrightarrow> bk_max b \<le> bk_max (last (b # cs))"
proof (induction cs arbitrary: b)
  case (Cons d ds)
  have d: "contiguous (d # ds)" "bk_max b = bk_min d"
    using Cons.prems by auto
  have "bk_max d \<le> bk_max (last (d # ds))"
    using Cons.IH[OF d(1)] .
  with d contiguous_head[OF d(1)] show ?case by simp
qed simp

lemma find_bucket_strict:
  "find_bucket 0 x (c # cs) = Some b \<Longrightarrow> bk_min b < x \<or> (b = c \<and> x = bk_min c)"
  using find_bucket_mem[of 1 x cs b] by (auto split: if_splits)

lemma find_bucket_within:
  "contiguous (c # cs) \<Longrightarrow> find_bucket i x (c # cs) = Some b \<Longrightarrow> bk_min c \<le> x \<and> x \<le> bk_max (last (c # cs))"
proof (induction cs arbitrary: c i)
  case (Cons d ds)
  show ?case
  proof (cases "find_bucket i x [c] = None")
    case True
    then have "find_bucket (Suc i) x (d # ds) = Some b"
      using Cons.prems(2) by (auto split: if_splits)
    with Cons.IH[of d "Suc i"] Cons.prems(1) show ?thesis by auto
  next
    case False
    have "bk_max c \<le> bk_max (last (d # ds))"
      using contiguous_last[OF Cons.prems(1)] by simp
    with False show ?thesis by (auto split: if_splits)
  qed
qed (auto split: if_splits)

text \<open>
  The reviewed ladder partitions its range. An amount has a bucket exactly when it lies between
  the lowest and the highest bound; the bucket is one of the ladder, contains the amount, and is
  the only one that holds it above its lower bound.
\<close>

lemma bucket_partition:
  "((\<exists>b. bucketForAmount s x = Inr b) \<longleftrightarrow>
      bk_min (hd (SIZE_BUCKET_LADDER s)) \<le> x \<and> x \<le> bk_max (last (SIZE_BUCKET_LADDER s)))
   \<and> (\<forall>b c. bucketForAmount s x = Inr b \<longrightarrow>
        assertLadderBucket s b = Inr () \<and> bk_min b \<le> x \<and> x \<le> bk_max b
        \<and> (c \<in> set (SIZE_BUCKET_LADDER s) \<and> bk_min c < x \<and> x \<le> bk_max c \<longrightarrow> c = b))"
proof -
  let ?L = "SIZE_BUCKET_LADDER s"
  obtain l ls where L: "?L = l # ls"
    using ladder_Cons by blast
  have ct: "contiguous (l # ls)"
    using ladder_contiguous[of s] L by simp
  have pos: "0 < bk_min l"
    using L by (cases s) (auto simp: SIZE_BUCKET_LADDER_def strk_unit_def usdc_unit_def)
  have found: "bucketForAmount s x = Inr b \<longleftrightarrow> 0 < x \<and> find_bucket 0 x (l # ls) = Some b" for b
    by (auto simp: bucketForAmount_def L split: option.splits simp del: find_bucket.simps)
  have "(\<exists>b. bucketForAmount s x = Inr b) \<longleftrightarrow> bk_min l \<le> x \<and> x \<le> bk_max (last (l # ls))"
    unfolding found using find_bucket_within[OF ct] find_bucket_first[OF ct, of x] pos
    by (auto simp del: find_bucket.simps last.simps)
  moreover have "assertLadderBucket s b = Inr () \<and> bk_min b \<le> x \<and> x \<le> bk_max b
      \<and> (c \<in> set ?L \<and> bk_min c < x \<and> x \<le> bk_max c \<longrightarrow> c = b)"
    if "bucketForAmount s x = Inr b" for b c
  proof -
    have f: "find_bucket 0 x (l # ls) = Some b"
      using that found by simp
    note m = find_bucket_mem[OF f]
    have "c = b" if c: "c \<in> set (l # ls)" "bk_min c < x" "x \<le> bk_max c"
    proof (cases "bk_min b < x")
      case True
      with m c contiguous_unique[OF ct] show ?thesis by blast
    next
      case False
      with find_bucket_strict[OF f] have "x = bk_min l" by simp
      with c contiguous_above[OF ct] contiguous_head[OF ct] show ?thesis by force
    qed
    with m show ?thesis
      by (auto simp: assertLadderBucket_def L)
  qed
  ultimately show ?thesis
    by (simp add: L)
qed

end
