(* ===== verification/Quote_V3.thy ===== *)
theory Quote_V3
  imports Wire_Checks Price_Schedule
begin

text \<open>
  Private RFQs of version 2 (packages/private-intents/src/rfq-v2.ts) and the solver quotes of
  version 3 that answer them (quote-v3.ts). A body is the record of normalised values the code
  builds before it prints, encodes or compares; the wire object is the body with its bigints as
  decimal text.
\<close>

section \<open>Requests\<close>

definition PRIVATE_RFQ_V2_DOMAIN :: string where
  "PRIVATE_RFQ_V2_DOMAIN = ''app20/private-rfq/v2''"

definition MAX_RFQ_LIFETIME_SECONDS :: int where
  "MAX_RFQ_LIFETIME_SECONDS = 24 * 60 * 60"

definition rfq_max_u128 :: int where
  "rfq_max_u128 = 2 ^ 128 - 1"

record rfq_v2 =
  r2_version :: jsval
  r2_domain :: jsval
  r2_rfqId :: jsval
  r2_rfqFelt :: jsval
  r2_takerCommitment :: jsval
  r2_chainId :: jsval
  r2_registryRevision :: jsval
  r2_directoryEpoch :: jsval
  r2_settlementHelper :: jsval
  r2_sellToken :: jsval
  r2_buyToken :: jsval
  r2_bucketMin :: jsval
  r2_bucketMax :: jsval
  r2_createdAt :: jsval
  r2_responseDeadline :: jsval
  r2_expiresAt :: jsval
  r2_lockExpiresAt :: jsval

record rfq_v2_body =
  rb_buyToken :: string
  rb_chainId :: string
  rb_createdAt :: int
  rb_directoryEpoch :: int
  rb_expiresAt :: int
  rb_lockExpiresAt :: int
  rb_registryRevision :: string
  rb_responseDeadline :: int
  rb_rfqFelt :: string
  rb_rfqId :: string
  rb_bucketMax :: int
  rb_bucketMin :: int
  rb_sellToken :: string
  rb_settlementHelper :: string
  rb_takerCommitment :: string

definition PRIVATE_RFQ_V2_WIRE_FIELDS :: "string list" where
  "PRIVATE_RFQ_V2_WIRE_FIELDS = [''buyToken'', ''chainId'', ''createdAt'', ''directoryEpoch'', ''domain'',
     ''expiresAt'', ''lockExpiresAt'', ''registryRevision'', ''responseDeadline'', ''rfqFelt'', ''rfqId'',
     ''sellBucketMaxBaseUnits'', ''sellBucketMinBaseUnits'', ''sellToken'', ''settlementHelper'',
     ''takerCommitment'', ''version'']"

definition requireBucketAmount :: "jsval \<Rightarrow> string \<Rightarrow> int result" where
  "requireBucketAmount v label =
     (case v of
        JBig n \<Rightarrow> if n \<le> 0 \<or> rfq_max_u128 < n
          then Inl (PrivateIntentError (label @ '' must be a positive u128 value.'')) else Inr n
      | _ \<Rightarrow> Inl (PrivateIntentError (label @ '' must be a positive u128 value.'')))"

definition rfq_v2_canonicalBody :: "rfq_v2 \<Rightarrow> rfq_v2_body result" where
  "rfq_v2_canonicalBody r =
     (if \<not> is_number (r2_version r) 2 \<or> \<not> is_text (r2_domain r) PRIVATE_RFQ_V2_DOMAIN
      then Inl (PrivateIntentError ''Only private RFQ v2 is supported.'')
      else bind_r (wire_integer (r2_createdAt r) ''createdAt'' 1) (\<lambda>created.
        bind_r (wire_integer (r2_responseDeadline r) ''responseDeadline'' 1) (\<lambda>deadline.
        bind_r (wire_integer (r2_expiresAt r) ''expiresAt'' 1) (\<lambda>expires.
        bind_r (wire_integer (r2_lockExpiresAt r) ''lockExpiresAt'' 1) (\<lambda>lockExpires.
        if deadline \<le> created \<or> expires \<le> deadline \<or> MAX_RFQ_LIFETIME_SECONDS < expires - created
        then Inl (PrivateIntentError ''RFQ v2 deadlines must be ordered and bounded to 24 hours.'')
        else if lockExpires \<noteq> expires
        then Inl (PrivateIntentError ''lockExpiresAt must equal the RFQ expiresAt timestamp.'')
        else bind_r (wire_felt (r2_sellToken r) ''sellToken'' False) (\<lambda>sell.
        bind_r (wire_felt (r2_buyToken r) ''buyToken'' False) (\<lambda>buy.
        if sell = buy then Inl (PrivateIntentError ''sellToken and buyToken must differ.'')
        else bind_r (requireBucketAmount (r2_bucketMin r) ''sellBucketMinBaseUnits'') (\<lambda>lower.
        bind_r (requireBucketAmount (r2_bucketMax r) ''sellBucketMaxBaseUnits'') (\<lambda>upper.
        if upper \<le> lower
        then Inl (PrivateIntentError ''RFQ v2 size bucket maximum must be greater than its minimum.'')
        else bind_r (wire_pool (r2_chainId r) ''chainId'') (\<lambda>chain.
        bind_r (wire_integer (r2_directoryEpoch r) ''directoryEpoch'' 0) (\<lambda>epoch.
        bind_r (wire_text (r2_registryRevision r) ''registryRevision'') (\<lambda>registry.
        bind_r (wire_felt (r2_rfqFelt r) ''rfqFelt'' False) (\<lambda>felt.
        bind_r (wire_digest (r2_rfqId r) ''rfqId'') (\<lambda>rid.
        bind_r (wire_felt (r2_settlementHelper r) ''settlementHelper'' False) (\<lambda>helper.
        bind_r (wire_felt (r2_takerCommitment r) ''takerCommitment'' False) (\<lambda>taker.
        Inr \<lparr>rb_buyToken = buy, rb_chainId = chain, rb_createdAt = created, rb_directoryEpoch = epoch,
          rb_expiresAt = expires, rb_lockExpiresAt = lockExpires, rb_registryRevision = registry,
          rb_responseDeadline = deadline, rb_rfqFelt = felt, rb_rfqId = rid, rb_bucketMax = upper,
          rb_bucketMin = lower, rb_sellToken = sell, rb_settlementHelper = helper,
          rb_takerCommitment = taker\<rparr>))))))))))))))))"

definition rfq_v2_object :: "rfq_v2_body \<Rightarrow> fields" where
  "rfq_v2_object b =
     [(''buyToken'', JStr (rb_buyToken b)), (''chainId'', JStr (rb_chainId b)),
      (''createdAt'', JNum (jint (rb_createdAt b))), (''directoryEpoch'', JNum (jint (rb_directoryEpoch b))),
      (''domain'', JStr PRIVATE_RFQ_V2_DOMAIN), (''expiresAt'', JNum (jint (rb_expiresAt b))),
      (''lockExpiresAt'', JNum (jint (rb_lockExpiresAt b))),
      (''registryRevision'', JStr (rb_registryRevision b)),
      (''responseDeadline'', JNum (jint (rb_responseDeadline b))), (''rfqFelt'', JStr (rb_rfqFelt b)),
      (''rfqId'', JStr (rb_rfqId b)), (''sellBucketMaxBaseUnits'', JStr (dec_int (rb_bucketMax b))),
      (''sellBucketMinBaseUnits'', JStr (dec_int (rb_bucketMin b))), (''sellToken'', JStr (rb_sellToken b)),
      (''settlementHelper'', JStr (rb_settlementHelper b)),
      (''takerCommitment'', JStr (rb_takerCommitment b)), (''version'', JNum (jint 2))]"

definition assertPrivateRfqV2 :: "rfq_v2 \<Rightarrow> unit result" where
  "assertPrivateRfqV2 r = bind_r (rfq_v2_canonicalBody r) (\<lambda>_. Inr ())"

definition canonicalPrivateRfqV2 :: "rfq_v2 \<Rightarrow> string result" where
  "canonicalPrivateRfqV2 r =
     bind_r (rfq_v2_canonicalBody r) (\<lambda>b. Inr (json_text (js_json (JObj (rfq_v2_object b)))))"

definition digestPrivateRfqV2 :: "(string \<Rightarrow> string) \<Rightarrow> rfq_v2 \<Rightarrow> string result" where
  "digestPrivateRfqV2 sha256Hex r = bind_r (canonicalPrivateRfqV2 r) (\<lambda>t. Inr (sha256Hex t))"

definition encodePrivateRfqV2 :: "rfq_v2 \<Rightarrow> jsval result" where
  "encodePrivateRfqV2 r = bind_r (rfq_v2_canonicalBody r) (\<lambda>b. Inr (JObj (rfq_v2_object b)))"

definition read_rfq_v2 :: "fields \<Rightarrow> nat \<Rightarrow> nat \<Rightarrow> rfq_v2" where
  "read_rfq_v2 obj lower upper =
     \<lparr>r2_version = get_field obj ''version'', r2_domain = get_field obj ''domain'',
      r2_rfqId = get_field obj ''rfqId'', r2_rfqFelt = get_field obj ''rfqFelt'',
      r2_takerCommitment = get_field obj ''takerCommitment'', r2_chainId = get_field obj ''chainId'',
      r2_registryRevision = get_field obj ''registryRevision'',
      r2_directoryEpoch = get_field obj ''directoryEpoch'',
      r2_settlementHelper = get_field obj ''settlementHelper'', r2_sellToken = get_field obj ''sellToken'',
      r2_buyToken = get_field obj ''buyToken'', r2_bucketMin = JBig (int lower), r2_bucketMax = JBig (int upper),
      r2_createdAt = get_field obj ''createdAt'', r2_responseDeadline = get_field obj ''responseDeadline'',
      r2_expiresAt = get_field obj ''expiresAt'', r2_lockExpiresAt = get_field obj ''lockExpiresAt''\<rparr>"

definition decodePrivateRfqV2 :: "jsval \<Rightarrow> rfq_v2 result" where
  "decodePrivateRfqV2 v =
     bind_r (closed_object (PrivateIntentError ''Private RFQ v2 wire payload must be an object.'')
        (\<lambda>k. PrivateIntentError (''Private RFQ v2 '' @ k @ '' is required.''))
        (\<lambda>k. PrivateIntentError (''Private RFQ v2 field '' @ k @ '' is unsupported.''))
        PRIVATE_RFQ_V2_WIRE_FIELDS v) (\<lambda>obj.
     case (wire_decimal (get_field obj ''sellBucketMinBaseUnits''),
           wire_decimal (get_field obj ''sellBucketMaxBaseUnits'')) of
       (Some lower, Some upper) \<Rightarrow>
         let r = read_rfq_v2 obj lower upper in
         bind_r (rfq_v2_canonicalBody r) (\<lambda>_. Inr r)
     | _ \<Rightarrow> Inl (PrivateIntentError
         ''Private RFQ v2 wire bucket amounts must be canonical decimal strings.''))"

section \<open>Quotes\<close>

definition QUOTE_V3_DOMAIN :: string where
  "QUOTE_V3_DOMAIN = ''app20/private-intent-quote/v3''"

definition QUOTE_V3_WIRE_FIELDS :: "string list" where
  "QUOTE_V3_WIRE_FIELDS = [''buyToken'', ''domain'', ''escrowAddress'', ''helper'', ''lockExpiresAt'',
     ''lockId'', ''lockTicket'', ''lockTransactionHash'', ''nonce'', ''pool'', ''pricingProvenance'',
     ''quoteExpiresAt'', ''quoteKeyId'', ''quotedAt'', ''rfqDigest'', ''rfqFelt'', ''schedule'',
     ''sellToken'', ''signature'', ''solverId'', ''spreadBps'', ''version'']"

record quote_v3 =
  v_domain :: jsval
  v_version :: jsval
  v_solverId :: jsval
  v_quoteKeyId :: jsval
  v_nonce :: jsval
  v_pool :: jsval
  v_helper :: jsval
  v_escrowAddress :: jsval
  v_rfqDigest :: jsval
  v_rfqFelt :: jsval
  v_sellToken :: jsval
  v_buyToken :: jsval
  v_schedule :: price_schedule
  v_lockId :: jsval
  v_lockTicket :: jsval
  v_lockTransactionHash :: jsval
  v_lockExpiresAt :: jsval
  v_spreadBps :: jsval
  v_pricingProvenance :: jsval
  v_quotedAt :: jsval
  v_quoteExpiresAt :: jsval
  v_signature :: jsval

record quote_v3_body =
  b_buyToken :: string
  b_escrowAddress :: string
  b_helper :: string
  b_lockExpiresAt :: int
  b_lockId :: string
  b_lockTicket :: string
  b_lockTransactionHash :: string
  b_nonce :: jsval
  b_pool :: string
  b_pricingProvenance :: string
  b_quoteExpiresAt :: int
  b_quoteKeyId :: string
  b_quotedAt :: int
  b_rfqDigest :: string
  b_rfqFelt :: string
  b_schedule :: price_schedule
  b_sellToken :: string
  b_solverId :: string
  b_spreadBps :: int

text \<open>
  The nonce is only tested with a regular expression, which takes the text of its argument; an
  array of one element has the text of that element, and no other value but a string has a text
  that starts with \<open>0x\<close>.
\<close>

fun regexp_text :: "jsval \<Rightarrow> string" where
  "regexp_text (JStr s) = s"
| "regexp_text (JArr [v]) = regexp_text v"
| "regexp_text _ = []"

definition v3_canonicalBody :: "quote_v3 \<Rightarrow> quote_v3_body result" where
  "v3_canonicalBody q =
     (if \<not> is_text (v_domain q) QUOTE_V3_DOMAIN \<or> \<not> is_number (v_version q) 3
      then Inl (PrivateIntentError ''Only solver quote v3 is supported.'')
      else if \<not> nonce_pattern (regexp_text (v_nonce q))
      then Inl (PrivateIntentError ''Quote v3 nonce must be a 32-byte lowercase digest.'')
      else bind_r (wire_felt (v_sellToken q) ''sellToken'' False) (\<lambda>sell.
        bind_r (wire_felt (v_buyToken q) ''buyToken'' False) (\<lambda>buy.
        if sell = buy then Inl (PrivateIntentError ''sellToken and buyToken must differ.'')
        else bind_r (wire_integer (v_lockExpiresAt q) ''lockExpiresAt'' 1) (\<lambda>lockExpires.
        bind_r (wire_integer (v_quotedAt q) ''quotedAt'' 1) (\<lambda>quoted.
        bind_r (wire_integer (v_quoteExpiresAt q) ''quoteExpiresAt'' 1) (\<lambda>expires.
        if expires \<le> quoted \<or> lockExpires < expires
        then Inl (PrivateIntentError
          ''Quote v3 expiry must be after quoting and no later than its lock expiry.'')
        else bind_r (wire_integer (v_spreadBps q) ''spreadBps'' 0) (\<lambda>spread.
        if 10000 \<le> spread then Inl (PrivateIntentError ''spreadBps must be an integer in [0, 10000).'')
        else bind_r (wire_felt (v_escrowAddress q) ''escrowAddress'' False) (\<lambda>escrow.
        bind_r (wire_felt (v_helper q) ''helper'' False) (\<lambda>helper.
        bind_r (wire_felt (v_lockId q) ''lockId'' False) (\<lambda>lock.
        bind_r (wire_felt (v_lockTicket q) ''lockTicket'' False) (\<lambda>ticket.
        bind_r (wire_felt (v_lockTransactionHash q) ''lockTransactionHash'' False) (\<lambda>lockTx.
        bind_r (wire_pool (v_pool q) ''pool'') (\<lambda>pool.
        bind_r (wire_text (v_pricingProvenance q) ''pricingProvenance'') (\<lambda>provenance.
        bind_r (wire_text (v_quoteKeyId q) ''quoteKeyId'') (\<lambda>key.
        bind_r (wire_digest (v_rfqDigest q) ''rfqDigest'') (\<lambda>digest.
        bind_r (wire_felt (v_rfqFelt q) ''rfqFelt'' False) (\<lambda>felt.
        bind_r (assertPriceSchedule (v_schedule q)) (\<lambda>_.
        bind_r (wire_text (v_solverId q) ''solverId'') (\<lambda>solver.
        Inr \<lparr>b_buyToken = buy, b_escrowAddress = escrow, b_helper = helper,
          b_lockExpiresAt = lockExpires, b_lockId = lock, b_lockTicket = ticket,
          b_lockTransactionHash = lockTx, b_nonce = v_nonce q, b_pool = pool,
          b_pricingProvenance = provenance, b_quoteExpiresAt = expires, b_quoteKeyId = key,
          b_quotedAt = quoted, b_rfqDigest = digest, b_rfqFelt = felt, b_schedule = v_schedule q,
          b_sellToken = sell, b_solverId = solver, b_spreadBps = spread\<rparr>)))))))))))))))))))"

definition point_object :: "price_point \<Rightarrow> jsval" where
  "point_object p = JObj [(''a'', JStr (dec_int (pt_a p))), (''b'', JStr (dec_int (pt_b p)))]"

definition v3_object :: "quote_v3_body \<Rightarrow> fields" where
  "v3_object b =
     [(''buyToken'', JStr (b_buyToken b)), (''domain'', JStr QUOTE_V3_DOMAIN),
      (''escrowAddress'', JStr (b_escrowAddress b)), (''helper'', JStr (b_helper b)),
      (''lockExpiresAt'', JNum (jint (b_lockExpiresAt b))), (''lockId'', JStr (b_lockId b)),
      (''lockTicket'', JStr (b_lockTicket b)), (''lockTransactionHash'', JStr (b_lockTransactionHash b)),
      (''nonce'', b_nonce b), (''pool'', JStr (b_pool b)),
      (''pricingProvenance'', JStr (b_pricingProvenance b)),
      (''quoteExpiresAt'', JNum (jint (b_quoteExpiresAt b))), (''quoteKeyId'', JStr (b_quoteKeyId b)),
      (''quotedAt'', JNum (jint (b_quotedAt b))), (''rfqDigest'', JStr (b_rfqDigest b)),
      (''rfqFelt'', JStr (b_rfqFelt b)), (''schedule'', JArr (map point_object (b_schedule b))),
      (''sellToken'', JStr (b_sellToken b)), (''solverId'', JStr (b_solverId b)),
      (''spreadBps'', JNum (jint (b_spreadBps b))), (''version'', JNum (jint 3))]"

definition canonicalSolverQuoteV3 :: "quote_v3 \<Rightarrow> string result" where
  "canonicalSolverQuoteV3 q =
     bind_r (v3_canonicalBody q) (\<lambda>b. Inr (json_text (js_json (JObj (v3_object b)))))"

definition digestSolverQuoteV3 :: "(string \<Rightarrow> string) \<Rightarrow> quote_v3 \<Rightarrow> string result" where
  "digestSolverQuoteV3 sha256Hex q = bind_r (canonicalSolverQuoteV3 q) (\<lambda>t. Inr (sha256Hex t))"

text \<open>A signature that is not a string is never canonical: its length or its text is wrong.\<close>

definition signature_ok :: "jsval \<Rightarrow> bool" where
  "signature_ok v = (case v of JStr s \<Rightarrow> isCanonicalQuoteSignature s | _ \<Rightarrow> False)"

definition bad_v3_signature :: exn where
  "bad_v3_signature = PrivateIntentError ''Quote v3 signature must use canonical raw low-S P-256 encoding.''"

definition encodeSolverQuoteV3 :: "quote_v3 \<Rightarrow> jsval result" where
  "encodeSolverQuoteV3 q =
     bind_r (v3_canonicalBody q) (\<lambda>b.
     if \<not> signature_ok (v_signature q) then Inl bad_v3_signature
     else Inr (JObj (v3_object b @ [(''signature'', v_signature q)])))"

definition decode_point :: "nat \<Rightarrow> jsval \<Rightarrow> price_point result" where
  "decode_point i v =
     bind_r (closed_object
        (PrivateIntentError (''Quote v3 schedule point '' @ dec i @ '' must be an object.''))
        (\<lambda>k. PrivateIntentError (''Quote v3 schedule point '' @ dec i @ ''.'' @ k @ '' is required.''))
        (\<lambda>k. PrivateIntentError (''Quote v3 schedule point field '' @ k @ '' is unsupported.''))
        [''a'', ''b''] v) (\<lambda>obj.
     case (wire_decimal (get_field obj ''a''), wire_decimal (get_field obj ''b'')) of
       (Some a, Some b) \<Rightarrow> Inr \<lparr>pt_a = int a, pt_b = int b\<rparr>
     | _ \<Rightarrow> Inl (PrivateIntentError ''Quote v3 wire schedule values must be canonical decimal strings.''))"

fun decode_points :: "nat \<Rightarrow> jsval list \<Rightarrow> price_schedule result" where
  "decode_points i [] = Inr []"
| "decode_points i (v # vs) =
     bind_r (decode_point i v) (\<lambda>p. bind_r (decode_points (Suc i) vs) (\<lambda>ps. Inr (p # ps)))"

definition decodeSchedule :: "jsval \<Rightarrow> price_schedule result" where
  "decodeSchedule v =
     (case v of
        JArr vs \<Rightarrow> bind_r (decode_points 0 vs) (\<lambda>s. bind_r (assertPriceSchedule s) (\<lambda>_. Inr s))
      | _ \<Rightarrow> Inl (PrivateIntentError ''Quote v3 wire schedule must be an array.''))"

definition read_quote_v3 :: "fields \<Rightarrow> price_schedule \<Rightarrow> quote_v3" where
  "read_quote_v3 obj s =
     \<lparr>v_domain = get_field obj ''domain'', v_version = get_field obj ''version'',
      v_solverId = get_field obj ''solverId'', v_quoteKeyId = get_field obj ''quoteKeyId'',
      v_nonce = get_field obj ''nonce'', v_pool = get_field obj ''pool'', v_helper = get_field obj ''helper'',
      v_escrowAddress = get_field obj ''escrowAddress'', v_rfqDigest = get_field obj ''rfqDigest'',
      v_rfqFelt = get_field obj ''rfqFelt'', v_sellToken = get_field obj ''sellToken'',
      v_buyToken = get_field obj ''buyToken'', v_schedule = s, v_lockId = get_field obj ''lockId'',
      v_lockTicket = get_field obj ''lockTicket'',
      v_lockTransactionHash = get_field obj ''lockTransactionHash'',
      v_lockExpiresAt = get_field obj ''lockExpiresAt'', v_spreadBps = get_field obj ''spreadBps'',
      v_pricingProvenance = get_field obj ''pricingProvenance'', v_quotedAt = get_field obj ''quotedAt'',
      v_quoteExpiresAt = get_field obj ''quoteExpiresAt'', v_signature = get_field obj ''signature''\<rparr>"

definition decodeSolverQuoteV3 :: "jsval \<Rightarrow> quote_v3 result" where
  "decodeSolverQuoteV3 v =
     bind_r (closed_object (PrivateIntentError ''Quote v3 wire payload must be an object.'')
        (\<lambda>k. PrivateIntentError (''Quote v3 '' @ k @ '' is required.''))
        (\<lambda>k. PrivateIntentError (''Quote v3 field '' @ k @ '' is unsupported.''))
        QUOTE_V3_WIRE_FIELDS v) (\<lambda>obj.
     bind_r (decodeSchedule (get_field obj ''schedule'')) (\<lambda>s.
     let q = read_quote_v3 obj s in
     case v_signature q of
       JStr sig \<Rightarrow>
         if \<not> isCanonicalQuoteSignature sig then Inl bad_v3_signature
         else bind_r (v3_canonicalBody q) (\<lambda>_. Inr q)
     | _ \<Rightarrow> Inl (PrivateIntentError ''Quote v3 signature is required.'')))"

section \<open>Verification\<close>

record lock_on_chain =
  lk_rfqId :: string
  lk_takerCommitment :: string
  lk_tokenA :: string
  lk_tokenB :: string
  lk_expiry :: jsnum
  lk_schedule :: price_schedule
  lk_remainingB :: int
  lk_ticket :: string
  lk_createdTransactionHash :: "string option"
  lk_status :: string

record jwk =
  jwk_kty :: "string option"
  jwk_crv :: "string option"
  jwk_x :: "string option"
  jwk_y :: "string option"

definition sameJwk :: "jwk \<Rightarrow> jwk \<Rightarrow> bool" where
  "sameJwk l r = (jwk_kty l = jwk_kty r \<and> jwk_crv l = jwk_crv r \<and> jwk_x l = jwk_x r \<and> jwk_y l = jwk_y r)"

definition schedulesEqual :: "price_schedule \<Rightarrow> price_schedule \<Rightarrow> bool" where
  "schedulesEqual l r =
     (is_ok (assertPriceSchedule l) \<and> is_ok (assertPriceSchedule r)
      \<and> json_text (js_json (JArr (map point_object l))) = json_text (js_json (JArr (map point_object r))))"

text \<open>
  The checks against the request and against the lock, in the order of the two chains of \<open>||\<close>. The
  fields of the quote and of the request that the code validates again here have been validated by
  \<open>canonicalBody\<close>, so they are read from the two bodies; those of the lock are validated here.
\<close>

definition rfq_mismatch :: "string \<Rightarrow> quote_v3_body \<Rightarrow> rfq_v2_body \<Rightarrow> bool" where
  "rfq_mismatch expectedRfqDigest b r =
     (b_pool b \<noteq> rb_chainId r \<or> b_helper b \<noteq> rb_settlementHelper r
      \<or> b_escrowAddress b \<noteq> rb_settlementHelper r \<or> b_rfqDigest b \<noteq> expectedRfqDigest
      \<or> b_rfqFelt b \<noteq> rb_rfqFelt r \<or> b_sellToken b \<noteq> rb_sellToken r \<or> b_buyToken b \<noteq> rb_buyToken r
      \<or> b_lockExpiresAt b \<noteq> rb_lockExpiresAt r
      \<or> pt_a (hd (b_schedule b)) < rb_bucketMin r \<or> rb_bucketMax r < pt_a (last (b_schedule b)))"

definition outside_window :: "int \<Rightarrow> quote_v3_body \<Rightarrow> rfq_v2_body \<Rightarrow> bool" where
  "outside_window now b r =
     (now + QUOTE_CLOCK_SKEW_SECONDS < b_quotedAt b
      \<or> b_quotedAt b < rb_createdAt r - QUOTE_CLOCK_SKEW_SECONDS
      \<or> rb_responseDeadline r + QUOTE_CLOCK_SKEW_SECONDS < b_quotedAt b
      \<or> b_quoteExpiresAt b \<le> now \<or> rb_expiresAt r \<le> now \<or> rb_expiresAt r < b_quoteExpiresAt b)"

definition felt_differs :: "string \<Rightarrow> string \<Rightarrow> bool \<Rightarrow> string \<Rightarrow> bool result" where
  "felt_differs v label allowZero expected =
     bind_r (wire_felt (JStr v) label allowZero) (\<lambda>f. Inr (f \<noteq> expected))"

definition lock_mismatch ::
  "lock_on_chain \<Rightarrow> bool \<Rightarrow> quote_v3_body \<Rightarrow> rfq_v2_body \<Rightarrow> bool result" where
  "lock_mismatch lock allowUnproven b r =
     bind_r (case lk_createdTransactionHash lock of
         None \<Rightarrow> Inr allowUnproven
       | Some h \<Rightarrow> bind_r (wire_felt (JStr h) ''lock.createdTransactionHash'' False)
           (\<lambda>f. Inr (f = b_lockTransactionHash b))) (\<lambda>lockTransactionMatches.
     any_r [Inr (lk_status lock \<noteq> ''open''),
       felt_differs (lk_rfqId lock) ''lock.rfqId'' False (rb_rfqFelt r),
       felt_differs (lk_takerCommitment lock) ''lock.takerCommitment'' True (rb_takerCommitment r),
       felt_differs (lk_tokenA lock) ''lock.tokenA'' False (rb_sellToken r),
       felt_differs (lk_tokenB lock) ''lock.tokenB'' False (rb_buyToken r),
       felt_differs (lk_ticket lock) ''lock.ticket'' False (b_lockTicket b),
       Inr (\<not> lockTransactionMatches),
       Inr (\<not> num_eq (lk_expiry lock) (jint (b_lockExpiresAt b))),
       Inr (\<not> schedulesEqual (lk_schedule lock) (b_schedule b)),
       Inr (lk_remainingB lock < pt_b (last (b_schedule b))),
       Inr (rfq_max_u128 < lk_remainingB lock)])"

text \<open>The identifiers that are looked up are the raw strings of the quote.\<close>

definition raw_text :: "jsval \<Rightarrow> string" where
  "raw_text v = (case v of JStr s \<Rightarrow> s | _ \<Rightarrow> [])"

definition verifySolverQuoteV3 ::
  "(string \<Rightarrow> string) \<Rightarrow> (string \<Rightarrow> string \<Rightarrow> int \<Rightarrow> jwk result) \<Rightarrow> (jwk \<Rightarrow> 'k result)
   \<Rightarrow> (string \<Rightarrow> jsval \<Rightarrow> 'k \<Rightarrow> bool) \<Rightarrow> rfq_v2 \<Rightarrow> lock_on_chain \<Rightarrow> bool
   \<Rightarrow> quote_v3 \<Rightarrow> jsnum \<Rightarrow> unit result" where
  "verifySolverQuoteV3 sha256Hex resolveKey importPublicKey verify rfq lock allowUnproven q now =
     bind_r (canonicalSolverQuoteV3 q) (\<lambda>canonical.
     bind_r (v3_canonicalBody q) (\<lambda>b.
     if \<not> signature_ok (v_signature q) then Inl bad_v3_signature
     else bind_r (wire_integer (JNum now) ''now'' 1) (\<lambda>t.
     bind_r (rfq_v2_canonicalBody rfq) (\<lambda>r.
     bind_r (digestPrivateRfqV2 sha256Hex rfq) (\<lambda>expectedRfqDigest.
     if rfq_mismatch expectedRfqDigest b r
     then Inl (PrivateIntentError ''Quote v3 does not match the authenticated RFQ context.'')
     else if outside_window t b r
     then Inl (PrivateIntentError ''Quote v3 is outside its active RFQ or lock window.'')
     else bind_r (lock_mismatch lock allowUnproven b r) (\<lambda>mismatch.
     if mismatch
     then Inl (PrivateIntentError ''Quote v3 does not match its open on-chain lock.'')
     else bind_r (resolveKey (raw_text (v_solverId q)) (raw_text (v_quoteKeyId q)) (b_quotedAt b)) (\<lambda>keyAtQuote.
     bind_r (resolveKey (raw_text (v_solverId q)) (raw_text (v_quoteKeyId q)) t) (\<lambda>keyNow.
     if \<not> sameJwk keyAtQuote keyNow
     then Inl (PrivateIntentError ''Quote v3 key changed before verification.'')
     else bind_r (importPublicKey keyNow) (\<lambda>publicKey.
     if \<not> verify canonical (v_signature q) publicKey
     then Inl (PrivateIntentError ''Quote v3 signature verification failed.'')
     else Inr ())))))))))"

end
