(* ===== verification/Intent_Properties.thy ===== *)
theory Intent_Properties
  imports Private_Intent Protocol_Checks
begin

text \<open>
  What holds of private intents and solver quotes: when each operation accepts, what one signed
  quote binds, that the selection does not depend on the order of arrival, that an intent is
  filled or refunded but never both, and that a restock plan conserves the exposure.
\<close>

section \<open>When the validators accept\<close>

definition u256_amount :: "int \<Rightarrow> bool" where
  "u256_amount n = (0 < n \<and> n \<le> intent_max_u256)"

definition unix_time :: "jsnum \<Rightarrow> int \<Rightarrow> bool" where
  "unix_time v n = (v = jint n \<and> 0 < n \<and> n \<le> max_safe)"

lemma requireToken_Inr: "requireToken s l = Inr t \<longleftrightarrow> felt_text s \<and> t = felt_norm s"
  by (auto simp: requireToken_def felt_text_def felt_norm_def split: sum.splits)

lemma requireAmount_Inr: "requireAmount v l = Inr w \<longleftrightarrow> w = v \<and> u256_amount v"
  by (auto simp: requireAmount_def u256_amount_def)

lemma requireUnixSeconds_Inr: "requireUnixSeconds v l = Inr n \<longleftrightarrow> unix_time v n"
  by (auto simp: requireUnixSeconds_def unix_time_def as_safe_int_Some split: option.splits)

lemmas intent_require = requireToken_Inr requireAmount_Inr requireUnixSeconds_Inr

text \<open>A well-formed intent that was created at \<open>c\<close> and expires at \<open>e\<close>.\<close>

definition intent_ok :: "swap_intent \<Rightarrow> int \<Rightarrow> int \<Rightarrow> bool" where
  "intent_ok i c e =
     (i_version i = jint 1 \<and> MIN_INTENT_ID_LENGTH \<le> length (i_id i) \<and> list_all is_id_char (i_id i)
      \<and> i_pool i \<in> {''starknet:SN_MAIN'', ''starknet:SN_SEPOLIA'', ''starknet:APP20_LOCALNET''}
      \<and> felt_text (i_sellToken i) \<and> felt_text (i_buyToken i)
      \<and> felt_norm (i_sellToken i) \<noteq> felt_norm (i_buyToken i)
      \<and> u256_amount (i_sellAmount i) \<and> u256_amount (i_minBuyAmount i)
      \<and> unix_time (i_createdAt i) c \<and> unix_time (i_expiresAt i) e \<and> c < e)"

lemma assertPrivateSwapIntent_iff: "assertPrivateSwapIntent i = Inr () \<longleftrightarrow> (\<exists>c e. intent_ok i c e)"
  by (auto simp: assertPrivateSwapIntent_def intent_ok_def intent_require num_eq_Fin unix_time_def
      not_le not_less)

lemma intent_ok_unique: "intent_ok i c e \<Longrightarrow> intent_ok i c' e' \<Longrightarrow> c' = c \<and> e' = e"
  by (auto simp: intent_ok_def unix_time_def)

lemma canonicalIntent_ok:
  "intent_ok i c e \<Longrightarrow>
   canonicalIntent i = Inr (json_text (intent_json i (felt_norm (i_sellToken i)) (felt_norm (i_buyToken i))))"
  by (simp add: canonicalIntent_def intent_ok_def intent_require)

lemma digest_ok:
  "intent_ok i c e \<Longrightarrow> digestPrivateSwapIntent sha i =
     Inr (sha (json_text (intent_json i (felt_norm (i_sellToken i)) (felt_norm (i_buyToken i)))))"
  using assertPrivateSwapIntent_iff[of i] canonicalIntent_ok[of i c e]
  by (auto simp: digestPrivateSwapIntent_def)

lemma num_json_jint [simp]: "num_json (jint n) = Jint n"
  by (simp add: num_json_def)

lemma intent_json_inject:
  "intent_ok i c e \<Longrightarrow> intent_ok j c' e' \<Longrightarrow> intent_json i s b = intent_json j s' b' \<Longrightarrow>
   i\<lparr>i_sellToken := s, i_buyToken := b\<rparr> = j\<lparr>i_sellToken := s', i_buyToken := b'\<rparr>"
  by (auto simp: intent_json_def intent_ok_def unix_time_def)

text \<open>A well-shaped quote given at \<open>t\<close> that expires at \<open>e\<close> under a reservation that expires at \<open>r\<close>.\<close>

definition quote_ok :: "'a unsigned_quote_scheme \<Rightarrow> int \<Rightarrow> int \<Rightarrow> int \<Rightarrow> bool" where
  "quote_ok q t e r =
     (q_domain q = QUOTE_DOMAIN \<and> trim (q_solverId q) \<noteq> [] \<and> trim (q_solverKey q) \<noteq> []
      \<and> felt_text (q_helper q) \<and> felt_text (q_sellToken q) \<and> felt_text (q_buyToken q)
      \<and> u256_amount (q_sellAmount q) \<and> u256_amount (q_buyAmount q)
      \<and> unix_time (q_quotedAt q) t \<and> unix_time (q_quoteExpiresAt q) e
      \<and> unix_time (q_reservationExpiresAt q) r
      \<and> nonce_pattern (q_nonce q) \<and> nonce_pattern (q_reservationId q) \<and> t < e \<and> e \<le> r)"

lemma assertQuoteShape_iff: "assertQuoteShape q = Inr () \<longleftrightarrow> (\<exists>t e r. quote_ok q t e r)"
  by (fastforce simp: assertQuoteShape_def quote_ok_def intent_require unix_time_def not_le not_less)

lemma canonicalSolverQuote_ok:
  "quote_ok q t e r \<Longrightarrow> canonicalSolverQuote q = Inr (json_text (quote_json q (felt_norm (q_buyToken q))
     (felt_norm (q_helper q)) (felt_norm (q_sellToken q))))"
  by (simp add: canonicalSolverQuote_def quote_ok_def intent_require)

lemma nonce_pattern_lower: "nonce_pattern s \<Longrightarrow> to_lower s = s"
  by (simp add: nonce_pattern_def hex_digits_lowercase)

text \<open>When a quote is good for an intent at a time: the specification of \<open>verifySolverQuote\<close>.\<close>

definition quote_terms ::
  "(string \<Rightarrow> string) \<Rightarrow> string \<Rightarrow> (string \<Rightarrow> string \<Rightarrow> string \<Rightarrow> bool)
   \<Rightarrow> swap_intent \<Rightarrow> solver_quote \<Rightarrow> int \<Rightarrow> int \<Rightarrow> int \<Rightarrow> int \<Rightarrow> bool" where
  "quote_terms sha helper verify i q now ie t e =
     (felt_text helper \<and> felt_norm (q_helper q) = felt_norm helper \<and> q_pool q = i_pool i
      \<and> felt_norm (q_sellToken q) = felt_norm (i_sellToken i)
      \<and> felt_norm (q_buyToken q) = felt_norm (i_buyToken i)
      \<and> q_sellAmount q = i_sellAmount i \<and> i_minBuyAmount i \<le> q_buyAmount q
      \<and> t \<le> now + 30 \<and> now < e \<and> now < ie
      \<and> Inr (q_intentDigest q) = digestPrivateSwapIntent sha i
      \<and> isCanonicalQuoteSignature (q_signature q)
      \<and> (\<exists>text. canonicalSolverQuote q = Inr text \<and> verify text (q_signature q) (q_solverKey q)))"

definition quote_for ::
  "(string \<Rightarrow> string) \<Rightarrow> string \<Rightarrow> (string \<Rightarrow> string \<Rightarrow> string \<Rightarrow> bool)
   \<Rightarrow> swap_intent \<Rightarrow> solver_quote \<Rightarrow> int \<Rightarrow> bool" where
  "quote_for sha helper verify i q now =
     (\<exists>c ie t e r. intent_ok i c ie \<and> quote_ok q t e r \<and> quote_terms sha helper verify i q now ie t e)"

lemma verify_intent_quote:
  assumes "intent_ok i c ie" and "quote_ok q t e r"
  shows "verifySolverQuote sha helper verify i q (jint now) = Inr () \<longleftrightarrow>
     quote_terms sha helper verify i q now ie t e"
proof -
  have a: "assertPrivateSwapIntent i = Inr ()" "assertQuoteShape q = Inr ()"
    using assms assertPrivateSwapIntent_iff assertQuoteShape_iff by blast+
  have f: "felt_text (q_helper q)" "felt_text (q_sellToken q)" "felt_text (q_buyToken q)"
      "felt_text (i_sellToken i)" "felt_text (i_buyToken i)"
    using assms by (auto simp: intent_ok_def quote_ok_def)
  have n: "q_quotedAt q = jint t" "q_quoteExpiresAt q = jint e" "q_reservationExpiresAt q = jint r"
      "i_expiresAt i = jint ie" "e \<le> r"
    using assms by (auto simp: intent_ok_def quote_ok_def unix_time_def)
  show ?thesis
    unfolding verifySolverQuote_def a bind_r_Inr felt_equals_norm[OF f(1)] felt_equals_norm[OF f(2)]
      felt_equals_norm[OF f(3)] n num_add_jint num_lt_jint num_le_jint digest_ok[OF assms(1)]
      canonicalSolverQuote_ok[OF assms(2)] QUOTE_CLOCK_SKEW_SECONDS_def quote_terms_def
    using f n(5) by auto
qed

lemma verify_iff:
  "verifySolverQuote sha helper verify i q (jint now) = Inr () \<longleftrightarrow> quote_for sha helper verify i q now"
proof (cases "(\<exists>c e. intent_ok i c e) \<and> (\<exists>t e r. quote_ok q t e r)")
  case True
  then obtain c ie t e r where ok: "intent_ok i c ie" "quote_ok q t e r"
    by blast
  have u: "c' = c \<and> ie' = ie" "t' = t \<and> e' = e \<and> r' = r"
    if "intent_ok i c' ie'" "quote_ok q t' e' r'" for c' ie' t' e' r'
    using ok that by (auto simp: intent_ok_def quote_ok_def unix_time_def)
  show ?thesis
    unfolding verify_intent_quote[OF ok] quote_for_def using ok u by blast
next
  case False
  then show ?thesis
    by (auto simp: verifySolverQuote_def quote_for_def assertPrivateSwapIntent_iff assertQuoteShape_iff)
qed

section \<open>Selection\<close>

lemma verify_all_iff:
  "verify_all check ids qs = Inr () \<longleftrightarrow>
     distinct (map q_solverId qs) \<and> q_solverId ` set qs \<inter> ids = {} \<and> (\<forall>q\<in>set qs. check q = Inr ())"
  by (induction check ids qs rule: verify_all.induct) auto

text \<open>
  The order of the selection on quotes whose expiry is an integer, put together from the orders of
  its keys; so it inherits the laws of a comparator.
\<close>

definition num_key :: "jsnum \<Rightarrow> int" where
  "num_key v = (case as_integer v of Some n \<Rightarrow> n | None \<Rightarrow> 0)"

definition quote_key_order :: "string comparator \<Rightarrow> solver_quote comparator" where
  "quote_key_order loc = cmp_then (cmp_on q_buyAmount cmp_desc)
     (cmp_then (cmp_on (\<lambda>q. num_key (q_quoteExpiresAt q)) cmp_desc)
       (cmp_then (cmp_on q_solverId loc) (cmp_on q_reservationId loc)))"

lemma quote_key_order_laws: "comparator_laws loc \<Longrightarrow> comparator_laws (quote_key_order loc)"
  unfolding quote_key_order_def by (intro comparator_then comparator_on comparator_desc)

lemma quote_key_order_eq:
  assumes "q_quoteExpiresAt l = jint a" and "q_quoteExpiresAt r = jint b"
  shows "quote_order loc l r = quote_key_order loc l r"
  using assms by (auto simp: quote_order_def quote_key_order_def cmp_then_def cmp_on_def cmp_desc_def
      cmp_asc_def num_key_def Let_def)

lemma quote_key_order_zero: "quote_key_order loc l r = 0 \<Longrightarrow> loc (q_solverId l) (q_solverId r) = 0"
  by (auto simp: quote_key_order_def cmp_then_def cmp_on_def split: if_splits)

lemma quote_key_order_amount: "quote_key_order loc l r \<le> 0 \<Longrightarrow> q_buyAmount r \<le> q_buyAmount l"
  by (auto simp: quote_key_order_def cmp_then_def cmp_on_def cmp_desc_def cmp_asc_def split: if_splits)

lemma quote_for_expiry: "quote_for sha helper verify i q now \<Longrightarrow> \<exists>n. q_quoteExpiresAt q = jint n"
  by (auto simp: quote_for_def quote_ok_def unix_time_def)

lemma select_iff:
  "selectBestSolverQuote loc sha helper verify i qs (jint now) = Inr q \<longleftrightarrow>
     qs \<noteq> [] \<and> distinct (map q_solverId qs) \<and> (\<forall>r\<in>set qs. quote_for sha helper verify i r now)
     \<and> q = hd (sort_by (quote_key_order loc) qs)"
proof -
  have "sort_by (quote_order loc) qs = sort_by (quote_key_order loc) qs"
    if "\<forall>r\<in>set qs. quote_for sha helper verify i r now"
    using that by (intro sort_by_cong) (metis quote_for_expiry quote_key_order_eq)
  then show ?thesis
    by (auto simp: selectBestSolverQuote_def verify_all_iff verify_iff)
qed

lemma select_hd_least:
  assumes "comparator_laws loc" and "r \<in> set qs"
  shows "quote_key_order loc (hd (sort_by (quote_key_order loc) qs)) r \<le> 0"
proof -
  have "sort_by (quote_key_order loc) qs \<noteq> []"
    using assms(2) by auto
  then obtain x rest where "sort_by (quote_key_order loc) qs = x # rest"
    by (meson neq_Nil_conv)
  then show ?thesis
    using comparator_laws.sort_by_head_least[OF quote_key_order_laws[OF assms(1)] _ assms(2)] by simp
qed

lemma select_unique:
  assumes loc: "comparator_laws loc"
    and separates: "\<forall>a\<in>q_solverId ` set qs. \<forall>b\<in>q_solverId ` set qs. loc a b = 0 \<longrightarrow> a = b"
    and one: "distinct (map q_solverId qs)" and perm: "mset qs' = mset qs" and ne: "qs \<noteq> []"
  shows "hd (sort_by (quote_key_order loc) qs') = hd (sort_by (quote_key_order loc) qs)"
proof -
  let ?c = "quote_key_order loc"
  let ?x = "hd (sort_by ?c qs)" and ?y = "hd (sort_by ?c qs')"
  have sets: "set qs' = set qs" and ne': "qs' \<noteq> []"
    using perm ne by (auto dest: mset_eq_setD)
  have mem: "?x \<in> set qs" "?y \<in> set qs"
    using hd_sort_by_mem[of qs ?c] hd_sort_by_mem[of qs' ?c] ne ne' sets by auto
  have "?c ?x ?y \<le> 0" "?c ?y ?x \<le> 0"
    using select_hd_least[OF loc] mem sets by auto
  then have "?c ?x ?y = 0"
    using comparator_laws.cmp_flip[OF quote_key_order_laws[OF loc], of ?x ?y] by linarith
  then have "q_solverId ?x = q_solverId ?y"
    using quote_key_order_zero separates mem by blast
  then show ?thesis
    using one mem by (auto simp: distinct_map inj_on_def)
qed

section \<open>The signature text\<close>

lemma pad_hex_byte: "n < 256 \<Longrightarrow> pad_start 2 (hex n) = [digit_char (n div 16), digit_char (n mod 16)]"
  by (cases "n < 16")
    (simp_all add: pad_start_def hex_def to_base.simps[of 16 n] to_base.simps[of 16 "n div 16"]
      digit_char_zero[symmetric])

lemma unat_byte: "unat (b :: 8 word) < 256"
  using unsigned_less[of b, where ?'a = nat] by simp

lemma unat_nibbles: "unat (b :: 8 word) div 16 < 16"
  using unat_byte[of b] by (simp add: less_mult_imp_div_less)

lemma unat_byte_of: "n < 256 \<Longrightarrow> unat (word_of_nat n :: 8 word) = n"
  by (simp add: unsigned_of_nat take_bit_nat_eq_self)

lemma byte_text: "pad_start 2 (hex (unat (b :: 8 word))) = [digit_char (unat b div 16), digit_char (unat b mod 16)]"
  using pad_hex_byte[of "unat b"] unat_byte[of b] by simp

lemma bytesToHex_simps [simp]:
  "bytesToHex [] = []"
  "bytesToHex (b # bs) = digit_char (unat b div 16) # digit_char (unat b mod 16) # bytesToHex bs"
  "bytesToHex (as @ bs) = bytesToHex as @ bytesToHex bs"
  by (simp_all add: bytesToHex_def byte_text)

lemma bytesToHex_length [simp]: "length (bytesToHex bs) = 2 * length bs"
  by (induction bs) simp_all

lemma bytesToHex_lower: "list_all is_hex_lower (bytesToHex bs)"
proof (induction bs)
  case (Cons b bs)
  then show ?case by (simp add: digit_char_hex unat_nibbles)
qed simp

lemma two_digits: "of_base 16 [a, b] = digit_val a * 16 + digit_val b"
  by (simp add: of_base_def)

lemma hex_pairs_bytes [simp]: "hex_pairs (bytesToHex bs) = bs"
proof (induction bs)
  case (Cons b bs)
  then show ?case
    by (simp add: two_digits digit_val_char unat_nibbles)
qed simp

lemma bytes_hex_pairs: "even (length s) \<Longrightarrow> list_all is_hex_lower s \<Longrightarrow> bytesToHex (hex_pairs s) = s"
proof (induction s rule: hex_pairs.induct)
  case (1 a b s)
  let ?v = "digit_val a" and ?w = "digit_val b"
  have v: "?v < 16" "?w < 16"
    using 1 by (auto intro: digit_val_hex)
  then have "unat (word_of_nat (?v * 16 + ?w) :: 8 word) = ?v * 16 + ?w"
    by (intro unat_byte_of) linarith
  with 1 v show ?case
    by (simp add: two_digits digit_char_val del: of_nat_add of_nat_mult)
qed auto

lemma hexToBytes_bytes: "bs \<noteq> [] \<Longrightarrow> hexToBytes (''0x'' @ bytesToHex bs) = Some bs"
  by (cases bs) (simp_all add: hexToBytes_def signature_pattern_def bytesToHex_lower digit_char_hex
      unat_nibbles two_digits digit_val_char)

lemma hex_half_length: "n < P256_ORDER \<Longrightarrow> length (pad_start 64 (hex n)) = 64"
proof -
  assume "n < P256_ORDER"
  then have "n < 16 ^ 64"
    by (simp add: P256_ORDER_def)
  then have "length (hex n) \<le> 64"
    unfolding hex_def by (intro to_base_length) auto
  then show ?thesis
    by (simp add: pad_start_def)
qed

lemma hex_half_lower: "list_all is_hex_lower (pad_start 64 (hex n))"
  using hex_digits_lower[of n]
  by (auto simp: pad_start_def list_all_iff is_hex_lower_def is_digit_def code_zero)

lemma hex_half_bytes:
  assumes "n < P256_ORDER"
  shows "length (hex_pairs (pad_start 64 (hex n))) = 32"
    and "bytesToHex (hex_pairs (pad_start 64 (hex n))) = pad_start 64 (hex n)"
    and "big_of_bytes (hex_pairs (pad_start 64 (hex n))) = n"
proof -
  show b: "bytesToHex (hex_pairs (pad_start 64 (hex n))) = pad_start 64 (hex n)"
    using hex_half_length[OF assms] hex_half_lower by (intro bytes_hex_pairs) simp_all
  then show "length (hex_pairs (pad_start 64 (hex n))) = 32"
    using hex_half_length[OF assms] bytesToHex_length[of "hex_pairs (pad_start 64 (hex n))"] by simp
  show "big_of_bytes (hex_pairs (pad_start 64 (hex n))) = n"
    by (simp add: big_of_bytes_def b)
qed

section \<open>What a quote is made of\<close>

lemma canonical_signed:
  "canonicalSolverQuote (unsigned_quote.extend u (solver_quote.fields sg)) = canonicalSolverQuote u"
  "quote_ok (unsigned_quote.extend u (solver_quote.fields sg)) t e r = quote_ok u t e r"
  by (simp_all add: canonicalSolverQuote_def quote_json_def quote_ok_def unsigned_quote.defs solver_quote.defs)

lemma quoted_form:
  assumes "quotePrivateSwapIntent sha price sign (jint now) fresh i opts = Inr (QuotedOutcome q)"
    and "o_now opts = None"
  obtains u raw canon c e where "intent_ok i c e" and "now < e"
    and "assertQuoteShape u = Inr ()" and "canonicalSolverQuote u = Inr canon" and "sign canon u = Inr raw"
    and "q = unsigned_quote.extend u (solver_quote.fields (to_lower (trim raw)))"
    and "isCanonicalQuoteSignature (to_lower (trim raw))"
    and "felt_text (o_helper opts)" and "q_helper u = felt_norm (o_helper opts)"
    and "q_pool u = i_pool i" and "q_sellToken u = felt_norm (i_sellToken i)"
    and "q_buyToken u = felt_norm (i_buyToken i)" and "q_sellAmount u = i_sellAmount i"
    and "i_minBuyAmount i \<le> q_buyAmount u" and "Inr (q_intentDigest u) = digestPrivateSwapIntent sha i"
    and "q_quotedAt u = jint now"
proof -
  obtain c e where ok: "intent_ok i c e"
    using assms(1) assertPrivateSwapIntent_iff[of i] by (auto simp: quotePrivateSwapIntent_def)
  have e: "i_expiresAt i = jint e"
    using ok by (simp add: intent_ok_def unix_time_def)
  show ?thesis
    using assms that[OF ok] e
    by (auto simp: quotePrivateSwapIntent_def sign_quote_def Let_def requireToken_Inr
        split: option.splits if_splits)
qed

section \<open>An escrow after acceptance\<close>

text \<open>The requests an accepted intent can see; the clock of a request is an integer.\<close>

datatype escrow_request = Deliver int int | Reclaim int

fun escrow_step :: "swap_intent \<Rightarrow> escrow_request \<Rightarrow> intent_state \<Rightarrow> intent_state result" where
  "escrow_step i (Deliver amount t) st = fillLockedIntent i st amount (jint t)"
| "escrow_step i (Reclaim t) st = refundExpiredIntent i st (jint t)"

definition escrow_ok :: "swap_intent \<Rightarrow> int \<Rightarrow> solver_quote \<Rightarrow> jsnum \<Rightarrow> intent_state \<Rightarrow> bool" where
  "escrow_ok i e q since st =
     (i_expiresAt i = jint e
      \<and> (st = ILocked q since
         \<or> (\<exists>d t. st = IFilled q d (jint t) \<and> t < e \<and> i_minBuyAmount i \<le> d \<and> q_buyAmount q \<le> d)
         \<or> (\<exists>t. st = IRefunded q (jint t) \<and> e \<le> t)))"

definition escrow_le :: "intent_state \<Rightarrow> intent_state \<Rightarrow> bool" where
  "escrow_le st st' = (st = st' \<or> (\<exists>q t. st = ILocked q t))"

lemma escrow_step_Inr: "escrow_step i r st = Inr st' \<Longrightarrow> \<exists>q t. st = ILocked q t"
  by (cases r; cases st) (auto simp: fillLockedIntent_def refundExpiredIntent_def)

lemma fill_Inr:
  "i_expiresAt i = jint e \<Longrightarrow> fillLockedIntent i (ILocked q since) d (jint t) = Inr st \<longleftrightarrow>
     t < e \<and> i_minBuyAmount i \<le> d \<and> q_buyAmount q \<le> d \<and> st = IFilled q d (jint t)"
  by (simp only: fillLockedIntent_def intent_state.case num_le_jint) auto

lemma refund_Inr:
  "i_expiresAt i = jint e \<Longrightarrow> refundExpiredIntent i (ILocked q since) (jint t) = Inr st \<longleftrightarrow>
     e \<le> t \<and> st = IRefunded q (jint t)"
  by (simp only: refundExpiredIntent_def intent_state.case num_lt_jint) auto

interpretation escrow: guarded_system "escrow_step i" "escrow_ok i e q since" escrow_le for i e q since
proof
  fix s r s'
  assume ok: "escrow_ok i e q since s" and step: "escrow_step i r s = Inr s'"
  have e: "i_expiresAt i = jint e"
    using ok by (simp add: escrow_ok_def)
  have s: "s = ILocked q since"
    using ok escrow_step_Inr[OF step] by (auto simp: escrow_ok_def)
  show "escrow_ok i e q since s'"
    using step unfolding s by (cases r) (auto simp: fill_Inr[OF e] refund_Inr[OF e] escrow_ok_def e)
next
  show "escrow_le s s'" if "escrow_step i r s = Inr s'" for r s s'
    using escrow_step_Inr[OF that] by (simp add: escrow_le_def)
qed (auto simp: escrow_le_def)

lemma run_cmds_append: "run_cmds step (cs @ ds) s = run_cmds step ds (run_cmds step cs s)"
  by (induction cs arbitrary: s) auto

lemma acceptQuote_Inr:
  "acceptQuote sha helper verify i q now seen = Inr (st, seen') \<longleftrightarrow>
     verifySolverQuote sha helper verify i q now = Inr () \<and> q_nonce q \<notin> set seen
     \<and> st = ILocked q now \<and> seen' = q_nonce q # seen"
  by (auto simp: acceptQuote_def consume_nonce_def)

text \<open>Acceptances of several quotes, one replay store after the other.\<close>

fun accept_run ::
  "(string \<Rightarrow> string) \<Rightarrow> string \<Rightarrow> (string \<Rightarrow> string \<Rightarrow> string \<Rightarrow> bool)
   \<Rightarrow> (swap_intent \<times> solver_quote \<times> jsnum) list \<Rightarrow> string list \<Rightarrow> solver_quote list \<times> string list" where
  "accept_run sha helper verify [] seen = ([], seen)"
| "accept_run sha helper verify ((i, q, now) # rs) seen =
     (case acceptQuote sha helper verify i q now seen of
        Inl _ \<Rightarrow> accept_run sha helper verify rs seen
      | Inr (_, seen') \<Rightarrow>
          let (qs, final) = accept_run sha helper verify rs seen' in (q # qs, final))"

lemma accept_run_nonces:
  "accept_run sha helper verify rs seen = (qs, final) \<Longrightarrow>
     distinct (map q_nonce qs) \<and> q_nonce ` set qs \<inter> set seen = {}
     \<and> set final = set seen \<union> q_nonce ` set qs
     \<and> (\<forall>q\<in>set qs. \<exists>i now. (i, q, now) \<in> set rs \<and> verifySolverQuote sha helper verify i q now = Inr ())"
proof (induction rs arbitrary: seen qs final)
  case Nil
  then show ?case by simp
next
  case (Cons r rs)
  obtain i q now where r: "r = (i, q, now)"
    by (cases r)
  show ?case
  proof (cases "acceptQuote sha helper verify i q now seen")
    case (Inl x)
    then have "accept_run sha helper verify rs seen = (qs, final)"
      using Cons.prems r by simp
    from Cons.IH[OF this] show ?thesis
      unfolding r by (simp, blast)
  next
    case (Inr x)
    then obtain st seen' where x: "acceptQuote sha helper verify i q now seen = Inr (st, seen')"
      by (cases x) auto
    obtain qs' where qs: "accept_run sha helper verify rs seen' = (qs', final)" "qs = q # qs'"
      using Cons.prems r x by (auto split: prod.splits)
    have f: "verifySolverQuote sha helper verify i q now = Inr ()" "q_nonce q \<notin> set seen"
        "seen' = q_nonce q # seen"
      using x by (simp_all add: acceptQuote_Inr)
    have ih: "distinct (map q_nonce qs')" "q_nonce ` set qs' \<inter> set seen' = {}"
        "set final = set seen' \<union> q_nonce ` set qs'"
        "\<forall>q\<in>set qs'. \<exists>i now. (i, q, now) \<in> set rs \<and> verifySolverQuote sha helper verify i q now = Inr ()"
      using Cons.IH[OF qs(1)] by blast+
    have "\<forall>q\<in>set qs. \<exists>i now. (i, q, now) \<in> set (r # rs)
        \<and> verifySolverQuote sha helper verify i q now = Inr ()"
      using ih(4) f(1) unfolding qs(2) r by (metis list.set_intros set_ConsD)
    then show ?thesis
      using ih(1-3) f(2,3) unfolding qs(2) by auto
  qed
qed

section \<open>Exposure\<close>

definition amount_of :: "(string \<times> int) list \<Rightarrow> string \<Rightarrow> int" where
  "amount_of m t = (case map_of m t of None \<Rightarrow> 0 | Some x \<Rightarrow> x)"

definition exposure_of :: "fill_record list \<Rightarrow> string \<Rightarrow> int" where
  "exposure_of fs t =
     (\<Sum>f\<leftarrow>fs. (if felt_norm (fl_buyToken f) = t then fl_buyAmount f else 0)
             - (if felt_norm (fl_sellToken f) = t then fl_sellAmount f else 0))"

definition fill_tokens :: "fill_record list \<Rightarrow> string set" where
  "fill_tokens fs = (\<Union>f\<in>set fs. {felt_norm (fl_buyToken f), felt_norm (fl_sellToken f)})"

lemma bump_amount: "amount_of (bump t d m) u = amount_of m u + (if u = t then d else 0)"
  by (induction t d m rule: bump.induct) (auto simp: amount_of_def)

lemma expose_spec:
  "expose fs m = Inr m' \<Longrightarrow> distinct (map fst m) \<Longrightarrow>
     distinct (map fst m') \<and> fst ` set m' = fst ` set m \<union> fill_tokens fs
     \<and> (\<forall>t. amount_of m' t = amount_of m t + exposure_of fs t)"
proof (induction fs arbitrary: m)
  case Nil
  then show ?case by (simp add: fill_tokens_def exposure_of_def)
next
  case (Cons f fs)
  let ?m = "bump (felt_norm (fl_sellToken f)) (- fl_sellAmount f)
      (bump (felt_norm (fl_buyToken f)) (fl_buyAmount f) m)"
  have e: "expose fs ?m = Inr m'"
    using Cons.prems(1) by (auto simp: intent_require)
  from Cons.IH[OF e] Cons.prems(2) show ?case
    by (auto simp: bump_distinct bump_keys bump_amount fill_tokens_def exposure_of_def)
qed

lemma split_exposure_spec:
  assumes "0 < den" and "split_exposure den mb m = (os, ds)"
  shows "((t, a) \<in> set os \<longleftrightarrow> (\<exists>x. (t, x) \<in> set m \<and> 0 < x \<and> mb \<le> x
      \<and> a = ((x + den - 1) div den) * den))
    \<and> ((t, a) \<in> set ds \<longleftrightarrow> (t, a) \<in> set m \<and> 0 < a \<and> a < mb)"
  using assms(2)
proof (induction m arbitrary: os ds)
  case (Cons p m)
  obtain u x where p: "p = (u, x)"
    by (cases p)
  obtain os' ds' where r: "split_exposure den mb m = (os', ds')"
    by (cases "split_exposure den mb m")
  from Cons.IH[OF r] Cons.prems p r show ?case
    by (auto split: if_splits)
qed simp

lemma round_up_iff:
  assumes "0 < den"
  shows "a = ((x + den - 1) div den) * den \<longleftrightarrow> den dvd a \<and> x \<le> a \<and> a < x + (den :: int)"
proof
  assume "a = ((x + den - 1) div den) * den"
  moreover have "(x + den - 1) div den * den = x + den - 1 - (x + den - 1) mod den"
    by (simp add: minus_mod_eq_div_mult)
  ultimately show "den dvd a \<and> x \<le> a \<and> a < x + den"
    using pos_mod_bound[OF assms, of "x + den - 1"] pos_mod_sign[OF assms, of "x + den - 1"] by auto
next
  assume a: "den dvd a \<and> x \<le> a \<and> a < x + den"
  then obtain k where k: "a = den * k"
    by blast
  have "(x + den - 1) div den = k"
    using assms a unfolding k by (intro int_div_pos_eq[of _ _ _ "x + den - 1 - den * k"]) auto
  then show "a = ((x + den - 1) div den) * den"
    using k by (simp add: mult.commute)
qed

lemma map_of_perm: "distinct (map fst m) \<Longrightarrow> mset m' = mset m \<Longrightarrow> (t, x) \<in> set m' \<longleftrightarrow> map_of m t = Some x"
  by (metis map_of_eq_Some_iff mset_eq_setD)

lemma planRestock_iff:
  "planRestock loc fills den mb = Inr p \<longleftrightarrow> 0 < den \<and> 0 < mb
     \<and> (\<exists>m. expose fills [] = Inr m \<and> p = \<lparr>netExposure = sort_by (cmp_on fst loc) m,
          orders = fst (split_exposure den mb (sort_by (cmp_on fst loc) m)),
          deferred = snd (split_exposure den mb (sort_by (cmp_on fst loc) m))\<rparr>)"
  by (auto simp: planRestock_def Let_def case_prod_unfold)

section \<open>Properties\<close>

text \<open>
  The selected quote verifies, pays at least as much as every other, and is the same whatever
  order the quotes arrived in. Of \<open>localeCompare\<close> it is used that it is a consistent comparator and,
  for the last part, that it tells the solvers at hand apart.
\<close>

lemma best_quote_selected:
  assumes "comparator_laws loc"
    and "selectBestSolverQuote loc sha helper verify i qs (jint now) = Inr q"
    and "mset qs' = mset qs"
    and "\<forall>a\<in>q_solverId ` set qs. \<forall>b\<in>q_solverId ` set qs. loc a b = 0 \<longrightarrow> a = b"
  shows "q \<in> set qs \<and> quote_for sha helper verify i q now
    \<and> (\<forall>r\<in>set qs. q_buyAmount r \<le> q_buyAmount q)
    \<and> selectBestSolverQuote loc sha helper verify i qs' (jint now) = Inr q"
proof -
  have s: "qs \<noteq> []" "distinct (map q_solverId qs)" "\<forall>r\<in>set qs. quote_for sha helper verify i r now"
      and q: "q = hd (sort_by (quote_key_order loc) qs)"
    using assms(2) by (auto simp: select_iff)
  have "q \<in> set qs"
    unfolding q by (rule hd_sort_by_mem[OF s(1)])
  moreover have "q_buyAmount r \<le> q_buyAmount q" if "r \<in> set qs" for r
    using select_hd_least[OF assms(1) that] quote_key_order_amount q by blast
  moreover have "set qs' = set qs" "qs' \<noteq> []"
    using assms(3) s(1) by (auto dest: mset_eq_setD)
  moreover have "distinct (map q_solverId qs')"
    using assms(3) s(2) by (metis mset_eq_imp_distinct_iff mset_map)
  ultimately show ?thesis
    using s q select_unique[OF assms(1,4) s(2) assms(3) s(1)] by (simp add: select_iff)
qed

text \<open>
  C27: what an honest signer quotes is accepted by the verifier at the moment of quoting, provided
  the verifier accepts the signer's signatures: the two sides agree on every field, normal form and
  time bound.
\<close>

theorem quoted_then_verified:
  assumes "quotePrivateSwapIntent sha price sign (jint now) fresh i opts = Inr (QuotedOutcome q)"
    and "o_now opts = None"
    and "\<And>text u raw. sign text u = Inr raw \<Longrightarrow> verify text (to_lower (trim raw)) (q_solverKey u)"
  shows "verifySolverQuote sha (o_helper opts) verify i q (jint now) = Inr ()"
proof -
  obtain u raw canon c e where ok: "intent_ok i c e" "now < e"
    and u: "assertQuoteShape u = Inr ()" "canonicalSolverQuote u = Inr canon" "sign canon u = Inr raw"
    and q: "q = unsigned_quote.extend u (solver_quote.fields (to_lower (trim raw)))"
    and sg: "isCanonicalQuoteSignature (to_lower (trim raw))"
    and f: "felt_text (o_helper opts)" "q_helper u = felt_norm (o_helper opts)"
      "q_pool u = i_pool i" "q_sellToken u = felt_norm (i_sellToken i)"
      "q_buyToken u = felt_norm (i_buyToken i)" "q_sellAmount u = i_sellAmount i"
      "i_minBuyAmount i \<le> q_buyAmount u" "Inr (q_intentDigest u) = digestPrivateSwapIntent sha i"
      "q_quotedAt u = jint now"
    by (rule quoted_form[OF assms(1,2)])
  obtain t x r where shape: "quote_ok u t x r"
    using u(1) by (auto simp: assertQuoteShape_iff)
  have t: "t = now" "now < x"
    using shape f(9) by (auto simp: quote_ok_def unix_time_def)
  have "felt_text (i_sellToken i)" "felt_text (i_buyToken i)"
    using ok(1) by (simp_all add: intent_ok_def)
  then have "quote_terms sha (o_helper opts) verify i q now e t x"
    using u f sg t ok(2) assms(3)[OF u(3)] felt_norm_idem[of "o_helper opts"]
      felt_norm_idem[of "i_sellToken i"] felt_norm_idem[of "i_buyToken i"]
    unfolding quote_terms_def q canonical_signed
    by (simp add: unsigned_quote.defs solver_quote.defs)
  moreover have "quote_ok q t x r"
    using shape unfolding q canonical_signed .
  ultimately show ?thesis
    using ok(1) verify_intent_quote by blast
qed

text \<open>
  The signature the signer returns is in the canonical low form, whichever of the two
  signatures of the message the platform produced: same r, and s or its negation modulo the order.
\<close>

lemma signature_is_low:
  assumes "length (subtle_sign text) = 64"
    and "0 < big_of_bytes (take 32 (subtle_sign text))"
    and "big_of_bytes (take 32 (subtle_sign text)) < P256_ORDER"
    and "0 < big_of_bytes (drop 32 (subtle_sign text))"
    and "big_of_bytes (drop 32 (subtle_sign text)) < P256_ORDER"
  shows "\<exists>sig bs. signCanonicalQuote subtle_sign text = Inr sig \<and> isCanonicalQuoteSignature sig
    \<and> hexToBytes sig = Some bs \<and> take 32 bs = take 32 (subtle_sign text)
    \<and> big_of_bytes (drop 32 bs) \<in> {big_of_bytes (drop 32 (subtle_sign text)),
         P256_ORDER - big_of_bytes (drop 32 (subtle_sign text))}"
proof -
  let ?r = "take 32 (subtle_sign text)" and ?s = "big_of_bytes (drop 32 (subtle_sign text))"
  define c where "c = (if P256_HALF_ORDER < ?s then P256_ORDER - ?s else ?s)"
  let ?t = "hex_pairs (pad_start 64 (hex c))"
  have c: "0 < c" "c \<le> P256_HALF_ORDER" "c < P256_ORDER"
    using assms(4,5) by (auto simp: c_def P256_HALF_ORDER_def P256_ORDER_def)
  have sig: "signCanonicalQuote subtle_sign text = Inr (''0x'' @ bytesToHex (?r @ ?t))"
    using assms(1) hex_half_bytes(2)[OF c(3)] by (simp add: signCanonicalQuote_def c_def Let_def)
  have bytes: "hexToBytes (''0x'' @ bytesToHex (?r @ ?t)) = Some (?r @ ?t)"
    using assms(1) by (intro hexToBytes_bytes) auto
  have len: "length ?r = 32" "length ?t = 32"
    using assms(1) hex_half_bytes(1)[OF c(3)] by auto
  have "isCanonicalQuoteSignature (''0x'' @ bytesToHex (?r @ ?t))"
    unfolding isCanonicalQuoteSignature_def bytes using c assms(2,3) len hex_half_bytes(3)[OF c(3)]
    by (simp add: canonicalP256SignatureBytes_def)
  moreover have "big_of_bytes (drop 32 (?r @ ?t)) = c" "take 32 (?r @ ?t) = ?r"
    using len hex_half_bytes(3)[OF c(3)] by simp_all
  ultimately show ?thesis
    using sig bytes by (intro exI[of _ "''0x'' @ bytesToHex (?r @ ?t)"] exI[of _ "?r @ ?t"]) (auto simp: c_def)
qed

text \<open>
  One quote is good for one intent. If the digest function does not collide, two intents the
  same quote verifies for are the same up to the notation of their token addresses.
\<close>

lemma one_quote_one_intent:
  assumes "verifySolverQuote sha helper verify i q (jint now) = Inr ()"
    and "verifySolverQuote sha helper verify j q (jint now') = Inr ()"
    and "\<And>s t. sha s = sha t \<Longrightarrow> s = t"
  shows "i\<lparr>i_sellToken := felt_norm (i_sellToken i), i_buyToken := felt_norm (i_buyToken i)\<rparr>
    = j\<lparr>i_sellToken := felt_norm (i_sellToken j), i_buyToken := felt_norm (i_buyToken j)\<rparr>"
proof -
  obtain c e c' e' where ok: "intent_ok i c e" "intent_ok j c' e'"
    and d: "Inr (q_intentDigest q) = digestPrivateSwapIntent sha i"
      "Inr (q_intentDigest q) = digestPrivateSwapIntent sha j"
    using assms(1,2) by (auto simp: verify_iff quote_for_def quote_terms_def)
  show ?thesis
    using intent_json_inject[OF ok] d assms(3) by (fastforce simp: digest_ok[OF ok(1)] digest_ok[OF ok(2)])
qed

text \<open>
  C26: an accepted intent is filled or refunded, and never both. Whatever deliveries and refunds are
  requested, in any order, the escrow is still locked, or filled before the expiry with at least
  the floor and the quote, or refunded at or after the expiry; a settled escrow no longer changes.
\<close>

theorem escrow_settles_once:
  assumes "acceptQuote sha helper verify i q (jint now) seen = Inr (st, seen')"
  shows "\<exists>e. now < e \<and> escrow_ok i e q (jint now) (run_cmds (escrow_step i) rs st)
    \<and> (run_cmds (escrow_step i) rs st \<noteq> ILocked q (jint now)
       \<longrightarrow> run_cmds (escrow_step i) (rs @ later) st = run_cmds (escrow_step i) rs st)"
proof -
  have v: "verifySolverQuote sha helper verify i q (jint now) = Inr ()" and st: "st = ILocked q (jint now)"
    using assms by (simp_all add: acceptQuote_Inr)
  then obtain e where e: "i_expiresAt i = jint e" "now < e"
    by (auto simp: verify_iff quote_for_def quote_terms_def intent_ok_def unix_time_def)
  let ?s = "run_cmds (escrow_step i) rs st"
  have ok0: "escrow_ok i e q (jint now) st"
    using e st by (simp add: escrow_ok_def)
  note ok = escrow.run_inv[OF ok0, of rs]
  have "run_cmds (escrow_step i) later ?s = ?s" if "?s \<noteq> ILocked q (jint now)"
  proof -
    have "\<not> (\<exists>q t. ?s = ILocked q t)"
      using ok that by (auto simp: escrow_ok_def)
    with escrow.run_le[OF ok, of later] show ?thesis
      by (auto simp: escrow_le_def)
  qed
  then show ?thesis
    using e(2) ok by (auto simp: run_cmds_append)
qed

text \<open>
  A nonce is accepted once. Over any sequence of acceptances that share a replay store, the
  quotes accepted carry distinct nonces that were not in the store before, every one of them
  verified when it was accepted, and the store ends up holding exactly the nonces seen.
\<close>

lemma nonce_accepted_once:
  "case accept_run sha helper verify rs seen of (qs, final) \<Rightarrow>
     distinct (map q_nonce qs) \<and> q_nonce ` set qs \<inter> set seen = {}
     \<and> set final = set seen \<union> q_nonce ` set qs
     \<and> set qs \<subseteq> {q. \<exists>i now. (i, q, now) \<in> set rs \<and> verifySolverQuote sha helper verify i q now = Inr ()}"
proof -
  obtain qs final where r: "accept_run sha helper verify rs seen = (qs, final)"
    by (cases "accept_run sha helper verify rs seen")
  from accept_run_nonces[OF r] show ?thesis
    unfolding r by auto
qed

text \<open>
  A restock plan conserves the exposure. It lists every token of the fills once, with what was
  delivered of it less what was received; the orders are exactly the exposures of at least the
  batch floor, each rounded up to the next multiple of the denomination, and the deferred ones are
  exactly the positive exposures below the floor.
\<close>

lemma restock_conserves:
  assumes "planRestock loc fills den mb = Inr p"
  shows "distinct (map fst (netExposure p)) \<and> fst ` set (netExposure p) = fill_tokens fills
    \<and> (\<forall>(t, x)\<in>set (netExposure p). x = exposure_of fills t)
    \<and> (\<forall>t a. (t, a) \<in> set (orders p) \<longleftrightarrow>
          (\<exists>x. (t, x) \<in> set (netExposure p) \<and> mb \<le> x \<and> den dvd a \<and> x \<le> a \<and> a < x + den))
    \<and> (\<forall>t x. (t, x) \<in> set (deferred p) \<longleftrightarrow> (t, x) \<in> set (netExposure p) \<and> 0 < x \<and> x < mb)"
proof -
  obtain m os ds where pos: "0 < den" "0 < mb" and m: "expose fills [] = Inr m"
    and sp: "split_exposure den mb (sort_by (cmp_on fst loc) m) = (os, ds)"
    and p: "p = \<lparr>netExposure = sort_by (cmp_on fst loc) m, orders = os, deferred = ds\<rparr>"
    using assms by (auto simp: planRestock_iff intro: prod.collapse[symmetric])
  let ?net = "sort_by (cmp_on fst loc) m"
  have d: "distinct (map fst m)" "fst ` set m = fill_tokens fills"
      "amount_of m t = exposure_of fills t" for t
    using expose_spec[OF m] by (auto simp: amount_of_def)
  have "distinct (map fst ?net)"
    using d(1) by (metis mset_eq_imp_distinct_iff mset_map mset_sort_by)
  moreover have "fst ` set ?net = fill_tokens fills"
    using d(2) by simp
  moreover have "x = exposure_of fills t" if "(t, x) \<in> set ?net" for t x
    using that d(1) d(3)[of t] by (simp add: amount_of_def)
  moreover have "(t, a) \<in> set os \<longleftrightarrow> (\<exists>x. (t, x) \<in> set ?net \<and> mb \<le> x \<and> den dvd a \<and> x \<le> a \<and> a < x + den)"
    for t a
    unfolding split_exposure_spec[OF pos(1) sp, THEN conjunct1] round_up_iff[OF pos(1)]
    by (rule ex_cong1) (use pos(2) in auto)
  moreover have "(t, x) \<in> set ds \<longleftrightarrow> (t, x) \<in> set ?net \<and> 0 < x \<and> x < mb" for t x
    using split_exposure_spec[OF pos(1) sp, of t x] by blast
  ultimately show ?thesis
    unfolding p restock_plan.simps by blast
qed

section \<open>The hypotheses can hold\<close>

definition sample_intent :: swap_intent where
  "sample_intent = \<lparr>i_version = Fin 1, i_id = replicate 32 CHR ''a'', i_pool = ''starknet:SN_SEPOLIA'',
     i_sellToken = ''0x4'', i_sellAmount = 1000, i_buyToken = ''0x5'', i_minBuyAmount = 900,
     i_expiresAt = Fin 500, i_createdAt = Fin 100\<rparr>"

definition sample_options :: quote_options where
  "sample_options = \<lparr>o_solverId = ''maker'', o_solverKey = ''key'', o_helper = ''0x7'',
     o_spreadBps = Fin 50, o_quoteTtlSeconds = Fin 60, o_now = None, o_nonce = None,
     o_reservationId = ''0x'' @ replicate 64 CHR ''b'', o_reservationExpiresAt = Fin 400\<rparr>"

definition sample_signature :: string where
  "sample_signature = ''0x'' @ bytesToHex (replicate 31 0 @ [7] @ replicate 31 0 @ [9])"

abbreviation sample_nonce :: string where
  "sample_nonce \<equiv> ''0x'' @ replicate 64 CHR ''c''"

definition sample_quote :: solver_quote where
  "sample_quote = \<lparr>q_domain = QUOTE_DOMAIN, q_pool = ''starknet:SN_SEPOLIA'', q_helper = ''0x7'',
     q_sellToken = ''0x4'', q_sellAmount = 1000, q_buyToken = ''0x5'',
     q_intentDigest = json_text (intent_json sample_intent ''0x4'' ''0x5''),
     q_solverId = ''maker'', q_solverKey = ''key'', q_nonce = sample_nonce,
     q_reservationId = ''0x'' @ replicate 64 CHR ''b'', q_reservationExpiresAt = Fin 400,
     q_buyAmount = 995, q_spreadBps = 50, q_pricingProvenance = ''book'', q_quotedAt = Fin 200,
     q_quoteExpiresAt = Fin 260, q_signature = sample_signature\<rparr>"

lemma sample_felts [simp]:
  "felt_text ''0x4'' \<and> felt_norm ''0x4'' = ''0x4''"
  "felt_text ''0x5'' \<and> felt_norm ''0x5'' = ''0x5''"
  "felt_text ''0x7'' \<and> felt_norm ''0x7'' = ''0x7''"
  by (simp_all add: felt_text_def felt_norm_def eval_simps)

lemma sample_fields [simp]:
  "i_pool sample_intent = ''starknet:SN_SEPOLIA''" "i_sellToken sample_intent = ''0x4''"
  "i_buyToken sample_intent = ''0x5''" "i_sellAmount sample_intent = 1000"
  "i_minBuyAmount sample_intent = 900" "i_expiresAt sample_intent = Fin 500"
  "o_solverId sample_options = ''maker''" "o_solverKey sample_options = ''key''"
  "o_helper sample_options = ''0x7''" "o_spreadBps sample_options = Fin 50"
  "o_quoteTtlSeconds sample_options = Fin 60" "o_now sample_options = None" "o_nonce sample_options = None"
  "o_reservationId sample_options = ''0x'' @ replicate 64 CHR ''b''"
  "o_reservationExpiresAt sample_options = Fin 400"
  by (simp_all add: sample_intent_def sample_options_def)

lemma sample_intent_ok: "intent_ok sample_intent 100 500"
  by (simp add: intent_ok_def sample_intent_def MIN_INTENT_ID_LENGTH_def is_id_char_def is_alnum_def
      is_digit_def is_lower_alpha_def code_def u256_amount_def intent_max_u256_def unix_time_def
      max_safe_def list_all_iff)

lemma bytesToHex_zeros: "bytesToHex (replicate n 0) = replicate (2 * n) CHR ''0''"
  by (induction n) (simp_all add: digit_char_zero)

lemma big_of_small: "big_of_bytes (replicate n 0 @ [b]) = unat b"
  by (simp add: big_of_bytes_def bytesToHex_zeros of_base_append two_digits digit_val_char unat_nibbles)

lemma sample_signature_bytes: "hexToBytes sample_signature = Some (replicate 31 0 @ [7] @ replicate 31 0 @ [9])"
  unfolding sample_signature_def by (rule hexToBytes_bytes) simp

lemma sample_signature_canonical: "isCanonicalQuoteSignature sample_signature"
proof -
  have "take 32 (replicate 31 0 @ [7] @ replicate 31 0 @ [9 :: 8 word]) = replicate 31 0 @ [7]"
    "drop 32 (replicate 31 0 @ [7] @ replicate 31 0 @ [9 :: 8 word]) = replicate 31 0 @ [9]"
    by simp_all
  then show ?thesis
    unfolding isCanonicalQuoteSignature_def sample_signature_bytes canonicalP256SignatureBytes_def Let_def
    by (simp add: big_of_small P256_ORDER_def P256_HALF_ORDER_def)
qed

lemma sample_signature_plain: "to_lower (trim sample_signature) = sample_signature"
proof -
  have "hex_digits 128 sample_signature"
    by (simp add: sample_signature_def hex_digits_def bytesToHex_lower del: bytesToHex_simps)
  moreover from this have "hex_digits_ci 128 sample_signature"
    by (auto simp: hex_digits_def hex_digits_ci_def list_all_iff is_hex_lower_is_hex)
  ultimately show ?thesis
    using trim_hex_digits_ci hex_digits_lowercase by fastforce
qed

lemma sample_nonces [simplified, simp]:
  "nonce_pattern (''0x'' @ replicate 64 CHR ''b'')" "nonce_pattern sample_nonce"
  by (simp_all add: nonce_pattern_def hex_digits_def is_hex_lower_def is_digit_def code_def list_all_iff)

lemma sample_quote_ok: "quote_ok sample_quote 200 260 400"
  unfolding quote_ok_def sample_quote_def
  by (simp add: u256_amount_def intent_max_u256_def unix_time_def max_safe_def trim_id
      is_ws_def code_def)

lemma sample_verified: "verifySolverQuote (\<lambda>s. s) ''0x7'' (\<lambda>_ _ _. True) sample_intent sample_quote (jint 230) = Inr ()"
  unfolding verify_intent_quote[OF sample_intent_ok sample_quote_ok] quote_terms_def
    digest_ok[OF sample_intent_ok] canonicalSolverQuote_ok[OF sample_quote_ok]
  by (simp add: sample_quote_def sample_signature_canonical)

lemma best_quote_selected_witness:
  "selectBestSolverQuote cmp_asc (\<lambda>s. s) ''0x7'' (\<lambda>_ _ _. True) sample_intent [sample_quote] (jint 230)
     = Inr sample_quote"
proof -
  have "selectBestSolverQuote cmp_asc (\<lambda>s. s) ''0x7'' (\<lambda>_ _ _. True) sample_intent [sample_quote] (jint 230)
      = Inr sample_quote"
    using sample_verified by (simp add: selectBestSolverQuote_def)
  from best_quote_selected[OF comparator_asc this refl] show ?thesis
    by simp
qed

lemma one_quote_one_intent_witness:
  "sample_intent\<lparr>i_sellToken := ''0x4'', i_buyToken := ''0x5''\<rparr>
   = sample_intent\<lparr>i_sellToken := felt_norm (i_sellToken sample_intent),
       i_buyToken := felt_norm (i_buyToken sample_intent)\<rparr>"
  using one_quote_one_intent[OF sample_verified sample_verified] by (simp add: sample_intent_def)

theorem escrow_settles_once_witness:
  "\<exists>e>230. escrow_ok sample_intent e sample_quote (jint 230)
     (run_cmds (escrow_step sample_intent) [Reclaim 300, Deliver 995 400, Reclaim 600]
       (ILocked sample_quote (jint 230)))"
proof -
  have "acceptQuote (\<lambda>s. s) ''0x7'' (\<lambda>_ _ _. True) sample_intent sample_quote (jint 230) []
      = Inr (ILocked sample_quote (jint 230), [q_nonce sample_quote])"
    using sample_verified by (simp add: acceptQuote_Inr)
  from escrow_settles_once[OF this] show ?thesis
    by blast
qed

lemma signature_is_low_witness:
  "\<exists>sig. signCanonicalQuote (\<lambda>_. replicate 31 0 @ [7] @ replicate 31 0 @ [9]) ''m'' = Inr sig
     \<and> isCanonicalQuoteSignature sig"
  using signature_is_low[of "\<lambda>_. replicate 31 0 @ [7] @ replicate 31 0 @ [9]" "''m''"]
    big_of_small[of 31 7] big_of_small[of 31 9]
  by (auto simp: P256_ORDER_def)

lemma restock_conserves_witness:
  "\<exists>p. planRestock cmp_asc [\<lparr>fl_sellToken = ''0x4'', fl_sellAmount = 10, fl_buyToken = ''0x5'', fl_buyAmount = 7\<rparr>] 5 6
       = Inr p \<and> fst ` set (netExposure p) = {''0x4'', ''0x5''} \<and> (''0x5'', 10) \<in> set (orders p)"
proof -
  let ?f = "[\<lparr>fl_sellToken = ''0x4'', fl_sellAmount = 10, fl_buyToken = ''0x5'', fl_buyAmount = 7\<rparr>]"
  have "requireToken ''0x4'' l = Inr ''0x4''" "requireToken ''0x5'' l = Inr ''0x5''" for l
    by (simp_all add: requireToken_Inr)
  then obtain p where p: "planRestock cmp_asc ?f 5 6 = Inr p"
    by (simp add: planRestock_iff requireAmount_def intent_max_u256_def)
  note r = restock_conserves[OF p]
  have tokens: "fst ` set (netExposure p) = {''0x4'', ''0x5''}"
    using r by (simp add: fill_tokens_def insert_commute)
  then have "''0x5'' \<in> fst ` set (netExposure p)"
    by simp
  then obtain x where x: "(''0x5'', x) \<in> set (netExposure p)"
    by auto
  then have "x = exposure_of ?f ''0x5''"
    using r by blast
  then have "x = 7"
    by (simp add: exposure_of_def)
  then have "\<exists>x. (''0x5'', x) \<in> set (netExposure p) \<and> 6 \<le> x \<and> 5 dvd (10 :: int) \<and> x \<le> 10 \<and> 10 < x + 5"
    using x by (intro exI[of _ 7]) simp
  then have "(''0x5'', 10) \<in> set (orders p)"
    by (rule r[THEN conjunct2, THEN conjunct2, THEN conjunct2, THEN conjunct1, rule_format, THEN iffD2])
  with p tokens show ?thesis
    by blast
qed

theorem quoted_then_verified_witness:
  "verifySolverQuote (\<lambda>s. s) ''0x7'' (\<lambda>_ _ _. True) sample_intent
     sample_quote (jint 200) = Inr ()"
proof -
  let ?q = "quotePrivateSwapIntent (\<lambda>s. s) (\<lambda>_ _ _ _. Inr (1000, ''book'')) (\<lambda>_ _. Inr sample_signature)
    (jint 200) sample_nonce sample_intent sample_options"
  let ?u = "unsigned_quote.truncate sample_quote"
  have shape: "quote_ok ?u 200 260 400"
    using sample_quote_ok by (simp add: quote_ok_def unsigned_quote.defs)
  have t: "requireToken ''0x4'' l = Inr ''0x4''" "requireToken ''0x5'' l = Inr ''0x5''"
      "requireToken ''0x7'' l = Inr ''0x7''" for l
    by (simp_all add: requireToken_Inr)
  have a: "assertPrivateSwapIntent sample_intent = Inr ()"
    using sample_intent_ok assertPrivateSwapIntent_iff by blast
  have "sign_quote (\<lambda>_ _. Inr sample_signature) ?u = Inr (QuotedOutcome sample_quote)"
    using shape assertQuoteShape_iff[of ?u] canonicalSolverQuote_ok[OF shape] sample_signature_canonical
      sample_signature_plain
    by (auto simp: sign_quote_def unsigned_quote.defs solver_quote.defs sample_quote_def)
  moreover have "?q = sign_quote (\<lambda>_ _. Inr sample_signature) ?u"
    by (simp add: quotePrivateSwapIntent_def a t requireUnixSeconds_def max_safe_def Let_def num_le_def
        after_spread_def trim_id is_ws_def code_def digest_ok[OF sample_intent_ok]
        unsigned_quote.defs sample_quote_def num_min_def nonce_pattern_lower)
  ultimately have "?q = Inr (QuotedOutcome sample_quote)"
    by simp
  from quoted_then_verified[OF this, of "\<lambda>_ _ _. True"] show ?thesis
    by simp
qed

end
