(* ===== verification/Quote_V3_Properties.thy ===== *)
theory Quote_V3_Properties
  imports Quote_V3 Intent_Properties
begin

text \<open>
  What holds of RFQs of version 2 and quotes of version 3: the wire round trips, the types a
  decoded quote has, and what a verified quote guarantees about its lock.
\<close>

section \<open>Bodies\<close>

lemma requireBucketAmount_Inr:
  "requireBucketAmount v l = Inr n \<longleftrightarrow> v = JBig n \<and> 0 < n \<and> n \<le> rfq_max_u128"
  by (auto simp: requireBucketAmount_def split: jsval.splits)

lemma rfq_v2_body_Inr:
  "rfq_v2_canonicalBody r = Inr b \<longleftrightarrow>
     is_number (r2_version r) 2 \<and> is_text (r2_domain r) PRIVATE_RFQ_V2_DOMAIN
     \<and> wire_integer (r2_createdAt r) ''createdAt'' 1 = Inr (rb_createdAt b)
     \<and> wire_integer (r2_responseDeadline r) ''responseDeadline'' 1 = Inr (rb_responseDeadline b)
     \<and> wire_integer (r2_expiresAt r) ''expiresAt'' 1 = Inr (rb_expiresAt b)
     \<and> wire_integer (r2_lockExpiresAt r) ''lockExpiresAt'' 1 = Inr (rb_lockExpiresAt b)
     \<and> rb_createdAt b < rb_responseDeadline b \<and> rb_responseDeadline b < rb_expiresAt b
     \<and> rb_expiresAt b - rb_createdAt b \<le> MAX_RFQ_LIFETIME_SECONDS
     \<and> rb_lockExpiresAt b = rb_expiresAt b
     \<and> wire_felt (r2_sellToken r) ''sellToken'' False = Inr (rb_sellToken b)
     \<and> wire_felt (r2_buyToken r) ''buyToken'' False = Inr (rb_buyToken b)
     \<and> rb_sellToken b \<noteq> rb_buyToken b
     \<and> requireBucketAmount (r2_bucketMin r) ''sellBucketMinBaseUnits'' = Inr (rb_bucketMin b)
     \<and> requireBucketAmount (r2_bucketMax r) ''sellBucketMaxBaseUnits'' = Inr (rb_bucketMax b)
     \<and> rb_bucketMin b < rb_bucketMax b
     \<and> wire_pool (r2_chainId r) ''chainId'' = Inr (rb_chainId b)
     \<and> wire_integer (r2_directoryEpoch r) ''directoryEpoch'' 0 = Inr (rb_directoryEpoch b)
     \<and> wire_text (r2_registryRevision r) ''registryRevision'' = Inr (rb_registryRevision b)
     \<and> wire_felt (r2_rfqFelt r) ''rfqFelt'' False = Inr (rb_rfqFelt b)
     \<and> wire_digest (r2_rfqId r) ''rfqId'' = Inr (rb_rfqId b)
     \<and> wire_felt (r2_settlementHelper r) ''settlementHelper'' False = Inr (rb_settlementHelper b)
     \<and> wire_felt (r2_takerCommitment r) ''takerCommitment'' False = Inr (rb_takerCommitment b)"
  by (cases b) (auto simp: rfq_v2_canonicalBody_def)

lemma v3_body_Inr:
  "v3_canonicalBody q = Inr b \<longleftrightarrow>
     is_text (v_domain q) QUOTE_V3_DOMAIN \<and> is_number (v_version q) 3
     \<and> nonce_pattern (regexp_text (v_nonce q)) \<and> b_nonce b = v_nonce q
     \<and> wire_felt (v_sellToken q) ''sellToken'' False = Inr (b_sellToken b)
     \<and> wire_felt (v_buyToken q) ''buyToken'' False = Inr (b_buyToken b)
     \<and> b_sellToken b \<noteq> b_buyToken b
     \<and> wire_integer (v_lockExpiresAt q) ''lockExpiresAt'' 1 = Inr (b_lockExpiresAt b)
     \<and> wire_integer (v_quotedAt q) ''quotedAt'' 1 = Inr (b_quotedAt b)
     \<and> wire_integer (v_quoteExpiresAt q) ''quoteExpiresAt'' 1 = Inr (b_quoteExpiresAt b)
     \<and> b_quotedAt b < b_quoteExpiresAt b \<and> b_quoteExpiresAt b \<le> b_lockExpiresAt b
     \<and> wire_integer (v_spreadBps q) ''spreadBps'' 0 = Inr (b_spreadBps b) \<and> b_spreadBps b < 10000
     \<and> wire_felt (v_escrowAddress q) ''escrowAddress'' False = Inr (b_escrowAddress b)
     \<and> wire_felt (v_helper q) ''helper'' False = Inr (b_helper b)
     \<and> wire_felt (v_lockId q) ''lockId'' False = Inr (b_lockId b)
     \<and> wire_felt (v_lockTicket q) ''lockTicket'' False = Inr (b_lockTicket b)
     \<and> wire_felt (v_lockTransactionHash q) ''lockTransactionHash'' False = Inr (b_lockTransactionHash b)
     \<and> wire_pool (v_pool q) ''pool'' = Inr (b_pool b)
     \<and> wire_text (v_pricingProvenance q) ''pricingProvenance'' = Inr (b_pricingProvenance b)
     \<and> wire_text (v_quoteKeyId q) ''quoteKeyId'' = Inr (b_quoteKeyId b)
     \<and> wire_digest (v_rfqDigest q) ''rfqDigest'' = Inr (b_rfqDigest b)
     \<and> wire_felt (v_rfqFelt q) ''rfqFelt'' False = Inr (b_rfqFelt b)
     \<and> valid_schedule (v_schedule q) \<and> b_schedule b = v_schedule q
     \<and> wire_text (v_solverId q) ''solverId'' = Inr (b_solverId b)"
  by (cases b) (auto simp: v3_canonicalBody_def assertPriceSchedule_iff)

section \<open>The request on the wire\<close>

lemma rfq_v2_object_keys: "obj_keys (rfq_v2_object b) = PRIVATE_RFQ_V2_WIRE_FIELDS"
  by (simp add: rfq_v2_object_def obj_keys_def PRIVATE_RFQ_V2_WIRE_FIELDS_def)

lemma closed_object_exact:
  "set (obj_keys kvs) = set names \<Longrightarrow> closed_object e m u names (JObj kvs) = Inr kvs"
  by (auto simp: closed_object_Inr has_field_iff)

lemma dec_int_nat: "0 \<le> n \<Longrightarrow> dec_int n = dec (nat n)"
  by (simp add: dec_int_def)

lemma read_rfq_v2_object:
  "read_rfq_v2 (rfq_v2_object b) l u =
     \<lparr>r2_version = JNum (jint 2),
      r2_domain = JStr PRIVATE_RFQ_V2_DOMAIN,
      r2_rfqId = JStr (rb_rfqId b),
      r2_rfqFelt = JStr (rb_rfqFelt b),
      r2_takerCommitment = JStr (rb_takerCommitment b),
      r2_chainId = JStr (rb_chainId b),
      r2_registryRevision = JStr (rb_registryRevision b),
      r2_directoryEpoch = JNum (jint (rb_directoryEpoch b)),
      r2_settlementHelper = JStr (rb_settlementHelper b),
      r2_sellToken = JStr (rb_sellToken b),
      r2_buyToken = JStr (rb_buyToken b),
      r2_bucketMin = JBig (int l),
      r2_bucketMax = JBig (int u),
      r2_createdAt = JNum (jint (rb_createdAt b)),
      r2_responseDeadline = JNum (jint (rb_responseDeadline b)),
      r2_expiresAt = JNum (jint (rb_expiresAt b)),
      r2_lockExpiresAt = JNum (jint (rb_lockExpiresAt b))\<rparr>"
  by (simp add: read_rfq_v2_def rfq_v2_object_def)

lemma read_rfq_v2_fields:
  "r2_version (read_rfq_v2 (rfq_v2_object b) l u) = JNum (jint 2)"
  "r2_domain (read_rfq_v2 (rfq_v2_object b) l u) = JStr PRIVATE_RFQ_V2_DOMAIN"
  "r2_rfqId (read_rfq_v2 (rfq_v2_object b) l u) = JStr (rb_rfqId b)"
  "r2_rfqFelt (read_rfq_v2 (rfq_v2_object b) l u) = JStr (rb_rfqFelt b)"
  "r2_takerCommitment (read_rfq_v2 (rfq_v2_object b) l u) = JStr (rb_takerCommitment b)"
  "r2_chainId (read_rfq_v2 (rfq_v2_object b) l u) = JStr (rb_chainId b)"
  "r2_registryRevision (read_rfq_v2 (rfq_v2_object b) l u) = JStr (rb_registryRevision b)"
  "r2_directoryEpoch (read_rfq_v2 (rfq_v2_object b) l u) = JNum (jint (rb_directoryEpoch b))"
  "r2_settlementHelper (read_rfq_v2 (rfq_v2_object b) l u) = JStr (rb_settlementHelper b)"
  "r2_sellToken (read_rfq_v2 (rfq_v2_object b) l u) = JStr (rb_sellToken b)"
  "r2_buyToken (read_rfq_v2 (rfq_v2_object b) l u) = JStr (rb_buyToken b)"
  "r2_bucketMin (read_rfq_v2 (rfq_v2_object b) l u) = JBig (int l)"
  "r2_bucketMax (read_rfq_v2 (rfq_v2_object b) l u) = JBig (int u)"
  "r2_createdAt (read_rfq_v2 (rfq_v2_object b) l u) = JNum (jint (rb_createdAt b))"
  "r2_responseDeadline (read_rfq_v2 (rfq_v2_object b) l u) = JNum (jint (rb_responseDeadline b))"
  "r2_expiresAt (read_rfq_v2 (rfq_v2_object b) l u) = JNum (jint (rb_expiresAt b))"
  "r2_lockExpiresAt (read_rfq_v2 (rfq_v2_object b) l u) = JNum (jint (rb_lockExpiresAt b))"
  by (simp_all only: read_rfq_v2_object rfq_v2.simps)

lemma rfq_v2_reread:
  assumes "rfq_v2_canonicalBody r = Inr b"
  shows "rfq_v2_canonicalBody (read_rfq_v2 (rfq_v2_object b) (nat (rb_bucketMin b)) (nat (rb_bucketMax b))) = Inr b"
  using assms unfolding rfq_v2_body_Inr read_rfq_v2_fields
  by (elim conjE, intro conjI)
    (assumption | erule wire_idem | simp add: is_number_def is_text_def requireBucketAmount_Inr)+

lemma rfq_v2_decode_object:
  assumes "rfq_v2_canonicalBody r = Inr b"
  shows "decodePrivateRfqV2 (JObj (rfq_v2_object b)) =
    Inr (read_rfq_v2 (rfq_v2_object b) (nat (rb_bucketMin b)) (nat (rb_bucketMax b)))"
proof -
  have "0 < rb_bucketMin b" "0 < rb_bucketMax b"
    using assms by (auto simp: rfq_v2_body_Inr requireBucketAmount_Inr)
  then have "wire_decimal (get_field (rfq_v2_object b) ''sellBucketMinBaseUnits'') = Some (nat (rb_bucketMin b))"
    "wire_decimal (get_field (rfq_v2_object b) ''sellBucketMaxBaseUnits'') = Some (nat (rb_bucketMax b))"
    by (simp_all add: rfq_v2_object_def dec_int_nat)
  then show ?thesis
    using rfq_v2_reread[OF assms]
    by (simp add: decodePrivateRfqV2_def closed_object_exact rfq_v2_object_keys)
qed

section \<open>The quote on the wire\<close>

lemma valid_points: "valid_schedule s \<Longrightarrow> p \<in> set s \<Longrightarrow> 0 < pt_a p \<and> 0 < pt_b p"
  by (auto simp: valid_schedule_def rising_def list_all_iff point_ok_def)

lemma decode_point_object: "0 < pt_a p \<Longrightarrow> 0 < pt_b p \<Longrightarrow> decode_point i (point_object p) = Inr p"
  by (cases p) (simp add: decode_point_def point_object_def closed_object_exact obj_keys_def dec_int_nat)

lemma decode_points_objects:
  "(\<And>p. p \<in> set s \<Longrightarrow> 0 < pt_a p \<and> 0 < pt_b p) \<Longrightarrow> decode_points i (map point_object s) = Inr s"
  by (induction s arbitrary: i) (simp_all add: decode_point_object)

lemma decodeSchedule_objects: "valid_schedule s \<Longrightarrow> decodeSchedule (JArr (map point_object s)) = Inr s"
  using assertPriceSchedule_iff[of s] by (simp add: decodeSchedule_def decode_points_objects valid_points)

definition v3_wire :: "quote_v3_body \<Rightarrow> jsval \<Rightarrow> fields" where
  "v3_wire b sg = v3_object b @ [(''signature'', sg)]"

lemma v3_wire_keys: "set (obj_keys (v3_wire b sg)) = set QUOTE_V3_WIRE_FIELDS"
  by (auto simp: v3_wire_def v3_object_def obj_keys_def QUOTE_V3_WIRE_FIELDS_def)

lemma v3_wire_fields:
  "get_field (v3_wire b sg) ''signature'' = sg"
  "get_field (v3_wire b sg) ''schedule'' = JArr (map point_object (b_schedule b))"
  by (simp_all add: v3_wire_def v3_object_def)

lemma read_quote_v3_wire:
  "read_quote_v3 (v3_wire b sg) s =
     \<lparr>v_domain = JStr QUOTE_V3_DOMAIN,
      v_version = JNum (jint 3),
      v_solverId = JStr (b_solverId b),
      v_quoteKeyId = JStr (b_quoteKeyId b),
      v_nonce = b_nonce b,
      v_pool = JStr (b_pool b),
      v_helper = JStr (b_helper b),
      v_escrowAddress = JStr (b_escrowAddress b),
      v_rfqDigest = JStr (b_rfqDigest b),
      v_rfqFelt = JStr (b_rfqFelt b),
      v_sellToken = JStr (b_sellToken b),
      v_buyToken = JStr (b_buyToken b),
      v_schedule = s,
      v_lockId = JStr (b_lockId b),
      v_lockTicket = JStr (b_lockTicket b),
      v_lockTransactionHash = JStr (b_lockTransactionHash b),
      v_lockExpiresAt = JNum (jint (b_lockExpiresAt b)),
      v_spreadBps = JNum (jint (b_spreadBps b)),
      v_pricingProvenance = JStr (b_pricingProvenance b),
      v_quotedAt = JNum (jint (b_quotedAt b)),
      v_quoteExpiresAt = JNum (jint (b_quoteExpiresAt b)),
      v_signature = sg\<rparr>"
  by (simp add: read_quote_v3_def v3_wire_def v3_object_def)

lemma read_quote_v3_fields:
  "v_domain (read_quote_v3 (v3_wire b sg) s) = JStr QUOTE_V3_DOMAIN"
  "v_version (read_quote_v3 (v3_wire b sg) s) = JNum (jint 3)"
  "v_solverId (read_quote_v3 (v3_wire b sg) s) = JStr (b_solverId b)"
  "v_quoteKeyId (read_quote_v3 (v3_wire b sg) s) = JStr (b_quoteKeyId b)"
  "v_nonce (read_quote_v3 (v3_wire b sg) s) = b_nonce b"
  "v_pool (read_quote_v3 (v3_wire b sg) s) = JStr (b_pool b)"
  "v_helper (read_quote_v3 (v3_wire b sg) s) = JStr (b_helper b)"
  "v_escrowAddress (read_quote_v3 (v3_wire b sg) s) = JStr (b_escrowAddress b)"
  "v_rfqDigest (read_quote_v3 (v3_wire b sg) s) = JStr (b_rfqDigest b)"
  "v_rfqFelt (read_quote_v3 (v3_wire b sg) s) = JStr (b_rfqFelt b)"
  "v_sellToken (read_quote_v3 (v3_wire b sg) s) = JStr (b_sellToken b)"
  "v_buyToken (read_quote_v3 (v3_wire b sg) s) = JStr (b_buyToken b)"
  "v_schedule (read_quote_v3 (v3_wire b sg) s) = s"
  "v_lockId (read_quote_v3 (v3_wire b sg) s) = JStr (b_lockId b)"
  "v_lockTicket (read_quote_v3 (v3_wire b sg) s) = JStr (b_lockTicket b)"
  "v_lockTransactionHash (read_quote_v3 (v3_wire b sg) s) = JStr (b_lockTransactionHash b)"
  "v_lockExpiresAt (read_quote_v3 (v3_wire b sg) s) = JNum (jint (b_lockExpiresAt b))"
  "v_spreadBps (read_quote_v3 (v3_wire b sg) s) = JNum (jint (b_spreadBps b))"
  "v_pricingProvenance (read_quote_v3 (v3_wire b sg) s) = JStr (b_pricingProvenance b)"
  "v_quotedAt (read_quote_v3 (v3_wire b sg) s) = JNum (jint (b_quotedAt b))"
  "v_quoteExpiresAt (read_quote_v3 (v3_wire b sg) s) = JNum (jint (b_quoteExpiresAt b))"
  "v_signature (read_quote_v3 (v3_wire b sg) s) = sg"
  by (simp_all only: read_quote_v3_wire quote_v3.simps)

lemma v3_reread:
  assumes "v3_canonicalBody q = Inr b"
  shows "v3_canonicalBody (read_quote_v3 (v3_wire b sg) (b_schedule b)) = Inr b"
  using assms unfolding v3_body_Inr read_quote_v3_fields
  by (elim conjE, intro conjI)
    (assumption | erule wire_idem | simp add: is_number_def is_text_def)+

lemma encode_v3_iff:
  "encodeSolverQuoteV3 q = Inr w \<longleftrightarrow>
     (\<exists>b. v3_canonicalBody q = Inr b \<and> signature_ok (v_signature q) \<and> w = JObj (v3_wire b (v_signature q)))"
  by (auto simp: encodeSolverQuoteV3_def v3_wire_def)

lemma v3_decode_object:
  assumes "v3_canonicalBody q = Inr b" and "signature_ok sg"
  shows "decodeSolverQuoteV3 (JObj (v3_wire b sg)) = Inr (read_quote_v3 (v3_wire b sg) (b_schedule b))"
proof -
  have "valid_schedule (b_schedule b)"
    using assms(1) by (auto simp: v3_body_Inr)
  moreover obtain s where "sg = JStr s" "isCanonicalQuoteSignature s"
    using assms(2) by (auto simp: signature_ok_def split: jsval.splits)
  ultimately show ?thesis
    using v3_reread[OF assms(1), of sg]
    by (simp add: decodeSolverQuoteV3_def closed_object_exact v3_wire_keys v3_wire_fields
        decodeSchedule_objects read_quote_v3_def Let_def)
qed

section \<open>The lock\<close>

lemma point_object_inject: "js_json (point_object p) = js_json (point_object q) \<longleftrightarrow> p = q"
  by (cases p; cases q) (auto simp: point_object_def)

lemma schedulesEqual_eq: "schedulesEqual l r \<Longrightarrow> l = r"
proof -
  have "inj (\<lambda>p. js_json (point_object p))"
    by (auto intro: injI simp: point_object_inject)
  then have "map (\<lambda>p. js_json (point_object p)) l = map (\<lambda>p. js_json (point_object p)) r \<longleftrightarrow> l = r"
    by (rule inj_map_eq_map)
  then show "schedulesEqual l r \<Longrightarrow> l = r"
    by (simp only: schedulesEqual_def js_json.simps json_text_inject json.inject map_map comp_def)
qed

lemma felt_differs_False:
  "felt_differs v l z f = Inr False \<longleftrightarrow> canonicalizeStarknetFelt v = Inr f \<and> (z \<or> f \<noteq> ''0x0'')"
  by (auto simp: felt_differs_def wire_felt_Inr)

lemma lock_matches:
  assumes "lock_mismatch lock allow b r = Inr False"
  shows "lk_status lock = ''open'' \<and> canonicalizeStarknetFelt (lk_rfqId lock) = Inr (rb_rfqFelt r)
    \<and> canonicalizeStarknetFelt (lk_takerCommitment lock) = Inr (rb_takerCommitment r)
    \<and> canonicalizeStarknetFelt (lk_tokenA lock) = Inr (rb_sellToken r)
    \<and> canonicalizeStarknetFelt (lk_tokenB lock) = Inr (rb_buyToken r)
    \<and> canonicalizeStarknetFelt (lk_ticket lock) = Inr (b_lockTicket b)
    \<and> (case lk_createdTransactionHash lock of None \<Rightarrow> allow
       | Some h \<Rightarrow> canonicalizeStarknetFelt h = Inr (b_lockTransactionHash b))
    \<and> lk_expiry lock = jint (b_lockExpiresAt b) \<and> lk_schedule lock = b_schedule b
    \<and> pt_b (last (b_schedule b)) \<le> lk_remainingB lock"
  using assms
  by (auto simp: lock_mismatch_def any_r_False felt_differs_False wire_felt_Inr num_eq_Fin
      simp del: any_r.simps dest: schedulesEqual_eq split: option.splits)

lemma verified_parts:
  assumes "verifySolverQuoteV3 sha resolve import_key verify rfq lock allow q now = Inr ()"
  obtains b r t digest where "v3_canonicalBody q = Inr b" and "rfq_v2_canonicalBody rfq = Inr r"
    and "now = jint t" and "digestPrivateRfqV2 sha rfq = Inr digest" and "\<not> rfq_mismatch digest b r"
    and "\<not> outside_window t b r" and "lock_mismatch lock allow b r = Inr False"
    and "signature_ok (v_signature q)"
  using assms
  by (auto simp: verifySolverQuoteV3_def wire_integer_Inr split: if_splits)

text \<open>The signature was verified with the key the solver had both when it quoted and now.\<close>

lemma verified_signature:
  assumes "verifySolverQuoteV3 sha resolve import_key verify rfq lock allow q (jint now) = Inr ()" and "v3_canonicalBody q = Inr b"
  shows "\<exists>text early current key. canonicalSolverQuoteV3 q = Inr text
    \<and> resolve (raw_text (v_solverId q)) (raw_text (v_quoteKeyId q)) (b_quotedAt b) = Inr early
    \<and> resolve (raw_text (v_solverId q)) (raw_text (v_quoteKeyId q)) now = Inr current
    \<and> sameJwk early current \<and> import_key current = Inr key \<and> verify text (v_signature q) key"
  using assms by (auto simp: verifySolverQuoteV3_def wire_integer_Inr split: if_splits)

section \<open>Properties\<close>

text \<open>
  C28: a quote that verified against its lock is covered by it. The lock is open and is the lock of
  this request (its identifier, its taker's commitment, its schedule, tokens and expiry) and of this
  quote (its ticket, and its transaction unless an unproven lock was allowed), every amount the quote
  prices lies in the size bucket of the request and pays at most what the lock still holds, and the
  quote was signed with the key its solver had both when it quoted and when it was verified.
\<close>

theorem verified_quote_is_covered:
  assumes "verifySolverQuoteV3 sha resolve import_key verify rfq lock allow q (jint now) = Inr ()"
    and "evaluatePriceSchedule (v_schedule q) x = Inr y"
  shows "\<exists>b r. v3_canonicalBody q = Inr b \<and> rfq_v2_canonicalBody rfq = Inr r
    \<and> lk_status lock = ''open'' \<and> lk_schedule lock = v_schedule q
    \<and> canonicalizeStarknetFelt (lk_rfqId lock) = Inr (rb_rfqFelt r) \<and> b_rfqFelt b = rb_rfqFelt r
    \<and> canonicalizeStarknetFelt (lk_takerCommitment lock) = Inr (rb_takerCommitment r)
    \<and> canonicalizeStarknetFelt (lk_ticket lock) = Inr (b_lockTicket b)
    \<and> (case lk_createdTransactionHash lock of None \<Rightarrow> allow
       | Some h \<Rightarrow> canonicalizeStarknetFelt h = Inr (b_lockTransactionHash b))
    \<and> rb_bucketMin r \<le> x \<and> x \<le> rb_bucketMax r \<and> y \<le> lk_remainingB lock
    \<and> canonicalizeStarknetFelt (lk_tokenA lock) = Inr (b_sellToken b) \<and> b_sellToken b = rb_sellToken r
    \<and> canonicalizeStarknetFelt (lk_tokenB lock) = Inr (b_buyToken b) \<and> b_buyToken b = rb_buyToken r
    \<and> digestPrivateRfqV2 sha rfq = Inr (b_rfqDigest b)
    \<and> lk_expiry lock = jint (rb_lockExpiresAt r) \<and> now < b_quoteExpiresAt b
    \<and> b_quoteExpiresAt b \<le> rb_lockExpiresAt r
    \<and> (\<exists>text early current key. canonicalSolverQuoteV3 q = Inr text
        \<and> resolve (raw_text (v_solverId q)) (raw_text (v_quoteKeyId q)) (b_quotedAt b) = Inr early
        \<and> resolve (raw_text (v_solverId q)) (raw_text (v_quoteKeyId q)) now = Inr current
        \<and> sameJwk early current \<and> import_key current = Inr key \<and> verify text (v_signature q) key)"
proof -
  obtain b r t digest where p: "v3_canonicalBody q = Inr b" "rfq_v2_canonicalBody rfq = Inr r"
      "jint now = jint t" "digestPrivateRfqV2 sha rfq = Inr digest" "\<not> rfq_mismatch digest b r"
      "\<not> outside_window t b r" "lock_mismatch lock allow b r = Inr False"
    by (rule verified_parts[OF assms(1)])
  have s: "b_schedule b = v_schedule q" "b_quoteExpiresAt b \<le> b_lockExpiresAt b"
    using p(1) by (auto simp: v3_body_Inr)
  have m: "b_rfqDigest b = digest" "b_rfqFelt b = rb_rfqFelt r" "b_sellToken b = rb_sellToken r" "b_buyToken b = rb_buyToken r"
      "b_lockExpiresAt b = rb_lockExpiresAt r" "rb_bucketMin r \<le> pt_a (hd (v_schedule q))"
      "pt_a (last (v_schedule q)) \<le> rb_bucketMax r"
    using p(5) s(1) by (auto simp: rfq_mismatch_def)
  have w: "now < b_quoteExpiresAt b"
    using p(3,6) by (auto simp: outside_window_def)
  have e: "valid_schedule (v_schedule q)" "pt_a (hd (v_schedule q)) \<le> x" "x \<le> pt_a (last (v_schedule q))"
      "y = price (v_schedule q) x"
    using assms(2) by (auto simp: evaluate_iff)
  obtain h ps where h: "v_schedule q = h # ps" "rising (h # ps)"
    using valid_Cons[OF e(1)] by blast
  have "y \<le> pt_b (last (v_schedule q))"
    using price_bounds[OF h(2)] e(2-4) by (simp add: h(1))
  with lock_matches[OF p(7)] verified_signature[OF assms(1) p(1)] p(1,2,4) s m w e show ?thesis
    by (intro exI[of _ b] exI[of _ r]) auto
qed

text \<open>
  An RFQ survives its wire format: what \<open>encodePrivateRfqV2\<close> writes is decoded, and the decoded
  RFQ has the same canonical text, so the same digest.
\<close>

lemma rfq_v2_wire_roundtrip:
  assumes "encodePrivateRfqV2 r = Inr w"
  shows "\<exists>r'. decodePrivateRfqV2 w = Inr r' \<and> canonicalPrivateRfqV2 r' = canonicalPrivateRfqV2 r
    \<and> encodePrivateRfqV2 r' = Inr w"
proof -
  obtain b where b: "rfq_v2_canonicalBody r = Inr b" and w: "w = JObj (rfq_v2_object b)"
    using assms by (auto simp: encodePrivateRfqV2_def)
  show ?thesis
    using rfq_v2_decode_object[OF b] rfq_v2_reread[OF b] b w
    by (auto simp: canonicalPrivateRfqV2_def encodePrivateRfqV2_def)
qed

text \<open>
  C31: a quote survives its wire format: what \<open>encodeSolverQuoteV3\<close> writes is decoded, with the same
  canonical text, signature and price of every amount.
\<close>

theorem quote_v3_wire_roundtrip:
  assumes "encodeSolverQuoteV3 q = Inr w"
  shows "\<exists>q'. decodeSolverQuoteV3 w = Inr q' \<and> canonicalSolverQuoteV3 q' = canonicalSolverQuoteV3 q
    \<and> v_signature q' = v_signature q \<and> v_schedule q' = v_schedule q \<and> encodeSolverQuoteV3 q' = Inr w"
proof -
  obtain b where b: "v3_canonicalBody q = Inr b" and sg: "signature_ok (v_signature q)"
      and w: "w = JObj (v3_wire b (v_signature q))"
    using assms by (auto simp: encode_v3_iff)
  have "b_schedule b = v_schedule q"
    using b by (simp add: v3_body_Inr)
  with v3_decode_object[OF b sg] v3_reread[OF b, of "v_signature q"] b sg w show ?thesis
    by (auto simp: canonicalSolverQuoteV3_def encode_v3_iff read_quote_v3_fields)
qed

text \<open>
  C32: the types a decoded quote has. Every identifier is a string and every number a non-negative
  safe integer, whatever JSON the wire held; the nonce alone is only known to have the text of a
  32-byte digest. The witness is a quote whose nonce is an array.
\<close>

theorem decoded_quote_types:
  assumes "decodeSolverQuoteV3 v = Inr q"
  shows "(\<forall>field\<in>{v_domain, v_solverId, v_quoteKeyId, v_pool, v_helper, v_escrowAddress, v_rfqDigest,
        v_rfqFelt, v_sellToken, v_buyToken, v_lockId, v_lockTicket, v_lockTransactionHash,
        v_pricingProvenance, v_signature}. \<exists>s. field q = JStr s)
    \<and> (\<forall>field\<in>{v_version, v_lockExpiresAt, v_spreadBps, v_quotedAt, v_quoteExpiresAt}.
        \<exists>n. field q = JNum (jint n) \<and> 0 \<le> n \<and> n \<le> max_safe)
    \<and> nonce_pattern (regexp_text (v_nonce q)) \<and> valid_schedule (v_schedule q)"
proof -
  obtain b where b: "v3_canonicalBody q = Inr b" and sg: "\<exists>s. v_signature q = JStr s"
    using assms by (auto simp: decodeSolverQuoteV3_def Let_def case_JStr_Inr)
  have n: "v_version q = JNum (jint 3)" "v_domain q = JStr QUOTE_V3_DOMAIN"
    using b by (auto simp: v3_body_Inr is_number_def is_text_def)
  have "\<exists>s. v_solverId q = JStr s" "\<exists>s. v_quoteKeyId q = JStr s" "\<exists>s. v_pool q = JStr s"
    "\<exists>s. v_helper q = JStr s" "\<exists>s. v_escrowAddress q = JStr s" "\<exists>s. v_rfqDigest q = JStr s"
    "\<exists>s. v_rfqFelt q = JStr s" "\<exists>s. v_sellToken q = JStr s" "\<exists>s. v_buyToken q = JStr s"
    "\<exists>s. v_lockId q = JStr s" "\<exists>s. v_lockTicket q = JStr s" "\<exists>s. v_lockTransactionHash q = JStr s"
    "\<exists>s. v_pricingProvenance q = JStr s"
    using b unfolding v3_body_Inr wire_Inr by blast+
  moreover have "\<exists>n. v_lockExpiresAt q = JNum (jint n) \<and> 0 \<le> n \<and> n \<le> max_safe"
    "\<exists>n. v_spreadBps q = JNum (jint n) \<and> 0 \<le> n \<and> n \<le> max_safe"
    "\<exists>n. v_quotedAt q = JNum (jint n) \<and> 0 \<le> n \<and> n \<le> max_safe"
    "\<exists>n. v_quoteExpiresAt q = JNum (jint n) \<and> 0 \<le> n \<and> n \<le> max_safe"
    using b by (auto simp: v3_body_Inr wire_integer_Inr)
  moreover have "\<exists>n. v_version q = JNum (jint n) \<and> 0 \<le> n \<and> n \<le> max_safe"
    unfolding n by (rule exI[of _ 3]) (simp add: max_safe_def)
  ultimately show ?thesis
    using b sg n(2) by (simp add: v3_body_Inr)
qed

section \<open>The hypotheses can hold\<close>

definition sample_rfq_body :: rfq_v2_body where
  "sample_rfq_body = \<lparr>rb_buyToken = ''0x5'', rb_chainId = ''starknet:SN_SEPOLIA'', rb_createdAt = 100,
     rb_directoryEpoch = 1, rb_expiresAt = 500, rb_lockExpiresAt = 500, rb_registryRevision = ''r1'',
     rb_responseDeadline = 200, rb_rfqFelt = ''0x9'', rb_rfqId = ''0x'' @ replicate 64 CHR ''b'',
     rb_bucketMax = 13, rb_bucketMin = 10, rb_sellToken = ''0x4'', rb_settlementHelper = ''0x7'',
     rb_takerCommitment = ''0x8''\<rparr>"

definition sample_rfq :: rfq_v2 where
  "sample_rfq = read_rfq_v2 (rfq_v2_object sample_rfq_body) 10 13"

definition sample_v3_body :: "jsval \<Rightarrow> quote_v3_body" where
  "sample_v3_body nonce = \<lparr>b_buyToken = ''0x5'', b_escrowAddress = ''0x7'', b_helper = ''0x7'',
     b_lockExpiresAt = 500, b_lockId = ''0xa'', b_lockTicket = ''0xb'', b_lockTransactionHash = ''0xc'',
     b_nonce = nonce, b_pool = ''starknet:SN_SEPOLIA'', b_pricingProvenance = ''book'',
     b_quoteExpiresAt = 400, b_quoteKeyId = ''key'', b_quotedAt = 150,
     b_rfqDigest = ''0x'' @ replicate 64 CHR ''d'', b_rfqFelt = ''0x9'', b_schedule = sample_schedule,
     b_sellToken = ''0x4'', b_solverId = ''maker'', b_spreadBps = 50\<rparr>"

definition sample_v3 :: "jsval \<Rightarrow> quote_v3" where
  "sample_v3 nonce = read_quote_v3 (v3_wire (sample_v3_body nonce) (JStr sample_signature)) sample_schedule"

definition sample_lock :: lock_on_chain where
  "sample_lock = \<lparr>lk_rfqId = ''0x9'', lk_takerCommitment = ''0x8'', lk_tokenA = ''0x4'', lk_tokenB = ''0x5'',
     lk_expiry = Fin 500, lk_schedule = sample_schedule, lk_remainingB = 30, lk_ticket = ''0xb'',
     lk_createdTransactionHash = Some ''0xc'', lk_status = ''open''\<rparr>"

lemma sample_canonical_felts [simp]:
  "canonicalizeStarknetFelt ''0x4'' = Inr ''0x4''" "canonicalizeStarknetFelt ''0x5'' = Inr ''0x5''"
  "canonicalizeStarknetFelt ''0x7'' = Inr ''0x7''" "canonicalizeStarknetFelt ''0x8'' = Inr ''0x8''"
  "canonicalizeStarknetFelt ''0x9'' = Inr ''0x9''" "canonicalizeStarknetFelt ''0xa'' = Inr ''0xa''"
  "canonicalizeStarknetFelt ''0xb'' = Inr ''0xb''" "canonicalizeStarknetFelt ''0xc'' = Inr ''0xc''"
  by (simp_all add: eval_simps)

lemma sample_digest:
  assumes "is_hex_lower c"
  shows "wire_digest (JStr (''0x'' @ replicate 64 c)) l = Inr (''0x'' @ replicate 64 c)"
proof -
  have h: "hex_digits 64 (''0x'' @ replicate 64 c)"
    using assms by (simp add: hex_digits_def list_all_iff)
  then have "hex_digits_ci 64 (''0x'' @ replicate 64 c)"
    by (auto simp: hex_digits_def hex_digits_ci_def list_all_iff is_hex_lower_is_hex)
  with h show ?thesis
    using trim_hex_digits_ci[of 64 "''0x'' @ replicate 64 c"] hex_digits_lowercase[OF h]
    by (simp add: wire_digest_Inr)
qed

lemma sample_hex_chars: "is_hex_lower CHR ''b''" "is_hex_lower CHR ''d''"
  by (simp_all add: is_hex_lower_def is_digit_def code_def)

lemma sample_rfq_ok: "rfq_v2_canonicalBody sample_rfq = Inr sample_rfq_body"
  unfolding sample_rfq_def rfq_v2_body_Inr read_rfq_v2_fields unfolding sample_rfq_body_def
  using sample_digest[OF sample_hex_chars(1)]
  by (simp add: is_number_def is_text_def wire_felt_Inr wire_integer_Inr wire_pool_Inr wire_text_Inr
      requireBucketAmount_Inr rfq_max_u128_def max_safe_def MAX_RFQ_LIFETIME_SECONDS_def trim_id is_ws_def code_def)

lemma sample_v3_ok:
  assumes "nonce_pattern (regexp_text nonce)"
  shows "v3_canonicalBody (sample_v3 nonce) = Inr (sample_v3_body nonce)"
  unfolding sample_v3_def v3_body_Inr read_quote_v3_fields unfolding sample_v3_body_def
  using sample_digest[OF sample_hex_chars(2)] assms sample_schedule_valid
  by (simp add: is_number_def is_text_def wire_felt_Inr wire_integer_Inr wire_pool_Inr wire_text_Inr
      max_safe_def trim_id is_ws_def code_def)

lemma sample_nonce_array: "nonce_pattern (regexp_text (JArr [JStr sample_nonce]))"
  using sample_nonces by simp

lemma sample_v3_signature: "v_signature (sample_v3 nonce) = JStr sample_signature"
  by (simp add: sample_v3_def read_quote_v3_fields)

lemma sample_encoded:
  "nonce_pattern (regexp_text nonce) \<Longrightarrow>
   encodeSolverQuoteV3 (sample_v3 nonce) = Inr (JObj (v3_wire (sample_v3_body nonce) (JStr sample_signature)))"
  unfolding encode_v3_iff sample_v3_signature
  using sample_v3_ok sample_signature_canonical by (auto simp: signature_ok_def)

lemma rfq_v2_wire_roundtrip_witness:
  "\<exists>r'. decodePrivateRfqV2 (JObj (rfq_v2_object sample_rfq_body)) = Inr r'"
proof -
  have "encodePrivateRfqV2 sample_rfq = Inr (JObj (rfq_v2_object sample_rfq_body))"
    by (simp add: encodePrivateRfqV2_def sample_rfq_ok)
  from rfq_v2_wire_roundtrip[OF this] show ?thesis
    by blast
qed

theorem quote_v3_wire_roundtrip_witness:
  "\<exists>q'. decodeSolverQuoteV3 (JObj (v3_wire (sample_v3_body (JStr sample_nonce)) (JStr sample_signature))) = Inr q'
     \<and> v_schedule q' = sample_schedule"
proof -
  have "nonce_pattern (regexp_text (JStr sample_nonce))"
    using sample_nonces by simp
  from quote_v3_wire_roundtrip[OF sample_encoded[OF this]] show ?thesis
    by (auto simp: sample_v3_def read_quote_v3_fields)
qed

theorem decoded_quote_types_witness:
  "\<exists>q. decodeSolverQuoteV3 (JObj (v3_wire (sample_v3_body (JArr [JStr sample_nonce])) (JStr sample_signature))) = Inr q
     \<and> v_nonce q = JArr [JStr sample_nonce] \<and> valid_schedule (v_schedule q)"
proof -
  let ?b = "sample_v3_body (JArr [JStr sample_nonce])"
  have "decodeSolverQuoteV3 (JObj (v3_wire ?b (JStr sample_signature)))
      = Inr (read_quote_v3 (v3_wire ?b (JStr sample_signature)) (b_schedule ?b))"
    using sample_signature_canonical
    by (intro v3_decode_object[OF sample_v3_ok[OF sample_nonce_array]]) (simp add: signature_ok_def)
  with decoded_quote_types[OF this] show ?thesis
    by (simp add: read_quote_v3_fields) (simp add: sample_v3_body_def)
qed

lemma sample_lock_matches: "lock_mismatch sample_lock False (sample_v3_body nonce) sample_rfq_body = Inr False"
  using sample_schedule_valid assertPriceSchedule_iff[of sample_schedule]
  by (simp add: lock_mismatch_def sample_lock_def sample_v3_body_def sample_rfq_body_def felt_differs_def
      wire_felt_def schedulesEqual_def rfq_max_u128_def)
    (simp add: sample_schedule_def)

lemma sample_context:
  "\<not> rfq_mismatch (''0x'' @ replicate 64 CHR ''d'') (sample_v3_body nonce) sample_rfq_body"
  "\<not> outside_window 160 (sample_v3_body nonce) sample_rfq_body"
  by (simp_all add: rfq_mismatch_def outside_window_def sample_v3_body_def sample_rfq_body_def
        QUOTE_CLOCK_SKEW_SECONDS_def sample_schedule_def)

abbreviation sample_key :: jwk where
  "sample_key \<equiv> \<lparr>jwk_kty = None, jwk_crv = None, jwk_x = None, jwk_y = None\<rparr>"

lemma sample_v3_verified:
  assumes "nonce_pattern (regexp_text nonce)"
  shows "verifySolverQuoteV3 (\<lambda>_. ''0x'' @ replicate 64 CHR ''d'') (\<lambda>_ _ _. Inr sample_key) Inr
    (\<lambda>_ _ _. True) sample_rfq sample_lock False (sample_v3 nonce) (jint 160) = Inr ()"
proof -
  have b: "v3_canonicalBody (sample_v3 nonce) = Inr (sample_v3_body nonce)"
    by (rule sample_v3_ok[OF assms])
  have sg: "signature_ok (v_signature (sample_v3 nonce))"
    by (simp add: sample_v3_signature signature_ok_def sample_signature_canonical)
  have t: "wire_integer (JNum (jint 160)) ''now'' 1 = Inr 160"
    by (simp add: wire_integer_Inr max_safe_def)
  show ?thesis
    unfolding verifySolverQuoteV3_def canonicalSolverQuoteV3_def digestPrivateRfqV2_def
      canonicalPrivateRfqV2_def b t sample_rfq_ok bind_r_Inr sample_lock_matches
    using sg sample_context by (simp add: sameJwk_def)
qed

theorem verified_quote_is_covered_witness:
  "\<exists>b r. v3_canonicalBody (sample_v3 (JStr sample_nonce)) = Inr b \<and> rfq_v2_canonicalBody sample_rfq = Inr r
     \<and> lk_schedule sample_lock = v_schedule (sample_v3 (JStr sample_nonce))
     \<and> rb_bucketMin r \<le> 11 \<and> 11 \<le> rb_bucketMax r \<and> 23 \<le> lk_remainingB sample_lock"
proof -
  have n: "nonce_pattern (regexp_text (JStr sample_nonce))"
    using sample_nonces by simp
  have sched: "v_schedule (sample_v3 nonce) = sample_schedule" for nonce
    by (simp add: sample_v3_def read_quote_v3_fields)
  have "evaluatePriceSchedule (v_schedule (sample_v3 (JStr sample_nonce))) 11 = Inr 23"
    using sample_schedule_valid unfolding evaluate_iff sched by (simp add: sample_schedule_def segment_def)
  from verified_quote_is_covered[OF sample_v3_verified[OF n] this] show ?thesis
    by blast
qed

end
