(* ===== verification/Fill_Selection.thy ===== *)
theory Fill_Selection
  imports Quote_V3
begin

text \<open>
  How a taker's exact amount is split over the quotes of version 3
  (packages/private-intents/src/selection-v3.ts): the best quote that covers it alone, or else a
  greedy split over at most four quotes in the order of their unit price at full depth.
\<close>

record selected_fill =
  sf_quote :: quote_v3
  sf_amountA :: int
  sf_amountB :: int

datatype refusal = InsufficientDepth | BelowTakerFloor | NoQuotes

datatype selection = SelectedFills "selected_fill list" int | RefusedFills refusal

definition compareText :: "string comparator" where
  "compareText l r = (if l < r then - 1 else if r < l then 1 else 0)"

definition raw_number :: "jsval \<Rightarrow> jsnum" where
  "raw_number v = (case v of JNum n \<Rightarrow> n | _ \<Rightarrow> NaN)"

definition quoteFallback :: "quote_v3 comparator" where
  "quoteFallback l r =
     (let lockOrder = compareText (raw_text (v_lockId l)) (raw_text (v_lockId r)) in
      if lockOrder \<noteq> 0 then lockOrder
      else compareText (regexp_text (v_nonce l)) (regexp_text (v_nonce r)))"

definition selected :: "selected_fill list \<Rightarrow> int \<Rightarrow> selection" where
  "selected fills floorBuyAmount =
     (let totalB = foldl (\<lambda>total f. total + sf_amountB f) 0 fills in
      if totalB < floorBuyAmount then RefusedFills BelowTakerFloor else SelectedFills fills totalB)"

definition covers :: "int \<Rightarrow> quote_v3 \<Rightarrow> bool" where
  "covers x q = (pt_a (hd (v_schedule q)) \<le> x \<and> x \<le> pt_a (last (v_schedule q)))"

definition price_quote :: "int \<Rightarrow> quote_v3 \<Rightarrow> selected_fill result" where
  "price_quote x q = bind_r (evaluatePriceSchedule (v_schedule q) x)
     (\<lambda>b. Inr \<lparr>sf_quote = q, sf_amountA = x, sf_amountB = b\<rparr>)"

definition single_order :: "selected_fill comparator" where
  "single_order l r =
     (if sf_amountB l \<noteq> sf_amountB r then (if sf_amountB r < sf_amountB l then - 1 else 1)
      else let le = raw_number (v_quoteExpiresAt (sf_quote l)); re = raw_number (v_quoteExpiresAt (sf_quote r)) in
        if \<not> num_eq le re then (if num_lt re le then - 1 else 1)
        else let solverOrder = compareText (raw_text (v_solverId (sf_quote l))) (raw_text (v_solverId (sf_quote r))) in
          if solverOrder \<noteq> 0 then solverOrder else quoteFallback (sf_quote l) (sf_quote r))"

definition unit_price :: "quote_v3 \<Rightarrow> (quote_v3 \<times> int) result" where
  "unit_price q = bind_r (scheduleUnitPriceE18 (v_schedule q) (pt_a (last (v_schedule q))))
     (\<lambda>p. Inr (q, p))"

definition depth_order :: "(quote_v3 \<times> int) comparator" where
  "depth_order l r =
     (if snd l \<noteq> snd r then (if snd r < snd l then - 1 else 1)
      else let solverOrder = compareText (raw_text (v_solverId (fst l))) (raw_text (v_solverId (fst r))) in
        if solverOrder \<noteq> 0 then solverOrder else quoteFallback (fst l) (fst r))"

fun greedy :: "int \<Rightarrow> int \<Rightarrow> selected_fill list \<Rightarrow> quote_v3 list \<Rightarrow> (int \<times> selected_fill list) result" where
  "greedy maxFills remainder fills [] = Inr (remainder, fills)"
| "greedy maxFills remainder fills (q # qs) =
     (if remainder = 0 \<or> maxFills \<le> int (length fills) then Inr (remainder, fills)
      else let first = hd (v_schedule q); final = last (v_schedule q);
               amountA = (if remainder < pt_a final then remainder else pt_a final) in
        if amountA < pt_a first then greedy maxFills remainder fills qs
        else bind_r (price_quote amountA q) (\<lambda>f.
          greedy maxFills (remainder - amountA) (fills @ [f]) qs))"

definition require_max_fills :: "jsnum option \<Rightarrow> int result" where
  "require_max_fills m =
     (case as_safe_int (case m of None \<Rightarrow> jint 4 | Some v \<Rightarrow> v) of
        None \<Rightarrow> Inl (PrivateIntentError ''maxFills must be an integer in [1, 4].'')
      | Some n \<Rightarrow> if n < 1 \<or> 4 < n then Inl (PrivateIntentError ''maxFills must be an integer in [1, 4].'')
          else Inr n)"

definition selectFillsV3 :: "quote_v3 list \<Rightarrow> int \<Rightarrow> int \<Rightarrow> jsnum option \<Rightarrow> selection result" where
  "selectFillsV3 quotes exactSellAmount floorBuyAmount maxFills =
     (if exactSellAmount \<le> 0 \<or> schedule_max_u128 < exactSellAmount
      then Inl (PrivateIntentError ''exactSellAmount must be a positive u128 value.'')
      else if floorBuyAmount < 0
      then Inl (PrivateIntentError ''floorBuyAmount must be a non-negative bigint.'')
      else bind_r (require_max_fills maxFills) (\<lambda>m.
        if quotes = [] then Inr (RefusedFills NoQuotes)
        else bind_r (map_r (\<lambda>q. assertPriceSchedule (v_schedule q)) quotes) (\<lambda>_.
        bind_r (map_r (price_quote exactSellAmount) (filter (covers exactSellAmount) quotes)) (\<lambda>candidates.
        case sort_by single_order candidates of
          best # _ \<Rightarrow> Inr (selected [best] floorBuyAmount)
        | [] \<Rightarrow>
            bind_r (map_r unit_price quotes) (\<lambda>priced.
            bind_r (greedy m exactSellAmount [] (map fst (sort_by depth_order priced))) (\<lambda>(remainder, fills).
            if 0 < remainder then Inr (RefusedFills InsufficientDepth)
            else Inr (selected fills floorBuyAmount)))))))"

section \<open>Orders\<close>

text \<open>
  Both orders are put together from the orders of their keys, and separate quotes of different
  locks or nonces.
\<close>

lemma compareText_asc: "compareText = cmp_asc"
  by (auto simp: compareText_def cmp_asc_def fun_eq_iff)

definition quote_keys :: "quote_v3 \<Rightarrow> string \<times> string" where
  "quote_keys q = (raw_text (v_lockId q), regexp_text (v_nonce q))"

lemma quoteFallback_then:
  "quoteFallback = cmp_then (cmp_on (\<lambda>q. fst (quote_keys q)) cmp_asc) (cmp_on (\<lambda>q. snd (quote_keys q)) cmp_asc)"
  by (auto simp: quoteFallback_def quote_keys_def cmp_then_def cmp_on_def compareText_asc Let_def fun_eq_iff)

lemma quoteFallback_laws: "comparator_laws quoteFallback"
  unfolding quoteFallback_then by (intro comparator_then comparator_on comparator_asc)

lemma quoteFallback_zero: "quoteFallback l r = 0 \<Longrightarrow> quote_keys l = quote_keys r"
  by (auto simp: quoteFallback_then cmp_then_def cmp_on_def prod_eq_iff split: if_splits)

definition int_number :: "jsval \<Rightarrow> int" where
  "int_number v = (case as_integer (raw_number v) of Some n \<Rightarrow> n | None \<Rightarrow> 0)"

definition single_key_order :: "selected_fill comparator" where
  "single_key_order = cmp_then (cmp_on sf_amountB cmp_desc)
     (cmp_then (cmp_on (\<lambda>f. int_number (v_quoteExpiresAt (sf_quote f))) cmp_desc)
       (cmp_then (cmp_on (\<lambda>f. raw_text (v_solverId (sf_quote f))) cmp_asc) (cmp_on sf_quote quoteFallback)))"

lemma single_key_order_laws: "comparator_laws single_key_order"
  unfolding single_key_order_def
  by (intro comparator_then comparator_on comparator_desc comparator_asc quoteFallback_laws)

lemma single_order_eq:
  assumes "v_quoteExpiresAt (sf_quote l) = JNum (jint a)" and "v_quoteExpiresAt (sf_quote r) = JNum (jint b)"
  shows "single_order l r = single_key_order l r"
  using assms by (auto simp: single_order_def single_key_order_def cmp_then_def cmp_on_def cmp_desc_def
      compareText_asc cmp_asc_def int_number_def raw_number_def Let_def)

lemma depth_order_then:
  "depth_order = cmp_then (cmp_on snd cmp_desc)
     (cmp_then (cmp_on (\<lambda>p. raw_text (v_solverId (fst p))) cmp_asc) (cmp_on fst quoteFallback))"
  by (auto simp: depth_order_def cmp_then_def cmp_on_def cmp_desc_def cmp_asc_def compareText_asc Let_def fun_eq_iff)

interpretation depth: comparator_laws depth_order
  unfolding depth_order_then
  by (intro comparator_then comparator_on comparator_desc comparator_asc quoteFallback_laws)

interpretation single: comparator_laws single_key_order
  by (rule single_key_order_laws)

lemma single_key_zero: "single_key_order l r = 0 \<Longrightarrow> quote_keys (sf_quote l) = quote_keys (sf_quote r)"
  by (auto simp: single_key_order_def cmp_then_def cmp_on_def split: if_splits intro: quoteFallback_zero)

lemma depth_zero: "depth_order l r = 0 \<Longrightarrow> quote_keys (fst l) = quote_keys (fst r)"
  by (auto simp: depth_order_then cmp_then_def cmp_on_def split: if_splits intro: quoteFallback_zero)

lemma single_key_amount: "single_key_order l r \<le> 0 \<Longrightarrow> sf_amountB r \<le> sf_amountB l"
  by (auto simp: single_key_order_def cmp_then_def cmp_on_def cmp_desc_def cmp_asc_def split: if_splits)

section \<open>What the selection returns\<close>

definition priced_fill :: "selected_fill \<Rightarrow> bool" where
  "priced_fill f = (evaluatePriceSchedule (v_schedule (sf_quote f)) (sf_amountA f) = Inr (sf_amountB f))"

lemma price_quote_Inr:
  "price_quote x q = Inr f \<longleftrightarrow> sf_quote f = q \<and> sf_amountA f = x \<and> priced_fill f"
  by (cases f) (auto simp: price_quote_def priced_fill_def)

lemma submset_add: "A \<subseteq># B \<Longrightarrow> A \<subseteq># add_mset q B"
  by (metis add_mset_add_single mset_subset_eq_add_left subset_mset.order_trans)

lemma greedy_spec:
  assumes "greedy m remainder fills qs = Inr (unsold, fs)" and "0 \<le> remainder"
  shows "\<exists>gs. fs = fills @ gs \<and> (\<Sum>f\<leftarrow>gs. sf_amountA f) + unsold = remainder \<and> 0 \<le> unsold
    \<and> (\<forall>f\<in>set gs. priced_fill f) \<and> mset (map sf_quote gs) \<subseteq># mset qs
    \<and> (gs = [] \<or> int (length fs) \<le> m)"
  using assms
proof (induction qs arbitrary: remainder fills)
  case Nil
  then show ?case by simp
next
  case (Cons q qs)
  define x where "x = (if remainder < pt_a (last (v_schedule q)) then remainder else pt_a (last (v_schedule q)))"
  consider "remainder = 0 \<or> m \<le> int (length fills)"
    | "remainder \<noteq> 0" "int (length fills) < m" "x < pt_a (hd (v_schedule q))"
    | "remainder \<noteq> 0" "int (length fills) < m" "pt_a (hd (v_schedule q)) \<le> x"
    by linarith
  then show ?case
  proof cases
    case 1
    with Cons.prems show ?thesis by auto
  next
    case 2
    then have "greedy m remainder fills qs = Inr (unsold, fs)"
      using Cons.prems(1) by (auto simp: x_def Let_def)
    from Cons.IH[OF this Cons.prems(2)] show ?thesis
      by (auto intro: submset_add)
  next
    case 3
    then obtain f where f: "price_quote x q = Inr f" "greedy m (remainder - x) (fills @ [f]) qs = Inr (unsold, fs)"
      using Cons.prems(1) by (auto simp: x_def Let_def split: if_splits)
    have "0 \<le> remainder - x"
      by (simp add: x_def)
    from Cons.IH[OF f(2) this] obtain gs where gs: "fs = (fills @ [f]) @ gs"
        "(\<Sum>f\<leftarrow>gs. sf_amountA f) + unsold = remainder - x" "0 \<le> unsold" "\<forall>f\<in>set gs. priced_fill f"
        "mset (map sf_quote gs) \<subseteq># mset qs" "gs = [] \<or> int (length fs) \<le> m"
      by blast
    have "sf_quote f = q" "sf_amountA f = x" "priced_fill f"
      using f(1) by (auto simp: price_quote_Inr)
    then show ?thesis
      using gs 3(2) by (intro exI[of _ "f # gs"]) auto
  qed
qed

lemma foldl_amounts: "foldl (\<lambda>total f. total + sf_amountB f) t fs = t + (\<Sum>f\<leftarrow>fs. sf_amountB f)"
  by (induction fs arbitrary: t) auto

lemma selected_iff:
  "selected fs floorB = SelectedFills gs totalB \<longleftrightarrow>
     gs = fs \<and> totalB = (\<Sum>f\<leftarrow>fs. sf_amountB f) \<and> floorB \<le> totalB"
  by (auto simp: selected_def Let_def foldl_amounts)

lemma require_max_fills_Inr: "require_max_fills m = Inr k \<Longrightarrow> 1 \<le> k \<and> k \<le> 4"
  by (auto simp: require_max_fills_def split: option.splits if_splits)

text \<open>The two ways to a result, once the arguments are accepted.\<close>

definition arguments_ok :: "quote_v3 list \<Rightarrow> int \<Rightarrow> int \<Rightarrow> jsnum option \<Rightarrow> int \<Rightarrow> bool" where
  "arguments_ok qs x floorB m k =
     (0 < x \<and> x \<le> schedule_max_u128 \<and> 0 \<le> floorB \<and> require_max_fills m = Inr k
      \<and> (\<forall>q\<in>set qs. valid_schedule (v_schedule q)))"

definition candidates :: "int \<Rightarrow> quote_v3 list \<Rightarrow> selected_fill list" where
  "candidates x qs = map (\<lambda>q. projr (price_quote x q)) (filter (covers x) qs)"

definition by_depth :: "quote_v3 list \<Rightarrow> quote_v3 list" where
  "by_depth qs = map fst (sort_by depth_order (map (\<lambda>q. projr (unit_price q)) qs))"

lemma covers_priced: "valid_schedule (v_schedule q) \<Longrightarrow> covers x q \<Longrightarrow> is_ok (price_quote x q)"
  by (auto simp: is_ok_iff price_quote_def covers_def evaluate_iff)

lemma assert_ok: "is_ok (assertPriceSchedule s) \<longleftrightarrow> valid_schedule s"
  by (auto simp: is_ok_iff simp flip: assertPriceSchedule_iff)

lemma unit_price_ok: "valid_schedule (v_schedule q) \<Longrightarrow> is_ok (unit_price q) \<and> fst (projr (unit_price q)) = q"
proof -
  assume v: "valid_schedule (v_schedule q)"
  then obtain p ps where "v_schedule q = p # ps" "rising (p # ps)"
    using valid_Cons by blast
  then have "\<exists>v. evaluatePriceSchedule (v_schedule q) (pt_a (last (v_schedule q))) = Inr v"
    using v rising_last[of p ps] by (auto simp: evaluate_iff)
  then show ?thesis
    by (auto simp: unit_price_def scheduleUnitPriceE18_def)
qed

lemma selectFillsV3_cases:
  "selectFillsV3 qs x floorB m = Inr res \<longleftrightarrow> (\<exists>k. 0 < x \<and> x \<le> schedule_max_u128 \<and> 0 \<le> floorB
     \<and> require_max_fills m = Inr k
     \<and> (if qs = [] then res = RefusedFills NoQuotes
        else arguments_ok qs x floorB m k
          \<and> (case sort_by single_order (candidates x qs) of
               best # _ \<Rightarrow> res = selected [best] floorB
             | [] \<Rightarrow> \<exists>unsold fs. greedy k x [] (by_depth qs) = Inr (unsold, fs)
                 \<and> res = (if 0 < unsold then RefusedFills InsufficientDepth else selected fs floorB))))"
proof (cases "0 < x \<and> x \<le> schedule_max_u128 \<and> 0 \<le> floorB \<and> is_ok (require_max_fills m)
    \<and> qs \<noteq> [] \<and> (\<forall>q\<in>set qs. valid_schedule (v_schedule q))")
  case True
  then obtain k where k: "require_max_fills m = Inr k" and v: "\<forall>q\<in>set qs. valid_schedule (v_schedule q)"
    by (auto simp: is_ok_iff)
  have a: "map_r (\<lambda>q. assertPriceSchedule (v_schedule q)) qs = Inr (map (\<lambda>q. projr (assertPriceSchedule (v_schedule q))) qs)"
    using v by (simp add: map_r_projr assert_ok)
  have c: "map_r (price_quote x) (filter (covers x) qs) = Inr (candidates x qs)"
    using v covers_priced by (auto simp: map_r_projr candidates_def)
  have u: "map_r unit_price qs = Inr (map (\<lambda>q. projr (unit_price q)) qs)"
    using v unit_price_ok by (simp add: map_r_projr)
  show ?thesis
    using True k by (simp add: selectFillsV3_def a c u arguments_ok_def by_depth_def eq_commute[of _ res]
        split: list.split)
next
  case False
  then show ?thesis
    by (auto simp: selectFillsV3_def arguments_ok_def is_ok_iff map_r_projr assertPriceSchedule_iff)
qed

lemma candidates_priced:
  assumes "\<forall>q\<in>set qs. valid_schedule (v_schedule q)"
  shows "f \<in> set (candidates x qs) \<longleftrightarrow> sf_quote f \<in> set qs \<and> sf_amountA f = x \<and> priced_fill f"
proof -
  have p: "projr (price_quote x q) = f \<longleftrightarrow> sf_quote f = q \<and> sf_amountA f = x \<and> priced_fill f"
    if "q \<in> set qs" "covers x q" for q
    using covers_priced[of q x] assms that by (auto simp: is_ok_iff simp flip: price_quote_Inr)
  have "covers x (sf_quote f)" if "sf_amountA f = x" "priced_fill f"
    using that by (auto simp: priced_fill_def covers_def evaluate_iff)
  moreover have "f \<in> set (candidates x qs) \<longleftrightarrow> (\<exists>q\<in>set qs. covers x q \<and> projr (price_quote x q) = f)"
    by (auto simp: candidates_def)
  ultimately show ?thesis
    using p by metis
qed

lemma by_depth_mset:
  assumes "\<forall>q\<in>set qs. valid_schedule (v_schedule q)"
  shows "mset (by_depth qs) = mset qs"
proof -
  have "map (\<lambda>q. fst (projr (unit_price q))) qs = qs"
    using assms unit_price_ok by (intro map_idI) auto
  then have "mset (map fst (map (\<lambda>q. projr (unit_price q)) qs)) = mset qs"
    by (simp add: comp_def)
  moreover have "mset (by_depth qs) = mset (map fst (map (\<lambda>q. projr (unit_price q)) qs))"
    by (simp add: by_depth_def image_mset.compositionality comp_def)
  ultimately show ?thesis
    by simp
qed

lemma single_order_perm:
  assumes "\<forall>f\<in>set fs. \<exists>n. v_quoteExpiresAt (sf_quote f) = JNum (jint n)"
  shows "sort_by single_order fs = sort_by single_key_order fs"
  using assms by (intro sort_by_cong) (metis single_order_eq)

section \<open>Properties\<close>

text \<open>
  C29: a selection sells exactly the amount asked for. Its fills are over distinct quotes of the
  request, at most as many as allowed, each priced by the schedule of its quote; together they pay
  the stated total, which meets the floor. When some quote covers the amount alone, there is a
  single fill, and no quote pays more for the whole amount.
\<close>

theorem selection_fills_exactly:
  assumes "selectFillsV3 qs x floorB m = Inr (SelectedFills fs totalB)"
    and "\<forall>q\<in>set qs. \<exists>n. v_quoteExpiresAt q = JNum (jint n)"
  shows "(\<Sum>f\<leftarrow>fs. sf_amountA f) = x \<and> totalB = (\<Sum>f\<leftarrow>fs. sf_amountB f) \<and> floorB \<le> totalB
    \<and> (\<exists>k. require_max_fills m = Inr k \<and> int (length fs) \<le> k)
    \<and> (\<forall>f\<in>set fs. priced_fill f) \<and> mset (map sf_quote fs) \<subseteq># mset qs
    \<and> (\<forall>q\<in>set qs. \<forall>y. evaluatePriceSchedule (v_schedule q) x = Inr y \<longrightarrow> length fs = 1 \<and> y \<le> totalB)"
proof -
  have ne: "qs \<noteq> []"
    using assms(1) by (auto simp: selectFillsV3_cases)
  obtain k where k: "require_max_fills m = Inr k" and ok: "arguments_ok qs x floorB m k"
    and res: "case sort_by single_order (candidates x qs) of
        best # _ \<Rightarrow> SelectedFills fs totalB = selected [best] floorB
      | [] \<Rightarrow> \<exists>unsold gs. greedy k x [] (by_depth qs) = Inr (unsold, gs)
          \<and> SelectedFills fs totalB = (if 0 < unsold then RefusedFills InsufficientDepth else selected gs floorB)"
    using assms(1) unfolding selectFillsV3_cases if_not_P[OF ne] by blast
  have v: "\<forall>q\<in>set qs. valid_schedule (v_schedule q)" and x: "0 < x"
    using ok by (auto simp: arguments_ok_def)
  have k14: "1 \<le> k"
    using require_max_fills_Inr[OF k] by simp
  have covered: "\<exists>f\<in>set (candidates x qs). sf_quote f = q \<and> sf_amountB f = y"
    if "q \<in> set qs" "evaluatePriceSchedule (v_schedule q) x = Inr y" for q y
    using that by (intro bexI[of _ "\<lparr>sf_quote = q, sf_amountA = x, sf_amountB = y\<rparr>"])
      (auto simp: candidates_priced[OF v] priced_fill_def)
  show ?thesis
  proof (cases "sort_by single_order (candidates x qs)")
    case Nil
    then obtain unsold where g: "greedy k x [] (by_depth qs) = Inr (unsold, fs)" "\<not> 0 < unsold"
        "totalB = (\<Sum>f\<leftarrow>fs. sf_amountB f)" "floorB \<le> totalB"
      using res by (auto simp: eq_commute[of "SelectedFills fs totalB"] selected_iff split: if_splits)
    have "candidates x qs = []"
      using Nil by simp
    then have none: "\<forall>q\<in>set qs. \<forall>y. evaluatePriceSchedule (v_schedule q) x \<noteq> Inr y"
      using covered by fastforce
    from greedy_spec[OF g(1)] x g(2) have "(\<Sum>f\<leftarrow>fs. sf_amountA f) = x" "\<forall>f\<in>set fs. priced_fill f"
      "mset (map sf_quote fs) \<subseteq># mset (by_depth qs)" "fs = [] \<or> int (length fs) \<le> k"
      by auto
    then show ?thesis
      using g k k14 none by (auto simp: by_depth_mset[OF v])
  next
    case (Cons best rest)
    then have fs: "fs = [best]" "totalB = sf_amountB best" "floorB \<le> totalB"
      using res by (auto simp: eq_commute[of "SelectedFills fs totalB"] selected_iff)
    have exp: "\<forall>f\<in>set (candidates x qs). \<exists>n. v_quoteExpiresAt (sf_quote f) = JNum (jint n)"
      using assms(2) by (auto simp: candidates_priced[OF v])
    have sorted: "sort_by single_key_order (candidates x qs) = best # rest"
      using Cons single_order_perm[OF exp] by simp
    have best: "sf_quote best \<in> set qs" "sf_amountA best = x" "priced_fill best"
      using Cons candidates_priced[OF v, of best x] set_sort_by[of single_order "candidates x qs"] by auto
    have "y \<le> sf_amountB best" if q: "q \<in> set qs" "evaluatePriceSchedule (v_schedule q) x = Inr y" for q y
    proof -
      obtain f where "f \<in> set (candidates x qs)" "sf_amountB f = y"
        using covered[OF q] by blast
      with single.sort_by_head_least[OF sorted] single_key_amount show ?thesis
        by blast
    qed
    then show ?thesis
      using fs best k k14 by auto
  qed
qed

text \<open>
  C30: the selection does not depend on the order of arrival: any permutation of quotes that differ
  in lock or nonce gives the same result.
\<close>

theorem selection_order_independent:
  assumes "mset qs' = mset qs" and "inj_on quote_keys (set qs)"
    and "\<forall>q\<in>set qs. \<exists>n. v_quoteExpiresAt q = JNum (jint n)"
  shows "selectFillsV3 qs' x floorB m = Inr res \<longleftrightarrow> selectFillsV3 qs x floorB m = Inr res"
proof -
  have sets: "set qs' = set qs" and empty: "qs' = [] \<longleftrightarrow> qs = []"
    using assms(1) by (auto dest: mset_eq_setD)
  have same: "sort_by single_order (candidates x qs') = sort_by single_order (candidates x qs)
      \<and> by_depth qs' = by_depth qs" if v: "\<forall>q\<in>set qs. valid_schedule (v_schedule q)"
  proof
    have "mset (candidates x qs') = mset (candidates x qs)"
      using assms(1) by (simp add: candidates_def)
    moreover have "l = r" if "l \<in> set (candidates x qs')" "r \<in> set (candidates x qs')" "single_key_order l r = 0" for l r
    proof -
      have m: "sf_quote l \<in> set qs" "sf_quote r \<in> set qs" "sf_amountA l = x" "sf_amountA r = x"
          "priced_fill l" "priced_fill r"
        using that(1,2) candidates_priced[of qs' _ x] v sets by auto
      then have "sf_quote l = sf_quote r"
        using assms(2) single_key_zero[OF that(3)] by (auto dest: inj_onD)
      with m show ?thesis
        by (cases l; cases r) (auto simp: priced_fill_def)
    qed
    ultimately have "sort_by single_key_order (candidates x qs') = sort_by single_key_order (candidates x qs)"
      by (rule single.sort_by_perm_on)
    moreover have "\<forall>f\<in>set (candidates x qs'). \<exists>n. v_quoteExpiresAt (sf_quote f) = JNum (jint n)"
      "\<forall>f\<in>set (candidates x qs). \<exists>n. v_quoteExpiresAt (sf_quote f) = JNum (jint n)"
      using assms(3) candidates_priced[of qs' _ x] candidates_priced[of qs _ x] v sets by auto
    ultimately show "sort_by single_order (candidates x qs') = sort_by single_order (candidates x qs)"
      by (simp add: single_order_perm)
    have "sort_by depth_order (map (\<lambda>q. projr (unit_price q)) qs') = sort_by depth_order (map (\<lambda>q. projr (unit_price q)) qs)"
    proof (rule depth.sort_by_perm_on)
      show "mset (map (\<lambda>q. projr (unit_price q)) qs') = mset (map (\<lambda>q. projr (unit_price q)) qs)"
        using assms(1) by simp
      show "l = r" if "l \<in> set (map (\<lambda>q. projr (unit_price q)) qs')" "r \<in> set (map (\<lambda>q. projr (unit_price q)) qs')"
          "depth_order l r = 0" for l r
        using that depth_zero[OF that(3)] unit_price_ok v sets assms(2) by (auto dest: inj_onD)
    qed
    then show "by_depth qs' = by_depth qs"
      by (simp add: by_depth_def)
  qed
  have args: "arguments_ok qs' x floorB m k = arguments_ok qs x floorB m k" for k
    by (simp add: arguments_ok_def sets)
  have "(arguments_ok qs x floorB m k \<and> (case sort_by single_order (candidates x qs') of
        best # _ \<Rightarrow> res = selected [best] floorB
      | [] \<Rightarrow> \<exists>unsold fs. greedy k x [] (by_depth qs') = Inr (unsold, fs)
          \<and> res = (if 0 < unsold then RefusedFills InsufficientDepth else selected fs floorB)))
    \<longleftrightarrow> (arguments_ok qs x floorB m k \<and> (case sort_by single_order (candidates x qs) of
        best # _ \<Rightarrow> res = selected [best] floorB
      | [] \<Rightarrow> \<exists>unsold fs. greedy k x [] (by_depth qs) = Inr (unsold, fs)
          \<and> res = (if 0 < unsold then RefusedFills InsufficientDepth else selected fs floorB)))" for k
  proof (cases "arguments_ok qs x floorB m k")
    case True
    then have "\<forall>q\<in>set qs. valid_schedule (v_schedule q)"
      by (simp add: arguments_ok_def)
    note s = same[OF this]
    show ?thesis
      unfolding s[THEN conjunct1] s[THEN conjunct2] by (rule refl)
  qed simp
  then show ?thesis
    unfolding selectFillsV3_cases empty args by simp
qed

section \<open>The hypotheses can hold\<close>

definition sample_fill_quote :: "string \<Rightarrow> quote_v3" where
  "sample_fill_quote lock = \<lparr>v_domain = JStr QUOTE_V3_DOMAIN, v_version = JNum (jint 3), v_solverId = JStr ''m'',
     v_quoteKeyId = JStr ''k'', v_nonce = JStr ''n'', v_pool = JStr ''p'', v_helper = JStr ''0x7'',
     v_escrowAddress = JStr ''0x7'', v_rfqDigest = JStr ''d'', v_rfqFelt = JStr ''0x9'',
     v_sellToken = JStr ''0x4'', v_buyToken = JStr ''0x5'', v_schedule = sample_schedule, v_lockId = JStr lock,
     v_lockTicket = JStr ''0xb'', v_lockTransactionHash = JStr ''0xc'', v_lockExpiresAt = JNum (jint 500),
     v_spreadBps = JNum (jint 0), v_pricingProvenance = JStr ''book'', v_quotedAt = JNum (jint 150),
     v_quoteExpiresAt = JNum (jint 400), v_signature = JStr []\<rparr>"

abbreviation sample_quotes :: "quote_v3 list" where
  "sample_quotes \<equiv> [sample_fill_quote ''0x1'', sample_fill_quote ''0x2'']"

lemma sample_prices:
  "evaluatePriceSchedule sample_schedule 13 = Inr 30" "evaluatePriceSchedule sample_schedule 11 = Inr 23"
  "assertPriceSchedule sample_schedule = Inr ()"
  using sample_schedule_valid unfolding evaluate_iff assertPriceSchedule_iff
  by (simp_all add: sample_schedule_def segment_def)

lemma sample_fill_fields [simp]:
  "v_schedule (sample_fill_quote l) = sample_schedule" "v_lockId (sample_fill_quote l) = JStr l"
  "v_solverId (sample_fill_quote l) = JStr ''m''" "v_nonce (sample_fill_quote l) = JStr ''n''"
  "v_quoteExpiresAt (sample_fill_quote l) = JNum (jint 400)"
  by (simp_all add: sample_fill_quote_def)

lemma sample_split:
  "selectFillsV3 sample_quotes 24 50 None = Inr (SelectedFills
     [\<lparr>sf_quote = sample_fill_quote ''0x1'', sf_amountA = 13, sf_amountB = 30\<rparr>,
      \<lparr>sf_quote = sample_fill_quote ''0x2'', sf_amountA = 11, sf_amountB = 23\<rparr>] 53)"
proof -
  have p: "pt_a (hd sample_schedule) = 10" "pt_a (last sample_schedule) = 13"
    by (simp_all add: sample_schedule_def)
  have "scheduleUnitPriceE18 sample_schedule 13 = Inr ((30 * E18) div 13)"
    by (simp add: scheduleUnitPriceE18_def sample_prices)
  then show ?thesis
    by (simp add: selectFillsV3_def schedule_max_u128_def require_max_fills_def max_safe_def sample_prices
        covers_def p unit_price_def depth_order_def quoteFallback_def compareText_def raw_text_def
        price_quote_def selected_def Let_def)
qed

theorem selection_fills_exactly_witness:
  "(\<Sum>f\<leftarrow>[\<lparr>sf_quote = sample_fill_quote ''0x1'', sf_amountA = 13, sf_amountB = 30\<rparr>,
      \<lparr>sf_quote = sample_fill_quote ''0x2'', sf_amountA = 11, sf_amountB = 23\<rparr>]. sf_amountA f) = 24"
proof -
  have "\<forall>q\<in>set sample_quotes. \<exists>n. v_quoteExpiresAt q = JNum (jint n)"
    by auto
  from selection_fills_exactly[OF sample_split this] show ?thesis
    by blast
qed

theorem selection_order_independent_witness:
  "selectFillsV3 (rev sample_quotes) 24 50 None = selectFillsV3 sample_quotes 24 50 None"
proof -
  have "inj_on quote_keys (set sample_quotes)"
    by (simp add: inj_on_def quote_keys_def raw_text_def)
  moreover have "\<forall>q\<in>set sample_quotes. \<exists>n. v_quoteExpiresAt q = JNum (jint n)"
    by auto
  ultimately show ?thesis
    using selection_order_independent[of "rev sample_quotes" sample_quotes 24 50 None] sample_split by simp
qed

end
