(* ===== verification/Maker_Mids.thy ===== *)
theory Maker_Mids
  imports Wire_Checks Intent_Properties "HOL-Library.Log_Nat"
begin

text \<open>
  Indicative mid prices of makers (packages/private-intents/src/mids.ts): the signed body, its wire
  format, verification against the key of the maker, and the median that is shown to a taker.
\<close>

definition MAKER_MID_DOMAIN :: string where
  "MAKER_MID_DOMAIN = ''app20/maker-indicative-mid/v1''"

definition mid_max_u256 :: int where
  "mid_max_u256 = 2 ^ 256 - 1"

record maker_mid =
  m_version :: jsval
  m_domain :: jsval
  m_makerId :: jsval
  m_quoteKeyId :: jsval
  m_marketId :: jsval
  m_midE18 :: jsval
  m_observedAt :: jsval
  m_validUntil :: jsval
  m_signature :: jsval

record mid_body =
  mb_makerId :: string
  mb_midE18 :: int
  mb_observedAt :: int
  mb_quoteKeyId :: string
  mb_validUntil :: int

definition MID_WIRE_FIELDS :: "string list" where
  "MID_WIRE_FIELDS = [''domain'', ''makerId'', ''marketId'', ''midE18'', ''observedAt'', ''quoteKeyId'',
     ''signature'', ''validUntil'', ''version'']"

definition mid_timestamp :: "jsval \<Rightarrow> string \<Rightarrow> int result" where
  "mid_timestamp v label =
     (case v of
        JNum x \<Rightarrow> (case as_safe_int x of
            Some n \<Rightarrow> if n \<le> 0
              then Inl (PrivateIntentError (label @ '' must be a positive unix-seconds timestamp.''))
              else Inr n
          | None \<Rightarrow> Inl (PrivateIntentError (label @ '' must be a positive unix-seconds timestamp.'')))
      | _ \<Rightarrow> Inl (PrivateIntentError (label @ '' must be a positive unix-seconds timestamp.'')))"

definition require_mid :: "jsval \<Rightarrow> int result" where
  "require_mid v =
     (case v of
        JBig n \<Rightarrow> if n \<le> 0 \<or> mid_max_u256 < n
          then Inl (PrivateIntentError ''midE18 must be a positive u256 value.'') else Inr n
      | _ \<Rightarrow> Inl (PrivateIntentError ''midE18 must be a positive u256 value.''))"

definition mid_canonicalBody :: "maker_mid \<Rightarrow> mid_body result" where
  "mid_canonicalBody m =
     (if \<not> is_number (m_version m) 1 \<or> \<not> is_text (m_domain m) MAKER_MID_DOMAIN
      then Inl (PrivateIntentError ''Only maker indicative mid v1 is supported.'')
      else if \<not> is_text (m_marketId m) ''STRK_USDC''
      then Inl (PrivateIntentError ''Maker mid marketId must be STRK_USDC.'')
      else bind_r (require_mid (m_midE18 m)) (\<lambda>mid.
        bind_r (mid_timestamp (m_observedAt m) ''observedAt'') (\<lambda>observed.
        bind_r (mid_timestamp (m_validUntil m) ''validUntil'') (\<lambda>until.
        if until \<le> observed
        then Inl (PrivateIntentError ''Maker mid validUntil must be after observedAt.'')
        else bind_r (wire_text (m_makerId m) ''makerId'') (\<lambda>maker.
        bind_r (wire_text (m_quoteKeyId m) ''quoteKeyId'') (\<lambda>key.
        Inr \<lparr>mb_makerId = maker, mb_midE18 = mid, mb_observedAt = observed, mb_quoteKeyId = key,
          mb_validUntil = until\<rparr>))))))"

definition mid_object :: "mid_body \<Rightarrow> fields" where
  "mid_object b =
     [(''domain'', JStr MAKER_MID_DOMAIN), (''makerId'', JStr (mb_makerId b)),
      (''marketId'', JStr ''STRK_USDC''), (''midE18'', JStr (dec_int (mb_midE18 b))),
      (''observedAt'', JNum (jint (mb_observedAt b))), (''quoteKeyId'', JStr (mb_quoteKeyId b)),
      (''validUntil'', JNum (jint (mb_validUntil b))), (''version'', JNum (jint 1))]"

definition canonicalMakerMid :: "maker_mid \<Rightarrow> string result" where
  "canonicalMakerMid m =
     bind_r (mid_canonicalBody m) (\<lambda>b. Inr (json_text (js_json (JObj (mid_object b)))))"

definition mid_signature_ok :: "jsval \<Rightarrow> bool" where
  "mid_signature_ok v = (case v of JStr s \<Rightarrow> isCanonicalQuoteSignature s | _ \<Rightarrow> False)"

definition bad_mid_signature :: exn where
  "bad_mid_signature = PrivateIntentError ''Maker mid signature must use canonical raw low-S P-256 encoding.''"

definition encodeMakerMid :: "maker_mid \<Rightarrow> jsval result" where
  "encodeMakerMid m =
     bind_r (mid_canonicalBody m) (\<lambda>b.
     if \<not> mid_signature_ok (m_signature m) then Inl bad_mid_signature
     else Inr (JObj (mid_object b @ [(''signature'', m_signature m)])))"

definition read_mid :: "fields \<Rightarrow> nat \<Rightarrow> maker_mid" where
  "read_mid obj mid =
     \<lparr>m_version = get_field obj ''version'', m_domain = get_field obj ''domain'',
      m_makerId = get_field obj ''makerId'', m_quoteKeyId = get_field obj ''quoteKeyId'',
      m_marketId = get_field obj ''marketId'', m_midE18 = JBig (int mid),
      m_observedAt = get_field obj ''observedAt'', m_validUntil = get_field obj ''validUntil'',
      m_signature = get_field obj ''signature''\<rparr>"

definition decodeMakerMid :: "jsval \<Rightarrow> maker_mid result" where
  "decodeMakerMid v =
     bind_r (closed_object (PrivateIntentError ''Maker mid wire payload must be an object.'')
        (\<lambda>k. PrivateIntentError (''Maker mid '' @ k @ '' is required.''))
        (\<lambda>k. PrivateIntentError (''Maker mid field '' @ k @ '' is unsupported.''))
        MID_WIRE_FIELDS v) (\<lambda>obj.
     case wire_decimal (get_field obj ''midE18'') of
       None \<Rightarrow> Inl (PrivateIntentError ''Maker mid wire midE18 must be a canonical decimal string.'')
     | Some mid \<Rightarrow>
         let m = read_mid obj mid in
         if \<not> mid_signature_ok (m_signature m) then Inl bad_mid_signature
         else bind_r (mid_canonicalBody m) (\<lambda>_. Inr m))"

text \<open>The keys a maker's identifiers resolve to are compared by \<open>sameKey\<close> and imported by \<open>importPublicKey\<close>.\<close>

definition mid_text :: "jsval \<Rightarrow> string" where
  "mid_text v = (case v of JStr s \<Rightarrow> s | _ \<Rightarrow> [])"

definition verifyMakerMid ::
  "(string \<Rightarrow> string \<Rightarrow> int \<Rightarrow> 'j result) \<Rightarrow> ('j \<Rightarrow> 'j \<Rightarrow> bool) \<Rightarrow> ('j \<Rightarrow> 'k result)
   \<Rightarrow> (string \<Rightarrow> jsval \<Rightarrow> 'k \<Rightarrow> bool) \<Rightarrow> maker_mid \<Rightarrow> jsnum \<Rightarrow> unit result" where
  "verifyMakerMid resolveKey sameKey importPublicKey verify m now =
     bind_r (mid_canonicalBody m) (\<lambda>b.
     bind_r (canonicalMakerMid m) (\<lambda>canonical.
     if \<not> mid_signature_ok (m_signature m) then Inl bad_mid_signature
     else bind_r (mid_timestamp (JNum now) ''now'') (\<lambda>t.
     if t + QUOTE_CLOCK_SKEW_SECONDS < mb_observedAt b \<or> mb_validUntil b \<le> t
     then Inl (PrivateIntentError ''Maker mid is outside its active window.'')
     else bind_r (resolveKey (mid_text (m_makerId m)) (mid_text (m_quoteKeyId m)) (mb_observedAt b)) (\<lambda>keyThen.
     bind_r (resolveKey (mid_text (m_makerId m)) (mid_text (m_quoteKeyId m)) t) (\<lambda>keyNow.
     if \<not> sameKey keyThen keyNow
     then Inl (PrivateIntentError ''Maker mid quote key changed before verification.'')
     else bind_r (importPublicKey keyNow) (\<lambda>publicKey.
     if \<not> verify canonical (m_signature m) publicKey
     then Inl (PrivateIntentError ''Maker mid signature verification failed.'')
     else Inr ()))))))"

text \<open>
  \<open>Number\<close> of a non-negative bigint: the nearest double, ties to even, which is the bigint itself
  below 2 to the 53rd.
\<close>

definition to_number :: "int \<Rightarrow> int" where
  "to_number n =
     (if n < 2 ^ 53 then n
      else let k = nat (bitlen n) - 53; q = n div 2 ^ k; r = n mod 2 ^ k in
        if 2 ^ (k - 1) < r \<or> (r = 2 ^ (k - 1) \<and> odd q) then (q + 1) * 2 ^ k else q * 2 ^ k)"

record aggregated_mids =
  ag_medianE18 :: int
  ag_dispersionBps :: int
  ag_count :: nat

definition mid_order :: "int comparator" where
  "mid_order l r = (if l < r then - 1 else if r < l then 1 else 0)"

definition mid_value :: "maker_mid \<Rightarrow> int result" where
  "mid_value m = bind_r (mid_canonicalBody m) (\<lambda>b.
     if \<not> mid_signature_ok (m_signature m) then Inl bad_mid_signature else Inr (mb_midE18 b))"

definition aggregate_sorted :: "int list \<Rightarrow> aggregated_mids" where
  "aggregate_sorted vs =
     (let middle = length vs div 2;
          median = (if length vs mod 2 = 1 then vs ! middle else (vs ! (middle - 1) + vs ! middle) div 2)
      in \<lparr>ag_medianE18 = median,
          ag_dispersionBps = (if length vs \<le> 1 then 0
            else to_number (((last vs - hd vs) * 10000) div median)),
          ag_count = length vs\<rparr>)"

definition aggregateMids :: "maker_mid list \<Rightarrow> aggregated_mids result" where
  "aggregateMids mids =
     (if mids = [] then Inr \<lparr>ag_medianE18 = 0, ag_dispersionBps = 0, ag_count = 0\<rparr>
      else bind_r (map_r mid_value mids) (\<lambda>amounts.
        Inr (aggregate_sorted (sort_by mid_order amounts))))"

section \<open>The aggregate\<close>

lemma mid_order_asc: "mid_order = cmp_asc"
  by (auto simp: mid_order_def cmp_asc_def fun_eq_iff)

interpretation mid_sort: strict_comparator mid_order
  unfolding mid_order_asc using comparator_asc by unfold_locales (auto simp: comparator_laws_def)

lemma mid_value_pos: "mid_value m = Inr n \<Longrightarrow> 0 < n"
  by (auto simp: mid_value_def mid_canonicalBody_def require_mid_def split: jsval.splits if_splits)

lemma mid_sorted: "sorted (sort_by mid_order vs)"
  using mid_sort.sorted_sort_by[of vs] unfolding mid_order_asc sorted_wrt_iff_nth_less sorted_iff_nth_mono_less
  by (fastforce simp: cmp_asc_def split: if_splits)

lemma sorted_ends:
  fixes vs :: "int list"
  assumes "sorted vs" and "i < length vs"
  shows "hd vs \<le> vs ! i \<and> vs ! i \<le> last vs"
proof -
  have "vs \<noteq> []"
    using assms(2) by auto
  then show ?thesis
    using sorted_nth_mono[OF assms(1), of 0 i] sorted_nth_mono[OF assms(1), of i "length vs - 1"] assms(2)
    by (simp add: hd_conv_nth last_conv_nth)
qed

text \<open>
  The aggregate of the mids of several makers does not depend on the order they arrive in, and
  its median lies between the least and the greatest of them: at least one maker is at or below it
  and one at or above it.
\<close>

lemma aggregate_between_makers:
  assumes "aggregateMids mids = Inr g" and "mids \<noteq> []" and "mset mids' = mset mids"
  shows "aggregateMids mids' = Inr g \<and> ag_count g = length mids \<and> 0 < ag_medianE18 g
    \<and> (\<exists>m\<in>set mids. \<exists>v. mid_value m = Inr v \<and> v \<le> ag_medianE18 g)
    \<and> (\<exists>m\<in>set mids. \<exists>v. mid_value m = Inr v \<and> ag_medianE18 g \<le> v)"
proof -
  obtain amounts where vals: "map_r mid_value mids = Inr amounts"
    using assms(1,2) by (auto simp: aggregateMids_def)
  define vs where "vs = sort_by mid_order amounts"
  have len: "length vs = length mids" and ne: "vs \<noteq> []"
    using map_r_length[OF vals] assms(2) by (auto simp: vs_def)
  have s: "sorted vs"
    by (simp add: vs_def mid_sorted)
  have mem: "\<exists>m\<in>set mids. mid_value m = Inr v" if "v \<in> set vs" for v
    using map_r_mem[OF vals] that by (auto simp: vs_def)
  let ?m = "length vs div 2"
  have gs: "g = aggregate_sorted vs"
    using assms(1,2) vals by (simp add: aggregateMids_def vs_def)
  have g: "ag_medianE18 g = (if length vs mod 2 = 1 then vs ! ?m else (vs ! (?m - 1) + vs ! ?m) div 2)"
      "ag_count g = length mids"
    unfolding gs aggregate_sorted_def Let_def using len by simp_all
  have i: "?m < length vs" "?m - 1 < length vs"
    using ne by (simp_all add: less_imp_diff_less)
  have between: "hd vs \<le> ag_medianE18 g \<and> ag_medianE18 g \<le> last vs"
    unfolding g(1) using sorted_ends[OF s i(1)] sorted_ends[OF s i(2)] by auto
  have ends: "hd vs \<in> set vs" "last vs \<in> set vs"
    using ne by simp_all
  have "0 < hd vs"
    using mem[OF ends(1)] mid_value_pos by blast
  moreover have "aggregateMids mids' = Inr g"
  proof -
    have "set mids' = set mids" "mids' \<noteq> []"
      using assms(2,3) by (auto dest: mset_eq_setD)
    then have "map_r mid_value mids' = Inr (map (\<lambda>x. projr (mid_value x)) mids')"
      using vals by (simp add: map_r_projr)
    moreover have "sort_by mid_order (map (\<lambda>x. projr (mid_value x)) mids') = sort_by mid_order amounts"
      using vals assms(3) by (intro mid_sort.sort_by_perm) (simp add: map_r_projr)
    ultimately show ?thesis
      using assms(1,2) vals \<open>mids' \<noteq> []\<close> by (simp add: aggregateMids_def)
  qed
  ultimately show ?thesis
    using g(2) between mem[OF ends(1)] mem[OF ends(2)] by (metis less_le_trans)
qed

section \<open>The hypotheses can hold\<close>

definition sample_mid :: "int \<Rightarrow> maker_mid" where
  "sample_mid v = \<lparr>m_version = JNum (jint 1), m_domain = JStr MAKER_MID_DOMAIN, m_makerId = JStr ''m'',
     m_quoteKeyId = JStr ''k'', m_marketId = JStr ''STRK_USDC'', m_midE18 = JBig v,
     m_observedAt = JNum (jint 100), m_validUntil = JNum (jint 200), m_signature = JStr sample_signature\<rparr>"

lemma sample_mid_value: "0 < v \<Longrightarrow> v < 1000 \<Longrightarrow> mid_value (sample_mid v) = Inr v"
  using sample_signature_canonical
  by (simp add: mid_value_def mid_canonicalBody_def sample_mid_def is_number_def is_text_def require_mid_def
      mid_max_u256_def mid_timestamp_def max_safe_def wire_text_def trim_id is_ws_def code_def mid_signature_ok_def)

lemma aggregate_between_makers_witness:
  "\<exists>g. aggregateMids [sample_mid 30, sample_mid 10, sample_mid 21] = Inr g \<and> ag_medianE18 g = 21
     \<and> aggregateMids [sample_mid 10, sample_mid 21, sample_mid 30] = Inr g"
proof -
  obtain g where g: "aggregateMids [sample_mid 30, sample_mid 10, sample_mid 21] = Inr g" "ag_medianE18 g = 21"
    by (simp add: aggregateMids_def aggregate_sorted_def sample_mid_value mid_order_def Let_def)
  have "mset [sample_mid 10, sample_mid 21, sample_mid 30] = mset [sample_mid 30, sample_mid 10, sample_mid 21]"
    by simp
  from aggregate_between_makers[OF g(1) _ this] g show ?thesis
    by blast
qed

end
