(* ===== verification/Economic_Policy.thy ===== *)
theory Economic_Policy
  imports Wire_Checks
begin

text \<open>
  The reviewed economic policy of the first release (packages/private-intents/src/economic-policy.ts).
  The decision is taken on an untyped value: each part of it is read into a typed record or rejected
  with a reason, and the reasons of all parts are collected in order; the proposal is allowed when
  there is none.
\<close>

section \<open>Limits\<close>

definition RFQ_ECONOMIC_POLICY_ID :: string where
  "RFQ_ECONOMIC_POLICY_ID = ''app20/rfq-economics/reviewed-first-release-v1''"

definition RFQ_APP20_FEE_BPS :: int where
  "RFQ_APP20_FEE_BPS = 0"

definition RFQ_MAX_MAKER_SPREAD_BPS :: int where
  "RFQ_MAX_MAKER_SPREAD_BPS = 50"

definition RFQ_MAX_TOTAL_DEVIATION_BPS :: int where
  "RFQ_MAX_TOTAL_DEVIATION_BPS = 100"

definition RFQ_MAX_QUOTE_TTL_SECONDS :: int where
  "RFQ_MAX_QUOTE_TTL_SECONDS = 90"

definition RFQ_REFERENCE_REJECT_AGE_SECONDS :: int where
  "RFQ_REFERENCE_REJECT_AGE_SECONDS = 300"

definition RFQ_REFERENCE_SUSPEND_AGE_SECONDS :: int where
  "RFQ_REFERENCE_SUSPEND_AGE_SECONDS = 900"

definition RFQ_SINGLE_MAKER_CONCENTRATION_BPS :: int where
  "RFQ_SINGLE_MAKER_CONCENTRATION_BPS = 6000"

definition RFQ_REVIEWED_MARKET_ID :: string where
  "RFQ_REVIEWED_MARKET_ID = ''STRK_USDC''"

definition RFQ_REVIEWED_SELL_TOKEN_ID :: string where
  "RFQ_REVIEWED_SELL_TOKEN_ID = ''STRK''"

definition RFQ_REVIEWED_BUY_TOKEN_ID :: string where
  "RFQ_REVIEWED_BUY_TOKEN_ID = ''USDC''"

definition RFQ_USDC_BASE_UNITS :: int where
  "RFQ_USDC_BASE_UNITS = 1000000"

definition RFQ_PER_TRADE_CAP_USDC_BASE_UNITS :: int where
  "RFQ_PER_TRADE_CAP_USDC_BASE_UNITS = 5000 * RFQ_USDC_BASE_UNITS"

definition RFQ_PER_MAKER_DAILY_CAP_USDC_BASE_UNITS :: int where
  "RFQ_PER_MAKER_DAILY_CAP_USDC_BASE_UNITS = 25000 * RFQ_USDC_BASE_UNITS"

definition RFQ_PER_MARKET_DAILY_CAP_USDC_BASE_UNITS :: int where
  "RFQ_PER_MARKET_DAILY_CAP_USDC_BASE_UNITS = 50000 * RFQ_USDC_BASE_UNITS"

definition econ_max_u256 :: int where
  "econ_max_u256 = 2 ^ 256 - 1"

definition DAILY_WINDOW_SECONDS :: int where
  "DAILY_WINDOW_SECONDS = 24 * 60 * 60"

definition BPS_SCALE :: int where
  "BPS_SCALE = 10000"

section \<open>Reasons\<close>

datatype econ_code =
    ACTION_UNSUPPORTED
  | PUBLIC_NETWORK_DISABLED
  | DECISION_TIME_MALFORMED
  | RECOVERY_REQUIRES_PERSISTED_RESERVATION
  | MARKET_STATE_UNAVAILABLE
  | MARKET_STATE_MALFORMED
  | MARKET_SUSPENDED
  | REFERENCE_UNAVAILABLE
  | REFERENCE_MALFORMED
  | REFERENCE_STALE
  | REFERENCE_SUSPENSION_REQUIRED
  | PROPOSAL_UNAVAILABLE
  | PROPOSAL_MALFORMED
  | MARKET_BINDING_MISMATCH
  | TOKEN_BINDING_MISMATCH
  | TOKEN_DECIMALS_MISMATCH
  | REFERENCE_QUANTITY_MISMATCH
  | MAKER_BINDING_MISMATCH
  | PARTIAL_FILL_REFUSED
  | APP20_FEE_REFUSED
  | MAKER_SPREAD_MISMATCH
  | MAKER_SPREAD_EXCEEDED
  | TOTAL_DEVIATION_EXCEEDED
  | USDC_EQUIVALENT_MISMATCH
  | QUOTE_TTL_EXCEEDED
  | PER_TRADE_CAP_EXCEEDED
  | ACCOUNTING_UNAVAILABLE
  | ACCOUNTING_MALFORMED
  | ACCOUNTING_STALE
  | PER_MAKER_DAILY_CAP_EXCEEDED
  | PER_MARKET_DAILY_CAP_EXCEEDED
  | SINGLE_MAKER_CONCENTRATION_EXCEEDED

type_synonym econ_reason = "econ_code \<times> string"

record econ_decision =
  ed_allowed :: bool
  ed_policyId :: string
  ed_action :: "jsval option"
  ed_reasons :: "econ_reason list"
  ed_recoveryOnly :: bool

definition decision :: "jsval option \<Rightarrow> econ_reason list \<Rightarrow> bool \<Rightarrow> econ_decision" where
  "decision action reasons recoveryOnly =
     \<lparr>ed_allowed = (reasons = []), ed_policyId = RFQ_ECONOMIC_POLICY_ID, ed_action = action, ed_reasons = reasons, ed_recoveryOnly = recoveryOnly\<rparr>"

text \<open>\<open>if (condition) reasons.push(reason(code, message))\<close>.\<close>

definition push_if :: "bool \<Rightarrow> econ_code \<Rightarrow> string \<Rightarrow> econ_reason list" where
  "push_if c k message = (if c then [(k, message)] else [])"

section \<open>Reading untyped values\<close>

definition safe_int_value :: "jsval \<Rightarrow> int option" where
  "safe_int_value v = (case v of JNum x \<Rightarrow> as_safe_int x | _ \<Rightarrow> None)"

definition safeTimestamp :: "jsval \<Rightarrow> int option" where
  "safeTimestamp v = Option.bind (safe_int_value v) (\<lambda>n. if 0 < n then Some n else None)"

definition safeBps :: "jsval \<Rightarrow> int option" where
  "safeBps v = Option.bind (safe_int_value v) (\<lambda>n. if 0 \<le> n then Some n else None)"

definition safeDecimals :: "jsval \<Rightarrow> int option" where
  "safeDecimals v = Option.bind (safe_int_value v) (\<lambda>n. if 0 \<le> n \<and> n \<le> 255 then Some n else None)"

definition positiveU256 :: "jsval \<Rightarrow> int option" where
  "positiveU256 v = (case v of JBig n \<Rightarrow> if 0 < n \<and> n \<le> econ_max_u256 then Some n else None | _ \<Rightarrow> None)"

definition nonNegativeU256 :: "jsval \<Rightarrow> int option" where
  "nonNegativeU256 v = (case v of JBig n \<Rightarrow> if 0 \<le> n \<and> n \<le> econ_max_u256 then Some n else None | _ \<Rightarrow> None)"

text \<open>\<open>/^[a-zA-Z0-9][a-zA-Z0-9._:/-]{0,127}$/\<close>.\<close>

definition safe_id_char :: "char \<Rightarrow> bool" where
  "safe_id_char c = (is_alnum c \<or> c \<in> set ''._:/-'')"

definition safe_id_text :: "string \<Rightarrow> bool" where
  "safe_id_text s = (s \<noteq> [] \<and> length s \<le> 128 \<and> is_alnum (hd s) \<and> list_all safe_id_char s)"

definition safeId :: "jsval \<Rightarrow> string option" where
  "safeId v = (case v of JStr s \<Rightarrow> if safe_id_text s then Some s else None | _ \<Rightarrow> None)"

text \<open>
  \<open>["request", ...].includes(String(value))\<close>: besides the strings themselves, an array of one
  element that has such a text.
\<close>

fun action_text :: "jsval \<Rightarrow> string" where
  "action_text (JStr s) = s"
| "action_text (JArr [v]) = action_text v"
| "action_text _ = []"

definition recognizedAction :: "jsval \<Rightarrow> bool" where
  "recognizedAction v = (action_text v \<in> {''request'', ''quote'', ''claim'', ''timeout'', ''refund''})"

definition isRecoveryAction :: "jsval \<Rightarrow> bool" where
  "isRecoveryAction v = (v = JStr ''claim'' \<or> v = JStr ''timeout'' \<or> v = JStr ''refund'')"

definition isReviewedTokenDirection :: "string \<Rightarrow> string \<Rightarrow> bool" where
  "isReviewedTokenDirection sell buy =
     (sell = RFQ_REVIEWED_SELL_TOKEN_ID \<and> buy = RFQ_REVIEWED_BUY_TOKEN_ID
      \<or> sell = RFQ_REVIEWED_BUY_TOKEN_ID \<and> buy = RFQ_REVIEWED_SELL_TOKEN_ID)"

definition reviewedTokenDecimals :: "string \<Rightarrow> int option" where
  "reviewedTokenDecimals t =
     (if t = RFQ_REVIEWED_SELL_TOKEN_ID then Some 18
      else if t = RFQ_REVIEWED_BUY_TOKEN_ID then Some 6 else None)"

definition missing :: "jsval \<Rightarrow> bool" where
  "missing v = (v = JUndef \<or> v = JNull)"

definition as_record :: "jsval \<Rightarrow> fields option" where
  "as_record v = (case v of JObj kvs \<Rightarrow> Some kvs | _ \<Rightarrow> None)"

section \<open>Market control\<close>

record econ_market =
  em_marketId :: string
  em_suspended :: bool

definition read_market :: "jsval \<Rightarrow> econ_market option" where
  "read_market v =
     Option.bind (as_record v) (\<lambda>m.
     Option.bind (safeId (get_field m ''marketId'')) (\<lambda>market.
     if get_field m ''state'' = JStr ''active'' then Some \<lparr>em_marketId = market, em_suspended = False\<rparr>
     else if get_field m ''state'' = JStr ''suspended'' then Some \<lparr>em_marketId = market, em_suspended = True\<rparr>
     else None))"

definition market_reasons :: "jsval \<Rightarrow> econ_reason list" where
  "market_reasons v =
     (if missing v then [(MARKET_STATE_UNAVAILABLE, ''Market control state is unavailable.'')]
      else (case read_market v of
          None \<Rightarrow> [(MARKET_STATE_MALFORMED, ''Market control state is malformed.'')]
        | Some m \<Rightarrow>
            push_if (em_suspended m) MARKET_SUSPENDED
              ''Market is suspended; no new RFQ request or quote is accepted.''
            @ push_if (em_marketId m \<noteq> RFQ_REVIEWED_MARKET_ID) MARKET_BINDING_MISMATCH
              ''Market is outside the reviewed local first-release market.''))"

definition market_id :: "jsval \<Rightarrow> string option" where
  "market_id v = (if missing v then None else map_option em_marketId (read_market v))"

definition differs_from :: "'a option \<Rightarrow> 'a \<Rightarrow> bool" where
  "differs_from known x = (case known of None \<Rightarrow> False | Some y \<Rightarrow> x \<noteq> y)"

section \<open>Reference price\<close>

record econ_reference =
  er_marketId :: string
  er_observedAt :: int
  er_sellTokenId :: string
  er_sellTokenDecimals :: int
  er_buyTokenId :: string
  er_buyTokenDecimals :: int
  er_grossSell :: int
  er_grossBuy :: int

definition read_reference :: "int option \<Rightarrow> jsval \<Rightarrow> econ_reference option" where
  "read_reference decisionAt v =
     Option.bind (as_record v) (\<lambda>r.
     if get_field r ''available'' \<noteq> JBool True then None
     else Option.bind (safeId (get_field r ''marketId'')) (\<lambda>market.
     Option.bind (safeTimestamp (get_field r ''observedAt'')) (\<lambda>observed.
     Option.bind (safeId (get_field r ''sellTokenId'')) (\<lambda>sell.
     Option.bind (safeDecimals (get_field r ''sellTokenDecimals'')) (\<lambda>sellDecimals.
     Option.bind (safeId (get_field r ''buyTokenId'')) (\<lambda>buy.
     Option.bind (safeDecimals (get_field r ''buyTokenDecimals'')) (\<lambda>buyDecimals.
     Option.bind (positiveU256 (get_field r ''grossSellAmountBaseUnits'')) (\<lambda>grossSell.
     Option.bind (positiveU256 (get_field r ''grossBuyAmountBaseUnits'')) (\<lambda>grossBuy.
     Option.bind decisionAt (\<lambda>t.
     if t < observed then None
     else Some \<lparr>er_marketId = market, er_observedAt = observed, er_sellTokenId = sell,
       er_sellTokenDecimals = sellDecimals, er_buyTokenId = buy, er_buyTokenDecimals = buyDecimals,
       er_grossSell = grossSell, er_grossBuy = grossBuy\<rparr>))))))))))"

definition reference_unavailable :: "jsval \<Rightarrow> bool" where
  "reference_unavailable v =
     (missing v \<or> (case as_record v of None \<Rightarrow> False | Some r \<Rightarrow> get_field r ''available'' = JBool False))"

definition reference_checks :: "int \<Rightarrow> string option \<Rightarrow> econ_reference \<Rightarrow> econ_reason list" where
  "reference_checks t market r =
     push_if (er_marketId r \<noteq> RFQ_REVIEWED_MARKET_ID \<or> differs_from market (er_marketId r))
       MARKET_BINDING_MISMATCH ''Reference and market control must bind the reviewed market.''
     @ push_if (\<not> isReviewedTokenDirection (er_sellTokenId r) (er_buyTokenId r)) TOKEN_BINDING_MISMATCH
       ''Reference token identities are outside the reviewed token pair.''
     @ push_if (Some (er_sellTokenDecimals r) \<noteq> reviewedTokenDecimals (er_sellTokenId r)
         \<or> Some (er_buyTokenDecimals r) \<noteq> reviewedTokenDecimals (er_buyTokenId r)) TOKEN_DECIMALS_MISMATCH
       ''Reference token decimals disagree with the reviewed token units.''
     @ (let age = t - er_observedAt r in
        if RFQ_REFERENCE_SUSPEND_AGE_SECONDS < age
        then [(REFERENCE_SUSPENSION_REQUIRED,
          ''Reference price is older than 900 seconds; the market must remain suspended.'')]
        else push_if (RFQ_REFERENCE_REJECT_AGE_SECONDS < age) REFERENCE_STALE
          ''Reference price is older than 300 seconds; no new RFQ request or quote is accepted.'')"

definition reference_reasons :: "int option \<Rightarrow> string option \<Rightarrow> jsval \<Rightarrow> econ_reason list" where
  "reference_reasons decisionAt market v =
     (if reference_unavailable v
      then [(REFERENCE_UNAVAILABLE,
        ''Reference price is unavailable; no new RFQ request or quote is accepted.'')]
      else (case (read_reference decisionAt v, decisionAt) of
          (Some r, Some t) \<Rightarrow> reference_checks t market r
        | _ \<Rightarrow> [(REFERENCE_MALFORMED, ''Reference evidence is malformed.'')]))"

definition reference_of :: "int option \<Rightarrow> jsval \<Rightarrow> econ_reference option" where
  "reference_of decisionAt v = (if reference_unavailable v then None else read_reference decisionAt v)"

section \<open>Proposal\<close>

record econ_proposal =
  ep_marketId :: string
  ep_makerId :: string
  ep_sellTokenId :: string
  ep_sellTokenDecimals :: int
  ep_buyTokenId :: string
  ep_buyTokenDecimals :: int
  ep_requestedSell :: int
  ep_offeredSell :: int
  ep_offeredBuy :: int
  ep_usdcEquivalent :: int
  ep_makerSpreadBps :: int
  ep_app20FeeBps :: int
  ep_quoteTtlSeconds :: int

definition read_proposal :: "jsval \<Rightarrow> econ_proposal option" where
  "read_proposal v =
     Option.bind (as_record v) (\<lambda>p.
     Option.bind (safeId (get_field p ''marketId'')) (\<lambda>market.
     Option.bind (safeId (get_field p ''makerId'')) (\<lambda>maker.
     Option.bind (safeId (get_field p ''sellTokenId'')) (\<lambda>sell.
     Option.bind (safeDecimals (get_field p ''sellTokenDecimals'')) (\<lambda>sellDecimals.
     Option.bind (safeId (get_field p ''buyTokenId'')) (\<lambda>buy.
     Option.bind (safeDecimals (get_field p ''buyTokenDecimals'')) (\<lambda>buyDecimals.
     Option.bind (positiveU256 (get_field p ''requestedSellAmountBaseUnits'')) (\<lambda>requestedSell.
     Option.bind (positiveU256 (get_field p ''offeredSellAmountBaseUnits'')) (\<lambda>offeredSell.
     Option.bind (positiveU256 (get_field p ''offeredBuyAmountBaseUnits'')) (\<lambda>offeredBuy.
     Option.bind (positiveU256 (get_field p ''usdcEquivalentBaseUnits'')) (\<lambda>usdc.
     Option.bind (safeBps (get_field p ''makerSpreadBps'')) (\<lambda>spread.
     Option.bind (safeBps (get_field p ''app20FeeBps'')) (\<lambda>fee.
     Option.bind (safeTimestamp (get_field p ''quoteTtlSeconds'')) (\<lambda>ttl.
     Some \<lparr>ep_marketId = market, ep_makerId = maker, ep_sellTokenId = sell,
       ep_sellTokenDecimals = sellDecimals, ep_buyTokenId = buy, ep_buyTokenDecimals = buyDecimals,
       ep_requestedSell = requestedSell, ep_offeredSell = offeredSell, ep_offeredBuy = offeredBuy,
       ep_usdcEquivalent = usdc, ep_makerSpreadBps = spread, ep_app20FeeBps = fee,
       ep_quoteTtlSeconds = ttl\<rparr>))))))))))))))"

definition proposal_checks ::
  "string option \<Rightarrow> econ_reference option \<Rightarrow> econ_proposal \<Rightarrow> econ_reason list" where
  "proposal_checks market ref p =
     push_if (ep_marketId p \<noteq> RFQ_REVIEWED_MARKET_ID \<or> differs_from market (ep_marketId p)
         \<or> differs_from (map_option er_marketId ref) (ep_marketId p)) MARKET_BINDING_MISMATCH
       ''Proposal, market control, and reference must bind the reviewed market.''
     @ push_if (\<not> isReviewedTokenDirection (ep_sellTokenId p) (ep_buyTokenId p)
         \<or> differs_from (map_option er_sellTokenId ref) (ep_sellTokenId p)
         \<or> differs_from (map_option er_buyTokenId ref) (ep_buyTokenId p)) TOKEN_BINDING_MISMATCH
       ''Proposal and reference must bind the reviewed token identities.''
     @ push_if (Some (ep_sellTokenDecimals p) \<noteq> reviewedTokenDecimals (ep_sellTokenId p)
         \<or> Some (ep_buyTokenDecimals p) \<noteq> reviewedTokenDecimals (ep_buyTokenId p)
         \<or> differs_from (map_option er_sellTokenDecimals ref) (ep_sellTokenDecimals p)
         \<or> differs_from (map_option er_buyTokenDecimals ref) (ep_buyTokenDecimals p)) TOKEN_DECIMALS_MISMATCH
       ''Proposal and reference must use the reviewed token decimals.''
     @ push_if (ep_offeredSell p \<noteq> ep_requestedSell p) PARTIAL_FILL_REFUSED
       ''The first-release RFQ policy permits full fills only.''
     @ push_if (ep_app20FeeBps p \<noteq> RFQ_APP20_FEE_BPS) APP20_FEE_REFUSED
       ''The first-release APP20 fee is fixed at 0 bps.''
     @ push_if (RFQ_MAX_QUOTE_TTL_SECONDS < ep_quoteTtlSeconds p) QUOTE_TTL_EXCEEDED
       ''Quote TTL exceeds the reviewed 90-second maximum.''"

text \<open>
  The price checks against the reference. The computed spread is at most 10000, so the \<open>Number\<close> of
  it is exact.
\<close>

definition spread_numerator :: "econ_reference \<Rightarrow> econ_proposal \<Rightarrow> int" where
  "spread_numerator r p =
     (if ep_offeredBuy p < er_grossBuy r then er_grossBuy r - ep_offeredBuy p else 0)"

definition deviation_numerator :: "econ_reference \<Rightarrow> econ_proposal \<Rightarrow> int" where
  "deviation_numerator r p =
     (if er_grossBuy r \<le> ep_offeredBuy p then ep_offeredBuy p - er_grossBuy r
      else er_grossBuy r - ep_offeredBuy p)"

definition price_checks :: "econ_reference \<Rightarrow> econ_proposal \<Rightarrow> econ_reason list" where
  "price_checks r p =
     push_if (er_grossSell r \<noteq> ep_requestedSell p \<or> er_grossSell r \<noteq> ep_offeredSell p)
       REFERENCE_QUANTITY_MISMATCH ''Reference and proposal must price the identical sell base quantity.''
     @ push_if (ep_makerSpreadBps p \<noteq> (spread_numerator r p * BPS_SCALE) div er_grossBuy r)
       MAKER_SPREAD_MISMATCH
       ''Self-reported maker spread disagrees with the exact reference/proposal amounts.''
     @ push_if (er_grossBuy r * RFQ_MAX_MAKER_SPREAD_BPS < spread_numerator r p * BPS_SCALE)
       MAKER_SPREAD_EXCEEDED ''Computed maker spread exceeds the reviewed 50 bps maximum.''
     @ push_if (er_grossBuy r * RFQ_MAX_TOTAL_DEVIATION_BPS < deviation_numerator r p * BPS_SCALE)
       TOTAL_DEVIATION_EXCEEDED ''Quote exceeds the reviewed 100 bps total reference-deviation band.''"

definition usdc_amount :: "econ_reference \<Rightarrow> int" where
  "usdc_amount r = (if er_buyTokenId r = RFQ_REVIEWED_BUY_TOKEN_ID then er_grossBuy r else er_grossSell r)"

definition usdc_scale :: "econ_reference \<Rightarrow> int" where
  "usdc_scale r = 10 ^ nat (if er_buyTokenId r = RFQ_REVIEWED_BUY_TOKEN_ID then er_buyTokenDecimals r
     else er_sellTokenDecimals r)"

definition derived_usdc :: "econ_reference \<Rightarrow> int option" where
  "derived_usdc r =
     (let numerator = usdc_amount r * RFQ_USDC_BASE_UNITS in
      if numerator mod usdc_scale r = 0 then Some (numerator div usdc_scale r) else None)"

definition usdc_checks :: "econ_reference \<Rightarrow> econ_proposal \<Rightarrow> econ_reason list" where
  "usdc_checks r p =
     (let numerator = usdc_amount r * RFQ_USDC_BASE_UNITS in
      if numerator mod usdc_scale r = 0 then
        push_if (ep_usdcEquivalent p * usdc_scale r \<noteq> numerator) USDC_EQUIVALENT_MISMATCH
          ''Claimed USDC equivalent disagrees with the exact reviewed reference conversion.''
        @ push_if (RFQ_PER_TRADE_CAP_USDC_BASE_UNITS * usdc_scale r < numerator) PER_TRADE_CAP_EXCEEDED
          ''Trade exceeds the reviewed 5,000 USDC-equivalent cap.''
      else [(REFERENCE_MALFORMED, ''Reference quantity cannot be represented in exact USDC base units.'')])"

definition proposal_of :: "jsval \<Rightarrow> econ_proposal option" where
  "proposal_of v = (if missing v then None else read_proposal v)"

definition proposal_reasons :: "string option \<Rightarrow> econ_reference option \<Rightarrow> jsval \<Rightarrow> econ_reason list" where
  "proposal_reasons market ref v =
     (if missing v then [(PROPOSAL_UNAVAILABLE, ''RFQ economic proposal is unavailable.'')]
      else (case read_proposal v of
          None \<Rightarrow> [(PROPOSAL_MALFORMED, ''RFQ economic proposal is malformed.'')]
        | Some p \<Rightarrow> proposal_checks market ref p
            @ (case ref of None \<Rightarrow> [] | Some r \<Rightarrow> price_checks r p @ usdc_checks r p)))"

section \<open>Daily accounting\<close>

record econ_accounting =
  ea_windowId :: string
  ea_marketId :: string
  ea_makerId :: string
  ea_startsAt :: int
  ea_endsAt :: int
  ea_observedAt :: int
  ea_makerCommitted :: int
  ea_marketCommitted :: int

definition read_accounting :: "int option \<Rightarrow> jsval \<Rightarrow> econ_accounting option" where
  "read_accounting decisionAt v =
     Option.bind (as_record v) (\<lambda>a.
     Option.bind (safeId (get_field a ''windowId'')) (\<lambda>window.
     Option.bind (safeId (get_field a ''marketId'')) (\<lambda>market.
     Option.bind (safeId (get_field a ''makerId'')) (\<lambda>maker.
     Option.bind (safeTimestamp (get_field a ''startsAt'')) (\<lambda>starts.
     Option.bind (safeTimestamp (get_field a ''endsAt'')) (\<lambda>ends.
     Option.bind (safeTimestamp (get_field a ''observedAt'')) (\<lambda>observed.
     Option.bind (nonNegativeU256 (get_field a ''makerCommittedUsdcBaseUnits'')) (\<lambda>makerCommitted.
     Option.bind (nonNegativeU256 (get_field a ''marketCommittedUsdcBaseUnits'')) (\<lambda>marketCommitted.
     Option.bind decisionAt (\<lambda>t.
     if ends - starts \<noteq> DAILY_WINDOW_SECONDS \<or> t < starts \<or> ends \<le> t \<or> observed < starts
       \<or> t < observed \<or> marketCommitted < makerCommitted then None
     else Some \<lparr>ea_windowId = window, ea_marketId = market, ea_makerId = maker, ea_startsAt = starts,
       ea_endsAt = ends, ea_observedAt = observed, ea_makerCommitted = makerCommitted,
       ea_marketCommitted = marketCommitted\<rparr>))))))))))"

definition cap_checks :: "econ_accounting \<Rightarrow> int \<Rightarrow> econ_reason list" where
  "cap_checks a usdc =
     (let makerAfter = ea_makerCommitted a + usdc; marketAfter = ea_marketCommitted a + usdc in
      push_if (RFQ_PER_MAKER_DAILY_CAP_USDC_BASE_UNITS < makerAfter) PER_MAKER_DAILY_CAP_EXCEEDED
        ''Proposal exceeds the reviewed 25,000 USDC-equivalent maker daily cap.''
      @ push_if (RFQ_PER_MARKET_DAILY_CAP_USDC_BASE_UNITS < marketAfter) PER_MARKET_DAILY_CAP_EXCEEDED
        ''Proposal exceeds the reviewed 50,000 USDC-equivalent market daily cap.''
      @ push_if (marketAfter * RFQ_SINGLE_MAKER_CONCENTRATION_BPS < makerAfter * BPS_SCALE)
        SINGLE_MAKER_CONCENTRATION_EXCEEDED
        ''Maker usage exceeds 60% of actual market usage in the accounting window.'')"

definition accounting_checks ::
  "int \<Rightarrow> string option \<Rightarrow> econ_proposal option \<Rightarrow> int option \<Rightarrow> econ_accounting \<Rightarrow> econ_reason list" where
  "accounting_checks t market prop usdc a =
     push_if (ea_observedAt a \<noteq> t) ACCOUNTING_STALE
       ''Daily cap accounting must be current at the economic decision time.''
     @ push_if (differs_from market (ea_marketId a)) MARKET_BINDING_MISMATCH
       ''Accounting and market control must bind the same market.''
     @ push_if (differs_from (map_option ep_marketId prop) (ea_marketId a)) MARKET_BINDING_MISMATCH
       ''Proposal and accounting must bind the same market.''
     @ push_if (differs_from (map_option ep_makerId prop) (ea_makerId a)) MAKER_BINDING_MISMATCH
       ''Proposal and accounting must bind the same maker.''
     @ (case (prop, usdc) of (Some _, Some d) \<Rightarrow> cap_checks a d | _ \<Rightarrow> [])"

definition accounting_reasons ::
  "int option \<Rightarrow> string option \<Rightarrow> econ_proposal option \<Rightarrow> int option \<Rightarrow> jsval \<Rightarrow> econ_reason list" where
  "accounting_reasons decisionAt market prop usdc v =
     (if missing v
      then [(ACCOUNTING_UNAVAILABLE,
        ''Daily cap accounting is unavailable; no new RFQ request or quote is accepted.'')]
      else (case (read_accounting decisionAt v, decisionAt) of
          (Some a, Some t) \<Rightarrow> accounting_checks t market prop usdc a
        | _ \<Rightarrow> [(ACCOUNTING_MALFORMED, ''Daily cap accounting window is malformed.'')]))"

section \<open>The decision\<close>

definition recovery_reasons :: "fields \<Rightarrow> econ_reason list" where
  "recovery_reasons i =
     push_if (get_field i ''network'' \<noteq> JStr ''localnet'') PUBLIC_NETWORK_DISABLED
       ''Public-network RFQ remains disabled for this release.''
     @ push_if (safeTimestamp (get_field i ''decisionAt'') = None) DECISION_TIME_MALFORMED
       ''Recovery decision time must be a positive safe-integer timestamp.''
     @ [(RECOVERY_REQUIRES_PERSISTED_RESERVATION,
       ''Economic policy cannot authorize recovery without an existing persisted reservation and state binding.'')]"

definition entry_reasons :: "fields \<Rightarrow> econ_reason list" where
  "entry_reasons i =
     (let decisionAt = safeTimestamp (get_field i ''decisionAt'');
          market = market_id (get_field i ''market'');
          ref = reference_of decisionAt (get_field i ''reference'');
          prop = proposal_of (get_field i ''proposal'');
          usdc = (case (prop, ref) of (Some _, Some r) \<Rightarrow> derived_usdc r | _ \<Rightarrow> None)
      in push_if (get_field i ''network'' \<noteq> JStr ''localnet'') PUBLIC_NETWORK_DISABLED
           ''Public-network RFQ remains disabled for this release.''
         @ push_if (decisionAt = None) DECISION_TIME_MALFORMED
           ''Economic decision time must be a positive safe-integer timestamp.''
         @ market_reasons (get_field i ''market'')
         @ reference_reasons decisionAt market (get_field i ''reference'')
         @ proposal_reasons market ref (get_field i ''proposal'')
         @ accounting_reasons decisionAt market prop usdc (get_field i ''accounting''))"

definition evaluateRfqEconomicPolicy :: "jsval \<Rightarrow> econ_decision" where
  "evaluateRfqEconomicPolicy v =
     (case as_record v of
        None \<Rightarrow> decision None [(ACTION_UNSUPPORTED, ''RFQ economic action is unsupported or missing.'')] False
      | Some i \<Rightarrow>
          let action = get_field i ''action'' in
          if \<not> recognizedAction action
          then decision None [(ACTION_UNSUPPORTED, ''RFQ economic action is unsupported or missing.'')] False
          else if isRecoveryAction action then decision (Some action) (recovery_reasons i) True
          else decision (Some action) (entry_reasons i) False)"

end
