(* ===== verification/Economic_Policy_Properties.thy ===== *)
theory Economic_Policy_Properties
  imports Economic_Policy
begin

text \<open>
  When the economic policy allows a proposal, what the daily caps guarantee over a day of allowed
  proposals, and that a day whose counters start at zero never allows one.
\<close>

section \<open>When no reason is given\<close>

lemma push_if_Nil [simp]: "push_if c k m = [] \<longleftrightarrow> \<not> c"
  by (simp add: push_if_def)

text \<open>A proposal within the limits, in terms of the four parts it is read into.\<close>

definition price_within :: "econ_reference \<Rightarrow> econ_proposal \<Rightarrow> bool" where
  "price_within r p =
     (ep_requestedSell p = er_grossSell r \<and> ep_offeredSell p = er_grossSell r
      \<and> ep_makerSpreadBps p = (max 0 (er_grossBuy r - ep_offeredBuy p) * 10000) div er_grossBuy r
      \<and> max 0 (er_grossBuy r - ep_offeredBuy p) * 10000 \<le> er_grossBuy r * 50
      \<and> \<bar>ep_offeredBuy p - er_grossBuy r\<bar> * 10000 \<le> er_grossBuy r * 100)"

definition reviewed_pair :: "econ_reference \<Rightarrow> bool" where
  "reviewed_pair r =
     (er_marketId r = ''STRK_USDC''
      \<and> (er_sellTokenId r = ''STRK'' \<and> er_sellTokenDecimals r = 18
           \<and> er_buyTokenId r = ''USDC'' \<and> er_buyTokenDecimals r = 6
         \<or> er_sellTokenId r = ''USDC'' \<and> er_sellTokenDecimals r = 6
           \<and> er_buyTokenId r = ''STRK'' \<and> er_buyTokenDecimals r = 18))"

definition same_market :: "econ_reference \<Rightarrow> econ_proposal \<Rightarrow> bool" where
  "same_market r p =
     (ep_marketId p = er_marketId r
      \<and> ep_sellTokenId p = er_sellTokenId r \<and> ep_buyTokenId p = er_buyTokenId r
      \<and> ep_sellTokenDecimals p = er_sellTokenDecimals r \<and> ep_buyTokenDecimals p = er_buyTokenDecimals r)"

text \<open>The USDC leg of the reference, in USDC base units.\<close>

definition usdc_leg :: "econ_reference \<Rightarrow> int" where
  "usdc_leg r = (if er_buyTokenId r = ''USDC'' then er_grossBuy r else er_grossSell r)"

definition caps_within :: "econ_accounting \<Rightarrow> int \<Rightarrow> bool" where
  "caps_within a d =
     (d \<le> 5000000000 \<and> ea_makerCommitted a + d \<le> 25000000000
      \<and> ea_marketCommitted a + d \<le> 50000000000
      \<and> (ea_makerCommitted a + d) * 10 \<le> (ea_marketCommitted a + d) * 6)"

definition within_limits :: "fields \<Rightarrow> bool" where
  "within_limits i =
     (get_field i ''network'' = JStr ''localnet''
      \<and> (\<exists>t m r p a. safeTimestamp (get_field i ''decisionAt'') = Some t
          \<and> read_market (get_field i ''market'') = Some m
          \<and> read_reference (Some t) (get_field i ''reference'') = Some r
          \<and> read_proposal (get_field i ''proposal'') = Some p
          \<and> read_accounting (Some t) (get_field i ''accounting'') = Some a
          \<and> em_marketId m = ''STRK_USDC'' \<and> \<not> em_suspended m
          \<and> t - er_observedAt r \<le> 300 \<and> ea_observedAt a = t
          \<and> reviewed_pair r \<and> same_market r p \<and> price_within r p
          \<and> ea_marketId a = ''STRK_USDC'' \<and> ea_makerId a = ep_makerId p
          \<and> ep_app20FeeBps p = 0 \<and> ep_quoteTtlSeconds p \<le> 90
          \<and> ep_usdcEquivalent p = usdc_leg r \<and> caps_within a (usdc_leg r)))"

lemmas econ_limits = RFQ_APP20_FEE_BPS_def RFQ_MAX_MAKER_SPREAD_BPS_def RFQ_MAX_TOTAL_DEVIATION_BPS_def
  RFQ_MAX_QUOTE_TTL_SECONDS_def RFQ_REFERENCE_REJECT_AGE_SECONDS_def RFQ_REFERENCE_SUSPEND_AGE_SECONDS_def
  RFQ_SINGLE_MAKER_CONCENTRATION_BPS_def RFQ_REVIEWED_MARKET_ID_def RFQ_REVIEWED_SELL_TOKEN_ID_def
  RFQ_REVIEWED_BUY_TOKEN_ID_def RFQ_USDC_BASE_UNITS_def RFQ_PER_TRADE_CAP_USDC_BASE_UNITS_def
  RFQ_PER_MAKER_DAILY_CAP_USDC_BASE_UNITS_def RFQ_PER_MARKET_DAILY_CAP_USDC_BASE_UNITS_def BPS_SCALE_def

lemma as_record_missing: "as_record v = Some r \<Longrightarrow> \<not> missing v"
  by (auto simp: as_record_def missing_def)

lemma read_present:
  "read_market v = Some m \<Longrightarrow> \<not> missing v"
  "read_proposal v = Some p \<Longrightarrow> \<not> missing v"
  "read_accounting t v = Some a \<Longrightarrow> \<not> missing v"
  "read_reference t v = Some r \<Longrightarrow> \<not> reference_unavailable v"
  by (auto simp: read_market_def read_proposal_def read_accounting_def read_reference_def
      reference_unavailable_def missing_def as_record_def Option.bind_eq_Some_conv)

lemma market_reasons_Nil:
  "market_reasons v = [] \<longleftrightarrow> (\<exists>m. read_market v = Some m \<and> em_marketId m = ''STRK_USDC'' \<and> \<not> em_suspended m)"
  by (auto simp: market_reasons_def econ_limits dest: read_present split: option.splits)

lemma reference_checks_Nil:
  "reference_checks t (Some ''STRK_USDC'') r = [] \<longleftrightarrow> reviewed_pair r \<and> t - er_observedAt r \<le> 300"
  by (auto simp: reference_checks_def reviewed_pair_def isReviewedTokenDirection_def
      reviewedTokenDecimals_def differs_from_def econ_limits Let_def)

lemma reference_reasons_Nil:
  "reference_reasons (Some t) (Some ''STRK_USDC'') v = [] \<longleftrightarrow>
     (\<exists>r. read_reference (Some t) v = Some r \<and> reviewed_pair r \<and> t - er_observedAt r \<le> 300)"
  by (auto simp: reference_reasons_def reference_checks_Nil dest: read_present split: option.splits)

lemma proposal_checks_Nil:
  "reviewed_pair r \<Longrightarrow> proposal_checks (Some ''STRK_USDC'') (Some r) p = [] \<longleftrightarrow>
     same_market r p \<and> ep_offeredSell p = ep_requestedSell p \<and> ep_app20FeeBps p = 0 \<and> ep_quoteTtlSeconds p \<le> 90"
  unfolding reviewed_pair_def
  by (elim conjE disjE;
      simp add: proposal_checks_def same_market_def isReviewedTokenDirection_def
        reviewedTokenDecimals_def differs_from_def econ_limits not_less)

lemma price_checks_Nil: "price_checks r p = [] \<longleftrightarrow> price_within r p"
  by (auto simp: price_checks_def price_within_def spread_numerator_def deviation_numerator_def econ_limits
      max_def abs_if)

lemma usdc_scale_reviewed: "reviewed_pair r \<Longrightarrow> usdc_scale r = 1000000"
  by (auto simp: reviewed_pair_def usdc_scale_def econ_limits)

lemma usdc_amount_leg: "usdc_amount r = usdc_leg r"
  by (simp add: usdc_amount_def usdc_leg_def econ_limits)

lemma derived_usdc_reviewed: "reviewed_pair r \<Longrightarrow> derived_usdc r = Some (usdc_leg r)"
  by (simp add: derived_usdc_def usdc_scale_reviewed usdc_amount_leg econ_limits Let_def)

lemma usdc_checks_Nil:
  "reviewed_pair r \<Longrightarrow> usdc_checks r p = [] \<longleftrightarrow> ep_usdcEquivalent p = usdc_leg r \<and> usdc_leg r \<le> 5000000000"
  by (auto simp: usdc_checks_def usdc_scale_reviewed usdc_amount_leg econ_limits Let_def)

lemma proposal_reasons_Nil:
  "reviewed_pair r \<Longrightarrow> proposal_reasons (Some ''STRK_USDC'') (Some r) v = [] \<longleftrightarrow>
     (\<exists>p. read_proposal v = Some p \<and> same_market r p \<and> price_within r p
       \<and> ep_app20FeeBps p = 0 \<and> ep_quoteTtlSeconds p \<le> 90
       \<and> ep_usdcEquivalent p = usdc_leg r \<and> usdc_leg r \<le> 5000000000)"
  by (auto simp: proposal_reasons_def proposal_checks_Nil price_checks_Nil usdc_checks_Nil price_within_def
      dest: read_present split: option.splits)

lemma cap_checks_Nil: "cap_checks a d = [] \<and> d \<le> 5000000000 \<longleftrightarrow> caps_within a d"
  by (auto simp: cap_checks_def caps_within_def econ_limits Let_def)

lemma accounting_reasons_Nil:
  "accounting_reasons (Some t) (Some ''STRK_USDC'') (Some p) (Some d) v = [] \<and> d \<le> 5000000000
     \<and> ep_marketId p = ''STRK_USDC'' \<longleftrightarrow>
     (\<exists>a. read_accounting (Some t) v = Some a \<and> ea_observedAt a = t \<and> ea_marketId a = ''STRK_USDC''
       \<and> ep_marketId p = ''STRK_USDC'' \<and> ea_makerId a = ep_makerId p \<and> caps_within a d)"
  by (auto simp: accounting_reasons_def accounting_checks_def differs_from_def cap_checks_Nil[symmetric]
      dest: read_present split: option.splits)

lemma entry_reasons_Nil: "entry_reasons i = [] \<longleftrightarrow> within_limits i"
proof (cases "get_field i ''network'' = JStr ''localnet''
    \<and> (\<exists>t. safeTimestamp (get_field i ''decisionAt'') = Some t)
    \<and> (\<exists>m. read_market (get_field i ''market'') = Some m \<and> em_marketId m = ''STRK_USDC'' \<and> \<not> em_suspended m)")
  case False
  then show ?thesis
    by (auto simp: entry_reasons_def within_limits_def market_reasons_Nil Let_def)
next
  case True
  then obtain t m where t: "safeTimestamp (get_field i ''decisionAt'') = Some t"
    and m: "read_market (get_field i ''market'') = Some m" "em_marketId m = ''STRK_USDC''" "\<not> em_suspended m"
    and net: "get_field i ''network'' = JStr ''localnet''"
    by blast
  have mid: "market_id (get_field i ''market'') = Some ''STRK_USDC''"
    using m read_present(1)[OF m(1)] by (simp add: market_id_def)
  have mr: "market_reasons (get_field i ''market'') = []"
    using m by (auto simp: market_reasons_Nil)
  show ?thesis
  proof (cases "\<exists>r. read_reference (Some t) (get_field i ''reference'') = Some r \<and> reviewed_pair r
      \<and> t - er_observedAt r \<le> 300")
    case False
    then show ?thesis
      using t mid by (auto simp: entry_reasons_def within_limits_def reference_reasons_Nil Let_def)
  next
    case True
    then obtain r where r: "read_reference (Some t) (get_field i ''reference'') = Some r" "reviewed_pair r"
        "t - er_observedAt r \<le> 300"
      by blast
    have ref: "reference_of (Some t) (get_field i ''reference'') = Some r"
      using r(1) read_present(4)[OF r(1)] by (simp add: reference_of_def)
    have rr: "reference_reasons (Some t) (Some ''STRK_USDC'') (get_field i ''reference'') = []"
      using r by (auto simp: reference_reasons_Nil)
    show ?thesis
    proof (cases "read_proposal (get_field i ''proposal'')")
      case None
      then show ?thesis
        using t mid ref r by (auto simp: entry_reasons_def within_limits_def proposal_reasons_Nil Let_def)
    next
      case (Some p)
      then have pr: "proposal_of (get_field i ''proposal'') = Some p"
        using read_present(2) by (simp add: proposal_of_def)
      have "entry_reasons i = [] \<longleftrightarrow>
          proposal_reasons (Some ''STRK_USDC'') (Some r) (get_field i ''proposal'') = []
          \<and> accounting_reasons (Some t) (Some ''STRK_USDC'') (Some p) (Some (usdc_leg r)) (get_field i ''accounting'') = []"
        using net by (simp add: entry_reasons_def t mid mr ref rr pr derived_usdc_reviewed[OF r(2)] Let_def)
      also have "\<dots> \<longleftrightarrow> within_limits i"
        using accounting_reasons_Nil[of t p "usdc_leg r" "get_field i ''accounting''"] r(2)
        by (auto simp: within_limits_def net t m r Some proposal_reasons_Nil same_market_def reviewed_pair_def
            caps_within_def)
      finally show ?thesis .
    qed
  qed
qed

section \<open>A day of allowed proposals\<close>

text \<open>
  \<open>day_run u0 m0 u m\<close>: starting from the committed amounts \<open>u0\<close> of each maker and \<open>m0\<close> of the
  market, allowed proposals, each judged on the current amounts and then booked, lead to \<open>u\<close> and
  \<open>m\<close>.
\<close>

definition allowed_trade :: "fields \<Rightarrow> econ_proposal \<Rightarrow> econ_accounting \<Rightarrow> bool" where
  "allowed_trade i p a =
     (ed_allowed (evaluateRfqEconomicPolicy (JObj i))
      \<and> read_proposal (get_field i ''proposal'') = Some p
      \<and> read_accounting (safeTimestamp (get_field i ''decisionAt'')) (get_field i ''accounting'') = Some a)"

inductive day_run :: "(string \<Rightarrow> int) \<Rightarrow> int \<Rightarrow> (string \<Rightarrow> int) \<Rightarrow> int \<Rightarrow> bool" for u0 m0 where
  day_start: "day_run u0 m0 u0 m0"
| day_trade: "day_run u0 m0 u m \<Longrightarrow> allowed_trade i p a
    \<Longrightarrow> ea_makerCommitted a = u (ep_makerId p) \<Longrightarrow> ea_marketCommitted a = m
    \<Longrightarrow> day_run u0 m0 (u(ep_makerId p := u (ep_makerId p) + ep_usdcEquivalent p)) (m + ep_usdcEquivalent p)"

lemma positiveU256_pos: "positiveU256 v = Some n \<Longrightarrow> 0 < n"
  by (auto simp: positiveU256_def split: jsval.splits if_splits)

lemma read_proposal_positive: "read_proposal v = Some p \<Longrightarrow> 0 < ep_usdcEquivalent p"
  by (auto simp: read_proposal_def Option.bind_eq_Some_conv dest: positiveU256_pos)

lemma evaluate_allowed_iff:
  "ed_allowed (evaluateRfqEconomicPolicy v) \<longleftrightarrow>
     (\<exists>i. v = JObj i \<and> recognizedAction (get_field i ''action'') \<and> \<not> isRecoveryAction (get_field i ''action'')
       \<and> within_limits i)"
  by (auto simp: evaluateRfqEconomicPolicy_def decision_def as_record_def entry_reasons_Nil recovery_reasons_def
      Let_def split: jsval.splits)

lemma allowed_trade_caps:
  assumes "allowed_trade i p a"
  shows "0 < ep_usdcEquivalent p" "caps_within a (ep_usdcEquivalent p)" "ea_makerId a = ep_makerId p"
  using assms read_proposal_positive
  by (auto simp: allowed_trade_def evaluate_allowed_iff within_limits_def)

lemma nonNegativeU256_nonneg: "nonNegativeU256 v = Some n \<Longrightarrow> 0 \<le> n"
  by (auto simp: nonNegativeU256_def split: jsval.splits if_splits)

lemma allowed_trade_counter: "allowed_trade i p a \<Longrightarrow> 0 < ea_marketCommitted a"
proof -
  assume t: "allowed_trade i p a"
  have "ea_makerCommitted a \<ge> 0"
    using t by (auto simp: allowed_trade_def read_accounting_def Option.bind_eq_Some_conv
        dest: nonNegativeU256_nonneg split: if_splits)
  then show ?thesis
    using allowed_trade_caps(1,2)[OF t] by (simp add: caps_within_def)
qed

lemma day_run_caps:
  assumes "day_run u0 m0 u m"
  shows "m0 \<le> m \<and> u0 k \<le> u k \<and> (m \<noteq> m0 \<longrightarrow> m \<le> 50000000000)
    \<and> (u k \<noteq> u0 k \<longrightarrow> u k \<le> 25000000000 \<and> 10 * u k \<le> 6 * m)"
  using assms
proof (induction rule: day_run.induct)
  case (day_trade u m i p a)
  then show ?case
    using allowed_trade_caps[OF day_trade.hyps(2)] by (auto simp: caps_within_def)
qed simp

lemma day_run_zero: "day_run u0 m0 u m \<Longrightarrow> m0 = 0 \<Longrightarrow> u = u0 \<and> m = 0"
  by (induction rule: day_run.induct) (use allowed_trade_counter in fastforce)+

text \<open>A proposal of 100 USDC for 500 STRK, and the counters of its day.\<close>

definition sample_econ :: "int \<Rightarrow> int \<Rightarrow> fields" where
  "sample_econ used market =
     [(''action'', JStr ''quote''), (''network'', JStr ''localnet''), (''decisionAt'', JNum (Fin 1000000)),
      (''market'', JObj [(''marketId'', JStr ''STRK_USDC''), (''state'', JStr ''active'')]),
      (''reference'', JObj [(''available'', JBool True), (''marketId'', JStr ''STRK_USDC''),
         (''observedAt'', JNum (Fin 999900)), (''sellTokenId'', JStr ''STRK''),
         (''sellTokenDecimals'', JNum (Fin 18)), (''buyTokenId'', JStr ''USDC''),
         (''buyTokenDecimals'', JNum (Fin 6)), (''grossSellAmountBaseUnits'', JBig 500000000000000000000),
         (''grossBuyAmountBaseUnits'', JBig 100000000)]),
      (''proposal'', JObj [(''marketId'', JStr ''STRK_USDC''), (''makerId'', JStr ''m1''),
         (''sellTokenId'', JStr ''STRK''), (''sellTokenDecimals'', JNum (Fin 18)),
         (''buyTokenId'', JStr ''USDC''), (''buyTokenDecimals'', JNum (Fin 6)),
         (''requestedSellAmountBaseUnits'', JBig 500000000000000000000),
         (''offeredSellAmountBaseUnits'', JBig 500000000000000000000),
         (''offeredBuyAmountBaseUnits'', JBig 99800000), (''usdcEquivalentBaseUnits'', JBig 100000000),
         (''makerSpreadBps'', JNum (Fin 20)), (''app20FeeBps'', JNum (Fin 0)),
         (''quoteTtlSeconds'', JNum (Fin 60))]),
      (''accounting'', JObj [(''windowId'', JStr ''d1''), (''marketId'', JStr ''STRK_USDC''),
         (''makerId'', JStr ''m1''), (''startsAt'', JNum (Fin 990000)), (''endsAt'', JNum (Fin 1076400)),
         (''observedAt'', JNum (Fin 1000000)), (''makerCommittedUsdcBaseUnits'', JBig used),
         (''marketCommittedUsdcBaseUnits'', JBig market)])]"

lemma sample_allowed: "ed_allowed (evaluateRfqEconomicPolicy (JObj (sample_econ 0 100000000)))"
  by code_simp

lemma sample_refused:
  "ed_reasons (evaluateRfqEconomicPolicy (JObj (sample_econ 0 0)))
     = [(SINGLE_MAKER_CONCENTRATION_EXCEEDED,
         ''Maker usage exceeds 60% of actual market usage in the accounting window.'')]"
  by code_simp

lemma sample_trade:
  "\<exists>p a. allowed_trade (sample_econ 0 100000000) p a \<and> ep_makerId p = ''m1'' \<and> ep_usdcEquivalent p = 100000000
     \<and> ea_makerCommitted a = 0 \<and> ea_marketCommitted a = 100000000"
proof -
  have "allowed_trade (sample_econ 0 100000000) (the (read_proposal (get_field (sample_econ 0 100000000) ''proposal'')))
      (the (read_accounting (Some 1000000) (get_field (sample_econ 0 100000000) ''accounting'')))
    \<and> ep_makerId (the (read_proposal (get_field (sample_econ 0 100000000) ''proposal''))) = ''m1''
    \<and> ep_usdcEquivalent (the (read_proposal (get_field (sample_econ 0 100000000) ''proposal''))) = 100000000
    \<and> ea_makerCommitted (the (read_accounting (Some 1000000) (get_field (sample_econ 0 100000000) ''accounting''))) = 0
    \<and> ea_marketCommitted (the (read_accounting (Some 1000000) (get_field (sample_econ 0 100000000) ''accounting''))) = 100000000"
    unfolding allowed_trade_def by code_simp
  then show ?thesis by blast
qed

lemma sample_day:
  "day_run (\<lambda>_. 0) 100000000 ((\<lambda>_. 0)(''m1'' := 100000000)) 200000000"
proof -
  obtain p a where t: "allowed_trade (sample_econ 0 100000000) p a" and p: "ep_makerId p = ''m1''"
      "ep_usdcEquivalent p = 100000000" "ea_makerCommitted a = 0" "ea_marketCommitted a = 100000000"
    using sample_trade by blast
  show ?thesis
    using day_trade[OF day_start, of "sample_econ 0 100000000" p a "\<lambda>_. 0" 100000000] t p by simp
qed

text \<open>
  What the policy takes for a request or a quote: the two texts, and, as the code compares the
  \<open>String\<close> of the action, every array around one of the five names, the recovery actions included.
\<close>

definition entry_action :: "jsval \<Rightarrow> bool" where
  "entry_action v \<longleftrightarrow> v = JStr ''request'' \<or> v = JStr ''quote''
     \<or> (\<exists>x. v = JArr [x] \<and> action_text x \<in> {''request'', ''quote'', ''claim'', ''timeout'', ''refund''})"

lemma entry_action_iff: "entry_action v \<longleftrightarrow> recognizedAction v \<and> \<not> isRecoveryAction v"
  by (cases v rule: action_text.cases) (auto simp: entry_action_def recognizedAction_def isRecoveryAction_def)

text \<open>
  C33: an input is allowed exactly when its action is the string \<open>request\<close> or \<open>quote\<close>, or an array
  of one element, nested or not, around one of the five action names (so an array around a recovery action is judged as an entry,
  while a recovery action itself is never allowed), and it is within the reviewed limits: on the
  local network and the reviewed market, which is not suspended; against a reference for the same
  pair and quantity that is at most 300 seconds old; for the full amount, without fee, for at most 90
  seconds; within 50 basis points of spread and 100 of deviation; and within the trade cap, both
  daily caps and the concentration bound on current accounting.
\<close>

theorem allowed_iff_within_limits:
  "ed_allowed (evaluateRfqEconomicPolicy v) \<longleftrightarrow>
     (\<exists>i. v = JObj i \<and> entry_action (get_field i ''action'') \<and> within_limits i)"
  by (simp add: evaluate_allowed_iff entry_action_iff conj_assoc)

text \<open>
  C34: over any day of allowed proposals, each judged on the current counters, a maker who traded is
  within the maker's daily cap and holds at most 60 percent of the market's committed amount, the
  market is within its daily cap, and no counter decreases.
\<close>

theorem daily_caps_hold:
  assumes "day_run u0 m0 u m"
  shows "u0 k \<le> u k \<and> m0 \<le> m
    \<and> (m \<noteq> m0 \<longrightarrow> m \<le> RFQ_PER_MARKET_DAILY_CAP_USDC_BASE_UNITS)
    \<and> (u k \<noteq> u0 k \<longrightarrow> u k \<le> RFQ_PER_MAKER_DAILY_CAP_USDC_BASE_UNITS
        \<and> u k * BPS_SCALE \<le> m * RFQ_SINGLE_MAKER_CONCENTRATION_BPS)"
  using day_run_caps[OF assms, of k] by (auto simp: econ_limits)

theorem daily_caps_hold_witness:
  "100000000 \<le> RFQ_PER_MAKER_DAILY_CAP_USDC_BASE_UNITS
     \<and> 100000000 * BPS_SCALE \<le> 200000000 * RFQ_SINGLE_MAKER_CONCENTRATION_BPS"
  using daily_caps_hold[OF sample_day, of "''m1''"] by simp

text \<open>
  C35: a day whose market counter starts at zero stays at zero: the first trade of a window would be
  the whole of the market's usage, which the concentration bound never allows, so no proposal is
  allowed until an amount is committed by other means.
\<close>

theorem empty_window_allows_nothing:
  assumes "day_run (\<lambda>_. 0) 0 u m"
  shows "u = (\<lambda>_. 0) \<and> m = 0"
  using day_run_zero[OF assms] by simp

theorem empty_window_allows_nothing_witness:
  "day_run (\<lambda>_. 0) 0 (\<lambda>_. 0) 0 \<and> (\<lambda>_. 0) = (\<lambda>_::string. 0::int) \<and> (0::int) = 0
     \<and> ed_reasons (evaluateRfqEconomicPolicy (JObj (sample_econ 0 0)))
       = [(SINGLE_MAKER_CONCENTRATION_EXCEEDED,
           ''Maker usage exceeds 60% of actual market usage in the accounting window.'')]"
  using empty_window_allows_nothing[OF day_start] day_start[of "\<lambda>_. 0" 0]
    sample_refused by simp

end
