(* ===== verification/Js_Date.thy ===== *)
theory Js_Date
  imports Starknet_Amounts
begin

text \<open>
  The part of the JavaScript date functions the packages use: \<open>Date.parse\<close> on RFC 3339 UTC texts
  and \<open>toISOString\<close>, both on the proleptic Gregorian calendar as ECMAScript defines it, and the
  validator of canonical timestamps built from them (packages/domain/src/index.ts). The main lemmas
  say that printing inverts parsing, so the validator accepts exactly the texts of real dates.
\<close>

section \<open>The calendar\<close>

definition leap_year :: "int \<Rightarrow> bool" where
  "leap_year y = (y mod 4 = 0 \<and> y mod 100 \<noteq> 0 \<or> y mod 400 = 0)"

definition days_in_year :: "int \<Rightarrow> int" where
  "days_in_year y = (if leap_year y then 366 else 365)"

definition month_lengths :: "int \<Rightarrow> int list" where
  "month_lengths y = [31, if leap_year y then 29 else 28, 31, 30, 31, 30, 31, 31, 30, 31, 30, 31]"

text \<open>Days from 1970-01-01 to the first day of a year, and the year of a day number.\<close>

definition day_from_year :: "int \<Rightarrow> int" where
  "day_from_year y =
     365 * (y - 1970) + (y - 1969) div 4 - (y - 1901) div 100 + (y - 1601) div 400"

definition year_from_day :: "int \<Rightarrow> int" where
  "year_from_day d =
     (let y = 1970 + (400 * d) div 146097 in
      if d < day_from_year y then y - 1 else if day_from_year (y + 1) \<le> d then y + 1 else y)"

text \<open>A day of the year as month and day of the month, both counted from one.\<close>

fun month_day :: "int list \<Rightarrow> int \<Rightarrow> int \<times> int" where
  "month_day [] k = (1, k + 1)"
| "month_day (n # ns) k = (if k < n \<or> ns = [] then (1, k + 1)
     else (let (m, d) = month_day ns (k - n) in (m + 1, d)))"

section \<open>Parsing and printing\<close>

definition ms_per_day :: int where
  "ms_per_day = 86400000"

definition num_at :: "string \<Rightarrow> nat \<Rightarrow> nat \<Rightarrow> int" where
  "num_at s i n = int (of_base 10 (take n (drop i s)))"

text \<open>\<open>/^\d{4}-\d{2}-\d{2}T\d{2}:\d{2}:\d{2}(?:\.\d{3})?Z$/\<close>.\<close>

fun date_shape :: "string \<Rightarrow> string \<Rightarrow> bool" where
  "date_shape [] s = (s = [])"
| "date_shape (p # ps) s =
     (case s of [] \<Rightarrow> False
      | c # cs \<Rightarrow> (if p = CHR ''0'' then is_digit c else c = p) \<and> date_shape ps cs)"

definition rfc3339_utc :: "string \<Rightarrow> bool" where
  "rfc3339_utc s = (date_shape ''0000-00-00T00:00:00Z'' s \<or> date_shape ''0000-00-00T00:00:00.000Z'' s)"

definition date_ms :: "int \<Rightarrow> int \<Rightarrow> int \<Rightarrow> int \<Rightarrow> int \<Rightarrow> int \<Rightarrow> int \<Rightarrow> int" where
  "date_ms y mo d h mi s ms =
     (day_from_year y + sum_list (take (nat (mo - 1)) (month_lengths y)) + (d - 1)) * ms_per_day
     + h * 3600000 + mi * 60000 + s * 1000 + ms"

text \<open>
  \<open>Date.parse\<close> of a text of that shape; \<open>None\<close> is \<open>NaN\<close>. Elements out of range make the text no
  date; \<open>24:00:00\<close> is the end of the day. (An engine that instead rolls an excess day of the month
  over gives a time that prints differently, so the validator below rejects it all the same.)
\<close>

definition date_parse :: "string \<Rightarrow> int option" where
  "date_parse t =
     (let y = num_at t 0 4; mo = num_at t 5 2; d = num_at t 8 2; h = num_at t 11 2; mi = num_at t 14 2;
          s = num_at t 17 2; ms = (if length t = 24 then num_at t 20 3 else 0)
      in if 1 \<le> mo \<and> mo \<le> 12 \<and> 1 \<le> d \<and> d \<le> month_lengths y ! nat (mo - 1)
          \<and> (h < 24 \<or> h = 24 \<and> mi = 0 \<and> s = 0 \<and> ms = 0) \<and> mi < 60 \<and> s < 60
         then Some (date_ms y mo d h mi s ms) else None)"

definition pad_num :: "nat \<Rightarrow> int \<Rightarrow> string" where
  "pad_num n v = pad_start n (dec (nat v))"

definition iso_year :: "int \<Rightarrow> string" where
  "iso_year y = (if 0 \<le> y \<and> y \<le> 9999 then pad_num 4 y
     else (if y < 0 then ''-'' else ''+'') @ pad_num 6 \<bar>y\<bar>)"

definition to_iso_string :: "int \<Rightarrow> string" where
  "to_iso_string t =
     (let day = t div ms_per_day; r = t mod ms_per_day; y = year_from_day day;
          (mo, d) = month_day (month_lengths y) (day - day_from_year y)
      in iso_year y @ ''-'' @ pad_num 2 mo @ ''-'' @ pad_num 2 d @ ''T'' @ pad_num 2 (r div 3600000) @ '':''
         @ pad_num 2 (r div 60000 mod 60) @ '':'' @ pad_num 2 (r div 1000 mod 60) @ ''.''
         @ pad_num 3 (r mod 1000) @ ''Z'')"

text \<open>\<open>value.replace(pattern, replacement)\<close> with a string pattern: its first occurrence.\<close>

fun replace_first :: "string \<Rightarrow> string \<Rightarrow> string \<Rightarrow> string" where
  "replace_first p r s =
     (if take (length p) s = p then r @ drop (length p) s
      else (case s of [] \<Rightarrow> [] | c # cs \<Rightarrow> c # replace_first p r cs))"

declare replace_first.simps [simp del]

definition parseCanonicalTimestamp :: "string \<Rightarrow> jsval \<Rightarrow> int result" where
  "parseCanonicalTimestamp label v =
     (case v of
        JStr s \<Rightarrow>
          if \<not> rfc3339_utc s then Inl (Err (label @ '' must be a canonical RFC 3339 UTC timestamp.''))
          else (case date_parse s of
              Some t \<Rightarrow>
                if replace_first ''.000Z'' ''Z'' (to_iso_string t) \<noteq> replace_first ''.000Z'' ''Z'' s
                then Inl (Err (label @ '' must be a real canonical RFC 3339 UTC timestamp.'')) else Inr t
            | None \<Rightarrow> Inl (Err (label @ '' must be a real canonical RFC 3339 UTC timestamp.'')))
      | _ \<Rightarrow> Inl (Err (label @ '' must be a string.'')))"

section \<open>Years and months\<close>

lemma div_plus1:
  assumes "0 < (n::int)"
  shows "(x + 1) div n = x div n + (if (x + 1) mod n = 0 then 1 else 0)"
proof (cases "x mod n + 1 = n")
  case True
  then have "x + 1 = n * (x div n + 1)"
    using mult_div_mod_eq[of n x] unfolding distrib_left by linarith
  then show ?thesis
    using assms by simp
next
  case False
  then have r: "0 \<le> x mod n + 1" "x mod n + 1 < n" "0 < x mod n + 1"
    using assms pos_mod_bound[of n x] pos_mod_sign[of n x] by linarith+
  have e: "x + 1 = n * (x div n) + (x mod n + 1)"
    using mult_div_mod_eq[of n x] by linarith
  have "(x + 1) div n = x div n"
    by (rule int_div_pos_eq[OF e r(1,2)])
  moreover have "(x + 1) mod n = x mod n + 1"
    by (rule int_mod_pos_eq[OF e r(1,2)])
  ultimately show ?thesis
    using r(3) by simp
qed

lemma mod_shift: "(y - 1968) mod 4 = y mod (4::int)" "(y - 1900) mod 100 = y mod (100::int)"
  "(y - 1600) mod 400 = y mod (400::int)"
  using mod_mult_self2[of y 4 "- 492"] mod_mult_self2[of y 100 "- 19"] mod_mult_self2[of y 400 "- 4"]
  by simp_all

lemma day_from_year_Suc: "day_from_year (y + 1) = day_from_year y + days_in_year y"
proof -
  have 4: "(y + 1 - 1969) div 4 = (y - 1969) div 4 + (if y mod 4 = 0 then 1 else 0)"
    using div_plus1[of 4 "y - 1969"] by (simp add: mod_shift)
  have 100: "(y + 1 - 1901) div 100 = (y - 1901) div 100 + (if y mod 100 = 0 then 1 else 0)"
    using div_plus1[of 100 "y - 1901"] by (simp add: mod_shift)
  have 400: "(y + 1 - 1601) div 400 = (y - 1601) div 400 + (if y mod 400 = 0 then 1 else 0)"
    using div_plus1[of 400 "y - 1601"] by (simp add: mod_shift)
  have m: "y mod 400 = 0 \<Longrightarrow> y mod 100 = 0" "y mod 100 = 0 \<Longrightarrow> y mod 4 = 0"
    by (auto simp: mod_eq_0_iff_dvd elim: dvd_trans[rotated])
  show ?thesis
    unfolding day_from_year_def 4 100 400 using m by (auto simp: days_in_year_def leap_year_def)
qed

lemma day_from_year_mono:
  assumes "y < z" shows "day_from_year y + days_in_year y \<le> day_from_year z"
proof -
  have "day_from_year (y + 1) \<le> day_from_year (y + 1 + int k)" for k
  proof (induction k)
    case (Suc k)
    then show ?case
      using day_from_year_Suc[of "y + 1 + int k"] by (simp add: days_in_year_def ac_simps split: if_splits)
  qed simp
  from this[of "nat (z - y - 1)"] show ?thesis
    using assms by (simp add: day_from_year_Suc)
qed

lemma div_bounds: "0 < n \<Longrightarrow> n * (x div n) \<le> x \<and> x < n * (x div n) + n" for n x :: int
  using pos_mod_bound[of n x] pos_mod_sign[of n x] mult_div_mod_eq[of n x] by linarith

lemma year_estimate:
  "146097 * (y - 1970) - 800 \<le> 400 * day_from_year y"
  "400 * day_from_year y \<le> 146097 * (y - 1970) + 800"
proof -
  define a b c where "a = (y - 1969) div 4" and "b = (y - 1901) div 100" and "c = (y - 1601) div 400"
  have "4 * a \<le> y - 1969" "y - 1969 < 4 * a + 4" "100 * b \<le> y - 1901" "y - 1901 < 100 * b + 100"
    "400 * c \<le> y - 1601" "y - 1601 < 400 * c + 400"
    unfolding a_def b_def c_def by (simp_all add: div_bounds)
  moreover have "day_from_year y = 365 * (y - 1970) + a - b + c"
    by (simp add: day_from_year_def a_def b_def c_def)
  note f = calculation this
  show "146097 * (y - 1970) - 800 \<le> 400 * day_from_year y"
    using f by simp
  show "400 * day_from_year y \<le> 146097 * (y - 1970) + 800"
    using f by simp
qed

lemma year_from_day:
  assumes "day_from_year y \<le> d" "d < day_from_year y + days_in_year y"
  shows "year_from_day d = y"
proof -
  define q where "q = (400 * d) div 146097"
  define e where "e = 1970 + q"
  have "146097 * q \<le> 400 * d" "400 * d < 146097 * q + 146097"
    unfolding q_def by (simp_all add: div_bounds)
  moreover have "days_in_year y \<le> 366"
    by (simp add: days_in_year_def)
  note f = calculation this assms year_estimate[of y]
  have "y \<le> e + 1"
    using f unfolding e_def by simp
  moreover have "e \<le> y + 1"
    using f unfolding e_def by simp
  ultimately consider "e = y - 1" | "e = y" | "e = y + 1"
    by linarith
  then show ?thesis
  proof cases
    case 1
    have "day_from_year e \<le> day_from_year y" "day_from_year (e + 1) = day_from_year y"
      using 1 day_from_year_mono[of e y] by (auto simp: days_in_year_def split: if_splits)
    then show ?thesis
      using 1 assms by (simp add: year_from_day_def q_def[symmetric] e_def[symmetric] Let_def)
  next
    case 2
    then show ?thesis
      using assms by (simp add: year_from_day_def q_def[symmetric] e_def[symmetric] Let_def day_from_year_Suc)
  next
    case 3
    then show ?thesis
      using assms by (simp add: year_from_day_def q_def[symmetric] e_def[symmetric] Let_def day_from_year_Suc)
  qed
qed

lemma month_day_take:
  "i < length ns \<Longrightarrow> 1 \<le> d \<Longrightarrow> d \<le> ns ! i \<Longrightarrow> list_all (\<lambda>n. 0 \<le> n) ns
     \<Longrightarrow> month_day ns (sum_list (take i ns) + (d - 1)) = (int i + 1, d)"
proof (induction ns arbitrary: i)
  case (Cons n ns)
  show ?case
  proof (cases i)
    case 0
    then show ?thesis using Cons.prems by simp
  next
    case (Suc j)
    have "0 \<le> sum_list (take j ns)"
      using Cons.prems by (intro sum_list_nonneg) (auto simp: list_all_iff dest: in_set_takeD)
    then show ?thesis
      using Cons Suc by auto
  qed
qed simp

lemma month_lengths_facts:
  "length (month_lengths y) = 12" "list_all (\<lambda>n. 0 \<le> n) (month_lengths y)"
  "sum_list (month_lengths y) = days_in_year y"
  by (simp_all add: month_lengths_def days_in_year_def)

lemma month_start_bound:
  assumes "i < 12" "d \<le> month_lengths y ! i"
  shows "sum_list (take i (month_lengths y)) + d \<le> days_in_year y"
proof -
  have "sum_list (month_lengths y) = sum_list (take i (month_lengths y)) + sum_list (drop i (month_lengths y))"
    by (metis append_take_drop_id sum_list_append)
  moreover have "month_lengths y ! i \<le> sum_list (drop i (month_lengths y))"
  proof -
    have "drop i (month_lengths y) = month_lengths y ! i # drop (Suc i) (month_lengths y)"
      using assms(1) by (simp add: Cons_nth_drop_Suc month_lengths_facts(1))
    moreover have "0 \<le> sum_list (drop (Suc i) (month_lengths y))"
      using month_lengths_facts(2)[of y] by (intro sum_list_nonneg) (auto simp: list_all_iff dest: in_set_dropD)
    ultimately show ?thesis by simp
  qed
  ultimately show ?thesis
    using assms(2) by (simp add: month_lengths_facts(3))
qed

section \<open>Printing inverts parsing\<close>

lemma pad_dec_of_base: "u \<noteq> [] \<Longrightarrow> list_all is_digit u \<Longrightarrow> pad_start (length u) (dec (of_base 10 u)) = u"
proof (induction u)
  case (Cons c u)
  show ?case
  proof (cases "c = CHR ''0'' \<and> u \<noteq> []")
    case True
    then have IH: "pad_start (length u) (dec (of_base 10 u)) = u"
      using Cons by simp
    have "length (dec (of_base 10 u)) \<le> length u"
      using arg_cong[OF IH, of length] by (simp add: pad_start_def)
    then show ?thesis
      using True IH by (simp add: pad_start_def of_base_Cons digit_val_def is_digit_def code_zero Suc_diff_le)
  next
    case False
    then have "dec (of_base 10 (c # u)) = c # u"
      using Cons.prems by (intro dec_of_canonical) (auto simp: canonical_dec_def)
    then show ?thesis
      by (simp add: pad_start_def)
  qed
qed simp

lemma of_base_less: "list_all is_digit u \<Longrightarrow> of_base 10 u < 10 ^ length u"
proof (induction u)
  case (Cons c u)
  then have "digit_val c * 10 ^ length u + of_base 10 u < digit_val c * 10 ^ length u + 10 ^ length u"
    by simp
  also have "\<dots> \<le> 10 * 10 ^ length u"
    using Cons.prems digit_val_dec[of c] by (metis Suc_leI add.commute list.pred_inject(2) mult_Suc mult_le_mono1)
  finally show ?case
    by (simp add: of_base_Cons)
qed simp

text \<open>The parts of a timestamp.\<close>

definition stamp :: "string list \<Rightarrow> string \<Rightarrow> string" where
  "stamp us f = us ! 0 @ ''-'' @ us ! 1 @ ''-'' @ us ! 2 @ ''T'' @ us ! 3 @ '':'' @ us ! 4 @ '':'' @ us ! 5 @ f @ ''Z''"

definition digits :: "nat \<Rightarrow> string \<Rightarrow> bool" where
  "digits n u = (length u = n \<and> list_all is_digit u)"

lemma date_shape_append:
  "date_shape (p @ q) s \<longleftrightarrow> (\<exists>u v. s = u @ v \<and> date_shape p u \<and> date_shape q v)"
proof (induction p arbitrary: s)
  case (Cons a p)
  show ?case
  proof (cases s)
    case (Cons c cs)
    have "(\<exists>u v. c # cs = u @ v \<and> date_shape (a # p) u \<and> date_shape q v)
        \<longleftrightarrow> (if a = CHR ''0'' then is_digit c else c = a) \<and> (\<exists>u v. cs = u @ v \<and> date_shape p u \<and> date_shape q v)"
    proof
      assume "\<exists>u v. c # cs = u @ v \<and> date_shape (a # p) u \<and> date_shape q v"
      then obtain u v where "c # cs = u @ v" "date_shape (a # p) u" "date_shape q v"
        by blast
      then show "(if a = CHR ''0'' then is_digit c else c = a)
          \<and> (\<exists>u v. cs = u @ v \<and> date_shape p u \<and> date_shape q v)"
        by (cases u) auto
    next
      assume r: "(if a = CHR ''0'' then is_digit c else c = a)
        \<and> (\<exists>u v. cs = u @ v \<and> date_shape p u \<and> date_shape q v)"
      then obtain u v where "cs = u @ v" "date_shape p u" "date_shape q v"
        by blast
      then show "\<exists>u v. c # cs = u @ v \<and> date_shape (a # p) u \<and> date_shape q v"
        using r by (intro exI[of _ "c # u"] exI[of _ v]) simp
    qed
    then show ?thesis
      by (simp add: Cons Cons.IH)
  qed simp
qed simp

lemma date_shape_digits: "date_shape (replicate n CHR ''0'') u \<longleftrightarrow> digits n u"
  by (induction n arbitrary: u) (auto simp: digits_def split: list.splits)

lemma date_shape_mark: "c \<noteq> CHR ''0'' \<Longrightarrow> date_shape [c] u \<longleftrightarrow> u = [c]"
  by (cases u) auto

lemma date_shape_part:
  "c \<noteq> CHR ''0'' \<Longrightarrow> date_shape (replicate n CHR ''0'' @ c # q) s \<longleftrightarrow>
     (\<exists>u v. s = u @ c # v \<and> digits n u \<and> date_shape q v)"
  using date_shape_append[of "replicate n CHR ''0''" "[c] @ q" s] date_shape_append[of "[c]" q]
  by (auto simp: date_shape_digits date_shape_mark simp del: date_shape.simps)

lemma date_shapes:
  "''0000-00-00T00:00:00Z'' = replicate 4 CHR ''0'' @ CHR ''-'' # replicate 2 CHR ''0'' @ CHR ''-''
     # replicate 2 CHR ''0'' @ CHR ''T'' # replicate 2 CHR ''0'' @ CHR '':'' # replicate 2 CHR ''0'' @ CHR '':''
     # replicate 2 CHR ''0'' @ CHR ''Z'' # []"
  "''0000-00-00T00:00:00.000Z'' = replicate 4 CHR ''0'' @ CHR ''-'' # replicate 2 CHR ''0'' @ CHR ''-''
     # replicate 2 CHR ''0'' @ CHR ''T'' # replicate 2 CHR ''0'' @ CHR '':'' # replicate 2 CHR ''0'' @ CHR '':''
     # replicate 2 CHR ''0'' @ CHR ''.'' # replicate 3 CHR ''0'' @ CHR ''Z'' # []"
  by (simp_all add: numeral_eq_Suc)

lemma rfc3339_parts:
  "rfc3339_utc s \<longleftrightarrow>
     (\<exists>y mo d h mi x f. s = stamp [y, mo, d, h, mi, x] f \<and> digits 4 y \<and> digits 2 mo \<and> digits 2 d
       \<and> digits 2 h \<and> digits 2 mi \<and> digits 2 x \<and> (f = [] \<or> (\<exists>k. f = CHR ''.'' # k \<and> digits 3 k)))"
proof -
  have 1: "date_shape ''0000-00-00T00:00:00Z'' s \<longleftrightarrow>
      (\<exists>y mo d h mi x. s = stamp [y, mo, d, h, mi, x] [] \<and> digits 4 y \<and> digits 2 mo \<and> digits 2 d
        \<and> digits 2 h \<and> digits 2 mi \<and> digits 2 x)"
    unfolding date_shapes stamp_def
    by (simp add: date_shape_part ex_simps[symmetric] del: ex_simps)
  have 2: "date_shape ''0000-00-00T00:00:00.000Z'' s \<longleftrightarrow>
      (\<exists>y mo d h mi x k. s = stamp [y, mo, d, h, mi, x] (CHR ''.'' # k) \<and> digits 4 y \<and> digits 2 mo
        \<and> digits 2 d \<and> digits 2 h \<and> digits 2 mi \<and> digits 2 x \<and> digits 3 k)"
    unfolding date_shapes stamp_def
    by (simp add: date_shape_part ex_simps[symmetric] del: ex_simps)
  show ?thesis
    unfolding rfc3339_utc_def 1 2 by blast
qed

text \<open>A real calendar date and time of day, and its text.\<close>

definition real_date :: "int \<Rightarrow> int \<Rightarrow> int \<Rightarrow> int \<Rightarrow> int \<Rightarrow> int \<Rightarrow> int \<Rightarrow> bool" where
  "real_date y mo d h mi s ms =
     (0 \<le> y \<and> y \<le> 9999 \<and> 1 \<le> mo \<and> mo \<le> 12 \<and> 1 \<le> d \<and> d \<le> month_lengths y ! nat (mo - 1)
      \<and> 0 \<le> h \<and> h < 24 \<and> 0 \<le> mi \<and> mi < 60 \<and> 0 \<le> s \<and> s < 60 \<and> 0 \<le> ms \<and> ms < 1000)"

lemma day_split: "0 \<le> r \<Longrightarrow> r < ms_per_day \<Longrightarrow> (D * ms_per_day + r) div ms_per_day = D
    \<and> (D * ms_per_day + r) mod ms_per_day = r"
  by (simp add: ms_per_day_def)

lemma time_split:
  fixes h mi s ms :: int
  assumes "0 \<le> h" "h < 24" "0 \<le> mi" "mi < 60" "0 \<le> s" "s < 60" "0 \<le> ms" "ms < 1000"
  defines "r \<equiv> h * 3600000 + mi * 60000 + s * 1000 + ms"
  shows "0 \<le> r" "r < ms_per_day" "r div 3600000 = h" "r div 60000 mod 60 = mi" "r div 1000 mod 60 = s"
    "r mod 1000 = ms"
proof -
  show "0 \<le> r" "r < ms_per_day"
    using assms by (simp_all add: ms_per_day_def)
  show "r div 3600000 = h"
    using assms by (intro int_div_pos_eq[of r 3600000 h "mi * 60000 + s * 1000 + ms"]) simp_all
  have "r div 60000 = h * 60 + mi"
    using assms by (intro int_div_pos_eq[of r 60000 "h * 60 + mi" "s * 1000 + ms"]) simp_all
  then show "r div 60000 mod 60 = mi"
    using assms by simp
  have "r div 1000 = h * 3600 + mi * 60 + s"
    using assms by (intro int_div_pos_eq[of r 1000 "h * 3600 + mi * 60 + s" ms]) simp_all
  moreover have "(h * 3600 + mi * 60 + s) mod 60 = s"
    using assms by (intro int_mod_pos_eq[of _ 60 "h * 60 + mi" s]) simp_all
  ultimately show "r div 1000 mod 60 = s"
    by simp
  show "r mod 1000 = ms"
    using assms by (intro int_mod_pos_eq[of r 1000 "h * 3600 + mi * 60 + s" ms]) simp_all
qed

lemma to_iso_date:
  assumes "real_date y mo d h mi s ms"
  shows "to_iso_string (date_ms y mo d h mi s ms)
    = stamp [pad_num 4 y, pad_num 2 mo, pad_num 2 d, pad_num 2 h, pad_num 2 mi, pad_num 2 s]
        (CHR ''.'' # pad_num 3 ms)"
proof -
  note r = assms[unfolded real_date_def]
  define k where "k = sum_list (take (nat (mo - 1)) (month_lengths y)) + (d - 1)"
  define D where "D = day_from_year y + k"
  have b: "0 \<le> h" "h < 24" "0 \<le> mi" "mi < 60" "0 \<le> s" "s < 60" "0 \<le> ms" "ms < 1000"
    using r by blast+
  note ts = time_split[OF b]
  have i: "nat (mo - 1) < 12" "d \<le> month_lengths y ! nat (mo - 1)" "1 \<le> d"
    using r by auto
  have "0 \<le> sum_list (take (nat (mo - 1)) (month_lengths y))"
    using month_lengths_facts(2)[of y] by (intro sum_list_nonneg) (auto simp: list_all_iff dest: in_set_takeD)
  then have "0 \<le> k" "k < days_in_year y"
    using month_start_bound[OF i(1,2)] i(3) by (auto simp: k_def)
  then have y: "year_from_day D = y"
    by (intro year_from_day) (simp_all add: D_def)
  have md: "month_day (month_lengths y) k = (mo, d)"
    using month_day_take[of "nat (mo - 1)" "month_lengths y" d] i r month_lengths_facts[of y]
    by (simp add: k_def)
  have "date_ms y mo d h mi s ms = D * ms_per_day + (h * 3600000 + mi * 60000 + s * 1000 + ms)"
    by (simp add: date_ms_def D_def k_def)
  then have dm: "date_ms y mo d h mi s ms div ms_per_day = D"
    "date_ms y mo d h mi s ms mod ms_per_day = h * 3600000 + mi * 60000 + s * 1000 + ms"
    using day_split[OF ts(1,2)] by simp_all
  have k: "D - day_from_year y = k"
    by (simp add: D_def)
  have iy: "iso_year y = pad_num 4 y"
    using r by (simp add: iso_year_def)
  show ?thesis
    unfolding to_iso_string_def Let_def dm y k md iy prod.case ts(3-6) by (simp add: stamp_def)
qed

section \<open>Which timestamps are accepted\<close>

definition stamp_num :: "string \<Rightarrow> int" where
  "stamp_num u = int (of_base 10 u)"

lemma pad_stamp_num: "digits n u \<Longrightarrow> 0 < n \<Longrightarrow> pad_num n (stamp_num u) = u"
  using pad_dec_of_base[of u] by (cases u) (auto simp: digits_def pad_num_def stamp_num_def)

lemma stamp_num_bounds: "digits n u \<Longrightarrow> 0 \<le> stamp_num u \<and> stamp_num u < 10 ^ n"
  using of_base_less[of u] by (auto simp: digits_def stamp_num_def)

lemma num_at_stamp:
  assumes "digits 4 y" "digits 2 mo" "digits 2 d" "digits 2 h" "digits 2 mi" "digits 2 x"
  shows "num_at (stamp [y, mo, d, h, mi, x] f) 0 4 = stamp_num y" "num_at (stamp [y, mo, d, h, mi, x] f) 5 2 = stamp_num mo"
    "num_at (stamp [y, mo, d, h, mi, x] f) 8 2 = stamp_num d" "num_at (stamp [y, mo, d, h, mi, x] f) 11 2 = stamp_num h"
    "num_at (stamp [y, mo, d, h, mi, x] f) 14 2 = stamp_num mi" "num_at (stamp [y, mo, d, h, mi, x] f) 17 2 = stamp_num x"
    "digits 3 k \<Longrightarrow> num_at (stamp [y, mo, d, h, mi, x] (c # k)) 20 3 = stamp_num k"
    "length (stamp [y, mo, d, h, mi, x] f) = 20 + length f"
  using assms by (simp_all add: num_at_def stamp_def stamp_num_def digits_def)

lemma digits_no_dot: "digits n u \<Longrightarrow> CHR ''.'' \<notin> set u"
  by (auto simp: digits_def list_all_iff is_digit_def code_def)

lemma replace_skip: "CHR ''.'' \<notin> set u \<Longrightarrow> replace_first ''.000Z'' r (u @ v) = u @ replace_first ''.000Z'' r v"
proof (induction u)
  case (Cons c u)
  then show ?case
    by (subst replace_first.simps) auto
qed simp

lemma replace_stamp:
  assumes "digits 4 y" "digits 2 mo" "digits 2 d" "digits 2 h" "digits 2 mi" "digits 2 x"
  shows "replace_first ''.000Z'' ''Z'' (stamp [y, mo, d, h, mi, x] f)
    = y @ ''-'' @ mo @ ''-'' @ d @ ''T'' @ h @ '':'' @ mi @ '':'' @ x @ replace_first ''.000Z'' ''Z'' (f @ ''Z'')"
proof -
  let ?u = "y @ ''-'' @ mo @ ''-'' @ d @ ''T'' @ h @ '':'' @ mi @ '':'' @ x"
  have "CHR ''.'' \<notin> set ?u"
    using assms digits_no_dot by simp
  from replace_skip[OF this, of "''Z''" "f @ ''Z''"]
  show "replace_first ''.000Z'' ''Z'' (stamp [y, mo, d, h, mi, x] f)
    = y @ ''-'' @ mo @ ''-'' @ d @ ''T'' @ h @ '':'' @ mi @ '':'' @ x @ replace_first ''.000Z'' ''Z'' (f @ ''Z'')"
    by (simp add: stamp_def)
qed

lemma replace_tail:
  "replace_first ''.000Z'' ''Z'' ''Z'' = ''Z''"
  "replace_first ''.000Z'' ''Z'' (CHR ''.'' # ''000'' @ ''Z'') = ''Z''"
  by (simp_all add: replace_first.simps)

text \<open>The milliseconds of a fraction, and the timestamps of real dates.\<close>

definition frac_ms :: "string \<Rightarrow> int" where
  "frac_ms f = (if f = [] then 0 else stamp_num (tl f))"

lemma frac_text:
  assumes "f = [] \<or> (\<exists>k. f = CHR ''.'' # k \<and> digits 3 k)"
  shows "0 \<le> frac_ms f \<and> frac_ms f < 1000 \<and>
    replace_first ''.000Z'' ''Z'' ((CHR ''.'' # pad_num 3 (frac_ms f)) @ ''Z'')
      = replace_first ''.000Z'' ''Z'' (f @ ''Z'')"
proof (cases "f = []")
  case True
  have "pad_num 3 0 = ''000''"
    by (simp add: pad_num_def pad_start_def dec_def to_base.simps digit_char_zero numeral_eq_Suc)
  then show ?thesis
    using True replace_tail by (simp add: frac_ms_def)
next
  case False
  then obtain k where "f = CHR ''.'' # k" "digits 3 k"
    using assms by blast
  then show ?thesis
    using pad_stamp_num[of 3 k] stamp_num_bounds[of 3 k] by (simp add: frac_ms_def)
qed

definition timestamp_of :: "string \<Rightarrow> int \<Rightarrow> bool" where
  "timestamp_of s t \<longleftrightarrow>
     (\<exists>y mo d h mi x f. s = stamp [y, mo, d, h, mi, x] f \<and> digits 4 y \<and> digits 2 mo \<and> digits 2 d
       \<and> digits 2 h \<and> digits 2 mi \<and> digits 2 x \<and> (f = [] \<or> (\<exists>k. f = CHR ''.'' # k \<and> digits 3 k))
       \<and> real_date (stamp_num y) (stamp_num mo) (stamp_num d) (stamp_num h) (stamp_num mi) (stamp_num x) (frac_ms f)
       \<and> t = date_ms (stamp_num y) (stamp_num mo) (stamp_num d) (stamp_num h) (stamp_num mi) (stamp_num x) (frac_ms f))"

lemma pad_num_no_dot: "CHR ''.'' \<notin> set (pad_num n v)"
  using digits_no_dot[of "length (pad_num n v)" "pad_num n v"]
  by (simp add: digits_def pad_num_def digits_pad_start dec_digits)

lemma pad_num_eval: "pad_num 2 24 = ''24''" "pad_num 2 0 = ''00''" "pad_num 3 0 = ''000''"
  using pad_stamp_num[of 2 "''24''"] pad_stamp_num[of 2 "''00''"] pad_stamp_num[of 3 "''000''"]
  by (simp_all add: digits_def stamp_num_def of_base_Cons digit_val_def is_digit_def code_def)

text \<open>A text of midnight at the end of a day prints as midnight at the start of the next.\<close>

lemma to_iso_midnight: "\<exists>a. CHR ''.'' \<notin> set a \<and> to_iso_string (D * ms_per_day) = a @ ''T00:00:00'' @ ''.000Z''"
proof -
  have "D * ms_per_day div ms_per_day = D" "D * ms_per_day mod ms_per_day = 0"
    by (simp_all add: ms_per_day_def)
  moreover have "CHR ''.'' \<notin> set (iso_year y)" for y
    by (simp add: iso_year_def pad_num_no_dot)
  ultimately show ?thesis
    using pad_num_no_dot
    by (auto simp: to_iso_string_def Let_def pad_num_eval split: prod.splits
        intro!: exI[of _ "iso_year y @ ''-'' @ pad_num 2 m @ ''-'' @ pad_num 2 k" for y m k])
qed

lemma replace_midnight:
  "\<exists>a. replace_first ''.000Z'' ''Z'' (to_iso_string (D * ms_per_day)) = a @ ''T00:00:00Z''"
proof -
  obtain a where "CHR ''.'' \<notin> set a" "to_iso_string (D * ms_per_day) = a @ ''T00:00:00'' @ ''.000Z''"
    using to_iso_midnight by blast
  then show ?thesis
    using replace_skip[of "a @ ''T00:00:00''" "''Z''" "''.000Z''"] replace_tail(2) by auto
qed

lemma date_ms_midnight: "\<exists>D. date_ms y mo d 24 0 0 0 = D * ms_per_day"
  by (rule exI[of _ "day_from_year y + sum_list (take (nat (mo - 1)) (month_lengths y)) + (d - 1) + 1"])
    (simp add: date_ms_def ms_per_day_def)

text \<open>The check of the reprinted text, on a text of the right shape.\<close>

definition reprints :: "string \<Rightarrow> int \<Rightarrow> bool" where
  "reprints s t = (replace_first ''.000Z'' ''Z'' (to_iso_string t) = replace_first ''.000Z'' ''Z'' s)"

lemma reprints_real:
  assumes dg: "digits 4 y" "digits 2 mo" "digits 2 d" "digits 2 h" "digits 2 mi" "digits 2 x"
    and f: "f = [] \<or> (\<exists>k. f = CHR ''.'' # k \<and> digits 3 k)"
    and r: "real_date (stamp_num y) (stamp_num mo) (stamp_num d) (stamp_num h) (stamp_num mi) (stamp_num x) (frac_ms f)"
  shows "reprints (stamp [y, mo, d, h, mi, x] f)
    (date_ms (stamp_num y) (stamp_num mo) (stamp_num d) (stamp_num h) (stamp_num mi) (stamp_num x) (frac_ms f))"
  using frac_text[OF f]
  unfolding reprints_def to_iso_date[OF r] pad_stamp_num[OF dg(1), simplified] pad_stamp_num[OF dg(2), simplified]
    pad_stamp_num[OF dg(3), simplified] pad_stamp_num[OF dg(4), simplified] pad_stamp_num[OF dg(5), simplified]
    pad_stamp_num[OF dg(6), simplified] replace_stamp[OF dg]
  by simp

lemma reprints_not_24:
  assumes dg: "digits 4 y" "digits 2 mo" "digits 2 d" "digits 2 h" "digits 2 mi" "digits 2 x"
    and f: "f = [] \<or> (\<exists>k. f = CHR ''.'' # k \<and> digits 3 k)"
    and z: "stamp_num h = 24" "stamp_num mi = 0" "stamp_num x = 0" "frac_ms f = 0"
  shows "\<not> reprints (stamp [y, mo, d, h, mi, x] f) (date_ms yy mm dd 24 0 0 0)"
proof
  assume r: "reprints (stamp [y, mo, d, h, mi, x] f) (date_ms yy mm dd 24 0 0 0)"
  have t: "h = ''24''" "mi = ''00''" "x = ''00''"
    using pad_stamp_num[OF dg(4)] pad_stamp_num[OF dg(5)] pad_stamp_num[OF dg(6)] z pad_num_eval by simp_all
  have "replace_first ''.000Z'' ''Z'' (f @ ''Z'') = ''Z''"
    using frac_text[OF f] z(4) pad_num_eval(3) replace_tail by simp
  moreover obtain a where "replace_first ''.000Z'' ''Z'' (to_iso_string (date_ms yy mm dd 24 0 0 0)) = a @ ''T00:00:00Z''"
    using date_ms_midnight replace_midnight by metis
  ultimately have "a @ ''T00:00:00Z'' = (y @ ''-'' @ mo @ ''-'' @ d) @ ''T24:00:00Z''"
    using r unfolding reprints_def t replace_stamp[OF dg, of f, unfolded t] by simp
  then show False
    unfolding append_eq_append_conv[OF disjI2, of "''T00:00:00Z''" "''T24:00:00Z''", simplified] by simp
qed

lemma parse_stamp:
  assumes dg: "digits 4 y" "digits 2 mo" "digits 2 d" "digits 2 h" "digits 2 mi" "digits 2 x"
    and f: "f = [] \<or> (\<exists>k. f = CHR ''.'' # k \<and> digits 3 k)"
  defines "s \<equiv> stamp [y, mo, d, h, mi, x] f"
  shows "(\<exists>t. date_parse s = Some t \<and> reprints s t) \<longleftrightarrow>
     real_date (stamp_num y) (stamp_num mo) (stamp_num d) (stamp_num h) (stamp_num mi) (stamp_num x) (frac_ms f)"
    and "date_parse s = Some t \<Longrightarrow>
      t = date_ms (stamp_num y) (stamp_num mo) (stamp_num d) (stamp_num h) (stamp_num mi) (stamp_num x) (frac_ms f)"
proof -
  have ms: "(if length s = 24 then num_at s 20 3 else 0) = frac_ms f"
    using f num_at_stamp[OF dg] by (auto simp: s_def frac_ms_def digits_def)
  note n = num_at_stamp(1-6)[OF dg, of f, folded s_def]
  have p: "date_parse s = (if 1 \<le> stamp_num mo \<and> stamp_num mo \<le> 12 \<and> 1 \<le> stamp_num d
        \<and> stamp_num d \<le> month_lengths (stamp_num y) ! nat (stamp_num mo - 1)
        \<and> (stamp_num h < 24 \<or> stamp_num h = 24 \<and> stamp_num mi = 0 \<and> stamp_num x = 0 \<and> frac_ms f = 0)
        \<and> stamp_num mi < 60 \<and> stamp_num x < 60
      then Some (date_ms (stamp_num y) (stamp_num mo) (stamp_num d) (stamp_num h) (stamp_num mi) (stamp_num x) (frac_ms f))
      else None)"
    unfolding date_parse_def ms n Let_def ..
  show "date_parse s = Some t \<Longrightarrow>
      t = date_ms (stamp_num y) (stamp_num mo) (stamp_num d) (stamp_num h) (stamp_num mi) (stamp_num x) (frac_ms f)"
    using p by (simp split: if_splits)
  have b: "0 \<le> stamp_num y" "stamp_num y \<le> 9999" "0 \<le> stamp_num h" "0 \<le> stamp_num mi" "0 \<le> stamp_num x"
    "0 \<le> frac_ms f" "frac_ms f < 1000"
    using stamp_num_bounds[OF dg(1)] stamp_num_bounds[OF dg(4)] stamp_num_bounds[OF dg(5)] stamp_num_bounds[OF dg(6)]
      frac_text[OF f] by simp_all
  show "(\<exists>t. date_parse s = Some t \<and> reprints s t) \<longleftrightarrow>
     real_date (stamp_num y) (stamp_num mo) (stamp_num d) (stamp_num h) (stamp_num mi) (stamp_num x) (frac_ms f)"
  proof
    assume "\<exists>t. date_parse s = Some t \<and> reprints s t"
    then show "real_date (stamp_num y) (stamp_num mo) (stamp_num d) (stamp_num h) (stamp_num mi) (stamp_num x) (frac_ms f)"
      using p b reprints_not_24[OF dg f] unfolding s_def[symmetric] by (auto simp: real_date_def split: if_splits)
  next
    assume "real_date (stamp_num y) (stamp_num mo) (stamp_num d) (stamp_num h) (stamp_num mi) (stamp_num x) (frac_ms f)"
    then show "\<exists>t. date_parse s = Some t \<and> reprints s t"
      using p reprints_real[OF dg f] unfolding s_def[symmetric] by (simp add: real_date_def)
  qed
qed

lemma parseCanonicalTimestamp_Inr:
  "parseCanonicalTimestamp l v = Inr t \<longleftrightarrow> (\<exists>s. v = JStr s \<and> timestamp_of s t)"
proof -
  have "rfc3339_utc s \<and> date_parse s = Some t \<and> reprints s t \<longleftrightarrow> timestamp_of s t" for s
  proof
    assume a: "rfc3339_utc s \<and> date_parse s = Some t \<and> reprints s t"
    then obtain y mo d h mi x f where s: "s = stamp [y, mo, d, h, mi, x] f"
      and dg: "digits 4 y" "digits 2 mo" "digits 2 d" "digits 2 h" "digits 2 mi" "digits 2 x"
      and f: "f = [] \<or> (\<exists>k. f = CHR ''.'' # k \<and> digits 3 k)"
      unfolding rfc3339_parts by blast
    show "timestamp_of s t"
      unfolding timestamp_of_def using a s dg f parse_stamp[OF dg f] by blast
  next
    assume "timestamp_of s t"
    then obtain y mo d h mi x f where s: "s = stamp [y, mo, d, h, mi, x] f"
      and dg: "digits 4 y" "digits 2 mo" "digits 2 d" "digits 2 h" "digits 2 mi" "digits 2 x"
      and f: "f = [] \<or> (\<exists>k. f = CHR ''.'' # k \<and> digits 3 k)"
      and r: "real_date (stamp_num y) (stamp_num mo) (stamp_num d) (stamp_num h) (stamp_num mi) (stamp_num x) (frac_ms f)"
      and t: "t = date_ms (stamp_num y) (stamp_num mo) (stamp_num d) (stamp_num h) (stamp_num mi) (stamp_num x) (frac_ms f)"
      unfolding timestamp_of_def by blast
    have "rfc3339_utc s"
      unfolding rfc3339_parts using s dg f by blast
    moreover obtain t' where "date_parse s = Some t'" "reprints s t'" "t' = t"
      using parse_stamp[OF dg f] r t s by blast
    ultimately show "rfc3339_utc s \<and> date_parse s = Some t \<and> reprints s t"
      by blast
  qed
  note timestamp = this[symmetric]
  show ?thesis
    unfolding timestamp
    by (auto simp: parseCanonicalTimestamp_def reprints_def split: jsval.splits option.splits)
qed

end
