(* ===== verification/Cross_Chain_Intent.thy ===== *)
theory Cross_Chain_Intent
  imports Js_Date Json
begin

text \<open>
  Cross-chain intents and their lifecycle (packages/domain/src/index.ts): the fail-closed validator of
  an untyped intent, its canonical text and digest, the stage topology, and the lifecycle operations
  that bind every step to one intent revision. SHA-256 is an argument.
\<close>

section \<open>Field validators\<close>

definition MAX_BASE_UNIT_DIGITS :: nat where
  "MAX_BASE_UNIT_DIGITS = 78"

definition APP20_INTENT_DOMAIN :: string where
  "APP20_INTENT_DOMAIN = ''app20/intent/v1''"

definition record_fields :: "jsval \<Rightarrow> string \<Rightarrow> fields result" where
  "record_fields v label =
     (case v of JObj kvs \<Rightarrow> Inr kvs | _ \<Rightarrow> Inl (Err (label @ '' must be an object.'')))"

definition assertExactKeys :: "fields \<Rightarrow> string \<Rightarrow> string list \<Rightarrow> unit result" where
  "assertExactKeys kvs label names =
     (case find_bad (\<lambda>k. k \<in> set names) (obj_keys kvs) of
        Some k \<Rightarrow> Inl (Err (label @ '' contains an unrecognized field ('' @ k @ '').''))
      | None \<Rightarrow> (case find_bad (has_field kvs) names of
            Some k \<Rightarrow> Inl (Err (label @ '' is missing required field '' @ k @ ''.''))
          | None \<Rightarrow> Inr ()))"

definition assertString :: "jsval \<Rightarrow> string \<Rightarrow> string result" where
  "assertString v label = (case v of JStr s \<Rightarrow> Inr s | _ \<Rightarrow> Inl (Err (label @ '' must be a string.'')))"

definition opaque_char :: "char \<Rightarrow> bool" where
  "opaque_char c = (32 \<le> code c \<and> code c \<noteq> 127 \<and> \<not> is_ws c)"

definition assertOpaqueIdentifier :: "string \<Rightarrow> jsval \<Rightarrow> nat \<Rightarrow> unit result" where
  "assertOpaqueIdentifier label v maximumLength =
     bind_r (assertString v label) (\<lambda>s.
     if s = [] \<or> maximumLength < length s \<or> s \<noteq> trim s \<or> \<not> list_all opaque_char s
     then Inl (Err (label @ '' is malformed.'')) else Inr ())"

text \<open>\<open>/^[a-z0-9][a-z0-9-]{1,31}:[A-Za-z0-9][A-Za-z0-9_-]{0,63}$/\<close>.\<close>

definition chain_id_text :: "string \<Rightarrow> bool" where
  "chain_id_text s =
     (let ns = takeWhile (\<lambda>c. c \<noteq> CHR '':'') s; ref = drop (length ns + 1) s in
      length ns < length s
      \<and> 2 \<le> length ns \<and> length ns \<le> 32 \<and> (is_lower_alpha (hd ns) \<or> is_digit (hd ns))
      \<and> list_all (\<lambda>c. is_lower_alpha c \<or> is_digit c \<or> c = CHR ''-'') (tl ns)
      \<and> ref \<noteq> [] \<and> length ref \<le> 64 \<and> is_alnum (hd ref)
      \<and> list_all (\<lambda>c. is_alnum c \<or> c = CHR ''_'' \<or> c = CHR ''-'') (tl ref))"

definition assertChainId :: "string \<Rightarrow> jsval \<Rightarrow> unit result" where
  "assertChainId label v =
     bind_r (assertString v label) (\<lambda>s.
     if chain_id_text s then Inr () else Inl (Err (label @ '' must be a canonical chain identifier.'')))"

definition assertIntentId :: "jsval \<Rightarrow> unit result" where
  "assertIntentId v =
     bind_r (assertString v ''intentId'') (\<lambda>s.
     if 32 \<le> length s \<and> length s \<le> 128 \<and> list_all (\<lambda>c. is_alnum c \<or> c = CHR ''_'' \<or> c = CHR ''-'') s
     then Inr ()
     else Inl (Err ''intentId must be a canonical identifier encoding at least 128 bits of unpredictable input.''))"

definition assertBaseUnits :: "string \<Rightarrow> jsval \<Rightarrow> bool \<Rightarrow> unit result" where
  "assertBaseUnits label v allowZero =
     bind_r (assertString v label) (\<lambda>s.
     if s = [] \<or> MAX_BASE_UNIT_DIGITS < length s \<or> \<not> canonical_dec s
     then Inl (Err (label @ '' must be a canonical non-negative base-unit integer.''))
     else if \<not> allowZero \<and> s = ''0'' then Inl (Err (label @ '' must be greater than zero.''))
     else Inr ())"

definition assertEnum :: "string \<Rightarrow> jsval \<Rightarrow> string list \<Rightarrow> unit result" where
  "assertEnum label v allowed =
     (case v of
        JStr s \<Rightarrow> if s \<in> set allowed then Inr () else Inl (Err (label @ '' is not supported.''))
      | _ \<Rightarrow> Inl (Err (label @ '' is not supported.'')))"

definition assertSafeNonNegativeInteger :: "string \<Rightarrow> jsval \<Rightarrow> unit result" where
  "assertSafeNonNegativeInteger label v =
     (case v of
        JNum x \<Rightarrow> (case as_safe_int x of
            Some n \<Rightarrow> if n < 0 then Inl (Err (label @ '' must be a non-negative safe integer.'')) else Inr ()
          | None \<Rightarrow> Inl (Err (label @ '' must be a non-negative safe integer.'')))
      | _ \<Rightarrow> Inl (Err (label @ '' must be a non-negative safe integer.'')))"

text \<open>A bounded integer: \<open>Number.isInteger\<close> between zero and a maximum.\<close>

definition bounded_integer :: "jsval \<Rightarrow> int \<Rightarrow> bool" where
  "bounded_integer v m =
     (case v of JNum x \<Rightarrow> (case as_integer x of Some n \<Rightarrow> 0 \<le> n \<and> n \<le> m | None \<Rightarrow> False) | _ \<Rightarrow> False)"

fun validate_entries :: "(string \<Rightarrow> jsval \<Rightarrow> unit result) \<Rightarrow> string \<Rightarrow> nat \<Rightarrow> jsval list \<Rightarrow> unit result" where
  "validate_entries check label i [] = Inr ()"
| "validate_entries check label i (v # vs) =
     bind_r (check (label @ ''['' @ dec i @ '']'') v) (\<lambda>_. validate_entries check label (i + 1) vs)"

text \<open>The entries have been validated as strings when the duplicates are counted.\<close>

definition assertUniqueIdentifiers ::
  "string \<Rightarrow> jsval \<Rightarrow> (string \<Rightarrow> jsval \<Rightarrow> unit result) \<Rightarrow> unit result" where
  "assertUniqueIdentifiers label v check =
     (case v of
        JArr vs \<Rightarrow>
          if vs = [] then Inl (Err (label @ '' must contain at least one value.''))
          else if 64 < length vs then Inl (Err (label @ '' contains too many values.''))
          else bind_r (validate_entries check label 0 vs) (\<lambda>_.
            if distinct vs then Inr () else Inl (Err (label @ '' cannot contain duplicates.'')))
      | _ \<Rightarrow> Inl (Err (label @ '' must contain at least one value.'')))"

section \<open>The intent\<close>

definition INTENT_FIELDS :: "string list" where
  "INTENT_FIELDS = [''version'', ''intentId'', ''revision'', ''kind'', ''sourceAccount'',
     ''destinationAccount'', ''refundAccount'', ''sourceAsset'', ''destinationAsset'', ''amount'',
     ''minimumOutput'', ''maximumFee'', ''slippageBps'', ''deadline'', ''providerId'', ''swapMode'',
     ''fundingMode'', ''deliveryMode'', ''refundMode'', ''privacyMode'', ''disclosedTo'', ''createdAt'',
     ''expiresAt'']"

definition SOURCE_ACCOUNT_FIELDS :: "string list" where
  "SOURCE_ACCOUNT_FIELDS = [''id'', ''chainId'', ''address'', ''signer'', ''custody'', ''capabilities'',
     ''policyMode'']"

definition CHAIN_ACCOUNT_FIELDS :: "string list" where
  "CHAIN_ACCOUNT_FIELDS = [''chainId'', ''address'']"

definition ASSET_FIELDS :: "string list" where
  "ASSET_FIELDS = [''chainId'', ''assetId'', ''decimals'']"

text \<open>The parts of an intent once its objects have been opened.\<close>

record intent_parts =
  ip_intent :: fields
  ip_sourceAccount :: fields
  ip_destinationAccount :: fields
  ip_refundAccount :: fields
  ip_sourceAsset :: fields
  ip_destinationAsset :: fields

definition open_intent :: "jsval \<Rightarrow> intent_parts result" where
  "open_intent v =
     bind_r (record_fields v ''CrossChainIntentV1'') (\<lambda>i.
     bind_r (assertExactKeys i ''CrossChainIntentV1'' INTENT_FIELDS) (\<lambda>_.
     bind_r (record_fields (get_field i ''sourceAccount'') ''sourceAccount'') (\<lambda>sa.
     bind_r (record_fields (get_field i ''destinationAccount'') ''destinationAccount'') (\<lambda>da.
     bind_r (record_fields (get_field i ''refundAccount'') ''refundAccount'') (\<lambda>ra.
     bind_r (record_fields (get_field i ''sourceAsset'') ''sourceAsset'') (\<lambda>sx.
     bind_r (record_fields (get_field i ''destinationAsset'') ''destinationAsset'') (\<lambda>dx.
     bind_r (assertExactKeys sa ''sourceAccount'' SOURCE_ACCOUNT_FIELDS) (\<lambda>_.
     bind_r (assertExactKeys da ''destinationAccount'' CHAIN_ACCOUNT_FIELDS) (\<lambda>_.
     bind_r (assertExactKeys ra ''refundAccount'' CHAIN_ACCOUNT_FIELDS) (\<lambda>_.
     bind_r (assertExactKeys sx ''sourceAsset'' ASSET_FIELDS) (\<lambda>_.
     bind_r (assertExactKeys dx ''destinationAsset'' ASSET_FIELDS) (\<lambda>_.
     Inr \<lparr>ip_intent = i, ip_sourceAccount = sa, ip_destinationAccount = da, ip_refundAccount = ra,
       ip_sourceAsset = sx, ip_destinationAsset = dx\<rparr>))))))))))))"

fun all_ok :: "unit result list \<Rightarrow> unit result" where
  "all_ok [] = Inr ()"
| "all_ok (r # rs) = bind_r r (\<lambda>_. all_ok rs)"

definition require :: "bool \<Rightarrow> string \<Rightarrow> unit result" where
  "require c message = (if c then Inr () else Inl (Err message))"

definition check_accounts :: "intent_parts \<Rightarrow> unit result" where
  "check_accounts p =
     (let i = ip_intent p; sa = ip_sourceAccount p; da = ip_destinationAccount p; ra = ip_refundAccount p;
          sx = ip_sourceAsset p; dx = ip_destinationAsset p
      in all_ok
       [require (get_field i ''version'' = JNum (Fin 1) \<and> get_field i ''kind'' = JStr ''cross-chain'')
          ''Unsupported APP20 intent version or kind.'',
        assertIntentId (get_field i ''intentId''),
        assertSafeNonNegativeInteger ''revision'' (get_field i ''revision''),
        assertOpaqueIdentifier ''sourceAccount.id'' (get_field sa ''id'') 256,
        assertChainId ''sourceAccount.chainId'' (get_field sa ''chainId''),
        assertOpaqueIdentifier ''sourceAccount.address'' (get_field sa ''address'') 512,
        assertEnum ''sourceAccount.signer'' (get_field sa ''signer'')
          [''ready'', ''privy'', ''near'', ''injected'', ''hardware''],
        assertEnum ''sourceAccount.custody'' (get_field sa ''custody'') [''user'', ''embedded'', ''shared''],
        assertEnum ''sourceAccount.policyMode'' (get_field sa ''policyMode'')
          [''none'', ''advisory'', ''backend-gated'', ''cryptographic''],
        assertUniqueIdentifiers ''sourceAccount.capabilities'' (get_field sa ''capabilities'')
          (\<lambda>label entry. assertOpaqueIdentifier label entry 128),
        assertChainId ''destinationAccount.chainId'' (get_field da ''chainId''),
        assertOpaqueIdentifier ''destinationAccount.address'' (get_field da ''address'') 512,
        assertChainId ''refundAccount.chainId'' (get_field ra ''chainId''),
        assertOpaqueIdentifier ''refundAccount.address'' (get_field ra ''address'') 512,
        assertChainId ''sourceAsset.chainId'' (get_field sx ''chainId''),
        assertOpaqueIdentifier ''sourceAsset.assetId'' (get_field sx ''assetId'') 512,
        assertChainId ''destinationAsset.chainId'' (get_field dx ''chainId''),
        assertOpaqueIdentifier ''destinationAsset.assetId'' (get_field dx ''assetId'') 512])"

definition check_chains :: "intent_parts \<Rightarrow> unit result" where
  "check_chains p =
     all_ok
       [require (get_field (ip_sourceAccount p) ''chainId'' = get_field (ip_sourceAsset p) ''chainId'')
          ''The source account and source asset must use the same chain.'',
        require (get_field (ip_destinationAccount p) ''chainId'' = get_field (ip_destinationAsset p) ''chainId'')
          ''The destination account and destination asset must use the same chain.'',
        require (get_field (ip_sourceAsset p) ''chainId'' \<noteq> get_field (ip_destinationAsset p) ''chainId'')
          ''A cross-chain intent requires different source and destination chains.'',
        require (bounded_integer (get_field (ip_sourceAsset p) ''decimals'') 255)
          ''sourceAsset.decimals must be an integer between 0 and 255.'',
        require (bounded_integer (get_field (ip_destinationAsset p) ''decimals'') 255)
          ''destinationAsset.decimals must be an integer between 0 and 255.'']"

definition check_amounts :: "fields \<Rightarrow> unit result" where
  "check_amounts i =
     all_ok
       [assertBaseUnits ''amount'' (get_field i ''amount'') False,
        assertBaseUnits ''minimumOutput'' (get_field i ''minimumOutput'') False,
        assertBaseUnits ''maximumFee'' (get_field i ''maximumFee'') True,
        require (bounded_integer (get_field i ''slippageBps'') 10000)
          ''slippageBps must be an integer between 0 and 10,000.'']"

definition check_times :: "fields \<Rightarrow> unit result" where
  "check_times i =
     bind_r (parseCanonicalTimestamp ''deadline'' (get_field i ''deadline'')) (\<lambda>deadline.
     bind_r (parseCanonicalTimestamp ''createdAt'' (get_field i ''createdAt'')) (\<lambda>createdAt.
     bind_r (parseCanonicalTimestamp ''expiresAt'' (get_field i ''expiresAt'')) (\<lambda>expiresAt.
     if expiresAt < createdAt then Inl (Err ''createdAt cannot be later than expiresAt.'')
     else if deadline < expiresAt then Inl (Err ''expiresAt cannot be later than deadline.'')
     else Inr ())))"

definition check_modes :: "fields \<Rightarrow> unit result" where
  "check_modes i =
     all_ok
       [assertEnum ''providerId'' (get_field i ''providerId'') [''near-intents:1click''],
        assertEnum ''swapMode'' (get_field i ''swapMode'') [''exact-input'', ''exact-output'', ''flex-input''],
        assertEnum ''fundingMode'' (get_field i ''fundingMode'')
          [''origin-chain'', ''intents'', ''confidential-intents''],
        assertEnum ''deliveryMode'' (get_field i ''deliveryMode'')
          [''destination-chain'', ''intents'', ''confidential-intents''],
        assertEnum ''refundMode'' (get_field i ''refundMode'')
          [''origin-chain'', ''intents'', ''confidential-intents''],
        assertEnum ''privacyMode'' (get_field i ''privacyMode'')
          [''public'', ''confidential-basic'', ''confidential-advanced''],
        assertUniqueIdentifiers ''disclosedTo'' (get_field i ''disclosedTo'')
          (\<lambda>label entry. assertEnum label entry
            [''intents-provider'', ''solver'', ''source-chain'', ''destination-chain'', ''policy-enclave''])]"

definition check_refund :: "intent_parts \<Rightarrow> unit result" where
  "check_refund p =
     require (\<not> (get_field (ip_intent p) ''refundMode'' = JStr ''origin-chain''
         \<and> get_field (ip_refundAccount p) ''chainId'' \<noteq> get_field (ip_sourceAccount p) ''chainId''))
       ''An origin-chain refund account must use the source account chain.''"

definition assertCrossChainIntent :: "jsval \<Rightarrow> intent_parts result" where
  "assertCrossChainIntent v =
     bind_r (open_intent v) (\<lambda>p.
     bind_r (check_accounts p) (\<lambda>_.
     bind_r (check_chains p) (\<lambda>_.
     bind_r (check_amounts (ip_intent p)) (\<lambda>_.
     bind_r (check_times (ip_intent p)) (\<lambda>_.
     bind_r (check_modes (ip_intent p)) (\<lambda>_.
     bind_r (check_refund p) (\<lambda>_. Inr p)))))))"

section \<open>Canonical text\<close>

text \<open>
  \<open>canonicalJson\<close> on a value with sorted keys; a number that is not a safe integer throws. Property
  names and array entries are compared by code unit.
\<close>

fun canonical_value :: "jsval \<Rightarrow> json result"
  and canonical_values :: "jsval list \<Rightarrow> json list result"
  and canonical_fields :: "(string \<times> jsval) list \<Rightarrow> (string \<times> json) list result" where
  "canonical_value (JNum x) =
     (case as_safe_int x of Some n \<Rightarrow> Inr (Jint n)
      | None \<Rightarrow> Inl (Err ''Canonical numeric values must be safe integers.''))"
| "canonical_value (JStr s) = Inr (Jstr s)"
| "canonical_value (JBool b) = Inr (Jbool b)"
| "canonical_value (JArr vs) = bind_r (canonical_values vs) (\<lambda>js. Inr (Jarr js))"
| "canonical_value (JObj kvs) = bind_r (canonical_fields kvs) (\<lambda>js. Inr (Jobj (sort_key fst js)))"
| "canonical_value _ = Inr Jnull"
| "canonical_values [] = Inr []"
| "canonical_values (v # vs) =
     bind_r (canonical_value v) (\<lambda>j. bind_r (canonical_values vs) (\<lambda>js. Inr (j # js)))"
| "canonical_fields [] = Inr []"
| "canonical_fields ((k, v) # kvs) =
     bind_r (canonical_value v) (\<lambda>j. bind_r (canonical_fields kvs) (\<lambda>js. Inr ((k, j) # js)))"

definition canonicalJson :: "jsval \<Rightarrow> string result" where
  "canonicalJson v = bind_r (canonical_value v) (\<lambda>j. Inr (json_text j))"

text \<open>\<open>[...values].sort()\<close> on an array that has been validated to hold strings.\<close>

definition text_of :: "jsval \<Rightarrow> string" where
  "text_of v = (case v of JStr s \<Rightarrow> s | _ \<Rightarrow> [])"

definition sorted_strings :: "jsval \<Rightarrow> jsval" where
  "sorted_strings v = (case v of JArr vs \<Rightarrow> JArr (map JStr (sort (map text_of vs))) | _ \<Rightarrow> v)"

definition pick :: "fields \<Rightarrow> string list \<Rightarrow> fields" where
  "pick kvs names = map (\<lambda>k. (k, get_field kvs k)) names"

definition source_object :: "fields \<Rightarrow> fields" where
  "source_object sa =
     [(''address'', get_field sa ''address''),
      (''capabilities'', sorted_strings (get_field sa ''capabilities'')),
      (''chainId'', get_field sa ''chainId''), (''custody'', get_field sa ''custody''),
      (''id'', get_field sa ''id''), (''policyMode'', get_field sa ''policyMode''),
      (''signer'', get_field sa ''signer'')]"

definition intent_object :: "intent_parts \<Rightarrow> fields" where
  "intent_object p =
     (let i = ip_intent p in
      [(''amount'', get_field i ''amount''), (''createdAt'', get_field i ''createdAt''),
       (''deadline'', get_field i ''deadline''), (''deliveryMode'', get_field i ''deliveryMode''),
       (''destinationAccount'', JObj (pick (ip_destinationAccount p) [''address'', ''chainId''])),
       (''destinationAsset'', JObj (pick (ip_destinationAsset p) [''assetId'', ''chainId'', ''decimals''])),
       (''disclosedTo'', sorted_strings (get_field i ''disclosedTo'')),
       (''expiresAt'', get_field i ''expiresAt''), (''fundingMode'', get_field i ''fundingMode''),
       (''intentId'', get_field i ''intentId''), (''kind'', get_field i ''kind''),
       (''maximumFee'', get_field i ''maximumFee''), (''minimumOutput'', get_field i ''minimumOutput''),
       (''privacyMode'', get_field i ''privacyMode''), (''providerId'', get_field i ''providerId''),
       (''refundAccount'', JObj (pick (ip_refundAccount p) [''address'', ''chainId''])),
       (''refundMode'', get_field i ''refundMode''), (''revision'', get_field i ''revision''),
       (''slippageBps'', get_field i ''slippageBps''),
       (''sourceAccount'', JObj (source_object (ip_sourceAccount p))),
       (''sourceAsset'', JObj (pick (ip_sourceAsset p) [''assetId'', ''chainId'', ''decimals''])),
       (''swapMode'', get_field i ''swapMode''), (''version'', get_field i ''version'')])"

definition intent_value :: "intent_parts \<Rightarrow> jsval" where
  "intent_value p =
     JObj [(''domain'', JStr APP20_INTENT_DOMAIN), (''intent'', JObj (intent_object p))]"

definition canonicalizeCrossChainIntent :: "jsval \<Rightarrow> string result" where
  "canonicalizeCrossChainIntent v =
     bind_r (assertCrossChainIntent v) (\<lambda>p. canonicalJson (intent_value p))"

definition digestCrossChainIntent :: "(string \<Rightarrow> string) \<Rightarrow> jsval \<Rightarrow> string result" where
  "digestCrossChainIntent sha256Hex v =
     bind_r (canonicalizeCrossChainIntent v) (\<lambda>t. Inr (''0x'' @ sha256Hex t))"

section \<open>Stages\<close>

datatype cross_chain_stage =
    DRAFT | VALIDATING | PREFLIGHT_POLICY | QUOTING | AWAITING_REVIEW | BUILDING | AWAITING_FINAL_POLICY
  | AWAITING_SIGNATURE | SUBMITTING | SUBMITTED | SOURCE_CONFIRMING | SOURCE_FINALIZED
  | SETTLEMENT_PENDING | DESTINATION_CONFIRMING | COMPLETED | AWAITING_PREREQUISITE | BLOCKED
  | MANUAL_REVIEW | EXPIRED | CANCELLED | FAILED_RETRYABLE | FAILED_FINAL | SUBMISSION_UNKNOWN
  | REFUND_PENDING | REFUNDED | REORGED

definition CROSS_CHAIN_STAGES :: "(string \<times> cross_chain_stage) list" where
  "CROSS_CHAIN_STAGES =
     [(''DRAFT'', DRAFT), (''VALIDATING'', VALIDATING), (''PREFLIGHT_POLICY'', PREFLIGHT_POLICY),
      (''QUOTING'', QUOTING), (''AWAITING_REVIEW'', AWAITING_REVIEW), (''BUILDING'', BUILDING),
      (''AWAITING_FINAL_POLICY'', AWAITING_FINAL_POLICY), (''AWAITING_SIGNATURE'', AWAITING_SIGNATURE),
      (''SUBMITTING'', SUBMITTING), (''SUBMITTED'', SUBMITTED), (''SOURCE_CONFIRMING'', SOURCE_CONFIRMING),
      (''SOURCE_FINALIZED'', SOURCE_FINALIZED), (''SETTLEMENT_PENDING'', SETTLEMENT_PENDING),
      (''DESTINATION_CONFIRMING'', DESTINATION_CONFIRMING), (''COMPLETED'', COMPLETED),
      (''AWAITING_PREREQUISITE'', AWAITING_PREREQUISITE), (''BLOCKED'', BLOCKED),
      (''MANUAL_REVIEW'', MANUAL_REVIEW), (''EXPIRED'', EXPIRED), (''CANCELLED'', CANCELLED),
      (''FAILED_RETRYABLE'', FAILED_RETRYABLE), (''FAILED_FINAL'', FAILED_FINAL),
      (''SUBMISSION_UNKNOWN'', SUBMISSION_UNKNOWN), (''REFUND_PENDING'', REFUND_PENDING),
      (''REFUNDED'', REFUNDED), (''REORGED'', REORGED)]"

definition TERMINAL_STAGES :: "cross_chain_stage list" where
  "TERMINAL_STAGES = [COMPLETED, EXPIRED, CANCELLED, FAILED_FINAL, REFUNDED]"

definition PRE_SUBMISSION_STAGES :: "cross_chain_stage list" where
  "PRE_SUBMISSION_STAGES = [DRAFT, VALIDATING, PREFLIGHT_POLICY, QUOTING, AWAITING_REVIEW, BUILDING,
     AWAITING_FINAL_POLICY, AWAITING_SIGNATURE, AWAITING_PREREQUISITE, BLOCKED, FAILED_RETRYABLE]"

definition REVISION_GATED_NEXT_STAGES :: "cross_chain_stage list" where
  "REVISION_GATED_NEXT_STAGES = [VALIDATING, PREFLIGHT_POLICY, QUOTING, BUILDING, AWAITING_FINAL_POLICY,
     AWAITING_SIGNATURE, SUBMITTING]"

fun ALLOWED_TRANSITIONS :: "cross_chain_stage \<Rightarrow> cross_chain_stage list" where
  "ALLOWED_TRANSITIONS DRAFT = [VALIDATING, EXPIRED, CANCELLED]"
| "ALLOWED_TRANSITIONS VALIDATING =
     [PREFLIGHT_POLICY, AWAITING_PREREQUISITE, BLOCKED, EXPIRED, FAILED_FINAL, CANCELLED]"
| "ALLOWED_TRANSITIONS PREFLIGHT_POLICY = [QUOTING, BLOCKED, MANUAL_REVIEW, EXPIRED, CANCELLED]"
| "ALLOWED_TRANSITIONS QUOTING =
     [AWAITING_REVIEW, AWAITING_PREREQUISITE, EXPIRED, BLOCKED, FAILED_RETRYABLE, CANCELLED]"
| "ALLOWED_TRANSITIONS AWAITING_REVIEW = [BUILDING, VALIDATING, EXPIRED, CANCELLED]"
| "ALLOWED_TRANSITIONS BUILDING =
     [AWAITING_FINAL_POLICY, AWAITING_PREREQUISITE, FAILED_RETRYABLE, EXPIRED, CANCELLED]"
| "ALLOWED_TRANSITIONS AWAITING_FINAL_POLICY =
     [AWAITING_SIGNATURE, BLOCKED, MANUAL_REVIEW, EXPIRED, CANCELLED]"
| "ALLOWED_TRANSITIONS AWAITING_SIGNATURE = [SUBMITTING, EXPIRED, CANCELLED]"
| "ALLOWED_TRANSITIONS SUBMITTING = [SUBMITTED, SUBMISSION_UNKNOWN, FAILED_RETRYABLE, FAILED_FINAL]"
| "ALLOWED_TRANSITIONS SUBMITTED = [SOURCE_CONFIRMING, FAILED_FINAL, REORGED]"
| "ALLOWED_TRANSITIONS SOURCE_CONFIRMING = [SOURCE_FINALIZED, FAILED_FINAL, REORGED]"
| "ALLOWED_TRANSITIONS SOURCE_FINALIZED = [SETTLEMENT_PENDING, REFUND_PENDING, FAILED_FINAL, REORGED]"
| "ALLOWED_TRANSITIONS SETTLEMENT_PENDING =
     [DESTINATION_CONFIRMING, REFUND_PENDING, FAILED_FINAL, MANUAL_REVIEW]"
| "ALLOWED_TRANSITIONS DESTINATION_CONFIRMING = [COMPLETED, REFUND_PENDING, FAILED_FINAL, REORGED]"
| "ALLOWED_TRANSITIONS COMPLETED = []"
| "ALLOWED_TRANSITIONS AWAITING_PREREQUISITE = [VALIDATING, EXPIRED, CANCELLED, FAILED_FINAL]"
| "ALLOWED_TRANSITIONS BLOCKED = [VALIDATING, EXPIRED, CANCELLED, FAILED_FINAL]"
| "ALLOWED_TRANSITIONS MANUAL_REVIEW = [VALIDATING, REFUND_PENDING, EXPIRED, FAILED_FINAL, CANCELLED]"
| "ALLOWED_TRANSITIONS EXPIRED = []"
| "ALLOWED_TRANSITIONS CANCELLED = []"
| "ALLOWED_TRANSITIONS FAILED_RETRYABLE = [VALIDATING, EXPIRED, FAILED_FINAL, CANCELLED]"
| "ALLOWED_TRANSITIONS FAILED_FINAL = []"
| "ALLOWED_TRANSITIONS SUBMISSION_UNKNOWN = [SUBMITTED, MANUAL_REVIEW, FAILED_FINAL]"
| "ALLOWED_TRANSITIONS REFUND_PENDING = [REFUNDED, MANUAL_REVIEW, FAILED_FINAL, REORGED]"
| "ALLOWED_TRANSITIONS REFUNDED = []"
| "ALLOWED_TRANSITIONS REORGED =
     [SOURCE_CONFIRMING, DESTINATION_CONFIRMING, REFUND_PENDING, MANUAL_REVIEW, FAILED_FINAL]"

text \<open>A stage read from a persisted text; \<open>isCrossChainStage\<close> is that it is one.\<close>

definition stage_of :: "string \<Rightarrow> cross_chain_stage option" where
  "stage_of s = map_of CROSS_CHAIN_STAGES s"

definition stage_text :: "cross_chain_stage \<Rightarrow> string" where
  "stage_text st = (case find (\<lambda>(_, s). s = st) CROSS_CHAIN_STAGES of Some (t, _) \<Rightarrow> t | None \<Rightarrow> [])"

definition transitionCrossChainStage :: "string \<Rightarrow> string \<Rightarrow> cross_chain_stage result" where
  "transitionCrossChainStage current next =
     (case (stage_of current, stage_of next) of
        (Some c, Some n) \<Rightarrow>
          if c \<in> set TERMINAL_STAGES
          then Inl (Err (''Cannot leave terminal APP20 stage '' @ current @ ''.''))
          else if n \<notin> set (ALLOWED_TRANSITIONS c)
          then Inl (Err (''Invalid APP20 stage transition: '' @ current @ '' -> '' @ next @ ''.''))
          else Inr n
      | _ \<Rightarrow> Inl (Err ''Unknown APP20 cross-chain stage.''))"

definition canTransitionCrossChainStage :: "string \<Rightarrow> string \<Rightarrow> bool" where
  "canTransitionCrossChainStage current next =
     (case (stage_of current, stage_of next) of
        (Some c, Some n) \<Rightarrow> c \<notin> set TERMINAL_STAGES \<and> n \<in> set (ALLOWED_TRANSITIONS c)
      | _ \<Rightarrow> False)"

section \<open>The lifecycle\<close>

record cross_lifecycle =
  cl_stage :: string
  cl_intentId :: jsval
  cl_revision :: jsval
  cl_intentDigest :: string
  cl_expiresAt :: jsval
  cl_deadline :: jsval

definition assertNow :: "jsnum \<Rightarrow> rat result" where
  "assertNow now = (case now of Fin t \<Rightarrow> Inr t | _ \<Rightarrow> Inl (Err ''Lifecycle time must be finite.''))"

text \<open>\<open>Date.parse(value) <= now\<close>; a comparison with \<open>NaN\<close> is false.\<close>

definition time_reached :: "jsval \<Rightarrow> rat \<Rightarrow> bool" where
  "time_reached v now =
     (case v of JStr s \<Rightarrow> (case date_parse s of Some t \<Rightarrow> of_int t \<le> now | None \<Rightarrow> False) | _ \<Rightarrow> False)"

definition intentHasExpired :: "fields \<Rightarrow> rat \<Rightarrow> bool" where
  "intentHasExpired i now = (time_reached (get_field i ''expiresAt'') now \<or> time_reached (get_field i ''deadline'') now)"

definition createCrossChainLifecycle :: "(string \<Rightarrow> string) \<Rightarrow> jsval \<Rightarrow> jsnum \<Rightarrow> cross_lifecycle result" where
  "createCrossChainLifecycle sha256Hex v now =
     bind_r (assertCrossChainIntent v) (\<lambda>p.
     bind_r (assertNow now) (\<lambda>t.
     if intentHasExpired (ip_intent p) t
     then Inl (Err ''Cannot start a lifecycle for an expired intent revision.'')
     else bind_r (digestCrossChainIntent sha256Hex v) (\<lambda>d.
     Inr \<lparr>cl_stage = ''DRAFT'', cl_intentId = get_field (ip_intent p) ''intentId'',
       cl_revision = get_field (ip_intent p) ''revision'', cl_intentDigest = d,
       cl_expiresAt = get_field (ip_intent p) ''expiresAt'',
       cl_deadline = get_field (ip_intent p) ''deadline''\<rparr>)))"

definition transitionCrossChainLifecycle ::
  "(string \<Rightarrow> string) \<Rightarrow> cross_lifecycle \<Rightarrow> jsval \<Rightarrow> string \<Rightarrow> jsnum \<Rightarrow> cross_lifecycle result" where
  "transitionCrossChainLifecycle sha256Hex s v next now =
     bind_r (assertCrossChainIntent v) (\<lambda>p.
     bind_r (assertNow now) (\<lambda>t.
     case stage_of (cl_stage s) of
       None \<Rightarrow> Inl (Err ''Lifecycle contains an unknown APP20 stage.'')
     | Some c \<Rightarrow>
       if cl_intentId s \<noteq> get_field (ip_intent p) ''intentId'' \<or> cl_revision s \<noteq> get_field (ip_intent p) ''revision''
       then Inl (Err ''The lifecycle refers to a stale intent revision.'')
       else bind_r (digestCrossChainIntent sha256Hex v) (\<lambda>d.
       if cl_intentDigest s \<noteq> d
       then Inl (Err ''Intent terms changed without a revision increment; the lifecycle is stale.'')
       else if cl_expiresAt s \<noteq> get_field (ip_intent p) ''expiresAt''
         \<or> cl_deadline s \<noteq> get_field (ip_intent p) ''deadline''
       then Inl (Err ''The lifecycle expiry binding does not match the active intent.'')
       else bind_r (transitionCrossChainStage (cl_stage s) next) (\<lambda>n.
       if intentHasExpired (ip_intent p) t \<and> n \<noteq> EXPIRED
         \<and> (c \<in> set PRE_SUBMISSION_STAGES \<or> n \<in> set REVISION_GATED_NEXT_STAGES)
       then Inl (Err ''The active intent revision has expired.'')
       else if \<not> intentHasExpired (ip_intent p) t \<and> n = EXPIRED
       then Inl (Err ''The active intent revision has not expired.'')
       else Inr (s\<lparr>cl_stage := next\<rparr>)))))"

end
