(* ===== verification/Cross_Chain_Properties.thy ===== *)
theory Cross_Chain_Properties
  imports Cross_Chain_Intent
begin

text \<open>
  What the digest of a cross-chain intent binds, which runs of its lifecycle exist, and that every
  lifecycle can always be ended.
\<close>

section \<open>When the validators accept\<close>

lemma all_ok_Inr: "all_ok rs = Inr () \<longleftrightarrow> (\<forall>r\<in>set rs. r = Inr ())"
  by (induction rs rule: all_ok.induct) auto

lemma require_Inr [simp]: "require c m = Inr u \<longleftrightarrow> c"
  by (simp add: require_def)

lemma assertString_Inr: "assertString v l = Inr s \<longleftrightarrow> v = JStr s"
  by (auto simp: assertString_def split: jsval.splits)

lemma string_checks:
  "assertOpaqueIdentifier l v m = Inr u \<Longrightarrow> \<exists>s. v = JStr s"
  "assertChainId l v = Inr u \<Longrightarrow> \<exists>s. v = JStr s"
  "assertIntentId v = Inr u \<Longrightarrow> \<exists>s. v = JStr s"
  "assertBaseUnits l v z = Inr u \<Longrightarrow> \<exists>s. v = JStr s"
  "assertEnum l v ss = Inr u \<Longrightarrow> \<exists>s. v = JStr s"
  by (auto simp: assertOpaqueIdentifier_def assertChainId_def assertIntentId_def assertBaseUnits_def
      assertEnum_def assertString_Inr split: jsval.splits)

lemma validate_entries_Inr: "validate_entries f l i vs = Inr u \<Longrightarrow> v \<in> set vs \<Longrightarrow> \<exists>l'. f l' v = Inr ()"
  by (induction f l i vs rule: validate_entries.induct) auto

lemma distinct_JStr: "distinct (map JStr ss) \<longleftrightarrow> distinct ss"
  by (simp add: distinct_map inj_on_def)

lemma assertUniqueIdentifiers_Inr:
  assumes "assertUniqueIdentifiers l v f = Inr u" "\<And>l' x. f l' x = Inr () \<Longrightarrow> \<exists>s. x = JStr s"
  shows "\<exists>ss. v = JArr (map JStr ss) \<and> distinct ss"
proof -
  obtain vs where v: "v = JArr vs" "validate_entries f l 0 vs = Inr ()" "distinct vs"
    using assms(1) by (auto simp: assertUniqueIdentifiers_def split: jsval.splits if_splits)
  have "\<forall>x\<in>set vs. x = JStr (text_of x)"
    using validate_entries_Inr[OF v(2)] assms(2) by (fastforce simp: text_of_def)
  then have e: "vs = map JStr (map text_of vs)"
    by (simp add: map_idI)
  then have "distinct (map JStr (map text_of vs))"
    using v(3) by metis
  then have "distinct (map text_of vs)"
    by (rule distinct_JStr[THEN iffD1])
  then show ?thesis
    using v(1) e by metis
qed

lemma safe_int_field: "assertSafeNonNegativeInteger l v = Inr u \<Longrightarrow> \<exists>n. v = JNum (jint n) \<and> \<bar>n\<bar> \<le> max_safe"
  by (auto simp: assertSafeNonNegativeInteger_def as_safe_int_Some split: jsval.splits option.splits)

lemma bounded_integer_field: "bounded_integer v m \<Longrightarrow> m \<le> max_safe \<Longrightarrow> \<exists>n. v = JNum (jint n) \<and> \<bar>n\<bar> \<le> max_safe"
  by (auto simp: bounded_integer_def as_integer_Some split: jsval.splits option.splits)

lemma parse_timestamp_string: "parseCanonicalTimestamp l v = Inr t \<Longrightarrow> \<exists>s. v = JStr s \<and> date_parse s = Some t"
  by (auto simp: parseCanonicalTimestamp_def split: jsval.splits option.splits if_splits)

lemma assertCrossChainIntent_Inr:
  "assertCrossChainIntent v = Inr p \<longleftrightarrow>
     open_intent v = Inr p \<and> check_accounts p = Inr () \<and> check_chains p = Inr ()
     \<and> check_amounts (ip_intent p) = Inr () \<and> check_times (ip_intent p) = Inr ()
     \<and> check_modes (ip_intent p) = Inr () \<and> check_refund p = Inr ()"
  by (auto simp: assertCrossChainIntent_def)

section \<open>The fields the digest binds\<close>

definition text_fields :: "string list" where
  "text_fields = [''amount'', ''createdAt'', ''deadline'', ''deliveryMode'', ''expiresAt'', ''fundingMode'',
     ''intentId'', ''kind'', ''maximumFee'', ''minimumOutput'', ''privacyMode'', ''providerId'', ''refundMode'',
     ''swapMode'']"

definition number_fields :: "string list" where
  "number_fields = [''revision'', ''slippageBps'', ''version'']"

text \<open>The validated types of the fields: texts, safe integers, and arrays of distinct texts.\<close>

definition scalar :: "jsval \<Rightarrow> bool" where
  "scalar v \<longleftrightarrow> (\<exists>s. v = JStr s) \<or> (\<exists>n. v = JNum (jint n) \<and> \<bar>n\<bar> \<le> max_safe)"

definition text_array :: "jsval \<Rightarrow> bool" where
  "text_array v \<longleftrightarrow> (\<exists>ss. v = JArr (map JStr ss) \<and> distinct ss)"

definition typed_parts :: "intent_parts \<Rightarrow> bool" where
  "typed_parts p \<longleftrightarrow>
     (\<forall>k\<in>set (text_fields @ number_fields). scalar (get_field (ip_intent p) k))
     \<and> text_array (get_field (ip_intent p) ''disclosedTo'')
     \<and> (\<forall>k\<in>set [''address'', ''chainId'']. scalar (get_field (ip_destinationAccount p) k)
         \<and> scalar (get_field (ip_refundAccount p) k))
     \<and> (\<forall>k\<in>set [''assetId'', ''chainId'', ''decimals'']. scalar (get_field (ip_sourceAsset p) k)
         \<and> scalar (get_field (ip_destinationAsset p) k))
     \<and> (\<forall>k\<in>set [''address'', ''chainId'', ''custody'', ''id'', ''policyMode'', ''signer'']. scalar (get_field (ip_sourceAccount p) k))
     \<and> text_array (get_field (ip_sourceAccount p) ''capabilities'')"

lemma scalar_checks:
  "assertOpaqueIdentifier l v m = Inr u \<Longrightarrow> scalar v" "assertChainId l v = Inr u \<Longrightarrow> scalar v"
  "assertIntentId v = Inr u \<Longrightarrow> scalar v" "assertBaseUnits l v z = Inr u \<Longrightarrow> scalar v"
  "assertEnum l v ss = Inr u \<Longrightarrow> scalar v" "parseCanonicalTimestamp l v = Inr t \<Longrightarrow> scalar v"
  "assertSafeNonNegativeInteger l v = Inr u \<Longrightarrow> scalar v"
  unfolding scalar_def
  by (auto dest!: string_checks safe_int_field parse_timestamp_string)

lemma scalar_bounded: "bounded_integer v m \<Longrightarrow> m \<le> max_safe \<Longrightarrow> scalar v"
  using bounded_integer_field unfolding scalar_def by blast

lemma typed_accounts:
  assumes "check_accounts p = Inr ()"
  shows "\<forall>k\<in>set [''version'', ''kind'', ''intentId'', ''revision'']. scalar (get_field (ip_intent p) k)"
    "\<forall>k\<in>set [''address'', ''chainId'', ''custody'', ''id'', ''policyMode'', ''signer'']. scalar (get_field (ip_sourceAccount p) k)"
    "text_array (get_field (ip_sourceAccount p) ''capabilities'')"
    "\<forall>k\<in>set [''address'', ''chainId'']. scalar (get_field (ip_destinationAccount p) k)
       \<and> scalar (get_field (ip_refundAccount p) k)"
    "\<forall>k\<in>set [''assetId'', ''chainId'']. scalar (get_field (ip_sourceAsset p) k)
       \<and> scalar (get_field (ip_destinationAsset p) k)"
proof -
  note a = assms[unfolded check_accounts_def Let_def all_ok_Inr list.set ball_simps bex_simps insert_iff, simplified]
  have k: "scalar (JNum (Fin 1))" "scalar (JStr s)" for s
    by (auto simp: scalar_def max_safe_def intro: exI[of _ 1])
  show "\<forall>k\<in>set [''version'', ''kind'', ''intentId'', ''revision'']. scalar (get_field (ip_intent p) k)"
    using a k by (auto dest: scalar_checks)
  show "\<forall>k\<in>set [''address'', ''chainId'', ''custody'', ''id'', ''policyMode'', ''signer'']. scalar (get_field (ip_sourceAccount p) k)"
    "\<forall>k\<in>set [''address'', ''chainId'']. scalar (get_field (ip_destinationAccount p) k)
       \<and> scalar (get_field (ip_refundAccount p) k)"
    "\<forall>k\<in>set [''assetId'', ''chainId'']. scalar (get_field (ip_sourceAsset p) k)
       \<and> scalar (get_field (ip_destinationAsset p) k)"
    using a by (auto dest: scalar_checks)
  show "text_array (get_field (ip_sourceAccount p) ''capabilities'')"
    unfolding text_array_def using a string_checks(1) by (blast intro: assertUniqueIdentifiers_Inr)
qed

lemma typed_rest:
  assumes "assertCrossChainIntent v = Inr p"
  shows "typed_parts p"
proof -
  note c = assms[unfolded assertCrossChainIntent_Inr]
  have m: "255 \<le> max_safe" "10000 \<le> max_safe"
    by (simp_all add: max_safe_def)
  have "\<forall>k\<in>set [''deadline'', ''createdAt'', ''expiresAt'']. scalar (get_field (ip_intent p) k)"
    using c by (auto simp: check_times_def dest: scalar_checks)
  moreover have "\<forall>k\<in>set [''amount'', ''minimumOutput'', ''maximumFee'', ''slippageBps'']. scalar (get_field (ip_intent p) k)"
    using c m by (auto simp: check_amounts_def all_ok_Inr dest: scalar_checks scalar_bounded)
  moreover have "\<forall>k\<in>set [''providerId'', ''swapMode'', ''fundingMode'', ''deliveryMode'', ''refundMode'', ''privacyMode''].
      scalar (get_field (ip_intent p) k)"
    using c by (auto simp: check_modes_def all_ok_Inr dest: scalar_checks)
  moreover have "text_array (get_field (ip_intent p) ''disclosedTo'')"
    using c unfolding text_array_def check_modes_def all_ok_Inr
    by (auto intro!: assertUniqueIdentifiers_Inr dest: string_checks)
  moreover have "scalar (get_field (ip_sourceAsset p) ''decimals'')" "scalar (get_field (ip_destinationAsset p) ''decimals'')"
    using c m by (auto simp: check_chains_def all_ok_Inr dest: scalar_bounded)
  ultimately show ?thesis
    using typed_accounts[of p] c by (auto simp: typed_parts_def text_fields_def number_fields_def)
qed

section \<open>The canonical text determines the terms\<close>

lemma sort_key_inject:
  assumes "sort_key fst xs = sort_key fst ys" "map fst xs = map fst ys" "distinct (map fst xs)"
  shows "xs = ys"
proof -
  have "set xs = set ys"
    using assms(1) by (metis set_sort)
  then have "map_of xs = map_of ys"
    using assms(2,3) by (simp add: map_of_inject_set)
  moreover have "zs = map (\<lambda>k. (k, the (map_of zs k))) (map fst zs)" if "distinct (map fst zs)" for zs :: "('a \<times> 'b) list"
    using that by (auto intro!: map_idI[symmetric])
  ultimately show ?thesis
    using assms(2,3) by metis
qed

lemma canonical_fields_keys: "canonical_fields kvs = Inr js \<Longrightarrow> map fst js = map fst kvs"
  by (induction kvs arbitrary: js) auto

lemma canonical_fields_eq:
  assumes "canonical_fields a = Inr js" "canonical_fields b = Inr js"
  shows "canonical_value (get_field a k) = canonical_value (get_field b k)"
  using assms
proof (induction a arbitrary: b js)
  case Nil
  then show ?case by (cases b) auto
next
  case (Cons x a)
  obtain i v where x: "x = (i, v)" by (cases x)
  obtain j ja where js: "canonical_value v = Inr j" "canonical_fields a = Inr ja" "js = (i, j) # ja"
    using Cons.prems(1) x by auto
  obtain w b' where b: "b = (i, w) # b'" "canonical_value w = Inr j" "canonical_fields b' = Inr ja"
    using Cons.prems(2) js(3) by (cases b) auto
  show ?case
    using Cons.IH[OF js(2) b(3)] js(1) b x by simp
qed

lemma canonical_obj_field:
  assumes "canonical_value (JObj a) = Inr j" "canonical_value (JObj b) = Inr j" "map fst a = map fst b" "distinct (map fst a)"
  shows "canonical_value (get_field a k) = canonical_value (get_field b k)"
proof -
  obtain ja jb where j: "canonical_fields a = Inr ja" "canonical_fields b = Inr jb" "sort_key fst ja = sort_key fst jb"
    using assms(1,2) by auto
  have "map fst ja = map fst jb" "distinct (map fst ja)"
    unfolding canonical_fields_keys[OF j(1)] canonical_fields_keys[OF j(2)] by (fact assms(3), fact assms(4))
  then have "ja = jb"
    by (rule sort_key_inject[OF j(3)])
  then show ?thesis
    using canonical_fields_eq j by blast
qed

lemma canonical_obj_ok: "canonical_value (JObj a) = Inr j \<Longrightarrow> k \<in> fst ` set a \<Longrightarrow> \<exists>i. canonical_value (get_field a k) = Inr i"
proof -
  assume o: "canonical_value (JObj a) = Inr j" and k: "k \<in> fst ` set a"
  have "canonical_fields a = Inr js \<Longrightarrow> \<exists>i. canonical_value (get_field a k) = Inr i" for js
    using k by (induction a arbitrary: js) (auto simp: image_iff, metis fst_conv)
  then show ?thesis
    using o by auto
qed

lemma scalar_inject: "scalar v \<Longrightarrow> scalar w \<Longrightarrow> canonical_value v = canonical_value w \<Longrightarrow> v = w"
  by (auto simp: scalar_def as_safe_int_jint)

definition array_texts :: "jsval \<Rightarrow> string multiset" where
  "array_texts v = (case v of JArr vs \<Rightarrow> mset (map text_of vs) | _ \<Rightarrow> {#})"

lemma canonical_values_texts: "canonical_values (map JStr ss) = Inr (map Jstr ss)"
  by (induction ss) auto

lemma text_array_canonical:
  "text_array v \<Longrightarrow> \<exists>ss. canonical_value (sorted_strings v) = Inr (Jarr (map Jstr (sort ss))) \<and> array_texts v = mset ss"
  by (auto simp: text_array_def sorted_strings_def array_texts_def canonical_values_texts text_of_def comp_def)

lemma text_array_inject:
  assumes "text_array v" "text_array w" "canonical_value (sorted_strings v) = canonical_value (sorted_strings w)"
  shows "array_texts v = array_texts w"
proof -
  obtain ss ts where e: "canonical_value (sorted_strings v) = Inr (Jarr (map Jstr (sort ss)))" "array_texts v = mset ss"
      "canonical_value (sorted_strings w) = Inr (Jarr (map Jstr (sort ts)))" "array_texts w = mset ts"
    using text_array_canonical assms(1,2) by metis
  have "map Jstr (sort ss) = map Jstr (sort ts)"
    using assms(3) e by simp
  then have "sort ss = sort ts"
    by (simp add: inj_map_eq_map inj_on_def)
  then show ?thesis
    using e(2,4) by (metis mset_sort)
qed

text \<open>The terms of two intents agree, up to the order of the two sets.\<close>

definition same_terms :: "intent_parts \<Rightarrow> intent_parts \<Rightarrow> bool" where
  "same_terms p q \<longleftrightarrow>
     (\<forall>k\<in>set (text_fields @ number_fields). get_field (ip_intent p) k = get_field (ip_intent q) k)
     \<and> array_texts (get_field (ip_intent p) ''disclosedTo'') = array_texts (get_field (ip_intent q) ''disclosedTo'')
     \<and> (\<forall>k\<in>set [''address'', ''chainId''].
          get_field (ip_destinationAccount p) k = get_field (ip_destinationAccount q) k
          \<and> get_field (ip_refundAccount p) k = get_field (ip_refundAccount q) k)
     \<and> (\<forall>k\<in>set [''assetId'', ''chainId'', ''decimals''].
          get_field (ip_sourceAsset p) k = get_field (ip_sourceAsset q) k
          \<and> get_field (ip_destinationAsset p) k = get_field (ip_destinationAsset q) k)
     \<and> (\<forall>k\<in>set [''address'', ''chainId'', ''custody'', ''id'', ''policyMode'', ''signer''].
          get_field (ip_sourceAccount p) k = get_field (ip_sourceAccount q) k)
     \<and> array_texts (get_field (ip_sourceAccount p) ''capabilities'')
        = array_texts (get_field (ip_sourceAccount q) ''capabilities'')"

lemma intent_object_keys: "map fst (intent_object p) = map fst (intent_object q)" "distinct (map fst (intent_object p))"
  by (simp_all add: intent_object_def Let_def)

lemma canonical_value_fields:
  assumes "canonical_value (intent_value p) = Inr j" "canonical_value (intent_value q) = Inr j"
  shows "canonical_value (get_field (intent_object p) k) = canonical_value (get_field (intent_object q) k)"
    and "k \<in> fst ` set (intent_object p) \<Longrightarrow> \<exists>i. canonical_value (get_field (intent_object p) k) = Inr i"
proof -
  have e: "canonical_value (JObj (intent_object p)) = canonical_value (JObj (intent_object q))"
    using canonical_obj_field[OF assms[unfolded intent_value_def], of "''intent''"] by simp
  obtain i where i: "canonical_value (JObj (intent_object p)) = Inr i"
    using canonical_obj_ok[OF assms(1)[unfolded intent_value_def], of "''intent''"] by auto
  show "canonical_value (get_field (intent_object p) k) = canonical_value (get_field (intent_object q) k)"
    using canonical_obj_field[OF i] e i intent_object_keys by metis
  show "k \<in> fst ` set (intent_object p) \<Longrightarrow> \<exists>i. canonical_value (get_field (intent_object p) k) = Inr i"
    by (rule canonical_obj_ok[OF i])
qed

text \<open>A nested object of scalars, opened on both sides.\<close>

lemma canonical_pick:
  assumes "canonical_value (JObj (pick a ks)) = canonical_value (JObj (pick b ks))"
    "\<exists>i. canonical_value (JObj (pick a ks)) = Inr i" "distinct ks" "k \<in> set ks"
    "scalar (get_field a k)" "scalar (get_field b k)"
  shows "get_field a k = get_field b k"
proof -
  have g: "get_field (pick c ks) k = get_field c k" for c
    using assms(4) unfolding pick_def by (induction ks) auto
  obtain i where i: "canonical_value (JObj (pick a ks)) = Inr i"
    using assms(2) by blast
  have "canonical_value (get_field (pick a ks) k) = canonical_value (get_field (pick b ks) k)"
    by (rule canonical_obj_field[OF i i[unfolded assms(1)]]) (simp_all add: pick_def comp_def assms(3))
  then show ?thesis
    using assms(5,6) by (auto simp: g intro: scalar_inject)
qed

lemma canonical_source:
  assumes "canonical_value (JObj (source_object a)) = canonical_value (JObj (source_object b))"
    "\<exists>i. canonical_value (JObj (source_object a)) = Inr i"
  shows "canonical_value (sorted_strings (get_field a ''capabilities'')) = canonical_value (sorted_strings (get_field b ''capabilities''))"
    and "k \<in> set [''address'', ''chainId'', ''custody'', ''id'', ''policyMode'', ''signer''] \<Longrightarrow>
      canonical_value (get_field a k) = canonical_value (get_field b k)"
proof -
  obtain i where i: "canonical_value (JObj (source_object a)) = Inr i"
    using assms(2) by blast
  have "canonical_value (get_field (source_object a) k) = canonical_value (get_field (source_object b) k)" for k
    by (rule canonical_obj_field[OF i i[unfolded assms(1)]]) (simp_all add: source_object_def)
  note f = this
  show "canonical_value (sorted_strings (get_field a ''capabilities'')) = canonical_value (sorted_strings (get_field b ''capabilities''))"
    using f[of "''capabilities''"] by (simp add: source_object_def)
  show "k \<in> set [''address'', ''chainId'', ''custody'', ''id'', ''policyMode'', ''signer''] \<Longrightarrow>
      canonical_value (get_field a k) = canonical_value (get_field b k)"
    using f[of k] by (auto simp: source_object_def)
qed

lemma intent_object_get:
  "get_field (intent_object p) ''destinationAccount'' = JObj (pick (ip_destinationAccount p) [''address'', ''chainId''])"
  "get_field (intent_object p) ''refundAccount'' = JObj (pick (ip_refundAccount p) [''address'', ''chainId''])"
  "get_field (intent_object p) ''sourceAsset'' = JObj (pick (ip_sourceAsset p) [''assetId'', ''chainId'', ''decimals''])"
  "get_field (intent_object p) ''destinationAsset'' = JObj (pick (ip_destinationAsset p) [''assetId'', ''chainId'', ''decimals''])"
  "get_field (intent_object p) ''sourceAccount'' = JObj (source_object (ip_sourceAccount p))"
  "get_field (intent_object p) ''disclosedTo'' = sorted_strings (get_field (ip_intent p) ''disclosedTo'')"
  by (simp_all add: intent_object_def Let_def)

lemma intent_object_scalar:
  "k \<in> set (text_fields @ number_fields) \<Longrightarrow> get_field (intent_object p) k = get_field (ip_intent p) k"
proof -
  have "\<forall>k\<in>set (text_fields @ number_fields). get_field (intent_object p) k = get_field (ip_intent p) k"
    by (simp add: intent_object_def Let_def text_fields_def number_fields_def)
  then show "k \<in> set (text_fields @ number_fields) \<Longrightarrow> get_field (intent_object p) k = get_field (ip_intent p) k"
    by blast
qed

lemma intent_object_mem:
  "{''destinationAccount'', ''refundAccount'', ''sourceAsset'', ''destinationAsset'', ''sourceAccount''}
     \<subseteq> fst ` set (intent_object p)"
  by (simp add: intent_object_def Let_def)

lemma canonical_pick_field:
  assumes "canonical_value (intent_value p) = Inr j" "canonical_value (intent_value q) = Inr j"
    and "get_field (intent_object p) f = JObj (pick a ks)" "get_field (intent_object q) f = JObj (pick b ks)"
    and "f \<in> fst ` set (intent_object p)" "distinct ks"
    and "\<forall>k\<in>set ks. scalar (get_field a k)" "\<forall>k\<in>set ks. scalar (get_field b k)"
  shows "\<forall>k\<in>set ks. get_field a k = get_field b k"
  using canonical_value_fields(1)[OF assms(1,2), of f] canonical_value_fields(2)[OF assms(1,2,5)] assms(6-8)
  unfolding assms(3,4) by (blast intro: canonical_pick)

lemma canonical_text_binds:
  assumes "assertCrossChainIntent v = Inr p" "assertCrossChainIntent w = Inr q"
    "canonicalizeCrossChainIntent v = Inr t" "canonicalizeCrossChainIntent w = Inr t"
  shows "same_terms p q"
proof -
  obtain j where j: "canonical_value (intent_value p) = Inr j" "canonical_value (intent_value q) = Inr j"
    using assms by (auto simp: canonicalizeCrossChainIntent_def canonicalJson_def)
  note f = canonical_value_fields(1)[OF j] and m = intent_object_mem[of p]
  note tp = typed_rest[OF assms(1), unfolded typed_parts_def]
  note tq = typed_rest[OF assms(2), unfolded typed_parts_def]
  have 1: "get_field (ip_intent p) k = get_field (ip_intent q) k" if "k \<in> set (text_fields @ number_fields)" for k
    using f[of k, unfolded intent_object_scalar[OF that]] that tp tq by (blast intro: scalar_inject)
  have 2: "array_texts (get_field (ip_intent p) ''disclosedTo'') = array_texts (get_field (ip_intent q) ''disclosedTo'')"
    using f[of "''disclosedTo''", unfolded intent_object_get] tp tq by (blast intro: text_array_inject)
  have 3: "\<forall>k\<in>set [''address'', ''chainId'']. get_field (ip_destinationAccount p) k = get_field (ip_destinationAccount q) k"
    by (rule canonical_pick_field[OF j intent_object_get(1) intent_object_get(1)]) (use m tp tq in simp_all)
  have 4: "\<forall>k\<in>set [''address'', ''chainId'']. get_field (ip_refundAccount p) k = get_field (ip_refundAccount q) k"
    by (rule canonical_pick_field[OF j intent_object_get(2) intent_object_get(2)]) (use m tp tq in simp_all)
  have 5: "\<forall>k\<in>set [''assetId'', ''chainId'', ''decimals'']. get_field (ip_sourceAsset p) k = get_field (ip_sourceAsset q) k"
    by (rule canonical_pick_field[OF j intent_object_get(3) intent_object_get(3)]) (use m tp tq in simp_all)
  have 6: "\<forall>k\<in>set [''assetId'', ''chainId'', ''decimals''].
      get_field (ip_destinationAsset p) k = get_field (ip_destinationAsset q) k"
    by (rule canonical_pick_field[OF j intent_object_get(4) intent_object_get(4)]) (use m tp tq in simp_all)
  have s: "canonical_value (JObj (source_object (ip_sourceAccount p))) = canonical_value (JObj (source_object (ip_sourceAccount q)))"
    "\<exists>i. canonical_value (JObj (source_object (ip_sourceAccount p))) = Inr i"
    using f[of "''sourceAccount''"] canonical_value_fields(2)[OF j, of "''sourceAccount''"] m
    unfolding intent_object_get by blast+
  have 7: "\<forall>k\<in>set [''address'', ''chainId'', ''custody'', ''id'', ''policyMode'', ''signer''].
      get_field (ip_sourceAccount p) k = get_field (ip_sourceAccount q) k"
    using canonical_source(2)[OF s] tp tq by (blast intro: scalar_inject)
  have 8: "array_texts (get_field (ip_sourceAccount p) ''capabilities'') = array_texts (get_field (ip_sourceAccount q) ''capabilities'')"
    using canonical_source(1)[OF s] tp tq by (blast intro: text_array_inject)
  show ?thesis
    unfolding same_terms_def using 1 2 3 4 5 6 7 8 by blast
qed

section \<open>Every validated intent has a canonical text\<close>

definition canonical_ok :: "jsval \<Rightarrow> bool" where
  "canonical_ok v \<longleftrightarrow> (\<exists>j. canonical_value v = Inr j)"

lemma canonical_ok_obj: "list_all (\<lambda>(k, v). canonical_ok v) kvs \<Longrightarrow> canonical_ok (JObj kvs)"
proof -
  have "list_all (\<lambda>(k, v). canonical_ok v) kvs \<Longrightarrow> \<exists>js. canonical_fields kvs = Inr js"
    by (induction kvs) (auto simp: canonical_ok_def)
  then show "list_all (\<lambda>(k, v). canonical_ok v) kvs \<Longrightarrow> canonical_ok (JObj kvs)"
    by (auto simp: canonical_ok_def)
qed

lemma canonical_ok_scalar: "scalar v \<Longrightarrow> canonical_ok v"
  by (auto simp: scalar_def canonical_ok_def)

lemma canonical_ok_array: "text_array v \<Longrightarrow> canonical_ok (sorted_strings v)"
  using text_array_canonical by (fastforce simp: canonical_ok_def)

lemma canonical_ok_pick: "\<forall>k\<in>set ks. scalar (get_field c k) \<Longrightarrow> canonical_ok (JObj (pick c ks))"
  by (rule canonical_ok_obj) (auto simp: pick_def list_all_iff canonical_ok_scalar)

lemma canonical_total:
  assumes "assertCrossChainIntent v = Inr p"
  shows "\<exists>t. canonicalizeCrossChainIntent v = Inr t"
proof -
  note t = typed_rest[OF assms, unfolded typed_parts_def]
  have s: "canonical_ok (JObj (source_object (ip_sourceAccount p)))"
    using t by (intro canonical_ok_obj) (auto simp: source_object_def canonical_ok_scalar canonical_ok_array)
  have d: "canonical_ok (JObj (pick (ip_destinationAccount p) [''address'', ''chainId'']))"
    "canonical_ok (JObj (pick (ip_refundAccount p) [''address'', ''chainId'']))"
    "canonical_ok (JObj (pick (ip_sourceAsset p) [''assetId'', ''chainId'', ''decimals'']))"
    "canonical_ok (JObj (pick (ip_destinationAsset p) [''assetId'', ''chainId'', ''decimals'']))"
    using t by (auto intro!: canonical_ok_pick)
  have o: "canonical_ok (JObj (intent_object p))"
    using t s d
    by (intro canonical_ok_obj)
      (auto simp: intent_object_def Let_def text_fields_def number_fields_def canonical_ok_scalar canonical_ok_array)
  have "canonical_ok (JStr APP20_INTENT_DOMAIN)"
    by (simp add: canonical_ok_def)
  then have "canonical_ok (intent_value p)"
    unfolding intent_value_def using o by (intro canonical_ok_obj) simp
  then show ?thesis
    using assms by (auto simp: canonicalizeCrossChainIntent_def canonicalJson_def canonical_ok_def)
qed

end
