(* ===== verification/Cross_Chain_Lifecycle.thy ===== *)
theory Cross_Chain_Lifecycle
  imports Cross_Chain_Properties
begin

text \<open>
  Runs of a cross-chain lifecycle: which stages precede a submission and until when, what the binding
  to the intent revision guarantees, that a lifecycle can always be ended, and a run that reports
  completion although nothing was ever submitted.
\<close>

section \<open>Stages\<close>

lemma stage_of_text [simp]: "stage_of (stage_text n) = Some n"
  by (cases n) (simp_all add: stage_of_def stage_text_def CROSS_CHAIN_STAGES_def)

lemma transition_stage_Inr:
  "transitionCrossChainStage c n = Inr st \<longleftrightarrow>
     (\<exists>cs. stage_of c = Some cs \<and> stage_of n = Some st \<and> cs \<notin> set TERMINAL_STAGES \<and> st \<in> set (ALLOWED_TRANSITIONS cs))"
  by (auto simp: transitionCrossChainStage_def split: option.splits if_splits)

lemma terminal_no_exit: "c \<in> set TERMINAL_STAGES \<longleftrightarrow> ALLOWED_TRANSITIONS c = []"
  by (cases c) (simp_all add: TERMINAL_STAGES_def)

text \<open>The only stage from which each of the stages before a submission is entered.\<close>

lemma single_predecessor:
  "SUBMITTING \<in> set (ALLOWED_TRANSITIONS c) \<longleftrightarrow> c = AWAITING_SIGNATURE"
  "AWAITING_SIGNATURE \<in> set (ALLOWED_TRANSITIONS c) \<longleftrightarrow> c = AWAITING_FINAL_POLICY"
  "AWAITING_FINAL_POLICY \<in> set (ALLOWED_TRANSITIONS c) \<longleftrightarrow> c = BUILDING"
  "BUILDING \<in> set (ALLOWED_TRANSITIONS c) \<longleftrightarrow> c = AWAITING_REVIEW"
  "AWAITING_REVIEW \<in> set (ALLOWED_TRANSITIONS c) \<longleftrightarrow> c = QUOTING"
  "QUOTING \<in> set (ALLOWED_TRANSITIONS c) \<longleftrightarrow> c = PREFLIGHT_POLICY"
  "PREFLIGHT_POLICY \<in> set (ALLOWED_TRANSITIONS c) \<longleftrightarrow> c = VALIDATING"
  by (cases c; simp)+

lemma ending_stage:
  "c \<in> set PRE_SUBMISSION_STAGES \<Longrightarrow> EXPIRED \<in> set (ALLOWED_TRANSITIONS c) \<and> CANCELLED \<in> set (ALLOWED_TRANSITIONS c)"
  "c \<notin> set PRE_SUBMISSION_STAGES \<Longrightarrow> c \<notin> set TERMINAL_STAGES \<Longrightarrow> FAILED_FINAL \<in> set (ALLOWED_TRANSITIONS c)"
  by (cases c; simp add: PRE_SUBMISSION_STAGES_def TERMINAL_STAGES_def)+

section \<open>Expiry\<close>

text \<open>The expiry of a validated intent, in milliseconds.\<close>

definition expiry :: "intent_parts \<Rightarrow> int" where
  "expiry p = the (date_parse (text_of (get_field (ip_intent p) ''expiresAt'')))"

lemma expired_iff:
  assumes "assertCrossChainIntent v = Inr p"
  shows "intentHasExpired (ip_intent p) t \<longleftrightarrow> of_int (expiry p) \<le> t"
proof -
  obtain d c e where d: "parseCanonicalTimestamp ''deadline'' (get_field (ip_intent p) ''deadline'') = Inr d"
      and e: "parseCanonicalTimestamp ''expiresAt'' (get_field (ip_intent p) ''expiresAt'') = Inr e" and le: "e \<le> d"
    using assms unfolding assertCrossChainIntent_Inr by (auto simp: check_times_def split: if_splits)
  obtain sd where sd: "get_field (ip_intent p) ''deadline'' = JStr sd" "date_parse sd = Some d"
    using parse_timestamp_string[OF d] by blast
  obtain se where se: "get_field (ip_intent p) ''expiresAt'' = JStr se" "date_parse se = Some e"
    using parse_timestamp_string[OF e] by blast
  have "expiry p = e"
    using se by (simp add: expiry_def text_of_def)
  moreover have "of_int d \<le> t \<Longrightarrow> of_int e \<le> t"
    using le by (metis of_int_le_iff order_trans)
  ultimately show ?thesis
    using sd se by (auto simp: intentHasExpired_def time_reached_def)
qed

section \<open>Steps and runs\<close>

text \<open>The conditions of an accepted step, on the stages and the time.\<close>

definition stage_step :: "int \<Rightarrow> cross_chain_stage \<Rightarrow> cross_chain_stage \<Rightarrow> jsnum \<Rightarrow> bool" where
  "stage_step e c n now \<longleftrightarrow>
     n \<in> set (ALLOWED_TRANSITIONS c)
     \<and> (\<exists>t. now = Fin t \<and> (of_int e \<le> t \<longrightarrow> n = EXPIRED \<or> c \<notin> set PRE_SUBMISSION_STAGES \<and> n \<notin> set REVISION_GATED_NEXT_STAGES)
          \<and> (n = EXPIRED \<longrightarrow> of_int e \<le> t))"

definition bound_to :: "(string \<Rightarrow> string) \<Rightarrow> cross_lifecycle \<Rightarrow> jsval \<Rightarrow> intent_parts \<Rightarrow> bool" where
  "bound_to h s v p \<longleftrightarrow>
     assertCrossChainIntent v = Inr p \<and> digestCrossChainIntent h v = Inr (cl_intentDigest s)
     \<and> cl_intentId s = get_field (ip_intent p) ''intentId'' \<and> cl_revision s = get_field (ip_intent p) ''revision''
     \<and> cl_expiresAt s = get_field (ip_intent p) ''expiresAt'' \<and> cl_deadline s = get_field (ip_intent p) ''deadline''"

lemma create_Inr:
  "createCrossChainLifecycle h v now = Inr s \<longleftrightarrow>
     (\<exists>p t. now = Fin t \<and> bound_to h s v p \<and> t < of_int (expiry p) \<and> cl_stage s = ''DRAFT'')"
proof -
  have "createCrossChainLifecycle h v now = Inr s \<longleftrightarrow>
     (\<exists>p t. now = Fin t \<and> bound_to h s v p \<and> \<not> intentHasExpired (ip_intent p) t \<and> cl_stage s = ''DRAFT'')"
    by (cases s; cases now) (auto simp: createCrossChainLifecycle_def bound_to_def assertNow_def)
  also have "\<dots> \<longleftrightarrow> (\<exists>p t. now = Fin t \<and> bound_to h s v p \<and> t < of_int (expiry p) \<and> cl_stage s = ''DRAFT'')"
    by (auto simp: bound_to_def expired_iff not_le)
  finally show ?thesis .
qed

lemma transition_Inr:
  "transitionCrossChainLifecycle h s v next now = Inr s' \<longleftrightarrow>
     (\<exists>p c n. bound_to h s v p \<and> stage_of (cl_stage s) = Some c \<and> stage_of next = Some n
        \<and> c \<notin> set TERMINAL_STAGES \<and> stage_step (expiry p) c n now \<and> s' = s\<lparr>cl_stage := next\<rparr>)"
proof (cases "assertCrossChainIntent v")
  case (Inr p)
  show ?thesis
  proof (cases now)
    case (Fin t)
    show ?thesis
      by (cases "digestCrossChainIntent h v")
        (auto simp: transitionCrossChainLifecycle_def Inr Fin assertNow_def bound_to_def stage_step_def
          transition_stage_Inr expired_iff[OF Inr] split: option.splits)
  qed (simp_all add: transitionCrossChainLifecycle_def Inr assertNow_def stage_step_def)
qed (auto simp: transitionCrossChainLifecycle_def bound_to_def)

text \<open>
  A run: a lifecycle created for an intent and steps accepted since, each with the stage entered and
  the time, the latest first. The caller may supply a different active intent at each step.
\<close>

inductive lifecycle_run :: "(string \<Rightarrow> string) \<Rightarrow> jsval \<Rightarrow> cross_lifecycle \<Rightarrow> (cross_chain_stage \<times> jsnum) list \<Rightarrow> bool"
  for h v where
  run_created: "createCrossChainLifecycle h v now = Inr s \<Longrightarrow> lifecycle_run h v s [(DRAFT, now)]"
| run_step: "lifecycle_run h v s tr \<Longrightarrow> transitionCrossChainLifecycle h s w next now = Inr s' \<Longrightarrow> stage_of next = Some n
    \<Longrightarrow> lifecycle_run h v s' ((n, now) # tr)"

fun history :: "int \<Rightarrow> (cross_chain_stage \<times> jsnum) list \<Rightarrow> bool" where
  "history e [] = False"
| "history e [(n, now)] = (n = DRAFT \<and> (\<exists>t. now = Fin t \<and> t < of_int e))"
| "history e ((n, now) # (c, u) # tr) = (stage_step e c n now \<and> history e ((c, u) # tr))"

lemma run_history:
  assumes "lifecycle_run h v s tr"
  shows "\<exists>p. bound_to h s v p \<and> history (expiry p) tr \<and> stage_of (cl_stage s) = Some (fst (hd tr))"
  using assms
proof (induction rule: lifecycle_run.induct)
  case (run_created now s)
  then show ?case
    using stage_of_text[of DRAFT]
    by (auto simp: create_Inr stage_of_def CROSS_CHAIN_STAGES_def)
next
  case (run_step s tr w "next" now s' n)
  then obtain p where p: "bound_to h s v p" "history (expiry p) tr" "stage_of (cl_stage s) = Some (fst (hd tr))"
    by blast
  obtain q c where q: "bound_to h s w q" "stage_of (cl_stage s) = Some c" "stage_step (expiry q) c n now"
      "s' = s\<lparr>cl_stage := next\<rparr>"
    using run_step.hyps(2,3) by (auto simp: transition_Inr)
  have "expiry p = expiry q"
    using p(1) q(1) by (simp add: bound_to_def expiry_def)
  moreover obtain u tr' where "tr = (c, u) # tr'"
    using p q(2) by (cases "(expiry p, tr)" rule: history.cases) auto
  ultimately show ?case
    using p q run_step.hyps(3) by (auto simp: bound_to_def)
qed

lemma history_suffix: "history e (xs @ y # ys) \<Longrightarrow> history e (y # ys)"
  by (induction xs rule: induct_list012) (auto simp: neq_Nil_conv elim: history.elims)

lemma history_pred:
  "history e ((n, now) # tr) \<Longrightarrow> n \<noteq> DRAFT \<Longrightarrow>
     \<exists>c u tr'. tr = (c, u) # tr' \<and> stage_step e c n now \<and> history e tr"
  by (cases tr) auto

lemma stage_step_before:
  "stage_step e c n now \<Longrightarrow> n \<noteq> EXPIRED \<Longrightarrow> c \<in> set PRE_SUBMISSION_STAGES \<or> n \<in> set REVISION_GATED_NEXT_STAGES \<Longrightarrow>
     \<exists>t. now = Fin t \<and> t < of_int e"
  by (auto simp: stage_step_def not_le)

text \<open>The gates every submission passes, the latest first.\<close>

definition submission_gates :: "cross_chain_stage list" where
  "submission_gates = [SUBMITTING, AWAITING_SIGNATURE, AWAITING_FINAL_POLICY, BUILDING, AWAITING_REVIEW, QUOTING,
     PREFLIGHT_POLICY, VALIDATING]"

definition before :: "int \<Rightarrow> jsnum \<Rightarrow> bool" where
  "before e now \<longleftrightarrow> (\<exists>t. now = Fin t \<and> t < of_int e)"

text \<open>A history that ends with the first of a chain of stages ends with the whole chain.\<close>

fun gate_chain :: "cross_chain_stage list \<Rightarrow> bool" where
  "gate_chain (n # c # cs) =
     ((\<forall>d. n \<in> set (ALLOWED_TRANSITIONS d) \<longrightarrow> d = c) \<and> n \<noteq> DRAFT \<and> n \<noteq> EXPIRED
      \<and> (c \<in> set PRE_SUBMISSION_STAGES \<or> n \<in> set REVISION_GATED_NEXT_STAGES) \<and> gate_chain (c # cs))"
| "gate_chain [n] = (n \<noteq> DRAFT \<and> n \<noteq> EXPIRED \<and> n \<in> set REVISION_GATED_NEXT_STAGES)"
| "gate_chain [] = True"

lemma gate_chain_history:
  "gate_chain gs \<Longrightarrow> gs \<noteq> [] \<Longrightarrow> history e ((hd gs, now) # tr) \<Longrightarrow>
     \<exists>us ys. (hd gs, now) # tr = zip gs us @ ys \<and> length us = length gs \<and> list_all (before e) us"
proof (induction gs arbitrary: now tr rule: gate_chain.induct)
  case (1 n c cs)
  obtain d u tr' where p: "tr = (d, u) # tr'" "stage_step e d n now" "history e tr"
    using history_pred[of e n now tr] 1 by auto
  have "d = c"
    using p(2) 1 by (simp add: stage_step_def)
  have "\<exists>us ys. (hd (c # cs), u) # tr' = zip (c # cs) us @ ys \<and> length us = length (c # cs) \<and> list_all (before e) us"
    by (rule "1.IH") (use 1 p \<open>d = c\<close> in simp_all)
  then obtain us ys where i: "(c, u) # tr' = zip (c # cs) us @ ys" "length us = length (c # cs)" "list_all (before e) us"
    unfolding list.sel(1) by blast
  have "before e now"
    using stage_step_before[OF p(2)] 1 \<open>d = c\<close> by (simp add: before_def)
  then have "(n, now) # tr = zip (n # c # cs) (now # us) @ ys" "length (now # us) = length (n # c # cs)"
    "list_all (before e) (now # us)"
    using i p(1) \<open>d = c\<close> by simp_all
  then show ?case
    by (metis list.sel(1))
next
  case (2 n)
  obtain c u tr' where "stage_step e c n now"
    using history_pred[of e n now tr] 2 by auto
  then have "before e now"
    using stage_step_before[of e c n now] 2 by (simp add: before_def)
  then show ?case
    by (intro exI[of _ "[now]"] exI[of _ tr]) simp
qed simp

lemma submission_gate_chain: "gate_chain submission_gates"
  by (simp add: submission_gates_def single_predecessor PRE_SUBMISSION_STAGES_def REVISION_GATED_NEXT_STAGES_def)

section \<open>A concrete intent\<close>

definition sample_cross :: jsval where
  "sample_cross = JObj
     [(''version'', JNum (Fin 1)), (''intentId'', JStr ''0123456789abcdef0123456789abcdef''), (''revision'', JNum (Fin 0)),
      (''kind'', JStr ''cross-chain''),
      (''sourceAccount'', JObj [(''id'', JStr ''acct-1''), (''chainId'', JStr ''starknet:SN_SEPOLIA''), (''address'', JStr ''0x123''),
         (''signer'', JStr ''ready''), (''custody'', JStr ''user''), (''capabilities'', JArr [JStr ''sign'', JStr ''pay'']),
         (''policyMode'', JStr ''none'')]),
      (''destinationAccount'', JObj [(''chainId'', JStr ''eip155:1''), (''address'', JStr ''0xabc'')]),
      (''refundAccount'', JObj [(''chainId'', JStr ''starknet:SN_SEPOLIA''), (''address'', JStr ''0x123'')]),
      (''sourceAsset'', JObj [(''chainId'', JStr ''starknet:SN_SEPOLIA''), (''assetId'', JStr ''STRK''), (''decimals'', JNum (Fin 18))]),
      (''destinationAsset'', JObj [(''chainId'', JStr ''eip155:1''), (''assetId'', JStr ''USDC''), (''decimals'', JNum (Fin 6))]),
      (''amount'', JStr ''1000''), (''minimumOutput'', JStr ''900''), (''maximumFee'', JStr ''0''), (''slippageBps'', JNum (Fin 50)),
      (''deadline'', JStr ''2026-03-01T00:00:00Z''), (''providerId'', JStr ''near-intents:1click''), (''swapMode'', JStr ''exact-input''),
      (''fundingMode'', JStr ''origin-chain''), (''deliveryMode'', JStr ''destination-chain''), (''refundMode'', JStr ''origin-chain''),
      (''privacyMode'', JStr ''public''), (''disclosedTo'', JArr [JStr ''solver'', JStr ''intents-provider'']),
      (''createdAt'', JStr ''2026-02-28T23:00:00Z''), (''expiresAt'', JStr ''2026-02-28T23:59:59.500Z'')]"

lemma sample_expiry: "map_option expiry (case assertCrossChainIntent sample_cross of Inr p \<Rightarrow> Some p | Inl _ \<Rightarrow> None)
    = Some 1772323199500"
  by code_simp

lemma sample_cross_valid: "\<exists>p. assertCrossChainIntent sample_cross = Inr p \<and> expiry p = 1772323199500"
  using sample_expiry by (auto split: sum.splits)

lemma run_extend:
  assumes "lifecycle_run h v s tr" "bound_to h s v p" "stage_of (cl_stage s) = Some c" "c \<notin> set TERMINAL_STAGES"
    "stage_step (expiry p) c n now"
  shows "lifecycle_run h v (s\<lparr>cl_stage := stage_text n\<rparr>) ((n, now) # tr)" "bound_to h (s\<lparr>cl_stage := stage_text n\<rparr>) v p"
proof -
  have "transitionCrossChainLifecycle h s v (stage_text n) now = Inr (s\<lparr>cl_stage := stage_text n\<rparr>)"
    using assms(2-5) unfolding transition_Inr by auto
  then show "lifecycle_run h v (s\<lparr>cl_stage := stage_text n\<rparr>) ((n, now) # tr)"
    by (rule run_step[OF assms(1)]) simp
  show "bound_to h (s\<lparr>cl_stage := stage_text n\<rparr>) v p"
    using assms(2) by (simp add: bound_to_def)
qed

text \<open>A path of stages is a run when each step is accepted at the given time.\<close>

fun stage_path :: "int \<Rightarrow> jsnum \<Rightarrow> cross_chain_stage list \<Rightarrow> bool" where
  "stage_path e now [] = False"
| "stage_path e now [c] = (c = DRAFT)"
| "stage_path e now (n # c # cs) = (stage_step e c n now \<and> c \<notin> set TERMINAL_STAGES \<and> stage_path e now (c # cs))"

lemma stage_path_run:
  assumes "assertCrossChainIntent v = Inr p" "now = Fin t" "t < of_int (expiry p)" "stage_path (expiry p) now cs"
  shows "\<exists>s. lifecycle_run h v s (map (\<lambda>c. (c, now)) cs) \<and> bound_to h s v p \<and> stage_of (cl_stage s) = Some (hd cs)"
  using assms(4)
proof (induction cs rule: induct_list012)
  case (2 c)
  obtain x where "canonicalizeCrossChainIntent v = Inr x"
    using canonical_total[OF assms(1)] by blast
  then obtain s where "bound_to h s v p" "cl_stage s = stage_text DRAFT"
    using assms(1) by (intro that[of "\<lparr>cl_stage = stage_text DRAFT, cl_intentId = get_field (ip_intent p) ''intentId'',
        cl_revision = get_field (ip_intent p) ''revision'', cl_intentDigest = ''0x'' @ h x,
        cl_expiresAt = get_field (ip_intent p) ''expiresAt'', cl_deadline = get_field (ip_intent p) ''deadline''\<rparr>"])
      (simp_all add: bound_to_def digestCrossChainIntent_def)
  then show ?case
    using 2 assms(2,3) run_created[of h v now s]
    by (auto simp: create_Inr stage_of_def stage_text_def CROSS_CHAIN_STAGES_def intro!: exI[of _ s])
next
  case (3 n c cs)
  then obtain s where s: "lifecycle_run h v s (map (\<lambda>c. (c, now)) (c # cs))" "bound_to h s v p" "stage_of (cl_stage s) = Some c"
    by auto
  have "c \<notin> set TERMINAL_STAGES" "stage_step (expiry p) c n now"
    using 3 by simp_all
  then show ?case
    using run_extend[OF s] by (intro exI[of _ "s\<lparr>cl_stage := stage_text n\<rparr>"]) simp
qed simp

lemmas stage_tables = stage_step_def TERMINAL_STAGES_def PRE_SUBMISSION_STAGES_def REVISION_GATED_NEXT_STAGES_def

lemma sample_path:
  assumes "stage_path 1772323199500 (Fin 1772323000000) cs"
  shows "\<exists>s p. lifecycle_run h sample_cross s (map (\<lambda>c. (c, Fin 1772323000000)) cs)
    \<and> bound_to h s sample_cross p \<and> stage_of (cl_stage s) = Some (hd cs)"
proof -
  obtain p where p: "assertCrossChainIntent sample_cross = Inr p" "expiry p = 1772323199500"
    using sample_cross_valid by blast
  show ?thesis
    using stage_path_run[OF p(1), of "Fin 1772323000000" 1772323000000 cs h] assms p(2) by auto
qed

lemma sample_submitted:
  "\<exists>s. lifecycle_run h sample_cross s ([] @ (SUBMITTING, Fin 1772323000000)
     # map (\<lambda>c. (c, Fin 1772323000000)) (tl submission_gates @ [DRAFT]))"
  using sample_path[of "submission_gates @ [DRAFT]" h] by (auto simp: submission_gates_def stage_tables)

section \<open>Properties of every lifecycle\<close>

text \<open>
  C36: every submission of a lifecycle is immediately preceded by validation, the policy preflight,
  quoting, the user's review, building, the final policy check and the signature, in this order, and
  all of these steps and the submission itself were accepted before the intent revision expired.
\<close>

theorem submission_passes_gates:
  assumes "lifecycle_run h v s (xs @ (SUBMITTING, now) # ys)"
  shows "\<exists>p us zs. assertCrossChainIntent v = Inr p \<and> (SUBMITTING, now) # ys = zip submission_gates us @ zs
    \<and> length us = length submission_gates \<and> list_all (before (expiry p)) us"
proof -
  obtain p where p: "bound_to h s v p" "history (expiry p) (xs @ (SUBMITTING, now) # ys)"
    using run_history[OF assms] by blast
  have hd: "hd submission_gates = SUBMITTING" "submission_gates \<noteq> []"
    by (simp_all add: submission_gates_def)
  show ?thesis
    using gate_chain_history[OF submission_gate_chain hd(2), unfolded hd(1), OF history_suffix[OF p(2)]] p(1)
    unfolding bound_to_def by blast
qed

theorem submission_passes_gates_witness:
  "\<exists>ys p us zs. assertCrossChainIntent sample_cross = Inr p
     \<and> (SUBMITTING, Fin 1772323000000) # ys = zip submission_gates us @ zs
     \<and> length us = length submission_gates \<and> list_all (before (expiry p)) us"
proof -
  obtain s where "lifecycle_run id sample_cross s ([] @ (SUBMITTING, Fin 1772323000000)
      # map (\<lambda>c. (c, Fin 1772323000000)) (tl submission_gates @ [DRAFT]))"
    using sample_submitted by blast
  from submission_passes_gates[OF this] show ?thesis by blast
qed

text \<open>
  A lifecycle advances only for the terms it was created with: when the digest of the active
  intent does not collide with the digest of the original one, an accepted step has an active intent
  with the same value of every field (the disclosure set and the capabilities up to order), and the
  step changes nothing but the stage.
\<close>

lemma step_binds_terms:
  assumes "lifecycle_run h v s tr" "transitionCrossChainLifecycle h s w next now = Inr s'"
    and "\<forall>a b. canonicalizeCrossChainIntent v = Inr a \<longrightarrow> canonicalizeCrossChainIntent w = Inr b \<longrightarrow> h a = h b \<longrightarrow> a = b"
  shows "\<exists>p q. assertCrossChainIntent v = Inr p \<and> assertCrossChainIntent w = Inr q \<and> same_terms p q
    \<and> s' = s\<lparr>cl_stage := next\<rparr>"
proof -
  obtain p where p: "bound_to h s v p"
    using run_history[OF assms(1)] by blast
  obtain q where q: "bound_to h s w q" "s' = s\<lparr>cl_stage := next\<rparr>"
    using assms(2) by (auto simp: transition_Inr)
  obtain a where a: "canonicalizeCrossChainIntent v = Inr a" "cl_intentDigest s = ''0x'' @ h a"
    using p by (auto simp: bound_to_def digestCrossChainIntent_def)
  obtain b where b: "canonicalizeCrossChainIntent w = Inr b" "cl_intentDigest s = ''0x'' @ h b"
    using q by (auto simp: bound_to_def digestCrossChainIntent_def)
  have "a = b"
    using assms(3) a b by simp
  then have "same_terms p q"
    using p q a b by (auto simp: bound_to_def intro: canonical_text_binds)
  then show ?thesis
    using p q by (auto simp: bound_to_def)
qed

lemma step_binds_terms_witness:
  "\<exists>s s' p. lifecycle_run id sample_cross s [(DRAFT, Fin 1772323000000)]
     \<and> transitionCrossChainLifecycle id s sample_cross ''VALIDATING'' (Fin 1772323000000) = Inr s'
     \<and> assertCrossChainIntent sample_cross = Inr p \<and> same_terms p p \<and> s' = s\<lparr>cl_stage := ''VALIDATING''\<rparr>"
proof -
  obtain s p where r: "lifecycle_run id sample_cross s [(DRAFT, Fin 1772323000000)]" and b: "bound_to id s sample_cross p"
      and d: "stage_of (cl_stage s) = Some DRAFT"
    using sample_path[of "[DRAFT]" id] by auto
  have "expiry p = 1772323199500"
    using b sample_cross_valid by (auto simp: bound_to_def)
  then have t: "transitionCrossChainLifecycle id s sample_cross ''VALIDATING'' (Fin 1772323000000)
      = Inr (s\<lparr>cl_stage := ''VALIDATING''\<rparr>)"
    unfolding transition_Inr using b d
    by (intro exI[of _ p] exI[of _ DRAFT] exI[of _ VALIDATING]) (simp add: stage_tables stage_of_def CROSS_CHAIN_STAGES_def)
  show ?thesis
    using step_binds_terms[OF r t] r t b by (auto simp: bound_to_def)
qed

text \<open>
  A lifecycle never gets stuck: in a terminal stage every step is refused, and in any other stage
  one step for its own intent ends it at any finite time, whether or not the intent has expired.
\<close>

lemma lifecycle_can_end:
  assumes "lifecycle_run h v s tr"
  shows "stage_of (cl_stage s) = Some (fst (hd tr))
    \<and> (if fst (hd tr) \<in> set TERMINAL_STAGES then \<not> is_ok (transitionCrossChainLifecycle h s w next now)
       else \<exists>n. n \<in> set TERMINAL_STAGES \<and>
         transitionCrossChainLifecycle h s v (stage_text n) (Fin t) = Inr (s\<lparr>cl_stage := stage_text n\<rparr>))"
proof -
  obtain p where p: "bound_to h s v p" "stage_of (cl_stage s) = Some (fst (hd tr))"
    using run_history[OF assms] by blast
  let ?c = "fst (hd tr)"
  have "\<exists>n. n \<in> set TERMINAL_STAGES \<and> stage_step (expiry p) ?c n (Fin t)" if "?c \<notin> set TERMINAL_STAGES"
  proof (cases "?c \<in> set PRE_SUBMISSION_STAGES")
    case True
    then show ?thesis
      using ending_stage(1)[OF True] 
      by (cases "of_int (expiry p) \<le> t")
        (auto simp: stage_step_def TERMINAL_STAGES_def intro: exI[of _ EXPIRED] exI[of _ CANCELLED])
  next
    case False
    then show ?thesis
      using ending_stage(2)[OF False that]
      by (intro exI[of _ FAILED_FINAL]) (simp add: stage_step_def TERMINAL_STAGES_def REVISION_GATED_NEXT_STAGES_def)
  qed
  then obtain n where n: "n \<in> set TERMINAL_STAGES" "stage_step (expiry p) ?c n (Fin t)" if "?c \<notin> set TERMINAL_STAGES"
    by blast
  have "transitionCrossChainLifecycle h s v (stage_text n) (Fin t) = Inr (s\<lparr>cl_stage := stage_text n\<rparr>)"
    if "?c \<notin> set TERMINAL_STAGES"
    unfolding transition_Inr using p n[OF that] that stage_of_text by blast
  moreover have "\<not> is_ok (transitionCrossChainLifecycle h s w next now)" if "?c \<in> set TERMINAL_STAGES"
    using that p(2) by (auto simp: is_ok_iff transition_Inr)
  ultimately show ?thesis
    using p(2) n by auto
qed

lemma lifecycle_can_end_witness:
  "\<exists>s n. n \<in> set TERMINAL_STAGES \<and> lifecycle_run id sample_cross s [(DRAFT, Fin 1772323000000)]
     \<and> transitionCrossChainLifecycle id s sample_cross (stage_text n) (Fin 9000000000000) = Inr (s\<lparr>cl_stage := stage_text n\<rparr>)"
proof -
  obtain s where r: "lifecycle_run id sample_cross s [(DRAFT, Fin 1772323000000)]"
    using sample_path[of "[DRAFT]" id] by auto
  show ?thesis
    using lifecycle_can_end[OF r, of _ _ _ 9000000000000] r by (auto simp: TERMINAL_STAGES_def)
qed

text \<open>
  C37: the topology lets a lifecycle be completed although nothing was submitted: from the manual
  review after the policy preflight it may become a pending refund, be reorganised, confirm on the
  destination chain and complete.
\<close>

theorem completes_without_submission:
  "\<exists>s tr. lifecycle_run h sample_cross s tr \<and> cl_stage s = ''COMPLETED''
     \<and> SUBMITTING \<notin> fst ` set tr \<and> SUBMITTED \<notin> fst ` set tr"
proof -
  define cs where "cs = [COMPLETED, DESTINATION_CONFIRMING, REORGED, REFUND_PENDING, MANUAL_REVIEW, PREFLIGHT_POLICY,
    VALIDATING, DRAFT]"
  have "stage_path 1772323199500 (Fin 1772323000000) cs"
    by (simp add: cs_def stage_tables)
  then obtain s where s: "lifecycle_run h sample_cross s (map (\<lambda>c. (c, Fin 1772323000000)) cs)"
      "stage_of (cl_stage s) = Some COMPLETED"
    using sample_path[of cs h] by (auto simp: cs_def)
  have "cl_stage s = ''COMPLETED''"
    using s(2) by (auto simp: stage_of_def CROSS_CHAIN_STAGES_def split: if_splits)
  then show ?thesis
    using s(1) by (intro exI[of _ s] exI[of _ "map (\<lambda>c. (c, Fin 1772323000000)) cs"]) (simp add: cs_def)
qed

end
