(* ===== verification/Risk_Operations.thy ===== *)
theory Risk_Operations
  imports Wire_Checks
begin

text \<open>
  Maker risk manifests and operations (packages/private-intents/src/operations.ts): approved manifests
  and exceptions, the exposure decision, the netting plan, the operations control and the summary
  shown to browsers. The functions of the platform the code calls are gathered in \<open>ops_env\<close>:
  \<open>localeCompare\<close>, NFKC normalisation, \<open>String\<close> of a value that is no string, and SHA-256.
\<close>

section \<open>Field validators\<close>

record ops_env =
  oe_compare :: "string comparator"
  oe_nfkc :: "string \<Rightarrow> string"
  oe_string :: "jsval \<Rightarrow> string"
  oe_sha256Hex :: "string \<Rightarrow> string"

definition RISK_MANIFEST_DOMAIN :: string where
  "RISK_MANIFEST_DOMAIN = ''app20/maker-risk-manifest/v1''"

definition RISK_EXCEPTION_DOMAIN :: string where
  "RISK_EXCEPTION_DOMAIN = ''app20/maker-risk-exception/v1''"

definition MIN_PUBLIC_HEDGE_DWELL_SECONDS :: int where
  "MIN_PUBLIC_HEDGE_DWELL_SECONDS = 30 * 60"

definition MAX_EXPOSURE_SNAPSHOT_AGE_SECONDS :: int where
  "MAX_EXPOSURE_SNAPSHOT_AGE_SECONDS = 5 * 60"

definition ops_u256_max :: int where
  "ops_u256_max = 2 ^ 256 - 1"

definition ops_record :: "jsval \<Rightarrow> string \<Rightarrow> fields result" where
  "ops_record v label = (case v of JObj kvs \<Rightarrow> Inr kvs | _ \<Rightarrow> Inl (Err (label @ '' must be an object.'')))"

fun comma_join :: "string list \<Rightarrow> string" where
  "comma_join [] = []"
| "comma_join [s] = s"
| "comma_join (s # ss) = s @ '','' @ comma_join ss"

definition exactKeys :: "ops_env \<Rightarrow> fields \<Rightarrow> string list \<Rightarrow> string \<Rightarrow> unit result" where
  "exactKeys env kvs expected label =
     (if comma_join (sort_by (oe_compare env) (obj_keys kvs)) \<noteq> comma_join (sort_by (oe_compare env) expected)
      then Inl (Err (label @ '' schema is unsupported.'')) else Inr ())"

text \<open>\<open>canonicalJson\<close>: property names in \<open>localeCompare\<close> order, numbers only as safe integers.\<close>

fun ops_value :: "string comparator \<Rightarrow> jsval \<Rightarrow> json result"
  and ops_values :: "string comparator \<Rightarrow> jsval list \<Rightarrow> json list result"
  and ops_fields :: "string comparator \<Rightarrow> (string \<times> jsval) list \<Rightarrow> (string \<times> json) list result" where
  "ops_value loc (JNum x) =
     (case as_safe_int x of Some n \<Rightarrow> Inr (Jint n)
      | None \<Rightarrow> Inl (Err ''Canonical operations numbers must be safe integers.''))"
| "ops_value loc (JStr s) = Inr (Jstr s)"
| "ops_value loc (JBool b) = Inr (Jbool b)"
| "ops_value loc (JArr vs) = bind_r (ops_values loc vs) (\<lambda>js. Inr (Jarr js))"
| "ops_value loc (JObj kvs) = bind_r (ops_fields loc kvs) (\<lambda>js. Inr (Jobj (sort_by (cmp_on fst loc) js)))"
| "ops_value loc JNull = Inr Jnull"
| "ops_value loc (JBig _) = Inr (Jobj [])"
| "ops_value loc JUndef = Inl type_error"
| "ops_values loc [] = Inr []"
| "ops_values loc (v # vs) = bind_r (ops_value loc v) (\<lambda>j. bind_r (ops_values loc vs) (\<lambda>js. Inr (j # js)))"
| "ops_fields loc [] = Inr []"
| "ops_fields loc ((k, v) # kvs) =
     bind_r (ops_value loc v) (\<lambda>j. bind_r (ops_fields loc kvs) (\<lambda>js. Inr ((k, j) # js)))"

definition ops_canonicalJson :: "ops_env \<Rightarrow> jsval \<Rightarrow> string result" where
  "ops_canonicalJson env v = bind_r (ops_value (oe_compare env) v) (\<lambda>j. Inr (json_text j))"

definition ops_array :: "jsval \<Rightarrow> string \<Rightarrow> jsval list result" where
  "ops_array v message = (case v of JArr vs \<Rightarrow> Inr vs | _ \<Rightarrow> Inl (Err message))"

definition sha256Digest :: "ops_env \<Rightarrow> string \<Rightarrow> string" where
  "sha256Digest env t = ''sha256:'' @ oe_sha256Hex env t"

definition ops_text :: "ops_env \<Rightarrow> jsval \<Rightarrow> string \<Rightarrow> nat \<Rightarrow> string result" where
  "ops_text env v label maximumLength =
     (case v of
        JStr s \<Rightarrow> (let normalized = trim (oe_nfkc env s) in
          if normalized = [] \<or> maximumLength < length normalized then Inl (Err (label @ '' is invalid.''))
          else Inr normalized)
      | _ \<Rightarrow> Inl (Err (label @ '' must be text.'')))"

text \<open>\<open>/^sha256:[0-9a-f]{64}$/\<close> and \<open>/^0x[0-9a-f]{64}$/\<close>, after lowering.\<close>

definition ops_digest :: "jsval \<Rightarrow> string \<Rightarrow> string result" where
  "ops_digest v label =
     (case v of
        JStr s \<Rightarrow> (let normalized = to_lower s in
          if take 7 normalized = ''sha256:'' \<and> length normalized = 71 \<and> list_all is_hex_lower (drop 7 normalized)
          then Inr normalized else Inl (Err (label @ '' is invalid.'')))
      | _ \<Rightarrow> Inl (Err (label @ '' is invalid.'')))"

definition hex32 :: "jsval \<Rightarrow> string \<Rightarrow> string result" where
  "hex32 v label =
     (case v of
        JStr s \<Rightarrow> (let normalized = to_lower s in
          if hex_digits 64 normalized then Inr normalized else Inl (Err (label @ '' is invalid.'')))
      | _ \<Rightarrow> Inl (Err (label @ '' is invalid.'')))"

definition ops_timestamp :: "jsval \<Rightarrow> string \<Rightarrow> int result" where
  "ops_timestamp v label =
     (case v of
        JNum x \<Rightarrow> (case as_safe_int x of
            Some n \<Rightarrow> if n \<le> 0 then Inl (Err (label @ '' must be a positive safe-integer timestamp.'')) else Inr n
          | None \<Rightarrow> Inl (Err (label @ '' must be a positive safe-integer timestamp.'')))
      | _ \<Rightarrow> Inl (Err (label @ '' must be a positive safe-integer timestamp.'')))"

definition ops_integer :: "jsval \<Rightarrow> string \<Rightarrow> int \<Rightarrow> int \<Rightarrow> int result" where
  "ops_integer v label minimum maximum =
     (case v of
        JNum x \<Rightarrow> (case as_safe_int x of
            Some n \<Rightarrow> if n < minimum \<or> maximum < n then Inl (Err (label @ '' is outside the reviewed limit.'')) else Inr n
          | None \<Rightarrow> Inl (Err (label @ '' is outside the reviewed limit.'')))
      | _ \<Rightarrow> Inl (Err (label @ '' is outside the reviewed limit.'')))"

text \<open>Decimal base units stay texts, as in the code; \<open>units_of\<close> is \<open>BigInt\<close> of one.\<close>

definition units_of :: "string \<Rightarrow> int" where
  "units_of s = int (of_base 10 s)"

definition ops_units :: "jsval \<Rightarrow> string \<Rightarrow> bool \<Rightarrow> string result" where
  "ops_units v label positive =
     (case v of
        JStr s \<Rightarrow>
          if \<not> canonical_dec s then Inl (Err (label @ '' must be canonical decimal base units.''))
          else if ops_u256_max < units_of s \<or> positive \<and> units_of s \<le> 0
          then Inl (Err (label @ '' is outside the reviewed u256 range.''))
          else Inr s
      | _ \<Rightarrow> Inl (Err (label @ '' must be canonical decimal base units.'')))"

definition signedUnits :: "jsval \<Rightarrow> string \<Rightarrow> int result" where
  "signedUnits v label =
     (case v of
        JStr s \<Rightarrow>
          (let negative = (s \<noteq> [] \<and> hd s = CHR ''-''); digits = (if negative then tl s else s);
               parsed = (if negative then - units_of digits else units_of digits)
           in if \<not> canonical_dec digits then Inl (Err (label @ '' must be canonical signed decimal base units.''))
              else if parsed < - ops_u256_max \<or> ops_u256_max < parsed \<or> s = ''-0''
              then Inl (Err (label @ '' is outside the reviewed range.''))
              else Inr parsed)
      | _ \<Rightarrow> Inl (Err (label @ '' must be canonical signed decimal base units.'')))"

definition ops_felt :: "ops_env \<Rightarrow> jsval \<Rightarrow> string \<Rightarrow> string result" where
  "ops_felt env v label =
     (case canonicalizeStarknetFelt
         (case v of JStr s \<Rightarrow> s | JUndef \<Rightarrow> [] | JNull \<Rightarrow> [] | _ \<Rightarrow> oe_string env v) of
        Inl _ \<Rightarrow> Inl (Err (label @ '' is not a canonical Starknet felt.''))
      | Inr normalized \<Rightarrow>
          if normalized = ''0x0'' then Inl (Err (label @ '' is not a canonical Starknet felt.'')) else Inr normalized)"

definition ops_chainId :: "jsval \<Rightarrow> string result" where
  "ops_chainId v =
     (if v = JStr ''starknet:SN_MAIN'' then Inr ''starknet:SN_MAIN''
      else if v = JStr ''starknet:SN_SEPOLIA'' then Inr ''starknet:SN_SEPOLIA''
      else if v = JStr ''starknet:APP20_LOCALNET'' then Inr ''starknet:APP20_LOCALNET''
      else Inl (Err ''Risk manifest chain is unsupported.''))"

section \<open>Manifests\<close>

record risk_asset =
  ra_token :: string
  ra_denomination :: string
  ra_minBatch :: string
  ra_maxPerTrade :: string
  ra_maxGross :: string
  ra_maxNet :: string
  ra_maxDaily :: string

record risk_venue =
  rv_venueId :: string
  rv_enabled :: bool

record risk_body =
  rb_manifestId :: string
  rb_previous :: "string option"
  rb_makerId :: string
  rb_chainId :: string
  rb_registryRevision :: string
  rb_issuedAt :: int
  rb_validFrom :: int
  rb_validUntil :: int
  rb_minDwell :: int
  rb_maxDwell :: int
  rb_assets :: "risk_asset list"
  rb_venues :: "risk_venue list"

definition RISK_ASSET_FIELDS :: "string list" where
  "RISK_ASSET_FIELDS = [''token'', ''denominationBaseUnits'', ''minBatchBaseUnits'', ''maxPerTradeBaseUnits'',
     ''maxGrossExposureBaseUnits'', ''maxNetExposureBaseUnits'', ''maxDailyFilledBaseUnits'']"

definition normalizeAsset :: "ops_env \<Rightarrow> jsval \<Rightarrow> risk_asset result" where
  "normalizeAsset env v =
     bind_r (ops_record v ''Risk-manifest asset'') (\<lambda>a.
     bind_r (exactKeys env a RISK_ASSET_FIELDS ''Risk-manifest asset'') (\<lambda>_.
     bind_r (ops_felt env (get_field a ''token'') ''Risk token'') (\<lambda>token.
     bind_r (ops_units (get_field a ''denominationBaseUnits'') ''Risk denomination'' True) (\<lambda>denomination.
     bind_r (ops_units (get_field a ''minBatchBaseUnits'') ''Risk minimum batch'' True) (\<lambda>minBatch.
     bind_r (ops_units (get_field a ''maxPerTradeBaseUnits'') ''Risk per-trade cap'' True) (\<lambda>perTrade.
     bind_r (ops_units (get_field a ''maxGrossExposureBaseUnits'') ''Risk gross-exposure cap'' True) (\<lambda>gross.
     bind_r (ops_units (get_field a ''maxNetExposureBaseUnits'') ''Risk net-exposure cap'' True) (\<lambda>net.
     bind_r (ops_units (get_field a ''maxDailyFilledBaseUnits'') ''Risk daily-filled cap'' True) (\<lambda>daily.
     if units_of minBatch < units_of denomination
     then Inl (Err ''Risk minimum batch must be at least one denomination.'')
     else if units_of gross < units_of perTrade \<or> units_of net < units_of perTrade \<or> units_of daily < units_of perTrade
     then Inl (Err ''Risk per-trade cap cannot exceed gross, net, or daily caps.'')
     else Inr \<lparr>ra_token = token, ra_denomination = denomination, ra_minBatch = minBatch, ra_maxPerTrade = perTrade,
       ra_maxGross = gross, ra_maxNet = net, ra_maxDaily = daily\<rparr>)))))))))"

definition normalizeVenue :: "ops_env \<Rightarrow> jsval \<Rightarrow> risk_venue result" where
  "normalizeVenue env v =
     bind_r (ops_record v ''Risk-manifest venue'') (\<lambda>w.
     bind_r (exactKeys env w [''venueId'', ''route'', ''enabled''] ''Risk-manifest venue'') (\<lambda>_.
     case (get_field w ''route'' = JStr ''public'', get_field w ''enabled'') of
       (True, JBool enabled) \<Rightarrow>
         bind_r (ops_text env (get_field w ''venueId'') ''Risk venue id'' 128) (\<lambda>venue.
         Inr \<lparr>rv_venueId = venue, rv_enabled = enabled\<rparr>)
     | _ \<Rightarrow> Inl (Err ''Risk-manifest venue is invalid.'')))"

definition RISK_BODY_FIELDS :: "string list" where
  "RISK_BODY_FIELDS = [''domain'', ''version'', ''manifestId'', ''previousManifestDigest'', ''makerId'', ''chainId'',
     ''registryRevision'', ''issuedAt'', ''validFrom'', ''validUntil'', ''minimumHedgeDwellSeconds'',
     ''maximumHedgeDwellSeconds'', ''assets'', ''venues'']"

definition normalize_assets :: "ops_env \<Rightarrow> jsval list \<Rightarrow> risk_asset list result" where
  "normalize_assets env vs =
     bind_r (map_r (normalizeAsset env) vs) (\<lambda>assets.
     let sorted_assets = sort_by (cmp_on ra_token (oe_compare env)) assets in
     if distinct (map ra_token sorted_assets) then Inr sorted_assets
     else Inl (Err ''Risk manifest asset policies must be unique.''))"

definition normalize_venues :: "ops_env \<Rightarrow> jsval list \<Rightarrow> risk_venue list result" where
  "normalize_venues env vs =
     bind_r (map_r (normalizeVenue env) vs) (\<lambda>venues.
     let sorted_venues = sort_by (cmp_on rv_venueId (oe_compare env)) venues in
     if distinct (map rv_venueId sorted_venues) then Inr sorted_venues
     else Inl (Err ''Risk manifest venues must be unique.''))"

definition normalize_previous :: "jsval \<Rightarrow> string option result" where
  "normalize_previous v =
     (if v = JNull then Inr None
      else bind_r (ops_digest v ''Previous risk manifest digest'') (\<lambda>d. Inr (Some d)))"

definition normalize_window :: "fields \<Rightarrow> (int \<times> int \<times> int) result" where
  "normalize_window b =
     bind_r (ops_timestamp (get_field b ''issuedAt'') ''Risk manifest issue time'') (\<lambda>issued.
     bind_r (ops_timestamp (get_field b ''validFrom'') ''Risk manifest validity start'') (\<lambda>from.
     bind_r (ops_timestamp (get_field b ''validUntil'') ''Risk manifest validity end'') (\<lambda>until.
     if from < issued \<or> until \<le> from then Inl (Err ''Risk manifest validity window is invalid.'')
     else Inr (issued, from, until))))"

definition normalizeRiskManifestBody :: "ops_env \<Rightarrow> jsval \<Rightarrow> risk_body result" where
  "normalizeRiskManifestBody env v =
     bind_r (ops_record v ''Risk manifest'') (\<lambda>b.
     bind_r (exactKeys env b RISK_BODY_FIELDS ''Risk manifest'') (\<lambda>_.
     if get_field b ''domain'' \<noteq> JStr RISK_MANIFEST_DOMAIN \<or> get_field b ''version'' \<noteq> JNum (Fin 1)
     then Inl (Err ''Risk manifest domain or version is invalid.'')
     else bind_r (normalize_window b) (\<lambda>(issued, from, until).
     bind_r (ops_integer (get_field b ''minimumHedgeDwellSeconds'') ''Minimum public-hedge dwell''
       MIN_PUBLIC_HEDGE_DWELL_SECONDS (24 * 60 * 60)) (\<lambda>minDwell.
     bind_r (ops_integer (get_field b ''maximumHedgeDwellSeconds'') ''Maximum public-hedge dwell''
       minDwell (7 * 24 * 60 * 60)) (\<lambda>maxDwell.
     bind_r (ops_array (get_field b ''assets'') ''Risk manifest needs at least one asset policy.'') (\<lambda>assetValues.
     if assetValues = [] then Inl (Err ''Risk manifest needs at least one asset policy.'')
     else bind_r (ops_array (get_field b ''venues'') ''Risk manifest venues must be an array.'') (\<lambda>venueValues.
     bind_r (normalize_assets env assetValues) (\<lambda>assets.
     bind_r (normalize_venues env venueValues) (\<lambda>venues.
     bind_r (hex32 (get_field b ''manifestId'') ''Risk manifest id'') (\<lambda>manifestId.
     bind_r (normalize_previous (get_field b ''previousManifestDigest'')) (\<lambda>previous.
     bind_r (ops_text env (get_field b ''makerId'') ''Risk maker id'' 128) (\<lambda>maker.
     bind_r (ops_chainId (get_field b ''chainId'')) (\<lambda>chain.
     bind_r (ops_text env (get_field b ''registryRevision'') ''Risk registry revision'' 128) (\<lambda>revision.
     Inr \<lparr>rb_manifestId = manifestId, rb_previous = previous, rb_makerId = maker, rb_chainId = chain,
       rb_registryRevision = revision, rb_issuedAt = issued, rb_validFrom = from, rb_validUntil = until,
       rb_minDwell = minDwell, rb_maxDwell = maxDwell, rb_assets = assets, rb_venues = venues\<rparr>))))))))))))))"

text \<open>The normalized body as the object it is: \<open>canonicalRiskManifestBody\<close> normalizes it once more.\<close>

definition asset_value :: "risk_asset \<Rightarrow> jsval" where
  "asset_value a = JObj
     [(''token'', JStr (ra_token a)), (''denominationBaseUnits'', JStr (ra_denomination a)),
      (''minBatchBaseUnits'', JStr (ra_minBatch a)), (''maxPerTradeBaseUnits'', JStr (ra_maxPerTrade a)),
      (''maxGrossExposureBaseUnits'', JStr (ra_maxGross a)), (''maxNetExposureBaseUnits'', JStr (ra_maxNet a)),
      (''maxDailyFilledBaseUnits'', JStr (ra_maxDaily a))]"

definition venue_value :: "risk_venue \<Rightarrow> jsval" where
  "venue_value w = JObj [(''venueId'', JStr (rv_venueId w)), (''route'', JStr ''public''), (''enabled'', JBool (rv_enabled w))]"

definition risk_body_value :: "risk_body \<Rightarrow> jsval" where
  "risk_body_value b = JObj
     [(''domain'', JStr RISK_MANIFEST_DOMAIN), (''version'', JNum (Fin 1)), (''manifestId'', JStr (rb_manifestId b)),
      (''previousManifestDigest'', case rb_previous b of None \<Rightarrow> JNull | Some d \<Rightarrow> JStr d),
      (''makerId'', JStr (rb_makerId b)), (''chainId'', JStr (rb_chainId b)),
      (''registryRevision'', JStr (rb_registryRevision b)), (''issuedAt'', JNum (jint (rb_issuedAt b))),
      (''validFrom'', JNum (jint (rb_validFrom b))), (''validUntil'', JNum (jint (rb_validUntil b))),
      (''minimumHedgeDwellSeconds'', JNum (jint (rb_minDwell b))),
      (''maximumHedgeDwellSeconds'', JNum (jint (rb_maxDwell b))),
      (''assets'', JArr (map asset_value (rb_assets b))), (''venues'', JArr (map venue_value (rb_venues b)))]"

definition canonicalRiskManifestBody :: "ops_env \<Rightarrow> jsval \<Rightarrow> string result" where
  "canonicalRiskManifestBody env v =
     bind_r (normalizeRiskManifestBody env v) (\<lambda>b. ops_canonicalJson env (risk_body_value b))"

definition riskManifestBodyDigest :: "ops_env \<Rightarrow> jsval \<Rightarrow> string result" where
  "riskManifestBodyDigest env v = bind_r (canonicalRiskManifestBody env v) (\<lambda>t. Inr (sha256Digest env t))"

section \<open>Approvals\<close>

record risk_approval =
  ap_role :: jsval
  ap_keyId :: string
  ap_signature :: string

definition js_string :: "ops_env \<Rightarrow> jsval \<Rightarrow> string" where
  "js_string env v = (case v of JStr s \<Rightarrow> s | _ \<Rightarrow> oe_string env v)"

text \<open>
  The role is compared as a text but kept as the value it was; the other checks compare it strictly.
\<close>

definition normalizeApproval :: "ops_env \<Rightarrow> jsval \<Rightarrow> risk_approval result" where
  "normalizeApproval env v =
     bind_r (ops_record v ''Risk approval'') (\<lambda>a.
     bind_r (exactKeys env a [''role'', ''approverKeyId'', ''signature''] ''Risk approval'') (\<lambda>_.
     if js_string env (get_field a ''role'') \<notin> {''risk'', ''operations'', ''security_compliance''}
     then Inl (Err ''Risk approval role is invalid.'')
     else (case get_field a ''signature'' of
         JStr s \<Rightarrow>
           if \<not> (take 2 s = ''0x'' \<and> 2 < length s \<and> list_all is_hex (drop 2 s))
           then Inl (Err ''Risk approval signature is invalid.'')
           else bind_r (ops_text env (get_field a ''approverKeyId'') ''Risk approver key id'' 128) (\<lambda>key.
             Inr \<lparr>ap_role = get_field a ''role'', ap_keyId = key, ap_signature = to_lower s\<rparr>)
       | _ \<Rightarrow> Inl (Err ''Risk approval signature is invalid.''))))"

type_synonym approval_verifier = "string \<Rightarrow> risk_approval \<Rightarrow> bool"

text \<open>
  A verified object carries a brand and is a member of a weak set that only the verification adds
  to; \<open>rm_verified\<close> and \<open>rx_verified\<close> stand for both.
\<close>

record risk_manifest =
  rm_body :: risk_body
  rm_bodyDigest :: string
  rm_approvals :: "risk_approval list"
  rm_verified :: bool

definition SIGNED_RISK_FIELDS :: "string list" where
  "SIGNED_RISK_FIELDS = [''version'', ''body'', ''bodyDigest'', ''approvals'']"

definition verifyRiskManifest ::
  "ops_env \<Rightarrow> approval_verifier \<Rightarrow> jsval \<Rightarrow> jsval \<Rightarrow> risk_manifest result" where
  "verifyRiskManifest env verifyApproval now v =
     bind_r (ops_record v ''Signed risk manifest'') (\<lambda>m.
     bind_r (exactKeys env m SIGNED_RISK_FIELDS ''Signed risk manifest'') (\<lambda>_.
     if get_field m ''version'' \<noteq> JNum (Fin 1) then Inl (Err ''Signed risk manifest is invalid.'')
     else bind_r (ops_array (get_field m ''approvals'') ''Signed risk manifest is invalid.'') (\<lambda>approvalValues.
         bind_r (normalizeRiskManifestBody env (get_field m ''body'')) (\<lambda>body.
         bind_r (riskManifestBodyDigest env (risk_body_value body)) (\<lambda>bodyDigest.
         bind_r (ops_digest (get_field m ''bodyDigest'') ''Risk manifest digest'') (\<lambda>claimed.
         if claimed \<noteq> bodyDigest then Inl (Err ''Risk manifest digest does not match its body.'')
         else bind_r (ops_timestamp now ''Risk manifest verification time'') (\<lambda>t.
         if t < rb_validFrom body \<or> rb_validUntil body < t then Inl (Err ''Risk manifest is not currently valid.'')
         else bind_r (map_r (normalizeApproval env) approvalValues) (\<lambda>approvals.
         if \<not> distinct (map ap_keyId approvals)
         then Inl (Err ''Risk manifest approvals must use distinct approvers.'')
         else if JStr ''risk'' \<notin> ap_role ` set approvals \<or> JStr ''operations'' \<notin> ap_role ` set approvals
         then Inl (Err ''Risk manifest requires Risk and Operations approval.'')
         else if \<not> list_all (verifyApproval bodyDigest) approvals
         then Inl (Err ''Risk manifest approval signature is invalid.'')
         else Inr \<lparr>rm_body = body, rm_bodyDigest = bodyDigest, rm_approvals = approvals, rm_verified = True\<rparr>))))))))"

definition requireVerifiedRiskManifest :: "risk_manifest \<Rightarrow> unit result" where
  "requireVerifiedRiskManifest m =
     (if rm_verified m then Inr () else Inl (Err ''Risk manifest must come from approval verification.''))"

section \<open>Exceptions\<close>

record exception_body =
  xb_exceptionId :: string
  xb_manifestDigest :: string
  xb_makerId :: string
  xb_kind :: jsval
  xb_token :: string
  xb_maximumAmount :: string
  xb_reason :: string
  xb_issuedAt :: int
  xb_expiresAt :: int

record risk_exception =
  rx_body :: exception_body
  rx_bodyDigest :: string
  rx_approvals :: "risk_approval list"
  rx_verified :: bool

definition EXCEPTION_FIELDS :: "string list" where
  "EXCEPTION_FIELDS = [''domain'', ''version'', ''exceptionId'', ''manifestDigest'', ''makerId'', ''kind'', ''token'',
     ''maximumAmountBaseUnits'', ''reason'', ''issuedAt'', ''expiresAt'']"

definition normalizeExceptionBody :: "ops_env \<Rightarrow> jsval \<Rightarrow> exception_body result" where
  "normalizeExceptionBody env v =
     bind_r (ops_record v ''Risk exception'') (\<lambda>b.
     bind_r (exactKeys env b EXCEPTION_FIELDS ''Risk exception'') (\<lambda>_.
     if get_field b ''domain'' \<noteq> JStr RISK_EXCEPTION_DOMAIN \<or> get_field b ''version'' \<noteq> JNum (Fin 1)
       \<or> js_string env (get_field b ''kind'')
           \<notin> {''early-public-hedge'', ''same-size-public-hedge'', ''per-trade-cap-override''}
     then Inl (Err ''Risk exception domain, version, or kind is invalid.'')
     else bind_r (ops_timestamp (get_field b ''issuedAt'') ''Risk exception issue time'') (\<lambda>issued.
     bind_r (ops_timestamp (get_field b ''expiresAt'') ''Risk exception expiry'') (\<lambda>expires.
     if expires \<le> issued \<or> 24 * 60 * 60 < expires - issued then Inl (Err ''Risk exception lifetime is invalid.'')
     else bind_r (hex32 (get_field b ''exceptionId'') ''Risk exception id'') (\<lambda>exceptionId.
     bind_r (ops_digest (get_field b ''manifestDigest'') ''Risk exception manifest digest'') (\<lambda>manifest.
     bind_r (ops_text env (get_field b ''makerId'') ''Risk exception maker id'' 128) (\<lambda>maker.
     bind_r (ops_felt env (get_field b ''token'') ''Risk exception token'') (\<lambda>token.
     bind_r (ops_units (get_field b ''maximumAmountBaseUnits'') ''Risk exception maximum amount'' True) (\<lambda>maximum.
     bind_r (ops_text env (get_field b ''reason'') ''Risk exception reason'' 500) (\<lambda>why.
     Inr \<lparr>xb_exceptionId = exceptionId, xb_manifestDigest = manifest, xb_makerId = maker,
       xb_kind = get_field b ''kind'', xb_token = token, xb_maximumAmount = maximum, xb_reason = why,
       xb_issuedAt = issued, xb_expiresAt = expires\<rparr>))))))))))"

definition exception_body_value :: "exception_body \<Rightarrow> jsval" where
  "exception_body_value b = JObj
     [(''domain'', JStr RISK_EXCEPTION_DOMAIN), (''version'', JNum (Fin 1)), (''exceptionId'', JStr (xb_exceptionId b)),
      (''manifestDigest'', JStr (xb_manifestDigest b)), (''makerId'', JStr (xb_makerId b)), (''kind'', xb_kind b),
      (''token'', JStr (xb_token b)), (''maximumAmountBaseUnits'', JStr (xb_maximumAmount b)),
      (''reason'', JStr (xb_reason b)), (''issuedAt'', JNum (jint (xb_issuedAt b))),
      (''expiresAt'', JNum (jint (xb_expiresAt b)))]"

definition riskExceptionBodyDigest :: "ops_env \<Rightarrow> jsval \<Rightarrow> string result" where
  "riskExceptionBodyDigest env v =
     bind_r (normalizeExceptionBody env v) (\<lambda>b.
     bind_r (ops_canonicalJson env (exception_body_value b)) (\<lambda>t. Inr (sha256Digest env t)))"

definition verifyRiskException ::
  "ops_env \<Rightarrow> approval_verifier \<Rightarrow> jsval \<Rightarrow> risk_manifest \<Rightarrow> jsval \<Rightarrow> risk_exception result" where
  "verifyRiskException env verifyApproval now manifest v =
     bind_r (requireVerifiedRiskManifest manifest) (\<lambda>_.
     bind_r (ops_record v ''Signed risk exception'') (\<lambda>x.
     bind_r (exactKeys env x SIGNED_RISK_FIELDS ''Signed risk exception'') (\<lambda>_.
     if get_field x ''version'' \<noteq> JNum (Fin 1) then Inl (Err ''Signed risk exception is invalid.'')
     else bind_r (ops_array (get_field x ''approvals'') ''Signed risk exception is invalid.'') (\<lambda>approvalValues.
         bind_r (normalizeExceptionBody env (get_field x ''body'')) (\<lambda>body.
         bind_r (riskExceptionBodyDigest env (exception_body_value body)) (\<lambda>bodyDigest.
         bind_r (ops_digest (get_field x ''bodyDigest'') ''Risk exception digest'') (\<lambda>claimed.
         if claimed \<noteq> bodyDigest \<or> xb_manifestDigest body \<noteq> rm_bodyDigest manifest
           \<or> xb_makerId body \<noteq> rb_makerId (rm_body manifest)
         then Inl (Err ''Risk exception does not bind the active manifest and maker.'')
         else bind_r (ops_timestamp now ''Risk exception verification time'') (\<lambda>t.
         if t < xb_issuedAt body \<or> xb_expiresAt body < t then Inl (Err ''Risk exception is not currently valid.'')
         else bind_r (map_r (normalizeApproval env) approvalValues) (\<lambda>approvals.
         if \<not> distinct (map ap_keyId approvals)
           \<or> card (set (map ap_keyId (filter (\<lambda>a. ap_role a = JStr ''risk'') approvals))) < 2
           \<or> JStr ''security_compliance'' \<notin> ap_role ` set approvals
         then Inl (Err ''Risk exception requires two distinct Risk approvers and Security/Compliance.'')
         else if \<not> list_all (verifyApproval bodyDigest) approvals
         then Inl (Err ''Risk exception approval signature is invalid.'')
         else Inr \<lparr>rx_body = body, rx_bodyDigest = bodyDigest, rx_approvals = approvals, rx_verified = True\<rparr>)))))))))"

definition requireVerifiedRiskException :: "risk_exception option \<Rightarrow> unit result" where
  "requireVerifiedRiskException x =
     (case x of
        None \<Rightarrow> Inr ()
      | Some e \<Rightarrow> if rx_verified e then Inr ()
          else Inl (Err ''Risk exception must come from approval verification.''))"

section \<open>Exposure\<close>

record exposure_snapshot =
  es_makerId :: string
  es_token :: string
  es_observedAt :: jsval
  es_gross :: jsval
  es_net :: jsval
  es_dailyFilled :: jsval
  es_outstanding :: jsval
  es_reconciliation :: string

record exposure_decision =
  xd_allowed :: bool
  xd_blocks :: "string list"
  xd_trade :: int
  xd_gross :: int
  xd_net :: int
  xd_daily :: int

definition assetPolicy :: "ops_env \<Rightarrow> risk_manifest \<Rightarrow> string \<Rightarrow> risk_asset result" where
  "assetPolicy env m token =
     bind_r (ops_felt env (JStr token) ''Exposure token'') (\<lambda>normalized.
     case find (\<lambda>a. ra_token a = normalized) (rb_assets (rm_body m)) of
       Some a \<Rightarrow> Inr a
     | None \<Rightarrow> Inl (Err ''The active risk manifest does not allow this token.''))"

definition utilization :: "int \<Rightarrow> int \<Rightarrow> int" where
  "utilization v maximum =
     (if maximum \<le> 0 then 10000
      else let bps = (\<bar>v\<bar> * 10000 + maximum - 1) div maximum in if 10000 < bps then 10000 else bps)"

definition block_if :: "bool \<Rightarrow> string \<Rightarrow> string list" where
  "block_if c message = (if c then [message] else [])"

definition exception_applies :: "risk_manifest \<Rightarrow> risk_exception option \<Rightarrow> string \<Rightarrow> string \<Rightarrow> int \<Rightarrow> int \<Rightarrow> bool" where
  "exception_applies m x kind token t amount =
     (case x of
        None \<Rightarrow> False
      | Some e \<Rightarrow> xb_kind (rx_body e) = JStr kind \<and> xb_manifestDigest (rx_body e) = rm_bodyDigest m
          \<and> xb_makerId (rx_body e) = rb_makerId (rm_body m) \<and> xb_token (rx_body e) = token
          \<and> xb_issuedAt (rx_body e) \<le> t \<and> t \<le> xb_expiresAt (rx_body e)
          \<and> amount \<le> units_of (xb_maximumAmount (rx_body e)))"

definition exposure_blocks ::
  "risk_manifest \<Rightarrow> risk_asset \<Rightarrow> string \<Rightarrow> int \<Rightarrow> int \<Rightarrow> bool \<Rightarrow> int \<Rightarrow> int \<Rightarrow> int \<Rightarrow> int \<Rightarrow> int \<Rightarrow> string list" where
  "exposure_blocks m policy reconciliation decided observed covered proposed gross net daily outstanding =
     block_if (decided < observed \<or> MAX_EXPOSURE_SNAPSHOT_AGE_SECONDS < decided - observed)
       ''Maker exposure evidence is future-dated or stale.''
     @ block_if (decided < rb_validFrom (rm_body m) \<or> rb_validUntil (rm_body m) < decided)
       ''The risk manifest is not valid at the decision time.''
     @ block_if (observed < rb_validFrom (rm_body m) \<or> rb_validUntil (rm_body m) < observed)
       ''The risk manifest is not valid for this exposure observation.''
     @ block_if (reconciliation \<noteq> ''current'') ''Maker reconciliation is not current.''
     @ block_if (units_of (ra_maxPerTrade policy) < proposed \<and> \<not> covered) ''Proposed trade exceeds the per-trade cap.''
     @ block_if (units_of (ra_maxGross policy) < gross + outstanding + proposed)
       ''Proposed trade exceeds the gross-exposure cap.''
     @ block_if (units_of (ra_maxNet policy) < \<bar>net\<bar> + proposed) ''Proposed trade exceeds the net-exposure cap.''
     @ block_if (units_of (ra_maxDaily policy) < daily + proposed) ''Proposed trade exceeds the daily-filled cap.''"

definition exposure_outcome ::
  "risk_manifest \<Rightarrow> risk_asset \<Rightarrow> risk_exception option \<Rightarrow> string \<Rightarrow> int \<Rightarrow> int \<Rightarrow> int \<Rightarrow> int \<Rightarrow> int \<Rightarrow> int \<Rightarrow> int \<Rightarrow>
     exposure_decision" where
  "exposure_outcome m policy x reconciliation decided observed proposed gross net daily outstanding =
     (let covered = exception_applies m x ''per-trade-cap-override'' (ra_token policy) decided proposed;
          blocks = exposure_blocks m policy reconciliation decided observed covered proposed gross net daily outstanding
      in \<lparr>xd_allowed = (blocks = []), xd_blocks = blocks,
        xd_trade = utilization proposed (units_of (ra_maxPerTrade policy)),
        xd_gross = utilization (gross + outstanding + proposed) (units_of (ra_maxGross policy)),
        xd_net = utilization (\<bar>net\<bar> + proposed) (units_of (ra_maxNet policy)),
        xd_daily = utilization (daily + proposed) (units_of (ra_maxDaily policy))\<rparr>)"

definition assessExposure ::
  "ops_env \<Rightarrow> risk_manifest \<Rightarrow> exposure_snapshot \<Rightarrow> jsval \<Rightarrow> jsval \<Rightarrow> risk_exception option \<Rightarrow> exposure_decision result" where
  "assessExposure env m s proposedTrade decisionTime x =
     bind_r (requireVerifiedRiskManifest m) (\<lambda>_.
     bind_r (requireVerifiedRiskException x) (\<lambda>_.
     bind_r (ops_timestamp decisionTime ''Exposure decision time'') (\<lambda>decided.
     if es_makerId s \<noteq> rb_makerId (rm_body m)
     then Inl (Err ''Exposure snapshot maker does not match the risk manifest.'')
     else bind_r (assetPolicy env m (es_token s)) (\<lambda>policy.
     bind_r (ops_units proposedTrade ''Proposed trade'' True) (\<lambda>proposedText.
     bind_r (ops_units (es_gross s) ''Gross exposure'' False) (\<lambda>grossText.
     bind_r (signedUnits (es_net s) ''Net exposure'') (\<lambda>net.
     bind_r (ops_units (es_dailyFilled s) ''Daily filled'' False) (\<lambda>dailyText.
     bind_r (ops_units (es_outstanding s) ''Outstanding escrow'' False) (\<lambda>outstandingText.
     bind_r (ops_timestamp (es_observedAt s) ''Exposure observation time'') (\<lambda>observed.
     Inr (exposure_outcome m policy x (es_reconciliation s) decided observed (units_of proposedText)
       (units_of grossText) net (units_of dailyText) (units_of outstandingText))))))))))))"

section \<open>Netting\<close>

record netting_fill = fill_record +
  nf_fillDigest :: jsval
  nf_finalized :: bool
  nf_consent :: bool
  nf_filledAt :: jsval

text \<open>
  The state of the loop over the fills: exposure by token in insertion order, the digests counted
  (the matched list and the set of seen ones are the same), and the time of the latest fill.
\<close>

record netting_state =
  ns_exposure :: "(string \<times> int) list"
  ns_digests :: "string list"
  ns_latest :: int

definition net_fill :: "ops_env \<Rightarrow> netting_fill \<Rightarrow> netting_state \<Rightarrow> netting_state result" where
  "net_fill env f s =
     (if \<not> nf_finalized f then Inr s
      else if \<not> nf_consent f
      then Inl (Err ''Operational netting requires both users' principal-netting consent.'')
      else bind_r (ops_felt env (JStr (fl_sellToken f)) ''Fill sell token'') (\<lambda>sellToken.
      bind_r (ops_felt env (JStr (fl_buyToken f)) ''Fill buy token'') (\<lambda>buyToken.
      if fl_sellAmount f \<le> 0 \<or> ops_u256_max < fl_sellAmount f \<or> fl_buyAmount f \<le> 0 \<or> ops_u256_max < fl_buyAmount f
      then Inl (Err ''Operational netting fill amounts must be positive u256 values.'')
      else bind_r (ops_digest (nf_fillDigest f) ''Finalized fill digest'') (\<lambda>d.
      if d \<in> set (ns_digests s) then Inl (Err ''Operational netting cannot count a finalized fill twice.'')
      else bind_r (ops_timestamp (nf_filledAt f) ''Fill time'') (\<lambda>t.
      Inr \<lparr>ns_exposure = bump sellToken (- fl_sellAmount f) (bump buyToken (fl_buyAmount f) (ns_exposure s)),
        ns_digests = ns_digests s @ [d], ns_latest = max (ns_latest s) t\<rparr>)))))"

fun net_fills :: "ops_env \<Rightarrow> netting_fill list \<Rightarrow> netting_state \<Rightarrow> netting_state result" where
  "net_fills env [] s = Inr s"
| "net_fills env (f # fs) s = bind_r (net_fill env f s) (net_fills env fs)"

text \<open>An amount is kept as the \<open>bigint\<close> whose decimal text the plan holds.\<close>

record hedge_order =
  ho_token :: string
  ho_amount :: int
  ho_venueId :: string
  ho_earliestAt :: int
  ho_warning :: string

record held_back =
  hb_token :: string
  hb_amount :: int
  hb_reason :: string

datatype residual_outcome = Hedged hedge_order | Deferred held_back | Blocked held_back

definition CORRELATION_WARNING :: string where
  "CORRELATION_WARNING = ''This public restock can correlate with prior APP20 fills. Batching and denomination do not make it private.''"

definition plan_residual ::
  "ops_env \<Rightarrow> risk_manifest \<Rightarrow> risk_exception option \<Rightarrow> int \<Rightarrow> int \<Rightarrow> string \<Rightarrow> int \<Rightarrow> residual_outcome result" where
  "plan_residual env m x now latest token amount =
     bind_r (assetPolicy env m token) (\<lambda>policy.
     if amount < units_of (ra_minBatch policy)
     then Inr (Deferred \<lparr>hb_token = token, hb_amount = amount,
       hb_reason = ''Residual is below the approved public-restock batch floor.''\<rparr>)
     else case find rv_enabled (rb_venues (rm_body m)) of
       None \<Rightarrow> Inr (Blocked \<lparr>hb_token = token, hb_amount = amount,
         hb_reason = ''No approved public restocking venue is enabled.''\<rparr>)
     | Some venue \<Rightarrow>
         let earliest = latest + rb_minDwell (rm_body m);
             early = exception_applies m x ''early-public-hedge'' token now amount;
             denomination = units_of (ra_denomination policy)
         in if now < earliest \<and> \<not> early
            then Inr (Deferred \<lparr>hb_token = token, hb_amount = amount,
              hb_reason = ''The minimum public-hedge dwell has not elapsed.''\<rparr>)
            else Inr (Hedged \<lparr>ho_token = token,
              ho_amount = ((amount + denomination - 1) div denomination) * denomination,
              ho_venueId = rv_venueId venue, ho_earliestAt = (if early then now else earliest),
              ho_warning = CORRELATION_WARNING\<rparr>))"

fun plan_residuals ::
  "ops_env \<Rightarrow> risk_manifest \<Rightarrow> risk_exception option \<Rightarrow> int \<Rightarrow> int \<Rightarrow> (string \<times> int) list \<Rightarrow> residual_outcome list result" where
  "plan_residuals env m x now latest [] = Inr []"
| "plan_residuals env m x now latest ((token, amount) # rs) =
     (if amount \<le> 0 then plan_residuals env m x now latest rs
      else bind_r (plan_residual env m x now latest token amount) (\<lambda>r.
        bind_r (plan_residuals env m x now latest rs) (\<lambda>os. Inr (r # os))))"

record netting_plan =
  np_matched :: "string list"
  np_residual :: "(string \<times> int) list"
  np_orders :: "hedge_order list"
  np_deferred :: "held_back list"
  np_blocked :: "held_back list"

definition planOperationalNetting ::
  "ops_env \<Rightarrow> risk_manifest \<Rightarrow> netting_fill list \<Rightarrow> jsval \<Rightarrow> risk_exception option \<Rightarrow> netting_plan result" where
  "planOperationalNetting env m fills now x =
     bind_r (requireVerifiedRiskManifest m) (\<lambda>_.
     bind_r (requireVerifiedRiskException x) (\<lambda>_.
     bind_r (ops_timestamp now ''Operations planning time'') (\<lambda>t.
     if t < rb_validFrom (rm_body m) \<or> rb_validUntil (rm_body m) < t
     then Inl (Err ''The risk manifest is not valid at the planning time.'')
     else bind_r (net_fills env fills \<lparr>ns_exposure = [], ns_digests = [], ns_latest = 0\<rparr>) (\<lambda>s.
     let residual = sort_by (cmp_on fst (oe_compare env)) (ns_exposure s)
     in bind_r (plan_residuals env m x t (ns_latest s) residual) (\<lambda>outcomes.
     Inr \<lparr>np_matched = sort_by (oe_compare env) (ns_digests s), np_residual = residual,
       np_orders = concat (map (\<lambda>r. case r of Hedged h \<Rightarrow> [h] | _ \<Rightarrow> []) outcomes),
       np_deferred = concat (map (\<lambda>r. case r of Deferred h \<Rightarrow> [h] | _ \<Rightarrow> []) outcomes),
       np_blocked = concat (map (\<lambda>r. case r of Blocked h \<Rightarrow> [h] | _ \<Rightarrow> []) outcomes)\<rparr>)))))"

section \<open>Operations control and the browser summary\<close>

datatype control_mode = Running | Paused | DrainOnly

record operations_control =
  oc_mode :: control_mode
  oc_reason :: string
  oc_updatedAt :: int
  oc_updatedBy :: string
  oc_claimsAndRefundsEnabled :: bool

definition transitionOperationsControl ::
  "ops_env \<Rightarrow> operations_control \<Rightarrow> control_mode \<Rightarrow> jsval \<Rightarrow> jsval \<Rightarrow> jsval \<Rightarrow> operations_control result" where
  "transitionOperationsControl env current mode why updatedAt updatedBy =
     bind_r (ops_timestamp updatedAt ''Operations control time'') (\<lambda>t.
     if t \<le> oc_updatedAt current then Inl (Err ''Operations control updates must be monotonic.'')
     else bind_r (ops_text env why ''Operations control reason'' 500) (\<lambda>r.
     bind_r (ops_text env updatedBy ''Operations control actor'' 128) (\<lambda>actor.
     Inr \<lparr>oc_mode = mode, oc_reason = r, oc_updatedAt = t, oc_updatedBy = actor,
       oc_claimsAndRefundsEnabled = True\<rparr>)))"

record capacity_input =
  ci_token :: string
  ci_available :: int
  ci_exposure :: int
  ci_exposureCap :: int
  ci_small :: int
  ci_medium :: int

datatype capacity_band = NoBand | SmallBand | MediumBand | LargeBand

record capacity_view =
  cv_token :: string
  cv_band :: capacity_band
  cv_utilization :: int

definition capacity_summary :: "ops_env \<Rightarrow> capacity_input \<Rightarrow> capacity_view result" where
  "capacity_summary env c =
     (if ci_available c < 0 \<or> ci_small c \<le> 0 \<or> ci_medium c \<le> ci_small c \<or> ci_exposureCap c \<le> 0
      then Inl (Err ''Capacity bands or exposure cap are invalid.'')
      else let band = (if ci_available c \<le> 0 then NoBand else if ci_available c < ci_small c then SmallBand
             else if ci_available c < ci_medium c then MediumBand else LargeBand)
        in bind_r (ops_felt env (JStr (ci_token c)) ''Capacity token'') (\<lambda>token.
           Inr \<lparr>cv_token = token, cv_band = band, cv_utilization = utilization (ci_exposure c) (ci_exposureCap c)\<rparr>))"

record maker_summary =
  ms_makerId :: string
  ms_mode :: control_mode
  ms_reconciliation :: string
  ms_active :: int
  ms_quarantined :: int
  ms_capacity :: "capacity_view list"
  ms_rawBalancesExposed :: bool

definition browserSafeMakerOperations ::
  "ops_env \<Rightarrow> jsval \<Rightarrow> operations_control \<Rightarrow> string \<Rightarrow> jsval \<Rightarrow> jsval \<Rightarrow> capacity_input list \<Rightarrow> maker_summary result" where
  "browserSafeMakerOperations env maker control reconciliation active quarantined capacities =
     bind_r (ops_text env maker ''Operations maker id'' 128) (\<lambda>makerId.
     bind_r (ops_integer active ''Active reservation count'' 0 max_safe) (\<lambda>a.
     bind_r (ops_integer quarantined ''Quarantined reservation count'' 0 max_safe) (\<lambda>q.
     bind_r (map_r (capacity_summary env) capacities) (\<lambda>views.
     Inr \<lparr>ms_makerId = makerId, ms_mode = oc_mode control, ms_reconciliation = reconciliation, ms_active = a,
       ms_quarantined = q, ms_capacity = views, ms_rawBalancesExposed = False\<rparr>))))"

end
