(* ===== verification/Risk_Properties.thy ===== *)
theory Risk_Properties
  imports Risk_Operations "HOL-Library.Code_Target_Nat"
begin

text \<open>
  What an approved risk manifest guarantees, when a trade is allowed against it, and what a netting
  plan accounts for.
\<close>

section \<open>Well-formed manifests\<close>

definition sound_asset :: "risk_asset \<Rightarrow> bool" where
  "sound_asset a \<longleftrightarrow>
     0 < units_of (ra_denomination a) \<and> units_of (ra_denomination a) \<le> units_of (ra_minBatch a)
     \<and> 0 < units_of (ra_maxPerTrade a)
     \<and> units_of (ra_maxPerTrade a) \<le> units_of (ra_maxGross a) \<and> units_of (ra_maxGross a) \<le> ops_u256_max
     \<and> units_of (ra_maxPerTrade a) \<le> units_of (ra_maxNet a) \<and> units_of (ra_maxNet a) \<le> ops_u256_max
     \<and> units_of (ra_maxPerTrade a) \<le> units_of (ra_maxDaily a) \<and> units_of (ra_maxDaily a) \<le> ops_u256_max"

definition sound_body :: "risk_body \<Rightarrow> bool" where
  "sound_body b \<longleftrightarrow>
     rb_assets b \<noteq> [] \<and> distinct (map ra_token (rb_assets b)) \<and> list_all sound_asset (rb_assets b)
     \<and> distinct (map rv_venueId (rb_venues b))
     \<and> 0 < rb_issuedAt b \<and> rb_issuedAt b \<le> rb_validFrom b \<and> rb_validFrom b < rb_validUntil b
     \<and> MIN_PUBLIC_HEDGE_DWELL_SECONDS \<le> rb_minDwell b \<and> rb_minDwell b \<le> 24 * 60 * 60
     \<and> rb_minDwell b \<le> rb_maxDwell b \<and> rb_maxDwell b \<le> 7 * 24 * 60 * 60"

lemma ops_units_Inr:
  "ops_units v l pos = Inr s \<longleftrightarrow>
     v = JStr s \<and> canonical_dec s \<and> units_of s \<le> ops_u256_max \<and> (pos \<longrightarrow> 0 < units_of s)"
  by (auto simp: ops_units_def split: jsval.splits)

lemma ops_timestamp_Inr: "ops_timestamp v l = Inr t \<longleftrightarrow> v = JNum (jint t) \<and> \<bar>t\<bar> \<le> max_safe \<and> 0 < t"
  by (auto simp: ops_timestamp_def as_safe_int_Some split: jsval.splits option.splits)

lemma ops_integer_Inr:
  "ops_integer v l a b = Inr n \<longleftrightarrow> v = JNum (jint n) \<and> \<bar>n\<bar> \<le> max_safe \<and> a \<le> n \<and> n \<le> b"
  by (auto simp: ops_integer_def as_safe_int_Some split: jsval.splits option.splits)


lemma normalizeAsset_sound: "normalizeAsset env v = Inr a \<Longrightarrow> sound_asset a"
  by (auto simp: normalizeAsset_def sound_asset_def ops_units_Inr not_less)

lemma normalize_assets_sound:
  "normalize_assets env vs = Inr as \<Longrightarrow> list_all sound_asset as \<and> distinct (map ra_token as) \<and> (as = [] \<longleftrightarrow> vs = [])"
  by (auto simp: normalize_assets_def Let_def list_all_iff split: if_splits
      dest: map_r_mem normalizeAsset_sound map_r_length)

lemma normalize_venues_distinct: "normalize_venues env vs = Inr ws \<Longrightarrow> distinct (map rv_venueId ws)"
  by (auto simp: normalize_venues_def Let_def split: if_splits)

lemma normalizeRiskManifestBody_sound: "normalizeRiskManifestBody env v = Inr b \<Longrightarrow> sound_body b"
  by (auto simp: normalizeRiskManifestBody_def normalize_window_def sound_body_def ops_timestamp_Inr ops_integer_Inr
      split: if_splits dest: normalize_assets_sound normalize_venues_distinct)

lemma verifyRiskManifest_Inr:
  assumes "verifyRiskManifest env ver now v = Inr m"
  shows "sound_body (rm_body m)" "rm_verified m"
    "riskManifestBodyDigest env (risk_body_value (rm_body m)) = Inr (rm_bodyDigest m)"
    "\<exists>t. now = JNum (jint t) \<and> rb_validFrom (rm_body m) \<le> t \<and> t \<le> rb_validUntil (rm_body m)"
    "distinct (map ap_keyId (rm_approvals m))" "list_all (ver (rm_bodyDigest m)) (rm_approvals m)"
    "JStr ''risk'' \<in> ap_role ` set (rm_approvals m)" "JStr ''operations'' \<in> ap_role ` set (rm_approvals m)"
  using assms
  by (auto simp: verifyRiskManifest_def ops_timestamp_Inr split: if_splits
      dest: normalizeRiskManifestBody_sound)

lemma distinct_key_neq: "distinct (map f xs) \<Longrightarrow> a \<in> set xs \<Longrightarrow> b \<in> set xs \<Longrightarrow> f a = f b \<Longrightarrow> a = b"
  by (simp add: distinct_map inj_on_def)

section \<open>Netting\<close>

definition amount_at :: "(string \<times> int) list \<Rightarrow> string \<Rightarrow> int" where
  "amount_at m t = (\<Sum>(k, a)\<leftarrow>m. if k = t then a else 0)"

lemma amount_at_bump: "amount_at (bump u d m) t = amount_at m t + (if u = t then d else 0)"
  by (induction u d m rule: bump.induct) (auto simp: amount_at_def)

text \<open>The effect of one fill on a token, and its digest in lower case.\<close>

definition fill_effect :: "netting_fill \<Rightarrow> string \<Rightarrow> int" where
  "fill_effect f t =
     (if canonicalizeStarknetFelt (fl_buyToken f) = Inr t then fl_buyAmount f else 0)
     - (if canonicalizeStarknetFelt (fl_sellToken f) = Inr t then fl_sellAmount f else 0)"

definition digest_of :: "netting_fill \<Rightarrow> string \<Rightarrow> bool" where
  "digest_of f d \<longleftrightarrow> (\<exists>s. nf_fillDigest f = JStr s \<and> d = to_lower s)"

text \<open>A finalized fill may be netted: both users consent and the amounts are positive u256 values.\<close>

definition nettable :: "netting_fill \<Rightarrow> bool" where
  "nettable f \<longleftrightarrow> nf_consent f \<and> 0 < fl_sellAmount f \<and> fl_sellAmount f \<le> ops_u256_max
     \<and> 0 < fl_buyAmount f \<and> fl_buyAmount f \<le> ops_u256_max"

lemma ops_felt_Inr: "ops_felt env (JStr s) l = Inr t \<longleftrightarrow> canonicalizeStarknetFelt s = Inr t \<and> t \<noteq> ''0x0''"
  by (auto simp: ops_felt_def split: sum.splits)

lemma ops_digest_Inr: "ops_digest v l = Inr d \<Longrightarrow> \<exists>s. v = JStr s \<and> d = to_lower s"
  by (auto simp: ops_digest_def Let_def split: jsval.splits if_splits)

text \<open>The tokens of the exposure are canonical and distinct, and the digests are distinct.\<close>

definition netting_ok :: "netting_state \<Rightarrow> bool" where
  "netting_ok s \<longleftrightarrow> distinct (map fst (ns_exposure s)) \<and> distinct (ns_digests s)
     \<and> fst ` set (ns_exposure s) \<subseteq> {t. canonicalizeStarknetFelt t = Inr t}"

lemma net_fill_skips: "\<not> nf_finalized f \<Longrightarrow> net_fill env f s = Inr s"
  by (simp add: net_fill_def)

lemma net_fill_Inr:
  assumes "net_fill env f s = Inr s'" "netting_ok s" "nf_finalized f"
  shows "netting_ok s'" "nettable f"
    "amount_at (ns_exposure s') t = amount_at (ns_exposure s) t + fill_effect f t"
    "\<exists>d. digest_of f d \<and> ns_digests s' = ns_digests s @ [d]"
    "\<exists>u. nf_filledAt f = JNum (jint u) \<and> ns_latest s' = max (ns_latest s) u"
proof -
  obtain sell buy d u where i: "canonicalizeStarknetFelt (fl_sellToken f) = Inr sell" "canonicalizeStarknetFelt (fl_buyToken f) = Inr buy"
      "digest_of f d" "d \<notin> set (ns_digests s)" "nf_filledAt f = JNum (jint u)"
      "s' = \<lparr>ns_exposure = bump sell (- fl_sellAmount f) (bump buy (fl_buyAmount f) (ns_exposure s)),
        ns_digests = ns_digests s @ [d], ns_latest = max (ns_latest s) u\<rparr>"
    and n: "nettable f"
    using assms(1,3)
    by (auto simp: net_fill_def nettable_def digest_of_def ops_timestamp_Inr ops_felt_Inr split: if_splits dest: ops_digest_Inr)
  have k: "canonicalizeStarknetFelt sell = Inr sell" "canonicalizeStarknetFelt buy = Inr buy"
    using canonical_felt_idem i(1,2) by simp_all
  show "netting_ok s'"
    using assms(2) i(4) k by (simp add: i(6) netting_ok_def bump_distinct bump_keys)
  show "nettable f" "amount_at (ns_exposure s') t = amount_at (ns_exposure s) t + fill_effect f t"
    "\<exists>d. digest_of f d \<and> ns_digests s' = ns_digests s @ [d]"
    "\<exists>u. nf_filledAt f = JNum (jint u) \<and> ns_latest s' = max (ns_latest s) u"
    using n i by (auto simp: fill_effect_def amount_at_bump)
qed

lemma net_fills_Inr:
  assumes "net_fills env fs s = Inr s'" "netting_ok s"
  shows "netting_ok s' \<and> list_all nettable (filter nf_finalized fs)
    \<and> amount_at (ns_exposure s') t = amount_at (ns_exposure s) t + (\<Sum>f\<leftarrow>filter nf_finalized fs. fill_effect f t)
    \<and> (\<exists>ds. list_all2 digest_of (filter nf_finalized fs) ds \<and> ns_digests s' = ns_digests s @ ds)
    \<and> ns_latest s \<le> ns_latest s'
    \<and> (\<forall>f\<in>set fs. nf_finalized f \<longrightarrow> (\<exists>u. nf_filledAt f = JNum (jint u) \<and> u \<le> ns_latest s'))
    \<and> (ns_latest s' = ns_latest s \<or> (\<exists>f\<in>set fs. nf_finalized f \<and> nf_filledAt f = JNum (jint (ns_latest s'))))"
  using assms
proof (induction fs arbitrary: s)
  case (Cons f fs)
  then obtain s1 where s1: "net_fill env f s = Inr s1" "net_fills env fs s1 = Inr s'"
    by auto
  show ?case
  proof (cases "nf_finalized f")
    case False
    then show ?thesis
      using Cons.IH[OF s1(2)] Cons.prems(2) s1(1) by (auto simp: net_fill_skips)
  next
    case True
    note n = net_fill_Inr[OF s1(1) Cons.prems(2) True]
    obtain d u where d: "digest_of f d" "ns_digests s1 = ns_digests s @ [d]"
        "nf_filledAt f = JNum (jint u)" "ns_latest s1 = max (ns_latest s) u"
      using n(4,5) by blast
    obtain ds where ds: "list_all2 digest_of (filter nf_finalized fs) ds" "ns_digests s' = ns_digests s1 @ ds"
      using Cons.IH[OF s1(2) n(1)] by blast
    have "list_all2 digest_of (filter nf_finalized (f # fs)) (d # ds)" "ns_digests s' = ns_digests s @ (d # ds)"
      using True d(1,2) ds by simp_all
    then show ?thesis
      using Cons.IH[OF s1(2) n(1)] n(2,3) d(3,4) True by (auto simp: max_def split: if_splits)
  qed
qed (simp add: list_all2_Nil)

lemma amount_at_mset: "mset m = mset m' \<Longrightarrow> amount_at m t = amount_at m' t"
  unfolding amount_at_def sum_mset_sum_list[symmetric] mset_map by simp

section \<open>Orders\<close>

text \<open>The one asset policy of the manifest for a token.\<close>

definition governs :: "risk_manifest \<Rightarrow> string \<Rightarrow> risk_asset \<Rightarrow> bool" where
  "governs m t policy \<longleftrightarrow> policy \<in> set (rb_assets (rm_body m)) \<and> ra_token policy = t
     \<and> (\<forall>other\<in>set (rb_assets (rm_body m)). ra_token other = t \<longrightarrow> other = policy)"

text \<open>
  The dwell after the latest fill is over, or an exception waives it. An order, and an amount that is
  deferred or blocked, for the residual of a token under the policy of that token.
\<close>

definition may_hedge :: "risk_manifest \<Rightarrow> risk_exception option \<Rightarrow> int \<Rightarrow> int \<Rightarrow> string \<Rightarrow> int \<Rightarrow> bool" where
  "may_hedge m x now latest t amount \<longleftrightarrow>
     latest + rb_minDwell (rm_body m) \<le> now \<or> exception_applies m x ''early-public-hedge'' t now amount"

definition order_for :: "risk_manifest \<Rightarrow> risk_exception option \<Rightarrow> int \<Rightarrow> int \<Rightarrow> int \<Rightarrow> hedge_order \<Rightarrow> bool" where
  "order_for m x now latest amount h \<longleftrightarrow> (\<exists>policy. governs m (ho_token h) policy
     \<and> units_of (ra_minBatch policy) \<le> amount
     \<and> amount \<le> ho_amount h \<and> ho_amount h < amount + units_of (ra_denomination policy)
     \<and> units_of (ra_denomination policy) dvd ho_amount h)
     \<and> (\<exists>w\<in>set (rb_venues (rm_body m)). rv_enabled w \<and> ho_venueId h = rv_venueId w)
     \<and> may_hedge m x now latest (ho_token h) amount"

definition deferred_for :: "risk_manifest \<Rightarrow> risk_exception option \<Rightarrow> int \<Rightarrow> int \<Rightarrow> held_back \<Rightarrow> bool" where
  "deferred_for m x now latest h \<longleftrightarrow> (\<exists>policy. governs m (hb_token h) policy
     \<and> (hb_amount h < units_of (ra_minBatch policy) \<or> \<not> may_hedge m x now latest (hb_token h) (hb_amount h)))"

definition blocked_for :: "risk_manifest \<Rightarrow> held_back \<Rightarrow> bool" where
  "blocked_for m h \<longleftrightarrow> (\<exists>policy. governs m (hb_token h) policy \<and> units_of (ra_minBatch policy) \<le> hb_amount h)
     \<and> (\<forall>w\<in>set (rb_venues (rm_body m)). \<not> rv_enabled w)"

fun outcome_for :: "risk_manifest \<Rightarrow> risk_exception option \<Rightarrow> int \<Rightarrow> int \<Rightarrow> string \<times> int \<Rightarrow> residual_outcome \<Rightarrow> bool" where
  "outcome_for m x now latest (t, a) (Hedged h) = (ho_token h = t \<and> order_for m x now latest a h)"
| "outcome_for m x now latest (t, a) (Deferred h) = (hb_token h = t \<and> hb_amount h = a \<and> deferred_for m x now latest h)"
| "outcome_for m x now latest (t, a) (Blocked h) = (hb_token h = t \<and> hb_amount h = a \<and> blocked_for m h)"

lemma round_up:
  assumes "0 < (d::int)"
  shows "x \<le> ((x + d - 1) div d) * d" "((x + d - 1) div d) * d < x + d"
proof -
  define q where "q = (x + d - 1) div d"
  have "d * q + (x + d - 1) mod d = x + d - 1"
    unfolding q_def by simp
  moreover have "0 \<le> (x + d - 1) mod d" "(x + d - 1) mod d < d"
    using assms by simp_all
  ultimately have "x \<le> d * q" "d * q < x + d"
    by linarith+
  then show "x \<le> ((x + d - 1) div d) * d" "((x + d - 1) div d) * d < x + d"
    by (simp_all add: q_def mult.commute)
qed

lemma find_mem: "find P xs = Some x \<Longrightarrow> x \<in> set xs \<and> P x"
  by (auto simp: find_Some_iff)

lemma assetPolicy_governs:
  assumes "assetPolicy env m t = Inr policy" "sound_body (rm_body m)"
  shows "\<exists>token. canonicalizeStarknetFelt t = Inr token \<and> governs m token policy" "sound_asset policy"
proof -
  obtain token where t: "canonicalizeStarknetFelt t = Inr token"
      "find (\<lambda>a. ra_token a = token) (rb_assets (rm_body m)) = Some policy"
    using assms(1) by (auto simp: assetPolicy_def ops_felt_Inr split: option.splits)
  then have p: "policy \<in> set (rb_assets (rm_body m))" "ra_token policy = token"
    using find_mem[OF t(2)] by simp_all
  then show "\<exists>token. canonicalizeStarknetFelt t = Inr token \<and> governs m token policy" "sound_asset policy"
    using t(1) assms(2) by (auto simp: governs_def sound_body_def list_all_iff dest: distinct_key_neq)
qed

lemma find_None: "find P xs = None \<Longrightarrow> x \<in> set xs \<Longrightarrow> \<not> P x"
  by (auto simp: find_None_iff)

lemma plan_residual_Inr:
  assumes "plan_residual env m x now latest t a = Inr r" "sound_body (rm_body m)" "canonicalizeStarknetFelt t = Inr t"
  shows "outcome_for m x now latest (t, a) r"
proof -
  obtain policy where p: "assetPolicy env m t = Inr policy"
    using assms(1) by (auto simp: plan_residual_def)
  have g: "governs m t policy" "sound_asset policy"
    using assetPolicy_governs[OF p assms(2)] assms(3) by auto
  then have d: "0 < units_of (ra_denomination policy)"
    by (simp add: sound_asset_def)
  show ?thesis
    using assms(1) g(1) round_up[OF d, of a]
    by (auto simp: plan_residual_def p order_for_def deferred_for_def blocked_for_def may_hedge_def Let_def
        split: if_splits option.splits intro!: exI[of _ policy] dest!: find_mem dest: find_None)
qed

lemma plan_residuals_Inr:
  assumes "plan_residuals env m x now latest rs = Inr os" "sound_body (rm_body m)"
    "fst ` set rs \<subseteq> {t. canonicalizeStarknetFelt t = Inr t}"
  shows "list_all2 (outcome_for m x now latest) (filter (\<lambda>(t, a). 0 < a) rs) os"
  using assms
  by (induction rs arbitrary: os) (auto simp: plan_residual_Inr not_le split: if_splits)

text \<open>The three lists of a plan split the outcomes.\<close>

definition hedges :: "residual_outcome list \<Rightarrow> hedge_order list" where
  "hedges os = concat (map (\<lambda>r. case r of Hedged h \<Rightarrow> [h] | _ \<Rightarrow> []) os)"

definition deferrals :: "residual_outcome list \<Rightarrow> held_back list" where
  "deferrals os = concat (map (\<lambda>r. case r of Deferred h \<Rightarrow> [h] | _ \<Rightarrow> []) os)"

definition blockings :: "residual_outcome list \<Rightarrow> held_back list" where
  "blockings os = concat (map (\<lambda>r. case r of Blocked h \<Rightarrow> [h] | _ \<Rightarrow> []) os)"

lemma outcomes_partition:
  "list_all2 (outcome_for m x now latest) ps os \<Longrightarrow>
     mset (map fst ps) = mset (map ho_token (hedges os) @ map hb_token (deferrals os) @ map hb_token (blockings os))"
proof (induction rule: list_all2_induct)
  case (Cons p ps r os)
  then show ?case
    by (cases p; cases r) (simp_all add: hedges_def deferrals_def blockings_def)
qed (simp add: hedges_def deferrals_def blockings_def)

lemma outcomes_deferred:
  "list_all2 (outcome_for m x now latest) ps os \<Longrightarrow> h \<in> set (deferrals os) \<Longrightarrow>
     (hb_token h, hb_amount h) \<in> set ps \<and> deferred_for m x now latest h"
proof (induction rule: list_all2_induct)
  case (Cons p ps r os)
  then show ?case
    by (cases p; cases r) (auto simp: deferrals_def)
qed (simp add: deferrals_def)

lemma outcomes_blocked:
  "list_all2 (outcome_for m x now latest) ps os \<Longrightarrow> h \<in> set (blockings os) \<Longrightarrow>
     (hb_token h, hb_amount h) \<in> set ps \<and> blocked_for m h"
proof (induction rule: list_all2_induct)
  case (Cons p ps r os)
  then show ?case
    by (cases p; cases r) (auto simp: blockings_def)
qed (simp add: blockings_def)

lemma outcomes_orders:
  "list_all2 (outcome_for m x now latest) ps os \<Longrightarrow> h \<in> set (hedges os) \<Longrightarrow>
     \<exists>a. (ho_token h, a) \<in> set ps \<and> order_for m x now latest a h"
proof (induction rule: list_all2_induct)
  case (Cons p ps r os)
  then show ?case
    by (cases p; cases r) (auto simp: hedges_def)
qed (simp add: hedges_def)

lemma plan_Inr:
  assumes "planOperationalNetting env m fills now x = Inr p"
  shows "\<exists>t s os. now = JNum (jint t) \<and> rb_validFrom (rm_body m) \<le> t \<and> t \<le> rb_validUntil (rm_body m)
    \<and> net_fills env fills \<lparr>ns_exposure = [], ns_digests = [], ns_latest = 0\<rparr> = Inr s
    \<and> np_residual p = sort_by (cmp_on fst (oe_compare env)) (ns_exposure s)
    \<and> plan_residuals env m x t (ns_latest s) (np_residual p) = Inr os
    \<and> np_matched p = sort_by (oe_compare env) (ns_digests s)
    \<and> np_orders p = hedges os \<and> np_deferred p = deferrals os \<and> np_blocked p = blockings os"
  using assms
  by (auto simp: planOperationalNetting_def Let_def ops_timestamp_Inr hedges_def deferrals_def blockings_def split: if_splits)

section \<open>Exposure\<close>


lemma block_if_Nil [simp]: "block_if c m = [] \<longleftrightarrow> \<not> c"
  by (simp add: block_if_def)






section \<open>A concrete manifest\<close>

text \<open>The two limits as numerals, so that evaluation does not multiply them out.\<close>

lemma u256_max_numeral [code]: "ops_u256_max = 115792089237316195423570985008687907853269984665640564039457584007913129639935"
  by (simp add: ops_u256_max_def)

lemma felt_limit_numeral [code]: "felt_limit = 3618502788666131106986593281521497120414687020801267626233049500247285301248"
  by (simp add: felt_limit_def)

definition sample_env :: ops_env where
  "sample_env = \<lparr>oe_compare = cmp_asc, oe_nfkc = id, oe_string = (\<lambda>_. []), oe_sha256Hex = (\<lambda>_. replicate 64 CHR ''a'')\<rparr>"

definition sample_verifier :: approval_verifier where
  "sample_verifier d a = (ap_signature a = ''0x01'')"

definition sample_approval :: "string \<Rightarrow> string \<Rightarrow> jsval" where
  "sample_approval role key = JObj [(''role'', JStr role), (''approverKeyId'', JStr key), (''signature'', JStr ''0x01'')]"

definition sample_manifest :: jsval where
  "sample_manifest = JObj
     [(''version'', JNum (Fin 1)),
      (''body'', JObj
        [(''domain'', JStr RISK_MANIFEST_DOMAIN), (''version'', JNum (Fin 1)), (''manifestId'', JStr (''0x'' @ replicate 64 CHR ''1'')),
         (''previousManifestDigest'', JNull), (''makerId'', JStr ''m1''), (''chainId'', JStr ''starknet:SN_SEPOLIA''),
         (''registryRevision'', JStr ''r1''), (''issuedAt'', JNum (Fin 1000)), (''validFrom'', JNum (Fin 1000)),
         (''validUntil'', JNum (Fin 90000)), (''minimumHedgeDwellSeconds'', JNum (Fin 1800)),
         (''maximumHedgeDwellSeconds'', JNum (Fin 14400)),
         (''assets'', JArr [JObj [(''token'', JStr ''0x5''), (''denominationBaseUnits'', JStr ''70''),
            (''minBatchBaseUnits'', JStr ''70''), (''maxPerTradeBaseUnits'', JStr ''500''),
            (''maxGrossExposureBaseUnits'', JStr ''1000''), (''maxNetExposureBaseUnits'', JStr ''1000''),
            (''maxDailyFilledBaseUnits'', JStr ''2000'')]]),
         (''venues'', JArr [JObj [(''venueId'', JStr ''v1''), (''route'', JStr ''public''), (''enabled'', JBool True)]])]),
      (''bodyDigest'', JStr (''sha256:'' @ replicate 64 CHR ''a'')),
      (''approvals'', JArr [sample_approval ''risk'' ''k1'', sample_approval ''operations'' ''k2''])]"

lemma sample_manifest_verified: "is_ok (verifyRiskManifest sample_env sample_verifier (JNum (Fin 2000)) sample_manifest)"
  by code_simp

definition sample_risk :: risk_manifest where
  "sample_risk = projr (verifyRiskManifest sample_env sample_verifier (JNum (Fin 2000)) sample_manifest)"

lemma sample_risk: "verifyRiskManifest sample_env sample_verifier (JNum (Fin 2000)) sample_manifest = Inr sample_risk"
  using sample_manifest_verified by (auto simp: is_ok_iff sample_risk_def)



text \<open>A finalized fill that bought 100 of the token, and an exception for early hedging of up to 100.\<close>

definition sample_fill :: "int \<Rightarrow> netting_fill" where
  "sample_fill filled = \<lparr>fl_sellToken = ''0x6'', fl_sellAmount = 30, fl_buyToken = ''0x5'', fl_buyAmount = 100,
     nf_fillDigest = JStr (''sha256:'' @ replicate 64 CHR ''b''), nf_finalized = True, nf_consent = True,
     nf_filledAt = JNum (jint filled)\<rparr>"

definition sample_exception :: jsval where
  "sample_exception = JObj
     [(''version'', JNum (Fin 1)),
      (''body'', JObj
        [(''domain'', JStr RISK_EXCEPTION_DOMAIN), (''version'', JNum (Fin 1)), (''exceptionId'', JStr (''0x'' @ replicate 64 CHR ''2'')),
         (''manifestDigest'', JStr (''sha256:'' @ replicate 64 CHR ''a'')), (''makerId'', JStr ''m1''),
         (''kind'', JStr ''early-public-hedge''), (''token'', JStr ''0x5''), (''maximumAmountBaseUnits'', JStr ''100''),
         (''reason'', JStr ''drain''), (''issuedAt'', JNum (Fin 1500)), (''expiresAt'', JNum (Fin 5000))]),
      (''bodyDigest'', JStr (''sha256:'' @ replicate 64 CHR ''a'')),
      (''approvals'', JArr [sample_approval ''risk'' ''k1'', sample_approval ''risk'' ''k2'', sample_approval ''security_compliance'' ''k3''])]"

lemma sample_exception_verified:
  "is_ok (verifyRiskException sample_env sample_verifier (JNum (Fin 2000)) sample_risk sample_exception)"
  by code_simp

definition sample_waiver :: risk_exception where
  "sample_waiver = projr (verifyRiskException sample_env sample_verifier (JNum (Fin 2000)) sample_risk sample_exception)"

lemma sample_waiver:
  "verifyRiskException sample_env sample_verifier (JNum (Fin 2000)) sample_risk sample_exception = Inr sample_waiver"
  using sample_exception_verified by (auto simp: is_ok_iff sample_waiver_def)

lemma sample_planned:
  "case planOperationalNetting sample_env sample_risk [sample_fill 1900] (JNum (Fin 2000)) (Some sample_waiver) of
     Inr p \<Rightarrow> map ho_amount (np_orders p) = [140] \<and> units_of (xb_maximumAmount (rx_body sample_waiver)) = 100
       \<and> np_residual p = [(''0x5'', 100), (''0x6'', - 30)]
   | Inl _ \<Rightarrow> False"
  by code_simp

section \<open>Properties\<close>

text \<open>
  C38: a manifest that verifies is well formed, was valid at the time of verification, and carries
  approvals of two different approvers, one for Risk and one for Operations, each of which the
  verifier accepted for the digest of the canonical text of exactly this body.
\<close>

theorem verified_manifest_is_approved:
  assumes "verifyRiskManifest env ver now v = Inr m"
  shows "sound_body (rm_body m)
    \<and> (\<exists>t. now = JNum (jint t) \<and> rb_validFrom (rm_body m) \<le> t \<and> t \<le> rb_validUntil (rm_body m))
    \<and> riskManifestBodyDigest env (risk_body_value (rm_body m)) = Inr (rm_bodyDigest m)
    \<and> (\<exists>a b. a \<in> set (rm_approvals m) \<and> b \<in> set (rm_approvals m) \<and> ap_keyId a \<noteq> ap_keyId b
        \<and> ap_role a = JStr ''risk'' \<and> ap_role b = JStr ''operations''
        \<and> ver (rm_bodyDigest m) a \<and> ver (rm_bodyDigest m) b)"
proof -
  note i = verifyRiskManifest_Inr[OF assms]
  obtain a b where ab: "a \<in> set (rm_approvals m)" "b \<in> set (rm_approvals m)" "ap_role a = JStr ''risk''"
      "ap_role b = JStr ''operations''"
    using i(7,8) by force
  then have "ap_keyId a \<noteq> ap_keyId b"
    using distinct_key_neq[OF i(5)] by fastforce
  then show ?thesis
    using i ab by (auto simp: list_all_iff)
qed

theorem verified_manifest_is_approved_witness:
  "\<exists>a b. a \<in> set (rm_approvals sample_risk) \<and> b \<in> set (rm_approvals sample_risk) \<and> ap_keyId a \<noteq> ap_keyId b"
  using verified_manifest_is_approved[OF sample_risk] by blast



text \<open>
  C40: a netting plan accounts for every unit. Every finalized fill has its users' consent and
  positive amounts, and the plan lists exactly the digests of the finalized fills, in lower case,
  none twice. The residual of a token is what these fills bought less what they sold. Every token
  with a positive residual is hedged, deferred or blocked exactly once. Under the one policy the
  manifest has for the token: a hedge is at least the floor and is the residual rounded up to the
  next multiple of the denomination, goes to an enabled venue, and is not made before the dwell after
  the latest fill has elapsed unless an exception for this manifest, maker and token covers it; a
  deferred residual, held back in full, is below the floor or must wait for the dwell; a blocked one,
  held back in full, has no enabled venue.
\<close>

theorem netting_plan_accounts:
  assumes "verifyRiskManifest env ver t0 v = Inr m" "planOperationalNetting env m fills now x = Inr p"
  shows "\<exists>t latest ds. now = JNum (jint t) \<and> list_all nettable (filter nf_finalized fills)
    \<and> (\<forall>f\<in>set fills. nf_finalized f \<longrightarrow> (\<exists>u. nf_filledAt f = JNum (jint u) \<and> u \<le> latest))
    \<and> (latest = 0 \<or> (\<exists>f\<in>set fills. nf_finalized f \<and> nf_filledAt f = JNum (jint latest)))
    \<and> distinct (map fst (np_residual p))
    \<and> (\<forall>token. amount_at (np_residual p) token = (\<Sum>f\<leftarrow>filter nf_finalized fills. fill_effect f token))
    \<and> list_all2 digest_of (filter nf_finalized fills) ds \<and> distinct ds \<and> mset (np_matched p) = mset ds
    \<and> mset (map fst (filter (\<lambda>(k, a). 0 < a) (np_residual p)))
      = mset (map ho_token (np_orders p) @ map hb_token (np_deferred p) @ map hb_token (np_blocked p))
    \<and> (\<forall>h\<in>set (np_orders p). \<exists>a. (ho_token h, a) \<in> set (np_residual p) \<and> order_for m x t latest a h)
    \<and> (\<forall>h\<in>set (np_deferred p). (hb_token h, hb_amount h) \<in> set (np_residual p) \<and> deferred_for m x t latest h)
    \<and> (\<forall>h\<in>set (np_blocked p). (hb_token h, hb_amount h) \<in> set (np_residual p) \<and> blocked_for m h)"
proof -
  obtain t s os where i: "now = JNum (jint t)"
      "net_fills env fills \<lparr>ns_exposure = [], ns_digests = [], ns_latest = 0\<rparr> = Inr s"
      "np_residual p = sort_by (cmp_on fst (oe_compare env)) (ns_exposure s)"
      "plan_residuals env m x t (ns_latest s) (np_residual p) = Inr os"
      "np_matched p = sort_by (oe_compare env) (ns_digests s)"
      "np_orders p = hedges os" "np_deferred p = deferrals os" "np_blocked p = blockings os"
    using plan_Inr[OF assms(2)] by blast
  note f = net_fills_Inr[OF i(2), simplified netting_ok_def, simplified]
  have mset: "mset (np_residual p) = mset (ns_exposure s)" "mset (np_matched p) = mset (ns_digests s)"
    by (simp_all add: i(3,5))
  have o: "list_all2 (outcome_for m x t (ns_latest s)) (filter (\<lambda>(k, a). 0 < a) (np_residual p)) os"
    using plan_residuals_Inr[OF i(4) verifyRiskManifest_Inr(1)[OF assms(1)]] f mset_eq_setD[OF mset(1)] by simp
  have 1: "distinct (map fst (np_residual p))"
    using f mset(1) by (metis mset_map mset_eq_imp_distinct_iff)
  have 2: "\<forall>token. amount_at (np_residual p) token = (\<Sum>f\<leftarrow>filter nf_finalized fills. fill_effect f token)"
    using f amount_at_mset[OF mset(1)] by (simp add: amount_at_def)
  have 3: "\<forall>h\<in>set (np_orders p). \<exists>a. (ho_token h, a) \<in> set (np_residual p) \<and> order_for m x t (ns_latest s) a h"
    using outcomes_orders[OF o] i(6) by fastforce
  have 4: "\<forall>h\<in>set (np_deferred p). (hb_token h, hb_amount h) \<in> set (np_residual p) \<and> deferred_for m x t (ns_latest s) h"
    "\<forall>h\<in>set (np_blocked p). (hb_token h, hb_amount h) \<in> set (np_residual p) \<and> blocked_for m h"
    using outcomes_deferred[OF o] outcomes_blocked[OF o] i(7,8) by auto
  show ?thesis
    using i(1,6-8) f mset(2) outcomes_partition[OF o] 1 2 3 4
    by (intro exI[of _ t] exI[of _ "ns_latest s"] exI[of _ "ns_digests s"]) simp
qed

theorem netting_plan_accounts_witness:
  "\<exists>p. planOperationalNetting sample_env sample_risk [sample_fill 1900] (JNum (Fin 2000)) (Some sample_waiver) = Inr p
     \<and> np_residual p = [(''0x5'', 100), (''0x6'', - 30)] \<and> distinct (map fst (np_residual p))
     \<and> (\<exists>d. digest_of (sample_fill 1900) d \<and> np_matched p = [d])"
proof -
  obtain p where p: "planOperationalNetting sample_env sample_risk [sample_fill 1900] (JNum (Fin 2000)) (Some sample_waiver) = Inr p"
      "np_residual p = [(''0x5'', 100), (''0x6'', - 30)]"
    using sample_planned by (auto split: sum.splits)
  have "\<exists>d. ds = [d] \<and> P x d" if "list_all2 P [x] ds" for P ds and x :: netting_fill
    using that by (auto simp: list_all2_Cons1)
  moreover have "filter nf_finalized [sample_fill 1900] = [sample_fill 1900]"
    by (simp add: sample_fill_def)
  ultimately show ?thesis
    using netting_plan_accounts[OF sample_risk p(1)] p by (fastforce simp: mset_single_iff)
qed

text \<open>
  The amount an exception approves bounds the residual, not the order: with an exception for
  early hedging of at most 100 units, the plan orders 140, the residual rounded up to the
  denomination, before the dwell has elapsed.
\<close>

lemma early_order_exceeds_exception:
  "\<exists>p h e. verifyRiskException sample_env sample_verifier (JNum (Fin 2000)) sample_risk sample_exception = Inr e
     \<and> planOperationalNetting sample_env sample_risk [sample_fill 1900] (JNum (Fin 2000)) (Some e) = Inr p
     \<and> h \<in> set (np_orders p) \<and> units_of (xb_maximumAmount (rx_body e)) < ho_amount h"
proof -
  obtain p where p: "planOperationalNetting sample_env sample_risk [sample_fill 1900] (JNum (Fin 2000)) (Some sample_waiver) = Inr p"
      "map ho_amount (np_orders p) = [140]" "units_of (xb_maximumAmount (rx_body sample_waiver)) = 100"
    using sample_planned by (auto split: sum.splits)
  then obtain h where "np_orders p = [h]" "ho_amount h = 140"
    by auto
  then show ?thesis
    using sample_waiver p by (intro exI[of _ p] exI[of _ h] exI[of _ sample_waiver]) simp
qed

end
