(* ===== verification/Confidential_Protocol.thy ===== *)
theory Confidential_Protocol
  imports Starknet_Amounts
begin

text \<open>
  The joint authorization protocol of a confidential escrow
  (packages/agent-sdk/src/confidential-protocol.ts): the agreement and its commitment, the review of
  a private operation before it is signed, and the approvals that authorize it. What the code takes
  from the starknet library is gathered in \<open>conf_env\<close>: short strings, the Poseidon hash (whose
  result the library writes as a hexadecimal felt), entry-point selectors, the order of the curve and
  its signature verification, which may throw (\<open>None\<close>); and \<open>Number\<close> of a text.
\<close>

record conf_env =
  ce_short :: "string \<Rightarrow> int"
  ce_poseidon :: "int list \<Rightarrow> nat"
  ce_selector :: "string \<Rightarrow> int"
  ce_order :: int
  ce_verify :: "int \<Rightarrow> int \<Rightarrow> string \<Rightarrow> string \<Rightarrow> bool option"
  ce_number :: "string \<Rightarrow> jsnum"

section \<open>Felts\<close>

definition CONFIDENTIAL_RFQ_SCHEMA :: string where
  "CONFIDENTIAL_RFQ_SCHEMA = ''app20/confidential-rfq/v1''"

definition FIELD :: int where
  "FIELD = 2 ^ 251 + 17 * 2 ^ 192 + 1"

definition ADDRESS_LIMIT :: int where
  "ADDRESS_LIMIT = 2 ^ 251 - 256"

definition sameFelt :: "string \<Rightarrow> string \<Rightarrow> bool result" where
  "sameFelt a b = bind_r (js_BigInt a) (\<lambda>x. bind_r (js_BigInt b) (\<lambda>y. Inr (x = y)))"

definition poseidon :: "conf_env \<Rightarrow> int list \<Rightarrow> string" where
  "poseidon env vs = ''0x'' @ hex (ce_poseidon env vs)"

text \<open>\<open>BigInt\<close> of a text that \<open>confidentialFelt\<close> or \<open>conf_amount\<close> returned.\<close>

definition felt_int :: "string \<Rightarrow> int" where
  "felt_int s = int (big_int s)"

definition confidentialFelt :: "string \<Rightarrow> bool \<Rightarrow> string result" where
  "confidentialFelt v nonzero =
     (if \<not> (take 2 v = ''0x'' \<and> 2 < length v \<and> list_all is_hex (drop 2 v) \<or> is_dec_literal v)
      then Inl (Err ''Expected a felt string.'')
      else if felt_int v < (if nonzero then 1 else 0) \<or> FIELD \<le> felt_int v then Inl (Err ''Felt out of range.'')
      else Inr (''0x'' @ hex (big_int v)))"

definition conf_address :: "string \<Rightarrow> string result" where
  "conf_address v =
     bind_r (confidentialFelt v True) (\<lambda>normalized.
     if ADDRESS_LIMIT \<le> felt_int normalized then Inl (Err ''Contract address out of range.'') else Inr normalized)"

definition conf_amount :: "string \<Rightarrow> string result" where
  "conf_amount v =
     (if \<not> is_dec_literal v \<or> felt_int v \<le> 0 \<or> 2 ^ 128 \<le> felt_int v
      then Inl (Err ''Amounts must be positive u128 integer strings.'')
      else Inr (dec (big_int v)))"

section \<open>Agreements\<close>

record conf_terms =
  ct_tokenA :: string
  ct_tokenB :: string
  ct_amountA :: string
  ct_amountB :: string
  ct_partyA :: string
  ct_partyB :: string
  ct_salt :: string

record conf_agreement =
  ca_schema :: string
  ca_chainId :: string
  ca_pool :: string
  ca_poolClassHash :: string
  ca_escrowClassHash :: string
  ca_signerA :: string
  ca_signerB :: string
  ca_deadline :: jsnum
  ca_terms :: conf_terms
  ca_commitment :: string
  ca_address :: string

definition confidentialTermsFelts :: "conf_terms \<Rightarrow> string list" where
  "confidentialTermsFelts t =
     [ct_tokenA t, ct_tokenB t, ct_amountA t, ct_amountB t, ct_partyA t, ct_partyB t, ct_salt t]"

definition conf_terms_of :: "conf_terms \<Rightarrow> conf_terms result" where
  "conf_terms_of t =
     bind_r (conf_address (ct_tokenA t)) (\<lambda>tokenA.
     bind_r (conf_address (ct_tokenB t)) (\<lambda>tokenB.
     bind_r (conf_amount (ct_amountA t)) (\<lambda>amountA.
     bind_r (conf_amount (ct_amountB t)) (\<lambda>amountB.
     bind_r (conf_address (ct_partyA t)) (\<lambda>partyA.
     bind_r (conf_address (ct_partyB t)) (\<lambda>partyB.
     bind_r (confidentialFelt (ct_salt t) True) (\<lambda>salt.
     if tokenA = tokenB \<or> partyA = partyB then Inl (Err ''Distinct assets and recipients required.'')
     else Inr \<lparr>ct_tokenA = tokenA, ct_tokenB = tokenB, ct_amountA = amountA, ct_amountB = amountB,
       ct_partyA = partyA, ct_partyB = partyB, ct_salt = salt\<rparr>)))))))"

definition commitment_felts :: "conf_env \<Rightarrow> string \<Rightarrow> string \<Rightarrow> string \<Rightarrow> string \<Rightarrow> string \<Rightarrow> int \<Rightarrow> conf_terms \<Rightarrow> int list" where
  "commitment_felts env chain pool poolClass signerA signerB deadline t =
     [ce_short env ''APP20_JOINT_TERMS_V1'', felt_int chain, felt_int pool, felt_int poolClass, felt_int signerA,
      felt_int signerB, deadline] @ map felt_int (confidentialTermsFelts t)"

text \<open>The input is an agreement whose schema and commitment are not read; no address is \<open>None\<close>.\<close>

definition createConfidentialAgreement :: "conf_env \<Rightarrow> conf_agreement \<Rightarrow> string option \<Rightarrow> conf_agreement result" where
  "createConfidentialAgreement env v addr =
     bind_r (conf_terms_of (ca_terms v)) (\<lambda>t.
     case as_safe_int (ca_deadline v) of
       None \<Rightarrow> Inl (Err ''Invalid deadline.'')
     | Some deadline \<Rightarrow>
         if deadline \<le> 0 then Inl (Err ''Invalid deadline.'')
         else bind_r (confidentialFelt (ca_chainId v) True) (\<lambda>chain.
         bind_r (conf_address (ca_pool v)) (\<lambda>pool.
         bind_r (confidentialFelt (ca_poolClassHash v) True) (\<lambda>poolClass.
         bind_r (confidentialFelt (ca_escrowClassHash v) True) (\<lambda>escrowClass.
         bind_r (confidentialFelt (ca_signerA v) True) (\<lambda>signerA.
         bind_r (confidentialFelt (ca_signerB v) True) (\<lambda>signerB.
         if signerA = signerB then Inl (Err ''Independent signing keys required.'')
         else bind_r (case addr of None \<Rightarrow> Inr ''0x0'' | Some s \<Rightarrow> if s = [] then Inr ''0x0'' else conf_address s) (\<lambda>address.
         Inr \<lparr>ca_schema = CONFIDENTIAL_RFQ_SCHEMA, ca_chainId = chain, ca_pool = pool, ca_poolClassHash = poolClass,
           ca_escrowClassHash = escrowClass, ca_signerA = signerA, ca_signerB = signerB, ca_deadline = jint deadline,
           ca_terms = t,
           ca_commitment = poseidon env (commitment_felts env chain pool poolClass signerA signerB deadline t),
           ca_address = address\<rparr>))))))))"

definition normalizeConfidentialAgreement :: "conf_env \<Rightarrow> conf_agreement \<Rightarrow> conf_agreement result" where
  "normalizeConfidentialAgreement env v =
     (if ca_schema v \<noteq> CONFIDENTIAL_RFQ_SCHEMA then Inl (Err ''Unsupported confidential RFQ version.'')
      else bind_r (sameFelt (ca_address v) ''0'') (\<lambda>undeployed.
        bind_r (createConfidentialAgreement env v (if undeployed then None else Some (ca_address v))) (\<lambda>r.
        bind_r (sameFelt (ca_commitment r) (ca_commitment v)) (\<lambda>same.
        if \<not> same then Inl (Err ''Terms commitment mismatch.'') else Inr r))))"

text \<open>\<open>String(a.deadline)\<close> is the decimal text of the safe integer that passed.\<close>

definition confidentialConstructor :: "conf_env \<Rightarrow> conf_agreement \<Rightarrow> string list result" where
  "confidentialConstructor env v =
     bind_r (normalizeConfidentialAgreement env v) (\<lambda>a.
     Inr [ca_pool a, ca_poolClassHash a, ca_commitment a, ca_signerA a, ca_signerB a,
       (case as_safe_int (ca_deadline a) of Some d \<Rightarrow> dec_int d | None \<Rightarrow> [])])"

section \<open>Operations\<close>

datatype conf_mode = Setup | Settle | RefundA | RefundB

datatype conf_role = PartyA | PartyB

fun mode_number :: "conf_mode \<Rightarrow> int" where
  "mode_number Setup = 0"
| "mode_number Settle = 1"
| "mode_number RefundA = 2"
| "mode_number RefundB = 3"

fun confidentialRequiredSigners :: "conf_mode \<Rightarrow> conf_role list" where
  "confidentialRequiredSigners RefundA = [PartyA]"
| "confidentialRequiredSigners RefundB = [PartyB]"
| "confidentialRequiredSigners _ = [PartyA, PartyB]"

record conf_invocation =
  iv_sender :: string
  iv_calldata :: "string list"
  iv_signature :: "string list"

record conf_prepared =
  cp_agreement :: conf_agreement
  cp_mode :: conf_mode
  cp_invocation :: conf_invocation
  cp_digest :: string

definition digest_felts :: "conf_env \<Rightarrow> conf_agreement \<Rightarrow> conf_mode \<Rightarrow> string list \<Rightarrow> int list" where
  "digest_felts env a mode inner =
     [ce_short env ''APP20_JOINT_AUTH_V1'', felt_int (ca_chainId a), felt_int (ca_address a), felt_int (ca_pool a),
      felt_int (ca_poolClassHash a), felt_int (ca_commitment a), mode_number mode,
      int (ce_poseidon env (map felt_int inner))]"

definition confidentialDigest :: "conf_env \<Rightarrow> conf_agreement \<Rightarrow> conf_mode \<Rightarrow> string list \<Rightarrow> string" where
  "confidentialDigest env a mode inner = poseidon env (digest_felts env a mode inner)"

definition compile_error :: exn where
  "compile_error = Err ''Expected exactly one bounded compile call.''"

definition confidentialInner :: "conf_env \<Rightarrow> conf_invocation \<Rightarrow> string list result" where
  "confidentialInner env w =
     (let c = iv_calldata w in
      if length c < 7 \<or> 4096 < length c then Inl compile_error
      else bind_r (sameFelt (c ! 0) ''1'') (\<lambda>one.
        if \<not> one \<or> \<not> num_eq (ce_number env (c ! 3)) (jint (int (length c) - 4)) then Inl compile_error
        else map_r (\<lambda>v. confidentialFelt v False) (drop 4 c)))"

section \<open>The review of a private operation\<close>

text \<open>
  The reader \<open>take\<close> consumes one felt of those that are left (the code keeps the array and the index
  of the next one).
\<close>

definition take_felt :: "int list \<Rightarrow> (int \<Rightarrow> int list \<Rightarrow> 'a result) \<Rightarrow> 'a result" where
  "take_felt xs f = (case xs of [] \<Rightarrow> Inl (Err ''Truncated private action.'') | x # ys \<Rightarrow> f x ys)"

fun skip_felts :: "nat \<Rightarrow> int list \<Rightarrow> (int list \<Rightarrow> 'a result) \<Rightarrow> 'a result" where
  "skip_felts 0 xs f = f xs"
| "skip_felts (Suc n) xs f = take_felt xs (\<lambda>_ ys. skip_felts n ys f)"

record review_tally =
  ry_tradedA :: int
  ry_tradedB :: int
  ry_refunded :: int
  ry_callback :: bool
  ry_inputs :: int
  ry_outputs :: int

definition tokenAllowed :: "conf_terms \<Rightarrow> int \<Rightarrow> int \<Rightarrow> bool" where
  "tokenAllowed t m v = (v = felt_int (ct_tokenA t) \<and> m \<noteq> 3 \<or> v = felt_int (ct_tokenB t) \<and> m \<noteq> 2)"

definition recipientAllowed :: "conf_agreement \<Rightarrow> int \<Rightarrow> int \<Rightarrow> bool" where
  "recipientAllowed a m v =
     (v = felt_int (ct_partyA (ca_terms a)) \<and> m \<noteq> 3 \<or> v = felt_int (ct_partyB (ca_terms a)) \<and> m \<noteq> 2
      \<or> m = 0 \<and> v = felt_int (ca_address a))"

definition recipient_error :: exn where
  "recipient_error = Err ''Recipient violates policy.''"

definition asset_error :: exn where
  "asset_error = Err ''Asset violates refund policy.''"

definition note_tally :: "conf_agreement \<Rightarrow> int \<Rightarrow> int \<Rightarrow> int \<Rightarrow> int \<Rightarrow> review_tally \<Rightarrow> review_tally result" where
  "note_tally a m recipient token amount y =
     (let t = ca_terms a; tokenA = felt_int (ct_tokenA t); tokenB = felt_int (ct_tokenB t);
          A = felt_int (ct_partyA t); B = felt_int (ct_partyB t); z = y\<lparr>ry_outputs := ry_outputs y + 1\<rparr>
      in if \<not> tokenAllowed t m token then Inl asset_error
         else if 2 ^ 128 \<le> amount then Inl (Err ''Invalid output amount.'')
         else if m = 1
         then if token = tokenA \<and> recipient = B then Inr (z\<lparr>ry_tradedA := ry_tradedA y + amount\<rparr>)
           else if token = tokenB \<and> recipient = A then Inr (z\<lparr>ry_tradedB := ry_tradedB y + amount\<rparr>)
           else if \<not> (token = tokenA \<and> recipient = A) \<and> \<not> (token = tokenB \<and> recipient = B)
           then Inl (Err ''Surplus recipient changed.'') else Inr z
         else if \<not> recipientAllowed a m recipient then Inl recipient_error
         else Inr (z\<lparr>ry_refunded := ry_refunded y + amount\<rparr>))"

definition callback_error :: exn where
  "callback_error = Err ''Invalid identity-bound callback.''"

text \<open>One turn of the loop; \<open>final\<close> is \<open>i === count - 1\<close>.\<close>

definition review_action ::
  "conf_agreement \<Rightarrow> int \<Rightarrow> int \<Rightarrow> bool \<Rightarrow> review_tally \<Rightarrow> int list \<Rightarrow> (review_tally \<times> int list) result" where
  "review_action a m key final y xs =
     take_felt xs (\<lambda>kind xs.
       if kind = 0 then if m \<noteq> 0 then Inl (Err ''Registration outside setup.'') else skip_felts 1 xs (\<lambda>xs. Inr (y, xs))
       else if kind = 1 then take_felt xs (\<lambda>r xs.
         if \<not> recipientAllowed a m r then Inl recipient_error else skip_felts 3 xs (\<lambda>xs. Inr (y, xs)))
       else if kind = 2 then take_felt xs (\<lambda>r xs.
         if \<not> recipientAllowed a m r then Inl recipient_error
         else skip_felts 3 xs (\<lambda>xs. take_felt xs (\<lambda>token xs.
           if \<not> tokenAllowed (ca_terms a) m token then Inl asset_error else skip_felts 1 xs (\<lambda>xs. Inr (y, xs)))))
       else if kind = 3 then
         if m = 0 then Inl (Err ''Setup cannot move value.'')
         else take_felt xs (\<lambda>recipient xs. skip_felts 1 xs (\<lambda>xs. take_felt xs (\<lambda>token xs. take_felt xs (\<lambda>amount xs.
           skip_felts 2 xs (\<lambda>xs. bind_r (note_tally a m recipient token amount y) (\<lambda>z. Inr (z, xs)))))))
       else if kind = 6 then
         if m = 0 then Inl (Err ''Setup cannot spend notes.'')
         else skip_felts 1 xs (\<lambda>xs. take_felt xs (\<lambda>token xs.
           if \<not> tokenAllowed (ca_terms a) m token then Inl asset_error
           else skip_felts 1 xs (\<lambda>xs. Inr (y\<lparr>ry_inputs := ry_inputs y + 1\<rparr>, xs))))
       else if kind = 9 then
         if \<not> final \<or> ry_callback y then Inl callback_error
         else take_felt xs (\<lambda>v xs. if v \<noteq> felt_int (ca_address a) then Inl callback_error
         else take_felt xs (\<lambda>v xs. if v \<noteq> 2 then Inl callback_error
         else take_felt xs (\<lambda>v xs. if v \<noteq> key then Inl callback_error
         else take_felt xs (\<lambda>v xs. if v \<noteq> m then Inl callback_error
         else take_felt xs (\<lambda>v xs. if v \<noteq> 0 then Inl callback_error
         else Inr (y\<lparr>ry_callback := True\<rparr>, xs))))))
       else Inl (Err ''Only encrypted notes and the escrow computation are allowed.''))"

fun review_actions ::
  "conf_agreement \<Rightarrow> int \<Rightarrow> int \<Rightarrow> nat \<Rightarrow> review_tally \<Rightarrow> int list \<Rightarrow> (review_tally \<times> int list) result" where
  "review_actions a m key 0 y xs = Inr (y, xs)"
| "review_actions a m key (Suc n) y xs =
     bind_r (review_action a m key (n = 0) y xs) (\<lambda>(z, ys). review_actions a m key n z ys)"

record conf_review =
  cw_mode :: conf_mode
  cw_digest :: string
  cw_commitment :: string
  cw_account :: string
  cw_chainId :: string
  cw_pool :: string
  cw_deadline :: jsnum
  cw_terms :: conf_terms
  cw_requiredSigners :: "conf_role list"
  cw_inputs :: int
  cw_outputs :: int

definition no_tally :: review_tally where
  "no_tally = \<lparr>ry_tradedA = 0, ry_tradedB = 0, ry_refunded = 0, ry_callback = False, ry_inputs = 0, ry_outputs = 0\<rparr>"

definition review_felts :: "conf_agreement \<Rightarrow> int \<Rightarrow> int \<Rightarrow> int list \<Rightarrow> review_tally result" where
  "review_felts a m key xs =
     take_felt xs (\<lambda>v xs. if v \<noteq> felt_int (ca_address a) then Inl (Err ''Escrow identity mismatch.'')
     else take_felt xs (\<lambda>v xs. if v \<noteq> key then Inl (Err ''Escrow identity mismatch.'')
     else take_felt xs (\<lambda>count xs. if count < 1 \<or> 64 < count then Inl (Err ''Invalid action count.'')
     else bind_r (review_actions a m key (nat count) no_tally xs) (\<lambda>(y, rest).
       if rest \<noteq> [] \<or> \<not> ry_callback y then Inl (Err ''Trailing data or missing callback.'')
       else if m = 1 \<and> (ry_inputs y = 0 \<or> ry_tradedA y \<noteq> felt_int (ct_amountA (ca_terms a))
         \<or> ry_tradedB y \<noteq> felt_int (ct_amountB (ca_terms a)))
       then Inl (Err ''Swap outputs differ from the agreed amounts.'')
       else if 2 \<le> m \<and> (ry_inputs y = 0 \<or> ry_refunded y = 0) then Inl (Err ''Refund must return an input asset.'')
       else Inr y))))"

definition reviewConfidentialOperation :: "conf_env \<Rightarrow> conf_prepared \<Rightarrow> int \<Rightarrow> conf_review result" where
  "reviewConfidentialOperation env p key =
     bind_r (normalizeConfidentialAgreement env (cp_agreement p)) (\<lambda>a.
     let mode = cp_mode p; m = mode_number mode; c = iv_calldata (cp_invocation p) in
     if ca_address a = ''0x0'' \<or> key \<le> 0 \<or> ce_order env div 2 < key
     then Inl (Err ''Deployed account and canonical escrow viewing material required.'')
     else bind_r (confidentialInner env (cp_invocation p)) (\<lambda>inner.
       bind_r (sameFelt (iv_sender (cp_invocation p)) (ca_pool a)) (\<lambda>sender.
       if \<not> sender then Inl (Err ''Operation must compile on the pinned pool.'')
       else bind_r (sameFelt (c ! 1) (ca_pool a)) (\<lambda>pool.
       if \<not> pool then Inl (Err ''Operation must compile on the pinned pool.'')
       else bind_r (js_BigInt (c ! 2)) (\<lambda>selector.
       if selector \<noteq> ce_selector env ''compile_actions'' then Inl (Err ''Operation must compile on the pinned pool.'')
       else bind_r (review_felts a m key (map felt_int inner)) (\<lambda>y.
       let d = confidentialDigest env a mode inner in
       bind_r (sameFelt d (cp_digest p)) (\<lambda>same.
       if \<not> same then Inl (Err ''Private operation digest mismatch.'')
       else Inr \<lparr>cw_mode = mode, cw_digest = d, cw_commitment = ca_commitment a, cw_account = ca_address a,
         cw_chainId = ca_chainId a, cw_pool = ca_pool a, cw_deadline = ca_deadline a, cw_terms = ca_terms a,
         cw_requiredSigners = confidentialRequiredSigners mode, cw_inputs = ry_inputs y, cw_outputs = ry_outputs y\<rparr>)))))))"

section \<open>Approvals\<close>

record conf_approval =
  cq_role :: conf_role
  cq_digest :: string
  cq_signature :: "string list"

definition role_key :: "conf_agreement \<Rightarrow> conf_role \<Rightarrow> string" where
  "role_key a r = pad_start 64 (drop 2 (case r of PartyA \<Rightarrow> ca_signerA a | PartyB \<Rightarrow> ca_signerB a))"

text \<open>Both parities are tried in order; whatever throws makes the result false.\<close>

definition verifies :: "conf_env \<Rightarrow> int \<Rightarrow> int \<Rightarrow> string \<Rightarrow> string \<Rightarrow> bool" where
  "verifies env r s d key =
     (case ce_verify env r s d (''02'' @ key) of
        None \<Rightarrow> False
      | Some ok \<Rightarrow> ok \<or> ce_verify env r s d (''03'' @ key) = Some True)"

definition verifyConfidentialApproval :: "conf_env \<Rightarrow> conf_agreement \<Rightarrow> string \<Rightarrow> conf_approval \<Rightarrow> bool" where
  "verifyConfidentialApproval env a d q =
     (case sameFelt d (cq_digest q) of
        Inl _ \<Rightarrow> False
      | Inr same \<Rightarrow> same \<and> length (cq_signature q) = 2
          \<and> (case (js_BigInt (cq_signature q ! 0), js_BigInt (cq_signature q ! 1)) of
               (Inr r, Inr s) \<Rightarrow> verifies env r s d (role_key a (cq_role q))
             | _ \<Rightarrow> False))"

text \<open>\<open>sign\<close> is the party's own key provider; it may refuse.\<close>

definition approveConfidentialOperation ::
  "conf_env \<Rightarrow> conf_prepared \<Rightarrow> int \<Rightarrow> conf_role \<Rightarrow> (string \<Rightarrow> conf_review \<Rightarrow> string list result) \<Rightarrow> conf_approval result" where
  "approveConfidentialOperation env p key role sign =
     bind_r (reviewConfidentialOperation env p key) (\<lambda>r.
     if role \<notin> set (cw_requiredSigners r) then Inl (Err ''This role cannot authorize the operation.'')
     else bind_r (sign (cw_digest r) r) (\<lambda>signature.
       let q = \<lparr>cq_role = role, cq_digest = cw_digest r, cq_signature = signature\<rparr> in
       if \<not> verifyConfidentialApproval env (cp_agreement p) (cw_digest r) q
       then Inl (Err ''Signing key does not match the agreed role.'') else Inr q))"

definition signature_for :: "conf_approval list \<Rightarrow> conf_role \<Rightarrow> string list" where
  "signature_for qs r =
     (case find (\<lambda>q. cq_role q = r) qs of Some q \<Rightarrow> cq_signature q | None \<Rightarrow> [''0'', ''0''])"

definition authorizeConfidentialOperation ::
  "conf_env \<Rightarrow> conf_prepared \<Rightarrow> int \<Rightarrow> conf_approval list \<Rightarrow> conf_invocation result" where
  "authorizeConfidentialOperation env p key qs =
     bind_r (reviewConfidentialOperation env p key) (\<lambda>r.
     if \<not> distinct (map cq_role qs) \<or> length qs \<noteq> length (cw_requiredSigners r)
       \<or> \<not> list_all (\<lambda>role. role \<in> cq_role ` set qs) (cw_requiredSigners r)
     then Inl (Err ''Every required party must approve exactly once.'')
     else if \<not> list_all (verifyConfidentialApproval env (cp_agreement p) (cw_digest r)) qs
     then Inl (Err ''Invalid or mismatched approval.'')
     else Inr ((cp_invocation p)\<lparr>iv_signature :=
       dec_int (mode_number (cp_mode p)) # confidentialTermsFelts (ca_terms (cp_agreement p))
       @ signature_for qs PartyA @ signature_for qs PartyB\<rparr>))"

end
