(* ===== verification/Confidential_Client.thy ===== *)
theory Confidential_Client
  imports Confidential_Protocol
begin

text \<open>
  The client of a confidential escrow (packages/agent-sdk/src/confidential.ts). It talks to a chain
  provider, a prover, a submitter and a journal, whose answers are an argument: \<open>conf_oracle\<close> gives
  the answer to the n-th external call, and each call may throw. An operation is a function on the
  world, which holds the number of calls made, the journal as it is stored, and a log of the
  submissions and of the receipts seen. Whatever throws leaves the world as it is at that moment, so
  a crash between two calls is the case that the next call throws. A write of the journal may be
  lost, or happen although it throws.
\<close>

section \<open>The environment\<close>

record server_action =
  sv_kind :: string
  sv_contract :: string
  sv_calldata :: "string list"

text \<open>
  More of the starknet library and of the platform: the hashes of the network configuration, the
  public key of a viewing key, the decoder of the actions of a proof, and \<open>new URL(u).hostname\<close>.
\<close>

record client_env = conf_env +
  cl_pedersen :: "int list \<Rightarrow> int"
  cl_blake :: "int list \<Rightarrow> int"
  cl_starkKey :: "int \<Rightarrow> string"
  cl_decode :: "string list \<Rightarrow> server_action list result"
  cl_hostname :: "string \<Rightarrow> string result"

record deployment_reply =
  dr_chain :: string
  dr_poolClass :: string
  dr_accountClass :: string
  dr_configuration :: "string list"
  dr_isSettled :: "string list"
  dr_blockNumber :: "jsnum option"
  dr_timestamp :: jsnum

record pool_note =
  no_open :: bool
  no_amount :: int

datatype receipt = Succeeded | Reverted | Undecided

record conf_proof =
  pf_data :: "string option"
  pf_output :: "string list"
  pf_facts :: "string list"
  pf_additional :: bool

text \<open>What the client asks the pool's builder for.\<close>

datatype plan_step =
    RegisterEscrow
  | SetupRecipient string
  | SetupToken string "string list"
  | Pay string string string int
  | InvokeEscrow string int int

datatype save_outcome = Stored | NotStored | StoredThenFailed

text \<open>What is submitted: the pool call with its proof, or a transfer from the caller's own wallet.\<close>

datatype submission =
    PoolCall string "string list" conf_proof
  | Transfer string string int

record conf_oracle =
  or_chain :: "nat \<Rightarrow> string result"
  or_deployment :: "nat \<Rightarrow> deployment_reply result"
  or_viewingKey :: "nat \<Rightarrow> int result"
  or_publicKey :: "nat \<Rightarrow> string list result"
  or_notes :: "nat \<Rightarrow> (string \<times> pool_note list) list result"
  or_invocation :: "nat \<Rightarrow> plan_step list \<Rightarrow> conf_invocation result"
  or_provingBlock :: "nat \<Rightarrow> (string \<times> string) option result"
  or_prove :: "nat \<Rightarrow> conf_invocation \<Rightarrow> string option \<Rightarrow> conf_proof result"
  or_validity :: "nat \<Rightarrow> string list result"
  or_submit :: "nat \<Rightarrow> submission \<Rightarrow> string result"
  or_receipt :: "nat \<Rightarrow> string \<Rightarrow> receipt result"
  or_wait :: "nat \<Rightarrow> string \<Rightarrow> unit result"
  or_load :: "nat \<Rightarrow> unit result"
  or_save :: "nat \<Rightarrow> save_outcome"

section \<open>The journal and the world\<close>

record conf_attempt =
  at_id :: string
  at_mode :: string
  at_hash :: "string option"

record conf_journal =
  jo_schema :: string
  jo_scope :: string
  jo_pending :: "conf_attempt option"
  jo_confirmed :: "conf_attempt list"

datatype conf_event =
    Submitted string string submission
  | Answered string
  | Observed string receipt

record conf_world =
  wo_calls :: nat
  wo_journal :: "conf_journal option"
  wo_log :: "conf_event list"

type_synonym 'a action = "conf_oracle \<Rightarrow> conf_world \<Rightarrow> 'a result \<times> conf_world"

definition give :: "'a \<Rightarrow> 'a action" where
  "give x = (\<lambda>orc w. (Inr x, w))"

definition fail :: "string \<Rightarrow> 'a action" where
  "fail message = (\<lambda>orc w. (Inl (Err message), w))"

definition lift_r :: "'a result \<Rightarrow> 'a action" where
  "lift_r x = (\<lambda>orc w. (x, w))"

definition seq :: "'a action \<Rightarrow> ('a \<Rightarrow> 'b action) \<Rightarrow> 'b action" where
  "seq f g = (\<lambda>orc w. case f orc w of (Inl e, w') \<Rightarrow> (Inl e, w') | (Inr x, w') \<Rightarrow> g x orc w')"

definition check :: "bool \<Rightarrow> string \<Rightarrow> unit action" where
  "check b message = (if b then fail message else give ())"

text \<open>\<open>try f catch safeError\<close>: whatever was thrown is replaced.\<close>

definition or_safe :: "'a action \<Rightarrow> string \<Rightarrow> 'a action" where
  "or_safe f message = (\<lambda>orc w. case f orc w of (Inl e, w') \<Rightarrow> (Inl (Err message), w') | r \<Rightarrow> r)"

definition ask :: "(conf_oracle \<Rightarrow> nat \<Rightarrow> 'a result) \<Rightarrow> 'a action" where
  "ask q = (\<lambda>orc w. (q orc (wo_calls w), w\<lparr>wo_calls := wo_calls w + 1\<rparr>))"

definition note_event :: "conf_event \<Rightarrow> unit action" where
  "note_event e = (\<lambda>orc w. (Inr (), w\<lparr>wo_log := e # wo_log w\<rparr>))"

definition save :: "conf_journal \<Rightarrow> unit action" where
  "save j = (\<lambda>orc w.
     let w' = w\<lparr>wo_calls := wo_calls w + 1\<rparr>; lost = Inl (StorageFailure ''Unable to write the confidential recovery journal.'') in
     case or_save orc (wo_calls w) of
       Stored \<Rightarrow> (Inr (), w'\<lparr>wo_journal := Some j\<rparr>)
     | NotStored \<Rightarrow> (lost, w')
     | StoredThenFailed \<Rightarrow> (lost, w'\<lparr>wo_journal := Some j\<rparr>))"

definition load :: "conf_journal option action" where
  "load = seq (ask or_load) (\<lambda>_ orc w. (Inr (wo_journal w), w))"

section \<open>Deployments\<close>

definition CONFIDENTIAL_CLASS_HASH :: string where
  "CONFIDENTIAL_CLASS_HASH = ''0x134accea913ca144f2a37015014235785687fd8eec2c15773d716e505cd669f''"

definition MAINNET_CHAIN :: string where
  "MAINNET_CHAIN = ''0x534e5f4d41494e''"

definition MAINNET_SELL_TOKEN :: string where
  "MAINNET_SELL_TOKEN = ''0x04718f5a0fc34cc1af16a1cdee98ffb20c31f5cd61d6ab07201858f4287c938d''"

definition MAINNET_POOL :: string where
  "MAINNET_POOL = ''0x040337b1af3c663e86e333bab5a4b28da8d4652a15a69beee2b677776ffe812a''"

definition MAINNET_POOL_CLASS :: string where
  "MAINNET_POOL_CLASS = ''0x67dddd89d80fedadc06b6f160798f94800a4a70164e5a24301cd0d6076b554d''"

definition DEV_POOL_CLASS :: string where
  "DEV_POOL_CLASS = ''0x7af31b00093e5ba2d51a0bd68b5cb4ef3b011af349ade4bb6aa3dbb108f153c''"

definition VIRTUAL_PROGRAM_HASH :: string where
  "VIRTUAL_PROGRAM_HASH = ''0x3e98c2d7703b03a7edb73ed7f075f97f1dcbaa8f717cdf6e1a57bf058265473''"

definition REAL_PROOF_VERSION :: string where
  "REAL_PROOF_VERSION = ''PROOF1''"

definition REAL_PROGRAM_HASH :: string where
  "REAL_PROGRAM_HASH = ''0x53f6c9fcfd31d27279ff7d7e422b44623550a732b59fe193354a7316a96daa1''"

text \<open>A chain of \<open>||\<close> over negated comparisons: the first that is false throws, or the first that throws.\<close>

fun all_same :: "bool result list \<Rightarrow> string \<Rightarrow> unit result" where
  "all_same [] message = Inr ()"
| "all_same (x # xs) message = bind_r x (\<lambda>b. if \<not> b then Inl (Err message) else all_same xs message)"

definition felt_is :: "string \<Rightarrow> int \<Rightarrow> bool result" where
  "felt_is s n = bind_r (js_BigInt s) (\<lambda>x. Inr (x = n))"

record deployment =
  dp_block :: jsnum
  dp_timestamp :: jsnum
  dp_settled :: bool

definition deployment_of :: "client_env \<Rightarrow> conf_agreement \<Rightarrow> deployment_reply \<Rightarrow> deployment result" where
  "deployment_of env a r =
     bind_r (all_same [sameFelt (dr_chain r) (ca_chainId a), sameFelt (dr_poolClass r) (ca_poolClassHash a),
       sameFelt (dr_accountClass r) (ca_escrowClassHash a)] ''Chain or contract identity changed.'') (\<lambda>_.
     bind_r (confidentialConstructor (conf_env.truncate env) a) (\<lambda>expected.
     if length (dr_configuration r) \<noteq> length expected then Inl (Err ''Escrow configuration differs from the agreement.'')
     else bind_r (all_same (map2 sameFelt (dr_configuration r) expected) ''Escrow configuration differs from the agreement.'') (\<lambda>_.
     case (dr_isSettled r, dr_blockNumber r) of
       ([s], b) \<Rightarrow> bind_r (js_BigInt s) (\<lambda>n.
         case b of None \<Rightarrow> Inl (Err ''Invalid escrow state.'')
         | Some block \<Rightarrow> if n \<noteq> 0 \<and> n \<noteq> 1 then Inl (Err ''Invalid escrow state.'')
             else Inr \<lparr>dp_block = block, dp_timestamp = dr_timestamp r, dp_settled = (n = 1)\<rparr>)
     | _ \<Rightarrow> Inl (Err ''Invalid escrow state.''))))"

definition inspectConfidentialDeployment :: "client_env \<Rightarrow> conf_agreement \<Rightarrow> deployment action" where
  "inspectConfidentialDeployment env v =
     seq (lift_r (normalizeConfidentialAgreement (conf_env.truncate env) v)) (\<lambda>a.
     if ca_address a = ''0x0'' then fail ''Unreviewed or undeployed confidential escrow.''
     else seq (lift_r (sameFelt (ca_escrowClassHash a) CONFIDENTIAL_CLASS_HASH)) (\<lambda>reviewed.
     if \<not> reviewed then fail ''Unreviewed or undeployed confidential escrow.''
     else seq (ask or_deployment) (\<lambda>r. lift_r (deployment_of env a r))))"

section \<open>The client\<close>

record conf_options =
  op_agreement :: conf_agreement
  op_simulatedProofs :: bool
  op_nodeUrl :: "string option"

record conf_client =
  cc_agreement :: conf_agreement
  cc_proofOnly :: bool
  cc_simulated :: bool
  cc_mainnet :: bool
  cc_key :: int

definition loopback :: "client_env \<Rightarrow> string option \<Rightarrow> unit result" where
  "loopback env url =
     (case url of
        Some u \<Rightarrow> if u = [] then Inl (Err ''Simulated proofs are confined to loopback devnet.'')
          else bind_r (cl_hostname env u) (\<lambda>host.
            if host \<in> {''127.0.0.1'', ''localhost'', ''[::1]''} then Inr ()
            else Inl (Err ''Simulated proofs are confined to loopback devnet.''))
      | None \<Rightarrow> Inl (Err ''Simulated proofs are confined to loopback devnet.''))"

text \<open>\<open>some\<close> over the reviewed pool classes.\<close>

fun any_same :: "bool result list \<Rightarrow> bool result" where
  "any_same [] = Inr False"
| "any_same (x # xs) = bind_r x (\<lambda>b. if b then Inr True else any_same xs)"

definition createClient :: "client_env \<Rightarrow> conf_options \<Rightarrow> bool \<Rightarrow> conf_client action" where
  "createClient env opts proofOnly =
     seq (lift_r (normalizeConfidentialAgreement (conf_env.truncate env) (op_agreement opts))) (\<lambda>a.
     seq (ask or_chain) (\<lambda>chain.
     seq (lift_r (any_same [sameFelt chain MAINNET_CHAIN, sameFelt (ca_chainId a) MAINNET_CHAIN])) (\<lambda>mainnet.
     seq (check (mainnet \<and> op_simulatedProofs opts) ''Mainnet requires real cryptographic proofs.'') (\<lambda>_.
     seq (lift_r (all_same [sameFelt chain (ca_chainId a)] ''Wrong confidential RFQ network.'')) (\<lambda>_.
     seq (lift_r (if mainnet then all_same [sameFelt (ca_pool a) MAINNET_POOL] ''Mainnet requires the canonical privacy pool.''
       else Inr ())) (\<lambda>_.
     seq (lift_r (if op_simulatedProofs opts then loopback env (op_nodeUrl opts) else Inr ())) (\<lambda>_.
     seq (lift_r (any_same (map (\<lambda>v. sameFelt v (ca_poolClassHash a))
       (MAINNET_POOL_CLASS # (if op_simulatedProofs opts then [DEV_POOL_CLASS] else []))))) (\<lambda>known.
     seq (check (\<not> known) ''Unreviewed pool class.'') (\<lambda>_.
     seq (inspectConfidentialDeployment env a) (\<lambda>_.
     seq (ask or_viewingKey) (\<lambda>key.
     seq (check (key \<le> 0 \<or> ce_order env div 2 < key) ''Canonical escrow viewing material required.'') (\<lambda>_.
     give \<lparr>cc_agreement = a, cc_proofOnly = proofOnly, cc_simulated = op_simulatedProofs opts, cc_mainnet = mainnet,
       cc_key = key\<rparr>))))))))))))"

definition createConfidentialClient :: "client_env \<Rightarrow> conf_options \<Rightarrow> conf_client action" where
  "createConfidentialClient env opts = createClient env opts False"

definition createConfidentialProofClient :: "client_env \<Rightarrow> conf_options \<Rightarrow> conf_client action" where
  "createConfidentialProofClient env opts =
     (if op_simulatedProofs opts then fail ''Proof rehearsal requires real cryptographic proofs.''
      else createClient env (opts\<lparr>op_simulatedProofs := False\<rparr>) True)"

section \<open>The journal\<close>

definition JOURNAL_SCHEMA :: string where
  "JOURNAL_SCHEMA = ''app20/confidential-journal/v1''"

definition scopeOf :: "conf_agreement \<Rightarrow> string" where
  "scopeOf a = ca_chainId a @ ''/'' @ ca_address a @ ''/'' @ ca_commitment a"

definition emptyJournal :: "conf_agreement \<Rightarrow> conf_journal" where
  "emptyJournal a = \<lparr>jo_schema = JOURNAL_SCHEMA, jo_scope = scopeOf a, jo_pending = None, jo_confirmed = []\<rparr>"

definition ATTEMPT_MODES :: "string list" where
  "ATTEMPT_MODES = [''setup'', ''settle'', ''refundA'', ''refundB'', ''fundA'', ''fundB'']"

definition check_attempt :: "conf_attempt \<Rightarrow> unit result" where
  "check_attempt t =
     (if at_mode t \<notin> set ATTEMPT_MODES then Inl (Err ''Invalid confidential recovery metadata.'')
      else bind_r (confidentialFelt (at_id t) True) (\<lambda>_.
        case at_hash t of None \<Rightarrow> Inr () | Some h \<Rightarrow> bind_r (confidentialFelt h True) (\<lambda>_. Inr ())))"

definition journal :: "conf_client \<Rightarrow> conf_journal action" where
  "journal c =
     seq load (\<lambda>stored.
     let j = (case stored of Some j \<Rightarrow> j | None \<Rightarrow> emptyJournal (cc_agreement c)) in
     if jo_schema j \<noteq> JOURNAL_SCHEMA \<or> jo_scope j \<noteq> scopeOf (cc_agreement c)
     then fail ''Journal belongs to another confidential session.''
     else seq (lift_r (map_r check_attempt (jo_confirmed j @ (case jo_pending j of Some t \<Rightarrow> [t] | None \<Rightarrow> [])))) (\<lambda>_. give j))"

section \<open>Snapshots\<close>

datatype conf_status = InSetup | Funding | Ready | Settled | Refundable | Closed

record conf_snapshot =
  sn_block :: jsnum
  sn_timestamp :: jsnum
  sn_settled :: bool
  sn_registered :: bool
  sn_balanceA :: int
  sn_balanceB :: int
  sn_status :: conf_status
  sn_pending :: "conf_attempt option"

fun note_sum :: "pool_note list \<Rightarrow> int result" where
  "note_sum [] = Inr 0"
| "note_sum (n # ns) =
     (if no_open n then Inl (Err ''Unexpected OPEN note in confidential escrow.'')
      else bind_r (note_sum ns) (\<lambda>s. Inr (no_amount n + s)))"

fun notes_for :: "string \<Rightarrow> (string \<times> pool_note list) list \<Rightarrow> pool_note list result" where
  "notes_for token [] = Inr []"
| "notes_for token ((key, ns) # rest) =
     bind_r (sameFelt key token) (\<lambda>same. bind_r (notes_for token rest) (\<lambda>more. Inr (if same then ns @ more else more)))"

definition balance :: "string \<Rightarrow> (string \<times> pool_note list) list \<Rightarrow> int result" where
  "balance token notes = bind_r (notes_for token notes) note_sum"

definition status_of :: "conf_agreement \<Rightarrow> deployment \<Rightarrow> bool \<Rightarrow> int \<Rightarrow> int \<Rightarrow> conf_status" where
  "status_of a d registered balanceA balanceB =
     (let expired = num_le (ca_deadline a) (dp_timestamp d) in
      if expired \<and> (balanceA \<noteq> 0 \<or> balanceB \<noteq> 0) then Refundable
      else if dp_settled d then Settled
      else if expired then Closed
      else if \<not> registered then InSetup
      else if felt_int (ct_amountA (ca_terms a)) \<le> balanceA \<and> felt_int (ct_amountB (ca_terms a)) \<le> balanceB then Ready
      else Funding)"

definition snapshot :: "client_env \<Rightarrow> conf_client \<Rightarrow> conf_snapshot action" where
  "snapshot env c =
     (let a = cc_agreement c in
      seq (inspectConfidentialDeployment env a) (\<lambda>d.
      seq (ask or_publicKey) (\<lambda>pub.
      if length pub \<noteq> 1 then fail ''Invalid pool registration response.''
      else seq (lift_r (js_BigInt (hd pub))) (\<lambda>p.
      seq (lift_r (if p \<noteq> 0 then all_same [sameFelt (hd pub) (cl_starkKey env (cc_key c))]
        ''Escrow viewing material does not match its registered key.'' else Inr ())) (\<lambda>_.
      seq (if p \<noteq> 0 then ask or_notes else give []) (\<lambda>notes.
      seq (lift_r (balance (ct_tokenA (ca_terms a)) notes)) (\<lambda>balanceA.
      seq (lift_r (balance (ct_tokenB (ca_terms a)) notes)) (\<lambda>balanceB.
      seq (journal c) (\<lambda>j.
      give \<lparr>sn_block = dp_block d, sn_timestamp = dp_timestamp d, sn_settled = dp_settled d, sn_registered = (p \<noteq> 0),
        sn_balanceA = balanceA, sn_balanceB = balanceB, sn_status = status_of a d (p \<noteq> 0) balanceA balanceB,
        sn_pending = jo_pending j\<rparr>)))))))))"

definition checkTime :: "conf_agreement \<Rightarrow> conf_mode \<Rightarrow> bool \<Rightarrow> jsnum \<Rightarrow> unit result" where
  "checkTime a mode settled timestamp =
     (if (mode = Setup \<or> mode = Settle) \<and> (settled \<or> num_le (ca_deadline a) timestamp)
      then Inl (Err ''Escrow is settled or expired.'')
      else if (mode = RefundA \<or> mode = RefundB) \<and> num_lt timestamp (ca_deadline a)
      then Inl (Err ''Refund is available after the agreed deadline.'')
      else Inr ())"

section \<open>Preparing an operation\<close>

definition plan_for :: "conf_agreement \<Rightarrow> conf_mode \<Rightarrow> int \<Rightarrow> conf_snapshot \<Rightarrow> plan_step list result" where
  "plan_for a mode key s =
     (let t = ca_terms a; callback = InvokeEscrow (ca_address a) key (mode_number mode) in
      case mode of
        Setup \<Rightarrow> Inr [RegisterEscrow, SetupRecipient (ct_partyA t), SetupRecipient (ct_partyB t),
          SetupToken (ct_tokenA t) [ct_partyA t, ct_partyB t], SetupToken (ct_tokenB t) [ct_partyA t, ct_partyB t], callback]
      | Settle \<Rightarrow> Inr [Pay (ct_tokenA t) (ct_partyA t) (ct_partyB t) (felt_int (ct_amountA t)),
          Pay (ct_tokenB t) (ct_partyB t) (ct_partyA t) (felt_int (ct_amountB t)), callback]
      | RefundA \<Rightarrow> if sn_balanceA s \<le> 0 then Inl (Err ''No refundable balance for this party.'')
          else Inr [Pay (ct_tokenA t) (ct_partyA t) (ct_partyA t) (sn_balanceA s), callback]
      | RefundB \<Rightarrow> if sn_balanceB s \<le> 0 then Inl (Err ''No refundable balance for this party.'')
          else Inr [Pay (ct_tokenB t) (ct_partyB t) (ct_partyB t) (sn_balanceB s), callback])"

definition prepare :: "client_env \<Rightarrow> conf_client \<Rightarrow> conf_mode \<Rightarrow> conf_prepared action" where
  "prepare env c mode =
     (let a = cc_agreement c in
      seq (snapshot env c) (\<lambda>s.
      seq (check (sn_pending s \<noteq> None) ''Reconcile the pending submission first.'') (\<lambda>_.
      seq (lift_r (checkTime a mode (sn_settled s) (sn_timestamp s))) (\<lambda>_.
      seq (check (mode \<noteq> Setup \<and> \<not> sn_registered s) ''Both parties must register the escrow before funding.'') (\<lambda>_.
      seq (check (mode = Setup \<and> sn_registered s) ''Escrow is already registered.'') (\<lambda>_.
      seq (check (mode = Settle \<and> sn_status s \<noteq> Ready) ''Both agreed assets must be funded before settlement.'') (\<lambda>_.
      seq (lift_r (plan_for a mode (cc_key c) s)) (\<lambda>plan.
      seq (or_safe (ask (\<lambda>orc n. or_invocation orc n plan))
        ''Unable to prepare the private operation. Check escrow discovery and funding; private inputs have not been logged.'') (\<lambda>invocation.
      seq (lift_r (confidentialInner (conf_env.truncate env) invocation)) (\<lambda>inner.
      let p = \<lparr>cp_agreement = a, cp_mode = mode, cp_invocation = invocation,
        cp_digest = confidentialDigest (conf_env.truncate env) a mode inner\<rparr> in
      seq (lift_r (reviewConfidentialOperation (conf_env.truncate env) p (cc_key c))) (\<lambda>_. give p)))))))))))"

section \<open>Proofs\<close>

definition allowed_kinds :: "conf_mode \<Rightarrow> string list" where
  "allowed_kinds mode =
     (if mode = Setup then [''WriteOnce'', ''Append'', ''EmitViewingKeySet'', ''InvokeWithComputation'']
      else [''WriteOnce'', ''EmitEncNoteCreated'', ''EmitNoteUsed'', ''InvokeWithComputation''])"

text \<open>The loop over the actions, with the number of callbacks seen.\<close>

fun check_actions :: "client_env \<Rightarrow> conf_agreement \<Rightarrow> conf_mode \<Rightarrow> nat \<Rightarrow> server_action list \<Rightarrow> nat result" where
  "check_actions env a mode callbacks [] = Inr callbacks"
| "check_actions env a mode callbacks (x # xs) =
     (if sv_kind x \<notin> set (allowed_kinds mode) then Inl (Err ''Proof contains a public or unsupported value operation.'')
      else if sv_kind x = ''InvokeWithComputation''
      then if xs \<noteq> [] then Inl (Err ''Proof callback differs from the approved escrow operation.'')
        else bind_r (all_same [sameFelt (sv_contract x) (ca_address a), Inr (length (sv_calldata x) = 2)]
            ''Proof callback differs from the approved escrow operation.'') (\<lambda>_.
          bind_r (all_same [felt_is (sv_calldata x ! 0) (ce_short env ''APP20_JOINT_COMPUTE_V1''),
              felt_is (sv_calldata x ! 1) (mode_number mode)]
            ''Proof callback differs from the approved escrow operation.'') (\<lambda>_.
          check_actions env a mode (callbacks + 1) xs))
      else check_actions env a mode callbacks xs)"

definition config_hash :: "client_env \<Rightarrow> bool \<Rightarrow> conf_agreement \<Rightarrow> int result" where
  "config_hash env simulated a =
     bind_r (js_BigInt MAINNET_SELL_TOKEN) (\<lambda>token.
     Inr (if simulated then cl_pedersen env [ce_short env ''StarknetOsConfig3'', felt_int (ca_chainId a), token]
       else cl_blake env [ce_short env ''StarknetOsConfig4'', felt_int (ca_chainId a), token]))"

definition UNBOUND :: string where
  "UNBOUND = ''Proof facts do not bind this pool action bundle.''"

definition verifyProof :: "client_env \<Rightarrow> conf_client \<Rightarrow> conf_proof \<Rightarrow> conf_mode \<Rightarrow> submission result" where
  "verifyProof env c proof mode =
     (let a = cc_agreement c; output = pf_output proof; facts = pf_facts proof in
      if length output < 2 then Inl (Err ''Unexpected proof output or screening payload.'')
      else bind_r (all_same [sameFelt (output ! 0) (ca_poolClassHash a), Inr (\<not> pf_additional proof)]
        ''Unexpected proof output or screening payload.'') (\<lambda>_.
      if \<not> cc_simulated c \<and> (case pf_data proof of None \<Rightarrow> True | Some bytes \<Rightarrow> bytes = [])
      then Inl (Err ''Cryptographic proof bytes are required.'')
      else if length facts \<noteq> 9 then Inl (Err UNBOUND)
      else bind_r (all_same
        [felt_is (facts ! 0) (ce_short env (if cc_simulated c then ''PROOF0'' else REAL_PROOF_VERSION)),
         felt_is (facts ! 1) (ce_short env ''VIRTUAL_SNOS''), felt_is (facts ! 3) (ce_short env ''VIRTUAL_SNOS0''),
         felt_is (facts ! 7) 1,
         bind_r (map_r js_BigInt output) (\<lambda>vs. felt_is (facts ! 8)
           (int (ce_poseidon env ([felt_int (ca_pool a), 0, int (length output)] @ vs))))] UNBOUND) (\<lambda>_.
      bind_r (all_same [sameFelt (facts ! 2) (if cc_simulated c then VIRTUAL_PROGRAM_HASH else REAL_PROGRAM_HASH)]
        ''Unsupported virtual proof program.'') (\<lambda>_.
      bind_r (config_hash env (cc_simulated c) a) (\<lambda>config.
      bind_r (all_same [felt_is (facts ! 6) config] ''Proof is for another network.'') (\<lambda>_.
      bind_r (cl_decode env (tl output)) (\<lambda>actions.
      bind_r (check_actions env a mode 0 actions) (\<lambda>callbacks.
      if callbacks \<noteq> 1 \<or> ''WriteOnce'' \<notin> sv_kind ` set actions
      then Inl (Err ''Missing callback or replay protection.'')
      else Inr (PoolCall (ca_pool a) (tl output @ [''1'']) proof)))))))))"

section \<open>Submitting\<close>

text \<open>The rest of \<open>reconcileUnlocked\<close> for a pending attempt whose hash is known.\<close>

definition resolve_attempt :: "client_env \<Rightarrow> conf_client \<Rightarrow> conf_journal \<Rightarrow> conf_attempt \<Rightarrow> string \<Rightarrow> unit action" where
  "resolve_attempt env c j t h =
     seq (ask (\<lambda>orc n. or_receipt orc n h)) (\<lambda>r.
     seq (note_event (Observed h r)) (\<lambda>_.
     seq (check (r = Undecided) ''Submission is still pending.'') (\<lambda>_.
     seq (if r = Succeeded \<and> at_mode t = ''settle''
       then seq (inspectConfidentialDeployment env (cc_agreement c)) (\<lambda>d.
         check (\<not> dp_settled d) ''Successful receipt did not settle this escrow.'') else give ()) (\<lambda>_.
     save (j\<lparr>jo_pending := None, jo_confirmed := (if r = Succeeded then jo_confirmed j @ [t] else jo_confirmed j)\<rparr>)))))"

definition reconcileUnlocked :: "client_env \<Rightarrow> conf_client \<Rightarrow> unit action" where
  "reconcileUnlocked env c =
     seq (journal c) (\<lambda>j.
     case jo_pending j of
       None \<Rightarrow> give ()
     | Some t \<Rightarrow>
         (case at_hash t of
            None \<Rightarrow> fail ''Unknown submission outcome. Inspect the relayer account before repairing the journal; do not retry blindly.''
          | Some h \<Rightarrow> resolve_attempt env c j t h))"

definition await_outcome :: "client_env \<Rightarrow> conf_client \<Rightarrow> string \<Rightarrow> string \<Rightarrow> string action" where
  "await_outcome env c tx h =
     seq (ask (\<lambda>orc n. or_wait orc n h)) (\<lambda>_.
     seq (reconcileUnlocked env c) (\<lambda>_.
     seq (ask (\<lambda>orc n. or_receipt orc n tx)) (\<lambda>r.
     seq (note_event (Observed tx r)) (\<lambda>_.
     seq (check (r = Reverted) ''Confidential operation reverted; inspect current balances before retrying.'') (\<lambda>_.
     give tx)))))"

definition send_attempt :: "client_env \<Rightarrow> conf_client \<Rightarrow> conf_journal \<Rightarrow> conf_attempt \<Rightarrow> submission \<Rightarrow> string action" where
  "send_attempt env c j pending payload =
     seq (note_event (Submitted (at_id pending) (at_mode pending) payload)) (\<lambda>_.
     seq (or_safe (ask (\<lambda>orc n. or_submit orc n payload))
       ''Submission outcome is uncertain. Reconcile before taking another action.'') (\<lambda>tx.
     seq (lift_r (confidentialFelt tx True)) (\<lambda>h.
     seq (note_event (Answered h)) (\<lambda>_.
     seq (save (j\<lparr>jo_pending := Some (pending\<lparr>at_hash := Some h\<rparr>)\<rparr>)) (\<lambda>_.
     await_outcome env c tx h)))))"

text \<open>The attempt is journaled before it is sent, and its hash as soon as it is known.\<close>

definition broadcast :: "client_env \<Rightarrow> conf_client \<Rightarrow> string \<Rightarrow> string \<Rightarrow> submission \<Rightarrow> string action" where
  "broadcast env c mode ident payload =
     seq (check (cc_proofOnly c) ''Proof rehearsal cannot submit transactions.'') (\<lambda>_.
     seq (reconcileUnlocked env c) (\<lambda>_.
     seq (journal c) (\<lambda>j.
     let pending = \<lparr>at_id = ident, at_mode = mode, at_hash = None\<rparr> in
     seq (save (j\<lparr>jo_pending := Some pending\<rparr>)) (\<lambda>_.
     send_attempt env c j pending payload))))"

definition sameAgreement :: "client_env \<Rightarrow> conf_client \<Rightarrow> conf_prepared \<Rightarrow> unit result" where
  "sameAgreement env c p =
     bind_r (normalizeConfidentialAgreement (conf_env.truncate env) (cp_agreement p)) (\<lambda>b.
     if b \<noteq> cc_agreement c then Inl (Err ''Operation belongs to another escrow configuration.'') else Inr ())"

definition funding :: "client_env \<Rightarrow> conf_client \<Rightarrow> conf_role \<Rightarrow> submission action" where
  "funding env c role =
     (let a = cc_agreement c; t = ca_terms a in
      seq (snapshot env c) (\<lambda>s.
      seq (lift_r (checkTime a Settle (sn_settled s) (sn_timestamp s))) (\<lambda>_.
      seq (check (\<not> sn_registered s \<or> sn_pending s \<noteq> None) ''Registered escrow with no pending submission required.'') (\<lambda>_.
      let amount = (case role of PartyA \<Rightarrow> felt_int (ct_amountA t) - sn_balanceA s | PartyB \<Rightarrow> felt_int (ct_amountB t) - sn_balanceB s) in
      seq (check (amount \<le> 0) ''This side is already funded.'') (\<lambda>_.
      give (Transfer (case role of PartyA \<Rightarrow> ct_tokenA t | PartyB \<Rightarrow> ct_tokenB t) (ca_address a) amount))))))"

text \<open>On mainnet the proof is pinned to an accepted block, and must still be valid when it arrives.\<close>

definition check_validity :: "client_env \<Rightarrow> conf_proof \<Rightarrow> (string \<times> string) option \<Rightarrow> deployment \<Rightarrow> unit action" where
  "check_validity env proof block current =
     (case block of
        None \<Rightarrow> give ()
      | Some (number, blockHash) \<Rightarrow>
          seq (lift_r (all_same [sameFelt (pf_facts proof ! 4) number, sameFelt (pf_facts proof ! 5) blockHash]
            ''Proof refers to another proving block.'')) (\<lambda>_.
          seq (ask or_validity) (\<lambda>validity.
          if length validity \<noteq> 1 then fail ''Proof expired before rehearsal completed.''
          else seq (lift_r (js_BigInt (hd validity))) (\<lambda>blocks.
          seq (lift_r (js_BigInt number)) (\<lambda>n.
          case as_integer (dp_block current) of
            None \<Rightarrow> fail ''RangeError''
          | Some b \<Rightarrow> check (blocks \<le> 0 \<or> n + blocks < b) ''Proof expired before rehearsal completed.'')))))"

definition proveUnlocked :: "client_env \<Rightarrow> conf_client \<Rightarrow> conf_prepared \<Rightarrow> conf_approval list \<Rightarrow> submission action" where
  "proveUnlocked env c p qs =
     (let a = cc_agreement c in
      seq (lift_r (sameAgreement env c p)) (\<lambda>_.
      seq (reconcileUnlocked env c) (\<lambda>_.
      seq (inspectConfidentialDeployment env a) (\<lambda>d.
      seq (lift_r (checkTime a (cp_mode p) (dp_settled d) (dp_timestamp d))) (\<lambda>_.
      seq (lift_r (authorizeConfidentialOperation (conf_env.truncate env) p (cc_key c) qs)) (\<lambda>invocation.
      seq (if cc_mainnet c then seq (ask or_provingBlock) (\<lambda>b.
          case b of None \<Rightarrow> fail ''An accepted mainnet proving block is required.''
          | Some (number, blockHash) \<Rightarrow> if blockHash = [] then fail ''An accepted mainnet proving block is required.''
              else give (Some (number, blockHash)))
        else give None) (\<lambda>block.
      seq (or_safe (ask (\<lambda>orc n. or_prove orc n invocation (map_option snd block)))
        ''Proof generation failed. The private invocation has not been logged or submitted.'') (\<lambda>proof.
      seq (lift_r (verifyProof env c proof (cp_mode p))) (\<lambda>sub.
      seq (inspectConfidentialDeployment env a) (\<lambda>current.
      seq (check_validity env proof block current) (\<lambda>_.
      seq (lift_r (checkTime a (cp_mode p) (dp_settled current) (dp_timestamp current))) (\<lambda>_.
      give sub))))))))))))"

section \<open>The operations of a client\<close>

fun mode_text :: "conf_mode \<Rightarrow> string" where
  "mode_text Setup = ''setup''"
| "mode_text Settle = ''settle''"
| "mode_text RefundA = ''refundA''"
| "mode_text RefundB = ''refundB''"

definition approve ::
  "client_env \<Rightarrow> conf_client \<Rightarrow> conf_prepared \<Rightarrow> conf_role \<Rightarrow> (string \<Rightarrow> conf_review \<Rightarrow> string list result) \<Rightarrow> conf_approval action" where
  "approve env c p role sign =
     seq (lift_r (sameAgreement env c p)) (\<lambda>_.
     seq (inspectConfidentialDeployment env (cc_agreement c)) (\<lambda>d.
     seq (lift_r (checkTime (cc_agreement c) (cp_mode p) (dp_settled d) (dp_timestamp d))) (\<lambda>_.
     lift_r (approveConfidentialOperation (conf_env.truncate env) p (cc_key c) role sign))))"

definition execute :: "client_env \<Rightarrow> conf_client \<Rightarrow> conf_prepared \<Rightarrow> conf_approval list \<Rightarrow> string action" where
  "execute env c p qs =
     seq (check (cc_proofOnly c) ''Proof rehearsal cannot submit transactions.'') (\<lambda>_.
     seq (proveUnlocked env c p qs) (\<lambda>sub.
     broadcast env c (mode_text (cp_mode p)) (cp_digest p) sub))"

definition fund_id :: "client_env \<Rightarrow> conf_agreement \<Rightarrow> conf_role \<Rightarrow> string" where
  "fund_id env a role =
     poseidon (conf_env.truncate env) [felt_int (ca_commitment a), (case role of PartyA \<Rightarrow> 0 | PartyB \<Rightarrow> 1)]"

definition fund :: "client_env \<Rightarrow> conf_client \<Rightarrow> conf_role \<Rightarrow> string action" where
  "fund env c role =
     seq (check (cc_proofOnly c) ''Proof rehearsal cannot fund an escrow.'') (\<lambda>_.
     seq (reconcileUnlocked env c) (\<lambda>_.
     seq (funding env c role) (\<lambda>payment.
     broadcast env c (case role of PartyA \<Rightarrow> ''fundA'' | PartyB \<Rightarrow> ''fundB'') (fund_id env (cc_agreement c) role) payment)))"

text \<open>
  The operations a client offers, each under the journal's lock except the ones that only read; a run
  is a sequence of them, each of which may fail.
\<close>

datatype conf_operation =
    Inspect
  | Prepare conf_mode
  | Approve conf_prepared conf_role "string \<Rightarrow> conf_review \<Rightarrow> string list result"
  | Prove conf_prepared "conf_approval list"
  | Execute conf_prepared "conf_approval list"
  | Fund conf_role
  | Reconcile

definition ignoring :: "'a action \<Rightarrow> unit action" where
  "ignoring f = seq f (\<lambda>_. give ())"

fun perform :: "client_env \<Rightarrow> conf_client \<Rightarrow> conf_operation \<Rightarrow> unit action" where
  "perform env c Inspect = ignoring (snapshot env c)"
| "perform env c (Prepare mode) = ignoring (prepare env c mode)"
| "perform env c (Approve p role sign) = ignoring (approve env c p role sign)"
| "perform env c (Prove p qs) = ignoring (proveUnlocked env c p qs)"
| "perform env c (Execute p qs) = ignoring (execute env c p qs)"
| "perform env c (Fund role) = ignoring (fund env c role)"
| "perform env c Reconcile = reconcileUnlocked env c"

text \<open>Clients may be recreated, and several may share a journal: a run says whose operation is next.\<close>

fun run :: "client_env \<Rightarrow> conf_oracle \<Rightarrow> (conf_client \<times> conf_operation) list \<Rightarrow> conf_world \<Rightarrow> conf_world" where
  "run env orc [] w = w"
| "run env orc ((c, x) # xs) w = run env orc xs (snd (perform env c x orc w))"

end
