(* ===== verification/Confidential_Review.thy ===== *)
theory Confidential_Review
  imports Confidential_Protocol "HOL-Library.Code_Target_Nat" "HOL-Library.Countable"
begin

text \<open>
  What the review of a confidential operation guarantees: it accepts exactly the encodings of the
  action lists the agreement permits, an authorized operation moves value only as agreed, and an
  approval fits one operation only.
\<close>

section \<open>Normalized felts\<close>

lemma felt_int_hex [simp]: "felt_int (''0x'' @ hex n) = int n"
  using hex_literal_canonical[of n] by (simp add: felt_int_def big_int_def)

lemma felt_int_hex' [simp]: "felt_int (CHR ''0'' # CHR ''x'' # hex n) = int n"
  using felt_int_hex[of n] by simp

lemma dec_not_hex_literal: "\<not> is_hex_literal (dec n)"
proof
  assume "is_hex_literal (dec n)"
  then have "dec n ! 1 \<in> {CHR ''x'', CHR ''X''}" "1 < length (dec n)"
    unfolding is_hex_literal_def by (cases "dec n"; cases "tl (dec n)"; auto)+
  moreover have "is_digit (dec n ! 1)" if "1 < length (dec n)"
    using dec_digits[of n] that by (simp add: list_all_length)
  ultimately show False
    by (auto simp: is_digit_def code_def)
qed

lemma felt_int_dec [simp]: "felt_int (dec n) = int n"
  by (simp add: felt_int_def big_int_def dec_not_hex_literal)

lemma js_BigInt_poseidon [simp]: "js_BigInt (poseidon env xs) = Inr (int (ce_poseidon env xs))"
  by (simp add: poseidon_def)

lemma felt_int_poseidon [simp]: "felt_int (poseidon env xs) = int (ce_poseidon env xs)"
  by (simp add: poseidon_def)

definition normal_felt :: "string \<Rightarrow> bool" where
  "normal_felt s \<longleftrightarrow> (\<exists>n. s = ''0x'' @ hex n)"

lemma normal_felt_eq: "normal_felt s \<Longrightarrow> normal_felt t \<Longrightarrow> felt_int s = felt_int t \<Longrightarrow> s = t"
  by (auto simp: normal_felt_def)

lemma confidentialFelt_normal: "confidentialFelt v z = Inr s \<Longrightarrow> normal_felt s"
  by (auto simp: confidentialFelt_def normal_felt_def split: if_splits)

lemma conf_address_normal: "conf_address v = Inr s \<Longrightarrow> normal_felt s"
  by (auto simp: conf_address_def dest: confidentialFelt_normal)

lemma conf_amount_dec: "conf_amount v = Inr s \<Longrightarrow> \<exists>n. s = dec n"
  by (auto simp: conf_amount_def split: if_splits)

section \<open>Normalized agreements\<close>

definition normal_terms :: "conf_terms \<Rightarrow> bool" where
  "normal_terms t \<longleftrightarrow> normal_felt (ct_tokenA t) \<and> normal_felt (ct_tokenB t) \<and> (\<exists>n. ct_amountA t = dec n)
     \<and> (\<exists>n. ct_amountB t = dec n) \<and> normal_felt (ct_partyA t) \<and> normal_felt (ct_partyB t) \<and> normal_felt (ct_salt t)
     \<and> ct_tokenA t \<noteq> ct_tokenB t \<and> ct_partyA t \<noteq> ct_partyB t"

definition normal_agreement :: "conf_env \<Rightarrow> conf_agreement \<Rightarrow> bool" where
  "normal_agreement env a \<longleftrightarrow> ca_schema a = CONFIDENTIAL_RFQ_SCHEMA \<and> normal_terms (ca_terms a) \<and> normal_felt (ca_chainId a)
     \<and> normal_felt (ca_pool a) \<and> normal_felt (ca_poolClassHash a) \<and> normal_felt (ca_signerA a) \<and> normal_felt (ca_signerB a)
     \<and> normal_felt (ca_address a)
     \<and> (\<exists>d. ca_deadline a = jint d
        \<and> ca_commitment a = poseidon env (commitment_felts env (ca_chainId a) (ca_pool a) (ca_poolClassHash a)
            (ca_signerA a) (ca_signerB a) d (ca_terms a)))"

lemma conf_terms_of_normal: "conf_terms_of t = Inr u \<Longrightarrow> normal_terms u"
  unfolding conf_terms_of_def
  by (auto simp: normal_terms_def dest: conf_address_normal conf_amount_dec confidentialFelt_normal split: if_splits)

lemma hex_zero: "hex 0 = ''0''"
  by code_simp

lemma normal_felt_zero: "normal_felt ''0x0''"
  unfolding normal_felt_def by (intro exI[of _ 0]) (simp add: hex_zero)

lemma create_normal:
  assumes "createConfidentialAgreement env v addr = Inr a"
  shows "normal_agreement env a"
proof -
  obtain d where d: "as_safe_int (ca_deadline v) = Some d"
    using assms unfolding createConfidentialAgreement_def by (auto split: option.splits)
  show ?thesis
    using assms normal_felt_zero unfolding createConfidentialAgreement_def d
    by (auto simp: normal_agreement_def CONFIDENTIAL_RFQ_SCHEMA_def dest: conf_terms_of_normal conf_address_normal confidentialFelt_normal
      split: if_splits option.splits)
qed

lemma normalize_normal: "normalizeConfidentialAgreement env v = Inr a \<Longrightarrow> normal_agreement env a"
  by (auto simp: normalizeConfidentialAgreement_def dest: create_normal split: if_splits)

lemma inner_normal:
  assumes "confidentialInner env w = Inr inner" and "s \<in> set inner"
  shows "normal_felt s"
  using assms unfolding confidentialInner_def Let_def
  by (auto dest!: map_r_mem confidentialFelt_normal split: if_splits)

lemma map_felt_int_inject:
  "(\<And>s. s \<in> set xs \<Longrightarrow> normal_felt s) \<Longrightarrow> (\<And>s. s \<in> set ys \<Longrightarrow> normal_felt s) \<Longrightarrow> map felt_int xs = map felt_int ys \<Longrightarrow> xs = ys"
proof (induction xs arbitrary: ys)
  case (Cons x xs)
  then obtain y zs where "ys = y # zs"
    by (cases ys) auto
  then show ?case
    using Cons normal_felt_eq[of x y] by simp
qed simp

section \<open>Action lists\<close>

text \<open>
  The actions a reviewed operation may consist of, with the felts the review skips as parameters:
  registering a viewing key, opening a channel or a channel for a token, creating an encrypted note,
  spending one, and the computation of the escrow.
\<close>

datatype conf_action =
    RegisterKey int
  | OpenChannel int int int int
  | OpenSubchannel int int int int int int
  | CreateNote int int int int int int
  | UseNote int int int
  | Compute

fun encode_action :: "conf_agreement \<Rightarrow> int \<Rightarrow> int \<Rightarrow> conf_action \<Rightarrow> int list" where
  "encode_action a m key (RegisterKey x) = [0, x]"
| "encode_action a m key (OpenChannel r x y z) = [1, r, x, y, z]"
| "encode_action a m key (OpenSubchannel r x y z token s) = [2, r, x, y, z, token, s]"
| "encode_action a m key (CreateNote r s token amount u v) = [3, r, s, token, amount, u, v]"
| "encode_action a m key (UseNote s token u) = [6, s, token, u]"
| "encode_action a m key Compute = [9, felt_int (ca_address a), 2, key, m, 0]"

definition payee_allowed :: "conf_agreement \<Rightarrow> int \<Rightarrow> int \<Rightarrow> int \<Rightarrow> bool" where
  "payee_allowed a m token r \<longleftrightarrow>
     (if m = 1 then r \<in> {felt_int (ct_partyA (ca_terms a)), felt_int (ct_partyB (ca_terms a))} else recipientAllowed a m r)"

fun permitted :: "conf_agreement \<Rightarrow> int \<Rightarrow> conf_action \<Rightarrow> bool" where
  "permitted a m (RegisterKey x) = (m = 0)"
| "permitted a m (OpenChannel r x y z) = recipientAllowed a m r"
| "permitted a m (OpenSubchannel r x y z token s) = (recipientAllowed a m r \<and> tokenAllowed (ca_terms a) m token)"
| "permitted a m (CreateNote r s token amount u v) =
     (m \<noteq> 0 \<and> tokenAllowed (ca_terms a) m token \<and> amount < 2 ^ 128 \<and> payee_allowed a m token r)"
| "permitted a m (UseNote s token u) = (m \<noteq> 0 \<and> tokenAllowed (ca_terms a) m token)"
| "permitted a m Compute = True"

fun tally_action :: "conf_agreement \<Rightarrow> int \<Rightarrow> conf_action \<Rightarrow> review_tally \<Rightarrow> review_tally" where
  "tally_action a m (CreateNote r s token amount u v) y =
     (let z = y\<lparr>ry_outputs := ry_outputs y + 1\<rparr> in
      if m = 1 then
        if token = felt_int (ct_tokenA (ca_terms a)) \<and> r = felt_int (ct_partyB (ca_terms a))
        then z\<lparr>ry_tradedA := ry_tradedA y + amount\<rparr>
        else if token = felt_int (ct_tokenB (ca_terms a)) \<and> r = felt_int (ct_partyA (ca_terms a))
        then z\<lparr>ry_tradedB := ry_tradedB y + amount\<rparr> else z
      else z\<lparr>ry_refunded := ry_refunded y + amount\<rparr>)"
| "tally_action a m (UseNote s token u) y = y\<lparr>ry_inputs := ry_inputs y + 1\<rparr>"
| "tally_action a m Compute y = y\<lparr>ry_callback := True\<rparr>"
| "tally_action a m _ y = y"

lemma take_felt_Inr: "take_felt xs f = Inr r \<longleftrightarrow> (\<exists>x ys. xs = x # ys \<and> f x ys = Inr r)"
  by (cases xs) (simp_all add: take_felt_def)

lemma note_tally_Inr:
  "m \<noteq> 0 \<Longrightarrow> note_tally a m r token amount y = Inr z \<longleftrightarrow>
     permitted a m (CreateNote r s token amount u v) \<and> z = tally_action a m (CreateNote r s token amount u v) y"
  by (auto simp: note_tally_def payee_allowed_def tokenAllowed_def Let_def split: if_splits)

lemma review_action_Inr:
  "review_action a m key final y xs = Inr (z, ys) \<longleftrightarrow>
     (\<exists>act. permitted a m act \<and> (act = Compute \<longrightarrow> final \<and> \<not> ry_callback y)
        \<and> xs = encode_action a m key act @ ys \<and> z = tally_action a m act y)" (is "?l = ?r")
proof
  assume ?l
  then obtain kind zs where k: "xs = kind # zs" "kind \<in> {0, 1, 2, 3, 6, 9}"
    unfolding review_action_def take_felt_Inr by (auto split: if_splits)
  note l = \<open>?l\<close>[unfolded review_action_def k(1)]
  consider "kind = 0" | "kind = 1" | "kind = 2" | "kind = 3" | "kind = 6" | "kind = 9"
    using k(2) by blast
  then show ?r
  proof cases
    case 1
    then obtain x where "zs = x # ys" "m = 0" "z = y"
      using l by (auto simp: take_felt_Inr numeral_eq_Suc split: if_splits)
    then show ?thesis
      using k 1 by (intro exI[of _ "RegisterKey x"]) simp
  next
    case 2
    then obtain r b c d where "zs = r # b # c # d # ys" "recipientAllowed a m r" "z = y"
      using l by (auto simp: take_felt_Inr numeral_eq_Suc split: if_splits)
    then show ?thesis
      using k 2 by (intro exI[of _ "OpenChannel r b c d"]) simp
  next
    case 3
    then obtain r b c d token s where "zs = r # b # c # d # token # s # ys" "recipientAllowed a m r"
        "tokenAllowed (ca_terms a) m token" "z = y"
      using l by (auto simp: take_felt_Inr numeral_eq_Suc split: if_splits)
    then show ?thesis
      using k 3 by (intro exI[of _ "OpenSubchannel r b c d token s"]) simp
  next
    case 4
    then obtain r s token amount u v where "zs = r # s # token # amount # u # v # ys" "m \<noteq> 0"
        "note_tally a m r token amount y = Inr z"
      using l by (auto simp: take_felt_Inr numeral_eq_Suc split: if_splits)
    then show ?thesis
      using k 4 note_tally_Inr by (intro exI[of _ "CreateNote r s token amount u v"]) auto
  next
    case 5
    then obtain s token u where "zs = s # token # u # ys" "m \<noteq> 0" "tokenAllowed (ca_terms a) m token"
        "z = y\<lparr>ry_inputs := ry_inputs y + 1\<rparr>"
      using l by (auto simp: take_felt_Inr numeral_eq_Suc split: if_splits)
    then show ?thesis
      using k 5 by (intro exI[of _ "UseNote s token u"]) simp
  next
    case 6
    then have "zs = felt_int (ca_address a) # 2 # key # m # 0 # ys" "final" "\<not> ry_callback y" "z = y\<lparr>ry_callback := True\<rparr>"
      using l by (auto simp: take_felt_Inr split: if_splits)
    then show ?thesis
      using k 6 by (intro exI[of _ Compute]) simp
  qed
next
  assume ?r
  then obtain act where act: "permitted a m act" "act = Compute \<longrightarrow> final \<and> \<not> ry_callback y"
      "xs = encode_action a m key act @ ys" "z = tally_action a m act y"
    by blast
  show ?l
  proof (cases act)
    case (CreateNote r s token amount u v)
    then show ?thesis
      using act note_tally_Inr[of m a r token amount y z s u v]
      by (auto simp: review_action_def take_felt_Inr numeral_eq_Suc)
  qed (use act in \<open>auto simp: review_action_def take_felt_Inr numeral_eq_Suc\<close>)
qed

section \<open>Operations\<close>

lemma fold_tally_callback: "ry_callback (fold (tally_action a m) acts y) \<longleftrightarrow> ry_callback y \<or> Compute \<in> set acts"
proof (induction acts arbitrary: y)
  case (Cons act acts)
  then show ?case
    by (cases act) (simp_all add: Let_def)
qed simp

lemma review_actions_Inr:
  "review_actions a m key n y xs = Inr (z, ys) \<longleftrightarrow>
     (\<exists>acts. length acts = n \<and> list_all (permitted a m) acts \<and> xs = concat (map (encode_action a m key) acts) @ ys
        \<and> z = fold (tally_action a m) acts y \<and> Compute \<notin> set (butlast acts)
        \<and> (acts \<noteq> [] \<and> last acts = Compute \<longrightarrow> \<not> ry_callback y))"
proof (induction n arbitrary: y xs)
  case 0
  then show ?case by auto
next
  case (Suc n)
  show ?case (is "?l = ?r")
  proof
    assume ?l
    then obtain act acts ws where s: "permitted a m act" "act = Compute \<longrightarrow> n = 0 \<and> \<not> ry_callback y"
        "xs = encode_action a m key act @ ws"
        "length acts = n" "list_all (permitted a m) acts" "ws = concat (map (encode_action a m key) acts) @ ys"
        "z = fold (tally_action a m) acts (tally_action a m act y)" "Compute \<notin> set (butlast acts)"
        "acts \<noteq> [] \<and> last acts = Compute \<longrightarrow> \<not> ry_callback (tally_action a m act y)"
      using Suc.IH by (auto simp: review_action_Inr)
    have "ry_callback y \<Longrightarrow> ry_callback (tally_action a m act y)"
      by (cases act) (simp_all add: Let_def)
    then show ?r
      using s by (intro exI[of _ "act # acts"]) (auto split: if_splits)
  next
    assume ?r
    then obtain acts where s: "length acts = Suc n" "list_all (permitted a m) acts"
        "xs = concat (map (encode_action a m key) acts) @ ys" "z = fold (tally_action a m) acts y"
        "Compute \<notin> set (butlast acts)" "acts \<noteq> [] \<and> last acts = Compute \<longrightarrow> \<not> ry_callback y"
      by blast
    then obtain act more where acts: "acts = act # more"
      by (cases acts) auto
    have c: "act = Compute \<Longrightarrow> more = [] \<and> \<not> ry_callback y"
      using s(5,6) acts by (cases more) auto
    define zs where "zs = concat (map (encode_action a m key) more) @ ys"
    have 1: "review_action a m key (n = 0) y xs = Inr (tally_action a m act y, zs)"
      unfolding review_action_Inr using s acts c by (intro exI[of _ act]) (auto simp: zs_def)
    have "\<not> ry_callback (tally_action a m act y)" if "more \<noteq> []" "last more = Compute"
      using s acts that fold_tally_callback[of a m "[act]" y] by auto
    then have "review_actions a m key n (tally_action a m act y) zs = Inr (z, ys)"
      unfolding Suc.IH using s acts by (intro exI[of _ more]) (auto simp: zs_def split: if_splits)
    then show ?l
      using 1 by simp
  qed
qed

text \<open>
  An operation: the identity of the escrow, the number of actions, at most 64, and the actions, the
  last of which is the computation and the only one.
\<close>

definition operation_of :: "conf_agreement \<Rightarrow> int \<Rightarrow> int \<Rightarrow> int list \<Rightarrow> conf_action list \<Rightarrow> bool" where
  "operation_of a m key xs acts \<longleftrightarrow> (\<exists>others. acts = others @ [Compute] \<and> Compute \<notin> set others)
     \<and> length acts \<le> 64 \<and> list_all (permitted a m) acts
     \<and> xs = felt_int (ca_address a) # key # int (length acts) # concat (map (encode_action a m key) acts)"

fun paid_by :: "int \<Rightarrow> int \<Rightarrow> conf_action \<Rightarrow> int" where
  "paid_by token r (CreateNote r' s token' amount u v) = (if token' = token \<and> r' = r then amount else 0)"
| "paid_by token r _ = 0"

definition paid :: "conf_action list \<Rightarrow> int \<Rightarrow> int \<Rightarrow> int" where
  "paid acts token r = sum_list (map (paid_by token r) acts)"

definition spends :: "conf_action list \<Rightarrow> bool" where
  "spends acts \<longleftrightarrow> (\<exists>s token u. UseNote s token u \<in> set acts)"

text \<open>What the operation must achieve, over the terms of the agreement.\<close>

fun fulfils :: "conf_terms \<Rightarrow> conf_mode \<Rightarrow> conf_action list \<Rightarrow> bool" where
  "fulfils t Setup acts = True"
| "fulfils t Settle acts = (spends acts \<and> paid acts (felt_int (ct_tokenA t)) (felt_int (ct_partyB t)) = felt_int (ct_amountA t)
     \<and> paid acts (felt_int (ct_tokenB t)) (felt_int (ct_partyA t)) = felt_int (ct_amountB t))"
| "fulfils t RefundA acts = (spends acts \<and> paid acts (felt_int (ct_tokenA t)) (felt_int (ct_partyA t)) \<noteq> 0)"
| "fulfils t RefundB acts = (spends acts \<and> paid acts (felt_int (ct_tokenB t)) (felt_int (ct_partyB t)) \<noteq> 0)"

lemma fold_tally_traded:
  assumes "felt_int (ct_tokenA (ca_terms a)) \<noteq> felt_int (ct_tokenB (ca_terms a))"
  shows "ry_tradedA (fold (tally_action a 1) acts y)
      = ry_tradedA y + paid acts (felt_int (ct_tokenA (ca_terms a))) (felt_int (ct_partyB (ca_terms a)))"
    "ry_tradedB (fold (tally_action a 1) acts y)
      = ry_tradedB y + paid acts (felt_int (ct_tokenB (ca_terms a))) (felt_int (ct_partyA (ca_terms a)))"
proof (induction acts arbitrary: y)
  case (Cons act acts)
  {
    case 1
    then show ?case
      using assms Cons(1) by (cases act) (auto simp: Let_def paid_def)
  next
    case 2
    then show ?case
      using assms Cons(2) by (cases act) (auto simp: Let_def paid_def)
  }
qed (simp_all add: paid_def)

definition is_use :: "conf_action \<Rightarrow> bool" where
  "is_use act = (case act of UseNote s token u \<Rightarrow> True | _ \<Rightarrow> False)"

lemma tally_action_inputs: "ry_inputs (tally_action a m act y) = ry_inputs y + (if is_use act then 1 else 0)"
  by (cases act) (simp_all add: Let_def is_use_def)

lemma fold_tally_count: "ry_inputs (fold (tally_action a m) acts y) = ry_inputs y + int (length (filter is_use acts))"
  by (induction acts arbitrary: y) (simp_all add: tally_action_inputs)

lemma fold_tally_inputs: "ry_inputs (fold (tally_action a m) acts y) = ry_inputs y \<longleftrightarrow> \<not> spends acts"
  by (auto simp: fold_tally_count filter_empty_conv is_use_def spends_def split: conf_action.splits)

text \<open>In a refund only one token and one payee are permitted, so the refunded sum is what that payee gets.\<close>

lemma fold_tally_refunded:
  assumes "m \<noteq> 1" "m \<noteq> 0" "list_all (permitted a m) acts" "\<And>t. tokenAllowed (ca_terms a) m t \<longleftrightarrow> t = token"
    "\<And>r. recipientAllowed a m r \<longleftrightarrow> r = payee"
  shows "ry_refunded (fold (tally_action a m) acts y) = ry_refunded y + paid acts token payee"
  using assms(3)
proof (induction acts arbitrary: y)
  case (Cons act acts)
  then show ?case
    using assms by (cases act) (auto simp: Let_def paid_def payee_allowed_def)
qed (simp add: paid_def)

lemma refund_allowed:
  "tokenAllowed t 2 v \<longleftrightarrow> v = felt_int (ct_tokenA t)" "tokenAllowed t 3 v \<longleftrightarrow> v = felt_int (ct_tokenB t)"
  "recipientAllowed a 2 v \<longleftrightarrow> v = felt_int (ct_partyA (ca_terms a))"
  "recipientAllowed a 3 v \<longleftrightarrow> v = felt_int (ct_partyB (ca_terms a))"
  by (auto simp: tokenAllowed_def recipientAllowed_def)

definition tally_ok :: "conf_terms \<Rightarrow> int \<Rightarrow> review_tally \<Rightarrow> bool" where
  "tally_ok t m y \<longleftrightarrow> (m = 1 \<longrightarrow> ry_inputs y \<noteq> 0 \<and> ry_tradedA y = felt_int (ct_amountA t) \<and> ry_tradedB y = felt_int (ct_amountB t))
     \<and> (2 \<le> m \<longrightarrow> ry_inputs y \<noteq> 0 \<and> ry_refunded y \<noteq> 0)"

lemma tally_fulfils:
  assumes "normal_terms (ca_terms a)" "list_all (permitted a (mode_number mode)) acts"
  shows "tally_ok (ca_terms a) (mode_number mode) (fold (tally_action a (mode_number mode)) acts no_tally)
    \<longleftrightarrow> fulfils (ca_terms a) mode acts"
proof -
  have ne: "felt_int (ct_tokenA (ca_terms a)) \<noteq> felt_int (ct_tokenB (ca_terms a))"
    using assms(1) normal_felt_eq unfolding normal_terms_def by blast
  have i: "ry_inputs (fold (tally_action a m) acts no_tally) = 0 \<longleftrightarrow> \<not> spends acts" for m
    using fold_tally_inputs[of a m acts no_tally] by (simp add: no_tally_def)
  show ?thesis
  proof (cases mode)
    case Settle
    then show ?thesis
      using fold_tally_traded[OF ne] i by (auto simp: tally_ok_def no_tally_def)
  next
    case RefundA
    then show ?thesis
      using fold_tally_refunded[of 2 a acts _ _ no_tally, OF _ _ _ refund_allowed(1,3)] assms(2) i
      by (auto simp: tally_ok_def no_tally_def)
  next
    case RefundB
    then show ?thesis
      using fold_tally_refunded[of 3 a acts _ _ no_tally, OF _ _ _ refund_allowed(2,4)] assms(2) i
      by (auto simp: tally_ok_def no_tally_def)
  qed (simp add: tally_ok_def)
qed

lemma last_callback:
  "(\<exists>others. acts = others @ [Compute] \<and> Compute \<notin> set others) \<longleftrightarrow> Compute \<in> set acts \<and> Compute \<notin> set (butlast acts)"
  by (cases acts rule: rev_cases) auto

lemma review_felts_Inr:
  assumes "normal_terms (ca_terms a)"
  shows "review_felts a (mode_number mode) key xs = Inr y \<longleftrightarrow>
    (\<exists>acts. operation_of a (mode_number mode) key xs acts \<and> fulfils (ca_terms a) mode acts
       \<and> y = fold (tally_action a (mode_number mode)) acts no_tally)" (is "?l = ?r")
proof
  let ?m = "mode_number mode"
  assume ?l
  then obtain count zs where c: "xs = felt_int (ca_address a) # key # count # zs" "1 \<le> count" "count \<le> 64"
      "review_actions a ?m key (nat count) no_tally zs = Inr (y, [])" "ry_callback y" "tally_ok (ca_terms a) ?m y"
    by (auto simp: review_felts_def take_felt_Inr tally_ok_def split: if_splits)
  then obtain acts where acts: "length acts = nat count" "list_all (permitted a ?m) acts"
      "zs = concat (map (encode_action a ?m key) acts)" "y = fold (tally_action a ?m) acts no_tally"
      "Compute \<notin> set (butlast acts)"
    unfolding review_actions_Inr by auto
  have "Compute \<in> set acts"
    using c(5) acts(4) fold_tally_callback[of a ?m acts no_tally] by (simp add: no_tally_def)
  then have "operation_of a ?m key xs acts"
    using c acts last_callback[of acts] by (auto simp: operation_of_def)
  then show ?r
    using c(6) acts tally_fulfils[OF assms] by blast
next
  let ?m = "mode_number mode"
  assume ?r
  then obtain acts where acts: "operation_of a ?m key xs acts" "fulfils (ca_terms a) mode acts"
      "y = fold (tally_action a ?m) acts no_tally"
    by blast
  then have o: "length acts \<le> 64" "list_all (permitted a ?m) acts" "Compute \<in> set acts" "Compute \<notin> set (butlast acts)"
      "xs = felt_int (ca_address a) # key # int (length acts) # concat (map (encode_action a ?m key) acts)"
    using last_callback[of acts] by (auto simp: operation_of_def)
  have r: "review_actions a ?m key (length acts) no_tally (concat (map (encode_action a ?m key) acts)) = Inr (y, [])"
    unfolding review_actions_Inr using o acts(3) by (intro exI[of _ acts]) (simp add: no_tally_def)
  have "tally_ok (ca_terms a) ?m y" "ry_callback y" "0 < length acts"
    using tally_fulfils[OF assms o(2)] acts o fold_tally_callback[of a ?m acts no_tally] by (auto simp: no_tally_def)
  then show ?l
    using o(1) r unfolding review_felts_def o(5) by (auto simp: take_felt_def tally_ok_def)
qed

section \<open>The review and the authorization\<close>

definition reviewed :: "conf_env \<Rightarrow> conf_prepared \<Rightarrow> int \<Rightarrow> conf_agreement \<Rightarrow> string list \<Rightarrow> conf_action list \<Rightarrow> bool" where
  "reviewed env p key a inner acts \<longleftrightarrow> normalizeConfidentialAgreement env (cp_agreement p) = Inr a
     \<and> ca_address a \<noteq> ''0x0'' \<and> 0 < key \<and> key \<le> ce_order env div 2
     \<and> confidentialInner env (cp_invocation p) = Inr inner
     \<and> sameFelt (iv_sender (cp_invocation p)) (ca_pool a) = Inr True
     \<and> sameFelt (iv_calldata (cp_invocation p) ! 1) (ca_pool a) = Inr True
     \<and> js_BigInt (iv_calldata (cp_invocation p) ! 2) = Inr (ce_selector env ''compile_actions'')
     \<and> operation_of a (mode_number (cp_mode p)) key (map felt_int inner) acts
     \<and> fulfils (ca_terms a) (cp_mode p) acts
     \<and> sameFelt (confidentialDigest env a (cp_mode p) inner) (cp_digest p) = Inr True"

lemma normal_agreement_terms: "normal_agreement env a \<Longrightarrow> normal_terms (ca_terms a)"
  by (simp add: normal_agreement_def)

lemma review_Inr:
  "reviewConfidentialOperation env p key = Inr r \<longleftrightarrow>
     (\<exists>a inner acts y. reviewed env p key a inner acts \<and> y = fold (tally_action a (mode_number (cp_mode p))) acts no_tally
        \<and> r = \<lparr>cw_mode = cp_mode p, cw_digest = confidentialDigest env a (cp_mode p) inner, cw_commitment = ca_commitment a,
             cw_account = ca_address a, cw_chainId = ca_chainId a, cw_pool = ca_pool a, cw_deadline = ca_deadline a,
             cw_terms = ca_terms a, cw_requiredSigners = confidentialRequiredSigners (cp_mode p), cw_inputs = ry_inputs y,
             cw_outputs = ry_outputs y\<rparr>)" (is "?l \<longleftrightarrow> ?r")
proof
  assume ?l
  then obtain a inner y where i: "normalizeConfidentialAgreement env (cp_agreement p) = Inr a"
      "ca_address a \<noteq> ''0x0''" "0 < key" "key \<le> ce_order env div 2"
      "confidentialInner env (cp_invocation p) = Inr inner"
      "sameFelt (iv_sender (cp_invocation p)) (ca_pool a) = Inr True"
      "sameFelt (iv_calldata (cp_invocation p) ! 1) (ca_pool a) = Inr True"
      "js_BigInt (iv_calldata (cp_invocation p) ! 2) = Inr (ce_selector env ''compile_actions'')"
      "review_felts a (mode_number (cp_mode p)) key (map felt_int inner) = Inr y"
      "sameFelt (confidentialDigest env a (cp_mode p) inner) (cp_digest p) = Inr True"
      "r = \<lparr>cw_mode = cp_mode p, cw_digest = confidentialDigest env a (cp_mode p) inner, cw_commitment = ca_commitment a,
             cw_account = ca_address a, cw_chainId = ca_chainId a, cw_pool = ca_pool a, cw_deadline = ca_deadline a,
             cw_terms = ca_terms a, cw_requiredSigners = confidentialRequiredSigners (cp_mode p), cw_inputs = ry_inputs y,
             cw_outputs = ry_outputs y\<rparr>"
    unfolding reviewConfidentialOperation_def Let_def by (auto split: if_splits)
  then show ?r
    using review_felts_Inr[OF normal_agreement_terms[OF normalize_normal[OF i(1)]], of "cp_mode p" key]
    unfolding reviewed_def by blast
next
  assume ?r
  then obtain a inner acts where i: "reviewed env p key a inner acts"
      "r = \<lparr>cw_mode = cp_mode p, cw_digest = confidentialDigest env a (cp_mode p) inner, cw_commitment = ca_commitment a,
             cw_account = ca_address a, cw_chainId = ca_chainId a, cw_pool = ca_pool a, cw_deadline = ca_deadline a,
             cw_terms = ca_terms a, cw_requiredSigners = confidentialRequiredSigners (cp_mode p),
             cw_inputs = ry_inputs (fold (tally_action a (mode_number (cp_mode p))) acts no_tally),
             cw_outputs = ry_outputs (fold (tally_action a (mode_number (cp_mode p))) acts no_tally)\<rparr>"
    by blast
  have "normal_terms (ca_terms a)"
    using i(1) normalize_normal normal_agreement_terms unfolding reviewed_def by blast
  then have "review_felts a (mode_number (cp_mode p)) key (map felt_int inner)
      = Inr (fold (tally_action a (mode_number (cp_mode p))) acts no_tally)"
    using i(1) review_felts_Inr unfolding reviewed_def by blast
  then show ?l
    using i unfolding reviewConfidentialOperation_def reviewed_def by (auto simp: Let_def)
qed

lemma authorize_Inr:
  assumes "authorizeConfidentialOperation env p key qs = Inr w"
  shows "\<exists>a inner acts. reviewed env p key a inner acts
    \<and> (\<forall>role\<in>set (confidentialRequiredSigners (cp_mode p)). \<exists>q\<in>set qs. cq_role q = role)
    \<and> (\<forall>q\<in>set qs. verifyConfidentialApproval env (cp_agreement p) (confidentialDigest env a (cp_mode p) inner) q)"
  using assms unfolding authorizeConfidentialOperation_def
  by (fastforce simp: review_Inr list_all_iff split: if_splits)

text \<open>Where value may go: the notes an operation of each mode creates.\<close>

definition creates :: "conf_action list \<Rightarrow> int \<Rightarrow> int \<Rightarrow> bool" where
  "creates acts token r \<longleftrightarrow> (\<exists>s amount u v. CreateNote r s token amount u v \<in> set acts)"

definition uses_token :: "conf_action list \<Rightarrow> int \<Rightarrow> bool" where
  "uses_token acts token \<longleftrightarrow> (\<exists>s u. UseNote s token u \<in> set acts)"

lemma permitted_creates:
  assumes "list_all (permitted a m) acts" "creates acts token r"
  shows "m \<noteq> 0 \<and> tokenAllowed (ca_terms a) m token \<and> payee_allowed a m token r"
  using assms by (auto simp: creates_def list_all_iff)

lemma permitted_uses:
  "list_all (permitted a m) acts \<Longrightarrow> uses_token acts token \<Longrightarrow> m \<noteq> 0 \<and> tokenAllowed (ca_terms a) m token"
  by (auto simp: uses_token_def list_all_iff)

fun agreed_flows :: "conf_terms \<Rightarrow> conf_mode \<Rightarrow> conf_action list \<Rightarrow> bool" where
  "agreed_flows t Setup acts = (\<forall>token r. \<not> creates acts token r \<and> \<not> uses_token acts token)"
| "agreed_flows t Settle acts =
     (paid acts (felt_int (ct_tokenA t)) (felt_int (ct_partyB t)) = felt_int (ct_amountA t)
      \<and> paid acts (felt_int (ct_tokenB t)) (felt_int (ct_partyA t)) = felt_int (ct_amountB t)
      \<and> (\<forall>token r. creates acts token r \<longrightarrow> token \<in> felt_int ` {ct_tokenA t, ct_tokenB t}
           \<and> r \<in> felt_int ` {ct_partyA t, ct_partyB t})
      \<and> (\<forall>token. uses_token acts token \<longrightarrow> token \<in> felt_int ` {ct_tokenA t, ct_tokenB t}))"
| "agreed_flows t RefundA acts =
     (paid acts (felt_int (ct_tokenA t)) (felt_int (ct_partyA t)) \<noteq> 0
      \<and> (\<forall>token r. creates acts token r \<longrightarrow> token = felt_int (ct_tokenA t) \<and> r = felt_int (ct_partyA t))
      \<and> (\<forall>token. uses_token acts token \<longrightarrow> token = felt_int (ct_tokenA t)))"
| "agreed_flows t RefundB acts =
     (paid acts (felt_int (ct_tokenB t)) (felt_int (ct_partyB t)) \<noteq> 0
      \<and> (\<forall>token r. creates acts token r \<longrightarrow> token = felt_int (ct_tokenB t) \<and> r = felt_int (ct_partyB t))
      \<and> (\<forall>token. uses_token acts token \<longrightarrow> token = felt_int (ct_tokenB t)))"

lemma reviewed_flows:
  assumes "reviewed env p key a inner acts"
  shows "agreed_flows (ca_terms a) (cp_mode p) acts"
proof -
  have o: "list_all (permitted a (mode_number (cp_mode p))) acts" "fulfils (ca_terms a) (cp_mode p) acts"
    using assms by (auto simp: reviewed_def operation_of_def)
  note p = permitted_creates[OF o(1)] permitted_uses[OF o(1)]
  show ?thesis
  proof (cases "cp_mode p")
    case Setup
    then show ?thesis using p by auto
  next
    case Settle
    then show ?thesis using p o(2) by (auto simp: tokenAllowed_def payee_allowed_def)
  next
    case RefundA
    then show ?thesis using p o(2) by (auto simp: refund_allowed payee_allowed_def)
  next
    case RefundB
    then show ?thesis using p o(2) by (auto simp: refund_allowed payee_allowed_def)
  qed
qed

section \<open>Binding\<close>

text \<open>
  The lists of felts that are hashed for the digest of an operation: the digest itself, the private
  felts and the terms. Two operations clash if the hash does not tell two lists apart that are
  hashed at the same place.
\<close>

definition hashed_lists :: "conf_env \<Rightarrow> conf_agreement \<Rightarrow> conf_mode \<Rightarrow> string list \<Rightarrow> int list list" where
  "hashed_lists env a mode inner = [digest_felts env a mode inner, map felt_int inner,
     commitment_felts env (ca_chainId a) (ca_pool a) (ca_poolClassHash a) (ca_signerA a) (ca_signerB a)
       (the (as_integer (ca_deadline a))) (ca_terms a)]"

definition clash :: "conf_env \<Rightarrow> int list list \<Rightarrow> int list list \<Rightarrow> bool" where
  "clash env xss yss \<longleftrightarrow> (\<exists>(xs, ys)\<in>set (zip xss yss). xs \<noteq> ys \<and> ce_poseidon env xs = ce_poseidon env ys)"

lemma normal_terms_eq:
  assumes "normal_terms t" "normal_terms u" "map felt_int (confidentialTermsFelts t) = map felt_int (confidentialTermsFelts u)"
  shows "t = u"
proof -
  have "ct_amountA t = ct_amountA u" "ct_amountB t = ct_amountB u"
    using assms by (auto simp: normal_terms_def confidentialTermsFelts_def)
  then show ?thesis
    using assms normal_felt_eq by (auto simp: normal_terms_def confidentialTermsFelts_def)
qed

lemma commitment_binds:
  assumes "normal_agreement env a" "normal_agreement env b" "\<not> clash env (hashed_lists env a m xs) (hashed_lists env b n ys)"
    "felt_int (ca_commitment a) = felt_int (ca_commitment b)" "felt_int (ca_address a) = felt_int (ca_address b)"
  shows "a\<lparr>ca_escrowClassHash := x\<rparr> = b\<lparr>ca_escrowClassHash := x\<rparr>"
proof -
  obtain d e where c: "ca_deadline a = jint d" "ca_deadline b = jint e"
      "ca_commitment a = poseidon env (commitment_felts env (ca_chainId a) (ca_pool a) (ca_poolClassHash a)
            (ca_signerA a) (ca_signerB a) d (ca_terms a))"
      "ca_commitment b = poseidon env (commitment_felts env (ca_chainId b) (ca_pool b) (ca_poolClassHash b)
            (ca_signerA b) (ca_signerB b) e (ca_terms b))"
    using assms(1,2) by (auto simp: normal_agreement_def)
  then have h: "commitment_felts env (ca_chainId a) (ca_pool a) (ca_poolClassHash a) (ca_signerA a) (ca_signerB a) d (ca_terms a)
      = commitment_felts env (ca_chainId b) (ca_pool b) (ca_poolClassHash b) (ca_signerA b) (ca_signerB b) e (ca_terms b)"
    using assms(3,4) by (auto simp: clash_def hashed_lists_def)
  have "ca_terms a = ca_terms b"
    using normal_terms_eq assms(1,2) h by (simp add: normal_agreement_def commitment_felts_def)
  moreover have "ca_chainId a = ca_chainId b" "ca_pool a = ca_pool b" "ca_poolClassHash a = ca_poolClassHash b"
    "ca_signerA a = ca_signerA b" "ca_signerB a = ca_signerB b" "d = e" "ca_address a = ca_address b"
    using normal_felt_eq assms(1,2,5) h by (auto simp: normal_agreement_def commitment_felts_def)
  ultimately show ?thesis
    using assms(1,2) c h by (auto simp: normal_agreement_def)
qed

lemma mode_number_inject: "mode_number m = mode_number n \<Longrightarrow> m = n"
  by (cases m; cases n; simp)

lemma digest_binds:
  assumes "normal_agreement env a" "normal_agreement env b"
    "\<And>s. s \<in> set xs \<Longrightarrow> normal_felt s" "\<And>s. s \<in> set ys \<Longrightarrow> normal_felt s"
    "felt_int (confidentialDigest env a m xs) = felt_int (confidentialDigest env b n ys)"
  shows "clash env (hashed_lists env a m xs) (hashed_lists env b n ys)
    \<or> a\<lparr>ca_escrowClassHash := x\<rparr> = b\<lparr>ca_escrowClassHash := x\<rparr> \<and> m = n \<and> xs = ys"
proof (cases "clash env (hashed_lists env a m xs) (hashed_lists env b n ys)")
  case False
  then have h: "digest_felts env a m xs = digest_felts env b n ys"
    using assms(5) by (auto simp: confidentialDigest_def clash_def hashed_lists_def)
  then have "ce_poseidon env (map felt_int xs) = ce_poseidon env (map felt_int ys)" "mode_number m = mode_number n"
    by (simp_all add: digest_felts_def)
  then have "map felt_int xs = map felt_int ys" "m = n"
    using False mode_number_inject by (auto simp: clash_def hashed_lists_def)
  then show ?thesis
    using commitment_binds[OF assms(1,2) False] map_felt_int_inject[OF assms(3,4)] h by (simp add: digest_felts_def)
qed simp

lemma approval_digest:
  assumes "verifyConfidentialApproval env v (confidentialDigest env a m xs) q"
  shows "js_BigInt (cq_digest q) = Inr (felt_int (confidentialDigest env a m xs))"
  using assms by (auto simp: verifyConfidentialApproval_def sameFelt_def confidentialDigest_def split: sum.splits)

lemma reviewed_normal:
  assumes "reviewed env p key a inner acts"
  shows "normal_agreement env a" and "\<And>s. s \<in> set inner \<Longrightarrow> normal_felt s"
  using assms normalize_normal inner_normal unfolding reviewed_def by blast+

section \<open>A concrete settlement\<close>

lemma field_numeral [code]: "FIELD = 3618502788666131213697322783095070105623107215331596699973092056135872020481"
  by (simp add: FIELD_def)

lemma address_limit_numeral [code]: "ADDRESS_LIMIT = 3618502788666131106986593281521497120414687020801267626233049500247285300992"
  by (simp add: ADDRESS_LIMIT_def)

definition sample_conf_env :: conf_env where
  "sample_conf_env = \<lparr>ce_short = (\<lambda>s. int (length s)), ce_poseidon = to_nat, ce_selector = (\<lambda>_. 99),
     ce_order = 1000, ce_verify = (\<lambda>r s d key. Some (r = s)), ce_number = (\<lambda>s. jint (felt_int s))\<rparr>"

definition sample_conf_terms :: conf_terms where
  "sample_conf_terms = \<lparr>ct_tokenA = ''0x10'', ct_tokenB = ''0x11'', ct_amountA = ''100'', ct_amountB = ''200'',
     ct_partyA = ''0xa'', ct_partyB = ''0xb'', ct_salt = ''0x7''\<rparr>"

definition sample_conf_agreement :: conf_agreement where
  "sample_conf_agreement = \<lparr>ca_schema = CONFIDENTIAL_RFQ_SCHEMA, ca_chainId = ''0x1'', ca_pool = ''0x50'',
     ca_poolClassHash = ''0x51'', ca_escrowClassHash = ''0x52'', ca_signerA = ''0x5a'', ca_signerB = ''0x5b'', ca_deadline = jint 9000,
     ca_terms = sample_conf_terms,
     ca_commitment = poseidon sample_conf_env
       (commitment_felts sample_conf_env ''0x1'' ''0x50'' ''0x51'' ''0x5a'' ''0x5b'' 9000 sample_conf_terms),
     ca_address = ''0x99''\<rparr>"

definition sample_inner :: "string list" where
  "sample_inner = map (\<lambda>n. ''0x'' @ hex n)
     [153, 5, 5, 6, 1, 16, 1, 6, 1, 17, 1, 3, 11, 1, 16, 100, 1, 1, 3, 10, 1, 17, 200, 1, 1, 9, 153, 2, 5, 1, 0]"

text \<open>The sender is a text for the pool: the review compares numbers.\<close>

definition sample_prepared :: "string \<Rightarrow> conf_prepared" where
  "sample_prepared sender = \<lparr>cp_agreement = sample_conf_agreement, cp_mode = Settle,
     cp_invocation = \<lparr>iv_sender = sender, iv_calldata = [''1'', ''0x50'', ''99'', ''31''] @ sample_inner, iv_signature = []\<rparr>,
     cp_digest = confidentialDigest sample_conf_env sample_conf_agreement Settle sample_inner\<rparr>"

definition sample_approvals :: "conf_approval list" where
  "sample_approvals = map (\<lambda>r. \<lparr>cq_role = r,
     cq_digest = confidentialDigest sample_conf_env sample_conf_agreement Settle sample_inner, cq_signature = [''3'', ''3'']\<rparr>) [PartyA, PartyB]"

definition sample_acts :: "conf_action list" where
  "sample_acts = [UseNote 1 16 1, UseNote 1 17 1, CreateNote 11 1 16 100 1 1, CreateNote 10 1 17 200 1 1, Compute]"

text \<open>The hash of this environment is injective, so no two operations clash.\<close>

lemma sample_no_clash: "\<not> clash sample_conf_env xss yss"
  by (auto simp: clash_def sample_conf_env_def)

lemma sample_normal:
  "normalizeConfidentialAgreement sample_conf_env sample_conf_agreement = Inr sample_conf_agreement"
proof -
  have f: "conf_terms_of sample_conf_terms = Inr sample_conf_terms" "as_safe_int (jint 9000) = Some 9000"
    "confidentialFelt ''0x1'' True = Inr ''0x1''" "conf_address ''0x50'' = Inr ''0x50''"
    "confidentialFelt ''0x51'' True = Inr ''0x51''" "confidentialFelt ''0x52'' True = Inr ''0x52''"
    "confidentialFelt ''0x5a'' True = Inr ''0x5a''" "confidentialFelt ''0x5b'' True = Inr ''0x5b''"
    "conf_address ''0x99'' = Inr ''0x99''" "sameFelt ''0x99'' ''0'' = Inr False"
    by code_simp+
  have "sameFelt (poseidon env xs) (poseidon env xs) = Inr True" for env xs
    by (simp add: sameFelt_def poseidon_def)
  then show ?thesis
    by (simp add: normalizeConfidentialAgreement_def createConfidentialAgreement_def sample_conf_agreement_def f max_safe_def)
qed

lemma sample_inner:
  "confidentialInner sample_conf_env
     \<lparr>iv_sender = sender, iv_calldata = [''1'', ''0x50'', ''99'', ''31''] @ sample_inner, iv_signature = []\<rparr> = Inr sample_inner"
  by code_simp

lemma sample_operation: "operation_of sample_conf_agreement 1 5 (map felt_int sample_inner) sample_acts"
proof -
  have "list_all (permitted sample_conf_agreement 1) sample_acts"
    by code_simp
  moreover have "map felt_int sample_inner
      = felt_int (ca_address sample_conf_agreement) # 5 # int (length sample_acts)
        # concat (map (encode_action sample_conf_agreement 1 5) sample_acts)"
    by code_simp
  moreover have "sample_acts = butlast sample_acts @ [Compute]" "Compute \<notin> set (butlast sample_acts)" "length sample_acts \<le> 64"
    by (simp_all add: sample_acts_def)
  ultimately show ?thesis
    unfolding operation_of_def by blast
qed

lemma sample_fulfils: "fulfils sample_conf_terms Settle sample_acts"
proof -
  have "paid sample_acts (felt_int (ct_tokenA sample_conf_terms)) (felt_int (ct_partyB sample_conf_terms))
      = felt_int (ct_amountA sample_conf_terms)"
    "paid sample_acts (felt_int (ct_tokenB sample_conf_terms)) (felt_int (ct_partyA sample_conf_terms))
      = felt_int (ct_amountB sample_conf_terms)"
    by code_simp+
  moreover have "spends sample_acts"
    by (auto simp: spends_def sample_acts_def)
  ultimately show ?thesis by simp
qed

lemma sample_reviewed:
  assumes "js_BigInt sender = Inr 80"
  shows "reviewed sample_conf_env (sample_prepared sender) 5 sample_conf_agreement sample_inner sample_acts"
proof -
  have 1: "js_BigInt ''0x50'' = Inr 80" "js_BigInt ''99'' = Inr 99" "ca_pool sample_conf_agreement = ''0x50''"
    "ca_address sample_conf_agreement \<noteq> ''0x0''" "ca_terms sample_conf_agreement = sample_conf_terms"
    by code_simp+
  then show ?thesis
    using assms sample_normal sample_inner sample_operation sample_fulfils
    by (simp add: reviewed_def sample_prepared_def sameFelt_def confidentialDigest_def sample_conf_env_def[THEN arg_cong[where f = ce_order]]
      sample_conf_env_def[THEN arg_cong[where f = ce_selector]])
qed

lemma sample_approved:
  "verifyConfidentialApproval sample_conf_env sample_conf_agreement
     (confidentialDigest sample_conf_env sample_conf_agreement Settle sample_inner)
     \<lparr>cq_role = r, cq_digest = confidentialDigest sample_conf_env sample_conf_agreement Settle sample_inner,
      cq_signature = [''3'', ''3'']\<rparr>"
proof -
  have "js_BigInt ''3'' = Inr 3" by code_simp
  then show ?thesis
    by (simp add: verifyConfidentialApproval_def sameFelt_def confidentialDigest_def verifies_def sample_conf_env_def[THEN arg_cong[where f = ce_verify]])
qed

lemma sample_authorized:
  assumes "js_BigInt sender = Inr 80"
  shows "is_ok (authorizeConfidentialOperation sample_conf_env (sample_prepared sender) 5 sample_approvals)"
proof -
  have m: "cp_mode (sample_prepared sender) = Settle"
    by (simp add: sample_prepared_def)
  obtain r where r: "reviewConfidentialOperation sample_conf_env (sample_prepared sender) 5 = Inr r"
      "cw_requiredSigners r = [PartyA, PartyB]"
      "cw_digest r = confidentialDigest sample_conf_env sample_conf_agreement Settle sample_inner"
    using iffD2[OF review_Inr, OF exI, OF exI, OF exI, OF exI, OF conjI, OF sample_reviewed[OF assms] conjI, OF refl refl]
    by (simp add: m)
  then show ?thesis
    using sample_approved by (simp add: authorizeConfidentialOperation_def sample_approvals_def sample_prepared_def)
qed

lemma sample_senders: "js_BigInt ''0x50'' = Inr 80" "js_BigInt ''80'' = Inr 80"
  by code_simp+

lemma sample_both:
  "\<exists>w w'. authorizeConfidentialOperation sample_conf_env (sample_prepared ''0x50'') 5 sample_approvals = Inr w
     \<and> authorizeConfidentialOperation sample_conf_env (sample_prepared ''80'') 5 sample_approvals = Inr w'"
  using sample_authorized[OF sample_senders(1)] sample_authorized[OF sample_senders(2)] unfolding is_ok_iff by blast

section \<open>Properties\<close>

text \<open>
  C8: the review accepts exactly the agreed operations. A prepared operation passes if and only if
  its agreement is well formed and deployed, it is one compile call on the pinned pool, its felts
  are the encoding of at most 64 permitted actions of which the last and only the last is the
  computation of this escrow, the actions achieve what the mode demands, and the digest is theirs.
\<close>

theorem review_accepts_agreed_operations:
  "is_ok (reviewConfidentialOperation env p key) \<longleftrightarrow>
     (\<exists>a inner acts. normalizeConfidentialAgreement env (cp_agreement p) = Inr a
        \<and> ca_address a \<noteq> ''0x0'' \<and> 0 < key \<and> key \<le> ce_order env div 2
        \<and> confidentialInner env (cp_invocation p) = Inr inner
        \<and> sameFelt (iv_sender (cp_invocation p)) (ca_pool a) = Inr True
        \<and> sameFelt (iv_calldata (cp_invocation p) ! 1) (ca_pool a) = Inr True
        \<and> js_BigInt (iv_calldata (cp_invocation p) ! 2) = Inr (ce_selector env ''compile_actions'')
        \<and> operation_of a (mode_number (cp_mode p)) key (map felt_int inner) acts
        \<and> fulfils (ca_terms a) (cp_mode p) acts
        \<and> sameFelt (confidentialDigest env a (cp_mode p) inner) (cp_digest p) = Inr True)"
  unfolding is_ok_iff review_Inr reviewed_def by blast

text \<open>
  C7: an authorized operation moves value only as agreed, and every party it needs has signed
  exactly this operation. A setup creates and spends nothing; a settlement pays each party the
  agreed amount of the other's asset and creates notes of the two assets for the two parties only;
  a refund spends one asset and returns it to its owner only.
\<close>

theorem authorized_operation_is_agreed:
  assumes "authorizeConfidentialOperation env p key qs = Inr w"
  shows "\<exists>a inner acts. normalizeConfidentialAgreement env (cp_agreement p) = Inr a
    \<and> confidentialInner env (cp_invocation p) = Inr inner
    \<and> operation_of a (mode_number (cp_mode p)) key (map felt_int inner) acts
    \<and> agreed_flows (ca_terms a) (cp_mode p) acts
    \<and> (\<forall>role\<in>set (confidentialRequiredSigners (cp_mode p)). \<exists>q\<in>set qs. cq_role q = role
        \<and> verifyConfidentialApproval env (cp_agreement p) (confidentialDigest env a (cp_mode p) inner) q)"
proof -
  obtain a inner acts where r: "reviewed env p key a inner acts"
      "\<forall>role\<in>set (confidentialRequiredSigners (cp_mode p)). \<exists>q\<in>set qs. cq_role q = role"
      "\<forall>q\<in>set qs. verifyConfidentialApproval env (cp_agreement p) (confidentialDigest env a (cp_mode p) inner) q"
    using authorize_Inr[OF assms] by blast
  then show ?thesis
    using reviewed_flows[OF r(1)] unfolding reviewed_def by blast
qed

theorem authorized_operation_is_agreed_witness:
  "\<exists>a acts. normalizeConfidentialAgreement sample_conf_env sample_conf_agreement = Inr a \<and> agreed_flows (ca_terms a) Settle acts"
proof -
  obtain w where "authorizeConfidentialOperation sample_conf_env (sample_prepared ''0x50'') 5 sample_approvals = Inr w"
    using sample_both by blast
  from authorized_operation_is_agreed[OF this] show ?thesis
    by (auto simp: sample_prepared_def)
qed

text \<open>
  C9: an approval fits one operation. If one approval is used to authorize two operations, they are
  the same: the same escrow, mode and private felts, unless the hash does not tell apart two of the
  lists of felts that are hashed for these very operations (their digests, their private felts or
  their terms). (The class of the escrow is pinned by its address, not by the digest.)
\<close>

theorem approval_fits_one_operation:
  assumes "authorizeConfidentialOperation env p key qs = Inr w" and "authorizeConfidentialOperation env p' key' qs' = Inr w'"
    and "q \<in> set qs" and "q \<in> set qs'"
  shows "\<exists>a b inner inner'. normalizeConfidentialAgreement env (cp_agreement p) = Inr a
    \<and> normalizeConfidentialAgreement env (cp_agreement p') = Inr b
    \<and> confidentialInner env (cp_invocation p) = Inr inner \<and> confidentialInner env (cp_invocation p') = Inr inner'
    \<and> (clash env (hashed_lists env a (cp_mode p) inner) (hashed_lists env b (cp_mode p') inner')
       \<or> a\<lparr>ca_escrowClassHash := []\<rparr> = b\<lparr>ca_escrowClassHash := []\<rparr> \<and> cp_mode p = cp_mode p' \<and> inner = inner')"
proof -
  obtain a inner acts where r: "reviewed env p key a inner acts"
      "verifyConfidentialApproval env (cp_agreement p) (confidentialDigest env a (cp_mode p) inner) q"
    using authorize_Inr[OF assms(1)] assms(3) by blast
  obtain b inner' acts' where r': "reviewed env p' key' b inner' acts'"
      "verifyConfidentialApproval env (cp_agreement p') (confidentialDigest env b (cp_mode p') inner') q"
    using authorize_Inr[OF assms(2)] assms(4) by blast
  have "felt_int (confidentialDigest env a (cp_mode p) inner) = felt_int (confidentialDigest env b (cp_mode p') inner')"
    using approval_digest[OF r(2)] approval_digest[OF r'(2)] by simp
  note binds = digest_binds[OF reviewed_normal(1)[OF r(1)] reviewed_normal(1)[OF r'(1)] reviewed_normal(2)[OF r(1)]
    reviewed_normal(2)[OF r'(1)] this, of "[]"]
  show ?thesis
    using binds r(1) r'(1) unfolding reviewed_def by blast
qed

theorem approval_fits_one_operation_witness:
  "\<exists>inner. confidentialInner sample_conf_env (cp_invocation (sample_prepared ''0x50'')) = Inr inner
     \<and> confidentialInner sample_conf_env (cp_invocation (sample_prepared ''80'')) = Inr inner"
proof -
  obtain w w' where "authorizeConfidentialOperation sample_conf_env (sample_prepared ''0x50'') 5 sample_approvals = Inr w"
      "authorizeConfidentialOperation sample_conf_env (sample_prepared ''80'') 5 sample_approvals = Inr w'"
    using sample_both by blast
  from approval_fits_one_operation[OF this, of "hd sample_approvals"] show ?thesis
    by (auto simp: sample_approvals_def sample_no_clash)
qed

end
