(* ===== verification/Confidential_Submissions.thy ===== *)
theory Confidential_Submissions
  imports Confidential_Client Confidential_Review
begin

text \<open>
  The journal discipline of the confidential client: assertions about the stored journal and the log
  that hold before and after each operation, also when a call throws or a write is lost.
\<close>

section \<open>Assertions\<close>

type_synonym assertion = "conf_journal option \<Rightarrow> conf_event list \<Rightarrow> bool"

text \<open>From a world with \<open>P\<close> the action returns with \<open>Q\<close> or throws with \<open>E\<close>, whatever the answers are.\<close>

definition hoare :: "conf_oracle \<Rightarrow> assertion \<Rightarrow> 'a action \<Rightarrow> ('a \<Rightarrow> assertion) \<Rightarrow> assertion \<Rightarrow> bool" where
  "hoare orc P f Q E \<longleftrightarrow> (\<forall>w. P (wo_journal w) (wo_log w) \<longrightarrow>
     (case f orc w of
        (Inr x, w') \<Rightarrow> Q x (wo_journal w') (wo_log w')
      | (Inl e, w') \<Rightarrow> E (wo_journal w') (wo_log w')))"

named_theorems quiet_rules \<open>actions that change neither the journal nor the log\<close>

definition quiet :: "'a action \<Rightarrow> bool" where
  "quiet f \<longleftrightarrow> (\<forall>orc w. wo_journal (snd (f orc w)) = wo_journal w \<and> wo_log (snd (f orc w)) = wo_log w)"

lemma quiet_seq [quiet_rules]: "quiet f \<Longrightarrow> (\<And>x. quiet (g x)) \<Longrightarrow> quiet (seq f g)"
  unfolding quiet_def seq_def by (auto split: prod.splits sum.splits) (metis snd_conv)+

lemma quiet_basic [quiet_rules]: "quiet (give x)" "quiet (fail m)" "quiet (lift_r r)" "quiet (check b m)" "quiet (ask q)" "quiet load"
  by (simp_all add: quiet_def give_def fail_def lift_r_def check_def ask_def load_def seq_def split: sum.splits)

lemma quiet_if [quiet_rules]: "(b \<Longrightarrow> quiet f) \<Longrightarrow> (\<not> b \<Longrightarrow> quiet g) \<Longrightarrow> quiet (if b then f else g)"
  by simp

lemma quiet_safe [quiet_rules]: "quiet f \<Longrightarrow> quiet (or_safe f m)"
  unfolding quiet_def or_safe_def by (auto split: prod.splits sum.splits) (metis snd_conv)+

lemma quiet_inspect [quiet_rules]: "quiet (inspectConfidentialDeployment env a)"
  unfolding inspectConfidentialDeployment_def by (intro quiet_rules)

lemma quiet_journal [quiet_rules]: "quiet (journal c)"
  unfolding journal_def Let_def by (intro quiet_rules)

lemma quiet_snapshot [quiet_rules]: "quiet (snapshot env c)"
  unfolding snapshot_def Let_def by (intro quiet_rules)

lemma quiet_prepare [quiet_rules]: "quiet (prepare env c mode)"
  unfolding prepare_def Let_def by (intro quiet_rules)

lemma quiet_approve [quiet_rules]: "quiet (approve env c p role sign)"
  unfolding approve_def by (intro quiet_rules)

lemma quiet_funding [quiet_rules]: "quiet (funding env c role)"
  unfolding funding_def Let_def by (intro quiet_rules)

lemma quiet_validity [quiet_rules]: "quiet (check_validity env proof block current)"
proof (cases block)
  case (Some nb)
  then obtain n b where nb: "block = Some (n, b)" by (cases nb) auto
  have q: "quiet (case as_integer (dp_block current) of None \<Rightarrow> fail ''RangeError'' | Some b \<Rightarrow> check (B b) m)" for B :: "int \<Rightarrow> bool" and m
    by (cases "as_integer (dp_block current)") (simp_all add: quiet_rules)
  show ?thesis
    unfolding check_validity_def nb by (simp, intro quiet_rules q)
qed (simp add: check_validity_def quiet_rules)

lemma quiet_ignoring [quiet_rules]: "quiet f \<Longrightarrow> quiet (ignoring f)"
  unfolding ignoring_def by (intro quiet_rules)

lemma hoare_quiet: "quiet f \<Longrightarrow> hoare orc P f (\<lambda>_. P) P"
  unfolding hoare_def quiet_def by (auto split: prod.splits sum.splits) (metis snd_conv)+

lemma hoare_seq: "hoare orc P f Q E \<Longrightarrow> (\<And>x. hoare orc (Q x) (g x) R E) \<Longrightarrow> hoare orc P (seq f g) R E"
  unfolding hoare_def seq_def by (fastforce split: prod.splits sum.splits)

lemma hoare_weaken:
  "hoare orc P' f Q' E' \<Longrightarrow> (\<And>s l. P s l \<Longrightarrow> P' s l) \<Longrightarrow> (\<And>x s l. Q' x s l \<Longrightarrow> Q x s l) \<Longrightarrow> (\<And>s l. E' s l \<Longrightarrow> E s l)
    \<Longrightarrow> hoare orc P f Q E"
  unfolding hoare_def by (fastforce split: prod.splits sum.splits)

lemma hoare_seq_quiet:
  "quiet f \<Longrightarrow> (\<And>x. hoare orc P (g x) R E) \<Longrightarrow> (\<And>s l. P s l \<Longrightarrow> E s l) \<Longrightarrow> hoare orc P (seq f g) R E"
  by (rule hoare_seq[of orc P f "\<lambda>_. P"], rule hoare_weaken[OF hoare_quiet[of f orc P]]) auto

lemma hoare_seq_note:
  "(\<And>s l. P s l \<Longrightarrow> Q s (e # l)) \<Longrightarrow> hoare orc Q (g ()) R E \<Longrightarrow> hoare orc P (seq (note_event e) g) R E"
  by (auto simp: hoare_def seq_def note_event_def)

lemma hoare_seq_save:
  "(\<And>s l. P s l \<Longrightarrow> Q (Some j) l \<and> E (Some j) l \<and> E s l) \<Longrightarrow> hoare orc Q (g ()) R E \<Longrightarrow> hoare orc P (seq (save j) g) R E"
  by (auto simp: hoare_def seq_def save_def Let_def split: save_outcome.splits)

lemma hoare_seq_check:
  "(\<And>s l. P s l \<Longrightarrow> b \<Longrightarrow> E s l) \<Longrightarrow> (\<not> b \<Longrightarrow> hoare orc P (g ()) R E) \<Longrightarrow> hoare orc P (seq (check b m) g) R E"
  by (auto simp: hoare_def seq_def check_def fail_def give_def)

lemma hoare_ignoring: "hoare orc P f (\<lambda>_. P) P \<Longrightarrow> hoare orc P (ignoring f) (\<lambda>_. P) P"
  unfolding ignoring_def by (erule hoare_seq) (intro hoare_quiet quiet_rules)

lemma hoare_note: "(\<And>s l. P s l \<Longrightarrow> Q () s (e # l)) \<Longrightarrow> hoare orc P (note_event e) Q E"
  by (simp add: hoare_def note_event_def)

lemma hoare_save:
  "(\<And>s l. P s l \<Longrightarrow> Q () (Some j) l \<and> E (Some j) l \<and> E s l) \<Longrightarrow> hoare orc P (save j) Q E"
  by (auto simp: hoare_def save_def Let_def split: save_outcome.splits)

lemma hoare_check: "(\<And>s l. P s l \<Longrightarrow> if b then E s l else Q () s l) \<Longrightarrow> hoare orc P (check b m) Q E"
  by (auto simp: hoare_def check_def fail_def give_def)

lemma hoare_fail: "(\<And>s l. P s l \<Longrightarrow> E s l) \<Longrightarrow> hoare orc P (fail m) Q E"
  by (auto simp: hoare_def fail_def)

lemma hoare_give: "(\<And>s l. P s l \<Longrightarrow> Q x s l) \<Longrightarrow> hoare orc P (give x) Q E"
  by (auto simp: hoare_def give_def)

text \<open>What \<open>journal\<close> returns is what is stored, or a new journal when nothing is.\<close>

lemma hoare_journal:
  "hoare orc P (journal c) (\<lambda>j s l. P s l \<and> (s = Some j \<or> s = None \<and> jo_pending j = None)) P"
  by (auto simp: hoare_def journal_def load_def seq_def ask_def Let_def fail_def give_def lift_r_def emptyJournal_def
      split: sum.splits option.splits prod.splits if_splits)

section \<open>The log\<close>

text \<open>
  The log is newest first. \<open>last_answer\<close> is the hash the submitter returned for the last submission;
  the last submission is settled when a receipt of that hash was seen to succeed or revert.
\<close>

fun last_answer :: "conf_event list \<Rightarrow> string option" where
  "last_answer [] = None"
| "last_answer (Answered h # es) = Some h"
| "last_answer (Submitted i m x # es) = None"
| "last_answer (Observed h r # es) = last_answer es"

fun last_submitted :: "conf_event list \<Rightarrow> (string \<times> string) option" where
  "last_submitted [] = None"
| "last_submitted (Submitted i m x # es) = Some (i, m)"
| "last_submitted (_ # es) = last_submitted es"

fun settled :: "conf_event list \<Rightarrow> bool" where
  "settled [] = True"
| "settled (Submitted i m x # es) = False"
| "settled (Answered h # es) = settled es"
| "settled (Observed h r # es) = (settled es \<or> r \<noteq> Undecided \<and> last_answer es = Some h)"

fun orderly :: "conf_event list \<Rightarrow> bool" where
  "orderly [] = True"
| "orderly (Submitted i m x # es) = (settled es \<and> orderly es)"
| "orderly (_ # es) = orderly es"

lemma orderly_split: "orderly (newer @ Submitted i m x # older) \<Longrightarrow> settled older"
proof (induction newer)
  case (Cons e es)
  then show ?case by (cases e) auto
qed simp

text \<open>While a submission is not settled, the stored journal names it and, once known, its hash.\<close>

definition names_open :: assertion where
  "names_open s l \<longleftrightarrow> (\<exists>j t. s = Some j \<and> jo_pending j = Some t \<and> last_submitted l = Some (at_id t, at_mode t)
     \<and> (\<forall>h. at_hash t = Some h \<longrightarrow> last_answer l = Some h))"

definition disciplined :: assertion where
  "disciplined s l \<longleftrightarrow> orderly l \<and> (settled l \<or> names_open s l)"

lemma disciplined_observed: "disciplined s l \<Longrightarrow> disciplined s (Observed h r # l)"
  by (auto simp: disciplined_def names_open_def)

definition no_pending :: assertion where
  "no_pending s l \<longleftrightarrow> (case s of None \<Rightarrow> True | Some j \<Rightarrow> jo_pending j = None)"

lemma disciplined_no_pending: "disciplined s l \<Longrightarrow> no_pending s l \<Longrightarrow> settled l"
  by (auto simp: disciplined_def names_open_def no_pending_def)

lemma settled_disciplined: "settled l \<Longrightarrow> orderly l \<Longrightarrow> disciplined s l"
  by (simp add: disciplined_def)

lemma resolve_disciplined:
  assumes "jo_pending j = Some t" "at_hash t = Some h"
  shows "hoare orc (\<lambda>s l. disciplined s l \<and> s = Some j) (resolve_attempt env c j t h)
    (\<lambda>_ s l. disciplined s l \<and> no_pending s l) disciplined"
  unfolding resolve_attempt_def
proof (rule hoare_seq_quiet)
  fix r
  let ?D = "\<lambda>s l. disciplined s l \<and> (r \<noteq> Undecided \<longrightarrow> settled l)"
  have o: "?D s (Observed h r # l)" if "disciplined s l \<and> s = Some j" for s l
    using that assms disciplined_observed by (auto simp: disciplined_def names_open_def)
  have q: "quiet (if r = Succeeded \<and> at_mode t = ''settle''
      then seq (inspectConfidentialDeployment env (cc_agreement c)) (\<lambda>d. check (\<not> dp_settled d) m) else give ())" for m
    by (intro quiet_rules)
  show "hoare orc (\<lambda>s l. disciplined s l \<and> s = Some j)
     (seq (note_event (Observed h r)) (\<lambda>_.
     seq (check (r = Undecided) ''Submission is still pending.'') (\<lambda>_.
     seq (if r = Succeeded \<and> at_mode t = ''settle''
       then seq (inspectConfidentialDeployment env (cc_agreement c)) (\<lambda>d.
         check (\<not> dp_settled d) ''Successful receipt did not settle this escrow.'') else give ()) (\<lambda>_.
     save (j\<lparr>jo_pending := None, jo_confirmed := (if r = Succeeded then jo_confirmed j @ [t] else jo_confirmed j)\<rparr>)))))
     (\<lambda>_ s l. disciplined s l \<and> no_pending s l) disciplined"
    by (rule hoare_seq_note[where Q = ?D, OF o], assumption, rule hoare_seq_check, simp, rule hoare_seq_quiet[OF q], rule hoare_save)
      (auto simp: disciplined_def no_pending_def)
qed (auto intro: quiet_rules)

lemma reconcile_disciplined:
  "hoare orc disciplined (reconcileUnlocked env c) (\<lambda>_ s l. disciplined s l \<and> no_pending s l) disciplined"
  unfolding reconcileUnlocked_def
proof (rule hoare_seq[OF hoare_journal])
  fix j
  show "hoare orc (\<lambda>s l. disciplined s l \<and> (s = Some j \<or> s = None \<and> jo_pending j = None)) (case jo_pending j of None \<Rightarrow> give ()
     | Some t \<Rightarrow> (case at_hash t of
            None \<Rightarrow> fail ''Unknown submission outcome. Inspect the relayer account before repairing the journal; do not retry blindly.''
          | Some h \<Rightarrow> resolve_attempt env c j t h)) (\<lambda>_ s l. disciplined s l \<and> no_pending s l) disciplined"
  proof (cases "jo_pending j")
    case None
    then show ?thesis
      by (auto intro!: hoare_give simp: no_pending_def split: option.splits)
  next
    case (Some t)
    then show ?thesis
      by (cases "at_hash t") (auto intro!: hoare_fail hoare_weaken[OF resolve_disciplined])
  qed
qed

lemma await_disciplined: "hoare orc disciplined (await_outcome env c tx h) (\<lambda>_. disciplined) disciplined"
  unfolding await_outcome_def
  by (rule hoare_seq_quiet[OF quiet_basic(5)],
      rule hoare_seq[where Q = "\<lambda>_. disciplined"], rule hoare_weaken[OF reconcile_disciplined])
    (auto intro!: hoare_seq_quiet quiet_rules hoare_seq_note[where Q = disciplined] hoare_seq_check hoare_give disciplined_observed)

lemma send_disciplined:
  assumes "at_hash pending = None"
  shows "hoare orc (\<lambda>s l. orderly l \<and> settled l \<and> (\<exists>j. s = Some j \<and> jo_pending j = Some pending))
    (send_attempt env c j pending payload) (\<lambda>_. disciplined) disciplined"
proof -
  let ?opened = "\<lambda>a s l. orderly l \<and> (\<exists>j. s = Some j \<and> jo_pending j = Some pending)
    \<and> last_submitted l = Some (at_id pending, at_mode pending) \<and> last_answer l = a"
  have opened: "disciplined s l" if "?opened a s l" for a s l
    using that assms by (auto simp: disciplined_def names_open_def)
  show ?thesis
    unfolding send_attempt_def
    apply (rule hoare_seq_note[where Q = "?opened None"], simp)
    apply (rule hoare_seq_quiet[OF quiet_safe[OF quiet_basic(5)]])
     apply (rule hoare_seq_quiet[OF quiet_basic(3)])
      apply (rule hoare_seq_note[where Q = "?opened (Some h)" for h], simp)
      apply (rule hoare_seq_save[OF _ await_disciplined])
      apply (use opened assms in \<open>auto simp: disciplined_def names_open_def\<close>)
    done
qed

lemma broadcast_disciplined: "hoare orc disciplined (broadcast env c mode ident payload) (\<lambda>_. disciplined) disciplined"
proof -
  let ?saved = "\<lambda>s l. orderly l \<and> settled l
    \<and> (\<exists>j. s = Some j \<and> jo_pending j = Some \<lparr>at_id = ident, at_mode = mode, at_hash = None\<rparr>)"
  have "settled l \<and> orderly l" if "disciplined s l" "no_pending s l" for s l
    using disciplined_no_pending[OF that] that by (simp add: disciplined_def)
  then show ?thesis
    unfolding broadcast_def Let_def
    by (intro hoare_seq_check hoare_seq[OF reconcile_disciplined] hoare_seq_quiet[OF quiet_journal]
        hoare_seq_save[where Q = ?saved] send_disciplined) (auto simp: disciplined_def)
qed

section \<open>Assertions every operation keeps\<close>

abbreviation keeps :: "conf_oracle \<Rightarrow> assertion \<Rightarrow> 'a action \<Rightarrow> bool" where
  "keeps orc P f \<equiv> hoare orc P f (\<lambda>_. P) P"

lemma keeps_after: "keeps orc P f \<Longrightarrow> P (wo_journal w) (wo_log w) \<Longrightarrow> P (wo_journal (snd (f orc w))) (wo_log (snd (f orc w)))"
  unfolding hoare_def by (drule spec[of _ w]) (auto split: prod.splits sum.splits)

lemma keeps_seq: "keeps orc P f \<Longrightarrow> (\<And>x. keeps orc P (g x)) \<Longrightarrow> keeps orc P (seq f g)"
  by (rule hoare_seq)

lemma quiet_block [quiet_rules]:
  "quiet (case b of None \<Rightarrow> fail m | Some (number, blockHash) \<Rightarrow> if blockHash = [] then fail m' else give (Some (number, blockHash)))"
  by (auto intro!: quiet_rules split: option.splits)

lemma prove_keeps:
  assumes "keeps orc P (reconcileUnlocked env c)"
  shows "keeps orc P (proveUnlocked env c p qs)"
  unfolding proveUnlocked_def Let_def
  by (intro keeps_seq[OF hoare_quiet] keeps_seq[OF assms] hoare_quiet quiet_rules)

lemma perform_keeps:
  assumes r: "keeps orc P (reconcileUnlocked env c)" and b: "\<And>mode ident payload. keeps orc P (broadcast env c mode ident payload)"
  shows "keeps orc P (perform env c x)"
proof -
  have "keeps orc P (execute env c p qs)" for p qs
    unfolding execute_def by (intro keeps_seq[OF hoare_quiet] keeps_seq[OF prove_keeps[OF r]] b quiet_rules)
  moreover have "keeps orc P (fund env c role)" for role
    unfolding fund_def by (intro keeps_seq[OF hoare_quiet[of "check _ _"]] keeps_seq[OF r] keeps_seq[OF hoare_quiet[of "funding _ _ _"]] b quiet_rules)
  moreover have "keeps orc P (snapshot env c)" "keeps orc P (prepare env c mode)" "keeps orc P (approve env c p role sign)"
    for mode p role sign
    by (intro hoare_quiet quiet_rules)+
  ultimately show ?thesis
    using r prove_keeps[OF r] by (cases x) (simp_all add: hoare_ignoring)
qed

lemma run_keeps:
  assumes "\<And>c. keeps orc P (reconcileUnlocked env c)" and "\<And>c mode ident payload. keeps orc P (broadcast env c mode ident payload)"
    and "P (wo_journal w) (wo_log w)"
  shows "P (wo_journal (run env orc xs w)) (wo_log (run env orc xs w))"
  using assms(3)
proof (induction xs arbitrary: w)
  case (Cons y xs)
  obtain c x where y: "y = (c, x)" by (cases y) auto
  have "keeps orc P (perform env c x)"
    by (rule perform_keeps[OF assms(1,2)])
  then have "P (wo_journal (snd (perform env c x orc w))) (wo_log (snd (perform env c x orc w)))"
    using Cons(2) by (rule keeps_after)
  then show ?case
    using Cons(1) by (simp add: y)
qed simp

lemma reconcile_keeps_disciplined: "keeps orc disciplined (reconcileUnlocked env c)"
  by (rule hoare_weaken[OF reconcile_disciplined]) auto

text \<open>A pending attempt whose hash is not known stops every submission.\<close>

definition stuck :: "conf_journal \<Rightarrow> conf_event list \<Rightarrow> assertion" where
  "stuck j l0 s l \<longleftrightarrow> s = Some j \<and> l = l0"

lemma reconcile_stuck:
  assumes "jo_pending j = Some t" "at_hash t = None"
  shows "hoare orc (stuck j l) (reconcileUnlocked env c) (\<lambda>_ _ _. False) (stuck j l)"
  unfolding reconcileUnlocked_def
proof (rule hoare_seq[OF hoare_journal])
  fix k
  show "hoare orc (\<lambda>s m. stuck j l s m \<and> (s = Some k \<or> s = None \<and> jo_pending k = None)) (case jo_pending k of None \<Rightarrow> give ()
     | Some t \<Rightarrow> (case at_hash t of
            None \<Rightarrow> fail ''Unknown submission outcome. Inspect the relayer account before repairing the journal; do not retry blindly.''
          | Some h \<Rightarrow> resolve_attempt env c k t h)) (\<lambda>_ _ _. False) (stuck j l)"
    using assms by (cases "k = j") (auto simp: hoare_def stuck_def fail_def)
qed

lemma run_stuck:
  assumes "jo_pending j = Some t" "at_hash t = None" "wo_journal w = Some j"
  shows "wo_journal (run env orc xs w) = Some j \<and> wo_log (run env orc xs w) = wo_log w"
proof -
  have r: "keeps orc (stuck j (wo_log w)) (reconcileUnlocked env c)" for c
    by (rule hoare_weaken[OF reconcile_stuck[OF assms(1,2)]]) auto
  have "keeps orc (stuck j (wo_log w)) (broadcast env c mode ident payload)" for c mode ident payload
    unfolding broadcast_def
    by (rule hoare_seq_check, assumption, rule hoare_seq[OF reconcile_stuck[OF assms(1,2)]]) (simp add: hoare_def)
  from run_keeps[of orc "stuck j (wo_log w)", OF r this] assms(3) show ?thesis
    by (simp add: stuck_def)
qed

section \<open>What is submitted\<close>

text \<open>What an action that returned did, step by step.\<close>

lemma seq_Inr: "seq f g orc w = (Inr y, w'') \<longleftrightarrow> (\<exists>x w'. f orc w = (Inr x, w') \<and> g x orc w' = (Inr y, w''))"
  by (auto simp: seq_def split: prod.splits sum.splits)

lemma seq_assoc: "seq (seq f g) h = seq f (\<lambda>x. seq (g x) h)"
  by (simp add: seq_def fun_eq_iff split: prod.split sum.split)

lemma basic_Inr: "lift_r r orc w = (Inr x, w') \<longleftrightarrow> r = Inr x \<and> w' = w" "check b m orc w = (Inr u, w') \<longleftrightarrow> \<not> b \<and> w' = w"
  "give x orc w = (Inr y, w') \<longleftrightarrow> y = x \<and> w' = w" "fail m orc w = (Inr y, w') \<longleftrightarrow> False"
  "ask q orc w = (Inr y, w') \<longleftrightarrow> q orc (wo_calls w) = Inr y \<and> w' = w\<lparr>wo_calls := wo_calls w + 1\<rparr>"
  "or_safe f m orc w = (Inr y, w') \<longleftrightarrow> f orc w = (Inr y, w')"
  by (auto simp: lift_r_def check_def fail_def give_def ask_def or_safe_def split: prod.splits sum.splits)

text \<open>What the chain reported as the \<open>n\<close>-th answer, and that it was a time for the mode.\<close>

definition reported :: "client_env \<Rightarrow> conf_agreement \<Rightarrow> conf_oracle \<Rightarrow> nat \<Rightarrow> conf_mode \<Rightarrow> deployment \<Rightarrow> bool" where
  "reported env v orc n mode d \<longleftrightarrow> (\<exists>a r. normalizeConfidentialAgreement (conf_env.truncate env) v = Inr a
     \<and> or_deployment orc n = Inr r \<and> deployment_of env a r = Inr d \<and> checkTime v mode (dp_settled d) (dp_timestamp d) = Inr ())"

lemma inspect_Inr:
  assumes "inspectConfidentialDeployment env v orc w = (Inr d, w')" "checkTime v mode (dp_settled d) (dp_timestamp d) = Inr ()"
  shows "reported env v orc (wo_calls w) mode d" "w' = w\<lparr>wo_calls := wo_calls w + 1\<rparr>"
  using assms by (auto simp: inspectConfidentialDeployment_def seq_Inr basic_Inr reported_def split: if_splits)

text \<open>The log grows, and its new submissions satisfy a predicate.\<close>

definition grows :: "conf_event list \<Rightarrow> (string \<Rightarrow> string \<Rightarrow> submission \<Rightarrow> bool) \<Rightarrow> assertion" where
  "grows l0 good s l \<longleftrightarrow> (\<exists>new. l = new @ l0 \<and> (\<forall>i m x. Submitted i m x \<in> set new \<longrightarrow> good i m x))"

lemma grows_Cons: "grows l0 good s l \<Longrightarrow> (\<And>i m x. e = Submitted i m x \<Longrightarrow> good i m x) \<Longrightarrow> grows l0 good t (e # l)"
  unfolding grows_def by (metis append_Cons set_ConsD)

lemma grows_journal: "grows l0 good s l \<Longrightarrow> grows l0 good t l"
  by (simp add: grows_def)

lemma reconcile_grows: "keeps orc (grows l0 good) (reconcileUnlocked env c)"
proof -
  have "keeps orc (grows l0 good) (resolve_attempt env c j t h)" for j t h
    unfolding resolve_attempt_def
    by (rule hoare_seq_quiet[OF quiet_basic(5)], rule hoare_seq_note[where Q = "grows l0 good"],
        erule grows_Cons, simp, rule hoare_seq_check, assumption, rule hoare_seq_quiet)
      (auto intro!: quiet_rules hoare_save intro: grows_journal)
  then have k: "keeps orc (grows l0 good) (case jo_pending j of None \<Rightarrow> give ()
     | Some t \<Rightarrow> (case at_hash t of None \<Rightarrow> fail m | Some h \<Rightarrow> resolve_attempt env c j t h))" for j m
    by (auto intro!: hoare_give hoare_fail split: option.splits)
  show ?thesis
    unfolding reconcileUnlocked_def by (rule hoare_seq_quiet[OF quiet_journal k]) assumption
qed

lemma await_grows: "keeps orc (grows l0 good) (await_outcome env c tx h)"
  unfolding await_outcome_def
  by (rule hoare_seq_quiet[OF quiet_basic(5)], rule hoare_seq[OF reconcile_grows])
    (auto intro!: hoare_seq_quiet quiet_rules hoare_seq_note[where Q = "grows l0 good"] hoare_seq_check hoare_give elim: grows_Cons)

lemma broadcast_grows:
  assumes "\<not> cc_proofOnly c \<Longrightarrow> good ident mode payload"
  shows "keeps orc (grows l0 good) (broadcast env c mode ident payload)"
proof -
  have "keeps orc (grows l0 good) (send_attempt env c j \<lparr>at_id = ident, at_mode = mode, at_hash = None\<rparr> payload)"
    if "\<not> cc_proofOnly c" for j
    unfolding send_attempt_def
    using assms[OF that] await_grows
    by (auto intro!: hoare_seq_note[where Q = "grows l0 good"] hoare_seq_quiet quiet_rules hoare_seq_save[where Q = "grows l0 good"]
        elim: grows_Cons intro: grows_journal)
  then show ?thesis
    unfolding broadcast_def Let_def
    by (intro hoare_seq_check hoare_seq[OF reconcile_grows] hoare_seq_quiet[OF quiet_journal] hoare_seq_save[where Q = "grows l0 good"])
      (auto intro: grows_journal)
qed

text \<open>
  What an execution may submit that starts in the world \<open>w\<close>, its external calls being numbered. After
  the reconciliation nothing is pending; the chain, asked in that very moment, allows the mode; the
  prover is then asked for a proof of the invocation that the parties authorized (on mainnet for the
  block that the call before returned), and its answer is verified; the chain is asked again after
  that, allows the mode, and on mainnet the block is still valid. The submission is the verified one.
\<close>

definition pinned_block :: "conf_client \<Rightarrow> conf_oracle \<Rightarrow> nat \<Rightarrow> (string \<times> string) option \<Rightarrow> bool" where
  "pinned_block c orc n block \<longleftrightarrow>
     (if cc_mainnet c then block \<noteq> None \<and> or_provingBlock orc n = Inr block \<and> snd (the block) \<noteq> [] else block = None)"

definition still_valid :: "conf_oracle \<Rightarrow> nat \<Rightarrow> conf_proof \<Rightarrow> (string \<times> string) option \<Rightarrow> deployment \<Rightarrow> bool" where
  "still_valid orc n proof block d \<longleftrightarrow> (\<forall>number hash. block = Some (number, hash) \<longrightarrow>
     sameFelt (pf_facts proof ! 4) number = Inr True \<and> sameFelt (pf_facts proof ! 5) hash = Inr True
     \<and> (\<exists>v blocks k b. or_validity orc n = Inr [v] \<and> js_BigInt v = Inr blocks \<and> js_BigInt number = Inr k
          \<and> as_integer (dp_block d) = Some b \<and> 0 < blocks \<and> b \<le> k + blocks))"

definition agreed_execution ::
  "client_env \<Rightarrow> conf_client \<Rightarrow> conf_oracle \<Rightarrow> conf_world \<Rightarrow> conf_prepared \<Rightarrow> conf_approval list \<Rightarrow> submission \<Rightarrow> bool" where
  "agreed_execution env c orc w p qs x \<longleftrightarrow>
     normalizeConfidentialAgreement (conf_env.truncate env) (cp_agreement p) = Inr (cc_agreement c)
     \<and> (\<exists>w1 d invocation block n proof current. reconcileUnlocked env c orc w = (Inr (), w1) \<and> no_pending (wo_journal w1) (wo_log w1)
          \<and> reported env (cc_agreement c) orc (wo_calls w1) (cp_mode p) d
          \<and> authorizeConfidentialOperation (conf_env.truncate env) p (cc_key c) qs = Inr invocation
          \<and> pinned_block c orc (wo_calls w1 + 1) block \<and> n = wo_calls w1 + (if cc_mainnet c then 2 else 1)
          \<and> or_prove orc n invocation (map_option snd block) = Inr proof \<and> verifyProof env c proof (cp_mode p) = Inr x
          \<and> reported env (cc_agreement c) orc (n + 1) (cp_mode p) current \<and> still_valid orc (n + 2) proof block current)"

text \<open>
  What a funding may submit: the snapshot taken after the reconciliation shows a registered escrow
  without a pending attempt before its deadline, and the amount is what the side still lacks in it.
\<close>

definition agreed_funding :: "client_env \<Rightarrow> conf_client \<Rightarrow> conf_oracle \<Rightarrow> conf_world \<Rightarrow> conf_role \<Rightarrow> submission \<Rightarrow> bool" where
  "agreed_funding env c orc w role x \<longleftrightarrow> (\<exists>w1 s w2. reconcileUnlocked env c orc w = (Inr (), w1) \<and> snapshot env c orc w1 = (Inr s, w2)
     \<and> sn_registered s \<and> sn_pending s = None
     \<and> checkTime (cc_agreement c) Settle (sn_settled s) (sn_timestamp s) = Inr ()
     \<and> (let t = ca_terms (cc_agreement c); token = (case role of PartyA \<Rightarrow> ct_tokenA t | PartyB \<Rightarrow> ct_tokenB t);
            amount = (case role of PartyA \<Rightarrow> felt_int (ct_amountA t) - sn_balanceA s | PartyB \<Rightarrow> felt_int (ct_amountB t) - sn_balanceB s)
        in 0 < amount \<and> x = Transfer token (ca_address (cc_agreement c)) amount))"

lemma reconcile_no_pending: "hoare orc (\<lambda>_ _. True) (reconcileUnlocked env c) (\<lambda>_. no_pending) (\<lambda>_ _. True)"
  unfolding reconcileUnlocked_def
proof (rule hoare_seq[OF hoare_journal])
  fix j
  have r: "hoare orc (\<lambda>_ _. True) (resolve_attempt env c j t h) (\<lambda>_. no_pending) (\<lambda>_ _. True)" for t h
    unfolding resolve_attempt_def
    by (intro hoare_seq[of _ _ _ "\<lambda>_ _ _. True"] hoare_save) (auto simp: hoare_def no_pending_def split: prod.splits sum.splits)
  show "hoare orc (\<lambda>s l. True \<and> (s = Some j \<or> s = None \<and> jo_pending j = None)) (case jo_pending j of None \<Rightarrow> give ()
     | Some t \<Rightarrow> (case at_hash t of
            None \<Rightarrow> fail ''Unknown submission outcome. Inspect the relayer account before repairing the journal; do not retry blindly.''
          | Some h \<Rightarrow> resolve_attempt env c j t h)) (\<lambda>_. no_pending) (\<lambda>_ _. True)"
  proof (cases "jo_pending j")
    case None
    then show ?thesis
      by (auto intro!: hoare_give simp: no_pending_def split: option.splits)
  next
    case (Some t)
    then show ?thesis
      by (cases "at_hash t") (auto intro!: hoare_fail hoare_weaken[OF r])
  qed
qed

lemma reconciled: "reconcileUnlocked env c orc w = (Inr (), w1) \<Longrightarrow> no_pending (wo_journal w1) (wo_log w1)"
  using reconcile_no_pending[of orc env c] unfolding hoare_def by (auto dest: spec[of _ w])

lemma all_same_Inr: "all_same bs message = Inr () \<longleftrightarrow> list_all (\<lambda>b. b = Inr True) bs"
  by (induction bs) auto

lemma validity_Inr: "check_validity env proof block d orc w = (Inr (), w') \<Longrightarrow> still_valid orc (wo_calls w) proof block d"
  by (auto simp: check_validity_def still_valid_def seq_Inr basic_Inr length_Suc_conv all_same_Inr not_le not_less
      split: option.splits prod.splits if_splits)

lemma block_Inr:
  "(if cc_mainnet c then seq (ask or_provingBlock) (\<lambda>b.
       case b of None \<Rightarrow> fail m | Some (number, blockHash) \<Rightarrow> if blockHash = [] then fail m' else give (Some (number, blockHash)))
     else give None) orc w = (Inr block, w')
   \<Longrightarrow> pinned_block c orc (wo_calls w) block \<and> w' = w\<lparr>wo_calls := wo_calls w + (if cc_mainnet c then 1 else 0)\<rparr>"
  (is "?ask orc w = _ \<Longrightarrow> _")
proof (cases "cc_mainnet c")
  case True
  assume "?ask orc w = (Inr block, w')"
  then obtain b where b: "or_provingBlock orc (wo_calls w) = Inr b" and
      r: "(case b of None \<Rightarrow> fail m | Some (number, blockHash) \<Rightarrow> if blockHash = [] then fail m' else give (Some (number, blockHash))) orc
        (w\<lparr>wo_calls := wo_calls w + 1\<rparr>) = (Inr block, w')"
    using True by (auto simp: seq_Inr basic_Inr)
  show ?thesis
  proof (cases b)
    case (Some nh)
    then show ?thesis
      using True b r by (cases nh) (auto simp: pinned_block_def basic_Inr split: if_splits)
  qed (use r in \<open>simp add: basic_Inr\<close>)
qed (simp add: basic_Inr pinned_block_def)

lemma ex_unit: "(\<exists>u::unit. P u) \<longleftrightarrow> P ()"
proof
  assume "\<exists>u. P u"
  then obtain u where "P u" ..
  then show "P ()"
    by (cases u) simp
qed blast

lemma checked_execution:
  assumes "sameAgreement env c p = Inr ()" and r: "reconcileUnlocked env c orc w = (Inr (), w1)"
    and i: "inspectConfidentialDeployment env (cc_agreement c) orc w1 = (Inr d, w2)"
      "checkTime (cc_agreement c) (cp_mode p) (dp_settled d) (dp_timestamp d) = Inr ()"
    and "authorizeConfidentialOperation (conf_env.truncate env) p (cc_key c) qs = Inr invocation"
    and "pinned_block c orc (wo_calls w2) block" "w3 = w2\<lparr>wo_calls := wo_calls w2 + (if cc_mainnet c then 1 else 0)\<rparr>"
    and "or_prove orc (wo_calls w3) invocation (map_option snd block) = Inr pf"
    and j: "inspectConfidentialDeployment env (cc_agreement c) orc (w3\<lparr>wo_calls := wo_calls w3 + 1\<rparr>) = (Inr current, w4)"
      "checkTime (cc_agreement c) (cp_mode p) (dp_settled current) (dp_timestamp current) = Inr ()"
    and v: "check_validity env pf block current orc w4 = (Inr (), w5)" and "verifyProof env c pf (cp_mode p) = Inr x"
  shows "agreed_execution env c orc w p qs x"
proof -
  have "normalizeConfidentialAgreement (conf_env.truncate env) (cp_agreement p) = Inr (cc_agreement c)"
    using assms(1) by (auto simp: sameAgreement_def split: if_splits)
  then show ?thesis
    using assms reconciled[OF r] inspect_Inr[OF i] inspect_Inr[OF j] validity_Inr[OF v] unfolding agreed_execution_def
    by (intro conjI exI[of _ w1] exI[of _ d] exI[of _ invocation] exI[of _ block] exI[of _ "wo_calls w3"] exI[of _ pf]
        exI[of _ current]) simp_all
qed

lemma prove_Inr: "proveUnlocked env c p qs orc w = (Inr x, w') \<Longrightarrow> agreed_execution env c orc w p qs x"
  unfolding proveUnlocked_def Let_def seq_Inr basic_Inr ex_unit
  by (elim exE conjE, drule block_Inr, elim conjE, hypsubst_thin) (rule checked_execution; (assumption | rule refl))

lemma funding_Inr:
  "seq (reconcileUnlocked env c) (\<lambda>_. funding env c role) orc w = (Inr x, w') \<Longrightarrow> agreed_funding env c orc w role x"
  unfolding agreed_funding_def funding_def Let_def seq_Inr basic_Inr not_le not_not de_Morgan_disj
  by (elim exE conjE) (intro exI conjI; (assumption | simp))

text \<open>
  An action that first checks and then submits what it checked: the checks leave no submission in
  the log, and what is submitted after them is what they returned.
\<close>

lemma submits_checked:
  assumes "\<And>l0. keeps orc (grows l0 (\<lambda>_ _ _. False)) f"
    and "\<And>x l0. keeps orc (grows l0 (\<lambda>i m y. i = ident \<and> m = mode \<and> y = x)) (g x)"
  shows "\<exists>w' mid new. wo_log w' = mid @ wo_log w \<and> wo_log (snd (seq f g orc w)) = new @ wo_log w'
    \<and> (\<forall>i m x. Submitted i m x \<notin> set mid)
    \<and> (\<forall>i m x. Submitted i m x \<in> set new \<longrightarrow> f orc w = (Inr x, w') \<and> i = ident \<and> m = mode)"
proof -
  obtain r w' where f: "f orc w = (r, w')"
    by (cases "f orc w")
  obtain mid where mid: "wo_log w' = mid @ wo_log w" "\<forall>i m x. Submitted i m x \<notin> set mid"
    using keeps_after[OF assms(1), of "wo_log w" w] f by (auto simp: grows_def)
  show ?thesis
  proof (cases r)
    case (Inl e)
    then show ?thesis
      using f mid by (intro exI[of _ w'] exI[of _ mid] exI[of _ "[]"]) (simp add: seq_def)
  next
    case (Inr x)
    obtain new where "wo_log (snd (g x orc w')) = new @ wo_log w'"
        "\<forall>i m y. Submitted i m y \<in> set new \<longrightarrow> i = ident \<and> m = mode \<and> y = x"
      using keeps_after[OF assms(2), of "wo_log w'" x w'] by (auto simp: grows_def)
    then show ?thesis
      using f mid Inr by (intro exI[of _ w'] exI[of _ mid] exI[of _ new]) (simp add: seq_def)
  qed
qed

lemma ignoring_log: "wo_log (snd (ignoring f orc w)) = wo_log (snd (f orc w))"
  by (auto simp: ignoring_def seq_def give_def split: prod.splits sum.splits)

text \<open>A rehearsal submits nothing, nor does an operation that neither executes nor funds.\<close>

lemma rehearsal:
  "cc_proofOnly c \<Longrightarrow> snd (execute env c p qs orc w) = w" "cc_proofOnly c \<Longrightarrow> snd (fund env c role orc w) = w"
  by (simp_all add: execute_def fund_def seq_def check_def fail_def)

lemma live:
  "\<not> cc_proofOnly c \<Longrightarrow> execute env c p qs = seq (proveUnlocked env c p qs) (broadcast env c (mode_text (cp_mode p)) (cp_digest p))"
  "\<not> cc_proofOnly c \<Longrightarrow> fund env c role = seq (seq (reconcileUnlocked env c) (\<lambda>_. funding env c role))
     (broadcast env c (case role of PartyA \<Rightarrow> ''fundA'' | PartyB \<Rightarrow> ''fundB'') (fund_id env (cc_agreement c) role))"
  by (simp_all add: execute_def fund_def seq_assoc) (simp_all add: seq_def check_def give_def fun_eq_iff)

lemma perform_silent:
  assumes "cc_proofOnly c \<or> (\<nexists>p qs. op = Execute p qs) \<and> (\<nexists>role. op = Fund role)"
  shows "\<exists>(w' :: conf_world) mid new. wo_log w' = mid @ wo_log w \<and> wo_log (snd (perform env c op orc w)) = new @ wo_log w'
    \<and> (\<forall>i m x. Submitted i m x \<notin> set mid) \<and> (\<forall>i m x. Submitted i m x \<notin> set new)"
proof -
  have "\<exists>new. wo_log (snd (perform env c op orc w)) = new @ wo_log w \<and> (\<forall>i m x. Submitted i m x \<notin> set new)"
  proof (cases "(\<exists>p qs. op = Execute p qs) \<or> (\<exists>role. op = Fund role)")
    case True
    then show ?thesis
      using assms by (auto simp: ignoring_log rehearsal)
  next
    case False
    then have "keeps orc (grows (wo_log w) (\<lambda>_ _ _. False)) (perform env c op)"
      by (cases op) (simp_all add: hoare_ignoring prove_keeps reconcile_grows hoare_quiet quiet_rules)
    from keeps_after[OF this] show ?thesis
      by (simp add: grows_def)
  qed
  then obtain new where "wo_log (snd (perform env c op orc w)) = new @ wo_log w" "\<forall>i m x. Submitted i m x \<notin> set new"
    by blast
  then show ?thesis
    by (intro exI[of _ w] exI[of _ "[]"] exI[of _ new]) simp
qed

section \<open>A concrete client\<close>

lemma confidentialFelt_id:
  assumes "list_all is_hex_lower d" "d \<noteq> []" "hd d \<noteq> CHR ''0''" "int (of_base 16 d) < FIELD"
  shows "confidentialFelt (''0x'' @ d) True = Inr (''0x'' @ d)"
proof -
  have d: "hex (of_base 16 d) = d"
    using assms by (intro hex_of_base) auto
  have "0 < of_base 16 d"
    using to_of_base[of 16 d] assms by (auto simp: list_all_iff digit_val_hex)
  then show ?thesis
    using assms d is_hex_lower_is_hex felt_int_hex[of "of_base 16 d"] hex_literal_canonical[of "of_base 16 d"]
    by (auto simp: confidentialFelt_def felt_int_def big_int_def list_all_iff)
qed

lemma of_base_hex_less: "list_all is_hex_lower d \<Longrightarrow> of_base 16 d < 16 ^ length d"
proof (induction d rule: rev_induct)
  case (snoc c d)
  then show ?case
    using digit_val_hex[of c] by simp
qed simp

lemma digit_one_zero: "CHR ''1'' \<noteq> CHR ''0''"
  by simp

lemma class_hash_felt: "confidentialFelt CONFIDENTIAL_CLASS_HASH True = Inr CONFIDENTIAL_CLASS_HASH"
proof -
  define d where "d = drop 2 CONFIDENTIAL_CLASS_HASH"
  have d: "list_all is_hex_lower d" "d = CHR ''1'' # tl d" "length (tl d) = 62" "CONFIDENTIAL_CLASS_HASH = ''0x'' @ d"
    by (simp_all add: d_def CONFIDENTIAL_CLASS_HASH_def eval_simps)
  have "list_all is_hex_lower (tl d)"
    using d(1,2) by (metis list.pred_inject(2))
  then have "of_base 16 d < 2 * 16 ^ 62"
    using of_base_hex_less[of "tl d"] of_base_Cons[of 16 "CHR ''1''" "tl d"] d(2,3) by (simp add: digit_val_def code_def)
  then have "int (of_base 16 d) < FIELD"
    by (simp add: FIELD_def)
  then show ?thesis
    using confidentialFelt_id[of d] d by (metis list.distinct(1) list.sel(1) digit_one_zero)
qed

lemma sameFelt_refl: "normal_felt s \<Longrightarrow> sameFelt s s = Inr True"
  by (auto simp: normal_felt_def sameFelt_def)

lemma create_class:
  assumes "createConfidentialAgreement env v addr = Inr a" "confidentialFelt x True = Inr x"
  shows "createConfidentialAgreement env (v\<lparr>ca_escrowClassHash := x\<rparr>) addr = Inr (a\<lparr>ca_escrowClassHash := x\<rparr>)"
  using assms unfolding createConfidentialAgreement_def by (cases "as_safe_int (ca_deadline v)") (clarsimp, clarsimp)

lemma normalize_class:
  assumes "normalizeConfidentialAgreement env v = Inr a" "confidentialFelt x True = Inr x"
  shows "normalizeConfidentialAgreement env (v\<lparr>ca_escrowClassHash := x\<rparr>) = Inr (a\<lparr>ca_escrowClassHash := x\<rparr>)"
proof -
  obtain u where "sameFelt (ca_address v) ''0'' = Inr u" "createConfidentialAgreement env v (if u then None else Some (ca_address v)) = Inr a"
      "sameFelt (ca_commitment a) (ca_commitment v) = Inr True" "ca_schema v = CONFIDENTIAL_RFQ_SCHEMA"
    using assms(1) unfolding normalizeConfidentialAgreement_def by auto
  then show ?thesis
    using create_class[OF _ assms(2), of env v "if u then None else Some (ca_address v)" a]
    unfolding normalizeConfidentialAgreement_def by (cases u) auto
qed

definition sample_escrow :: conf_agreement where
  "sample_escrow = sample_conf_agreement\<lparr>ca_escrowClassHash := CONFIDENTIAL_CLASS_HASH\<rparr>"

lemma sample_escrow_normal: "normalizeConfidentialAgreement sample_conf_env sample_escrow = Inr sample_escrow"
  unfolding sample_escrow_def by (rule normalize_class[OF sample_normal class_hash_felt])

definition sample_client_env :: client_env where
  "sample_client_env = conf_env.extend sample_conf_env
     \<lparr>cl_pedersen = sum_list, cl_blake = sum_list, cl_starkKey = (\<lambda>_. ''0x5''), cl_decode = (\<lambda>_. Inr []),
      cl_hostname = (\<lambda>u. Inr u)\<rparr>"

lemma sample_client_env [simp]: "conf_env.truncate sample_client_env = sample_conf_env" "cl_starkKey sample_client_env k = ''0x5''"
  by (simp_all add: sample_client_env_def conf_env.defs)

definition sample_client :: conf_client where
  "sample_client = \<lparr>cc_agreement = sample_escrow, cc_proofOnly = False, cc_simulated = True, cc_mainnet = False, cc_key = 5\<rparr>"

definition sample_reply :: deployment_reply where
  "sample_reply = \<lparr>dr_chain = ''0x1'', dr_poolClass = ''0x51'', dr_accountClass = CONFIDENTIAL_CLASS_HASH,
     dr_configuration = [''0x50'', ''0x51'', ca_commitment sample_escrow, ''0x5a'', ''0x5b'', ''9000''],
     dr_isSettled = [''0''], dr_blockNumber = Some (jint 7), dr_timestamp = jint 100\<rparr>"

text \<open>The escrow holds 30 of the 100 units of the first asset; the submitter answers and the transaction succeeds.\<close>

definition sample_oracle :: conf_oracle where
  "sample_oracle = \<lparr>or_chain = (\<lambda>_. Inr ''0x1''), or_deployment = (\<lambda>_. Inr sample_reply), or_viewingKey = (\<lambda>_. Inr 5),
     or_publicKey = (\<lambda>_. Inr [''0x5'']), or_notes = (\<lambda>_. Inr [(''0x10'', [\<lparr>no_open = False, no_amount = 30\<rparr>])]),
     or_invocation = (\<lambda>_ _. Inl syntax_error), or_provingBlock = (\<lambda>_. Inr None), or_prove = (\<lambda>_ _ _. Inl syntax_error),
     or_validity = (\<lambda>_. Inr []), or_submit = (\<lambda>_ _. Inr ''0xabc''), or_receipt = (\<lambda>_ _. Inr Succeeded),
     or_wait = (\<lambda>_ _. Inr ()), or_load = (\<lambda>_. Inr ()), or_save = (\<lambda>_. Stored)\<rparr>"

definition sample_world :: conf_world where
  "sample_world = \<lparr>wo_calls = 0, wo_journal = None, wo_log = []\<rparr>"

definition sample_deployment :: deployment where
  "sample_deployment = \<lparr>dp_block = jint 7, dp_timestamp = jint 100, dp_settled = False\<rparr>"

lemma sample_deployment_of: "deployment_of sample_client_env sample_escrow sample_reply = Inr sample_deployment"
proof -
  have c: "confidentialConstructor sample_conf_env sample_escrow
      = Inr [''0x50'', ''0x51'', ca_commitment sample_escrow, ''0x5a'', ''0x5b'', ''9000'']"
  proof -
    have "dec_int 9000 = ''9000''" "as_safe_int (jint 9000) = Some 9000"
      by code_simp+
    then show ?thesis
      by (simp add: confidentialConstructor_def sample_escrow_normal)
        (simp add: sample_escrow_def sample_conf_agreement_def)
  qed
  have n: "normal_felt (ca_commitment sample_escrow)" "normal_felt CONFIDENTIAL_CLASS_HASH"
    using confidentialFelt_normal[OF class_hash_felt]
    by (auto simp: sample_escrow_def sample_conf_agreement_def normal_felt_def poseidon_def)
  have f: "sameFelt ''0x1'' ''0x1'' = Inr True" "sameFelt ''0x51'' ''0x51'' = Inr True" "sameFelt ''0x50'' ''0x50'' = Inr True"
    "sameFelt ''0x5a'' ''0x5a'' = Inr True" "sameFelt ''0x5b'' ''0x5b'' = Inr True" "sameFelt ''9000'' ''9000'' = Inr True"
    "js_BigInt ''0'' = Inr 0"
    by code_simp+
  have a: "ca_chainId sample_escrow = ''0x1''" "ca_poolClassHash sample_escrow = ''0x51''"
    "ca_escrowClassHash sample_escrow = CONFIDENTIAL_CLASS_HASH"
    by (simp_all add: sample_escrow_def sample_conf_agreement_def)
  show ?thesis
    using c f a sameFelt_refl[OF n(1)] sameFelt_refl[OF n(2)]
    by (simp add: deployment_of_def sample_reply_def sample_deployment_def)
qed

lemma sample_inspected [simp]:
  "inspectConfidentialDeployment sample_client_env sample_escrow sample_oracle w
     = (Inr sample_deployment, w\<lparr>wo_calls := wo_calls w + 1\<rparr>)"
proof -
  have "ca_address sample_escrow \<noteq> ''0x0''" "ca_escrowClassHash sample_escrow = CONFIDENTIAL_CLASS_HASH"
    by (simp_all add: sample_escrow_def sample_conf_agreement_def)
  then show ?thesis
    using sameFelt_refl[OF confidentialFelt_normal[OF class_hash_felt]] sample_deployment_of
    by (simp add: inspectConfidentialDeployment_def seq_def lift_r_def ask_def sample_escrow_normal sample_oracle_def)
qed

lemmas run_simps = seq_def lift_r_def ask_def give_def check_def fail_def note_event_def save_def load_def or_safe_def Let_def

lemma sample_answers [simp]:
  "or_publicKey sample_oracle n = Inr [''0x5'']" "or_notes sample_oracle n = Inr [(''0x10'', [\<lparr>no_open = False, no_amount = 30\<rparr>])]"
  "or_submit sample_oracle n x = Inr ''0xabc''" "or_receipt sample_oracle n h = Inr Succeeded" "or_wait sample_oracle n h = Inr ()"
  "or_load sample_oracle n = Inr ()" "or_save sample_oracle n = Stored"
  by (simp_all add: sample_oracle_def)

lemma sample_client_fields [simp]:
  "cc_agreement sample_client = sample_escrow" "cc_proofOnly sample_client = False" "cc_key sample_client = 5"
  "ca_terms sample_escrow = sample_conf_terms" "ca_deadline sample_escrow = jint 9000" "ca_address sample_escrow = ''0x99''"
  "dp_settled sample_deployment = False" "dp_timestamp sample_deployment = jint 100"
  by (simp_all add: sample_client_def sample_escrow_def sample_conf_agreement_def sample_deployment_def)

lemma sample_funding:
  assumes "wo_journal w = None"
  shows "funding sample_client_env sample_client PartyA sample_oracle w
     = (Inr (Transfer ''0x10'' ''0x99'' 70), w\<lparr>wo_calls := wo_calls w + 4\<rparr>)"
proof -
  have f: "js_BigInt ''0x5'' = Inr 5" "sameFelt ''0x5'' ''0x5'' = Inr True" "sameFelt ''0x10'' ''0x10'' = Inr True"
    "sameFelt ''0x10'' ''0x11'' = Inr False" "felt_int ''100'' = 100" "felt_int ''200'' = 200"
    by code_simp+
  show ?thesis
    using f assms by (simp add: funding_def snapshot_def journal_def run_simps
      sample_conf_terms_def balance_def emptyJournal_def checkTime_def num_le_def)
qed

lemma sample_reconciled:
  "wo_journal w = None \<Longrightarrow> reconcileUnlocked sample_client_env sample_client sample_oracle w = (Inr (), w\<lparr>wo_calls := wo_calls w + 1\<rparr>)"
  by (simp add: reconcileUnlocked_def journal_def run_simps emptyJournal_def)

lemma sample_journal:
  "wo_journal w = None \<Longrightarrow> journal sample_client sample_oracle w = (Inr (emptyJournal sample_escrow), w\<lparr>wo_calls := wo_calls w + 1\<rparr>)"
  by (simp add: journal_def run_simps emptyJournal_def)

lemma await_log: "\<exists>new. wo_log (snd (await_outcome env c tx h orc w)) = new @ wo_log w"
proof -
  have "grows (wo_log w) (\<lambda>_ _ _. True) (wo_journal w) (wo_log w)"
    by (simp add: grows_def)
  then have "grows (wo_log w) (\<lambda>_ _ _. True) (wo_journal (snd (await_outcome env c tx h orc w))) (wo_log (snd (await_outcome env c tx h orc w)))"
    by (rule keeps_after[OF await_grows])
  then show ?thesis
    by (auto simp: grows_def)
qed

lemma sample_sent:
  "Submitted (at_id t) (at_mode t) x \<in> set (wo_log (snd (send_attempt sample_client_env sample_client j t x sample_oracle w)))"
proof -
  have f: "confidentialFelt ''0xabc'' True = Inr ''0xabc''"
    by code_simp
  obtain w' where w: "send_attempt sample_client_env sample_client j t x sample_oracle w
      = await_outcome sample_client_env sample_client ''0xabc'' ''0xabc'' sample_oracle w'"
      "Submitted (at_id t) (at_mode t) x \<in> set (wo_log w')"
    using f by (simp add: send_attempt_def run_simps)
  then show ?thesis
    using await_log[of sample_client_env sample_client "''0xabc''" "''0xabc''" sample_oracle w'] by auto
qed

lemma sample_fund_log:
  "Submitted (fund_id sample_client_env sample_escrow PartyA) ''fundA'' (Transfer ''0x10'' ''0x99'' 70)
     \<in> set (wo_log (snd (perform sample_client_env sample_client (Fund PartyA) sample_oracle sample_world)))"
proof -
  define t where "t = \<lparr>at_id = fund_id sample_client_env sample_escrow PartyA, at_mode = ''fundA'', at_hash = None\<rparr>"
  obtain j w where "fund sample_client_env sample_client PartyA sample_oracle sample_world
      = send_attempt sample_client_env sample_client j t (Transfer ''0x10'' ''0x99'' 70) sample_oracle w"
    by (simp add: fund_def broadcast_def sample_reconciled sample_journal sample_funding run_simps t_def sample_world_def)
  then show ?thesis
    using sample_sent[of t "Transfer ''0x10'' ''0x99'' 70" j w]
    by (auto simp: ignoring_def seq_def give_def t_def split: prod.splits sum.splits)
qed

section \<open>Properties\<close>

text \<open>
  C10: no submission is made while the outcome of an earlier one is open. Over any sequence of
  operations of any clients that share a journal, whichever calls throw and whichever writes are
  lost or only seem to be, every submission in the log comes after a receipt for the previous one
  that says it succeeded or reverted; and while the last one has no such receipt, the stored journal
  names it, with its hash once that is journaled.
\<close>

theorem submissions_wait_for_outcomes:
  "orderly (wo_log (run env orc xs \<lparr>wo_calls = n, wo_journal = s, wo_log = []\<rparr>))
   \<and> (settled (wo_log (run env orc xs \<lparr>wo_calls = n, wo_journal = s, wo_log = []\<rparr>))
      \<or> names_open (wo_journal (run env orc xs \<lparr>wo_calls = n, wo_journal = s, wo_log = []\<rparr>))
          (wo_log (run env orc xs \<lparr>wo_calls = n, wo_journal = s, wo_log = []\<rparr>)))"
  using run_keeps[of orc disciplined env, OF reconcile_keeps_disciplined broadcast_disciplined, of "\<lparr>wo_calls = n, wo_journal = s, wo_log = []\<rparr>" xs]
  by (simp add: disciplined_def)

text \<open>
  An unknown outcome stops every submission. When the journal holds an attempt without a hash,
  because the answer to it was never seen or could not be journaled, no operation of any client
  changes the journal or submits anything; only a repair of the journal from outside does.
\<close>

lemma unknown_outcome_stops:
  assumes "wo_journal w = Some j" and "jo_pending j = Some t" and "at_hash t = None"
  shows "wo_journal (run env orc xs w) = Some j \<and> wo_log (run env orc xs w) = wo_log w"
  by (rule run_stuck[OF assms(2,3,1)])

lemma unknown_outcome_stops_witness:
  "wo_log (run sample_client_env sample_oracle [(sample_client, Fund PartyA), (sample_client, Reconcile)]
     (sample_world\<lparr>wo_journal := Some ((emptyJournal sample_escrow)\<lparr>jo_pending := Some \<lparr>at_id = ''0x1'', at_mode = ''fundB'', at_hash = None\<rparr>\<rparr>)\<rparr>)) = []"
  using unknown_outcome_stops[of "sample_world\<lparr>wo_journal := Some ((emptyJournal sample_escrow)\<lparr>jo_pending := Some \<lparr>at_id = ''0x1'', at_mode = ''fundB'', at_hash = None\<rparr>\<rparr>)\<rparr>"]
  by (simp add: sample_world_def del: run.simps)

text \<open>
  C11: what an operation submits is agreed. Only an execution and a funding submit, and never those
  of a proof rehearsal. All of their checks are made, in the world the operation starts in and with
  the answers of this run, before anything is submitted. An execution submits the pool call of a
  proof that the prover gave, in this run, for the invocation the required parties authorized on the
  client's own agreement, that was verified for its mode, at a time the chain allowed it before and
  after the proof, and with nothing pending. A funding transfers exactly what the party's side lacks
  in the snapshot of this run, to the registered escrow, before its deadline and with nothing pending.
\<close>

theorem submissions_are_agreed:
  "\<exists>w' mid new. wo_log w' = mid @ wo_log w \<and> wo_log (snd (perform env c op orc w)) = new @ wo_log w'
     \<and> (\<forall>i m x. Submitted i m x \<notin> set mid)
     \<and> (\<forall>i m x. Submitted i m x \<in> set new \<longrightarrow> \<not> cc_proofOnly c
          \<and> ((\<exists>p qs. op = Execute p qs \<and> i = cp_digest p \<and> m = mode_text (cp_mode p)
                \<and> proveUnlocked env c p qs orc w = (Inr x, w') \<and> agreed_execution env c orc w p qs x)
             \<or> (\<exists>role. op = Fund role \<and> i = fund_id env (cc_agreement c) role
                \<and> seq (reconcileUnlocked env c) (\<lambda>_. funding env c role) orc w = (Inr x, w') \<and> agreed_funding env c orc w role x)))"
proof (cases "cc_proofOnly c \<or> (\<nexists>p qs. op = Execute p qs) \<and> (\<nexists>role. op = Fund role)")
  case True
  obtain w' :: conf_world and mid new where "wo_log w' = mid @ wo_log w" "wo_log (snd (perform env c op orc w)) = new @ wo_log w'"
      "\<forall>i m x. Submitted i m x \<notin> set mid" "\<forall>i m x. Submitted i m x \<notin> set new"
    using perform_silent[OF True, where orc = orc and w = w and env = env] by (elim exE conjE)
  then show ?thesis
    by (intro exI[of _ w'] exI[of _ mid] exI[of _ new]) simp
next
  case False
  then consider (execute) p qs where "op = Execute p qs" | (fund) role where "op = Fund role"
    by blast
  then show ?thesis
  proof cases
    case execute
    have "keeps orc (grows l0 (\<lambda>_ _ _. False)) (proveUnlocked env c p qs)" for l0
      by (rule prove_keeps[OF reconcile_grows])
    moreover have "keeps orc (grows l0 (\<lambda>i m y. i = cp_digest p \<and> m = mode_text (cp_mode p) \<and> y = x))
        (broadcast env c (mode_text (cp_mode p)) (cp_digest p) x)" for x l0
      by (rule broadcast_grows) simp
    moreover have "wo_log (snd (perform env c op orc w)) = wo_log (snd (seq (proveUnlocked env c p qs)
        (broadcast env c (mode_text (cp_mode p)) (cp_digest p)) orc w))"
      using False by (simp add: execute ignoring_log live)
    ultimately show ?thesis
      using submits_checked[where orc = orc and f = "proveUnlocked env c p qs" and ident = "cp_digest p" and mode = "mode_text (cp_mode p)"
          and g = "broadcast env c (mode_text (cp_mode p)) (cp_digest p)" and w = w] False execute prove_Inr by metis
  next
    case fund
    let ?mode = "case role of PartyA \<Rightarrow> ''fundA'' | PartyB \<Rightarrow> ''fundB''" and ?id = "fund_id env (cc_agreement c) role"
    have "keeps orc (grows l0 (\<lambda>_ _ _. False)) (seq (reconcileUnlocked env c) (\<lambda>_. funding env c role))" for l0
      by (intro keeps_seq reconcile_grows hoare_quiet quiet_rules)
    moreover have "keeps orc (grows l0 (\<lambda>i m y. i = ?id \<and> m = ?mode \<and> y = x)) (broadcast env c ?mode ?id x)" for x l0
      by (rule broadcast_grows) simp
    moreover have "wo_log (snd (perform env c op orc w)) = wo_log (snd (seq (seq (reconcileUnlocked env c) (\<lambda>_. funding env c role))
        (broadcast env c ?mode ?id) orc w))"
      using False by (simp add: fund ignoring_log live)
    ultimately show ?thesis
      using submits_checked[where orc = orc and f = "seq (reconcileUnlocked env c) (\<lambda>_. funding env c role)" and ident = ?id and mode = ?mode
          and g = "broadcast env c ?mode ?id" and w = w]
        False fund funding_Inr by metis
  qed
qed

theorem submissions_are_agreed_witness:
  "agreed_funding sample_client_env sample_client sample_oracle sample_world PartyA (Transfer ''0x10'' ''0x99'' 70)"
  using submissions_are_agreed[where w = sample_world and env = sample_client_env and c = sample_client and op = "Fund PartyA" and orc = sample_oracle]
    sample_fund_log
  by (auto simp: sample_world_def)

end
