(* ===== verification/Take_Signature.thy ===== *)
theory Take_Signature
  imports Starknet_Amounts "HOL-Library.Code_Target_Nat" "HOL-Library.Countable"
begin

text \<open>
  The authorization of a Take (packages/private-intents/src/take-signature.ts): the digest of the
  fills, the message a taker signs, the key it signs with and the check of the signature. The
  functions of the curve library are gathered in \<open>take_env\<close>: the Poseidon hash of a list of felts,
  the public key of a private scalar (which throws outside the curve order), signing and the
  verification of a signature, which may throw. The property: two authorizations with the same
  message are for the same fills of the same deal.
\<close>

record take_env =
  te_poseidon :: "int list \<Rightarrow> nat"
  te_starkKey :: "string \<Rightarrow> string result"
  te_sign :: "string \<Rightarrow> string \<Rightarrow> (nat \<times> nat) result"
  te_verify :: "int \<Rightarrow> int \<Rightarrow> string \<Rightarrow> string \<Rightarrow> bool result"

section \<open>Domains and felts\<close>

text \<open>The bytes of an ASCII text, two hexadecimal digits each.\<close>

definition short_hex :: "string \<Rightarrow> string" where
  "short_hex s = ''0x'' @ concat (map (\<lambda>c. pad_start 2 (hex (code c))) s)"

definition TAKE_DOMAIN :: string where
  "TAKE_DOMAIN = short_hex ''app20-take-v4''"

definition TAKE_IDENTITY_DOMAIN :: string where
  "TAKE_IDENTITY_DOMAIN = short_hex ''app20-take-id-v1''"

definition TAKE_U128_MAX :: int where
  "TAKE_U128_MAX = 2 ^ 128 - 1"

record take_fill =
  tf_lockId :: string
  tf_amountA :: int

record take_message =
  tm_chainId :: string
  tm_escrowAddress :: string
  tm_identityCommitment :: string
  tm_rfqFelt :: string
  tm_tokenA :: string
  tm_tokenB :: string
  tm_fills :: "take_fill list"

definition signature_felt :: "string \<Rightarrow> string \<Rightarrow> bool \<Rightarrow> string result" where
  "signature_felt value label allowZero =
     (case canonicalizeStarknetFelt value of
        Inl _ \<Rightarrow> Inl (PrivateIntentError (label @ '' must be a Starknet felt.''))
      | Inr canonical \<Rightarrow> if \<not> allowZero \<and> canonical = ''0x0''
          then Inl (PrivateIntentError (label @ '' must not be zero.'')) else Inr canonical)"

text \<open>\<open>BigInt\<close> of a felt that was just made canonical.\<close>

definition take_int :: "string \<Rightarrow> int" where
  "take_int s = int (big_int s)"

section \<open>Fills\<close>

fun take_fills_from :: "nat \<Rightarrow> string list \<Rightarrow> take_fill list \<Rightarrow> take_fill list result" where
  "take_fills_from index seen [] = Inr []"
| "take_fills_from index seen (f # fs) =
     bind_r (signature_felt (tf_lockId f) (''Take fill '' @ dec index @ '' lockId'') False) (\<lambda>lockId.
       if lockId \<in> set seen then Inl (PrivateIntentError ''Take authorization lock ids must differ.'')
       else if tf_amountA f \<le> 0 \<or> TAKE_U128_MAX < tf_amountA f
       then Inl (PrivateIntentError (''Take fill '' @ dec index @ '' amountA must be a positive u128 value.''))
       else bind_r (take_fills_from (index + 1) (lockId # seen) fs) (\<lambda>rest.
         Inr (\<lparr>tf_lockId = lockId, tf_amountA = tf_amountA f\<rparr> # rest)))"

definition canonicalFills :: "take_fill list \<Rightarrow> take_fill list result" where
  "canonicalFills fills =
     (if length fills < 1 \<or> 4 < length fills
      then Inl (PrivateIntentError ''Take authorization requires between one and four fills.'')
      else take_fills_from 0 [] fills)"

definition fill_felts :: "take_fill list \<Rightarrow> int list" where
  "fill_felts fills = concat (map (\<lambda>f. [take_int (tf_lockId f), tf_amountA f]) fills)"

definition fillsDigest :: "take_env \<Rightarrow> take_fill list \<Rightarrow> string result" where
  "fillsDigest env fills =
     bind_r (canonicalFills fills) (\<lambda>canonical. Inr (''0x'' @ hex (te_poseidon env (fill_felts canonical))))"

section \<open>Messages, keys and signatures\<close>

definition takeIdentityCommitment :: "take_env \<Rightarrow> string \<Rightarrow> string \<Rightarrow> string result" where
  "takeIdentityCommitment env identityKey rfqFelt =
     bind_r (signature_felt identityKey ''identityKey'' False) (\<lambda>key.
     bind_r (signature_felt rfqFelt ''rfqFelt'' False) (\<lambda>rfq.
     Inr (''0x'' @ hex (te_poseidon env [take_int TAKE_IDENTITY_DOMAIN, take_int key, take_int rfq]))))"

definition takeMessageHash :: "take_env \<Rightarrow> take_message \<Rightarrow> string result" where
  "takeMessageHash env m =
     bind_r (signature_felt (tm_chainId m) ''chainId'' False) (\<lambda>chainId.
     bind_r (signature_felt (tm_escrowAddress m) ''escrowAddress'' False) (\<lambda>escrowAddress.
     bind_r (signature_felt (tm_identityCommitment m) ''identityCommitment'' False) (\<lambda>identityCommitment.
     bind_r (signature_felt (tm_rfqFelt m) ''rfqFelt'' False) (\<lambda>rfqFelt.
     bind_r (signature_felt (tm_tokenA m) ''tokenA'' False) (\<lambda>tokenA.
     bind_r (signature_felt (tm_tokenB m) ''tokenB'' False) (\<lambda>tokenB.
     if tokenA = tokenB then Inl (PrivateIntentError ''tokenA and tokenB must differ.'')
     else bind_r (fillsDigest env (tm_fills m)) (\<lambda>digest.
     Inr (''0x'' @ hex (te_poseidon env
       [take_int TAKE_DOMAIN, take_int chainId, take_int escrowAddress, take_int identityCommitment,
        take_int rfqFelt, take_int tokenA, take_int tokenB, take_int digest]))))))))) "

definition signingKeyFelt :: "take_env \<Rightarrow> string \<Rightarrow> string result" where
  "signingKeyFelt env signingKey =
     bind_r (signature_felt signingKey ''taker signing key'' False) (\<lambda>canonical.
     case te_starkKey env canonical of
       Inl _ \<Rightarrow> Inl (PrivateIntentError ''Taker signing key must be a valid Stark-curve private scalar.'')
     | Inr _ \<Rightarrow> Inr canonical)"

definition takerPublicKeyFor :: "take_env \<Rightarrow> string \<Rightarrow> string result" where
  "takerPublicKeyFor env signingKey =
     bind_r (signingKeyFelt env signingKey) (\<lambda>key.
     bind_r (te_starkKey env key) (\<lambda>publicKey.
     signature_felt publicKey ''taker authorization public key'' False))"

text \<open>The key made from the random bytes \<open>bytes\<close>.\<close>

definition createTakerAuthorizationKey :: "take_env \<Rightarrow> nat list \<Rightarrow> (string \<times> string) result" where
  "createTakerAuthorizationKey env bytes =
     (let signingKey = ''0x'' @ concat (map (\<lambda>b. pad_start 2 (hex b)) bytes) in
      bind_r (takerPublicKeyFor env signingKey) (\<lambda>publicKey. Inr (signingKey, publicKey)))"

definition signTake :: "take_env \<Rightarrow> string \<Rightarrow> string \<Rightarrow> (string \<times> string) result" where
  "signTake env signingKey message =
     bind_r (signature_felt message ''Take authorization message'' True) (\<lambda>m.
     bind_r (signingKeyFelt env signingKey) (\<lambda>key.
     bind_r (te_sign env m key) (\<lambda>(r, s). Inr (''0x'' @ hex r, ''0x'' @ hex s))))"

definition verifyTakeSignature :: "take_env \<Rightarrow> string \<Rightarrow> string \<Rightarrow> string \<Rightarrow> string \<Rightarrow> bool" where
  "verifyTakeSignature env publicKey message r s =
     (case bind_r (signature_felt publicKey ''taker authorization public key'' False) (\<lambda>key.
           let x = pad_start 64 (drop 2 key) in
           bind_r (signature_felt r ''Take signature r'' False) (\<lambda>r'.
           bind_r (signature_felt s ''Take signature s'' False) (\<lambda>s'.
           bind_r (signature_felt message ''Take authorization message'' True) (\<lambda>m.
           bind_r (te_verify env (take_int r') (take_int s') m (''02'' @ x)) (\<lambda>even.
             if even then Inr True else te_verify env (take_int r') (take_int s') m (''03'' @ x)))))) of
        Inl _ \<Rightarrow> False | Inr b \<Rightarrow> b)"

section \<open>A message binds what it authorizes\<close>

lemma signature_felt_Inr:
  "signature_felt v l z = Inr t \<longleftrightarrow> canonicalizeStarknetFelt v = Inr t \<and> (z \<or> t \<noteq> ''0x0'')"
  by (auto simp: signature_felt_def split: sum.splits)

lemma take_int_hex [simp]: "take_int (''0x'' @ hex n) = int n"
  using hex_literal_canonical[of n] by (simp add: take_int_def big_int_def)

lemma take_int_hex' [simp]: "take_int (CHR ''0'' # CHR ''x'' # hex n) = int n"
  using take_int_hex[of n] by simp

lemma take_int_inject:
  assumes "canonicalizeStarknetFelt v = Inr s" and "canonicalizeStarknetFelt w = Inr t" and "take_int s = take_int t"
  shows "s = t"
  using assms canonical_felt_form[OF assms(1)] canonical_felt_form[OF assms(2)] by auto

lemma take_fills_canonical:
  "take_fills_from i seen fs = Inr gs \<Longrightarrow>
     list_all2 (\<lambda>f g. canonicalizeStarknetFelt (tf_lockId f) = Inr (tf_lockId g) \<and> tf_amountA g = tf_amountA f) fs gs"
proof (induction i seen fs arbitrary: gs rule: take_fills_from.induct)
  case (2 index seen f fs)
  then show ?case
    by (auto simp: signature_felt_Inr split: if_splits)
qed simp

lemma canonicalFills_list:
  "canonicalFills fs = Inr gs \<Longrightarrow>
   list_all2 (\<lambda>f g. canonicalizeStarknetFelt (tf_lockId f) = Inr (tf_lockId g) \<and> tf_amountA g = tf_amountA f) fs gs"
  by (auto simp: canonicalFills_def dest: take_fills_canonical split: if_splits)

lemma canonicalFills_felts:
  assumes "canonicalFills fs = Inr gs"
  shows "list_all (\<lambda>g. \<exists>v. canonicalizeStarknetFelt v = Inr (tf_lockId g)) gs"
  using canonicalFills_list[OF assms] by (auto simp: list_all2_conv_all_nth list_all_length)

lemma fill_felts_inject:
  "list_all (\<lambda>g. \<exists>v. canonicalizeStarknetFelt v = Inr (tf_lockId g)) gs \<Longrightarrow>
   list_all (\<lambda>g. \<exists>v. canonicalizeStarknetFelt v = Inr (tf_lockId g)) hs \<Longrightarrow>
   fill_felts gs = fill_felts hs \<Longrightarrow> gs = (hs :: take_fill list)"
proof (induction gs arbitrary: hs)
  case Nil
  then show ?case by (cases hs) (auto simp: fill_felts_def)
next
  case (Cons g gs)
  then obtain h hs' where hs: "hs = h # hs'"
    by (cases hs) (auto simp: fill_felts_def)
  with Cons.prems have "take_int (tf_lockId g) = take_int (tf_lockId h)" "tf_amountA g = tf_amountA h"
      "fill_felts gs = fill_felts hs'"
    by (auto simp: fill_felts_def)
  moreover have "tf_lockId g = tf_lockId h"
    using Cons.prems hs calculation(1) take_int_inject by auto
  ultimately show ?case
    using Cons hs by (auto intro: take_fill.equality)
qed

text \<open>The canonical form of the terms a message is made of.\<close>

definition canonicalTake :: "take_message \<Rightarrow> take_message result" where
  "canonicalTake m =
     bind_r (canonicalizeStarknetFelt (tm_chainId m)) (\<lambda>c. bind_r (canonicalizeStarknetFelt (tm_escrowAddress m)) (\<lambda>e.
     bind_r (canonicalizeStarknetFelt (tm_identityCommitment m)) (\<lambda>i. bind_r (canonicalizeStarknetFelt (tm_rfqFelt m)) (\<lambda>r.
     bind_r (canonicalizeStarknetFelt (tm_tokenA m)) (\<lambda>a. bind_r (canonicalizeStarknetFelt (tm_tokenB m)) (\<lambda>b.
     bind_r (canonicalFills (tm_fills m)) (\<lambda>fs.
       Inr \<lparr>tm_chainId = c, tm_escrowAddress = e, tm_identityCommitment = i, tm_rfqFelt = r,
            tm_tokenA = a, tm_tokenB = b, tm_fills = fs\<rparr>)))))))"

definition take_felts :: "take_env \<Rightarrow> take_message \<Rightarrow> int list" where
  "take_felts env m = [take_int TAKE_DOMAIN, take_int (tm_chainId m), take_int (tm_escrowAddress m),
     take_int (tm_identityCommitment m), take_int (tm_rfqFelt m), take_int (tm_tokenA m), take_int (tm_tokenB m),
     int (te_poseidon env (fill_felts (tm_fills m)))]"

definition take_collision :: "take_env \<Rightarrow> bool" where
  "take_collision env = (\<exists>xs ys. xs \<noteq> ys \<and> te_poseidon env xs = te_poseidon env ys)"

lemma takeMessageHash_canonical:
  "takeMessageHash env m = Inr h \<Longrightarrow>
   \<exists>c. canonicalTake m = Inr c \<and> tm_tokenA c \<noteq> tm_tokenB c \<and> h = ''0x'' @ hex (te_poseidon env (take_felts env c))"
  by (auto simp: takeMessageHash_def signature_felt_Inr fillsDigest_def canonicalTake_def take_felts_def split: if_splits)

lemma canonicalTake_felts:
  assumes "canonicalTake m = Inr c" and "canonicalTake m' = Inr d"
    and "take_felts env c = take_felts env d" and "\<not> take_collision env"
  shows "c = d"
proof -
  have "canonicalFills (tm_fills m) = Inr (tm_fills c)" "canonicalFills (tm_fills m') = Inr (tm_fills d)"
    using assms(1,2) by (auto simp: canonicalTake_def)
  note fills = this[THEN canonicalFills_felts]
  have "fill_felts (tm_fills c) = fill_felts (tm_fills d)"
    using assms(3,4) by (auto simp: take_felts_def take_collision_def)
  then have "tm_fills c = tm_fills d"
    using fill_felts_inject[OF fills] by blast
  then show ?thesis
    using assms(1-3) by (auto simp: canonicalTake_def take_felts_def dest: take_int_inject)
qed

text \<open>
  C12: a Take authorization binds what it authorizes. Two messages with the same hash (so that a
  signature of one is a signature of the other) have the same canonical chain, escrow, taker
  identity, deal, tokens and fills with their amounts, unless two different lists of felts have the
  same Poseidon hash.
\<close>

theorem take_authorization_binds:
  assumes "takeMessageHash env m = Inr h" and "takeMessageHash env m' = Inr h"
  shows "take_collision env \<or> (\<exists>c. canonicalTake m = Inr c \<and> canonicalTake m' = Inr c \<and> tm_tokenA c \<noteq> tm_tokenB c)"
proof -
  obtain c d where c: "canonicalTake m = Inr c" "tm_tokenA c \<noteq> tm_tokenB c" "h = ''0x'' @ hex (te_poseidon env (take_felts env c))"
    and d: "canonicalTake m' = Inr d" "h = ''0x'' @ hex (te_poseidon env (take_felts env d))"
    using assms takeMessageHash_canonical by blast
  then have "te_poseidon env (take_felts env c) = te_poseidon env (take_felts env d)"
    by simp
  then have "take_collision env \<or> take_felts env c = take_felts env d"
    unfolding take_collision_def by blast
  then show ?thesis
    using c(1,2) d(1) canonicalTake_felts by blast
qed

text \<open>The two limits as numerals, so that evaluation does not multiply them out.\<close>

lemma felt_limit_code [code]: "felt_limit = 3618502788666131106986593281521497120414687020801267626233049500247285301248"
  by (simp add: felt_limit_def)

lemma u128_limit_code [code]: "u128_limit = 340282366920938463463374607431768211456"
  by (simp add: u128_limit_def)

text \<open>An environment whose hash has no collisions, and one message written in two ways.\<close>

definition sample_take_env :: take_env where
  "sample_take_env = \<lparr>te_poseidon = to_nat,
     te_starkKey = (\<lambda>k. if k = ''0x7'' then Inr ''0x77'' else Inl (Err ''Invalid private key'')),
     te_sign = (\<lambda>m k. Inr (1, 2)), te_verify = (\<lambda>r s m k. Inr (k = ''02'' @ pad_start 64 ''77''))\<rparr>"

definition sample_take :: "string \<Rightarrow> take_message" where
  "sample_take chain = \<lparr>tm_chainId = chain, tm_escrowAddress = ''0xe5'', tm_identityCommitment = ''0x1d'',
     tm_rfqFelt = ''0x9'', tm_tokenA = ''0xa'', tm_tokenB = ''0xb'',
     tm_fills = [\<lparr>tf_lockId = ''0x1'', tf_amountA = 5\<rparr>, \<lparr>tf_lockId = ''0x2'', tf_amountA = 6\<rparr>]\<rparr>"

lemma sample_take_felts [simp]:
  "canonicalizeStarknetFelt ''0x53'' = Inr ''0x53''" "canonicalizeStarknetFelt ''83'' = Inr ''0x53''"
  "canonicalizeStarknetFelt ''0xe5'' = Inr ''0xe5''" "canonicalizeStarknetFelt ''0x1d'' = Inr ''0x1d''"
  "canonicalizeStarknetFelt ''0x9'' = Inr ''0x9''" "canonicalizeStarknetFelt ''0xa'' = Inr ''0xa''"
  "canonicalizeStarknetFelt ''0xb'' = Inr ''0xb''" "canonicalizeStarknetFelt ''0x1'' = Inr ''0x1''"
  "canonicalizeStarknetFelt ''0x2'' = Inr ''0x2''"
  by code_simp+

lemma sample_fills: "is_ok (canonicalFills (tm_fills (sample_take chain)))"
  by (simp add: sample_take_def canonicalFills_def signature_felt_def TAKE_U128_MAX_def)

lemma sample_take_hash:
  "is_ok (takeMessageHash sample_take_env (sample_take ''0x53''))"
  "takeMessageHash sample_take_env (sample_take ''83'') = takeMessageHash sample_take_env (sample_take ''0x53'')"
  using sample_fills by (simp_all add: sample_take_def takeMessageHash_def signature_felt_def fillsDigest_def is_ok_iff)

lemma sample_take_no_collision: "\<not> take_collision sample_take_env"
  by (simp add: take_collision_def sample_take_env_def)

theorem take_authorization_binds_witness:
  "\<exists>c. canonicalTake (sample_take ''0x53'') = Inr c \<and> canonicalTake (sample_take ''83'') = Inr c"
proof -
  obtain h where "takeMessageHash sample_take_env (sample_take ''0x53'') = Inr h"
    using sample_take_hash(1) by (auto simp: is_ok_iff)
  then show ?thesis
    using take_authorization_binds[of sample_take_env "sample_take ''0x53''" h "sample_take ''83''"]
      sample_take_hash(2) sample_take_no_collision by auto
qed

end
