(* ===== verification/Rfq_Lifecycle.thy ===== *)
theory Rfq_Lifecycle
  imports Take_Signature Wire_Checks
begin

text \<open>
  The record of a deal in the browser (src/app/rfq/rfq-lifecycle.ts): the states of a request, the
  attempts of its phases with their exact targets, the assertions every stored record meets, and the
  operations: creation, transition, the start and update of an attempt, the confirmation and reversal
  of a Take, the reconciliation with an observed deal, expiry and authority signals. A record of
  mode v2 is a legacy deal with one quote; a record of mode v3 is a deal over several fills, taken
  in one transaction that the taker's signing key authorizes.
\<close>

section \<open>Data\<close>

text \<open>
  What the code takes from the platform besides the curve library: \<open>String\<close> and \<open>Number\<close> of a value
  that is not of that type already. A value that \<open>String\<close> turns into the name of an attempt state, of
  a deal stage or of an authority status is accepted and stored as it is (the constructors \<open>Raw_\<dots>\<close>).
\<close>

record rfq_env = take_env +
  re_string :: "jsval \<Rightarrow> string"
  re_number :: "jsval \<Rightarrow> jsnum"

datatype rfq_state =
    Draft | Requesting | Quoted | Reviewing | Submission_unknown | Funded | Filled | Claimable
  | Settled | Expired | Refundable | Refunded | Refused | Cancel_pending | Cancelled | Reorged
  | Quarantined

datatype rfq_phase = Funding | Fill | Claim | Refund | Reservation_release | Take

datatype attempt_state =
    Preparing | Wallet_boundary_unknown | Submitted_unknown | Confirmed | Reverted | Raw_attempt jsval

datatype rfq_mode = V2 | V3

datatype wallet_boundary = Not_entered | Entered

record target_scope =
  ts_chainId :: string
  ts_account :: string
  ts_rfqId :: string
  ts_requestDigest :: string

record expiry_target =
  et_dealId :: string
  et_escrowAddress :: string
  et_solverId :: string
  et_reservationId :: string
  et_reservationFence :: string
  et_quoteDigest :: string

record deal_target =
  dt_dealId :: string
  dt_solverId :: string
  dt_reservationId :: string
  dt_reservationFence :: string
  dt_quoteDigest :: string
  dt_sellToken :: string
  dt_sellAmount :: string
  dt_buyToken :: string
  dt_buyAmount :: string
  dt_deadline :: jsnum

record exact_fill =
  ef_lockId :: string
  ef_amountA :: string
  ef_amountB :: string

record exact_take =
  xt_tokenA :: string
  xt_totalA :: string
  xt_tokenB :: string
  xt_totalB :: string
  xt_fills :: "exact_fill list"

text \<open>The targets, by their \<open>operation\<close>; the last argument of a maker fill is its ticket address.\<close>

datatype rfq_target =
    Request_reservations target_scope string
  | Funded_settlement_expiry target_scope expiry_target
  | Funding_ticket target_scope deal_target
  | Maker_fill target_scope deal_target string
  | Take_target target_scope string exact_take

record rfq_attempt =
  at_attemptId :: string
  at_state :: attempt_state
  at_createdAt :: jsnum
  at_updatedAt :: jsnum
  at_transactionHash :: "string option"
  at_observation :: "string option"
  at_walletBoundary :: "wallet_boundary option"
  at_target :: "rfq_target option"

record rfq_terms =
  rt_pairId :: string
  rt_sellSymbol :: string
  rt_sellAddress :: string
  rt_sellDecimals :: jsnum
  rt_sellAmount :: string
  rt_buySymbol :: string
  rt_buyAddress :: string
  rt_buyDecimals :: jsnum
  rt_minBuyAmount :: "string option"
  rt_buyAmount :: "string option"
  rt_rfqExpiresAt :: jsnum

record selected_quote =
  sq_version :: string
  sq_solverId :: string
  sq_solverKey :: string
  sq_nonce :: string
  sq_reservationId :: string
  sq_spreadBps :: jsnum
  sq_pricingProvenance :: string
  sq_quotedAt :: jsnum
  sq_quoteExpiresAt :: jsnum
  sq_reservationExpiresAt :: jsnum
  sq_buyAmount :: string
  sq_intentDigest :: string
  sq_signature :: string
  sq_quoteDigest :: "string option"
  sq_reservationFence :: "string option"

datatype settlement_version = Localnet_V2 | Localnet_V3

record rfq_settlement =
  st_version :: settlement_version
  st_escrowAddress :: string
  st_dealId :: string
  st_ticketAddress :: "string option"
  st_commitmentDigest :: "string option"
  st_deadline :: jsnum

record rfq_bucket =
  bk_min :: string
  bk_max :: string

record rfq_fill =
  fl_makerId :: string
  fl_lockId :: string
  fl_amountA :: string
  fl_amountB :: string
  fl_lockExpiresAt :: jsnum

record rfq_acknowledgement =
  ak_makerId :: string
  ak_accepted :: bool
  ak_consistent :: bool
  ak_reason :: "string option"

datatype deal_stage =
    Stage_empty | Stage_funded | Stage_filled | Stage_settled | Stage_timed_out | Stage_expired | Raw_stage jsval

record deal_observation =
  do_dealId :: string
  do_escrowAddress :: string
  do_status :: nat
  do_stage :: deal_stage
  do_observedAt :: jsnum
  do_legAToken :: "string option"
  do_legAAmount :: "string option"
  do_legBToken :: "string option"
  do_legBTerms :: "string option"
  do_legBAmount :: "string option"
  do_deadline :: "jsnum option"
  do_ticket :: "string option"
  do_commitmentDigest :: "string option"

datatype authority_status =
    Local_non_authoritative | Authoritative | Stale | Disagreement | Reorged_authority
  | Quarantined_authority | Raw_authority jsval

record evidence_authority =
  ea_status :: authority_status
  ea_label :: string
  ea_revision :: jsnum
  ea_observedAt :: jsnum

text \<open>
  The record. Its schema revision and authority label are constants. \<open>rr_persisted\<close> is the entry of
  the object in the weak map \<open>persistedStorageRevisions\<close>: a new object has none.
\<close>

record rfq_record =
  rr_mode :: rfq_mode
  rr_chainId :: string
  rr_account :: string
  rr_rfqId :: string
  rr_state :: rfq_state
  rr_updatedAt :: jsnum
  rr_storageRevision :: int
  rr_storagePredecessor :: "int option"
  rr_persisted :: "int option"
  rr_terms :: "rfq_terms option"
  rr_selectedQuote :: "selected_quote option"
  rr_settlement :: "rfq_settlement option"
  rr_attempts :: "rfq_phase \<Rightarrow> rfq_attempt option"
  rr_latestObservation :: "deal_observation option"
  rr_evidenceAuthority :: evidence_authority
  rr_requestDigest :: "string option"
  rr_quoteExpiresAt :: "jsnum option"
  rr_reservationExpiresAt :: "jsnum option"
  rr_transactionHash :: "string option"
  rr_bucket :: "rfq_bucket option"
  rr_takerCommitment :: "string option"
  rr_takerSigningKey :: "string option"
  rr_fills :: "rfq_fill list option"
  rr_takeTransactionHash :: "string option"
  rr_acknowledgements :: "rfq_acknowledgement list option"
  rr_reason :: "string option"
  rr_recoverySource :: bool
  rr_recoveryReadFailure :: "(string \<times> jsnum) option"
  rr_restoredFromBackup :: bool

section \<open>The lifecycle graph\<close>

fun allowed :: "rfq_state \<Rightarrow> rfq_state list" where
  "allowed Draft = [Requesting, Cancelled, Quarantined]"
| "allowed Requesting = [Quoted, Refused, Cancel_pending, Quarantined]"
| "allowed Quoted = [Reviewing, Expired, Cancel_pending, Quarantined]"
| "allowed Reviewing = [Submission_unknown, Expired, Cancel_pending, Quarantined]"
| "allowed Submission_unknown = [Reviewing, Funded, Settled, Refundable, Quarantined]"
| "allowed Funded = [Filled, Expired, Refundable, Quarantined]"
| "allowed Filled = [Claimable, Quarantined]"
| "allowed Claimable = [Settled, Quarantined]"
| "allowed Settled = [Quarantined]"
| "allowed Expired = [Refundable, Cancel_pending, Cancelled, Quarantined]"
| "allowed Refundable = [Refunded, Quarantined]"
| "allowed Refunded = [Quarantined]"
| "allowed Refused = [Cancelled, Quarantined]"
| "allowed Cancel_pending = [Cancelled, Expired, Quarantined]"
| "allowed Cancelled = [Quarantined]"
| "allowed Reorged = [Quarantined]"
| "allowed Quarantined = [Cancel_pending]"

fun rfq_state_text :: "rfq_state \<Rightarrow> string" where
  "rfq_state_text Draft = ''draft''"
| "rfq_state_text Requesting = ''requesting''"
| "rfq_state_text Quoted = ''quoted''"
| "rfq_state_text Reviewing = ''reviewing''"
| "rfq_state_text Submission_unknown = ''submission-unknown''"
| "rfq_state_text Funded = ''funded''"
| "rfq_state_text Filled = ''filled''"
| "rfq_state_text Claimable = ''claimable''"
| "rfq_state_text Settled = ''settled''"
| "rfq_state_text Expired = ''expired''"
| "rfq_state_text Refundable = ''refundable''"
| "rfq_state_text Refunded = ''refunded''"
| "rfq_state_text Refused = ''refused''"
| "rfq_state_text Cancel_pending = ''cancel-pending''"
| "rfq_state_text Cancelled = ''cancelled''"
| "rfq_state_text Reorged = ''reorged''"
| "rfq_state_text Quarantined = ''quarantined''"

definition rfq_states :: "rfq_state list" where
  "rfq_states = [Draft, Requesting, Quoted, Reviewing, Submission_unknown, Funded, Filled, Claimable, Settled,
     Expired, Refundable, Refunded, Refused, Cancel_pending, Cancelled, Reorged, Quarantined]"

fun rfq_phase_text :: "rfq_phase \<Rightarrow> string" where
  "rfq_phase_text Funding = ''funding''"
| "rfq_phase_text Fill = ''fill''"
| "rfq_phase_text Claim = ''claim''"
| "rfq_phase_text Refund = ''refund''"
| "rfq_phase_text Reservation_release = ''reservation-release''"
| "rfq_phase_text Take = ''take''"

definition rfq_phases :: "rfq_phase list" where
  "rfq_phases = [Funding, Fill, Claim, Refund, Reservation_release, Take]"

definition selected_states :: "rfq_state list" where
  "selected_states = [Quoted, Reviewing, Submission_unknown, Settled]"

definition legacy_states :: "rfq_state list" where
  "legacy_states = [Funded, Filled, Claimable, Refundable, Refunded]"

text \<open>A v3 record in one of these states has dropped its signing key.\<close>

definition V3_KEY_TERMINAL_STATES :: "rfq_state list" where
  "V3_KEY_TERMINAL_STATES = [Settled, Expired, Refused, Cancelled, Reorged]"

definition v3StateKeepsSigningKey :: "rfq_state \<Rightarrow> bool" where
  "v3StateKeepsSigningKey s = (s \<notin> set V3_KEY_TERMINAL_STATES)"

section \<open>Field validators\<close>

text \<open>An optional text that is present and not empty, which is what \<open>!record.field\<close> asks.\<close>

definition given :: "string option \<Rightarrow> bool" where
  "given v = (case v of None \<Rightarrow> False | Some s \<Rightarrow> s \<noteq> [])"

definition life_invalid :: "string \<Rightarrow> exn" where
  "life_invalid label = Err (label @ '' is invalid.'')"

definition life_text :: "jsval \<Rightarrow> string \<Rightarrow> nat \<Rightarrow> string result" where
  "life_text v label maximum =
     (case v of JStr s \<Rightarrow> if trim s = [] \<or> maximum < length s then Inl (life_invalid label) else Inr s
      | _ \<Rightarrow> Inl (life_invalid label))"

definition life_timestamp :: "jsval \<Rightarrow> string \<Rightarrow> jsnum result" where
  "life_timestamp v label =
     (case v of JNum x \<Rightarrow> (case as_safe_int x of
          Some n \<Rightarrow> if n \<le> 0 then Inl (life_invalid label) else Inr x
        | None \<Rightarrow> Inl (life_invalid label))
      | _ \<Rightarrow> Inl (life_invalid label))"

definition life_nonneg :: "jsval \<Rightarrow> string \<Rightarrow> int result" where
  "life_nonneg v label =
     (case v of JNum x \<Rightarrow> (case as_safe_int x of
          Some n \<Rightarrow> if n < 0 then Inl (life_invalid label) else Inr n
        | None \<Rightarrow> Inl (life_invalid label))
      | _ \<Rightarrow> Inl (life_invalid label))"

definition life_decimal :: "jsval \<Rightarrow> string \<Rightarrow> bool \<Rightarrow> string result" where
  "life_decimal v label positive =
     bind_r (life_text v label 512) (\<lambda>parsed.
       if \<not> canonical_dec parsed \<or> positive \<and> of_base 10 parsed = 0 then Inl (life_invalid label)
       else Inr parsed)"

text \<open>The number a canonical decimal text denotes.\<close>

definition dec_val :: "string \<Rightarrow> nat" where
  "dec_val s = of_base 10 s"

definition canonicalRfqAccount :: "string \<Rightarrow> string result" where
  "canonicalRfqAccount value =
     bind_r (life_text (JStr value) ''account'' 512) (\<lambda>parsed.
       case js_BigInt parsed of
         Inl _ \<Rightarrow> Inl (Err ''account is invalid.'')
       | Inr felt \<Rightarrow> if felt < 0 then Inl (Err ''account is invalid.'') else Inr (''0x'' @ hex (nat felt)))"

definition LOCALNET_CHAIN_ID :: string where
  "LOCALNET_CHAIN_ID = ''0x51554945544c494e455f4c4f43414c''"

definition HISTORICAL_APP20_LOCALNET_CHAIN_ID :: string where
  "HISTORICAL_APP20_LOCALNET_CHAIN_ID = short_hex ''APP20_LOCALNET''"

lemma historical_code [code]: "HISTORICAL_APP20_LOCALNET_CHAIN_ID = ''0x41505032305f4c4f43414c4e4554''"
  by code_simp

text \<open>
  \<open>toUpperCase\<close>, as far as the comparison with the ASCII names below can tell: a letter outside
  ASCII never becomes one of theirs.
\<close>

definition upper_char :: "char \<Rightarrow> char" where
  "upper_char c = (if is_lower_alpha c then char_of (code c - 32) else c)"

definition to_upper :: "string \<Rightarrow> string" where
  "to_upper s = map upper_char s"

definition named_chain :: "string \<Rightarrow> string option" where
  "named_chain name =
     map_of [(''SN_MAIN'', short_hex ''SN_MAIN''), (''SN_SEPOLIA'', short_hex ''SN_SEPOLIA''),
             (''APP20_LOCALNET'', LOCALNET_CHAIN_ID), (''QUIETLINE_LOCAL'', LOCALNET_CHAIN_ID)] name"

definition canonicalRfqChainId :: "string \<Rightarrow> string result" where
  "canonicalRfqChainId value =
     bind_r (life_text (JStr value) ''chainId'' 512) (\<lambda>raw.
       let parsed = trim raw;
           unprefixed = (if take 9 (to_upper parsed) = ''STARKNET:'' then drop 9 parsed else parsed) in
       case named_chain (to_upper unprefixed) of
         Some named \<Rightarrow> Inr named
       | None \<Rightarrow>
           if is_hex_literal unprefixed then
             (let felt = ''0x'' @ hex (big_int unprefixed) in
              Inr (if felt = HISTORICAL_APP20_LOCALNET_CHAIN_ID then LOCALNET_CHAIN_ID else felt))
           else Inr (to_lower unprefixed))"

definition canonicalLocalRfqId :: "string \<Rightarrow> string result" where
  "canonicalLocalRfqId value =
     (case bind_r (life_text (JStr value) ''local RFQ ID'' 512) canonicalizeStarknetFelt of
        Inl _ \<Rightarrow> Inl (Err ''local RFQ ID must be a bounded Starknet felt.'')
      | Inr felt \<Rightarrow> Inr felt)"

definition isLocalRfqChain :: "string \<Rightarrow> bool" where
  "isLocalRfqChain value = (canonicalRfqChainId value = Inr LOCALNET_CHAIN_ID)"

definition canonicalExecutableId :: "string \<Rightarrow> string \<Rightarrow> string result" where
  "canonicalExecutableId value chainId =
     (if isLocalRfqChain chainId then canonicalLocalRfqId value else life_text (JStr value) ''rfqId'' 512)"

definition sameIdentity :: "string \<Rightarrow> string \<Rightarrow> bool" where
  "sameIdentity l r =
     (case bind_r (canonicalizeStarknetFelt l) (\<lambda>a. bind_r (canonicalizeStarknetFelt r) (\<lambda>b. Inr (a = b))) of
        Inl _ \<Rightarrow> to_lower l = to_lower r | Inr b \<Rightarrow> b)"

definition lifecycle_sameFelt :: "string \<Rightarrow> string \<Rightarrow> bool" where
  "lifecycle_sameFelt l r =
     (case bind_r (js_BigInt l) (\<lambda>a. bind_r (js_BigInt r) (\<lambda>b. Inr (a = b))) of
        Inl _ \<Rightarrow> to_lower l = to_lower r | Inr b \<Rightarrow> b)"

section \<open>Revisions\<close>

definition markRfqLifecyclePersisted :: "rfq_record \<Rightarrow> rfq_record" where
  "markRfqLifecyclePersisted r = r\<lparr>rr_persisted := Some (rr_storageRevision r)\<rparr>"

definition finalizeRfqLifecycleForStorage :: "rfq_record \<Rightarrow> rfq_record" where
  "finalizeRfqLifecycleForStorage r = r\<lparr>rr_storagePredecessor := None, rr_persisted := None\<rparr>"

definition storage_predecessor :: "rfq_record \<Rightarrow> int" where
  "storage_predecessor r = (case rr_persisted r of Some n \<Rightarrow> n
     | None \<Rightarrow> (case rr_storagePredecessor r of Some n \<Rightarrow> n | None \<Rightarrow> rr_storageRevision r))"

text \<open>The patch is the update of the record it stands for.\<close>

definition reviseRfqLifecycle :: "rfq_record \<Rightarrow> (rfq_record \<Rightarrow> rfq_record) \<Rightarrow> rfq_record" where
  "reviseRfqLifecycle r patch =
     (let predecessor = storage_predecessor r in
      (patch r)\<lparr>rr_storageRevision := js_succ predecessor, rr_storagePredecessor := Some predecessor,
                rr_persisted := None\<rparr>)"

definition defaultEvidenceAuthority :: "jsnum \<Rightarrow> evidence_authority" where
  "defaultEvidenceAuthority now = \<lparr>ea_status = Local_non_authoritative,
     ea_label = ''Local devnet observation '' @ [char_of (183::nat)] @ '' not canonical settlement authority'',
     ea_revision = jint 0, ea_observedAt = now\<rparr>"

definition takeAttemptWasProvenNotSubmitted :: "rfq_attempt option \<Rightarrow> bool" where
  "takeAttemptWasProvenNotSubmitted attempt =
     (case attempt of None \<Rightarrow> False
      | Some a \<Rightarrow> at_state a = Reverted \<and> at_walletBoundary a = Some Not_entered \<and> \<not> given (at_transactionHash a))"

section \<open>Buckets, fills and acknowledgements\<close>

definition life_object :: "jsval \<Rightarrow> fields result" where
  "life_object v = (case v of JObj kvs \<Rightarrow> Inr kvs | _ \<Rightarrow> Inl (Err []))"

definition indexed :: "string \<Rightarrow> nat \<Rightarrow> string \<Rightarrow> string" where
  "indexed array index field = array @ ''['' @ dec index @ ''].'' @ field"

definition parseBucket :: "jsval \<Rightarrow> rfq_bucket result" where
  "parseBucket v =
     bind_r (life_object v) (\<lambda>row.
     bind_r (life_decimal (get_field row ''min'') ''bucket.min'' True) (\<lambda>mn.
     bind_r (life_decimal (get_field row ''max'') ''bucket.max'' True) (\<lambda>mx.
     if dec_val mx \<le> dec_val mn \<or> u128_limit \<le> dec_val mx then Inl (Err [])
     else Inr \<lparr>bk_min = mn, bk_max = mx\<rparr>)))"

definition parse_v3_fill :: "nat \<times> jsval \<Rightarrow> rfq_fill result" where
  "parse_v3_fill iv =
     (let label = indexed ''fills'' (fst iv) in
      bind_r (life_object (snd iv)) (\<lambda>row.
      bind_r (life_text (get_field row ''lockId'') (label ''lockId'') 512) (\<lambda>lock.
      bind_r (canonicalLocalRfqId lock) (\<lambda>lockId.
      bind_r (life_decimal (get_field row ''amountA'') (label ''amountA'') True) (\<lambda>amountA.
      bind_r (life_decimal (get_field row ''amountB'') (label ''amountB'') True) (\<lambda>amountB.
      if lockId = ''0x0'' \<or> u128_limit \<le> dec_val amountA \<or> u128_limit \<le> dec_val amountB then Inl (Err [])
      else
        bind_r (life_text (get_field row ''makerId'') (label ''makerId'') 512) (\<lambda>makerId.
        bind_r (life_timestamp (get_field row ''lockExpiresAt'') (label ''lockExpiresAt'')) (\<lambda>expires.
        Inr \<lparr>fl_makerId = makerId, fl_lockId = lockId, fl_amountA = amountA, fl_amountB = amountB,
             fl_lockExpiresAt = expires\<rparr>))))))))"

definition parseV3Fills :: "jsval \<Rightarrow> rfq_fill list result" where
  "parseV3Fills v =
     (case v of
        JArr vs \<Rightarrow>
          if length vs < 1 \<or> 4 < length vs then Inl (Err [])
          else bind_r (map_r parse_v3_fill (enumerate 0 vs)) (\<lambda>fills.
            if \<not> distinct (map fl_makerId fills) \<or> \<not> distinct (map fl_lockId fills) then Inl (Err [])
            else Inr fills)
      | _ \<Rightarrow> Inl (Err []))"

definition parse_acknowledgement :: "nat \<times> jsval \<Rightarrow> rfq_acknowledgement result" where
  "parse_acknowledgement iv =
     (let label = indexed ''acknowledgements'' (fst iv) in
      bind_r (life_object (snd iv)) (\<lambda>row.
      case (get_field row ''accepted'', get_field row ''consistent'') of
        (JBool accepted, JBool consistent) \<Rightarrow>
          bind_r (life_text (get_field row ''makerId'') (label ''makerId'') 512) (\<lambda>makerId.
          if get_field row ''reason'' = JUndef
          then Inr \<lparr>ak_makerId = makerId, ak_accepted = accepted, ak_consistent = consistent, ak_reason = None\<rparr>
          else bind_r (life_text (get_field row ''reason'') (label ''reason'') 512) (\<lambda>reason.
            Inr \<lparr>ak_makerId = makerId, ak_accepted = accepted, ak_consistent = consistent, ak_reason = Some reason\<rparr>))
      | _ \<Rightarrow> Inl (Err [])))"

definition parseTranscriptAcknowledgements :: "jsval \<Rightarrow> rfq_acknowledgement list result" where
  "parseTranscriptAcknowledgements v =
     (case v of
        JArr vs \<Rightarrow> bind_r (map_r parse_acknowledgement (enumerate 0 vs)) (\<lambda>acks.
          if \<not> distinct (map ak_makerId acks) then Inl (Err []) else Inr acks)
      | _ \<Rightarrow> Inl (Err []))"

text \<open>The typed values these validators are called with, as the untyped ones they read.\<close>

definition js_bucket :: "rfq_bucket \<Rightarrow> jsval" where
  "js_bucket b = JObj [(''min'', JStr (bk_min b)), (''max'', JStr (bk_max b))]"

definition js_fill :: "rfq_fill \<Rightarrow> jsval" where
  "js_fill f = JObj [(''makerId'', JStr (fl_makerId f)), (''lockId'', JStr (fl_lockId f)),
     (''amountA'', JStr (fl_amountA f)), (''amountB'', JStr (fl_amountB f)),
     (''lockExpiresAt'', JNum (fl_lockExpiresAt f))]"

definition js_acknowledgement :: "rfq_acknowledgement \<Rightarrow> jsval" where
  "js_acknowledgement a = JObj ([(''makerId'', JStr (ak_makerId a)), (''accepted'', JBool (ak_accepted a)),
     (''consistent'', JBool (ak_consistent a))] @ (case ak_reason a of None \<Rightarrow> [] | Some s \<Rightarrow> [(''reason'', JStr s)]))"

text \<open>An optional member: what is absent stays absent.\<close>

definition opt_r :: "('a \<Rightarrow> 'b result) \<Rightarrow> 'a option \<Rightarrow> 'b option result" where
  "opt_r f v = (case v of None \<Rightarrow> Inr None | Some x \<Rightarrow> bind_r (f x) (\<lambda>y. Inr (Some y)))"

definition request_digest_ok :: "string option \<Rightarrow> bool" where
  "request_digest_ok d = (case d of None \<Rightarrow> False | Some s \<Rightarrow> hex_digits 64 s)"

definition fill_total :: "(rfq_fill \<Rightarrow> string) \<Rightarrow> rfq_fill list \<Rightarrow> nat" where
  "fill_total f fills = sum_list (map (\<lambda>x. dec_val (f x)) fills)"

section \<open>Creation\<close>

record rfq_input =
  ri_chainId :: string
  ri_account :: string
  ri_rfqId :: string
  ri_state :: "rfq_state option"
  ri_mode :: "rfq_mode option"
  ri_now :: jsnum
  ri_terms :: "rfq_terms option"
  ri_selectedQuote :: "selected_quote option"
  ri_settlement :: "rfq_settlement option"
  ri_requestDigest :: "string option"
  ri_bucket :: "rfq_bucket option"
  ri_takerCommitment :: "string option"
  ri_takerSigningKey :: "string option"
  ri_fills :: "rfq_fill list option"
  ri_acknowledgements :: "rfq_acknowledgement list option"

definition create_settlement :: "string \<Rightarrow> rfq_settlement \<Rightarrow> rfq_settlement result" where
  "create_settlement chainId st =
     (if \<not> isLocalRfqChain chainId then Inr st
      else bind_r (canonicalLocalRfqId (st_dealId st)) (\<lambda>dealId.
        if given (st_ticketAddress st)
        then bind_r (canonicalizeStarknetFelt (the (st_ticketAddress st))) (\<lambda>ticket.
          Inr (st\<lparr>st_dealId := dealId, st_ticketAddress := Some ticket\<rparr>))
        else Inr (st\<lparr>st_dealId := dealId\<rparr>)))"

text \<open>
  Does the key of a v3 record fail to fit the public key it authorizes with? The arguments are the
  public key, the signing key and whether a signing key must be there.
\<close>

definition v3_key_mismatch :: "rfq_env \<Rightarrow> string option \<Rightarrow> string option \<Rightarrow> bool \<Rightarrow> bool result" where
  "v3_key_mismatch env commitment key required =
     any_r [Inr (\<not> given commitment), Inr (commitment = Some ''0x0''),
       (case key of None \<Rightarrow> Inr False
        | Some k \<Rightarrow> if k = ''0x0'' then Inr True
            else bind_r (takerPublicKeyFor (take_env.truncate env) k) (\<lambda>p. Inr (Some p \<noteq> commitment))),
       Inr (required \<and> \<not> given key), Inr (\<not> required \<and> key \<noteq> None)]"

text \<open>Do the fills of a selected v3 record contradict its terms, settlement and bucket?\<close>

definition create_contradiction ::
  "string \<Rightarrow> rfq_terms \<Rightarrow> rfq_settlement \<Rightarrow> rfq_fill list \<Rightarrow> rfq_bucket \<Rightarrow> bool result" where
  "create_contradiction rfqId terms st fills bucket =
     (let totalA = fill_total fl_amountA fills; totalB = fill_total fl_amountB fills in
      any_r [Inr (\<not> sameIdentity (st_dealId st) rfqId),
        Inr (sameIdentity (rt_sellAddress terms) (rt_buyAddress terms)),
        Inr (dec totalA \<noteq> rt_sellAmount terms), Inr (Some (dec totalB) \<noteq> rt_buyAmount terms),
        (case rt_minBuyAmount terms of None \<Rightarrow> Inr False
         | Some m \<Rightarrow> bind_r (js_BigInt m) (\<lambda>n. Inr (int totalB < n))),
        Inr (totalA < dec_val (bk_min bucket)), Inr (dec_val (bk_max bucket) < totalA),
        Inr (\<not> num_eq (rt_rfqExpiresAt terms) (st_deadline st)),
        Inr (list_ex (\<lambda>f. \<not> num_eq (fl_lockExpiresAt f) (st_deadline st)) fills)])"

definition v3_selected :: "rfq_mode \<Rightarrow> rfq_state \<Rightarrow> bool" where
  "v3_selected mode s = (mode = V3 \<and> s \<in> set selected_states)"

text \<open>
  The checks of a new record: those on the members as they are given, and those on their canonical
  forms (settlement, bucket, public key, signing key, fills).
\<close>

definition create_shape_error :: "rfq_input \<Rightarrow> rfq_mode \<Rightarrow> rfq_state \<Rightarrow> string option" where
  "create_shape_error i mode s =
     (let required = (mode = V3 \<and> v3StateKeepsSigningKey s) in
      if mode = V3 \<and> (ri_bucket i = None \<or> \<not> given (ri_takerCommitment i)
           \<or> required \<and> \<not> given (ri_takerSigningKey i)
           \<or> s \<in> set selected_states \<and> (case ri_fills i of None \<Rightarrow> True | Some fs \<Rightarrow> length fs < 1))
      then Some ''RFQ v3 requires its bucket, taker authorization key, signing key, and any selected fills.''
      else if mode = V2 \<and> (ri_bucket i \<noteq> None \<or> given (ri_takerCommitment i) \<or> given (ri_takerSigningKey i)
           \<or> ri_fills i \<noteq> None \<or> ri_acknowledgements i \<noteq> None)
      then Some ''Legacy RFQs must not carry v3 execution bindings.''
      else None)"

definition create_binding_error ::
  "rfq_env \<Rightarrow> rfq_input \<Rightarrow> rfq_mode \<Rightarrow> rfq_state \<Rightarrow> string \<Rightarrow> rfq_settlement option \<Rightarrow> rfq_bucket option \<Rightarrow>
   string option \<Rightarrow> string option \<Rightarrow> rfq_fill list option \<Rightarrow> unit result" where
  "create_binding_error env i mode s rfqId settlement bucket commitment key fills =
     bind_r (if mode = V3 then v3_key_mismatch env commitment key (v3StateKeepsSigningKey s) else Inr False) (\<lambda>bad.
     if bad then Inl (Err ''RFQ v3 taker signing key does not match its authorization public key.'')
     else if mode = V3 \<and> ri_state i \<noteq> Some Draft \<and> \<not> request_digest_ok (ri_requestDigest i)
     then Inl (Err ''RFQ v3 requires its canonical request digest.'')
     else if v3_selected mode s
       \<and> (\<not> given (ri_requestDigest i) \<or> ri_terms i = None
          \<or> (case settlement of None \<Rightarrow> True | Some st \<Rightarrow> st_version st \<noteq> Localnet_V3) \<or> fills = None)
     then Inl (Err ''Selected RFQ v3 records require exact Take bindings.'')
     else if v3_selected mode s
     then (case (ri_terms i, settlement, fills, bucket) of
         (Some terms, Some st, Some fs, Some b) \<Rightarrow>
           bind_r (create_contradiction rfqId terms st fs b) (\<lambda>contradicts.
             if contradicts then Inl (Err ''Selected RFQ v3 fills contradict their exact terms.'') else Inr ())
       | _ \<Rightarrow> Inr ())
     else Inr ())"

definition createRfqLifecycleRecord :: "rfq_env \<Rightarrow> rfq_input \<Rightarrow> rfq_record result" where
  "createRfqLifecycleRecord env i =
     bind_r (life_timestamp (JNum (ri_now i)) ''now'') (\<lambda>now.
     bind_r (canonicalRfqChainId (ri_chainId i)) (\<lambda>chainId.
     bind_r (canonicalExecutableId (ri_rfqId i) chainId) (\<lambda>rfqId.
     bind_r (opt_r (create_settlement chainId) (ri_settlement i)) (\<lambda>settlement.
     if settlement \<noteq> None \<and> isLocalRfqChain chainId \<and> st_dealId (the settlement) \<noteq> rfqId
     then Inl (Err ''Local deal identity must equal the canonical RFQ identity.'')
     else
       let mode = (case ri_mode i of None \<Rightarrow> V2 | Some m \<Rightarrow> m);
           s = (case ri_state i of None \<Rightarrow> Draft | Some s \<Rightarrow> s) in
       case create_shape_error i mode s of Some message \<Rightarrow> Inl (Err message)
       | None \<Rightarrow>
       bind_r (opt_r parseBucket (map_option js_bucket (ri_bucket i))) (\<lambda>bucket.
       bind_r (opt_r parseV3Fills (map_option (\<lambda>fs. JArr (map js_fill fs)) (ri_fills i))) (\<lambda>fills.
       bind_r (if given (ri_takerCommitment i) then opt_r canonicalLocalRfqId (ri_takerCommitment i) else Inr None) (\<lambda>commitment.
       bind_r (if given (ri_takerSigningKey i) then opt_r canonicalLocalRfqId (ri_takerSigningKey i) else Inr None) (\<lambda>key.
       bind_r (create_binding_error env i mode s rfqId settlement bucket commitment key fills) (\<lambda>_.
       bind_r (canonicalRfqAccount (ri_account i)) (\<lambda>account.
       bind_r (if given (ri_requestDigest i) then opt_r (\<lambda>d. life_text (JStr d) ''requestDigest'' 512) (ri_requestDigest i)
               else Inr None) (\<lambda>digest.
       bind_r (opt_r (\<lambda>acks. parseTranscriptAcknowledgements (JArr (map js_acknowledgement acks))) (ri_acknowledgements i)) (\<lambda>acks.
       Inr \<lparr>rr_mode = mode, rr_chainId = chainId, rr_account = account, rr_rfqId = rfqId, rr_state = s, rr_updatedAt = now,
            rr_storageRevision = 0, rr_storagePredecessor = None, rr_persisted = None, rr_terms = ri_terms i,
            rr_selectedQuote = ri_selectedQuote i, rr_settlement = settlement, rr_attempts = Map.empty,
            rr_latestObservation = None, rr_evidenceAuthority = defaultEvidenceAuthority now,
            rr_requestDigest = digest, rr_quoteExpiresAt = None, rr_reservationExpiresAt = None,
            rr_transactionHash = None, rr_bucket = bucket, rr_takerCommitment = commitment,
            rr_takerSigningKey = key, rr_fills = fills, rr_takeTransactionHash = None, rr_acknowledgements = acks,
            rr_reason = None, rr_recoverySource = False, rr_recoveryReadFailure = None,
            rr_restoredFromBackup = False\<rparr>))))))))))))"

section \<open>Exact targets\<close>

fun target_scope_of :: "rfq_target \<Rightarrow> target_scope" where
  "target_scope_of (Request_reservations sc l) = sc"
| "target_scope_of (Funded_settlement_expiry sc t) = sc"
| "target_scope_of (Funding_ticket sc t) = sc"
| "target_scope_of (Maker_fill sc t a) = sc"
| "target_scope_of (Take_target sc d t) = sc"

definition targetCommonMatchesRecord :: "rfq_record \<Rightarrow> rfq_target \<Rightarrow> bool result" where
  "targetCommonMatchesRecord r target =
     (let sc = target_scope_of target in
      bind_r (canonicalRfqChainId (ts_chainId sc)) (\<lambda>c.
      bind_r (canonicalRfqChainId (rr_chainId r)) (\<lambda>c'.
      if c \<noteq> c' then Inr False
      else
        bind_r (canonicalRfqAccount (ts_account sc)) (\<lambda>a.
        bind_r (canonicalRfqAccount (rr_account r)) (\<lambda>a'.
        Inr (a = a' \<and> sameIdentity (ts_rfqId sc) (rr_rfqId r) \<and> Some (ts_requestDigest sc) = rr_requestDigest r))))))"

definition settlementTargetMatchesRecord :: "rfq_record \<Rightarrow> rfq_target \<Rightarrow> deal_target \<Rightarrow> bool result" where
  "settlementTargetMatchesRecord r target t =
     bind_r (targetCommonMatchesRecord r target) (\<lambda>common.
     Inr (common \<and> (case (rr_terms r, rr_selectedQuote r, rr_settlement r) of
         (Some terms, Some quote, Some st) \<Rightarrow>
           sameIdentity (dt_dealId t) (st_dealId st) \<and> dt_solverId t = sq_solverId quote
           \<and> dt_reservationId t = sq_reservationId quote
           \<and> Some (dt_reservationFence t) = sq_reservationFence quote
           \<and> Some (dt_quoteDigest t) = sq_quoteDigest quote
           \<and> sameIdentity (dt_sellToken t) (rt_sellAddress terms) \<and> dt_sellAmount t = rt_sellAmount terms
           \<and> sameIdentity (dt_buyToken t) (rt_buyAddress terms) \<and> dt_buyAmount t = sq_buyAmount quote
           \<and> num_eq (dt_deadline t) (st_deadline st) \<and> Some (sq_intentDigest quote) = rr_requestDigest r
       | _ \<Rightarrow> False)))"

definition record_scope :: "rfq_record \<Rightarrow> string \<Rightarrow> target_scope" where
  "record_scope r digest = \<lparr>ts_chainId = rr_chainId r, ts_account = rr_account r, ts_rfqId = rr_rfqId r,
     ts_requestDigest = digest\<rparr>"

definition fundingTicketAttemptTargetFromLifecycle :: "rfq_record \<Rightarrow> rfq_target result" where
  "fundingTicketAttemptTargetFromLifecycle r =
     (case (rr_terms r, rr_selectedQuote r, rr_settlement r) of
        (Some terms, Some quote, Some st) \<Rightarrow>
          if given (rr_requestDigest r) \<and> given (sq_reservationFence quote) \<and> given (sq_quoteDigest quote)
          then Inr (Funding_ticket (record_scope r (the (rr_requestDigest r)))
            \<lparr>dt_dealId = st_dealId st, dt_solverId = sq_solverId quote, dt_reservationId = sq_reservationId quote,
             dt_reservationFence = the (sq_reservationFence quote), dt_quoteDigest = the (sq_quoteDigest quote),
             dt_sellToken = rt_sellAddress terms, dt_sellAmount = rt_sellAmount terms,
             dt_buyToken = rt_buyAddress terms, dt_buyAmount = sq_buyAmount quote, dt_deadline = st_deadline st\<rparr>)
          else Inl (Err ''Exact request, quote, reservation, terms, and settlement are required for a funding ticket.'')
      | _ \<Rightarrow> Inl (Err ''Exact request, quote, reservation, terms, and settlement are required for a funding ticket.''))"

definition exact_fill_of :: "rfq_fill \<Rightarrow> exact_fill result" where
  "exact_fill_of f =
     bind_r (canonicalLocalRfqId (fl_lockId f)) (\<lambda>lock.
     bind_r (life_decimal (JStr (fl_amountA f)) ''fill amountA'' True) (\<lambda>a.
     bind_r (life_decimal (JStr (fl_amountB f)) ''fill amountB'' True) (\<lambda>b.
     Inr \<lparr>ef_lockId = lock, ef_amountA = a, ef_amountB = b\<rparr>)))"

definition exact_total :: "(exact_fill \<Rightarrow> string) \<Rightarrow> exact_fill list \<Rightarrow> nat" where
  "exact_total f fills = sum_list (map (\<lambda>x. dec_val (f x)) fills)"

text \<open>The scope, the deal and the exact fills of the Take a v3 record stands for.\<close>

definition take_of_lifecycle :: "rfq_record \<Rightarrow> (target_scope \<times> string \<times> exact_take) result" where
  "take_of_lifecycle r =
     (case (rr_requestDigest r, rr_terms r, rr_settlement r, rr_fills r) of
        (Some digest, Some terms, Some st, Some fs) \<Rightarrow>
          if rr_mode r \<noteq> V3 \<or> digest = [] \<or> length fs < 1
          then Inl (Err ''RFQ v3 exact request, terms, settlement, and fills are required for Take.'')
          else bind_r (map_r exact_fill_of fs) (\<lambda>fills.
            let totalA = exact_total ef_amountA fills; totalB = exact_total ef_amountB fills in
            if dec totalA \<noteq> rt_sellAmount terms \<or> rt_buyAmount terms \<noteq> None \<and> Some (dec totalB) \<noteq> rt_buyAmount terms
            then Inl (Err ''RFQ v3 exact fills contradict the persisted total terms.'')
            else Inr (record_scope r digest, st_dealId st,
              \<lparr>xt_tokenA = rt_sellAddress terms, xt_totalA = dec totalA, xt_tokenB = rt_buyAddress terms,
               xt_totalB = dec totalB, xt_fills = fills\<rparr>))
      | _ \<Rightarrow> Inl (Err ''RFQ v3 exact request, terms, settlement, and fills are required for Take.''))"

definition takeAttemptTargetFromLifecycle :: "rfq_record \<Rightarrow> rfq_target result" where
  "takeAttemptTargetFromLifecycle r = bind_r (take_of_lifecycle r) (\<lambda>(sc, deal, want). Inr (Take_target sc deal want))"

definition same_exact_fill :: "exact_fill \<Rightarrow> exact_fill \<Rightarrow> bool" where
  "same_exact_fill f g = (sameIdentity (ef_lockId f) (ef_lockId g) \<and> ef_amountA f = ef_amountA g \<and> ef_amountB f = ef_amountB g)"

definition takeTargetMatchesRecord :: "rfq_record \<Rightarrow> rfq_target \<Rightarrow> string \<Rightarrow> exact_take \<Rightarrow> bool" where
  "takeTargetMatchesRecord r target deal want =
     (case bind_r (take_of_lifecycle r) (\<lambda>(_, d, expected).
           bind_r (targetCommonMatchesRecord r target) (\<lambda>common.
           Inr (common \<and> sameIdentity deal d \<and> sameIdentity (xt_tokenA want) (xt_tokenA expected)
             \<and> xt_totalA want = xt_totalA expected \<and> sameIdentity (xt_tokenB want) (xt_tokenB expected)
             \<and> xt_totalB want = xt_totalB expected
             \<and> list_all2 same_exact_fill (xt_fills want) (xt_fills expected)))) of
        Inl _ \<Rightarrow> False | Inr b \<Rightarrow> b)"

section \<open>The assertions of a stored record\<close>

text \<open>The target of one attempt fits its phase and the bindings of the record.\<close>

definition attempt_error :: "rfq_phase \<Rightarrow> string \<Rightarrow> unit result" where
  "attempt_error phase message = Inl (Err (rfq_phase_text phase @ message))"

definition assert_phase_target :: "rfq_record \<Rightarrow> rfq_phase \<Rightarrow> rfq_target \<Rightarrow> unit result" where
  "assert_phase_target r phase target =
     (case phase of
        Funding \<Rightarrow> (case target of
            Funding_ticket _ t \<Rightarrow> bind_r (settlementTargetMatchesRecord r target t) (\<lambda>fits.
              if fits then Inr () else Inl (Err ''funding ticket target contradicts immutable terms.''))
          | _ \<Rightarrow> Inl (Err ''funding ticket target contradicts immutable terms.''))
      | Fill \<Rightarrow> (case target of
            Maker_fill _ t address \<Rightarrow> bind_r (settlementTargetMatchesRecord r target t) (\<lambda>fits.
              if fits \<and> (case rr_settlement r of None \<Rightarrow> False
                  | Some st \<Rightarrow> given (st_ticketAddress st) \<and> sameIdentity address (the (st_ticketAddress st)))
              then Inr () else Inl (Err ''maker-fill target contradicts immutable terms.''))
          | _ \<Rightarrow> Inl (Err ''maker-fill target contradicts immutable terms.''))
      | Take \<Rightarrow> (case target of
            Take_target _ deal want \<Rightarrow>
              if takeTargetMatchesRecord r target deal want then Inr ()
              else Inl (Err ''Take target contradicts immutable v3 fills.'')
          | _ \<Rightarrow> Inl (Err ''Take target contradicts immutable v3 fills.''))
      | _ \<Rightarrow> (case target of
            Request_reservations _ _ \<Rightarrow> Inr ()
          | Funded_settlement_expiry _ t \<Rightarrow> (case (rr_settlement r, rr_selectedQuote r) of
                (Some st, Some quote) \<Rightarrow>
                  if sameIdentity (et_dealId t) (st_dealId st) \<and> sameIdentity (et_escrowAddress t) (st_escrowAddress st)
                    \<and> et_solverId t = sq_solverId quote \<and> et_reservationId t = sq_reservationId quote
                    \<and> Some (et_reservationFence t) = sq_reservationFence quote
                    \<and> Some (et_quoteDigest t) = sq_quoteDigest quote
                  then Inr () else Inl (Err ''funded reservation-release target contradicts immutable terms.'')
              | _ \<Rightarrow> Inl (Err ''funded reservation-release target contradicts immutable terms.''))
          | _ \<Rightarrow> Inl (Err ''reservation-release requires an exact release target.'')))"

definition assert_phase_attempt :: "rfq_record \<Rightarrow> rfq_phase \<Rightarrow> unit result" where
  "assert_phase_attempt r phase =
     (case rr_attempts r phase of None \<Rightarrow> Inr ()
      | Some a \<Rightarrow>
          if phase = Claim \<or> phase = Refund
          then if at_target a \<noteq> None then attempt_error phase '' must not carry an attempt target.'' else Inr ()
          else if rr_mode r = V3 \<and> phase \<noteq> Take
          then Inl (Err (''RFQ v3 must not carry a legacy '' @ rfq_phase_text phase @ '' attempt.''))
          else if rr_mode r \<noteq> V3 \<and> phase = Take then Inl (Err ''Legacy RFQs must not carry a Take attempt.'')
          else (case at_target a of
              None \<Rightarrow>
                if phase = Funding \<and> at_state a = Submitted_unknown \<and> given (at_transactionHash a)
                   \<and> rr_terms r = None \<and> rr_settlement r = None
                then Inr () else attempt_error phase '' requires its exact immutable attempt target.''
            | Some target \<Rightarrow> bind_r (targetCommonMatchesRecord r target) (\<lambda>common.
                if \<not> common then attempt_error phase '' attempt target changed lifecycle scope.''
                else assert_phase_target r phase target)))"

definition assertRfqLifecycleAttemptTargets :: "rfq_record \<Rightarrow> unit result" where
  "assertRfqLifecycleAttemptTargets r =
     bind_r (map_r (assert_phase_attempt r) rfq_phases) (\<lambda>_. Inr ())"

text \<open>The v3 bindings: none on a legacy record; key, request digest and exact fills on a v3 record.\<close>

definition carries_v3_bindings :: "rfq_record \<Rightarrow> bool" where
  "carries_v3_bindings r =
     (rr_bucket r \<noteq> None \<or> given (rr_takerCommitment r) \<or> given (rr_takerSigningKey r) \<or> rr_fills r \<noteq> None
      \<or> given (rr_takeTransactionHash r) \<or> rr_acknowledgements r \<noteq> None \<or> rr_attempts r Take \<noteq> None
      \<or> rr_restoredFromBackup r)"

definition take_bindings_missing :: "rfq_record \<Rightarrow> bool" where
  "take_bindings_missing r =
     (case (rr_terms r, rr_settlement r, rr_fills r) of
        (Some terms, Some st, Some fs) \<Rightarrow>
          \<not> given (rt_buyAmount terms) \<or> st_version st \<noteq> Localnet_V3 \<or> length fs < 1 \<or> 4 < length fs
          \<or> \<not> sameIdentity (st_dealId st) (rr_rfqId r)
      | _ \<Rightarrow> True)"

definition selected_contradiction :: "rfq_bucket \<Rightarrow> rfq_terms \<Rightarrow> rfq_settlement \<Rightarrow> rfq_fill list \<Rightarrow> exact_take \<Rightarrow> bool result" where
  "selected_contradiction bucket terms st fs want =
     any_r [bind_r (js_BigInt (bk_min bucket)) (\<lambda>n. Inr (int (dec_val (xt_totalA want)) < n)),
       bind_r (js_BigInt (bk_max bucket)) (\<lambda>n. Inr (n < int (dec_val (xt_totalA want)))),
       (case rt_minBuyAmount terms of None \<Rightarrow> Inr False
        | Some m \<Rightarrow> bind_r (js_BigInt m) (\<lambda>n. Inr (int (dec_val (xt_totalB want)) < n))),
       Inr (\<not> num_eq (rt_rfqExpiresAt terms) (st_deadline st)),
       Inr (list_ex (\<lambda>f. \<not> num_eq (fl_lockExpiresAt f) (st_deadline st)) fs)]"

definition assertRfqV3LifecycleBindings :: "rfq_env \<Rightarrow> rfq_record \<Rightarrow> unit result" where
  "assertRfqV3LifecycleBindings env r =
     (if rr_mode r \<noteq> V3
      then if carries_v3_bindings r then Inl (Err ''Legacy RFQs must not carry v3 execution bindings.'') else Inr ()
      else
        let required = (v3StateKeepsSigningKey (rr_state r) \<and> \<not> rr_restoredFromBackup r) in
        bind_r (if rr_bucket r = None then Inr True
                else v3_key_mismatch env (rr_takerCommitment r) (rr_takerSigningKey r) required) (\<lambda>bad.
        if bad then Inl (Err ''RFQ v3 execution authorization bindings are invalid.'')
        else if rr_state r \<notin> set selected_states
        then if rr_state r \<noteq> Draft \<and> \<not> request_digest_ok (rr_requestDigest r)
             then Inl (Err ''Requested RFQ v3 records require their request digest.'') else Inr ()
        else if \<not> request_digest_ok (rr_requestDigest r)
        then Inl (Err ''Selected RFQ v3 records require their request digest.'')
        else if take_bindings_missing r then Inl (Err ''Selected RFQ v3 records require exact Take bindings.'')
        else bind_r (take_of_lifecycle r) (\<lambda>(_, _, want).
          bind_r (selected_contradiction (the (rr_bucket r)) (the (rr_terms r)) (the (rr_settlement r))
              (the (rr_fills r)) want) (\<lambda>contradicts.
          if contradicts then Inl (Err ''Selected RFQ v3 fills contradict their exact terms.'') else Inr ()))))"

section \<open>Transitions\<close>

text \<open>
  The members a caller of \<open>transitionRfqLifecycle\<close> may replace, each \<open>None\<close> when the patch does not
  name it. (The storage revision and its predecessor may be named too, but are overwritten.)
\<close>

record rfq_patch =
  pt_mode :: "rfq_mode option"
  pt_terms :: "rfq_terms option"
  pt_selectedQuote :: "selected_quote option"
  pt_settlement :: "rfq_settlement option"
  pt_attempts :: "(rfq_phase \<Rightarrow> rfq_attempt option) option"
  pt_latestObservation :: "deal_observation option"
  pt_evidenceAuthority :: "evidence_authority option"
  pt_requestDigest :: "string option"
  pt_quoteExpiresAt :: "jsnum option"
  pt_reservationExpiresAt :: "jsnum option"
  pt_transactionHash :: "string option"
  pt_bucket :: "rfq_bucket option"
  pt_takerCommitment :: "string option"
  pt_takerSigningKey :: "string option"
  pt_fills :: "rfq_fill list option"
  pt_takeTransactionHash :: "string option"
  pt_acknowledgements :: "rfq_acknowledgement list option"
  pt_reason :: "string option"
  pt_recoverySource :: "bool option"
  pt_recoveryReadFailure :: "(string \<times> jsnum) option"
  pt_restoredFromBackup :: "bool option"

definition empty_patch :: rfq_patch where
  "empty_patch = \<lparr>pt_mode = None, pt_terms = None, pt_selectedQuote = None, pt_settlement = None,
     pt_attempts = None, pt_latestObservation = None, pt_evidenceAuthority = None, pt_requestDigest = None,
     pt_quoteExpiresAt = None, pt_reservationExpiresAt = None, pt_transactionHash = None, pt_bucket = None,
     pt_takerCommitment = None, pt_takerSigningKey = None, pt_fills = None, pt_takeTransactionHash = None,
     pt_acknowledgements = None, pt_reason = None, pt_recoverySource = None, pt_recoveryReadFailure = None,
     pt_restoredFromBackup = None\<rparr>"

definition patched :: "'a option \<Rightarrow> 'a option \<Rightarrow> 'a option" where
  "patched new old = (case new of None \<Rightarrow> old | Some _ \<Rightarrow> new)"

definition patched_to :: "'a option \<Rightarrow> 'a \<Rightarrow> 'a" where
  "patched_to new old = (case new of None \<Rightarrow> old | Some v \<Rightarrow> v)"

definition apply_patch :: "rfq_patch \<Rightarrow> rfq_record \<Rightarrow> rfq_record" where
  "apply_patch p r = r\<lparr>
     rr_mode := patched_to (pt_mode p) (rr_mode r), rr_terms := patched (pt_terms p) (rr_terms r),
     rr_selectedQuote := patched (pt_selectedQuote p) (rr_selectedQuote r),
     rr_settlement := patched (pt_settlement p) (rr_settlement r),
     rr_attempts := patched_to (pt_attempts p) (rr_attempts r),
     rr_latestObservation := patched (pt_latestObservation p) (rr_latestObservation r),
     rr_evidenceAuthority := patched_to (pt_evidenceAuthority p) (rr_evidenceAuthority r),
     rr_requestDigest := patched (pt_requestDigest p) (rr_requestDigest r),
     rr_quoteExpiresAt := patched (pt_quoteExpiresAt p) (rr_quoteExpiresAt r),
     rr_reservationExpiresAt := patched (pt_reservationExpiresAt p) (rr_reservationExpiresAt r),
     rr_transactionHash := patched (pt_transactionHash p) (rr_transactionHash r),
     rr_bucket := patched (pt_bucket p) (rr_bucket r),
     rr_takerCommitment := patched (pt_takerCommitment p) (rr_takerCommitment r),
     rr_takerSigningKey := patched (pt_takerSigningKey p) (rr_takerSigningKey r),
     rr_fills := patched (pt_fills p) (rr_fills r),
     rr_takeTransactionHash := patched (pt_takeTransactionHash p) (rr_takeTransactionHash r),
     rr_acknowledgements := patched (pt_acknowledgements p) (rr_acknowledgements r),
     rr_reason := patched (pt_reason p) (rr_reason r),
     rr_recoverySource := patched_to (pt_recoverySource p) (rr_recoverySource r),
     rr_recoveryReadFailure := patched (pt_recoveryReadFailure p) (rr_recoveryReadFailure r),
     rr_restoredFromBackup := patched_to (pt_restoredFromBackup p) (rr_restoredFromBackup r)\<rparr>"

definition patched_attempt :: "rfq_patch \<Rightarrow> rfq_record \<Rightarrow> rfq_phase \<Rightarrow> rfq_attempt option" where
  "patched_attempt p r phase =
     patched (case pt_attempts p of None \<Rightarrow> None | Some m \<Rightarrow> m phase) (rr_attempts r phase)"

definition wallet_evidence :: "rfq_attempt \<Rightarrow> bool" where
  "wallet_evidence a = (given (at_transactionHash a) \<or> at_walletBoundary a = Some Entered)"

definition submission_evidence :: "rfq_attempt option \<Rightarrow> bool" where
  "submission_evidence attempt =
     (case attempt of None \<Rightarrow> False
      | Some a \<Rightarrow> at_state a = Submitted_unknown \<and> given (at_transactionHash a)
          \<or> at_state a = Wallet_boundary_unknown \<and> at_walletBoundary a = Some Entered)"

text \<open>The checks before a transition is made: the error of the first that fails.\<close>

definition transition_error :: "rfq_record \<Rightarrow> rfq_state \<Rightarrow> rfq_patch \<Rightarrow> string option" where
  "transition_error r s p =
     (let v3 = (rr_mode r = V3); take_attempt = patched_attempt p r Take; funding = patched_attempt p r Funding in
      if s = Reorged then Some ''Only an increasing evidence-authority signal may mark an RFQ reorged.''
      else if s \<notin> set (allowed (rr_state r)) \<and> \<not> (v3 \<and> rr_state r = Submission_unknown \<and> s = Expired)
      then Some (''RFQ lifecycle cannot transition from '' @ rfq_state_text (rr_state r) @ '' to '' @ rfq_state_text s @ ''.'')
      else if v3 \<and> s \<in> set legacy_states
      then Some (''RFQ v3 cannot enter the legacy '' @ rfq_state_text s @ '' state.'')
      else if \<not> v3 \<and> s = Settled \<and> rr_state r = Submission_unknown
      then Some ''Legacy RFQs cannot settle directly from submission-unknown.''
      else if s = Submission_unknown \<and> \<not> submission_evidence (if v3 then take_attempt else funding)
      then Some ''submission-unknown requires a submitted hash or durable hashless wallet-boundary evidence.''
      else if rr_state r = Submission_unknown \<and> s = Reviewing \<and> v3
      then Some ''A Take that reached the wallet boundary cannot return to review.''
      else if rr_state r = Submission_unknown \<and> s = Reviewing
        \<and> (case funding of None \<Rightarrow> True | Some a \<Rightarrow> at_state a \<noteq> Reverted)
      then Some ''Only a proven reverted funding attempt may return to deliberate review.''
      else if v3 \<and> rr_state r = Submission_unknown \<and> s = Expired
        \<and> (case take_attempt of None \<Rightarrow> True | Some a \<Rightarrow> at_state a \<noteq> Reverted \<or> \<not> wallet_evidence a)
      then Some ''Terminal Take reversion requires wallet-boundary or transaction evidence.''
      else if v3 \<and> s = Settled
        \<and> (case take_attempt of None \<Rightarrow> True | Some a \<Rightarrow> at_state a \<noteq> Confirmed \<or> \<not> wallet_evidence a)
      then Some ''RFQ v3 settlement requires a confirmed exact Take attempt.''
      else None)"

definition transitionRfqLifecycle ::
  "rfq_env \<Rightarrow> rfq_record \<Rightarrow> rfq_state \<Rightarrow> jsnum \<Rightarrow> rfq_patch \<Rightarrow> rfq_record result" where
  "transitionRfqLifecycle env r s now p =
     (case transition_error r s p of Some message \<Rightarrow> Inl (Err message)
      | None \<Rightarrow>
      let removesSigningKey = (rr_mode r = V3 \<and> \<not> v3StateKeepsSigningKey s);
          hash = patched (Option.bind (Option.bind (pt_attempts p) (\<lambda>m. m Take)) at_transactionHash)
                   (Option.bind (rr_attempts r Take) at_transactionHash) in
      bind_r (life_timestamp (JNum now) ''now'') (\<lambda>stamp.
      let settled = (\<lambda>x. if rr_mode r = V3 \<and> s = Settled then x\<lparr>rr_takeTransactionHash := hash\<rparr> else x);
          unsigned = (\<lambda>x. if removesSigningKey then x\<lparr>rr_takerSigningKey := None\<rparr> else x);
          following = reviseRfqLifecycle r
            (\<lambda>x. settled (unsigned ((apply_patch p x)\<lparr>rr_state := s, rr_updatedAt := stamp\<rparr>))) in
      bind_r (assertRfqLifecycleAttemptTargets following) (\<lambda>_.
      bind_r (assertRfqV3LifecycleBindings env following) (\<lambda>_.
      Inr following))))"

section \<open>Attempts\<close>

fun attempt_states :: "rfq_phase \<Rightarrow> rfq_state list" where
  "attempt_states Funding = [Reviewing]"
| "attempt_states Fill = [Funded]"
| "attempt_states Claim = [Claimable]"
| "attempt_states Refund = [Refundable]"
| "attempt_states Reservation_release = [Quoted, Reviewing, Cancel_pending, Funded]"
| "attempt_states Take = [Reviewing]"

fun target_fits_phase :: "rfq_phase \<Rightarrow> rfq_target option \<Rightarrow> bool" where
  "target_fits_phase Reservation_release (Some (Request_reservations _ _)) = True"
| "target_fits_phase Reservation_release (Some (Funded_settlement_expiry _ _)) = True"
| "target_fits_phase Funding (Some (Funding_ticket _ _)) = True"
| "target_fits_phase Fill (Some (Maker_fill _ _ _)) = True"
| "target_fits_phase Take (Some (Take_target _ _ _)) = True"
| "target_fits_phase Claim None = True"
| "target_fits_phase Refund None = True"
| "target_fits_phase _ _ = False"

fun rfq_mode_text :: "rfq_mode \<Rightarrow> string" where
  "rfq_mode_text V2 = ''v2''"
| "rfq_mode_text V3 = ''v3''"

text \<open>The checks on the attempt that is already there.\<close>

definition existing_attempt_error :: "rfq_phase \<Rightarrow> string \<Rightarrow> rfq_attempt \<Rightarrow> string option" where
  "existing_attempt_error phase attemptId a =
     (if at_state a = Confirmed
      then Some (rfq_phase_text phase @ '' is already confirmed and cannot be submitted again.'')
      else if phase = Take \<and> at_state a = Reverted \<and> \<not> takeAttemptWasProvenNotSubmitted (Some a)
      then Some ''Take may retry only after it was proven not submitted before wallet entry.''
      else if at_state a = Reverted \<and> at_attemptId a = attemptId
      then Some (rfq_phase_text phase @ '' retry requires a new deliberate attempt id.'')
      else if at_state a \<in> {Preparing, Wallet_boundary_unknown, Submitted_unknown}
      then Some (rfq_phase_text phase @ '' already has an unknown attempt; verify it before retrying.'')
      else None)"

definition beginRfqPhaseAttempt ::
  "rfq_env \<Rightarrow> rfq_record \<Rightarrow> rfq_phase \<Rightarrow> string \<Rightarrow> jsnum \<Rightarrow> rfq_target option \<Rightarrow> rfq_record result" where
  "beginRfqPhaseAttempt env r phase attemptId now target =
     (if (rr_mode r = V3) \<noteq> (phase = Take)
      then Inl (Err (rfq_phase_text phase @ '' is unavailable for RFQ '' @ rfq_mode_text (rr_mode r) @ ''.''))
      else bind_r (assertRfqV3LifecycleBindings env r) (\<lambda>_.
        if phase = Take \<and> (rr_restoredFromBackup r \<or> \<not> given (rr_takerSigningKey r))
        then Inl (Err ''RFQ v3 signing authority is unavailable; start a fresh request.'')
        else if rr_state r \<notin> set (attempt_states phase)
        then Inl (Err (rfq_phase_text phase @ '' cannot begin while the RFQ is '' @ rfq_state_text (rr_state r) @ ''.''))
        else case Option.bind (rr_attempts r phase) (existing_attempt_error phase attemptId) of
          Some message \<Rightarrow> Inl (Err message)
        | None \<Rightarrow>
          bind_r (life_timestamp (JNum now) ''now'') (\<lambda>stamp.
          if \<not> target_fits_phase phase target
          then Inl (Err (rfq_phase_text phase @ '' requires its exact immutable attempt target.''))
          else bind_r (life_text (JStr attemptId) ''attemptId'' 512) (\<lambda>attemptId'.
            let attempt = \<lparr>at_attemptId = attemptId', at_state = Preparing, at_createdAt = stamp, at_updatedAt = stamp,
                  at_transactionHash = None, at_observation = None, at_walletBoundary = None, at_target = target\<rparr>;
                retried = (phase = Take \<and> (case rr_attempts r phase of None \<Rightarrow> False | Some a \<Rightarrow> at_state a = Reverted));
                following = reviseRfqLifecycle r (\<lambda>x.
                  (if retried then x\<lparr>rr_takeTransactionHash := None\<rparr> else x)
                  \<lparr>rr_attempts := (rr_attempts r)(phase \<mapsto> attempt), rr_updatedAt := stamp\<rparr>) in
            bind_r (assertRfqLifecycleAttemptTargets following) (\<lambda>_. Inr following)))))"

text \<open>What a caller may replace in an attempt.\<close>

record attempt_patch =
  ap_transactionHash :: "string option"
  ap_observation :: "string option"
  ap_walletBoundary :: "wallet_boundary option"

definition updateRfqPhaseAttempt ::
  "rfq_record \<Rightarrow> rfq_phase \<Rightarrow> attempt_state \<Rightarrow> jsnum \<Rightarrow> attempt_patch \<Rightarrow> rfq_record result" where
  "updateRfqPhaseAttempt r phase s now p =
     (case rr_attempts r phase of
        None \<Rightarrow> Inl (Err (rfq_phase_text phase @ '' has no persisted attempt.''))
      | Some current \<Rightarrow>
          if at_state current = Confirmed then Inl (Err (rfq_phase_text phase @ '' is already confirmed.''))
          else if s = Submitted_unknown \<and> \<not> given (ap_transactionHash p) \<and> \<not> given (at_transactionHash current)
          then Inl (Err ''A submitted-unknown attempt requires its transaction hash.'')
          else if s = Wallet_boundary_unknown
            \<and> patched (ap_walletBoundary p) (at_walletBoundary current) \<noteq> Some Entered
          then Inl (Err ''A hashless unknown attempt requires durable wallet-boundary evidence.'')
          else bind_r (life_timestamp (JNum now) ''now'') (\<lambda>stamp.
            let attempt = current\<lparr>at_state := s, at_updatedAt := stamp,
                  at_transactionHash := patched (ap_transactionHash p) (at_transactionHash current),
                  at_observation := patched (ap_observation p) (at_observation current),
                  at_walletBoundary := patched (ap_walletBoundary p) (at_walletBoundary current)\<rparr> in
            Inr (reviseRfqLifecycle r (\<lambda>x.
              (if phase = Take \<and> given (at_transactionHash attempt)
               then x\<lparr>rr_takeTransactionHash := at_transactionHash attempt\<rparr>
               else if phase = Funding \<and> given (at_transactionHash attempt)
               then x\<lparr>rr_transactionHash := at_transactionHash attempt\<rparr> else x)
              \<lparr>rr_attempts := (rr_attempts r)(phase \<mapsto> attempt), rr_updatedAt := stamp\<rparr>))))"

section \<open>What the interface may offer\<close>

definition active_attempt :: "rfq_record \<Rightarrow> rfq_attempt option" where
  "active_attempt r = (if rr_mode r = V3 then rr_attempts r Take else rr_attempts r Funding)"

definition rfqHasFundingEvidence :: "rfq_record \<Rightarrow> bool" where
  "rfqHasFundingEvidence r =
     ((case active_attempt r of None \<Rightarrow> False
       | Some a \<Rightarrow> at_walletBoundary a = Some Entered
           \<or> at_state a \<in> {Wallet_boundary_unknown, Submitted_unknown, Confirmed} \<or> given (at_transactionHash a))
      \<or> (case rr_latestObservation r of None \<Rightarrow> False | Some ob \<Rightarrow> 0 < do_status ob)
      \<or> rr_state r \<in> {Submission_unknown, Funded, Filled, Claimable, Settled, Refundable, Refunded})"

definition lifecycleMayForget :: "rfq_record \<Rightarrow> bool" where
  "lifecycleMayForget r =
     ((rr_state r \<in> {Settled, Refunded, Cancelled, Refused} \<or> rr_mode r = V3 \<and> rr_state r = Expired)
      \<and> ea_status (rr_evidenceAuthority r) = Local_non_authoritative)"

definition quote_member :: "(selected_quote \<Rightarrow> jsnum) \<Rightarrow> jsnum option \<Rightarrow> rfq_record \<Rightarrow> jsnum" where
  "quote_member f own r =
     (case own of Some x \<Rightarrow> x | None \<Rightarrow> (case rr_selectedQuote r of Some q \<Rightarrow> f q | None \<Rightarrow> jint 0))"

definition submission_expires :: "rfq_record \<Rightarrow> jsnum" where
  "submission_expires r =
     (if rr_mode r = V3 then (case rr_settlement r of Some st \<Rightarrow> st_deadline st | None \<Rightarrow> jint 0)
      else quote_member sq_quoteExpiresAt (rr_quoteExpiresAt r) r)"

definition reservation_expires :: "rfq_record \<Rightarrow> jsnum" where
  "reservation_expires r = quote_member sq_reservationExpiresAt (rr_reservationExpiresAt r) r"

definition lifecycleMaySubmit :: "rfq_record \<Rightarrow> jsnum \<Rightarrow> bool" where
  "lifecycleMaySubmit r now =
     (rr_state r = Reviewing
      \<and> (active_attempt r = None \<or> rr_mode r = V3 \<and> takeAttemptWasProvenNotSubmitted (rr_attempts r Take))
      \<and> \<not> rr_restoredFromBackup r
      \<and> (rr_mode r \<noteq> V3 \<or> given (rr_takerSigningKey r))
      \<and> num_lt now (submission_expires r)
      \<and> (rr_mode r = V3 \<or> num_lt now (reservation_expires r)))"

section \<open>The outcome of a Take\<close>

definition quarantineRecord :: "rfq_record \<Rightarrow> jsnum \<Rightarrow> string \<Rightarrow> rfq_record" where
  "quarantineRecord r now reason =
     reviseRfqLifecycle r (\<lambda>x. x\<lparr>rr_state := Quarantined, rr_updatedAt := now, rr_reason := Some reason\<rparr>)"

text \<open>A Take as it was observed. The amounts of the lock events are numbers or texts.\<close>

datatype lock_amount = Lock_big int | Lock_text string

record observed_take =
  ot_tokenA :: string
  ot_totalA :: int
  ot_tokenB :: string
  ot_totalB :: int
  ot_fillCount :: jsnum
  ot_fillsDigest :: string
  ot_lockTaken :: "(string \<times> lock_amount) list option"

definition take_totals_match :: "observed_take \<Rightarrow> exact_take \<Rightarrow> bool" where
  "take_totals_match t want =
     (sameIdentity (ot_tokenA t) (xt_tokenA want) \<and> dec_int (ot_totalA t) = xt_totalA want
      \<and> sameIdentity (ot_tokenB t) (xt_tokenB want) \<and> dec_int (ot_totalB t) = xt_totalB want
      \<and> num_eq (ot_fillCount t) (jint (int (length (xt_fills want)))))"

definition observed_lock :: "string \<times> lock_amount \<Rightarrow> (string \<times> string) result" where
  "observed_lock ev =
     bind_r (canonicalLocalRfqId (fst ev)) (\<lambda>lock.
     bind_r (case snd ev of Lock_big n \<Rightarrow> Inr (dec_int n)
             | Lock_text s \<Rightarrow> life_decimal (JStr s) ''LockTaken amountA'' True) (\<lambda>amount.
     Inr (lock, amount)))"

definition lock_evidence_matches :: "observed_take \<Rightarrow> exact_take \<Rightarrow> bool" where
  "lock_evidence_matches t want =
     (case ot_lockTaken t of None \<Rightarrow> True
      | Some events \<Rightarrow> (case map_r observed_lock events of Inl _ \<Rightarrow> False
          | Inr observed \<Rightarrow> length observed = length (xt_fills want) \<and> distinct (map fst observed)
              \<and> list_all (\<lambda>f. list_ex (\<lambda>ob. canonicalLocalRfqId (ef_lockId f) = Inr (fst ob) \<and> snd ob = ef_amountA f) observed)
                  (xt_fills want)))"

definition expected_digest :: "rfq_env \<Rightarrow> exact_take \<Rightarrow> string result" where
  "expected_digest env want =
     fillsDigest (take_env.truncate env)
       (map (\<lambda>f. \<lparr>tf_lockId = ef_lockId f, tf_amountA = int (dec_val (ef_amountA f))\<rparr>) (xt_fills want))"

definition empty_attempt_patch :: attempt_patch where
  "empty_attempt_patch = \<lparr>ap_transactionHash = None, ap_observation = None, ap_walletBoundary = None\<rparr>"

definition confirmRfqV3Take :: "rfq_env \<Rightarrow> rfq_record \<Rightarrow> observed_take \<Rightarrow> jsnum \<Rightarrow> rfq_record result" where
  "confirmRfqV3Take env r t now =
     (if rr_mode r \<noteq> V3 \<or> rr_state r \<noteq> Submission_unknown \<or> rr_terms r = None \<or> rr_fills r = None
      then Inl (Err ''Only an unknown RFQ v3 Take can be confirmed.'')
      else if (case rr_attempts r Take of None \<Rightarrow> True | Some a \<Rightarrow> \<not> wallet_evidence a)
      then Inl (Err ''RFQ v3 Take confirmation requires a submitted or hashless wallet-boundary attempt.'')
      else bind_r (take_of_lifecycle r) (\<lambda>(_, _, want).
        if \<not> take_totals_match t want
        then Inr (quarantineRecord r now ''Observed Take totals contradict the persisted exact v3 fills.'')
        else bind_r (expected_digest env want) (\<lambda>digest.
          if \<not> sameIdentity (ot_fillsDigest t) digest \<or> \<not> lock_evidence_matches t want
          then Inr (quarantineRecord r now ''Observed Take fill composition contradicts the persisted exact v3 fills.'')
          else
            bind_r (updateRfqPhaseAttempt r Take Confirmed now
              (empty_attempt_patch\<lparr>ap_observation := Some ''Exact Take record observed on local devnet.''\<rparr>)) (\<lambda>confirmed.
            transitionRfqLifecycle env confirmed Settled now empty_patch))))"

definition revertRfqV3Take :: "rfq_env \<Rightarrow> rfq_record \<Rightarrow> jsnum \<Rightarrow> string \<Rightarrow> rfq_record result" where
  "revertRfqV3Take env r now observation =
     (if rr_mode r \<noteq> V3 \<or> rr_state r \<noteq> Submission_unknown
      then Inl (Err ''Only an unknown RFQ v3 Take can be marked reverted.'')
      else
        bind_r (updateRfqPhaseAttempt r Take Reverted now (empty_attempt_patch\<lparr>ap_observation := Some observation\<rparr>)) (\<lambda>reverted.
        transitionRfqLifecycle env reverted Expired now (empty_patch\<lparr>pt_reason := Some ''take-reverted''\<rparr>)))"

definition recordRfqV3TranscriptAcknowledgements ::
  "rfq_record \<Rightarrow> rfq_acknowledgement list \<Rightarrow> jsnum \<Rightarrow> rfq_record result" where
  "recordRfqV3TranscriptAcknowledgements r acks now =
     (if rr_mode r \<noteq> V3 \<or> rr_state r \<notin> {Quoted, Reviewing}
      then Inl (Err ''Transcript acknowledgements belong to a selected RFQ v3.'')
      else
        bind_r (parseTranscriptAcknowledgements (JArr (map js_acknowledgement acks))) (\<lambda>parsed.
        bind_r (life_timestamp (JNum now) ''now'') (\<lambda>stamp.
        Inr (reviseRfqLifecycle r (\<lambda>x. x\<lparr>rr_acknowledgements := Some parsed, rr_updatedAt := stamp\<rparr>)))))"

section \<open>Reconciliation with an observed deal\<close>

text \<open>\<open>Number\<close> of a value, and a member that may be absent.\<close>

definition js_number :: "rfq_env \<Rightarrow> jsval \<Rightarrow> jsnum" where
  "js_number env v = (case v of JNum x \<Rightarrow> x | _ \<Rightarrow> re_number env v)"

definition row_field :: "(jsval \<Rightarrow> 'a result) \<Rightarrow> fields \<Rightarrow> string \<Rightarrow> 'a option result" where
  "row_field f row k = (if get_field row k = JUndef then Inr None else bind_r (f (get_field row k)) (\<lambda>x. Inr (Some x)))"

definition stage_of_status :: "nat \<Rightarrow> deal_stage" where
  "stage_of_status n = [Stage_empty, Stage_funded, Stage_filled, Stage_settled, Stage_timed_out] ! n"

definition observationFrom :: "rfq_env \<Rightarrow> fields \<Rightarrow> jsnum \<Rightarrow> deal_observation result" where
  "observationFrom env row now =
     (case as_safe_int (js_number env (get_field row ''status'')) of
        None \<Rightarrow> Inl (Err ''Unknown local chain deal status.'')
      | Some n \<Rightarrow>
          if n < 0 \<or> 4 < n then Inl (Err ''Unknown local chain deal status.'')
          else
            bind_r (life_text (get_field row ''dealId'') ''dealId'' 512) (\<lambda>deal.
            bind_r (life_text (get_field row ''escrowAddress'') ''escrowAddress'' 512) (\<lambda>escrow.
            bind_r (life_timestamp (JNum now) ''now'') (\<lambda>stamp.
            let identity = \<lparr>do_dealId = deal, do_escrowAddress = escrow, do_status = nat n,
                  do_stage = stage_of_status (nat n), do_observedAt = stamp, do_legAToken = None, do_legAAmount = None,
                  do_legBToken = None, do_legBTerms = None, do_legBAmount = None, do_deadline = None, do_ticket = None,
                  do_commitmentDigest = None\<rparr> in
            if n = 0 then Inr identity
            else
              bind_r (row_field (\<lambda>v. life_text v ''legAToken'' 512) row ''legAToken'') (\<lambda>aToken.
              bind_r (row_field (\<lambda>v. life_decimal v ''legAAmount'' False) row ''legAAmount'') (\<lambda>aAmount.
              bind_r (row_field (\<lambda>v. life_text v ''legBToken'' 512) row ''legBToken'') (\<lambda>bToken.
              bind_r (row_field (\<lambda>v. life_decimal v ''legBTerms'' False) row ''legBTerms'') (\<lambda>bTerms.
              bind_r (row_field (\<lambda>v. life_decimal v ''legBAmount'' False) row ''legBAmount'') (\<lambda>bAmount.
              bind_r (row_field (\<lambda>v. life_timestamp v ''deadline'') row ''deadline'') (\<lambda>deadline.
              bind_r (row_field (\<lambda>v. life_text v ''ticket'' 512) row ''ticket'') (\<lambda>ticket.
              bind_r (row_field (\<lambda>v. life_text v ''commitmentDigest'' 512) row ''commitmentDigest'') (\<lambda>commitment.
              Inr (identity\<lparr>do_legAToken := aToken, do_legAAmount := aAmount, do_legBToken := bToken,
                do_legBTerms := bTerms, do_legBAmount := bAmount, do_deadline := deadline, do_ticket := ticket,
                do_commitmentDigest := commitment\<rparr>)))))))))))))"

definition same_felt_given :: "string option \<Rightarrow> string \<Rightarrow> bool" where
  "same_felt_given v other = (given v \<and> lifecycle_sameFelt (the v) other)"

text \<open>What contradicts the persisted bindings, whatever the state: the reason of the quarantine.\<close>

definition observation_mismatch ::
  "rfq_settlement \<Rightarrow> rfq_terms \<Rightarrow> selected_quote \<Rightarrow> deal_observation \<Rightarrow> string option" where
  "observation_mismatch st terms quote ob =
     (if \<not> lifecycle_sameFelt (do_dealId ob) (st_dealId st) \<or> \<not> lifecycle_sameFelt (do_escrowAddress ob) (st_escrowAddress st)
      then Some ''Local chain observation does not match the persisted deal and escrow identity.''
      else if given (st_commitmentDigest st) \<and> do_commitmentDigest ob \<noteq> st_commitmentDigest st
      then Some ''Local chain observation does not match the persisted commitment.''
      else if 0 < do_status ob
        \<and> \<not> (same_felt_given (do_legAToken ob) (rt_sellAddress terms) \<and> do_legAAmount ob = Some (rt_sellAmount terms)
          \<and> same_felt_given (do_legBToken ob) (rt_buyAddress terms) \<and> do_legBTerms ob = Some (sq_buyAmount quote)
          \<and> (case do_deadline ob of None \<Rightarrow> False | Some d \<Rightarrow> num_eq d (st_deadline st))
          \<and> given (do_ticket ob)
          \<and> (given (st_ticketAddress st) \<longrightarrow> lifecycle_sameFelt (the (do_ticket ob)) (the (st_ticketAddress st))))
      then Some ''Local chain deal terms contradict the persisted RFQ settlement binding.''
      else if (do_status ob = 2 \<or> do_status ob = 3) \<and> do_legBAmount ob \<noteq> Some (sq_buyAmount quote)
      then Some ''Observed fill amount contradicts the selected exact quote.''
      else None)"

definition confirm_observed ::
  "deal_observation \<Rightarrow> jsnum \<Rightarrow> rfq_phase \<Rightarrow> string \<Rightarrow> (rfq_phase \<Rightarrow> rfq_attempt option) \<Rightarrow> rfq_phase \<Rightarrow> rfq_attempt option" where
  "confirm_observed ob now phase label attempts =
     (case attempts phase of
        Some a \<Rightarrow> if at_state a = Confirmed then attempts
          else attempts(phase \<mapsto> a\<lparr>at_state := Confirmed, at_updatedAt := now, at_observation := Some label\<rparr>)
      | None \<Rightarrow> if phase = Funding then attempts
          else attempts(phase \<mapsto>
            \<lparr>at_attemptId = ''observed:'' @ rfq_phase_text phase @ '':'' @ do_dealId ob, at_state = Confirmed,
             at_createdAt = now, at_updatedAt = now, at_transactionHash = None, at_observation = Some label,
             at_walletBoundary = None, at_target = None\<rparr>))"

definition observed_funding where
  "observed_funding ob now = confirm_observed ob now Funding ''Exact funded deal observed on local devnet.''"

definition observed_fill where
  "observed_fill ob now = confirm_observed ob now Fill ''Exact maker fill observed on local devnet.''"

definition observed_claim where
  "observed_claim ob now = confirm_observed ob now Claim ''Exact claim outcome observed on local devnet.''"

definition observed_refund where
  "observed_refund ob now = confirm_observed ob now Refund ''Exact timeout outcome observed on local devnet.''"

definition expired_stage :: "rfq_record \<Rightarrow> bool" where
  "expired_stage r = (case rr_latestObservation r of None \<Rightarrow> False | Some ob \<Rightarrow> do_stage ob = Stage_expired)"

text \<open>The state and the attempts an observation leads to, or the reason of the quarantine.\<close>

definition observed_step ::
  "rfq_record \<Rightarrow> deal_observation \<Rightarrow> jsnum \<Rightarrow> string + (rfq_state \<times> (rfq_phase \<Rightarrow> rfq_attempt option))" where
  "observed_step r ob now =
     (let s = rr_state r; funded = observed_funding ob now (rr_attempts r) in
      if s = Settled \<and> do_status ob \<noteq> 3 \<or> s = Refunded \<and> do_status ob \<noteq> 4
      then Inl ''A non-authoritative local observation contradicts the persisted terminal outcome.''
      else if do_status ob = 0
      then if s \<in> {Funded, Filled, Claimable, Settled, Refundable, Refunded}
           then Inl ''Browser lifecycle contradicts an empty local chain deal.'' else Inr (s, rr_attempts r)
      else if do_status ob = 1
      then if s \<in> {Reviewing, Submission_unknown, Funded} \<or> s = Expired \<and> \<not> expired_stage r then Inr (Funded, funded)
           else if s \<notin> {Expired, Refundable}
           then Inl ''Funded observation contradicts the browser lifecycle phase.'' else Inr (s, funded)
      else if do_status ob = 2
      then Inr (if s \<notin> {Settled, Refunded} then Claimable else s, observed_fill ob now funded)
      else if do_status ob = 3
      then Inr (Settled, observed_claim ob now (observed_fill ob now funded))
      else Inr (Refunded, observed_refund ob now funded))"

definition reconcile_with :: "rfq_env \<Rightarrow> rfq_record \<Rightarrow> jsval \<Rightarrow> jsnum \<Rightarrow> rfq_record result" where
  "reconcile_with env r v now =
     (if rr_mode r = V3
      then Inr (quarantineRecord r now ''RFQ v3 must reconcile through its exact Take observation.'')
      else case (rr_settlement r, rr_terms r, rr_selectedQuote r) of
        (Some st, Some terms, Some quote) \<Rightarrow>
          bind_r (case v of JObj row \<Rightarrow> Inr row | _ \<Rightarrow> Inl (Err ''Malformed local chain observation.'')) (\<lambda>row.
          bind_r (observationFrom env row now) (\<lambda>ob.
          case observation_mismatch st terms quote ob of
            Some reason \<Rightarrow> Inr (quarantineRecord r now reason)
          | None \<Rightarrow> (case observed_step r ob now of
                Inl reason \<Rightarrow> Inr (quarantineRecord r now reason)
              | Inr (s, attempts) \<Rightarrow>
                  let latest = (if do_status ob = 1 \<and> s \<in> {Expired, Refundable} \<and> expired_stage r
                        then rr_latestObservation r else Some ob) in
                  Inr (reviseRfqLifecycle r (\<lambda>x. x\<lparr>rr_state := s, rr_attempts := attempts,
                    rr_latestObservation := latest, rr_recoveryReadFailure := None, rr_updatedAt := now\<rparr>)))))
      | _ \<Rightarrow> Inr (quarantineRecord r now
          ''Local reconciliation requires persisted exact terms, selected quote, and settlement identity.''))"

definition reconcileRfqLifecycleWithLocalDeal :: "rfq_env \<Rightarrow> rfq_record \<Rightarrow> jsval \<Rightarrow> jsnum \<Rightarrow> rfq_record" where
  "reconcileRfqLifecycleWithLocalDeal env r v now =
     (case reconcile_with env r v now of Inr following \<Rightarrow> following
      | Inl e \<Rightarrow> quarantineRecord r now (exn_message e))"

section \<open>Expiry and authority\<close>

definition kept :: "string option \<Rightarrow> string option" where
  "kept v = (if given v then v else None)"

definition observeLocalSettlementExpiry :: "rfq_record \<Rightarrow> jsnum \<Rightarrow> rfq_record result" where
  "observeLocalSettlementExpiry r expiredAt =
     (case rr_settlement r of
        Some st \<Rightarrow>
          if rr_state r \<noteq> Funded then Inl (Err ''Only a confirmed funded deal can observe settlement expiry.'')
          else bind_r (life_timestamp (JNum expiredAt) ''expiredAt'') (\<lambda>stamp.
            if num_lt stamp (st_deadline st)
            then Inl (Err ''Settlement expiry was not observed at or after its deadline.'')
            else
              let was = (\<lambda>f. kept (Option.bind (rr_latestObservation r) f));
                  latest = \<lparr>do_dealId = st_dealId st, do_escrowAddress = st_escrowAddress st, do_status = 1,
                    do_stage = Stage_expired, do_observedAt = stamp, do_legAToken = was do_legAToken,
                    do_legAAmount = was do_legAAmount, do_legBToken = was do_legBToken, do_legBTerms = was do_legBTerms,
                    do_legBAmount = was do_legBAmount, do_deadline = Some (st_deadline st),
                    do_ticket = kept (st_ticketAddress st), do_commitmentDigest = None\<rparr> in
              Inr (reviseRfqLifecycle r (\<lambda>x. x\<lparr>rr_state := Refundable, rr_latestObservation := Some latest,
                rr_updatedAt := stamp\<rparr>)))
      | None \<Rightarrow> Inl (Err ''Only a confirmed funded deal can observe settlement expiry.''))"

definition applyRfqAuthoritySignal :: "rfq_record \<Rightarrow> evidence_authority \<Rightarrow> rfq_record result" where
  "applyRfqAuthoritySignal r signal =
     (if num_le (ea_revision signal) (ea_revision (rr_evidenceAuthority r))
      then Inl (Err ''Evidence authority revision must increase.'')
      else if ea_status signal = Reorged_authority
      then if rr_state r \<noteq> Settled \<and> rr_state r \<noteq> Refunded
           then Inl (Err ''Only a terminal observed outcome can be marked reorged.'')
           else Inr (reviseRfqLifecycle r (\<lambda>x. x\<lparr>rr_state := Reorged, rr_evidenceAuthority := signal,
             rr_updatedAt := ea_observedAt signal,
             rr_reason := Some ''Authority reported canonical membership loss.''\<rparr>))
      else Inr (reviseRfqLifecycle r (\<lambda>x. x\<lparr>rr_evidenceAuthority := signal, rr_updatedAt := ea_observedAt signal\<rparr>)))"

end
