(* ===== verification/Rfq_Restore.thy ===== *)
theory Rfq_Restore
  imports Rfq_Lifecycle
begin

text \<open>
  Reading a stored record back (the parsers and \<open>restoreRfqLifecycle\<close> of
  src/app/rfq/rfq-lifecycle.ts). The stored value is untyped; whatever it is, a record comes back:
  the one that was stored when every binding and every piece of evidence is there, an expired one
  when its time is over, and a quarantined one otherwise. \<open>restoreRfqLifecycle\<close> catches every error
  of the parsers and drops its message, so their labels are the names of the fields.
\<close>

section \<open>Terms, quotes and settlements\<close>

definition field_text :: "fields \<Rightarrow> string \<Rightarrow> string result" where
  "field_text row k = life_text (get_field row k) k 512"

definition field_amount :: "fields \<Rightarrow> string \<Rightarrow> string result" where
  "field_amount row k = life_decimal (get_field row k) k True"

definition field_time :: "fields \<Rightarrow> string \<Rightarrow> jsnum result" where
  "field_time row k = life_timestamp (get_field row k) k"

definition opt_text :: "fields \<Rightarrow> string \<Rightarrow> string option result" where
  "opt_text row k = row_field (\<lambda>v. life_text v k 512) row k"

definition opt_time :: "fields \<Rightarrow> string \<Rightarrow> jsnum option result" where
  "opt_time row k = row_field (\<lambda>v. life_timestamp v k) row k"

definition opt_amount :: "fields \<Rightarrow> string \<Rightarrow> bool \<Rightarrow> string option result" where
  "opt_amount row k positive = row_field (\<lambda>v. life_decimal v k positive) row k"

definition parseTerms :: "jsval \<Rightarrow> rfq_terms result" where
  "parseTerms v =
     bind_r (life_object v) (\<lambda>row.
     bind_r (life_nonneg (get_field row ''sellDecimals'') ''sellDecimals'') (\<lambda>sellDecimals.
     bind_r (life_nonneg (get_field row ''buyDecimals'') ''buyDecimals'') (\<lambda>buyDecimals.
     if 255 < sellDecimals \<or> 255 < buyDecimals then Inl (Err [])
     else
       bind_r (field_text row ''pairId'') (\<lambda>pairId.
       bind_r (life_text (get_field row ''sellSymbol'') ''sellSymbol'' 32) (\<lambda>sellSymbol.
       bind_r (field_text row ''sellAddress'') (\<lambda>sellAddress.
       bind_r (field_amount row ''sellAmount'') (\<lambda>sellAmount.
       bind_r (life_text (get_field row ''buySymbol'') ''buySymbol'' 32) (\<lambda>buySymbol.
       bind_r (field_text row ''buyAddress'') (\<lambda>buyAddress.
       bind_r (opt_amount row ''minBuyAmount'' True) (\<lambda>minBuyAmount.
       bind_r (opt_amount row ''buyAmount'' True) (\<lambda>buyAmount.
       bind_r (field_time row ''rfqExpiresAt'') (\<lambda>expires.
       Inr \<lparr>rt_pairId = pairId, rt_sellSymbol = sellSymbol, rt_sellAddress = sellAddress,
            rt_sellDecimals = jint sellDecimals, rt_sellAmount = sellAmount, rt_buySymbol = buySymbol,
            rt_buyAddress = buyAddress, rt_buyDecimals = jint buyDecimals, rt_minBuyAmount = minBuyAmount,
            rt_buyAmount = buyAmount, rt_rfqExpiresAt = expires\<rparr>))))))))))))"

definition parseSelectedQuote :: "jsval \<Rightarrow> selected_quote result" where
  "parseSelectedQuote v =
     bind_r (life_object v) (\<lambda>row.
     bind_r (case get_field row ''version'' of JStr s \<Rightarrow> if s = ''Quote V1'' \<or> s = ''Quote V2'' then Inr s else Inl (Err [])
             | _ \<Rightarrow> Inl (Err [])) (\<lambda>version.
     bind_r (life_nonneg (get_field row ''spreadBps'') ''spreadBps'') (\<lambda>spreadBps.
     bind_r (field_text row ''solverId'') (\<lambda>solverId.
     bind_r (field_text row ''solverKey'') (\<lambda>solverKey.
     bind_r (field_text row ''nonce'') (\<lambda>nonce.
     bind_r (field_text row ''reservationId'') (\<lambda>reservationId.
     bind_r (field_text row ''pricingProvenance'') (\<lambda>pricingProvenance.
     bind_r (field_time row ''quotedAt'') (\<lambda>quotedAt.
     bind_r (field_time row ''quoteExpiresAt'') (\<lambda>quoteExpiresAt.
     bind_r (field_time row ''reservationExpiresAt'') (\<lambda>reservationExpiresAt.
     bind_r (field_amount row ''buyAmount'') (\<lambda>buyAmount.
     bind_r (field_text row ''intentDigest'') (\<lambda>intentDigest.
     bind_r (field_text row ''signature'') (\<lambda>signature.
     bind_r (opt_text row ''quoteDigest'') (\<lambda>quoteDigest.
     bind_r (opt_amount row ''reservationFence'' True) (\<lambda>reservationFence.
     Inr \<lparr>sq_version = version, sq_solverId = solverId, sq_solverKey = solverKey, sq_nonce = nonce,
          sq_reservationId = reservationId, sq_spreadBps = jint spreadBps, sq_pricingProvenance = pricingProvenance,
          sq_quotedAt = quotedAt, sq_quoteExpiresAt = quoteExpiresAt,
          sq_reservationExpiresAt = reservationExpiresAt, sq_buyAmount = buyAmount,
          sq_intentDigest = intentDigest, sq_signature = signature, sq_quoteDigest = quoteDigest,
          sq_reservationFence = reservationFence\<rparr>))))))))))))))))"

definition local_id :: "bool \<Rightarrow> string \<Rightarrow> string result" where
  "local_id local s = (if local then canonicalLocalRfqId s else Inr s)"

definition parseSettlement :: "bool \<Rightarrow> jsval \<Rightarrow> rfq_settlement result" where
  "parseSettlement local v =
     bind_r (life_object v) (\<lambda>row.
     bind_r (case get_field row ''version'' of
               JStr s \<Rightarrow> if s = ''Localnet V2'' then Inr Localnet_V2 else if s = ''Localnet V3'' then Inr Localnet_V3
                 else Inl (Err [])
             | _ \<Rightarrow> Inl (Err [])) (\<lambda>version.
     bind_r (field_text row ''escrowAddress'') (\<lambda>escrow.
     bind_r (bind_r (field_text row ''dealId'') (local_id local)) (\<lambda>deal.
     bind_r (row_field (\<lambda>v. bind_r (life_text v ''ticketAddress'' 512) (local_id local)) row ''ticketAddress'') (\<lambda>ticket.
     bind_r (opt_text row ''commitmentDigest'') (\<lambda>commitment.
     bind_r (field_time row ''deadline'') (\<lambda>deadline.
     Inr \<lparr>st_version = version, st_escrowAddress = escrow, st_dealId = deal, st_ticketAddress = ticket,
          st_commitmentDigest = commitment, st_deadline = deadline\<rparr>)))))))"

section \<open>Targets and attempts\<close>

definition parse_deal_target :: "string \<Rightarrow> fields \<Rightarrow> deal_target result" where
  "parse_deal_target chainId row =
     bind_r (bind_r (field_text row ''dealId'') (\<lambda>s. canonicalExecutableId s chainId)) (\<lambda>deal.
     bind_r (field_text row ''solverId'') (\<lambda>solverId.
     bind_r (field_text row ''reservationId'') (\<lambda>reservationId.
     bind_r (field_amount row ''reservationFence'') (\<lambda>reservationFence.
     bind_r (field_text row ''quoteDigest'') (\<lambda>quoteDigest.
     bind_r (field_text row ''sellToken'') (\<lambda>sellToken.
     bind_r (field_amount row ''sellAmount'') (\<lambda>sellAmount.
     bind_r (field_text row ''buyToken'') (\<lambda>buyToken.
     bind_r (field_amount row ''buyAmount'') (\<lambda>buyAmount.
     bind_r (field_time row ''deadline'') (\<lambda>deadline.
     Inr \<lparr>dt_dealId = deal, dt_solverId = solverId, dt_reservationId = reservationId,
          dt_reservationFence = reservationFence, dt_quoteDigest = quoteDigest, dt_sellToken = sellToken,
          dt_sellAmount = sellAmount, dt_buyToken = buyToken, dt_buyAmount = buyAmount, dt_deadline = deadline\<rparr>))))))))))"

definition parse_exact_fill :: "jsval \<Rightarrow> exact_fill result" where
  "parse_exact_fill v =
     bind_r (life_object v) (\<lambda>fill.
     bind_r (bind_r (field_text fill ''lockId'') canonicalLocalRfqId) (\<lambda>lock.
     bind_r (field_amount fill ''amountA'') (\<lambda>a.
     bind_r (field_amount fill ''amountB'') (\<lambda>b.
     Inr \<lparr>ef_lockId = lock, ef_amountA = a, ef_amountB = b\<rparr>))))"

definition parse_take_target :: "target_scope \<Rightarrow> fields \<Rightarrow> rfq_target result" where
  "parse_take_target sc row =
     (case get_field row ''expected'' of
        JObj expected \<Rightarrow> (case get_field expected ''fills'' of
            JArr vs \<Rightarrow>
              if length vs < 1 \<or> 4 < length vs then Inl (Err [])
              else bind_r (map_r parse_exact_fill vs) (\<lambda>fills.
                if \<not> distinct (map ef_lockId fills) then Inl (Err [])
                else
                  bind_r (bind_r (field_text row ''dealId'') (\<lambda>s. canonicalExecutableId s (ts_chainId sc))) (\<lambda>deal.
                  bind_r (field_text expected ''tokenA'') (\<lambda>tokenA.
                  bind_r (field_amount expected ''totalA'') (\<lambda>totalA.
                  bind_r (field_text expected ''tokenB'') (\<lambda>tokenB.
                  bind_r (field_amount expected ''totalB'') (\<lambda>totalB.
                  Inr (Take_target sc deal \<lparr>xt_tokenA = tokenA, xt_totalA = totalA, xt_tokenB = tokenB,
                    xt_totalB = totalB, xt_fills = fills\<rparr>)))))))
          | _ \<Rightarrow> Inl (Err []))
      | _ \<Rightarrow> Inl (Err []))"

definition parse_expiry_target :: "target_scope \<Rightarrow> fields \<Rightarrow> rfq_target result" where
  "parse_expiry_target sc row =
     bind_r (bind_r (field_text row ''dealId'') (\<lambda>s. canonicalExecutableId s (ts_chainId sc))) (\<lambda>deal.
     bind_r (field_text row ''escrowAddress'') (\<lambda>escrow.
     bind_r (field_text row ''solverId'') (\<lambda>solverId.
     bind_r (field_text row ''reservationId'') (\<lambda>reservationId.
     bind_r (field_amount row ''reservationFence'') (\<lambda>reservationFence.
     bind_r (field_text row ''quoteDigest'') (\<lambda>quoteDigest.
     Inr (Funded_settlement_expiry sc \<lparr>et_dealId = deal, et_escrowAddress = escrow, et_solverId = solverId,
       et_reservationId = reservationId, et_reservationFence = reservationFence, et_quoteDigest = quoteDigest\<rparr>)))))))"

definition parseAttemptTarget :: "jsval \<Rightarrow> rfq_target result" where
  "parseAttemptTarget v =
     bind_r (life_object v) (\<lambda>row.
     bind_r (bind_r (field_text row ''chainId'') canonicalRfqChainId) (\<lambda>chainId.
     bind_r (bind_r (field_text row ''account'') canonicalRfqAccount) (\<lambda>account.
     bind_r (bind_r (field_text row ''rfqId'') (\<lambda>s. canonicalExecutableId s chainId)) (\<lambda>rfqId.
     bind_r (field_text row ''requestDigest'') (\<lambda>digest.
     let sc = \<lparr>ts_chainId = chainId, ts_account = account, ts_rfqId = rfqId, ts_requestDigest = digest\<rparr>;
         operation = get_field row ''operation'' in
     if operation = JStr ''request-reservations''
     then bind_r (field_text row ''releaseLeaseId'') (\<lambda>l. Inr (Request_reservations sc l))
     else if operation = JStr ''funding-ticket''
     then bind_r (parse_deal_target chainId row) (\<lambda>t. Inr (Funding_ticket sc t))
     else if operation = JStr ''take'' then parse_take_target sc row
     else if operation = JStr ''maker-fill''
     then bind_r (parse_deal_target chainId row) (\<lambda>t.
          bind_r (field_text row ''ticketAddress'') (\<lambda>address. Inr (Maker_fill sc t address)))
     else if operation \<noteq> JStr ''funded-settlement-expiry'' then Inl (Err [])
     else parse_expiry_target sc row)))))"

text \<open>\<open>String\<close> of a value; the name of an attempt state, a stage or an authority status.\<close>

definition stored_name :: "rfq_env \<Rightarrow> jsval \<Rightarrow> string" where
  "stored_name env v = (case v of JStr s \<Rightarrow> s | _ \<Rightarrow> re_string env v)"

definition named :: "rfq_env \<Rightarrow> (string \<times> 'a) list \<Rightarrow> (jsval \<Rightarrow> 'a) \<Rightarrow> jsval \<Rightarrow> 'a option" where
  "named env table raw v =
     (case map_of table (stored_name env v) of None \<Rightarrow> None
      | Some x \<Rightarrow> (case v of JStr _ \<Rightarrow> Some x | _ \<Rightarrow> Some (raw v)))"

definition attempt_state_names :: "(string \<times> attempt_state) list" where
  "attempt_state_names = [(''preparing'', Preparing), (''wallet-boundary-unknown'', Wallet_boundary_unknown),
     (''submitted-unknown'', Submitted_unknown), (''confirmed'', Confirmed), (''reverted'', Reverted)]"

definition parse_wallet_boundary :: "jsval \<Rightarrow> wallet_boundary option result" where
  "parse_wallet_boundary v =
     (if v = JUndef then Inr None else if v = JStr ''not-entered'' then Inr (Some Not_entered)
      else if v = JStr ''entered'' then Inr (Some Entered) else Inl (Err []))"

definition hash_only_funding :: "rfq_phase \<Rightarrow> rfq_attempt \<Rightarrow> bool" where
  "hash_only_funding phase a =
     (phase = Funding \<and> at_target a = None \<and> at_state a = Submitted_unknown \<and> given (at_transactionHash a))"

definition parse_attempt :: "rfq_env \<Rightarrow> rfq_phase \<Rightarrow> jsval \<Rightarrow> rfq_attempt result" where
  "parse_attempt env phase v =
     bind_r (life_object v) (\<lambda>row.
     case named env attempt_state_names Raw_attempt (get_field row ''state'') of None \<Rightarrow> Inl (Err [])
     | Some s \<Rightarrow>
       bind_r (field_text row ''attemptId'') (\<lambda>attemptId.
       bind_r (field_time row ''createdAt'') (\<lambda>created.
       bind_r (field_time row ''updatedAt'') (\<lambda>updated.
       bind_r (opt_text row ''transactionHash'') (\<lambda>hash.
       bind_r (opt_text row ''observation'') (\<lambda>observation.
       bind_r (parse_wallet_boundary (get_field row ''walletBoundary'')) (\<lambda>boundary.
       bind_r (row_field parseAttemptTarget row ''target'') (\<lambda>target.
       let a = \<lparr>at_attemptId = attemptId, at_state = s, at_createdAt = created, at_updatedAt = updated,
             at_transactionHash = hash, at_observation = observation, at_walletBoundary = boundary, at_target = target\<rparr> in
       if \<not> target_fits_phase phase target \<and> \<not> hash_only_funding phase a then Inl (Err [])
       else if s = Submitted_unknown \<and> \<not> given hash then Inl (Err [])
       else if s = Wallet_boundary_unknown \<and> boundary \<noteq> Some Entered then Inl (Err [])
       else Inr a))))))))"

fun parse_attempts_of ::
  "rfq_env \<Rightarrow> fields \<Rightarrow> rfq_phase list \<Rightarrow> (rfq_phase \<Rightarrow> rfq_attempt option) result" where
  "parse_attempts_of env row [] = Inr Map.empty"
| "parse_attempts_of env row (ph # phs) =
     (let candidate = get_field row (rfq_phase_text ph) in
      if candidate = JUndef then parse_attempts_of env row phs
      else bind_r (parse_attempt env ph candidate) (\<lambda>a.
        bind_r (parse_attempts_of env row phs) (\<lambda>attempts. Inr (attempts(ph \<mapsto> a)))))"

definition parseAttempts :: "rfq_env \<Rightarrow> jsval \<Rightarrow> (rfq_phase \<Rightarrow> rfq_attempt option) result" where
  "parseAttempts env v =
     (if v = JUndef then Inr Map.empty
      else bind_r (life_object v) (\<lambda>row. parse_attempts_of env row rfq_phases))"

section \<open>Observations and authority\<close>

definition stage_names :: "(string \<times> deal_stage) list" where
  "stage_names = [(''empty'', Stage_empty), (''funded'', Stage_funded), (''filled'', Stage_filled),
     (''settled'', Stage_settled), (''timed-out'', Stage_timed_out), (''expired'', Stage_expired)]"

definition parseObservation :: "rfq_env \<Rightarrow> bool \<Rightarrow> jsval \<Rightarrow> deal_observation result" where
  "parseObservation env local v =
     bind_r (life_object v) (\<lambda>row.
     if get_field row ''source'' \<noteq> JStr ''localnet-deal'' then Inl (Err [])
     else bind_r (life_nonneg (get_field row ''status'') ''status'') (\<lambda>status.
       case named env stage_names Raw_stage (get_field row ''stage'') of None \<Rightarrow> Inl (Err [])
       | Some stage \<Rightarrow>
         if 4 < status then Inl (Err [])
         else
           bind_r (bind_r (field_text row ''dealId'') (local_id local)) (\<lambda>deal.
           bind_r (field_text row ''escrowAddress'') (\<lambda>escrow.
           bind_r (field_time row ''observedAt'') (\<lambda>observed.
           bind_r (opt_text row ''legAToken'') (\<lambda>aToken.
           bind_r (opt_amount row ''legAAmount'' False) (\<lambda>aAmount.
           bind_r (opt_text row ''legBToken'') (\<lambda>bToken.
           bind_r (opt_amount row ''legBTerms'' False) (\<lambda>bTerms.
           bind_r (opt_amount row ''legBAmount'' False) (\<lambda>bAmount.
           bind_r (opt_time row ''deadline'') (\<lambda>deadline.
           bind_r (opt_text row ''ticket'') (\<lambda>ticket.
           bind_r (opt_text row ''commitmentDigest'') (\<lambda>commitment.
           Inr \<lparr>do_dealId = deal, do_escrowAddress = escrow, do_status = nat status, do_stage = stage,
                do_observedAt = observed, do_legAToken = aToken, do_legAAmount = aAmount, do_legBToken = bToken,
                do_legBTerms = bTerms, do_legBAmount = bAmount, do_deadline = deadline, do_ticket = ticket,
                do_commitmentDigest = commitment\<rparr>)))))))))))))"

definition authority_names :: "(string \<times> authority_status) list" where
  "authority_names = [(''local-non-authoritative'', Local_non_authoritative), (''authoritative'', Authoritative),
     (''stale'', Stale), (''disagreement'', Disagreement), (''reorged'', Reorged_authority),
     (''quarantined'', Quarantined_authority)]"

text \<open>Stored finality is demoted to \<open>stale\<close>, and the revision starts again.\<close>

definition parseEvidenceAuthority :: "rfq_env \<Rightarrow> jsval \<Rightarrow> jsnum \<Rightarrow> evidence_authority result" where
  "parseEvidenceAuthority env v now =
     (if v = JUndef then Inr (defaultEvidenceAuthority now)
      else bind_r (life_object v) (\<lambda>row.
        case named env authority_names Raw_authority (get_field row ''status'') of None \<Rightarrow> Inl (Err [])
        | Some persisted \<Rightarrow>
          let status = (if persisted = Authoritative then Stale else persisted) in
          bind_r (life_nonneg (get_field row ''revision'') ''authority revision'') (\<lambda>_.
          bind_r (if status = Stale then Inr ''Verification pending'' else field_text row ''label'') (\<lambda>label.
          bind_r (field_time row ''observedAt'') (\<lambda>observed.
          Inr \<lparr>ea_status = status, ea_label = label, ea_revision = jint 0, ea_observedAt = observed\<rparr>)))))"

section \<open>Quarantine and migration\<close>

record restore_context =
  rx_chainId :: string
  rx_account :: string
  rx_now :: jsnum
  rx_fromBackup :: bool

definition quarantine :: "restore_context \<Rightarrow> string \<Rightarrow> string \<Rightarrow> rfq_record result" where
  "quarantine cx reason rfqId =
     bind_r (canonicalRfqChainId (rx_chainId cx)) (\<lambda>chainId.
     bind_r (canonicalRfqAccount (rx_account cx)) (\<lambda>account.
     Inr \<lparr>rr_mode = V2, rr_chainId = chainId, rr_account = account, rr_rfqId = rfqId, rr_state = Quarantined,
          rr_updatedAt = rx_now cx, rr_storageRevision = 0, rr_storagePredecessor = None, rr_persisted = None,
          rr_terms = None, rr_selectedQuote = None, rr_settlement = None, rr_attempts = Map.empty,
          rr_latestObservation = None,
          rr_evidenceAuthority = \<lparr>ea_status = Quarantined_authority,
            ea_label = ''Quarantined browser record '' @ [char_of (183::nat)] @ '' not settlement authority'',
            ea_revision = jint 0, ea_observedAt = rx_now cx\<rparr>,
          rr_requestDigest = None, rr_quoteExpiresAt = None, rr_reservationExpiresAt = None,
          rr_transactionHash = None, rr_bucket = None, rr_takerCommitment = None, rr_takerSigningKey = None,
          rr_fills = None, rr_takeTransactionHash = None, rr_acknowledgements = None, rr_reason = Some reason,
          rr_recoverySource = False, rr_recoveryReadFailure = None, rr_restoredFromBackup = False\<rparr>))"

definition v1_rfq_id :: "fields \<Rightarrow> restore_context \<Rightarrow> string" where
  "v1_rfq_id row cx =
     (let own = (case get_field row ''rfqId'' of JStr s \<Rightarrow> if trim s \<noteq> [] then s else ''malformed-v1-record''
           | _ \<Rightarrow> ''malformed-v1-record'') in
      if isLocalRfqChain (rx_chainId cx)
      then (case canonicalLocalRfqId own of Inl _ \<Rightarrow> ''malformed-local-record'' | Inr felt \<Rightarrow> felt)
      else own)"

definition migrateV1 :: "fields \<Rightarrow> restore_context \<Rightarrow> rfq_record result" where
  "migrateV1 row cx =
     (let rfqId = v1_rfq_id row cx in
      bind_r (quarantine cx (''Lifecycle v1 omitted exact terms and settlement bindings; '' @
        ''it was migrated to v2 quarantine and no action was retried.'') rfqId) (\<lambda>migrated.
      case get_field row ''transactionHash'' of
        JStr hash \<Rightarrow>
          if trim hash = [] then Inr migrated
          else
            let attempt = \<lparr>at_attemptId = ''migrated-v1:'' @ rfqId, at_state = Submitted_unknown,
                  at_createdAt = rx_now cx, at_updatedAt = rx_now cx, at_transactionHash = Some hash,
                  at_observation = Some ''Migrated hash requires manual verification.'', at_walletBoundary = None,
                  at_target = None\<rparr> in
            Inr (migrated\<lparr>rr_transactionHash := Some hash, rr_attempts := [Funding \<mapsto> attempt]\<rparr>)
      | _ \<Rightarrow> Inr migrated))"

section \<open>Restoring a record\<close>

definition RFQ_RESUME_AUTHORITY_LABEL :: string where
  "RFQ_RESUME_AUTHORITY_LABEL = ''Local resume record '' @ [char_of (183::nat)] @ '' not settlement authority''"

definition parse_mode :: "fields \<Rightarrow> rfq_mode result" where
  "parse_mode row =
     (let legacy = (get_field row ''schemaRevision'' = JStr ''app20/rfq-lifecycle/v2'') in
      if \<not> legacy \<and> get_field row ''schemaRevision'' \<noteq> JStr ''app20/rfq-lifecycle/v3''
         \<or> get_field row ''authority'' \<noteq> JStr RFQ_RESUME_AUTHORITY_LABEL
      then Inl (Err [])
      else if legacy \<or> get_field row ''mode'' = JStr ''v2'' then Inr V2
      else if get_field row ''mode'' = JStr ''v3'' then Inr V3 else Inl (Err []))"

definition parse_state :: "fields \<Rightarrow> rfq_state result" where
  "parse_state row =
     (case get_field row ''state'' of
        JStr s \<Rightarrow> (case find (\<lambda>x. rfq_state_text x = s) rfq_states of Some x \<Rightarrow> Inr x | None \<Rightarrow> Inl (Err []))
      | _ \<Rightarrow> Inl (Err []))"

definition parse_read_failure :: "jsval \<Rightarrow> (string \<times> jsnum) result" where
  "parse_read_failure v =
     (case v of
        JObj row \<Rightarrow> bind_r (field_text row ''detail'') (\<lambda>detail.
          bind_r (field_time row ''observedAt'') (\<lambda>observed. Inr (detail, observed)))
      | _ \<Rightarrow> Inl type_error)"

text \<open>The record a stored row spells out, before it is checked.\<close>

definition parse_record :: "rfq_env \<Rightarrow> bool \<Rightarrow> fields \<Rightarrow> rfq_record result" where
  "parse_record env fromBackup row =
     bind_r (parse_mode row) (\<lambda>mode.
     bind_r (parse_state row) (\<lambda>s.
     bind_r (field_time row ''updatedAt'') (\<lambda>updatedAt.
     bind_r (bind_r (field_text row ''chainId'') canonicalRfqChainId) (\<lambda>chainId.
     let local = isLocalRfqChain chainId in
     bind_r (row_field parseTerms row ''terms'') (\<lambda>terms.
     bind_r (row_field parseSelectedQuote row ''selectedQuote'') (\<lambda>quote.
     bind_r (row_field (parseSettlement local) row ''settlement'') (\<lambda>settlement.
     bind_r (row_field (parseObservation env local) row ''latestObservation'') (\<lambda>latest.
     bind_r (row_field parseBucket row ''bucket'') (\<lambda>bucket.
     bind_r (row_field parseV3Fills row ''fills'') (\<lambda>fills.
     bind_r (row_field parseTranscriptAcknowledgements row ''transcriptAcknowledgements'') (\<lambda>acks.
     let restored = (mode = V3 \<and> (fromBackup \<or> get_field row ''restoredFromBackup'' = JBool True)) in
     bind_r (bind_r (field_text row ''account'') canonicalRfqAccount) (\<lambda>account.
     bind_r (bind_r (field_text row ''rfqId'') (\<lambda>i. canonicalExecutableId i chainId)) (\<lambda>rfqId.
     bind_r (if get_field row ''storageRevision'' = JUndef then Inr 0
             else life_nonneg (get_field row ''storageRevision'') ''storageRevision'') (\<lambda>revision.
     bind_r (parseAttempts env (get_field row ''attempts'')) (\<lambda>attempts.
     bind_r (parseEvidenceAuthority env (get_field row ''evidenceAuthority'') updatedAt) (\<lambda>authority.
     bind_r (opt_text row ''requestDigest'') (\<lambda>digest.
     bind_r (opt_time row ''quoteExpiresAt'') (\<lambda>quoteExpires.
     bind_r (opt_time row ''reservationExpiresAt'') (\<lambda>reservationExpires.
     bind_r (opt_text row ''transactionHash'') (\<lambda>hash.
     bind_r (row_field (\<lambda>v. bind_r (life_text v ''takerCommitment'' 512) canonicalLocalRfqId) row ''takerCommitment'') (\<lambda>commitment.
     bind_r (if \<not> v3StateKeepsSigningKey s \<or> restored then Inr None
             else row_field (\<lambda>v. bind_r (life_text v ''takerSigningKey'' 512) canonicalLocalRfqId) row ''takerSigningKey'') (\<lambda>key.
     bind_r (opt_text row ''takeTransactionHash'') (\<lambda>takeHash.
     bind_r (opt_text row ''reason'') (\<lambda>reason.
     bind_r (row_field parse_read_failure row ''recoveryReadFailure'') (\<lambda>failure.
     Inr \<lparr>rr_mode = mode, rr_chainId = chainId, rr_account = account, rr_rfqId = rfqId, rr_state = s,
          rr_updatedAt = updatedAt, rr_storageRevision = revision, rr_storagePredecessor = None, rr_persisted = None,
          rr_terms = terms, rr_selectedQuote = quote, rr_settlement = settlement, rr_attempts = attempts,
          rr_latestObservation = latest, rr_evidenceAuthority = authority, rr_requestDigest = digest,
          rr_quoteExpiresAt = quoteExpires, rr_reservationExpiresAt = reservationExpires, rr_transactionHash = hash,
          rr_bucket = bucket, rr_takerCommitment = commitment, rr_takerSigningKey = key, rr_fills = fills,
          rr_takeTransactionHash = takeHash, rr_acknowledgements = acks, rr_reason = reason,
          rr_recoverySource = (get_field row ''recoverySource'' = JStr ''server-derived''),
          rr_recoveryReadFailure = failure, rr_restoredFromBackup = restored\<rparr>)))))))))))))))))))))))))"

text \<open>The checks of a parsed record: targets, release state, identity, v3 bindings, terminal evidence.\<close>

definition restored_targets_ok :: "rfq_env \<Rightarrow> rfq_record \<Rightarrow> bool" where
  "restored_targets_ok env r =
     (is_ok (assertRfqLifecycleAttemptTargets r) \<and> is_ok (assertRfqV3LifecycleBindings env r)
      \<and> (case Option.bind (rr_attempts r Reservation_release) at_target of
           Some (Request_reservations _ _) \<Rightarrow> rr_state r \<in> {Cancel_pending, Cancelled}
         | Some (Funded_settlement_expiry _ _) \<Rightarrow> rr_state r \<in> {Funded, Refundable, Refunded}
         | _ \<Rightarrow> True))"

definition identity_bindings_ok :: "rfq_record \<Rightarrow> bool" where
  "identity_bindings_ok r =
     ((case rr_selectedQuote r of None \<Rightarrow> True
       | Some q \<Rightarrow> \<not> given (rr_requestDigest r) \<or> Some (sq_intentDigest q) = rr_requestDigest r)
      \<and> (case rr_settlement r of None \<Rightarrow> True | Some st \<Rightarrow> sameIdentity (st_dealId st) (rr_rfqId r)))"

definition exact_terms_states :: "rfq_state list" where
  "exact_terms_states = [Quoted, Reviewing, Submission_unknown, Funded, Filled, Claimable, Settled, Refundable, Refunded]"

definition settlement_states :: "rfq_state list" where
  "settlement_states = [Submission_unknown, Funded, Filled, Claimable, Settled, Refundable, Refunded]"

definition v3_totals_ok :: "rfq_bucket \<Rightarrow> rfq_terms \<Rightarrow> rfq_settlement \<Rightarrow> rfq_fill list \<Rightarrow> bool" where
  "v3_totals_ok bucket terms st fills =
     (let totalA = fill_total fl_amountA fills; totalB = fill_total fl_amountB fills in
      dec_val (bk_min bucket) \<le> totalA \<and> totalA \<le> dec_val (bk_max bucket) \<and> dec totalA = rt_sellAmount terms
      \<and> rt_buyAmount terms = Some (dec totalB)
      \<and> (case rt_minBuyAmount terms of None \<Rightarrow> True | Some m \<Rightarrow> dec_val m \<le> totalB)
      \<and> list_all (\<lambda>f. num_eq (fl_lockExpiresAt f) (st_deadline st)) fills
      \<and> num_eq (rt_rfqExpiresAt terms) (st_deadline st))"

definition v3_bindings_ok :: "rfq_env \<Rightarrow> rfq_record \<Rightarrow> bool result" where
  "v3_bindings_ok env r =
     (if rr_mode r \<noteq> V3 then Inr True
      else
        let required = (v3StateKeepsSigningKey (rr_state r) \<and> \<not> rr_restoredFromBackup r) in
        bind_r (if rr_bucket r = None then Inr True
                else v3_key_mismatch env (rr_takerCommitment r) (rr_takerSigningKey r) required) (\<lambda>bad.
        if bad \<or> rr_state r \<noteq> Draft \<and> \<not> given (rr_requestDigest r) then Inr False
        else if rr_state r \<notin> set selected_states then Inr True
        else (case (rr_fills r, rr_terms r, rr_settlement r) of
            (Some fills, Some terms, Some st) \<Rightarrow>
              Inr (given (rr_requestDigest r) \<and> 1 \<le> length fills \<and> length fills \<le> 4 \<and> st_version st = Localnet_V3
                \<and> v3_totals_ok (the (rr_bucket r)) terms st fills)
          | _ \<Rightarrow> Inr False)))"

definition attempt_in :: "rfq_record \<Rightarrow> rfq_phase \<Rightarrow> (rfq_attempt \<Rightarrow> bool) \<Rightarrow> bool" where
  "attempt_in r phase P = (case rr_attempts r phase of None \<Rightarrow> False | Some a \<Rightarrow> P a)"

definition observed_status :: "rfq_record \<Rightarrow> nat option" where
  "observed_status r = map_option do_status (rr_latestObservation r)"

definition terminal_invariant_ok :: "rfq_record \<Rightarrow> bool" where
  "terminal_invariant_ok r =
     (if rr_state r = Settled
      then (if rr_mode r = V3
            then attempt_in r Take (\<lambda>a. at_state a = Confirmed
                   \<and> (if given (at_transactionHash a) then rr_takeTransactionHash r = at_transactionHash a
                      else at_walletBoundary a = Some Entered \<and> rr_takeTransactionHash r = None))
                 \<and> rr_takerSigningKey r = None
            else observed_status r = Some 3 \<and> attempt_in r Claim (\<lambda>a. at_state a = Confirmed))
      else if rr_state r = Refunded
      then observed_status r = Some 4 \<and> attempt_in r Refund (\<lambda>a. at_state a = Confirmed)
      else if rr_mode r = V3 \<and> rr_state r = Expired
      then rr_takerSigningKey r = None
           \<and> (rr_reason r \<noteq> Some ''take-reverted''
              \<or> attempt_in r Take (\<lambda>a. at_state a = Reverted \<and> wallet_evidence a))
      else True)"

definition retry_invariant_ok :: "rfq_record \<Rightarrow> bool" where
  "retry_invariant_ok r =
     (rr_mode r \<noteq> V3 \<or> rr_state r \<noteq> Reviewing \<or> \<not> attempt_in r Take (\<lambda>a. at_state a = Reverted)
      \<or> takeAttemptWasProvenNotSubmitted (rr_attempts r Take))"

definition restored_ok :: "rfq_env \<Rightarrow> rfq_record \<Rightarrow> bool result" where
  "restored_ok env r =
     bind_r (v3_bindings_ok env r) (\<lambda>bindings.
     Inr (\<not> (rr_state r \<in> set exact_terms_states \<and> (rr_terms r = None \<or> rr_mode r \<noteq> V3 \<and> rr_selectedQuote r = None)
          \<or> rr_state r \<in> set settlement_states \<and> rr_settlement r = None
          \<or> rr_mode r = V3 \<and> rr_state r \<in> set legacy_states
          \<or> \<not> bindings \<or> \<not> terminal_invariant_ok r \<or> \<not> retry_invariant_ok r
          \<or> rr_state r = Submission_unknown \<and> \<not> submission_evidence (active_attempt r)
          \<or> \<not> restored_targets_ok env r \<or> \<not> identity_bindings_ok r)))"

definition quarantined_because :: "rfq_record \<Rightarrow> restore_context \<Rightarrow> string \<Rightarrow> rfq_record" where
  "quarantined_because r cx reason =
     reviseRfqLifecycle r (\<lambda>x. x\<lparr>rr_state := Quarantined, rr_reason := Some reason, rr_updatedAt := rx_now cx\<rparr>)"

definition time_is_over :: "rfq_record \<Rightarrow> jsnum \<Rightarrow> bool" where
  "time_is_over r now =
     ((rr_state r = Quoted \<or> rr_state r = Reviewing)
      \<and> (num_le (submission_expires r) now \<or> rr_mode r \<noteq> V3 \<and> num_le (reservation_expires r) now))"

definition restore_row :: "rfq_env \<Rightarrow> restore_context \<Rightarrow> fields \<Rightarrow> rfq_record result" where
  "restore_row env cx row =
     (if get_field row ''schemaRevision'' = JStr ''app20/rfq-lifecycle/v1'' then migrateV1 row cx
      else
        bind_r (parse_record env (rx_fromBackup cx) row) (\<lambda>r.
        bind_r (canonicalRfqChainId (rx_chainId cx)) (\<lambda>chainId.
        bind_r (if rr_chainId r \<noteq> chainId then Inr True
                else bind_r (canonicalRfqAccount (rx_account cx)) (\<lambda>account. Inr (rr_account r \<noteq> account))) (\<lambda>foreign.
        if foreign
        then Inr (quarantined_because r cx ''Wallet account or chain does not match this local resume record.'')
        else if rr_state r = Reorged \<and> ea_status (rr_evidenceAuthority r) \<noteq> Reorged_authority
        then Inr (quarantined_because r cx ''A reorged state requires an increasing evidence-authority signal.'')
        else bind_r (restored_ok env r) (\<lambda>ok.
          if \<not> ok
          then Inr (quarantined_because r cx (''The restored lifecycle state contradicts its exact terms, '' @
            ''settlement, observation, or attempt evidence.''))
          else if time_is_over r (rx_now cx)
          then transitionRfqLifecycle env r Expired (rx_now cx)
            (empty_patch\<lparr>pt_reason := Some ''The restored quote or reservation expired. Acceptance is disabled.''\<rparr>)
          else Inr r)))))"

definition restoreRfqLifecycle :: "rfq_env \<Rightarrow> jsval \<Rightarrow> restore_context \<Rightarrow> rfq_record result" where
  "restoreRfqLifecycle env v cx =
     (case bind_r (life_object v) (restore_row env cx) of
        Inr r \<Rightarrow> Inr r
      | Inl _ \<Rightarrow> quarantine cx ''Malformed local resume record; no transaction was retried.'' ''malformed-local-record'')"

end
