(* ===== verification/Rfq_Lifecycle_Properties.thy ===== *)
theory Rfq_Lifecycle_Properties
  imports Rfq_Restore
begin

text \<open>
  What holds of every record of the lifecycle, whatever sequence of operations is attempted on it:
  the bindings of its mode, one Take per deal, and what it takes to be settled. A command that
  throws leaves the record as it is.
\<close>

section \<open>Commands and runs\<close>

datatype rfq_command =
    Transition rfq_state jsnum rfq_patch
  | Begin rfq_phase string jsnum "rfq_target option"
  | Update rfq_phase attempt_state jsnum attempt_patch
  | Confirm_take observed_take jsnum
  | Revert_take jsnum string
  | Acknowledge "rfq_acknowledgement list" jsnum
  | Reconcile jsval jsnum
  | Observe_expiry jsnum
  | Authority_signal evidence_authority
  | Persisted

fun rfq_apply :: "rfq_env \<Rightarrow> rfq_record \<Rightarrow> rfq_command \<Rightarrow> rfq_record result" where
  "rfq_apply env r (Transition s now p) = transitionRfqLifecycle env r s now p"
| "rfq_apply env r (Begin phase attemptId now target) = beginRfqPhaseAttempt env r phase attemptId now target"
| "rfq_apply env r (Update phase s now p) = updateRfqPhaseAttempt r phase s now p"
| "rfq_apply env r (Confirm_take t now) = confirmRfqV3Take env r t now"
| "rfq_apply env r (Revert_take now observation) = revertRfqV3Take env r now observation"
| "rfq_apply env r (Acknowledge acks now) = recordRfqV3TranscriptAcknowledgements r acks now"
| "rfq_apply env r (Reconcile v now) = Inr (reconcileRfqLifecycleWithLocalDeal env r v now)"
| "rfq_apply env r (Observe_expiry now) = observeLocalSettlementExpiry r now"
| "rfq_apply env r (Authority_signal signal) = applyRfqAuthoritySignal r signal"
| "rfq_apply env r Persisted = Inr (markRfqLifecyclePersisted r)"

abbreviation rfq_run :: "rfq_env \<Rightarrow> rfq_record \<Rightarrow> rfq_command list \<Rightarrow> rfq_record" where
  "rfq_run env r cs \<equiv> run_cmds (\<lambda>c x. rfq_apply env x c) cs r"

text \<open>The patches the callers pass: none names the mode or the attempts.\<close>

fun ordinary :: "rfq_command \<Rightarrow> bool" where
  "ordinary (Transition s now p) = (pt_mode p = None \<and> pt_attempts p = None)"
| "ordinary _ = True"

abbreviation ordinary_step :: "rfq_env \<Rightarrow> rfq_command \<Rightarrow> rfq_record \<Rightarrow> rfq_record result" where
  "ordinary_step env \<equiv> issued_only ordinary (\<lambda>c x. rfq_apply env x c)"

section \<open>What the operations change\<close>

lemma revise_simps [simp]:
  "rr_mode (reviseRfqLifecycle r f) = rr_mode (f r)" "rr_chainId (reviseRfqLifecycle r f) = rr_chainId (f r)"
  "rr_account (reviseRfqLifecycle r f) = rr_account (f r)" "rr_rfqId (reviseRfqLifecycle r f) = rr_rfqId (f r)"
  "rr_state (reviseRfqLifecycle r f) = rr_state (f r)" "rr_updatedAt (reviseRfqLifecycle r f) = rr_updatedAt (f r)"
  "rr_terms (reviseRfqLifecycle r f) = rr_terms (f r)"
  "rr_selectedQuote (reviseRfqLifecycle r f) = rr_selectedQuote (f r)"
  "rr_settlement (reviseRfqLifecycle r f) = rr_settlement (f r)"
  "rr_attempts (reviseRfqLifecycle r f) = rr_attempts (f r)"
  "rr_latestObservation (reviseRfqLifecycle r f) = rr_latestObservation (f r)"
  "rr_evidenceAuthority (reviseRfqLifecycle r f) = rr_evidenceAuthority (f r)"
  "rr_requestDigest (reviseRfqLifecycle r f) = rr_requestDigest (f r)"
  "rr_bucket (reviseRfqLifecycle r f) = rr_bucket (f r)"
  "rr_takerCommitment (reviseRfqLifecycle r f) = rr_takerCommitment (f r)"
  "rr_takerSigningKey (reviseRfqLifecycle r f) = rr_takerSigningKey (f r)"
  "rr_fills (reviseRfqLifecycle r f) = rr_fills (f r)"
  "rr_takeTransactionHash (reviseRfqLifecycle r f) = rr_takeTransactionHash (f r)"
  "rr_acknowledgements (reviseRfqLifecycle r f) = rr_acknowledgements (f r)"
  "rr_reason (reviseRfqLifecycle r f) = rr_reason (f r)"
  "rr_restoredFromBackup (reviseRfqLifecycle r f) = rr_restoredFromBackup (f r)"
  by (simp_all add: reviseRfqLifecycle_def Let_def)

lemma revise_revision [simp]:
  "rr_storageRevision (reviseRfqLifecycle r f) = js_succ (storage_predecessor r)"
  "storage_predecessor (reviseRfqLifecycle r f) = storage_predecessor r"
  by (simp_all add: reviseRfqLifecycle_def storage_predecessor_def Let_def)

lemma apply_patch_simps [simp]:
  "rr_chainId (apply_patch p r) = rr_chainId r" "rr_account (apply_patch p r) = rr_account r"
  "rr_rfqId (apply_patch p r) = rr_rfqId r" "rr_state (apply_patch p r) = rr_state r"
  "pt_mode p = None \<Longrightarrow> rr_mode (apply_patch p r) = rr_mode r"
  "pt_attempts p = None \<Longrightarrow> rr_attempts (apply_patch p r) = rr_attempts r"
  "pt_takerSigningKey p = None \<Longrightarrow> rr_takerSigningKey (apply_patch p r) = rr_takerSigningKey r"
  "pt_restoredFromBackup p = None \<Longrightarrow> rr_restoredFromBackup (apply_patch p r) = rr_restoredFromBackup r"
  by (simp_all add: apply_patch_def patched_to_def patched_def)

lemma patched_attempt_own [simp]: "pt_attempts p = None \<Longrightarrow> patched_attempt p r phase = rr_attempts r phase"
  by (simp add: patched_attempt_def patched_def)

lemma empty_patch_simps [simp]:
  "pt_mode empty_patch = None" "pt_attempts empty_patch = None" "pt_takerSigningKey empty_patch = None"
  "pt_restoredFromBackup empty_patch = None"
  by (simp_all add: empty_patch_def)

text \<open>A transition that succeeds.\<close>

lemma rfq_transition_Inr:
  assumes "transitionRfqLifecycle env r s now p = Inr r'"
  shows "transition_error r s p = None" and "rr_state r' = s"
    and "assertRfqLifecycleAttemptTargets r' = Inr ()" and "assertRfqV3LifecycleBindings env r' = Inr ()"
    and "rr_chainId r' = rr_chainId r" and "rr_account r' = rr_account r" and "rr_rfqId r' = rr_rfqId r"
    and "pt_mode p = None \<Longrightarrow> rr_mode r' = rr_mode r"
    and "pt_attempts p = None \<Longrightarrow> rr_attempts r' = rr_attempts r"
    and "rr_mode r = V3 \<Longrightarrow> s \<in> set V3_KEY_TERMINAL_STATES \<Longrightarrow> rr_takerSigningKey r' = None"
    and "rr_mode r = V3 \<Longrightarrow> s = Settled \<Longrightarrow> pt_attempts p = None \<Longrightarrow>
      rr_takeTransactionHash r' = Option.bind (rr_attempts r Take) at_transactionHash"
    and "pt_takerSigningKey p = None \<Longrightarrow> rr_takerSigningKey r = None \<Longrightarrow> rr_takerSigningKey r' = None"
    and "pt_restoredFromBackup p = None \<Longrightarrow> rr_restoredFromBackup r' = rr_restoredFromBackup r"
    and "storage_predecessor r' = storage_predecessor r"
  using assms
  by (auto simp: transitionRfqLifecycle_def Let_def v3StateKeepsSigningKey_def patched_def
      split: option.splits if_splits)

lemma transition_allowed:
  assumes "transitionRfqLifecycle env r s now p = Inr r'"
  shows "s \<in> set (allowed (rr_state r)) \<or> rr_mode r = V3 \<and> rr_state r = Submission_unknown \<and> s = Expired"
    and "s \<noteq> Reorged" and "rr_mode r = V3 \<Longrightarrow> s \<notin> set legacy_states"
    and "rr_mode r = V3 \<Longrightarrow> rr_state r = Submission_unknown \<Longrightarrow> s \<noteq> Reviewing"
    and "rr_mode r = V3 \<Longrightarrow> s = Settled \<Longrightarrow>
      \<exists>a. patched_attempt p r Take = Some a \<and> at_state a = Confirmed \<and> wallet_evidence a"
  using rfq_transition_Inr(1)[OF assms]
  by (auto simp: transition_error_def Let_def split: if_splits option.splits)

definition same_deal :: "rfq_record \<Rightarrow> rfq_record \<Rightarrow> bool" where
  "same_deal r r' \<longleftrightarrow> rr_mode r' = rr_mode r \<and> rr_chainId r' = rr_chainId r \<and> rr_account r' = rr_account r
     \<and> rr_rfqId r' = rr_rfqId r"

lemma begin_Inr:
  assumes "beginRfqPhaseAttempt env r phase attemptId now target = Inr r'"
  shows "(rr_mode r = V3) = (phase = Take)" and "assertRfqV3LifecycleBindings env r = Inr ()"
    and "phase = Take \<Longrightarrow> \<not> rr_restoredFromBackup r \<and> given (rr_takerSigningKey r)"
    and "rr_state r \<in> set (attempt_states phase)" and "rr_state r' = rr_state r" and "same_deal r r'"
    and "\<And>a. rr_attempts r phase = Some a \<Longrightarrow> existing_attempt_error phase attemptId a = None"
    and "\<exists>a. rr_attempts r' = (rr_attempts r)(phase \<mapsto> a) \<and> at_target a = target \<and> at_state a = Preparing"
    and "rr_takerSigningKey r' = rr_takerSigningKey r" and "rr_restoredFromBackup r' = rr_restoredFromBackup r"
    and "assertRfqLifecycleAttemptTargets r' = Inr ()"
    and "rr_takeTransactionHash r' = None \<or> rr_takeTransactionHash r' = rr_takeTransactionHash r"
    and "rr_bucket r' = rr_bucket r" "rr_takerCommitment r' = rr_takerCommitment r" "rr_fills r' = rr_fills r"
      "rr_acknowledgements r' = rr_acknowledgements r" "storage_predecessor r' = storage_predecessor r"
      "rr_evidenceAuthority r' = rr_evidenceAuthority r"
  using assms
  by (auto simp: beginRfqPhaseAttempt_def Let_def same_deal_def split: if_splits option.splits)

lemma update_Inr:
  assumes "updateRfqPhaseAttempt r phase s now p = Inr r'"
  shows "\<exists>a a'. rr_attempts r phase = Some a \<and> at_state a \<noteq> Confirmed \<and> rr_attempts r' = (rr_attempts r)(phase \<mapsto> a')
      \<and> at_state a' = s \<and> at_target a' = at_target a"
    and "rr_state r' = rr_state r" and "same_deal r r'"
    and "rr_takerSigningKey r' = rr_takerSigningKey r" and "rr_restoredFromBackup r' = rr_restoredFromBackup r"
    and "phase \<noteq> Take \<Longrightarrow> rr_takeTransactionHash r' = rr_takeTransactionHash r"
    and "rr_bucket r' = rr_bucket r" "rr_takerCommitment r' = rr_takerCommitment r" "rr_fills r' = rr_fills r"
      "rr_acknowledgements r' = rr_acknowledgements r" "storage_predecessor r' = storage_predecessor r"
      "rr_evidenceAuthority r' = rr_evidenceAuthority r"
  using assms
  by (auto simp: updateRfqPhaseAttempt_def Let_def same_deal_def split: if_splits option.splits)

lemma quarantine_simps [simp]:
  "rr_state (quarantineRecord r now reason) = Quarantined" "same_deal r (quarantineRecord r now reason)"
  "rr_takerSigningKey (quarantineRecord r now reason) = rr_takerSigningKey r"
  "rr_restoredFromBackup (quarantineRecord r now reason) = rr_restoredFromBackup r"
  "rr_attempts (quarantineRecord r now reason) = rr_attempts r"
  "rr_mode (quarantineRecord r now reason) = rr_mode r"
  "carries_v3_bindings (quarantineRecord r now reason) = carries_v3_bindings r"
  "storage_predecessor (quarantineRecord r now reason) = storage_predecessor r"
  "rr_evidenceAuthority (quarantineRecord r now reason) = rr_evidenceAuthority r"
  by (simp_all add: quarantineRecord_def same_deal_def carries_v3_bindings_def)

text \<open>A Take is confirmed and the deal settled, or the record is quarantined as it was.\<close>

lemma confirm_Inr:
  assumes "confirmRfqV3Take env r t now = Inr r'"
  shows "rr_mode r = V3 \<and> rr_state r = Submission_unknown"
    and "(\<exists>reason. r' = quarantineRecord r now reason) \<or>
      (\<exists>c. updateRfqPhaseAttempt r Take Confirmed now
          (empty_attempt_patch\<lparr>ap_observation := Some ''Exact Take record observed on local devnet.''\<rparr>) = Inr c
        \<and> transitionRfqLifecycle env c Settled now empty_patch = Inr r')"
  using assms
  by (auto simp: confirmRfqV3Take_def split: if_splits option.splits)

lemma revert_Inr:
  assumes "revertRfqV3Take env r now observation = Inr r'"
  shows "rr_mode r = V3 \<and> rr_state r = Submission_unknown"
    and "\<exists>p c. updateRfqPhaseAttempt r Take Reverted now p = Inr c
        \<and> transitionRfqLifecycle env c Expired now (empty_patch\<lparr>pt_reason := Some ''take-reverted''\<rparr>) = Inr r'"
  using assms by (auto simp: revertRfqV3Take_def split: if_splits)

lemma acknowledge_Inr:
  assumes "recordRfqV3TranscriptAcknowledgements r acks now = Inr r'"
  shows "rr_mode r = V3" and "rr_state r \<in> {Quoted, Reviewing}" and "rr_state r' = rr_state r" and "same_deal r r'"
    and "rr_attempts r' = rr_attempts r" and "rr_takerSigningKey r' = rr_takerSigningKey r"
    and "rr_restoredFromBackup r' = rr_restoredFromBackup r" and "storage_predecessor r' = storage_predecessor r"
    and "rr_evidenceAuthority r' = rr_evidenceAuthority r"
  using assms by (auto simp: recordRfqV3TranscriptAcknowledgements_def same_deal_def split: if_splits)

lemma expiry_Inr:
  assumes "observeLocalSettlementExpiry r now = Inr r'"
  shows "rr_state r = Funded" and "rr_state r' = Refundable" and "same_deal r r'" and "rr_attempts r' = rr_attempts r"
    and "carries_v3_bindings r' = carries_v3_bindings r" and "storage_predecessor r' = storage_predecessor r"
  using assms
  by (auto simp: observeLocalSettlementExpiry_def same_deal_def carries_v3_bindings_def Let_def split: option.splits if_splits)

lemma take_of_lifecycle_cong:
  assumes "same_deal r r'" and "rr_requestDigest r' = rr_requestDigest r" and "rr_terms r' = rr_terms r"
    and "rr_settlement r' = rr_settlement r" and "rr_fills r' = rr_fills r"
  shows "take_of_lifecycle r' = take_of_lifecycle r"
    and "takeTargetMatchesRecord r' target deal want = takeTargetMatchesRecord r target deal want"
proof -
  have m: "rr_mode r' = rr_mode r" "rr_chainId r' = rr_chainId r" "rr_account r' = rr_account r" "rr_rfqId r' = rr_rfqId r"
    using assms(1) by (simp_all add: same_deal_def)
  show same: "take_of_lifecycle r' = take_of_lifecycle r"
    unfolding take_of_lifecycle_def record_scope_def m assms(2-5) by (rule refl)
  show "takeTargetMatchesRecord r' target deal want = takeTargetMatchesRecord r target deal want"
    unfolding takeTargetMatchesRecord_def same targetCommonMatchesRecord_def m assms(2-5) by (rule refl)
qed

lemma authority_Inr:
  assumes "applyRfqAuthoritySignal r signal = Inr r'"
  shows "rr_state r' = rr_state r \<or> rr_state r' = Reorged \<and> rr_state r \<in> {Settled, Refunded}"
    and "same_deal r r'" and "rr_attempts r' = rr_attempts r" and "rr_takerSigningKey r' = rr_takerSigningKey r"
    and "rr_restoredFromBackup r' = rr_restoredFromBackup r" and "carries_v3_bindings r' = carries_v3_bindings r"
    and "storage_predecessor r' = storage_predecessor r" and "rr_evidenceAuthority r' = signal"
    and "rr_takeTransactionHash r' = rr_takeTransactionHash r"
    and "rr_requestDigest r' = rr_requestDigest r" "rr_terms r' = rr_terms r" "rr_settlement r' = rr_settlement r"
      "rr_fills r' = rr_fills r"
    and "\<not> num_le (ea_revision signal) (ea_revision (rr_evidenceAuthority r))"
  using assms
  by (auto simp: applyRfqAuthoritySignal_def same_deal_def carries_v3_bindings_def split: if_splits)

lemma reconcile_v3:
  "rr_mode r = V3 \<Longrightarrow> \<exists>reason. reconcileRfqLifecycleWithLocalDeal env r v now = quarantineRecord r now reason"
  by (auto simp: reconcileRfqLifecycleWithLocalDeal_def reconcile_with_def)

lemma confirm_observed_other: "ph \<noteq> phase \<Longrightarrow> confirm_observed ob now phase label m ph = m ph"
  by (auto simp: confirm_observed_def split: option.splits)

lemma observed_step_take: "observed_step r ob now = Inr (s, m) \<Longrightarrow> m Take = rr_attempts r Take"
  by (auto simp: observed_step_def Let_def observed_funding_def observed_fill_def observed_claim_def
      observed_refund_def confirm_observed_other split: if_splits)

definition as_reconciled :: "rfq_record \<Rightarrow> rfq_record \<Rightarrow> bool" where
  "as_reconciled r q \<longleftrightarrow> same_deal r q \<and> carries_v3_bindings q = carries_v3_bindings r
     \<and> storage_predecessor q = storage_predecessor r"

lemma as_reconciled_quarantine [simp]: "as_reconciled r (quarantineRecord r now reason)"
  by (simp add: as_reconciled_def)

lemma as_reconciled_step:
  "observed_step r ob now = Inr (s, m) \<Longrightarrow>
   as_reconciled r (reviseRfqLifecycle r (\<lambda>x. x\<lparr>rr_state := s, rr_attempts := m, rr_latestObservation := l,
     rr_recoveryReadFailure := f, rr_updatedAt := now\<rparr>))"
  by (simp add: as_reconciled_def same_deal_def carries_v3_bindings_def observed_step_take)

lemma reconcile_with_as: "reconcile_with env r v now = Inr q \<Longrightarrow> as_reconciled r q"
  unfolding reconcile_with_def
  by (cases "rr_mode r = V3"; cases "rr_settlement r"; cases "rr_terms r"; cases "rr_selectedQuote r")
    (auto simp: Let_def as_reconciled_step split: option.splits sum.splits)

lemma reconcile_as: "as_reconciled r (reconcileRfqLifecycleWithLocalDeal env r v now)"
  by (auto simp: reconcileRfqLifecycleWithLocalDeal_def dest: reconcile_with_as split: sum.splits)

section \<open>What a settled deal rests on\<close>

text \<open>
  The observed Take is exactly the fills of the record: the same locks, amounts and tokens, and the
  terms are the sums over the fills.
\<close>

definition exact_settlement :: "rfq_record \<Rightarrow> exact_take \<Rightarrow> bool" where
  "exact_settlement r want \<longleftrightarrow> (\<exists>terms fs. rr_terms r = Some terms \<and> rr_fills r = Some fs \<and> fs \<noteq> []
     \<and> rt_sellAmount terms = dec (fill_total fl_amountA fs) \<and> rt_buyAmount terms = Some (dec (fill_total fl_amountB fs))
     \<and> xt_totalA want = dec (fill_total fl_amountA fs) \<and> xt_totalB want = dec (fill_total fl_amountB fs)
     \<and> sameIdentity (xt_tokenA want) (rt_sellAddress terms) \<and> sameIdentity (xt_tokenB want) (rt_buyAddress terms)
     \<and> list_all2 (\<lambda>w f. ef_amountA w = fl_amountA f \<and> ef_amountB w = fl_amountB f
         \<and> (\<exists>l. canonicalLocalRfqId (fl_lockId f) = Inr l \<and> sameIdentity (ef_lockId w) l)) (xt_fills want) fs)"

lemma life_decimal_Inr:
  "life_decimal v l b = Inr s \<longleftrightarrow> v = JStr s \<and> trim s \<noteq> [] \<and> length s \<le> 512 \<and> canonical_dec s
     \<and> (b \<longrightarrow> 0 < of_base 10 s)"
  by (auto simp: life_decimal_def life_text_def split: jsval.splits if_splits)

lemma exact_fill_of_Inr:
  "exact_fill_of f = Inr g \<Longrightarrow>
   ef_amountA g = fl_amountA f \<and> ef_amountB g = fl_amountB f \<and> canonicalLocalRfqId (fl_lockId f) = Inr (ef_lockId g)"
  by (auto simp: exact_fill_of_def life_decimal_Inr)

lemma exact_fills_of:
  assumes "map_r exact_fill_of fs = Inr gs"
  shows "exact_total ef_amountA gs = fill_total fl_amountA fs" and "exact_total ef_amountB gs = fill_total fl_amountB fs"
    and "list_all2 (\<lambda>g f. ef_amountA g = fl_amountA f \<and> ef_amountB g = fl_amountB f
           \<and> canonicalLocalRfqId (fl_lockId f) = Inr (ef_lockId g)) gs fs"
  using assms
  by (induction fs arbitrary: gs) (auto simp: exact_total_def fill_total_def dest!: exact_fill_of_Inr)

lemma take_of_lifecycle_Inr:
  assumes "take_of_lifecycle r = Inr (sc, deal, want)"
  obtains digest terms st fs where "rr_mode r = V3" "rr_requestDigest r = Some digest" "rr_terms r = Some terms"
      "rr_settlement r = Some st" "rr_fills r = Some fs" "fs \<noteq> []" "map_r exact_fill_of fs = Inr (xt_fills want)"
      "rt_sellAmount terms = dec (fill_total fl_amountA fs)"
      "rt_buyAmount terms = None \<or> rt_buyAmount terms = Some (dec (fill_total fl_amountB fs))"
      "xt_totalA want = dec (fill_total fl_amountA fs)" "xt_totalB want = dec (fill_total fl_amountB fs)"
      "xt_tokenA want = rt_sellAddress terms" "xt_tokenB want = rt_buyAddress terms"
      "sc = record_scope r digest" "deal = st_dealId st"
  using assms
  by (auto simp: take_of_lifecycle_def Let_def exact_fills_of(1,2) split: option.splits if_splits)

lemma bindings_selected:
  assumes "assertRfqV3LifecycleBindings env r = Inr ()" and "rr_mode r = V3" and "rr_state r \<in> set selected_states"
  shows "\<exists>terms. rr_terms r = Some terms \<and> given (rt_buyAmount terms)" and "\<exists>x. take_of_lifecycle r = Inr x"
    and "request_digest_ok (rr_requestDigest r)"
  using assms
  by (auto simp: assertRfqV3LifecycleBindings_def Let_def take_bindings_missing_def split: if_splits option.splits)

lemma target_exact:
  assumes "takeTargetMatchesRecord r target deal want" and "assertRfqV3LifecycleBindings env r = Inr ()"
    and "rr_mode r = V3" and "rr_state r \<in> set selected_states"
  shows "exact_settlement r want"
proof -
  obtain sc d e where e: "take_of_lifecycle r = Inr (sc, d, e)"
    using bindings_selected(2)[OF assms(2-4)] by auto
  then have m: "sameIdentity (xt_tokenA want) (xt_tokenA e)" "xt_totalA want = xt_totalA e"
      "sameIdentity (xt_tokenB want) (xt_tokenB e)" "xt_totalB want = xt_totalB e"
      "list_all2 same_exact_fill (xt_fills want) (xt_fills e)"
    using assms(1) by (auto simp: takeTargetMatchesRecord_def split: sum.splits)
  obtain terms fs where t: "rr_terms r = Some terms" "rr_fills r = Some fs" "fs \<noteq> []"
      "map_r exact_fill_of fs = Inr (xt_fills e)" "rt_sellAmount terms = dec (fill_total fl_amountA fs)"
      "rt_buyAmount terms = None \<or> rt_buyAmount terms = Some (dec (fill_total fl_amountB fs))"
      "xt_totalA e = dec (fill_total fl_amountA fs)" "xt_totalB e = dec (fill_total fl_amountB fs)"
      "xt_tokenA e = rt_sellAddress terms" "xt_tokenB e = rt_buyAddress terms"
    using e by (elim take_of_lifecycle_Inr) blast
  have "rt_buyAmount terms \<noteq> None"
    using bindings_selected(1)[OF assms(2-4)] t(1) by (auto simp: given_def split: option.splits)
  moreover have "list_all2 (\<lambda>w f. ef_amountA w = fl_amountA f \<and> ef_amountB w = fl_amountB f
      \<and> (\<exists>l. canonicalLocalRfqId (fl_lockId f) = Inr l \<and> sameIdentity (ef_lockId w) l)) (xt_fills want) fs"
    by (rule list_all2_trans[OF _ m(5) exact_fills_of(3)[OF t(4)]]) (auto simp: same_exact_fill_def)
  ultimately show ?thesis
    using m t unfolding exact_settlement_def by auto
qed

text \<open>A settled v3 deal has a confirmed Take that reached the wallet and was aimed at exactly its fills.\<close>

definition settled_evidence :: "rfq_record \<Rightarrow> bool" where
  "settled_evidence r \<longleftrightarrow> (\<exists>a sc deal want. rr_attempts r Take = Some a \<and> at_state a = Confirmed \<and> wallet_evidence a
     \<and> rr_takeTransactionHash r = at_transactionHash a \<and> at_target a = Some (Take_target sc deal want)
     \<and> exact_settlement r want)"

definition rfq_sound :: "rfq_record \<Rightarrow> bool" where
  "rfq_sound r \<longleftrightarrow> (rr_mode r = V2 \<longrightarrow> \<not> carries_v3_bindings r)
     \<and> (rr_mode r = V3 \<longrightarrow> rr_state r \<notin> set legacy_states \<and> (\<forall>phase. phase \<noteq> Take \<longrightarrow> rr_attempts r phase = None)
         \<and> (rr_state r \<in> set V3_KEY_TERMINAL_STATES \<longrightarrow> rr_takerSigningKey r = None)
         \<and> (rr_state r = Settled \<longrightarrow> settled_evidence r))"

lemma bindings_legacy: "assertRfqV3LifecycleBindings env r = Inr () \<Longrightarrow> rr_mode r = V2 \<Longrightarrow> \<not> carries_v3_bindings r"
  by (auto simp: assertRfqV3LifecycleBindings_def split: if_splits)

lemma targets_attempt:
  "assertRfqLifecycleAttemptTargets r = Inr () \<Longrightarrow> assert_phase_attempt r phase = Inr ()"
  by (cases phase) (auto simp: assertRfqLifecycleAttemptTargets_def rfq_phases_def)

lemma targets_take:
  assumes "assertRfqLifecycleAttemptTargets r = Inr ()" and "rr_attempts r Take = Some a" and "rr_mode r = V3"
  obtains sc deal want where "at_target a = Some (Take_target sc deal want)"
      "takeTargetMatchesRecord r (Take_target sc deal want) deal want"
  using targets_attempt[OF assms(1), of Take] assms(2,3)
  by (auto simp: assert_phase_attempt_def attempt_error_def assert_phase_target_def split: option.splits rfq_target.splits if_splits)

lemma same_deal_trans: "same_deal a b \<Longrightarrow> same_deal b c \<Longrightarrow> same_deal a c"
  by (simp add: same_deal_def)

lemma transition_same_deal:
  "transitionRfqLifecycle env r s now p = Inr r' \<Longrightarrow> pt_mode p = None \<Longrightarrow> same_deal r r'"
  using rfq_transition_Inr[of env r s now p r'] by (simp add: same_deal_def)

lemma transition_sound:
  assumes "transitionRfqLifecycle env r s now p = Inr r'" and "pt_mode p = None" and "pt_attempts p = None"
    and "rr_mode r = V3 \<Longrightarrow> \<forall>phase. phase \<noteq> Take \<longrightarrow> rr_attempts r phase = None"
  shows "rfq_sound r'"
proof -
  note t = rfq_transition_Inr[OF assms(1)] and a = transition_allowed[OF assms(1)]
  have "settled_evidence r'" if v3: "rr_mode r = V3" and s: "s = Settled"
  proof -
    obtain x where x: "rr_attempts r Take = Some x" "at_state x = Confirmed" "wallet_evidence x"
      using a(5)[OF v3 s] assms(3) by auto
    have r': "rr_attempts r' Take = Some x" "rr_mode r' = V3" "rr_state r' \<in> set selected_states"
      using x t(2,8,9) assms(2,3) v3 s by (auto simp: selected_states_def)
    obtain sc deal want where w: "at_target x = Some (Take_target sc deal want)"
        "takeTargetMatchesRecord r' (Take_target sc deal want) deal want"
      using targets_take[OF t(3) r'(1,2)] by blast
    have "exact_settlement r' want"
      by (rule target_exact[OF w(2) t(4) r'(2,3)])
    moreover have "rr_takeTransactionHash r' = at_transactionHash x"
      using t(11)[OF v3 s assms(3)] x(1) by simp
    ultimately show ?thesis
      using x r'(1) w(1) unfolding settled_evidence_def by auto
  qed
  then show ?thesis
    using t(2,8,9,10) a(3) assms(2-4) bindings_legacy[OF t(4)] by (auto simp: rfq_sound_def)
qed

lemma begin_sound:
  assumes "beginRfqPhaseAttempt env r phase attemptId now target = Inr r'" and "rfq_sound r"
  shows "rfq_sound r'"
proof -
  note b = begin_Inr[OF assms(1)]
  obtain a where a: "rr_attempts r' = (rr_attempts r)(phase \<mapsto> a)"
    using b(8) by blast
  have m: "rr_mode r' = rr_mode r"
    using b(6) by (simp add: same_deal_def)
  show ?thesis
  proof (cases "rr_mode r = V3")
    case True
    then have "phase = Take" "rr_state r' \<notin> {Settled}"
      using b(1,4,5) by auto
    then show ?thesis
      using assms(2) True a m b(5,9) by (simp add: rfq_sound_def)
  next
    case False
    then have "phase \<noteq> Take" "\<not> carries_v3_bindings r"
      using b(1) bindings_legacy[OF b(2)] by (cases "rr_mode r"; auto)+
    then have "\<not> carries_v3_bindings r'"
      using a b(9,10,12-16) by (auto simp: carries_v3_bindings_def given_def)
    then show ?thesis
      using False m by (simp add: rfq_sound_def)
  qed
qed

lemma update_sound:
  assumes "updateRfqPhaseAttempt r phase s now p = Inr r'" and "rfq_sound r"
  shows "rfq_sound r'" and "rr_mode r = V3 \<Longrightarrow> \<forall>ph. ph \<noteq> Take \<longrightarrow> rr_attempts r' ph = None"
proof -
  note u = update_Inr[OF assms(1)]
  obtain a a' where a: "rr_attempts r phase = Some a" "at_state a \<noteq> Confirmed" "rr_attempts r' = (rr_attempts r)(phase \<mapsto> a')"
    using u(1) by blast
  have m: "rr_mode r' = rr_mode r"
    using u(3) by (simp add: same_deal_def)
  show v3: "\<forall>ph. ph \<noteq> Take \<longrightarrow> rr_attempts r' ph = None" if "rr_mode r = V3"
    using that a assms(2) by (auto simp: rfq_sound_def)
  show "rfq_sound r'"
  proof (cases "rr_mode r = V3")
    case True
    then have phase: "phase = Take"
      using a(1) assms(2) by (cases "phase = Take") (auto simp: rfq_sound_def)
    then have "rr_state r \<noteq> Settled"
      using True a(1,2) assms(2) by (auto simp: rfq_sound_def settled_evidence_def)
    then show ?thesis
      using True v3 assms(2) m u(2,4) by (simp add: rfq_sound_def)
  next
    case False
    then have "\<not> carries_v3_bindings r"
      using assms(2) by (cases "rr_mode r") (auto simp: rfq_sound_def)
    moreover from this have "phase \<noteq> Take"
      using a(1) by (auto simp: carries_v3_bindings_def)
    ultimately have "\<not> carries_v3_bindings r'"
      using a(3) u(4-10) by (auto simp: carries_v3_bindings_def)
    then show ?thesis
      using False m by (simp add: rfq_sound_def)
  qed
qed

lemma quarantine_sound: "rfq_sound r \<Longrightarrow> rfq_sound (quarantineRecord r now reason)"
  by (auto simp: rfq_sound_def legacy_states_def V3_KEY_TERMINAL_STATES_def)

lemma v2_sound: "rr_mode r = V2 \<Longrightarrow> rfq_sound r \<longleftrightarrow> \<not> carries_v3_bindings r"
  by (simp add: rfq_sound_def)

lemma mode_cases: "rr_mode r = V2 \<or> rr_mode r = V3"
  by (cases "rr_mode r") auto

lemma reconcile_sound: "rfq_sound r \<Longrightarrow> rfq_sound (reconcileRfqLifecycleWithLocalDeal env r v now)"
  using mode_cases[of r] reconcile_v3[of r env v now] reconcile_as[of r env v now]
  by (auto simp: quarantine_sound as_reconciled_def same_deal_def v2_sound)

lemma acknowledge_sound:
  assumes "recordRfqV3TranscriptAcknowledgements r acks now = Inr r'" and "rfq_sound r"
  shows "rfq_sound r'"
  using acknowledge_Inr[OF assms(1)] assms(2)
  by (auto simp: rfq_sound_def same_deal_def V3_KEY_TERMINAL_STATES_def)

lemma expiry_sound:
  assumes "observeLocalSettlementExpiry r now = Inr r'" and "rfq_sound r"
  shows "rfq_sound r'"
  using expiry_Inr[OF assms(1)] assms(2) mode_cases[of r]
  by (auto simp: rfq_sound_def same_deal_def legacy_states_def)

lemma authority_sound:
  assumes "applyRfqAuthoritySignal r signal = Inr r'" and "rfq_sound r"
  shows "rfq_sound r'"
proof -
  note a = authority_Inr[OF assms(1)]
  have m: "rr_mode r' = rr_mode r"
    using a(2) by (simp add: same_deal_def)
  have settled: "settled_evidence r' \<longleftrightarrow> settled_evidence r"
    unfolding settled_evidence_def exact_settlement_def a(3) a(9) a(11) a(13) by (rule refl)
  show ?thesis
  proof (cases "rr_mode r")
    case V2
    then show ?thesis
      using assms(2) m a(6) by (simp add: v2_sound)
  next
    case V3
    then show ?thesis
      using assms(2) m a(1) unfolding rfq_sound_def settled a(3) a(4)
      by (elim disjE) (simp_all add: legacy_states_def V3_KEY_TERMINAL_STATES_def)
  qed
qed

lemma apply_sound:
  assumes "rfq_sound r" and "ordinary c" and "rfq_apply env r c = Inr r'"
  shows "rfq_sound r' \<and> same_deal r r'"
proof (cases c)
  case (Transition s now p)
  with assms show ?thesis
    using transition_sound[of env r s now p r'] transition_same_deal[of env r s now p r'] by (auto simp: rfq_sound_def)
next
  case (Begin phase i now target)
  with assms show ?thesis
    using begin_sound begin_Inr(6) by (metis rfq_apply.simps(2))
next
  case (Update phase s now p)
  with assms show ?thesis
    using update_sound(1) update_Inr(3) by (metis rfq_apply.simps(3))
next
  case (Confirm_take t now)
  with assms have c: "confirmRfqV3Take env r t now = Inr r'"
    by simp
  note v3 = confirm_Inr(1)[OF c]
  from confirm_Inr(2)[OF c] show ?thesis
  proof
    assume "\<exists>reason. r' = quarantineRecord r now reason"
    then show ?thesis
      using assms(1) quarantine_sound by auto
  next
    assume "\<exists>c. updateRfqPhaseAttempt r Take Confirmed now (empty_attempt_patch
        \<lparr>ap_observation := Some ''Exact Take record observed on local devnet.''\<rparr>) = Inr c
        \<and> transitionRfqLifecycle env c Settled now empty_patch = Inr r'"
    then obtain p c where u: "updateRfqPhaseAttempt r Take Confirmed now p = Inr c"
      and t: "transitionRfqLifecycle env c Settled now empty_patch = Inr r'"
      by blast
    have "rfq_sound r'"
      by (rule transition_sound[OF t]) (use update_sound(2)[OF u assms(1)] v3 update_Inr(3)[OF u] in \<open>simp_all add: same_deal_def\<close>)
    then show ?thesis
      using transition_same_deal[OF t] update_Inr(3)[OF u] by (auto intro: same_deal_trans)
  qed
next
  case (Revert_take now observation)
  with assms have c: "revertRfqV3Take env r now observation = Inr r'"
    by simp
  obtain p c where u: "updateRfqPhaseAttempt r Take Reverted now p = Inr c"
    and t: "transitionRfqLifecycle env c Expired now (empty_patch\<lparr>pt_reason := Some ''take-reverted''\<rparr>) = Inr r'"
    using revert_Inr(2)[OF c] by blast
  have "rfq_sound r'"
    by (rule transition_sound[OF t]) (use update_sound(2)[OF u assms(1)] revert_Inr(1)[OF c] update_Inr(3)[OF u] in \<open>simp_all add: same_deal_def\<close>)
  then show ?thesis
    using transition_same_deal[OF t] update_Inr(3)[OF u] by (auto intro: same_deal_trans)
next
  case (Acknowledge acks now)
  with assms show ?thesis
    using acknowledge_sound acknowledge_Inr(4) by (metis rfq_apply.simps(6))
next
  case (Reconcile v now)
  with assms show ?thesis
    using reconcile_sound reconcile_as[of r env v now] by (auto simp: as_reconciled_def)
next
  case (Observe_expiry now)
  with assms show ?thesis
    using expiry_sound expiry_Inr(3) by (metis rfq_apply.simps(8))
next
  case (Authority_signal signal)
  with assms show ?thesis
    using authority_sound authority_Inr(2) by (metis rfq_apply.simps(9))
next
  case Persisted
  with assms show ?thesis
    by (auto simp: markRfqLifecyclePersisted_def rfq_sound_def same_deal_def carries_v3_bindings_def
        settled_evidence_def exact_settlement_def)
qed

section \<open>The invariant of every run\<close>

text \<open>
  The states a v3 record must not be created in: \<open>createRfqLifecycleRecord\<close> itself asks neither for the
  Take of a settled one nor for a state of the v3 flow.
\<close>

definition unbacked_states :: "rfq_state list" where
  "unbacked_states = Settled # legacy_states"

lemma opt_r_None [simp]: "opt_r f None = Inr None"
  by (simp add: opt_r_def)

lemma any_r_False': "any_r cs = Inr False \<Longrightarrow> c \<in> set cs \<Longrightarrow> c = Inr False"
  by (simp add: any_r_False)

lemma keyless_match: "v3_key_mismatch env commitment key False = Inr False \<Longrightarrow> key = None"
  unfolding v3_key_mismatch_def by (drule any_r_False'[of _ "Inr (\<not> False \<and> key \<noteq> None)"]) auto

lemma created_sound:
  assumes "createRfqLifecycleRecord env i = Inr r" and "rr_mode r = V3 \<Longrightarrow> rr_state r \<notin> set unbacked_states"
  shows "rfq_sound r"
proof -
  obtain mode s where m: "mode = (case ri_mode i of None \<Rightarrow> V2 | Some m \<Rightarrow> m)" "create_shape_error i mode s = None"
      "rr_mode r = mode" "rr_attempts r = Map.empty" "rr_takeTransactionHash r = None" "\<not> rr_restoredFromBackup r"
      "opt_r parseBucket (map_option js_bucket (ri_bucket i)) = Inr (rr_bucket r)"
      "opt_r parseV3Fills (map_option (\<lambda>fs. JArr (map js_fill fs)) (ri_fills i)) = Inr (rr_fills r)"
      "(if given (ri_takerCommitment i) then opt_r canonicalLocalRfqId (ri_takerCommitment i) else Inr None) = Inr (rr_takerCommitment r)"
      "(if given (ri_takerSigningKey i) then opt_r canonicalLocalRfqId (ri_takerSigningKey i) else Inr None) = Inr (rr_takerSigningKey r)"
      "opt_r (\<lambda>acks. parseTranscriptAcknowledgements (JArr (map js_acknowledgement acks))) (ri_acknowledgements i) = Inr (rr_acknowledgements r)"
      "create_binding_error env i mode s (rr_rfqId r) (rr_settlement r) (rr_bucket r) (rr_takerCommitment r) (rr_takerSigningKey r)
         (rr_fills r) = Inr ()" "rr_state r = s"
    using assms(1) by (auto simp: createRfqLifecycleRecord_def Let_def split: if_splits option.splits)
  have key: "rr_takerSigningKey r = None" if "mode = V3" "rr_state r \<in> set V3_KEY_TERMINAL_STATES"
    using keyless_match m(12,13) that by (auto simp: create_binding_error_def v3StateKeepsSigningKey_def split: if_splits)
  show ?thesis
  proof (cases mode)
    case V2
    then have "ri_bucket i = None" "\<not> given (ri_takerCommitment i)" "\<not> given (ri_takerSigningKey i)" "ri_fills i = None"
        "ri_acknowledgements i = None"
      using m(2) by (auto simp: create_shape_error_def Let_def split: if_splits)
    then have "\<not> carries_v3_bindings r"
      using m(4-11) by (auto simp: carries_v3_bindings_def given_def)
    then show ?thesis
      using V2 m(3) by (simp add: v2_sound)
  next
    case V3
    then show ?thesis
      using m(3,4) key assms(2) by (auto simp: rfq_sound_def unbacked_states_def)
  qed
qed

interpretation deal: guarded_system "ordinary_step env" rfq_sound same_deal for env
  by unfold_locales (auto simp: same_deal_def[of s s for s] dest: apply_sound intro: same_deal_trans)

text \<open>
  C13: the invariant of the lifecycle. Starting from any created record, except a v3 record created
  as settled or in a state of the legacy flow (the creation does not refuse these), and whatever
  commands follow, rejected ones included, with patches that replace neither the mode nor the
  attempts: the deal keeps its mode, chain, account and identity; a legacy deal never carries v3
  bindings; a v3 deal never enters a legacy state and has no attempt but its Take, has no signing key
  once it is settled, expired, refused, cancelled or reorged, and is settled only with a confirmed
  Take that reached the wallet and was aimed at exactly its fills.
\<close>

theorem rfq_lifecycle_invariant:
  assumes "createRfqLifecycleRecord env i = Inr r" and "rr_mode r = V3 \<Longrightarrow> rr_state r \<notin> set unbacked_states"
    and "list_all ordinary cs"
  shows "rfq_sound (rfq_run env r cs) \<and> same_deal r (rfq_run env r cs)"
proof -
  have "rfq_sound r"
    by (rule created_sound[OF assms(1,2)])
  from deal.run_inv[OF this, of env cs] deal.run_le[OF this, of env cs] show ?thesis
    unfolding run_issued_only[OF assms(3)] by blast
qed

definition revised :: "rfq_record \<Rightarrow> rfq_record \<Rightarrow> bool" where
  "revised r r' \<longleftrightarrow> rr_persisted r' = None \<and> rr_storagePredecessor r' = Some (storage_predecessor r)
     \<and> rr_storageRevision r' = js_succ (storage_predecessor r)"

lemma revised_revise [simp]: "revised r (reviseRfqLifecycle r f)"
  by (simp add: revised_def reviseRfqLifecycle_def Let_def)

lemma revised_predecessor: "revised r r' \<Longrightarrow> storage_predecessor r' = storage_predecessor r"
  by (simp add: revised_def storage_predecessor_def)

lemma revised_trans: "revised a b \<Longrightarrow> revised b c \<Longrightarrow> revised a c"
  using revised_predecessor[of a b] by (simp add: revised_def)

lemma transition_revised: "transitionRfqLifecycle env r s now p = Inr r' \<Longrightarrow> revised r r'"
  by (auto simp: transitionRfqLifecycle_def Let_def split: option.splits)

lemma update_revised: "updateRfqPhaseAttempt r phase s now p = Inr r' \<Longrightarrow> revised r r'"
  by (auto simp: updateRfqPhaseAttempt_def Let_def split: option.splits if_splits)

lemma quarantine_revised [simp]: "revised r (quarantineRecord r now reason)"
  by (simp add: quarantineRecord_def)

lemma reconcile_revised: "revised r (reconcileRfqLifecycleWithLocalDeal env r v now)"
proof -
  have "revised r q" if "reconcile_with env r v now = Inr q" for q
    using that unfolding reconcile_with_def
    by (cases "rr_mode r = V3"; cases "rr_settlement r"; cases "rr_terms r"; cases "rr_selectedQuote r")
      (auto simp: Let_def split: option.splits sum.splits)
  then show ?thesis
    by (auto simp: reconcileRfqLifecycleWithLocalDeal_def split: sum.splits)
qed

lemma apply_revised:
  assumes "rfq_apply env r c = Inr r'" and "c \<noteq> Persisted"
  shows "revised r r'"
proof (cases c)
  case (Confirm_take t now)
  with assms confirm_Inr(2)[of env r t now r'] show ?thesis
    using update_revised transition_revised revised_trans by fastforce
next
  case (Revert_take now observation)
  with assms revert_Inr(2)[of env r now observation r'] show ?thesis
    using update_revised transition_revised revised_trans by fastforce
next
  case (Begin phase i now target)
  with assms show ?thesis
    by (auto simp: beginRfqPhaseAttempt_def Let_def split: if_splits option.splits)
next
  case (Acknowledge acks now)
  with assms show ?thesis
    by (auto simp: recordRfqV3TranscriptAcknowledgements_def split: if_splits)
next
  case (Observe_expiry now)
  with assms show ?thesis
    by (auto simp: observeLocalSettlementExpiry_def Let_def split: if_splits option.splits)
next
  case (Authority_signal signal)
  with assms show ?thesis
    by (auto simp: applyRfqAuthoritySignal_def split: if_splits)
qed (use assms transition_revised update_revised reconcile_revised in auto)

interpretation unsaved: guarded_system "issued_only (\<lambda>c. c \<noteq> Persisted) (\<lambda>c x. rfq_apply env x c)"
    "\<lambda>_. True" "\<lambda>r r'. r' = r \<or> revised r r'" for env
  by unfold_locales (auto dest: apply_revised revised_trans)

text \<open>
  C14: one revision per save. However many commands are applied between two saves, the record that is
  saved next names the revision saved last as its predecessor and is exactly one revision further
  (below \<open>2 ^ 53\<close>), so that the compare-and-put of the storage notices a save in between.
\<close>

theorem one_revision_per_save:
  assumes "Persisted \<notin> set cs" and "rr_storageRevision r < 2 ^ 53"
  shows "rfq_run env (markRfqLifecyclePersisted r) cs = markRfqLifecyclePersisted r \<or>
    rr_storagePredecessor (rfq_run env (markRfqLifecyclePersisted r) cs) = Some (rr_storageRevision r)
    \<and> rr_storageRevision (rfq_run env (markRfqLifecyclePersisted r) cs) = rr_storageRevision r + 1"
proof -
  have "storage_predecessor (markRfqLifecyclePersisted r) = rr_storageRevision r"
    by (simp add: storage_predecessor_def markRfqLifecyclePersisted_def)
  moreover have "list_all (\<lambda>c. c \<noteq> Persisted) cs"
    using assms(1) by (auto simp: list_all_iff)
  ultimately show ?thesis
    using unsaved.run_le[of env cs "markRfqLifecyclePersisted r"] assms(2)
    by (auto simp: run_issued_only revised_def js_succ_def)
qed

section \<open>One Take per deal\<close>

text \<open>The states a v3 deal can be in once its Take may have reached the wallet.\<close>

definition spent_states :: "rfq_state list" where
  "spent_states = [Submission_unknown, Settled, Expired, Quarantined, Cancel_pending, Cancelled, Reorged]"

definition take_spent :: "rfq_record \<Rightarrow> bool" where
  "take_spent r \<longleftrightarrow> rr_mode r = V3 \<and> rr_state r \<in> set spent_states"

lemma spent_transition:
  assumes "transitionRfqLifecycle env r s now p = Inr r'" and "pt_mode p = None" and "take_spent r"
  shows "take_spent r'"
  using rfq_transition_Inr(2,8)[OF assms(1)] transition_allowed(1-4)[OF assms(1)] assms(2,3)
  by (auto simp: take_spent_def spent_states_def legacy_states_def)

lemma spent_update: "updateRfqPhaseAttempt r phase s now p = Inr r' \<Longrightarrow> take_spent r' = take_spent r"
  using update_Inr(2,3)[of r phase s now p r'] by (auto simp: take_spent_def same_deal_def)

lemma spent_quarantine: "take_spent r \<Longrightarrow> take_spent (quarantineRecord r now reason)"
  by (simp add: take_spent_def spent_states_def)

lemma spent_apply:
  assumes "take_spent r" and "ordinary c" and "rfq_apply env r c = Inr r'"
  shows "take_spent r'"
proof (cases c)
  case (Transition s now p)
  with assms show ?thesis
    using spent_transition by auto
next
  case (Begin phase i now target)
  with assms begin_Inr(5,6)[of env r phase i now target r'] show ?thesis
    by (simp add: take_spent_def same_deal_def)
next
  case (Update phase s now p)
  with assms show ?thesis
    using spent_update by auto
next
  case (Confirm_take t now)
  with assms confirm_Inr(2)[of env r t now r'] show ?thesis
    using spent_update spent_transition spent_quarantine by fastforce
next
  case (Revert_take now observation)
  with assms revert_Inr(2)[of env r now observation r'] show ?thesis
    using spent_update spent_transition by fastforce
next
  case (Acknowledge acks now)
  with assms acknowledge_Inr(3,4)[of r acks now r'] show ?thesis
    by (simp add: take_spent_def same_deal_def)
next
  case (Reconcile v now)
  with assms reconcile_v3[of r env v now] show ?thesis
    using spent_quarantine by (auto simp: take_spent_def)
next
  case (Observe_expiry now)
  with assms expiry_Inr(1)[of r now r'] show ?thesis
    by (simp add: take_spent_def spent_states_def)
next
  case (Authority_signal signal)
  with assms authority_Inr(1,2)[of r signal r'] show ?thesis
    by (auto simp: take_spent_def same_deal_def spent_states_def)
next
  case Persisted
  with assms show ?thesis
    by (auto simp: markRfqLifecyclePersisted_def take_spent_def)
qed

interpretation spent: guarded_system "ordinary_step env" take_spent "\<lambda>_ _. True" for env
  by unfold_locales (auto dest: spent_apply)

text \<open>
  C15: a Take is submitted once. After a v3 deal is \<open>submission-unknown\<close> (the wallet may have signed
  its Take), no sequence of commands brings it back to review: no Take can be begun on it again and
  the interface never offers to submit, whatever is observed, confirmed, reverted or retried.
\<close>

theorem take_submitted_once:
  assumes "rr_mode r = V3" and "rr_state r = Submission_unknown" and "list_all ordinary cs"
  shows "rr_state (rfq_run env r cs) \<in> set spent_states
    \<and> \<not> is_ok (beginRfqPhaseAttempt env (rfq_run env r cs) phase attemptId now target)
    \<and> \<not> lifecycleMaySubmit (rfq_run env r cs) now"
proof -
  have "take_spent r"
    using assms(1,2) by (simp add: take_spent_def spent_states_def)
  from spent.run_inv[OF this, of env cs] have "take_spent (rfq_run env r cs)"
    unfolding run_issued_only[OF assms(3)] .
  then have s: "rr_mode (rfq_run env r cs) = V3" "rr_state (rfq_run env r cs) \<in> set spent_states"
    by (simp_all add: take_spent_def)
  have False if "beginRfqPhaseAttempt env (rfq_run env r cs) phase attemptId now target = Inr r'" for r'
    using begin_Inr(1,4)[OF that] s by (simp add: spent_states_def)
  then have "\<not> is_ok (beginRfqPhaseAttempt env (rfq_run env r cs) phase attemptId now target)"
    by (auto simp: is_ok_iff)
  then show ?thesis
    using s by (auto simp: lifecycleMaySubmit_def spent_states_def)
qed

section \<open>The confirmation of a Take\<close>

lemma canonical_felt_of_hex_text: "canonicalizeStarknetFelt (''0x'' @ hex n) = Inr s \<Longrightarrow> s = ''0x'' @ hex n"
  using trim_hex_literal[of n] hex_literal_canonical[of n]
  by (auto simp: canonicalizeStarknetFelt_def big_int_def Let_def split: if_splits)

lemma to_lower_hex_text: "to_lower (''0x'' @ hex n) = ''0x'' @ hex n"
  using to_lower_hex_lower[OF hex_digits_lower[of n]]
  by (simp add: to_lower_def lower_char_def is_upper_alpha_def code_zero code_x)

lemma sameIdentity_hex:
  assumes "sameIdentity (''0x'' @ hex a) (''0x'' @ hex b)"
  shows "a = b"
proof (cases "canonicalizeStarknetFelt (''0x'' @ hex a)")
  case (Inl e)
  then show ?thesis
    using assms to_lower_hex_text[of a] to_lower_hex_text[of b] by (simp add: sameIdentity_def)
next
  case (Inr x)
  note x = canonical_felt_of_hex_text[OF Inr]
  show ?thesis
  proof (cases "canonicalizeStarknetFelt (''0x'' @ hex b)")
    case (Inl e)
    with Inr show ?thesis
      using assms to_lower_hex_text[of a] to_lower_hex_text[of b] by (simp add: sameIdentity_def)
  next
    case (Inr y)
    with \<open>canonicalizeStarknetFelt (''0x'' @ hex a) = Inr x\<close> have "x = y"
      using assms by (simp add: sameIdentity_def)
    then show ?thesis
      using x canonical_felt_of_hex_text[OF Inr] by simp
  qed
qed

lemma dec_int_eq_dec [simp]: "dec_int i = dec n \<longleftrightarrow> i = int n"
proof (cases "i < 0")
  case True
  have "hd (dec n) \<noteq> CHR ''-''"
    using dec_digits[of n] by (cases "dec n") (auto simp: is_digit_def code_def)
  then have "CHR ''-'' # xs \<noteq> dec n" for xs
    by (metis list.sel(1))
  with True show ?thesis
    by (simp add: dec_int_def)
qed (auto simp: dec_int_def)

text \<open>The fills an authorization is made of, against the fills of the record.\<close>

definition fills_of_record :: "rfq_record \<Rightarrow> take_fill list \<Rightarrow> bool" where
  "fills_of_record r gs \<longleftrightarrow> (\<exists>fs. rr_fills r = Some fs \<and>
     list_all2 (\<lambda>g f. canonicalLocalRfqId (fl_lockId f) = Inr (tf_lockId g) \<and> tf_amountA g = int (dec_val (fl_amountA f))) gs fs)"

lemma canonicalLocalRfqId_felt: "canonicalLocalRfqId s = Inr l \<Longrightarrow> canonicalizeStarknetFelt s = Inr l"
  by (auto simp: canonicalLocalRfqId_def life_text_def split: sum.splits if_splits)

lemma expected_fills:
  assumes "take_of_lifecycle r = Inr (sc, deal, want)"
    and "canonicalFills (map (\<lambda>f. \<lparr>tf_lockId = ef_lockId f, tf_amountA = int (dec_val (ef_amountA f))\<rparr>) (xt_fills want)) = Inr gs"
  shows "fills_of_record r gs"
proof -
  obtain fs where fs: "rr_fills r = Some fs" "map_r exact_fill_of fs = Inr (xt_fills want)"
    using assms(1) by (elim take_of_lifecycle_Inr) blast
  have "list_all2 (\<lambda>e g. canonicalizeStarknetFelt (ef_lockId e) = Inr (tf_lockId g) \<and> tf_amountA g = int (dec_val (ef_amountA e)))
      (xt_fills want) gs"
    using canonicalFills_list[OF assms(2)] by (simp add: list_all2_map1)
  then have "list_all2 (\<lambda>g e. canonicalizeStarknetFelt (ef_lockId e) = Inr (tf_lockId g) \<and> tf_amountA g = int (dec_val (ef_amountA e)))
      gs (xt_fills want)"
    by (simp add: list_all2_conv_all_nth)
  then have "list_all2 (\<lambda>g f. canonicalLocalRfqId (fl_lockId f) = Inr (tf_lockId g) \<and> tf_amountA g = int (dec_val (fl_amountA f))) gs fs"
    by (rule list_all2_trans[OF _ _ exact_fills_of(3)[OF fs(2)], rotated])
      (metis canonicalLocalRfqId_felt canonical_felt_idem sum.inject(2))
  then show ?thesis
    using fs(1) unfolding fills_of_record_def by blast
qed

lemma confirm_settled:
  assumes "confirmRfqV3Take env r t now = Inr r'" and "rr_state r' = Settled"
  obtains sc deal want digest where "take_of_lifecycle r = Inr (sc, deal, want)" "take_totals_match t want"
      "expected_digest env want = Inr digest" "sameIdentity (ot_fillsDigest t) digest" "lock_evidence_matches t want"
  using assms by (auto simp: confirmRfqV3Take_def split: if_splits option.splits)

text \<open>
  C16: a confirmed Take is the one that was authorized. The confirmation of a v3 deal settles it or
  quarantines it with its attempts untouched. If it settles, the observed totals are the sums over
  the fills of the record and the observed fill count is theirs; and whatever fills the observed
  digest was computed from (by the escrow, or by the taker when it signed), they are exactly the
  fills of the record, unless two different lists of felts have the same Poseidon hash.
\<close>

theorem confirmed_take_is_exact:
  assumes "confirmRfqV3Take env r t now = Inr r'"
    and "fillsDigest (take_env.truncate env) taken = Inr (ot_fillsDigest t)"
  shows "rr_state r' = Quarantined \<and> rr_attempts r' = rr_attempts r \<or>
    rr_state r' = Settled
    \<and> (\<exists>fs. rr_fills r = Some fs \<and> ot_totalA t = int (fill_total fl_amountA fs) \<and> ot_totalB t = int (fill_total fl_amountB fs)
         \<and> ot_fillCount t = jint (int (length fs)))
    \<and> (take_collision (take_env.truncate env) \<or> (\<exists>gs. canonicalFills taken = Inr gs \<and> fills_of_record r gs))"
proof (cases "rr_state r' = Settled")
  case False
  then show ?thesis
    using confirm_Inr(2)[OF assms(1)] rfq_transition_Inr(2) by auto
next
  case True
  let ?env = "take_env.truncate env"
  obtain sc deal want digest where w: "take_of_lifecycle r = Inr (sc, deal, want)" "take_totals_match t want"
      "expected_digest env want = Inr digest" "sameIdentity (ot_fillsDigest t) digest"
      "lock_evidence_matches t want"
    by (rule confirm_settled[OF assms(1) True])
  obtain fs where fs: "rr_fills r = Some fs" "map_r exact_fill_of fs = Inr (xt_fills want)"
      "xt_totalA want = dec (fill_total fl_amountA fs)" "xt_totalB want = dec (fill_total fl_amountB fs)"
    using w(1) by (elim take_of_lifecycle_Inr) blast
  have totals: "ot_totalA t = int (fill_total fl_amountA fs)" "ot_totalB t = int (fill_total fl_amountB fs)"
      "ot_fillCount t = jint (int (length fs))"
    using w(2) fs(2-4) map_r_length[OF fs(2)] by (auto simp: take_totals_match_def num_eq_Fin)
  obtain gs where gs: "canonicalFills taken = Inr gs" "ot_fillsDigest t = ''0x'' @ hex (te_poseidon ?env (fill_felts gs))"
    using assms(2) by (auto simp: fillsDigest_def)
  obtain hs where hs: "canonicalFills (map (\<lambda>f. \<lparr>tf_lockId = ef_lockId f, tf_amountA = int (dec_val (ef_amountA f))\<rparr>) (xt_fills want)) = Inr hs"
      "digest = ''0x'' @ hex (te_poseidon ?env (fill_felts hs))"
    using w(3) by (auto simp: expected_digest_def fillsDigest_def)
  have "te_poseidon ?env (fill_felts gs) = te_poseidon ?env (fill_felts hs)"
    using w(4) sameIdentity_hex unfolding gs(2) hs(2) by blast
  then have "take_collision ?env \<or> fill_felts gs = fill_felts hs"
    unfolding take_collision_def by blast
  then have "take_collision ?env \<or> gs = hs"
    using fill_felts_inject[OF canonicalFills_felts[OF gs(1)] canonicalFills_felts[OF hs(1)]] by blast
  then show ?thesis
    using True totals fs(1) gs(1) expected_fills[OF w(1) hs(1)] by auto
qed

section \<open>Records nothing can move any more\<close>

lemma bindings_key:
  assumes "assertRfqV3LifecycleBindings env r = Inr ()" and "rr_mode r = V3"
    and "rr_state r \<notin> set V3_KEY_TERMINAL_STATES" and "\<not> rr_restoredFromBackup r"
  shows "given (rr_takerSigningKey r)"
proof -
  have "v3_key_mismatch env (rr_takerCommitment r) (rr_takerSigningKey r) True = Inr False"
    using assms by (auto simp: assertRfqV3LifecycleBindings_def Let_def v3StateKeepsSigningKey_def split: if_splits)
  then show ?thesis
    unfolding v3_key_mismatch_def by (drule_tac any_r_False'[of _ "Inr (True \<and> \<not> given (rr_takerSigningKey r))"]) auto
qed

text \<open>Commands that bring no signing key and do not declare the record a backup.\<close>

fun keyless :: "rfq_command \<Rightarrow> bool" where
  "keyless (Transition s now p) =
     (pt_mode p = None \<and> pt_attempts p = None \<and> pt_takerSigningKey p = None \<and> pt_restoredFromBackup p = None)"
| "keyless _ = True"

definition keyless_quarantine :: "rfq_record \<Rightarrow> bool" where
  "keyless_quarantine r \<longleftrightarrow> rr_mode r = V3 \<and> rr_state r = Quarantined \<and> rr_takerSigningKey r = None \<and> \<not> rr_restoredFromBackup r"

lemma keyless_transition:
  assumes "keyless_quarantine r" and "keyless (Transition s now p)"
  shows "transitionRfqLifecycle env r s now p \<noteq> Inr r'"
proof
  assume t: "transitionRfqLifecycle env r s now p = Inr r'"
  have "s = Cancel_pending"
    using transition_allowed(1)[OF t] transition_allowed(2)[OF t] assms(1) by (auto simp: keyless_quarantine_def)
  then have "rr_state r' \<notin> set V3_KEY_TERMINAL_STATES" "rr_mode r' = V3" "\<not> rr_restoredFromBackup r'" "rr_takerSigningKey r' = None"
    using rfq_transition_Inr(2,8,12,13)[OF t] assms by (auto simp: keyless_quarantine_def V3_KEY_TERMINAL_STATES_def)
  then show False
    using bindings_key[OF rfq_transition_Inr(4)[OF t]] by (simp add: given_def)
qed

lemma keyless_apply:
  assumes "keyless_quarantine r" and "keyless c" and "rfq_apply env r c = Inr r'"
  shows "keyless_quarantine r'"
proof (cases c)
  case (Begin phase i now target)
  with assms begin_Inr(1,4)[of env r phase i now target r'] show ?thesis
    by (auto simp: keyless_quarantine_def)
next
  case (Update phase s now p)
  with assms update_Inr(2-5)[of r phase s now p r'] show ?thesis
    by (simp add: keyless_quarantine_def same_deal_def)
next
  case (Reconcile v now)
  with assms reconcile_v3[of r env v now] show ?thesis
    by (auto simp: keyless_quarantine_def)
next
  case (Authority_signal signal)
  with assms authority_Inr(1,2,4,5)[of r signal r'] show ?thesis
    by (auto simp: keyless_quarantine_def same_deal_def)
next
  case (Transition s now p)
  with assms keyless_transition[of r s now p env r'] show ?thesis
    by simp
next
  case Persisted
  with assms show ?thesis
    by (auto simp: keyless_quarantine_def markRfqLifecyclePersisted_def)
qed (use assms in \<open>auto simp: keyless_quarantine_def dest: confirm_Inr(1) revert_Inr(1) acknowledge_Inr(2) expiry_Inr(1)\<close>)

interpretation closed: guarded_system "issued_only keyless (\<lambda>c x. rfq_apply env x c)" keyless_quarantine
    "\<lambda>_ _. True" for env
  by unfold_locales (auto dest: keyless_apply)

text \<open>
  C17: a closed v3 deal that is quarantined is stuck, unless it was restored from a backup. A v3 deal
  that is settled, expired, refused, cancelled or reorged has dropped its signing key; reconciling it
  with a local deal quarantines it. A transition of a record that is not from a backup to the only
  exit of quarantine asks for the key, so from then on it stays quarantined, whatever follows (no
  command brings a key or declares it a backup), and may never be forgotten, although its outcome
  was known.
\<close>

theorem quarantined_closed_deal_is_stuck:
  assumes "rr_mode r = V3" and "rr_state r \<in> set V3_KEY_TERMINAL_STATES" and "rr_takerSigningKey r = None"
    and "\<not> rr_restoredFromBackup r" and "list_all keyless cs"
  shows "rr_state (rfq_run env (reconcileRfqLifecycleWithLocalDeal env r v now) cs) = Quarantined
    \<and> \<not> lifecycleMayForget (rfq_run env (reconcileRfqLifecycleWithLocalDeal env r v now) cs)"
proof -
  have "keyless_quarantine (reconcileRfqLifecycleWithLocalDeal env r v now)"
    using reconcile_v3[OF assms(1), of env v now] assms by (auto simp: keyless_quarantine_def)
  from closed.run_inv[OF this, of env cs] have "keyless_quarantine (rfq_run env (reconcileRfqLifecycleWithLocalDeal env r v now) cs)"
    unfolding run_issued_only[OF assms(5)] .
  then show ?thesis
    by (auto simp: keyless_quarantine_def lifecycleMayForget_def)
qed

lemma reconciled_claimable:
  assumes "rr_mode r = V2" and "rr_attempts r Fill = None"
    and "rr_state (reconcileRfqLifecycleWithLocalDeal env r v now) = Claimable"
  shows "\<exists>a. rr_attempts (reconcileRfqLifecycleWithLocalDeal env r v now) Fill = Some a \<and> at_target a = None"
proof -
  have "\<exists>a. rr_attempts q Fill = Some a \<and> at_target a = None"
    if "reconcile_with env r v now = Inr q" "rr_state q = Claimable" for q
    using that assms(1,2) unfolding reconcile_with_def
    by (cases "rr_settlement r"; cases "rr_terms r"; cases "rr_selectedQuote r")
      (auto simp: Let_def observed_step_def observed_funding_def observed_fill_def confirm_observed_def
        split: option.splits sum.splits if_splits)
  then show ?thesis
    using assms(3) by (auto simp: reconcileRfqLifecycleWithLocalDeal_def split: sum.splits)
qed

text \<open>
  C18: a fill that was only observed blocks the claim. When a legacy deal without a fill attempt of its
  own is reconciled with a deal that a maker has filled, it becomes claimable; but the fill attempt
  that is recorded carries no target, and then every attempt (the claim itself included) and every
  transition of the record is refused.
\<close>

theorem observed_fill_blocks_claim:
  assumes "rr_mode r = V2" and "rr_attempts r Fill = None"
    and "rr_state (reconcileRfqLifecycleWithLocalDeal env r v now) = Claimable" and "ordinary (Transition s now' p)"
  shows "\<not> is_ok (beginRfqPhaseAttempt env (reconcileRfqLifecycleWithLocalDeal env r v now) phase attemptId now' target)
    \<and> \<not> is_ok (transitionRfqLifecycle env (reconcileRfqLifecycleWithLocalDeal env r v now) s now' p)"
proof -
  let ?q = "reconcileRfqLifecycleWithLocalDeal env r v now"
  obtain a where a: "rr_attempts ?q Fill = Some a" "at_target a = None"
    using reconciled_claimable[OF assms(1-3)] by blast
  have mode: "rr_mode ?q = V2"
    using reconcile_as[of r env v now] assms(1) by (simp add: as_reconciled_def same_deal_def)
  have bad: "assertRfqLifecycleAttemptTargets x \<noteq> Inr ()" if "rr_mode x = V2" "rr_attempts x Fill = Some a" for x
    using targets_attempt[of x Fill] that a(2) by (auto simp: assert_phase_attempt_def attempt_error_def)
  have "beginRfqPhaseAttempt env ?q phase attemptId now' target \<noteq> Inr x" for x
  proof
    assume b: "beginRfqPhaseAttempt env ?q phase attemptId now' target = Inr x"
    obtain y where "rr_attempts x = (rr_attempts ?q)(phase \<mapsto> y)"
      using begin_Inr(8)[OF b] by blast
    moreover have "phase \<noteq> Fill"
      using begin_Inr(4)[OF b] assms(3) by (cases phase) auto
    ultimately show False
      using bad[of x] begin_Inr(6,11)[OF b] mode a(1) by (simp add: same_deal_def)
  qed
  moreover have "transitionRfqLifecycle env ?q s now' p \<noteq> Inr x" for x
    using bad[of x] rfq_transition_Inr(3,8,9)[of env ?q s now' p x] mode a(1) assms(4) by auto
  ultimately show ?thesis
    by (auto simp: is_ok_iff)
qed

end
