(* ===== verification/Rfq_Restore_Properties.thy ===== *)
theory Rfq_Restore_Properties
  imports Rfq_Lifecycle_Properties
begin

text \<open>
  What a restored record can be trusted with, whatever was in the storage; and runs of the lifecycle
  on a concrete deal, which show that the hypotheses of the properties can be met.
\<close>

section \<open>Restored records\<close>

text \<open>
  A restored record that is not quarantined: of this chain and account, with every assertion met, no
  finality taken from the storage, no signing authority taken from a backup, and its time not over.
\<close>

definition trusted :: "rfq_env \<Rightarrow> string \<Rightarrow> string \<Rightarrow> restore_context \<Rightarrow> rfq_record \<Rightarrow> bool" where
  "trusted env c a cx r \<longleftrightarrow> rr_chainId r = c \<and> rr_account r = a
     \<and> assertRfqLifecycleAttemptTargets r = Inr () \<and> assertRfqV3LifecycleBindings env r = Inr ()
     \<and> (rr_attempts r Claim = None \<and> rr_attempts r Refund = None \<longrightarrow> rfq_sound r)
     \<and> ea_revision (rr_evidenceAuthority r) = jint 0 \<and> ea_status (rr_evidenceAuthority r) \<noteq> Authoritative
     \<and> (rr_mode r = V3 \<and> rx_fromBackup cx \<longrightarrow> rr_restoredFromBackup r)
     \<and> (rr_restoredFromBackup r \<longrightarrow> rr_takerSigningKey r = None \<and> (\<forall>now. \<not> lifecycleMaySubmit r now))
     \<and> \<not> time_is_over r (rx_now cx)"

lemma parse_record_Inr:
  assumes "parse_record env fromBackup row = Inr r"
  shows "\<exists>u. parseEvidenceAuthority env (get_field row ''evidenceAuthority'') u = Inr (rr_evidenceAuthority r)"
    and "parseAttempts env (get_field row ''attempts'') = Inr (rr_attempts r)"
    and "rr_mode r = V3 \<and> fromBackup \<Longrightarrow> rr_restoredFromBackup r"
    and "rr_restoredFromBackup r \<Longrightarrow> rr_takerSigningKey r = None"
  using assms by (auto simp: parse_record_def Let_def)

lemma restored_authority:
  assumes "parseEvidenceAuthority env v u = Inr e"
  shows "ea_revision e = jint 0 \<and> ea_status e \<noteq> Authoritative"
proof -
  have "named env authority_names Raw_authority x \<noteq> Some s \<or> (if s = Authoritative then Stale else s) \<noteq> Authoritative" for x s
    by simp
  then show ?thesis
    using assms by (auto simp: parseEvidenceAuthority_def defaultEvidenceAuthority_def Let_def split: option.splits if_splits)
qed

lemma parsed_hash: "parse_attempt env ph v = Inr a \<Longrightarrow> at_transactionHash a \<noteq> Some []"
  by (auto simp: parse_attempt_def Let_def opt_text_def row_field_def life_text_def trim_def
      split: option.splits if_splits jsval.splits)

lemma parsed_attempts: "parse_attempts_of env row phs = Inr m \<Longrightarrow> m ph = Some a \<Longrightarrow> at_transactionHash a \<noteq> Some []"
  by (induction phs arbitrary: m) (auto simp: Let_def dest: parsed_hash split: if_splits)

lemma restored_hash:
  "parseAttempts env v = Inr m \<Longrightarrow> m ph = Some a \<Longrightarrow> at_transactionHash a \<noteq> Some []"
  by (auto simp: parseAttempts_def dest: parsed_attempts split: if_splits)

lemma v3_attempts:
  assumes "assertRfqLifecycleAttemptTargets r = Inr ()" and "rr_mode r = V3"
    and "rr_attempts r Claim = None" "rr_attempts r Refund = None" and "phase \<noteq> Take"
  shows "rr_attempts r phase = None"
  using targets_attempt[OF assms(1), of phase] assms(2-5)
  by (cases phase) (auto simp: assert_phase_attempt_def split: option.splits)

lemma restored_sound:
  assumes "parse_record env b row = Inr r" and "restored_ok env r = Inr True"
    and "rr_attempts r Claim = None" "rr_attempts r Refund = None"
  shows "rfq_sound r"
proof -
  have ok: "assertRfqLifecycleAttemptTargets r = Inr ()" "assertRfqV3LifecycleBindings env r = Inr ()"
      "rr_mode r = V3 \<Longrightarrow> rr_state r \<notin> set legacy_states" "terminal_invariant_ok r"
    using assms(2) by (auto simp: restored_ok_def restored_targets_ok_def is_ok_iff)
  have key: "rr_takerSigningKey r = None" if "rr_mode r = V3" "rr_state r \<in> set V3_KEY_TERMINAL_STATES"
  proof -
    have "v3_key_mismatch env (rr_takerCommitment r) (rr_takerSigningKey r) False = Inr False"
      using ok(2) that by (auto simp: assertRfqV3LifecycleBindings_def Let_def v3StateKeepsSigningKey_def split: if_splits)
    then show ?thesis
      by (rule keyless_match)
  qed
  have "settled_evidence r" if v3: "rr_mode r = V3" and s: "rr_state r = Settled"
  proof -
    obtain x where x: "rr_attempts r Take = Some x" "at_state x = Confirmed" "wallet_evidence x"
        "rr_takeTransactionHash r = at_transactionHash x"
      using ok(4) v3 s restored_hash[OF parse_record_Inr(2)[OF assms(1)], of Take]
      by (auto simp: terminal_invariant_ok_def attempt_in_def wallet_evidence_def given_def split: option.splits if_splits)
    obtain sc deal want where w: "at_target x = Some (Take_target sc deal want)"
        "takeTargetMatchesRecord r (Take_target sc deal want) deal want"
      using targets_take[OF ok(1) x(1) v3] by blast
    moreover have "exact_settlement r want"
      by (rule target_exact[OF w(2) ok(2) v3]) (simp add: s selected_states_def)
    ultimately show ?thesis
      using x unfolding settled_evidence_def by blast
  qed
  then show ?thesis
    using ok(1-3) key bindings_legacy[OF ok(2)] v3_attempts[OF ok(1)] assms(3,4) by (auto simp: rfq_sound_def)
qed

lemma restored_assertions:
  assumes "restored_ok env r = Inr True"
  shows "assertRfqLifecycleAttemptTargets r = Inr ()" and "assertRfqV3LifecycleBindings env r = Inr ()"
  using assms by (auto simp: restored_ok_def restored_targets_ok_def is_ok_iff)

lemma backup_never_submits: "rr_restoredFromBackup r \<Longrightarrow> \<not> lifecycleMaySubmit r now"
  by (simp add: lifecycleMaySubmit_def)

lemma trusted_record:
  assumes "parse_record env (rx_fromBackup cx) row = Inr r" and "restored_ok env r = Inr True"
    and "\<not> time_is_over r (rx_now cx)" and "rr_chainId r = c" and "rr_account r = a"
  shows "trusted env c a cx r"
proof -
  note p = parse_record_Inr[OF assms(1)]
  obtain u where "parseEvidenceAuthority env (get_field row ''evidenceAuthority'') u = Inr (rr_evidenceAuthority r)"
    using p(1) by blast
  from restored_authority[OF this] show ?thesis
    unfolding trusted_def
    using p(3,4) restored_assertions[OF assms(2)] restored_sound[OF assms(1,2)] backup_never_submits assms(3-5) by blast
qed

lemma trusted_expired:
  assumes "parse_record env (rx_fromBackup cx) row = Inr r" and "restored_ok env r = Inr True"
    and t: "transitionRfqLifecycle env r Expired now (empty_patch\<lparr>pt_reason := Some reason\<rparr>) = Inr r'"
    and "rr_chainId r = c" and "rr_account r = a"
  shows "trusted env c a cx r'"
proof -
  note p = parse_record_Inr[OF assms(1)] and t = rfq_transition_Inr[OF t]
  obtain u where u: "parseEvidenceAuthority env (get_field row ''evidenceAuthority'') u = Inr (rr_evidenceAuthority r)"
    using p(1) by blast
  have ea: "rr_evidenceAuthority r' = rr_evidenceAuthority r"
    using assms(3) by (auto simp: transitionRfqLifecycle_def Let_def apply_patch_def patched_to_def empty_patch_def split: option.splits)
  have same: "rr_attempts r' = rr_attempts r" "rr_mode r' = rr_mode r" "rr_restoredFromBackup r' = rr_restoredFromBackup r"
    using t(8,9,13) by simp_all
  have key: "rr_takerSigningKey r = None \<Longrightarrow> rr_takerSigningKey r' = None"
    using t(12) by simp
  have "rfq_sound r'" if "rr_attempts r Claim = None" "rr_attempts r Refund = None"
    using transition_sound[OF assms(3)] restored_sound[OF assms(1,2) that] by (auto simp: rfq_sound_def)
  moreover have "\<not> time_is_over r' (rx_now cx)"
    using t(2) by (simp add: time_is_over_def)
  ultimately show ?thesis
    unfolding trusted_def same ea
    using t(3-6) p(3) key[OF p(4)] backup_never_submits[of r'] assms(4,5) restored_authority[OF u]
    by (intro conjI impI allI) (simp_all add: same)
qed

lemma quarantine_state: "quarantine cx reason i = Inr r \<Longrightarrow> rr_state r = Quarantined"
  by (auto simp: quarantine_def)

lemma migrate_state:
  assumes "migrateV1 row cx = Inr r"
  shows "rr_state r = Quarantined"
proof -
  obtain q where "quarantine cx (''Lifecycle v1 omitted exact terms and settlement bindings; '' @
        ''it was migrated to v2 quarantine and no action was retried.'') (v1_rfq_id row cx) = Inr q"
      and "rr_state r = rr_state q"
    using assms unfolding migrateV1_def Let_def bind_r_eq_Inr
    by (elim exE conjE) (cases "get_field row ''transactionHash''"; auto split: if_splits)
  then show ?thesis
    using quarantine_state by metis
qed

text \<open>The outcomes of restoring a row that is not of the first version.\<close>

lemma restore_row_Inr:
  assumes "restore_row env cx row = Inr r" and "get_field row ''schemaRevision'' \<noteq> JStr ''app20/rfq-lifecycle/v1''"
    and "canonicalRfqChainId (rx_chainId cx) = Inr c" and "canonicalRfqAccount (rx_account cx) = Inr a"
  obtains (quarantined) p reason where "r = quarantined_because p cx reason"
  | (kept) "parse_record env (rx_fromBackup cx) row = Inr r" "restored_ok env r = Inr True" "rr_chainId r = c"
      "rr_account r = a" "\<not> time_is_over r (rx_now cx)"
  | (expired) p reason where "parse_record env (rx_fromBackup cx) row = Inr p" "restored_ok env p = Inr True"
      "rr_chainId p = c" "rr_account p = a"
      "transitionRfqLifecycle env p Expired (rx_now cx) (empty_patch\<lparr>pt_reason := Some reason\<rparr>) = Inr r"
proof -
  obtain p where p: "parse_record env (rx_fromBackup cx) row = Inr p"
    using assms(1,2) by (auto simp: restore_row_def)
  note rest = assms(1)[unfolded restore_row_def if_not_P[OF assms(2)] p bind_r_Inr assms(3)]
  show thesis
  proof (cases "rr_chainId p \<noteq> c \<or> rr_account p \<noteq> a \<or>
      rr_state p = Reorged \<and> ea_status (rr_evidenceAuthority p) \<noteq> Reorged_authority")
    case True
    then show ?thesis
      using rest assms(4) by (auto intro: quarantined split: if_splits)
  next
    case False
    then have own: "rr_chainId p = c" "rr_account p = a"
      by auto
    with rest False assms(4) obtain ok where ok: "restored_ok env p = Inr ok"
      by auto
    show ?thesis
    proof (cases "ok \<and> \<not> time_is_over p (rx_now cx)")
      case True
      with rest False own ok assms(4) have "r = p"
        by auto
      with True p own ok show ?thesis
        by (intro kept) auto
    next
      case noted: False
      with rest False own ok assms(4) show ?thesis
        by (cases ok) (auto intro: quarantined expired[OF p])
    qed
  qed
qed

text \<open>
  C19: reading the storage is safe. Whatever value is stored (malformed, forged, of another account,
  from a backup or an older version), restoring it for a valid chain and account always returns a
  record, which is quarantined, or is of this chain and account, meets every assertion and the
  lifecycle invariant (given it has no claim or refund attempt), claims no finality, and its quote is
  not over; a v3 record from a backup is marked as one, and a marked record holds no key and offers
  no submission. (A legacy record from a backup is not marked: nothing tells it from one of this
  browser.)
\<close>

theorem restored_record_is_checked:
  assumes "canonicalRfqChainId (rx_chainId cx) = Inr c" and "canonicalRfqAccount (rx_account cx) = Inr a"
  shows "\<exists>r. restoreRfqLifecycle env v cx = Inr r \<and> (rr_state r = Quarantined \<or> trusted env c a cx r)"
proof -
  have q: "\<exists>r. quarantine cx reason i = Inr r" for reason i
    using assms by (simp add: quarantine_def)
  have "rr_state r = Quarantined \<or> trusted env c a cx r" if row: "restore_row env cx row = Inr r" for row r
  proof (cases "get_field row ''schemaRevision'' = JStr ''app20/rfq-lifecycle/v1''")
    case True
    with row migrate_state show ?thesis by (auto simp: restore_row_def)
  next
    case False
    from row False assms show ?thesis
    proof (cases rule: restore_row_Inr)
      case quarantined
      then show ?thesis by (auto simp: quarantined_because_def)
    next
      case kept
      then show ?thesis using trusted_record by blast
    next
      case expired
      then show ?thesis using trusted_expired by blast
    qed
  qed
  then show ?thesis
    using q[of "''Malformed local resume record; no transaction was retried.''" "''malformed-local-record''"] quarantine_state
    by (auto simp: restoreRfqLifecycle_def split: sum.splits)
qed

section \<open>A concrete deal\<close>

text \<open>
  A v3 deal over two fills, under an injective hash and a curve on which the key \<open>0x7\<close> has the public
  key \<open>0x77\<close>: as it is created, once its Take reached the wallet, and settled.
\<close>

definition sample_env_of :: "(int list \<Rightarrow> nat) \<Rightarrow> rfq_env" where
  "sample_env_of h = \<lparr>te_poseidon = h,
     te_starkKey = (\<lambda>k. if k = ''0x7'' then Inr ''0x77'' else Inl (Err ''Invalid private key'')),
     te_sign = (\<lambda>m k. Inr (1, 2)), te_verify = (\<lambda>r s m k. Inr True),
     re_string = (\<lambda>_. []), re_number = (\<lambda>_. NaN)\<rparr>"

abbreviation sample_rfq_env :: rfq_env where
  "sample_rfq_env \<equiv> sample_env_of to_nat"

definition sample_rfq_digest :: string where
  "sample_rfq_digest = ''0x'' @ replicate 64 CHR ''a''"

definition sample_rfq_terms :: rfq_terms where
  "sample_rfq_terms = \<lparr>rt_pairId = ''A/B'', rt_sellSymbol = ''A'', rt_sellAddress = ''0xa'', rt_sellDecimals = Fin 18,
     rt_sellAmount = ''11'', rt_buySymbol = ''B'', rt_buyAddress = ''0xb'', rt_buyDecimals = Fin 6,
     rt_minBuyAmount = None, rt_buyAmount = Some ''21'', rt_rfqExpiresAt = Fin 500\<rparr>"

definition sample_rfq_settlement :: "settlement_version \<Rightarrow> rfq_settlement" where
  "sample_rfq_settlement v = \<lparr>st_version = v, st_escrowAddress = ''0xe5'', st_dealId = ''0x9'',
     st_ticketAddress = None, st_commitmentDigest = None, st_deadline = Fin 500\<rparr>"

definition sample_rfq_fills :: "rfq_fill list" where
  "sample_rfq_fills =
     [\<lparr>fl_makerId = ''m1'', fl_lockId = ''0x1'', fl_amountA = ''5'', fl_amountB = ''10'', fl_lockExpiresAt = Fin 500\<rparr>,
      \<lparr>fl_makerId = ''m2'', fl_lockId = ''0x2'', fl_amountA = ''6'', fl_amountB = ''11'', fl_lockExpiresAt = Fin 500\<rparr>]"

definition sample_input :: "rfq_state \<Rightarrow> string option \<Rightarrow> rfq_input" where
  "sample_input s key = \<lparr>ri_chainId = ''0x1'', ri_account = ''0x5'', ri_rfqId = ''0x9'', ri_state = Some s,
     ri_mode = Some V3, ri_now = Fin 100, ri_terms = Some sample_rfq_terms, ri_selectedQuote = None,
     ri_settlement = Some (sample_rfq_settlement Localnet_V3), ri_requestDigest = Some sample_rfq_digest,
     ri_bucket = Some \<lparr>bk_min = ''1'', bk_max = ''100''\<rparr>, ri_takerCommitment = Some ''0x77'',
     ri_takerSigningKey = key, ri_fills = Some sample_rfq_fills, ri_acknowledgements = None\<rparr>"

abbreviation sample_rfq_input :: rfq_input where
  "sample_rfq_input \<equiv> sample_input Reviewing (Some ''0x7'')"

definition sample_rfq :: "rfq_mode \<Rightarrow> rfq_state \<Rightarrow> rfq_record" where
  "sample_rfq mode s = \<lparr>rr_mode = mode, rr_chainId = ''0x1'', rr_account = ''0x5'',
     rr_rfqId = ''0x9'', rr_state = s, rr_updatedAt = Fin 100, rr_storageRevision = 0, rr_storagePredecessor = None, rr_persisted = None,
     rr_terms = Some sample_rfq_terms, rr_selectedQuote = None, rr_settlement = Some (sample_rfq_settlement Localnet_V3),
     rr_attempts = Map.empty, rr_latestObservation = None,
     rr_evidenceAuthority = defaultEvidenceAuthority (Fin 100), rr_requestDigest = Some sample_rfq_digest, rr_quoteExpiresAt = None, rr_reservationExpiresAt = None,
     rr_transactionHash = None, rr_bucket = None, rr_takerCommitment = None, rr_takerSigningKey = None,
     rr_fills = None, rr_takeTransactionHash = None, rr_acknowledgements = None, rr_reason = None,
     rr_recoverySource = False, rr_recoveryReadFailure = None, rr_restoredFromBackup = False\<rparr>"

definition sample_target :: rfq_target where
  "sample_target = Take_target \<lparr>ts_chainId = ''0x1'', ts_account = ''0x5'', ts_rfqId = ''0x9'', ts_requestDigest = sample_rfq_digest\<rparr> ''0x9''
     \<lparr>xt_tokenA = ''0xa'', xt_totalA = ''11'', xt_tokenB = ''0xb'', xt_totalB = ''21'',
      xt_fills = [\<lparr>ef_lockId = ''0x1'', ef_amountA = ''5'', ef_amountB = ''10''\<rparr>,
        \<lparr>ef_lockId = ''0x2'', ef_amountA = ''6'', ef_amountB = ''11''\<rparr>]\<rparr>"

definition sample_reviewing :: rfq_record where
  "sample_reviewing = (sample_rfq V3 Reviewing)
     \<lparr>rr_bucket := Some \<lparr>bk_min = ''1'', bk_max = ''100''\<rparr>, rr_takerCommitment := Some ''0x77'',
      rr_takerSigningKey := Some ''0x7'', rr_fills := Some sample_rfq_fills\<rparr>"

definition sample_begun :: rfq_record where
  "sample_begun = sample_reviewing
     \<lparr>rr_attempts := [Take \<mapsto> \<lparr>at_attemptId = ''attempt-1'', at_state = Preparing, at_createdAt = Fin 110,
        at_updatedAt = Fin 110, at_transactionHash = None, at_observation = None, at_walletBoundary = None,
        at_target = Some sample_target\<rparr>],
      rr_updatedAt := Fin 110, rr_storageRevision := 1, rr_storagePredecessor := Some 0\<rparr>"

definition sample_entered :: rfq_record where
  "sample_entered = sample_begun
     \<lparr>rr_attempts := [Take \<mapsto> \<lparr>at_attemptId = ''attempt-1'', at_state = Wallet_boundary_unknown, at_createdAt = Fin 110,
        at_updatedAt = Fin 120, at_transactionHash = None, at_observation = None, at_walletBoundary = Some Entered,
        at_target = Some sample_target\<rparr>],
      rr_updatedAt := Fin 120\<rparr>"

definition sample_unknown :: rfq_record where
  "sample_unknown = sample_entered\<lparr>rr_state := Submission_unknown, rr_updatedAt := Fin 130\<rparr>"

definition sample_open :: rfq_record where
  "sample_open = sample_unknown\<lparr>rr_persisted := Some 1\<rparr>"

definition sample_taken_fills :: "take_fill list" where
  "sample_taken_fills = [\<lparr>tf_lockId = ''0x1'', tf_amountA = 5\<rparr>, \<lparr>tf_lockId = ''0x2'', tf_amountA = 6\<rparr>]"

definition sample_digest :: string where
  "sample_digest = ''0x'' @ hex (to_nat (fill_felts sample_taken_fills))"

definition sample_taken :: observed_take where
  "sample_taken = \<lparr>ot_tokenA = ''0xA'', ot_totalA = 11, ot_tokenB = ''0xb'', ot_totalB = 21, ot_fillCount = Fin 2,
     ot_fillsDigest = sample_digest, ot_lockTaken = None\<rparr>"

lemma sample_canonical:
  "canonicalRfqChainId ''0x1'' = Inr ''0x1''"
  "isLocalRfqChain ''0x1'' = False"
  "canonicalRfqAccount ''0x5'' = Inr ''0x5''"
  "canonicalLocalRfqId ''0x77'' = Inr ''0x77''"
  "canonicalLocalRfqId ''0x7'' = Inr ''0x7''"
  "life_text (JStr ''0x9'') ''rfqId'' 512 = Inr ''0x9''"
  "life_text (JStr sample_rfq_digest) ''requestDigest'' 512 = Inr sample_rfq_digest"
  "life_timestamp (JNum (Fin 100)) ''now'' = Inr (Fin 100)"
  by code_simp+

lemma sample_parsed:
  "parseBucket (js_bucket \<lparr>bk_min = ''1'', bk_max = ''100''\<rparr>) = Inr \<lparr>bk_min = ''1'', bk_max = ''100''\<rparr>"
  "parseV3Fills (JArr (map js_fill sample_rfq_fills)) = Inr sample_rfq_fills"
  by code_simp+

lemma sample_shape:
  "create_shape_error (sample_input Reviewing (Some ''0x7'')) V3 Reviewing = None"
  "create_shape_error (sample_input Settled None) V3 Settled = None"
  by code_simp+

lemma sample_consistent:
  "v3_key_mismatch (sample_env_of h) (Some ''0x77'') (Some ''0x7'') True = Inr False"
  "v3_key_mismatch (sample_env_of h) (Some ''0x77'') None False = Inr False"
  "create_contradiction ''0x9'' sample_rfq_terms (sample_rfq_settlement Localnet_V3) sample_rfq_fills
     \<lparr>bk_min = ''1'', bk_max = ''100''\<rparr> = Inr False"
  "request_digest_ok (Some sample_rfq_digest)" "given (Some sample_rfq_digest)"
  by code_simp+

lemma sample_bound:
  assumes "v3_key_mismatch (sample_env_of h) (Some ''0x77'') key (v3StateKeepsSigningKey s) = Inr False"
  shows "create_binding_error (sample_env_of h) (sample_input s key) V3 s ''0x9'' (Some (sample_rfq_settlement Localnet_V3))
     (Some \<lparr>bk_min = ''1'', bk_max = ''100''\<rparr>) (Some ''0x77'') key (Some sample_rfq_fills) = Inr ()"
  using assms sample_consistent(3-)
  by (simp add: create_binding_error_def v3_selected_def sample_input_def sample_rfq_settlement_def)

lemma sample_created_as:
  assumes "create_shape_error (sample_input s key) V3 s = None"
    and "v3_key_mismatch (sample_env_of h) (Some ''0x77'') key (v3StateKeepsSigningKey s) = Inr False"
    and "(if given key then opt_r canonicalLocalRfqId key else Inr None) = Inr key"
  shows "createRfqLifecycleRecord (sample_env_of h) (sample_input s key) = Inr ((sample_rfq V3 s)
     \<lparr>rr_bucket := Some \<lparr>bk_min = ''1'', bk_max = ''100''\<rparr>, rr_takerCommitment := Some ''0x77'',
      rr_takerSigningKey := key, rr_fills := Some sample_rfq_fills\<rparr>)"
proof -
  have i: "ri_now (sample_input s key) = Fin 100" "ri_chainId (sample_input s key) = ''0x1''" "ri_rfqId (sample_input s key) = ''0x9''"
      "ri_settlement (sample_input s key) = Some (sample_rfq_settlement Localnet_V3)" "ri_mode (sample_input s key) = Some V3"
      "ri_state (sample_input s key) = Some s" "ri_bucket (sample_input s key) = Some \<lparr>bk_min = ''1'', bk_max = ''100''\<rparr>"
      "ri_fills (sample_input s key) = Some sample_rfq_fills" "ri_takerCommitment (sample_input s key) = Some ''0x77''"
      "ri_takerSigningKey (sample_input s key) = key" "ri_account (sample_input s key) = ''0x5''"
      "ri_requestDigest (sample_input s key) = Some sample_rfq_digest" "ri_acknowledgements (sample_input s key) = None"
      "ri_terms (sample_input s key) = Some sample_rfq_terms" "ri_selectedQuote (sample_input s key) = None"
    by (simp_all add: sample_input_def)
  have c: "(if given (Some ''0x77'') then opt_r canonicalLocalRfqId (Some ''0x77'') else Inr None) = Inr (Some ''0x77'')"
    by (simp add: given_def opt_r_def sample_canonical)
  show ?thesis
    unfolding createRfqLifecycleRecord_def i c assms(3)
    by (simp add: sample_canonical sample_parsed assms(1) sample_bound[OF assms(2)] opt_r_def canonicalExecutableId_def
        create_settlement_def sample_consistent(5)) (simp add: sample_rfq_def)
qed

lemma sample_created: "createRfqLifecycleRecord sample_rfq_env sample_rfq_input = Inr sample_reviewing"
  unfolding sample_reviewing_def
  by (rule sample_created_as)
    (simp_all add: sample_shape sample_consistent v3StateKeepsSigningKey_def V3_KEY_TERMINAL_STATES_def given_def opt_r_def sample_canonical)

text \<open>A record can be created as settled without any Take, which the invariant excludes.\<close>

lemma settled_without_take:
  "\<exists>r. createRfqLifecycleRecord sample_rfq_env (sample_input Settled None) = Inr r
     \<and> rr_mode r = V3 \<and> rr_state r = Settled \<and> rr_attempts r Take = None \<and> \<not> rfq_sound r"
proof (intro exI conjI)
  show "createRfqLifecycleRecord sample_rfq_env (sample_input Settled None) = Inr ((sample_rfq V3 Settled)
     \<lparr>rr_bucket := Some \<lparr>bk_min = ''1'', bk_max = ''100''\<rparr>, rr_takerCommitment := Some ''0x77'',
      rr_takerSigningKey := None, rr_fills := Some sample_rfq_fills\<rparr>)"
    by (rule sample_created_as)
      (simp_all add: sample_shape sample_consistent v3StateKeepsSigningKey_def V3_KEY_TERMINAL_STATES_def given_def)
qed (simp_all add: sample_rfq_def rfq_sound_def settled_evidence_def)

text \<open>The record after the confirmation of its attempt, and after it is settled.\<close>

definition sample_attempt :: rfq_attempt where
  "sample_attempt = \<lparr>at_attemptId = ''attempt-1'', at_state = Confirmed, at_createdAt = Fin 110,
     at_updatedAt = Fin 200, at_transactionHash = None, at_observation = Some ''Exact Take record observed on local devnet.'',
     at_walletBoundary = Some Entered, at_target = Some sample_target\<rparr>"

definition sample_middle :: rfq_record where
  "sample_middle = sample_unknown\<lparr>rr_attempts := [Take \<mapsto> sample_attempt], rr_updatedAt := Fin 200,
     rr_storageRevision := 2, rr_storagePredecessor := Some 1\<rparr>"

definition sample_settled :: rfq_record where
  "sample_settled = sample_middle\<lparr>rr_state := Settled, rr_takerSigningKey := None\<rparr>"

lemmas sample_simps = sample_open_def sample_unknown_def sample_entered_def sample_begun_def sample_reviewing_def
  sample_middle_def sample_settled_def sample_rfq_def sample_attempt_def

lemmas revision_simps = reviseRfqLifecycle_def storage_predecessor_def js_succ_def life_timestamp_def max_safe_def

lemma sample_take:
  "take_of_lifecycle sample_open = Inr (record_scope sample_open sample_rfq_digest, ''0x9'',
     case sample_target of Take_target _ _ want \<Rightarrow> want)"
  "lock_evidence_matches sample_taken (case sample_target of Take_target _ _ want \<Rightarrow> want)"
  "canonicalFills sample_taken_fills = Inr sample_taken_fills"
  "map (\<lambda>f. \<lparr>tf_lockId = ef_lockId f, tf_amountA = int (dec_val (ef_amountA f))\<rparr>)
     (xt_fills (case sample_target of Take_target _ _ want \<Rightarrow> want)) = sample_taken_fills"
  by code_simp+

lemma sample_totals: "take_totals_match sample_taken (case sample_target of Take_target _ _ want \<Rightarrow> want)"
  by code_simp

lemma sample_taken_digest: "fillsDigest (take_env.truncate sample_rfq_env) sample_taken_fills = Inr sample_digest"
  by (simp add: fillsDigest_def sample_take(3) sample_digest_def sample_env_of_def take_env.defs)

lemma sample_expected: "expected_digest sample_rfq_env (case sample_target of Take_target _ _ want \<Rightarrow> want) = Inr sample_digest"
  using sample_taken_digest unfolding expected_digest_def sample_take(4) by simp

lemma sample_assertions:
  "assertRfqV3LifecycleBindings (sample_env_of h) (sample_reviewing\<lparr>rr_persisted := Some 0\<rparr>) = Inr ()"
  "assertRfqV3LifecycleBindings (sample_env_of h) sample_unknown = Inr ()"
  "assertRfqV3LifecycleBindings (sample_env_of h) sample_settled = Inr ()"
  by code_simp+

lemma sample_phase:
  "assert_phase_attempt sample_begun Take = Inr ()" "assert_phase_attempt sample_unknown Take = Inr ()"
  "assert_phase_attempt sample_settled Take = Inr ()"
  by code_simp+

lemma only_take_targets:
  "rr_attempts r = [Take \<mapsto> a] \<Longrightarrow> assert_phase_attempt r Take = Inr () \<Longrightarrow> assertRfqLifecycleAttemptTargets r = Inr ()"
  by (simp add: assertRfqLifecycleAttemptTargets_def rfq_phases_def assert_phase_attempt_def[of _ Funding]
      assert_phase_attempt_def[of _ Fill] assert_phase_attempt_def[of _ Claim] assert_phase_attempt_def[of _ Refund]
      assert_phase_attempt_def[of _ Reservation_release])

lemma sample_targets:
  "assertRfqLifecycleAttemptTargets sample_begun = Inr ()" "assertRfqLifecycleAttemptTargets sample_unknown = Inr ()"
  "assertRfqLifecycleAttemptTargets sample_settled = Inr ()"
  by (rule only_take_targets[OF _ sample_phase(1)], simp add: sample_begun_def)
    (rule only_take_targets[OF _ sample_phase(2)], simp add: sample_unknown_def sample_entered_def,
     rule only_take_targets[OF _ sample_phase(3)], simp add: sample_settled_def sample_middle_def)

text \<open>The Take is begun on the saved record, enters the wallet, and its outcome is unknown.\<close>

lemma sample_begin:
  "beginRfqPhaseAttempt sample_rfq_env (markRfqLifecyclePersisted sample_reviewing) Take ''attempt-1'' (Fin 110) (Some sample_target)
     = Inr sample_begun"
proof -
  have m: "markRfqLifecyclePersisted sample_reviewing = sample_reviewing\<lparr>rr_persisted := Some 0\<rparr>"
    by (simp add: markRfqLifecyclePersisted_def sample_simps)
  have f: "life_text (JStr ''attempt-1'') ''attemptId'' 512 = Inr ''attempt-1''"
    "target_fits_phase Take (Some sample_target)"
    by code_simp+
  have r: "reviseRfqLifecycle (sample_reviewing\<lparr>rr_persisted := Some 0\<rparr>) (\<lambda>x. x\<lparr>rr_attempts :=
      [Take \<mapsto> \<lparr>at_attemptId = ''attempt-1'', at_state = Preparing, at_createdAt = Fin 110, at_updatedAt = Fin 110,
         at_transactionHash = None, at_observation = None, at_walletBoundary = None, at_target = Some sample_target\<rparr>],
      rr_updatedAt := Fin 110\<rparr>) = sample_begun"
    by (simp add: revision_simps sample_simps)
  have "rr_attempts sample_reviewing = Map.empty" "rr_mode sample_reviewing = V3" "rr_state sample_reviewing = Reviewing"
      "given (rr_takerSigningKey sample_reviewing)" "\<not> rr_restoredFromBackup sample_reviewing"
    by (simp_all add: sample_reviewing_def sample_rfq_def given_def)
  then show ?thesis
    using f r sample_targets(1) sample_assertions(1)[of to_nat] unfolding m
    by (simp add: beginRfqPhaseAttempt_def life_timestamp_def max_safe_def)
qed

lemma sample_enter:
  "updateRfqPhaseAttempt sample_begun Take Wallet_boundary_unknown (Fin 120) (empty_attempt_patch\<lparr>ap_walletBoundary := Some Entered\<rparr>)
     = Inr sample_entered"
  by (simp add: updateRfqPhaseAttempt_def sample_simps revision_simps empty_attempt_patch_def patched_def given_def)

lemma sample_lost: "transitionRfqLifecycle sample_rfq_env sample_entered Submission_unknown (Fin 130) empty_patch = Inr sample_unknown"
proof -
  have "transition_error sample_entered Submission_unknown empty_patch = None"
    by (simp add: transition_error_def sample_simps patched_attempt_def patched_def empty_patch_def legacy_states_def
        submission_evidence_def)
  moreover have "reviseRfqLifecycle sample_entered (\<lambda>x. (apply_patch empty_patch x)
      \<lparr>rr_state := Submission_unknown, rr_updatedAt := Fin 130\<rparr>) = sample_unknown"
    by (simp add: revision_simps apply_patch_def empty_patch_def patched_def patched_to_def sample_simps)
  ultimately show ?thesis
    using sample_targets(2) sample_assertions(2)[of to_nat]
    by (simp add: transitionRfqLifecycle_def life_timestamp_def max_safe_def v3StateKeepsSigningKey_def V3_KEY_TERMINAL_STATES_def)
qed

lemma sample_saved: "markRfqLifecyclePersisted sample_unknown = sample_open"
  by (simp add: markRfqLifecyclePersisted_def sample_simps)

lemma sameIdentity_refl: "sameIdentity s s"
  by (simp add: sameIdentity_def bind_r_def split: sum.split)

lemma sample_confirmation:
  "updateRfqPhaseAttempt sample_open Take Confirmed (Fin 200)
     (empty_attempt_patch\<lparr>ap_observation := Some ''Exact Take record observed on local devnet.''\<rparr>) = Inr sample_middle"
  by (simp add: updateRfqPhaseAttempt_def sample_simps revision_simps empty_attempt_patch_def patched_def given_def)

lemma sample_settlement: "transitionRfqLifecycle sample_rfq_env sample_middle Settled (Fin 200) empty_patch = Inr sample_settled"
proof -
  have "transition_error sample_middle Settled empty_patch = None"
    by (simp add: transition_error_def sample_simps patched_attempt_def patched_def empty_patch_def legacy_states_def
        wallet_evidence_def)
  moreover have "reviseRfqLifecycle sample_middle (\<lambda>x. (apply_patch empty_patch x)
      \<lparr>rr_state := Settled, rr_updatedAt := Fin 200, rr_takerSigningKey := None, rr_takeTransactionHash := None\<rparr>) = sample_settled"
    by (simp add: revision_simps apply_patch_def empty_patch_def patched_def patched_to_def sample_simps)
  moreover have "rr_mode sample_middle = V3" "rr_attempts sample_middle Take = Some sample_attempt"
      "at_transactionHash sample_attempt = None"
    by (simp_all add: sample_simps)
  ultimately show ?thesis
    using sample_targets(3) sample_assertions(3)[of to_nat]
    by (simp add: transitionRfqLifecycle_def life_timestamp_def max_safe_def v3StateKeepsSigningKey_def
        V3_KEY_TERMINAL_STATES_def patched_def)
qed

lemma sample_confirmed: "confirmRfqV3Take sample_rfq_env sample_open sample_taken (Fin 200) = Inr sample_settled"
proof -
  have "rr_mode sample_open = V3" "rr_state sample_open = Submission_unknown" "rr_terms sample_open \<noteq> None"
      "rr_fills sample_open \<noteq> None" "\<exists>a. rr_attempts sample_open Take = Some a \<and> wallet_evidence a"
    by (simp_all add: sample_simps wallet_evidence_def)
  moreover have "sameIdentity (ot_fillsDigest sample_taken) sample_digest"
    by (simp add: sample_taken_def sameIdentity_refl)
  ultimately show ?thesis
    using sample_take(1,2) sample_totals sample_expected sample_confirmation sample_settlement by (auto simp: confirmRfqV3Take_def)
qed

text \<open>A legacy deal without a fill attempt, and the filled deal the chain shows.\<close>

definition sample_legacy :: rfq_record where
  "sample_legacy = (sample_rfq V2 Funded)
     \<lparr>rr_settlement := Some (sample_rfq_settlement Localnet_V2),
      rr_selectedQuote := Some \<lparr>sq_version = ''Quote V2'', sq_solverId = ''s'', sq_solverKey = ''k'', sq_nonce = ''n'',
        sq_reservationId = ''r'', sq_spreadBps = Fin 5, sq_pricingProvenance = ''p'', sq_quotedAt = Fin 90,
        sq_quoteExpiresAt = Fin 300, sq_reservationExpiresAt = Fin 300, sq_buyAmount = ''21'',
        sq_intentDigest = sample_rfq_digest, sq_signature = ''sig'', sq_quoteDigest = None, sq_reservationFence = None\<rparr>\<rparr>"

definition sample_filled :: jsval where
  "sample_filled = JObj [(''status'', JNum (Fin 2)), (''dealId'', JStr ''0x9''), (''escrowAddress'', JStr ''0xe5''),
     (''legAToken'', JStr ''0xa''), (''legAAmount'', JStr ''11''), (''legBToken'', JStr ''0xb''), (''legBTerms'', JStr ''21''),
     (''legBAmount'', JStr ''21''), (''deadline'', JNum (Fin 500)), (''ticket'', JStr ''0x71'')]"

lemma sample_claimable: "rr_state (reconcileRfqLifecycleWithLocalDeal (sample_env_of h) sample_legacy sample_filled (Fin 200)) = Claimable"
  by code_simp

text \<open>The commands of a submission, its confirmation, and a retry.\<close>

definition sample_submission :: "rfq_command list" where
  "sample_submission =
     [Begin Take ''attempt-1'' (Fin 110) (Some sample_target),
      Update Take Wallet_boundary_unknown (Fin 120) (empty_attempt_patch\<lparr>ap_walletBoundary := Some Entered\<rparr>),
      Transition Submission_unknown (Fin 130) empty_patch]"

definition sample_deal :: "rfq_command list" where
  "sample_deal = Persisted # sample_submission @ [Persisted, Confirm_take sample_taken (Fin 200)]"

definition sample_retry :: "rfq_command list" where
  "sample_retry =
     [Observe_expiry (Fin 600), Transition Reviewing (Fin 610) empty_patch, Begin Take ''attempt-2'' (Fin 620) (Some sample_target),
      Confirm_take sample_taken (Fin 630)]"

lemma sample_keyless: "list_all keyless sample_retry"
  by (simp add: sample_retry_def empty_patch_def)

lemma sample_ordinary: "list_all ordinary sample_deal" "list_all ordinary sample_retry" "ordinary (Transition s now empty_patch)"
  by (simp_all add: sample_deal_def sample_submission_def sample_retry_def empty_patch_def)

lemma sample_submission_run: "rfq_run sample_rfq_env (markRfqLifecyclePersisted sample_reviewing) sample_submission = sample_unknown"
  by (simp add: sample_submission_def sample_begin sample_enter sample_lost)

lemma sample_run: "rfq_run sample_rfq_env sample_reviewing sample_deal = sample_settled"
  using sample_submission_run by (simp add: sample_deal_def sample_submission_def sample_saved sample_confirmed)

theorem rfq_lifecycle_invariant_witness:
  "createRfqLifecycleRecord sample_rfq_env sample_rfq_input = Inr sample_reviewing
     \<and> rfq_run sample_rfq_env sample_reviewing sample_deal = sample_settled \<and> rr_state sample_settled = Settled
     \<and> rfq_sound sample_settled \<and> same_deal sample_reviewing sample_settled"
proof -
  have "rr_state sample_reviewing \<notin> set unbacked_states" "rr_state sample_settled = Settled"
    by (simp_all add: sample_simps unbacked_states_def legacy_states_def)
  then show ?thesis
    using rfq_lifecycle_invariant[OF sample_created _ sample_ordinary(1)] sample_created by (simp add: sample_run)
qed

theorem one_revision_per_save_witness:
  "rr_state (rfq_run sample_rfq_env (markRfqLifecyclePersisted sample_reviewing) sample_submission) = Submission_unknown
   \<and> rr_storagePredecessor sample_unknown = Some 0 \<and> rr_storageRevision sample_unknown = 1"
proof -
  have "Persisted \<notin> set sample_submission" "rr_storageRevision sample_reviewing = 0"
      "rr_state sample_unknown \<noteq> rr_state (markRfqLifecyclePersisted sample_reviewing)" "rr_state sample_unknown = Submission_unknown"
    by (simp_all add: sample_submission_def sample_simps markRfqLifecyclePersisted_def)
  then show ?thesis
    using one_revision_per_save[of sample_submission sample_reviewing sample_rfq_env] by (auto simp: sample_submission_run)
qed

theorem take_submitted_once_witness:
  "\<not> is_ok (beginRfqPhaseAttempt sample_rfq_env (rfq_run sample_rfq_env sample_open sample_retry) Take ''attempt-3'' (Fin 700)
     (Some sample_target))"
proof -
  have "rr_mode sample_open = V3" "rr_state sample_open = Submission_unknown"
    by (simp_all add: sample_simps)
  from take_submitted_once[OF this sample_ordinary(2)] show ?thesis
    by blast
qed

theorem confirmed_take_is_exact_witness:
  "rr_state sample_settled = Settled
   \<and> (\<exists>gs. canonicalFills sample_taken_fills = Inr gs \<and> fills_of_record sample_open gs)"
proof -
  have "rr_state sample_settled = Settled" "ot_fillsDigest sample_taken = sample_digest"
      "\<not> take_collision (take_env.truncate sample_rfq_env)"
    by (simp_all add: sample_settled_def sample_taken_def take_collision_def sample_env_of_def take_env.defs)
  then show ?thesis
    using confirmed_take_is_exact[OF sample_confirmed, of sample_taken_fills] sample_taken_digest by simp
qed

theorem quarantined_closed_deal_is_stuck_witness:
  "\<not> lifecycleMayForget (rfq_run sample_rfq_env
     (reconcileRfqLifecycleWithLocalDeal sample_rfq_env (sample_rfq V3 Settled) sample_filled (Fin 200)) sample_retry)"
proof -
  have "rr_mode (sample_rfq V3 Settled) = V3" "rr_state (sample_rfq V3 Settled) \<in> set V3_KEY_TERMINAL_STATES"
      "rr_takerSigningKey (sample_rfq V3 Settled) = None" "\<not> rr_restoredFromBackup (sample_rfq V3 Settled)"
    by (simp_all add: sample_rfq_def V3_KEY_TERMINAL_STATES_def)
  from quarantined_closed_deal_is_stuck[OF this sample_keyless] show ?thesis
    by blast
qed

theorem observed_fill_blocks_claim_witness:
  "let q = reconcileRfqLifecycleWithLocalDeal sample_rfq_env sample_legacy sample_filled (Fin 200)
   in rr_state q = Claimable
     \<and> \<not> is_ok (beginRfqPhaseAttempt sample_rfq_env q Claim ''attempt-1'' (Fin 210) (Some sample_target))"
proof -
  have "rr_mode sample_legacy = V2" "rr_attempts sample_legacy Fill = None"
    by (simp_all add: sample_legacy_def sample_rfq_def)
  from observed_fill_blocks_claim[OF this sample_claimable[of to_nat] sample_ordinary(3)[of Claim_pending "Fin 210"]] show ?thesis
    using sample_claimable[of to_nat] by (simp add: Let_def)
qed

definition sample_context :: restore_context where
  "sample_context = \<lparr>rx_chainId = ''0x1'', rx_account = ''0x5'', rx_now = Fin 100, rx_fromBackup = True\<rparr>"

text \<open>A v3 request in a backup, with its key, and the record it is restored to, without.\<close>

definition sample_row :: fields where
  "sample_row = [(''schemaRevision'', JStr ''app20/rfq-lifecycle/v3''), (''authority'', JStr RFQ_RESUME_AUTHORITY_LABEL),
     (''mode'', JStr ''v3''), (''chainId'', JStr ''0x1''), (''account'', JStr ''0x5''), (''rfqId'', JStr ''0x9''),
     (''state'', JStr ''requesting''), (''updatedAt'', JNum (Fin 100)), (''requestDigest'', JStr sample_rfq_digest),
     (''bucket'', js_bucket \<lparr>bk_min = ''1'', bk_max = ''100''\<rparr>), (''takerCommitment'', JStr ''0x77''),
     (''takerSigningKey'', JStr ''0x7'')]"

definition sample_restored :: rfq_record where
  "sample_restored = (sample_rfq V3 Requesting)
     \<lparr>rr_bucket := Some \<lparr>bk_min = ''1'', bk_max = ''100''\<rparr>, rr_takerCommitment := Some ''0x77'', rr_terms := None,
      rr_settlement := None, rr_restoredFromBackup := True\<rparr>"

lemma sample_row_parsed:
  "parse_mode sample_row = Inr V3" "parse_state sample_row = Inr Requesting"
  "field_time sample_row ''updatedAt'' = Inr (Fin 100)" "bind_r (field_text sample_row ''chainId'') canonicalRfqChainId = Inr ''0x1''"
  "row_field parseTerms sample_row ''terms'' = Inr None" "row_field parseSelectedQuote sample_row ''selectedQuote'' = Inr None"
  "row_field (parseSettlement b) sample_row ''settlement'' = Inr None"
  "row_field (parseObservation env b) sample_row ''latestObservation'' = Inr None"
  "row_field parseV3Fills sample_row ''fills'' = Inr None"
  "row_field parseTranscriptAcknowledgements sample_row ''transcriptAcknowledgements'' = Inr None"
  "bind_r (field_text sample_row ''account'') canonicalRfqAccount = Inr ''0x5''"
  "bind_r (field_text sample_row ''rfqId'') (\<lambda>i. canonicalExecutableId i ''0x1'') = Inr ''0x9''"
  "get_field sample_row ''storageRevision'' = JUndef" "get_field sample_row ''attempts'' = JUndef"
  "get_field sample_row ''evidenceAuthority'' = JUndef" "opt_text sample_row ''requestDigest'' = Inr (Some sample_rfq_digest)"
  "opt_time sample_row ''quoteExpiresAt'' = Inr None" "opt_time sample_row ''reservationExpiresAt'' = Inr None"
  "opt_text sample_row ''transactionHash'' = Inr None" "opt_text sample_row ''takeTransactionHash'' = Inr None"
  "opt_text sample_row ''reason'' = Inr None" "row_field parse_read_failure sample_row ''recoveryReadFailure'' = Inr None"
  "get_field sample_row ''recoverySource'' = JUndef" "get_field sample_row ''schemaRevision'' = JStr ''app20/rfq-lifecycle/v3''"
  "row_field (\<lambda>v. bind_r (life_text v ''takerCommitment'' 512) canonicalLocalRfqId) sample_row ''takerCommitment'' = Inr (Some ''0x77'')"
  by code_simp+

lemma sample_row_bucket: "row_field parseBucket sample_row ''bucket'' = Inr (Some \<lparr>bk_min = ''1'', bk_max = ''100''\<rparr>)"
  by code_simp

lemma sample_row_record: "parse_record env True sample_row = Inr sample_restored"
  by (simp add: parse_record_def sample_row_parsed sample_row_bucket parseAttempts_def parseEvidenceAuthority_def
      sample_restored_def sample_rfq_def)

lemma sample_row_ok: "restored_ok (sample_env_of h) sample_restored = Inr True"
  by code_simp

lemma sample_row_restored: "restoreRfqLifecycle sample_rfq_env (JObj sample_row) sample_context = Inr sample_restored"
proof -
  have "rr_chainId sample_restored = ''0x1''" "rr_account sample_restored = ''0x5''" "rr_state sample_restored = Requesting"
      "\<not> time_is_over sample_restored (Fin 100)"
    by (simp_all add: sample_restored_def sample_rfq_def time_is_over_def)
  then show ?thesis
    using sample_canonical sample_row_record sample_row_ok[of to_nat]
    by (simp add: restoreRfqLifecycle_def restore_row_def life_object_def sample_row_parsed sample_context_def)
qed

theorem restored_record_is_checked_witness:
  "restoreRfqLifecycle sample_rfq_env (JObj sample_row) sample_context = Inr sample_restored
     \<and> rr_restoredFromBackup sample_restored \<and> trusted sample_rfq_env ''0x1'' ''0x5'' sample_context sample_restored"
proof -
  have "canonicalRfqChainId (rx_chainId sample_context) = Inr ''0x1''"
      "canonicalRfqAccount (rx_account sample_context) = Inr ''0x5''"
    using sample_canonical by (simp_all add: sample_context_def)
  from restored_record_is_checked[OF this, of sample_rfq_env "JObj sample_row"] show ?thesis
    using sample_row_restored by (auto simp: sample_restored_def sample_rfq_def)
qed

end
