(* ===== verification/Spec2Isabelle.thy ===== *)
theory Spec2Isabelle
  imports Ledger_Properties Quote_V3_Properties Fill_Selection Maker_Mids Economic_Policy_Properties
    Cross_Chain_Lifecycle Risk_Properties Confidential_Submissions Rfq_Restore_Properties
begin

text \<open>
  Verification of the app20 trading core. app20 is a TypeScript application for private chat,
  payments and requests for quote on Starknet. A taker asks makers for quotes, a maker reserves
  inventory, signs a quote and locks it on chain, the taker verifies and selects quotes and takes
  them; relays keep the reservations and policies decide what may be quoted at all. The development
  models the parts whose mistakes would lose money or break a promise to a counterparty.

  \<^bold>\<open>Theories and the code they model.\<close>

  \<^item> \<^verbatim>\<open>Prelude\<close>, \<^verbatim>\<open>Js_Text\<close>, \<^verbatim>\<open>Json\<close>, \<^verbatim>\<open>Js_Date\<close>: what the code uses of the language. Thrown errors
    are \<open>Inl\<close>, results \<open>Inr\<close>; \<open>jsnum\<close> is a number, \<open>jsval\<close> an untyped value; strings are lists of
    code units 0 to 255; \<open>json_text\<close> is \<open>JSON.stringify\<close>; a stable sort and its comparator interface
    (locale \<open>comparator_laws\<close>); the calendar behind \<open>Date.parse\<close> and \<open>toISOString\<close>; the interface of
    a guarded transition system, whose invariant lemmas the components obtain by interpretation.
  \<^item> \<^verbatim>\<open>Starknet_Amounts\<close> (packages/domain/src: felts, token amounts, digest256, the guard for
    encrypted payments), \<^verbatim>\<open>Protocol_Checks\<close> and \<^verbatim>\<open>Wire_Checks\<close> (field validators of
    packages/private-intents).
  \<^item> \<^verbatim>\<open>Reservation\<close>, \<^verbatim>\<open>Reservation_Codec\<close> (protocol.ts, reservation-codec.ts): a maker's reservation,
    its commands, the compare-and-swap of its fence, and its stored form.
  \<^item> \<^verbatim>\<open>Reservation_Ledger\<close>, \<^verbatim>\<open>Ledger_Steps\<close>, \<^verbatim>\<open>Ledger_Properties\<close> (workers/relay/src/reservation-ledger-do.ts):
    the durable object that owns the reservations and value-moving attempts. A request is one step;
    which writes of the storage fail is an argument of the step, so every prefix of a transaction
    that can be left behind is covered. \<open>Ledger_Steps\<close> is the abstract step relation the requests
    refine.
  \<^item> \<^verbatim>\<open>Price_Schedule\<close> (schedule.ts, size-buckets.ts): piecewise linear prices, their inversion by
    bisection (a recursion with a measure, so no fuel), and size buckets.
  \<^item> \<^verbatim>\<open>Private_Intent\<close>, \<^verbatim>\<open>Intent_Properties\<close> (index.ts): intents, quotes, their verification,
    acceptance against a replay store, the escrow states and the restock plan.
  \<^item> \<^verbatim>\<open>Quote_V3\<close>, \<^verbatim>\<open>Quote_V3_Properties\<close> (rfq-v2.ts, quote-v3.ts), \<^verbatim>\<open>Fill_Selection\<close>
    (selection-v3.ts), \<^verbatim>\<open>Maker_Mids\<close> (mids.ts).
  \<^item> \<^verbatim>\<open>Economic_Policy\<close>, \<^verbatim>\<open>Economic_Policy_Properties\<close> (economic-policy.ts): every check and reason of
    the decision, in order.
  \<^item> \<^verbatim>\<open>Cross_Chain_Intent\<close>, \<^verbatim>\<open>Cross_Chain_Properties\<close>, \<^verbatim>\<open>Cross_Chain_Lifecycle\<close>
    (packages/domain/src/index.ts): the intent validator, the canonical text, the stages and the
    lifecycle.
  \<^item> \<^verbatim>\<open>Risk_Operations\<close>, \<^verbatim>\<open>Risk_Properties\<close> (operations.ts): risk manifests and exceptions, the
    exposure decision, the netting plan, the operations control.
  \<^item> \<^verbatim>\<open>Confidential_Protocol\<close>, \<^verbatim>\<open>Confidential_Review\<close>
    (packages/agent-sdk/src/confidential-protocol.ts): agreements, the review of a private operation
    felt by felt, approvals; the review is shown to accept exactly the encodings of the action lists
    the agreement permits. \<^verbatim>\<open>Confidential_Client\<close>, \<^verbatim>\<open>Confidential_Submissions\<close> (confidential.ts): the
    client that prepares, proves and submits operations against a journal. Each external call is
    answered by an oracle indexed by the number of the call and may throw; triples over the stored
    journal and the log of submissions (\<open>hoare\<close>) carry the proofs about the journal; what was checked
    before a submission is read off the run itself, with the numbers of its calls (\<open>agreed_execution\<close>,
    \<open>agreed_funding\<close>).
  \<^item> \<^verbatim>\<open>Take_Signature\<close> (packages/private-intents/src/take-signature.ts): the message a taker signs,
    the digest of the fills, keys and signatures. \<^verbatim>\<open>Rfq_Lifecycle\<close>, \<^verbatim>\<open>Rfq_Restore\<close>
    (src/app/rfq/rfq-lifecycle.ts): the record of a deal in the browser, its creation, transitions,
    phase attempts, confirmation and reconciliation, and the parsers that restore it from storage.
    \<^verbatim>\<open>Rfq_Lifecycle_Properties\<close> states what holds along every run of commands: four interpretations of
    the guarded system, for the invariant of the deal, for its revision between two saves, for a Take
    that was submitted and for a closed deal. \<^verbatim>\<open>Rfq_Restore_Properties\<close> shows what a restored record
    has been checked for, and holds the concrete deals the witnesses of both evaluate. The weak map
    of persisted revisions is the field \<open>rr_persisted\<close> of the record.

  In each pair the first theory holds the definitions, one per function of the file and under its
  name where the name is free, and the second the lemmas: inversion of each validator (what a value
  that passes looks like), preservation of the component's invariant by each operation, and then the
  numbered properties, each a few steps over these. Witnesses evaluate the definitions on concrete
  inputs. The runs of the browser lifecycle are restricted to the patches its callers pass, which
  name neither the mode nor the attempts (\<open>ordinary\<close>) and, for the closed deal, bring no key
  (\<open>keyless\<close>); a member of a patch is absent or has a value.

  \<^bold>\<open>Arguments of the model.\<close> What is not in the repository is an argument of the definitions that
  use it: SHA-256, Poseidon and the signature primitives, \<open>localeCompare\<close>, NFKC, \<open>String\<close> of a value that is
  no string, the pricing function, the clock and the nonces, the chain's answers about locks, and
  for the ledger the outcome of each write. Where a
  property rests on the strength of a digest it says so, by a hypothesis on the texts at hand or by
  concluding that the hash does not tell two different lists apart (for approvals, two of the lists
  that are hashed for the operations at hand); its witness has an injective hash. Revisions stay below the bound \<open>2^53 - 1\<close> of a safe
  integer where the code increments them.

  \<^bold>\<open>Not modelled.\<close> User interface (src/app, src/components) and the browser storage and HTTP client
  around the deal record, chat, mail and backup features, the
  Privy wallet rail, adapters to remote services (near-intents, policy-client, privacy-adapters),
  the HTTP side of the relay and of the maker node, the Cairo contracts (another language), the
  localnet scripts, and the bundled downloads, which are generated from these sources. PROJECT.json
  lists each with the reason.
\<close>

end
